(* ===== verification/Kontor_Prelude.thy ===== *)
theory Kontor_Prelude
  imports Main "HOL-Library.Word" "HOL-Library.Multiset" "HOL-Library.List_Lexorder"
    "HOL-Library.Char_ord" "HOL-Library.Product_Lexorder"
begin

text \<open>
  Shared vocabulary of the development: the Rust scalar types and the arithmetic the sources use
  on them, the domain error type with fallible results as a sum, ordered sets as strictly sorted
  lists, and the generic lemmas on lists, options and words that the components share.

  \<^item> Entity identifiers are newtypes over a UUID and are compared and ordered only, so they are
    natural numbers; open keys, names and digests are byte strings.
  \<^item> Instants come from the \<open>jiff\<close> package.  The model orders them as integers; the elapsed
    time between two instants is an argument (\<open>since\<close>) of every definition that reads it.
  \<^item> A \<open>BTreeSet\<close> is the list of its elements in iteration order.
\<close>

section \<open>Scalar types\<close>

type_synonym u8 = "8 word"
type_synonym u32 = "32 word"
type_synonym u64 = "64 word"
type_synonym uuid = nat
type_synonym timestamp = int
type_synonym duration = int
type_synonym since = "timestamp \<Rightarrow> timestamp \<Rightarrow> duration"
type_synonym content_hash = string

section \<open>Proof collections\<close>

named_theorems enum_simps \<open>spellings of closed enums\<close>
named_theorems verdict_simps \<open>unfolding of the admission blockers\<close>
named_theorems step_simps \<open>unfolding of state-machine steps\<close>

section \<open>Domain errors and fallible results\<close>

datatype DomainError =
    Invalid string string
  | InvalidAt string string string
  | IllegalTransition string string string
  | Terminal string
  | RevisionConflict string u64 u64
  | MissingAuthority string string
  | MissingEvidence string string
  | RealmMismatch uuid uuid
  | SensitiveMaterial string

type_synonym 'a DomainResult = "DomainError + 'a"

text \<open>The \<open>?\<close> operator: an error leaves the function, a value continues.\<close>

definition try_bind :: "'e + 'a \<Rightarrow> ('a \<Rightarrow> 'e + 'b) \<Rightarrow> 'e + 'b" where
  "try_bind r k = (case r of Inl e \<Rightarrow> Inl e | Inr x \<Rightarrow> k x)"

lemma try_bind_simps [simp]:
  "try_bind (Inl e) k = Inl e"
  "try_bind (Inr x) k = k x"
  by (simp_all add: try_bind_def)

lemma try_bind_eq_Inr [simp]:
  "try_bind r k = Inr y \<longleftrightarrow> (\<exists>x. r = Inr x \<and> k x = Inr y)"
  by (cases r) auto

lemma try_bind_eq_Inl:
  "try_bind r k = Inl e \<longleftrightarrow> r = Inl e \<or> (\<exists>x. r = Inr x \<and> k x = Inl e)"
  by (cases r) auto

lemma try_bind_cong [fundef_cong]:
  "r = r' \<Longrightarrow> (\<And>x. r' = Inr x \<Longrightarrow> k x = k' x) \<Longrightarrow> try_bind r k = try_bind r' k'"
  by (cases r') auto

text \<open>A loop whose body may fail: the first failing element ends it.\<close>

fun try_each :: "('a \<Rightarrow> 'e + unit) \<Rightarrow> 'a list \<Rightarrow> 'e + unit" where
  "try_each f [] = Inr ()"
| "try_each f (x # xs) = try_bind (f x) (\<lambda>_. try_each f xs)"

lemma try_each_eq_Inr [simp]: "try_each f xs = Inr u \<longleftrightarrow> (\<forall>x \<in> set xs. f x = Inr ())"
  by (induction xs) auto

definition require :: "bool \<Rightarrow> DomainError \<Rightarrow> unit DomainResult" where
  "require ok err = (if ok then Inr () else Inl err)"

lemma require_Inr [simp]: "require ok err = Inr u \<longleftrightarrow> ok"
  by (simp add: require_def)

definition then_check :: "unit DomainResult \<Rightarrow> unit DomainResult \<Rightarrow> unit DomainResult" where
  "then_check a b = try_bind a (\<lambda>_. b)"

lemma then_check_Inr [simp]: "then_check a b = Inr u \<longleftrightarrow> a = Inr () \<and> b = Inr ()"
  by (auto simp: then_check_def)

text \<open>A sequence of checks is left at the first one that fails.\<close>

definition checks :: "unit DomainResult list \<Rightarrow> unit DomainResult" where
  "checks cs = foldr then_check cs (Inr ())"

lemma checks_simps [simp]:
  "checks [] = Inr ()"
  "checks (c # cs) = Inr u \<longleftrightarrow> c = Inr () \<and> checks cs = Inr ()"
  by (simp_all add: checks_def)

section \<open>Saturating and checked machine arithmetic\<close>

definition saturating_add :: "'a::len word \<Rightarrow> 'a word \<Rightarrow> 'a word" where
  "saturating_add a b = (if unat a + unat b < 2 ^ LENGTH('a) then a + b else - 1)"

definition saturating_sub :: "'a::len word \<Rightarrow> 'a word \<Rightarrow> 'a word" where
  "saturating_sub a b = (if b \<le> a then a - b else 0)"

definition checked_add :: "'a::len word \<Rightarrow> 'a word \<Rightarrow> 'a word option" where
  "checked_add a b = (if unat a + unat b < 2 ^ LENGTH('a) then Some (a + b) else None)"

definition clamp :: "'a::linorder \<Rightarrow> 'a \<Rightarrow> 'a \<Rightarrow> 'a" where
  "clamp x lo hi = (if x < lo then lo else if hi < x then hi else x)"

lemma unat_saturating_sub [simp]: "unat (saturating_sub a b) = unat a - unat b"
  by (auto simp: saturating_sub_def unat_sub word_le_nat_alt)

lemma unat_saturating_add:
  "unat (saturating_add (a::'a::len word) b) = min (unat a + unat b) (2 ^ LENGTH('a) - 1)"
proof (cases "unat a + unat b < 2 ^ LENGTH('a)")
  case True
  then show ?thesis by (simp add: saturating_add_def unat_word_ariths)
next
  case False
  then show ?thesis
    by (simp add: saturating_add_def unsigned_minus_1_eq_mask mask_eq_exp_minus_1)
qed

lemma saturating_sub_eq_0: "saturating_sub a b = 0 \<longleftrightarrow> a \<le> b"
  by (auto simp: saturating_sub_def)

lemma checked_add_Some:
  "checked_add (a::'a::len word) b = Some c \<Longrightarrow> unat c = unat a + unat b"
  by (auto simp: checked_add_def unat_word_ariths split: if_splits)

lemma clamp_in_band: "lo \<le> hi \<Longrightarrow> lo \<le> clamp x lo hi \<and> clamp x lo hi \<le> hi"
  by (auto simp: clamp_def)

lemma clamp_id: "lo \<le> x \<Longrightarrow> x \<le> hi \<Longrightarrow> clamp x lo hi = x"
  by (auto simp: clamp_def)

section \<open>Ordered sets and first matches\<close>

definition bt_insert :: "'a::linorder \<Rightarrow> 'a list \<Rightarrow> 'a list" where
  "bt_insert x xs = (if x \<in> set xs then xs else insort x xs)"

definition bt_ordered :: "'a::linorder list \<Rightarrow> bool" where
  "bt_ordered xs \<longleftrightarrow> sorted xs \<and> distinct xs"

lemma set_bt_insert [simp]: "set (bt_insert x xs) = insert x (set xs)"
  by (auto simp: bt_insert_def set_insort_key)

lemma bt_ordered_insert: "bt_ordered xs \<Longrightarrow> bt_ordered (bt_insert x xs)"
  by (auto simp: bt_insert_def bt_ordered_def sorted_insort distinct_insort)

lemma find_None_iff_ball: "find P xs = None \<longleftrightarrow> (\<forall>x \<in> set xs. \<not> P x)"
  by (auto simp: find_None_iff)

lemma find_SomeD: "find P xs = Some x \<Longrightarrow> x \<in> set xs \<and> P x"
  by (induction xs) (auto split: if_splits)

text \<open>The first answer of a chain of checks.\<close>

fun first_some :: "('a \<Rightarrow> 'b option) \<Rightarrow> 'a list \<Rightarrow> 'b option" where
  "first_some f [] = None"
| "first_some f (x # xs) = (case f x of Some y \<Rightarrow> Some y | None \<Rightarrow> first_some f xs)"

lemma first_some_None [simp]: "first_some f xs = None \<longleftrightarrow> (\<forall>x \<in> set xs. f x = None)"
  by (induction xs) (auto split: option.splits)

lemma first_some_hd:
  "first_some f xs = (case List.map_filter f xs of [] \<Rightarrow> None | y # _ \<Rightarrow> Some y)"
  by (induction xs) (auto simp: map_filter_simps split: option.splits)

section \<open>Sorting by an injective key\<close>

lemma sort_key_perm_unique:
  assumes "mset xs = mset ys" and "inj_on f (set xs)"
  shows "sort_key f xs = sort_key f ys"
  by (rule sort_key_inj_key_eq) (use assms in simp_all)

end
