(* ===== verification/Identity.thy ===== *)
theory Identity
  imports Kontor_Prelude "HOL-Library.Sublist"
begin

text \<open>
  \<^verbatim>\<open>crates/kontor-core/src/id.rs\<close> and the \<^verbatim>\<open>closed_enum!\<close> macro of
  \<^verbatim>\<open>crates/kontor-core/src/lib.rs\<close>: revisions, spec versions and cursors, the lexical rules of
  keys and names, the credential scan every persisted string passes, and module contention.
  Text is modelled as ASCII byte strings; Unicode letter and whitespace classes are outside the
  model.
\<close>

section \<open>Closed enums\<close>

text \<open>\<^verbatim>\<open>parse\<close> of a closed enum: the declared spelling, or a refusal.\<close>

definition enum_parse :: "string \<Rightarrow> 'a list \<Rightarrow> ('a \<Rightarrow> string) \<Rightarrow> string \<Rightarrow> 'a DomainResult" where
  "enum_parse subject all as_str txt =
     (case find (\<lambda>v. as_str v = txt) all of
        Some v \<Rightarrow> Inr v
      | None \<Rightarrow> Inl (Invalid subject ''is not a known value''))"

locale closed_enum =
  fixes subject :: string and all :: "'a list" and as_str :: "'a \<Rightarrow> string"
  assumes all_complete: "v \<in> set all"
    and spellings_distinct: "distinct (map as_str all)"
begin

lemma as_str_inj: "as_str v = as_str w \<Longrightarrow> v = w"
  using spellings_distinct all_complete by (auto simp: distinct_map dest: inj_onD)

lemma parse_as_str: "enum_parse subject all as_str (as_str v) = Inr v"
proof -
  obtain w where w: "find (\<lambda>u. as_str u = as_str v) all = Some w"
    using all_complete [of v] by (cases "find (\<lambda>u. as_str u = as_str v) all")
      (auto simp: find_None_iff_ball)
  then show ?thesis by (auto simp: enum_parse_def dest!: find_SomeD as_str_inj)
qed

lemma parse_eq_Inr: "enum_parse subject all as_str txt = Inr v \<longleftrightarrow> txt = as_str v"
proof
  assume "enum_parse subject all as_str txt = Inr v"
  then have "find (\<lambda>u. as_str u = txt) all = Some v"
    by (simp add: enum_parse_def split: option.splits)
  then show "txt = as_str v" by (auto dest: find_SomeD)
qed (simp add: parse_as_str)

lemma parse_unknown:
  "txt \<notin> as_str ` set all \<longleftrightarrow>
   enum_parse subject all as_str txt = Inl (Invalid subject ''is not a known value'')"
  by (auto simp: enum_parse_def find_None_iff_ball split: option.splits dest!: find_SomeD)

lemma parse_exact:
  "case enum_parse subject all as_str txt of
     Inr v \<Rightarrow> txt = as_str v
   | Inl e \<Rightarrow> e = Invalid subject ''is not a known value'' \<and> txt \<notin> range as_str"
proof (cases "enum_parse subject all as_str txt")
  case (Inl e)
  then have "txt \<notin> range as_str" using parse_as_str by auto
  moreover from this have "txt \<notin> as_str ` set all" by blast
  ultimately show ?thesis using Inl parse_unknown by simp
qed (simp add: parse_eq_Inr parse_as_str)

end

section \<open>Versions, revisions and cursors\<close>

definition SCHEMA_VERSION :: u32 where
  "SCHEMA_VERSION = 1"

definition SchemaVersion_parse :: "u32 \<Rightarrow> u32 DomainResult" where
  "SchemaVersion_parse v =
     (if v = 0 then Inl (Invalid ''SchemaVersion'' ''must be positive'')
      else if SCHEMA_VERSION < v
      then Inl (Invalid ''SchemaVersion'' ''is newer than this binary understands'')
      else Inr v)"

definition SpecVersion_FIRST :: u32 where
  "SpecVersion_FIRST = 1"

definition SpecVersion_parse :: "u32 \<Rightarrow> u32 DomainResult" where
  "SpecVersion_parse v =
     (if v = 0 then Inl (Invalid ''SpecVersion'' ''must be positive'') else Inr v)"

definition SpecVersion_next :: "u32 \<Rightarrow> u32 DomainResult" where
  "SpecVersion_next v =
     (case checked_add v 1 of Some n \<Rightarrow> Inr n | None \<Rightarrow> Inl (Invalid ''SpecVersion'' ''overflowed''))"

definition AggregateRevision_INITIAL :: u64 where
  "AggregateRevision_INITIAL = 1"

definition AggregateRevision_parse :: "u64 \<Rightarrow> u64 DomainResult" where
  "AggregateRevision_parse v =
     (if v = 0 then Inl (Invalid ''AggregateRevision'' ''must start at 1 and be positive'')
      else Inr v)"

definition AggregateRevision_next :: "u64 \<Rightarrow> u64 DomainResult" where
  "AggregateRevision_next v =
     (case checked_add v 1 of
        Some n \<Rightarrow> Inr n
      | None \<Rightarrow> Inl (Invalid ''AggregateRevision'' ''overflowed''))"

definition AggregateRevision_expect :: "u64 \<Rightarrow> string \<Rightarrow> u64 \<Rightarrow> unit DomainResult" where
  "AggregateRevision_expect self subject expected =
     (if self = expected then Inr () else Inl (RevisionConflict subject expected self))"

definition EventCursor_parse :: "int \<Rightarrow> int DomainResult" where
  "EventCursor_parse v =
     (if v \<le> 0 then Inl (Invalid ''EventCursor'' ''must be positive'') else Inr v)"

lemma AggregateRevision_next_Inr:
  "AggregateRevision_next v = Inr n \<Longrightarrow> unat n = Suc (unat v)"
  by (auto simp: AggregateRevision_next_def split: option.splits dest: checked_add_Some)

lemma AggregateRevision_next_neq: "AggregateRevision_next v = Inr n \<Longrightarrow> n \<noteq> v"
  using AggregateRevision_next_Inr by fastforce

lemma AggregateRevision_expect_Inr [simp]:
  "AggregateRevision_expect self subject expected = Inr u \<longleftrightarrow> self = expected"
  by (simp add: AggregateRevision_expect_def)

section \<open>Compare-and-swap aggregates\<close>

text \<open>
  A sequence of requests, each applied to the aggregate the previous one produced; the first
  refusal ends it.
\<close>

fun try_run :: "('s \<Rightarrow> 'r \<Rightarrow> 'e + 's) \<Rightarrow> 's \<Rightarrow> 'r list \<Rightarrow> 'e + 's" where
  "try_run step s [] = Inr s"
| "try_run step s (r # rs) = try_bind (step s r) (\<lambda>s'. try_run step s' rs)"

lemma try_run_append:
  "try_run step s (rs @ ts) = try_bind (try_run step s rs) (\<lambda>s'. try_run step s' ts)"
proof (induction rs arbitrary: s)
  case (Cons r rs)
  then show ?case by (cases "step s r") simp_all
qed simp

lemma try_run_invariant:
  assumes "\<And>s r s'. I s \<Longrightarrow> step s r = Inr s' \<Longrightarrow> I s'"
    and "I s" and "try_run step s rs = Inr t"
  shows "I t"
  using assms(2,3)
proof (induction rs arbitrary: s)
  case Nil
  then show ?case by simp
next
  case (Cons r rs)
  then obtain s' where "step s r = Inr s'" and run: "try_run step s' rs = Inr t" by auto
  with assms(1) Cons.prems(1) have "I s'" by blast
  from Cons.IH [OF this run] show ?case .
qed

locale revision_guarded =
  fixes revision_of :: "'s \<Rightarrow> u64" and expected :: "'r \<Rightarrow> u64"
    and step :: "'s \<Rightarrow> 'r \<Rightarrow> 'e + 's"
  assumes step_expected: "step s r = Inr s' \<Longrightarrow> revision_of s = expected r"
    and step_advances: "step s r = Inr s' \<Longrightarrow> unat (revision_of s') = Suc (unat (revision_of s))"
begin

lemma replay_refused:
  assumes "step s r = Inr s'"
  shows "step s' r \<noteq> Inr s''"
proof
  assume "step s' r = Inr s''"
  then have "revision_of s' = expected r" by (rule step_expected)
  with step_expected [OF assms] have "revision_of s' = revision_of s" by simp
  with step_advances [OF assms] show False by simp
qed

lemma run_revision:
  "try_run step s rs = Inr t \<Longrightarrow> unat (revision_of t) = unat (revision_of s) + length rs"
proof (induction rs arbitrary: s)
  case Nil
  then show ?case by simp
next
  case (Cons r rs)
  then obtain s' where s': "step s r = Inr s'" and run: "try_run step s' rs = Inr t" by auto
  from Cons.IH [OF run] step_advances [OF s'] show ?case by simp
qed

lemma run_expectations:
  "try_run step s rs = Inr t \<Longrightarrow> i < length rs \<Longrightarrow> unat (expected (rs ! i)) = unat (revision_of s) + i"
proof (induction rs arbitrary: s i)
  case Nil
  then show ?case by simp
next
  case (Cons r rs)
  then obtain s' where s': "step s r = Inr s'" and run: "try_run step s' rs = Inr t" by auto
  show ?case
  proof (cases i)
    case 0
    with step_expected [OF s'] show ?thesis by simp
  next
    case (Suc j)
    with Cons.prems have "j < length rs" by simp
    from Cons.IH [OF run this] step_advances [OF s'] Suc show ?thesis by simp
  qed
qed

lemma no_request_twice:
  assumes "try_run step s rs = Inr t"
  shows "distinct (map expected rs)"
proof (simp add: distinct_conv_nth, intro allI impI)
  fix i j assume ij: "i < length rs" "j < length rs" "i \<noteq> j"
  have "unat (expected (rs ! i)) \<noteq> unat (expected (rs ! j))"
    using run_expectations [OF assms ij(1)] run_expectations [OF assms ij(2)] ij(3) by simp
  then show "expected (rs ! i) \<noteq> expected (rs ! j)" by auto
qed

end

section \<open>Characters and text\<close>

definition ascii_lowercase :: "char \<Rightarrow> bool" where
  "ascii_lowercase c \<longleftrightarrow> CHR ''a'' \<le> c \<and> c \<le> CHR ''z''"

definition ascii_uppercase :: "char \<Rightarrow> bool" where
  "ascii_uppercase c \<longleftrightarrow> CHR ''A'' \<le> c \<and> c \<le> CHR ''Z''"

definition ascii_digit :: "char \<Rightarrow> bool" where
  "ascii_digit c \<longleftrightarrow> CHR ''0'' \<le> c \<and> c \<le> CHR ''9''"

definition alphanumeric :: "char \<Rightarrow> bool" where
  "alphanumeric c \<longleftrightarrow> ascii_lowercase c \<or> ascii_uppercase c \<or> ascii_digit c"

definition control_char :: "char \<Rightarrow> bool" where
  "control_char c \<longleftrightarrow> (let n = of_char c :: nat in n < 32 \<or> n = 127)"

definition whitespace :: "char \<Rightarrow> bool" where
  "whitespace c \<longleftrightarrow> (let n = of_char c :: nat in n = 32 \<or> 9 \<le> n \<and> n \<le> 13)"

definition to_lower_char :: "char \<Rightarrow> char" where
  "to_lower_char c = (if ascii_uppercase c then char_of (of_char c + 32 :: nat) else c)"

definition to_lowercase :: "string \<Rightarrow> string" where
  "to_lowercase s = map to_lower_char s"

definition trim_text :: "string \<Rightarrow> string" where
  "trim_text s = rev (dropWhile whitespace (rev (dropWhile whitespace s)))"

fun split_char :: "char \<Rightarrow> string \<Rightarrow> string list" where
  "split_char d [] = [[]]"
| "split_char d (c # cs) =
     (if c = d then [] # split_char d cs
      else case split_char d cs of [] \<Rightarrow> [[c]] | y # ys \<Rightarrow> (c # y) # ys)"

function split_text :: "string \<Rightarrow> string \<Rightarrow> string list" where
  "split_text d [] = [[]]"
| "split_text d (c # cs) =
     (if d \<noteq> [] \<and> prefix d (c # cs) then [] # split_text d (drop (length d) (c # cs))
      else case split_text d cs of [] \<Rightarrow> [[c]] | y # ys \<Rightarrow> (c # y) # ys)"
  by pat_completeness auto
termination
  by (relation "measure (\<lambda>(d, s). length s)") (auto simp: neq_Nil_conv)

fun contains_text :: "string \<Rightarrow> string \<Rightarrow> bool" where
  "contains_text [] p = (p = [])"
| "contains_text (c # cs) p = (prefix p (c # cs) \<or> contains_text cs p)"

section \<open>The credential scan\<close>

definition SECRET_MARKERS :: "(string \<times> nat) list" where
  "SECRET_MARKERS =
     [(''-----begin'', 0), (''private key'', 0), (''private-key'', 0),
      (''bearer '', 20), (''bearer-'', 20), (''bearer_'', 20), (''bearer:'', 20),
      (''basic '', 20), (''basic-'', 20), (''ghp_'', 20), (''gho_'', 20),
      (''github_pat_'', 20), (''glpat-'', 16), (''xoxb-'', 16), (''xoxp-'', 16),
      (''sk-'', 24), (''sk_live_'', 16), (''akia'', 16), (''asia'', 16), (''aiza'', 20),
      (''kontor-seat-v1.'', 40), (''kontor-seat-v2.'', 40)]"

definition SECRET_ASSIGNMENTS :: "string list" where
  "SECRET_ASSIGNMENTS =
     [''password='', ''passwd='', ''pwd='', ''api_key='', ''apikey='', ''secret='',
      ''client_secret='', ''access_token='', ''refresh_token='', ''token='', ''authorization:'']"

text \<open>The non-overlapping matches of a marker, left to right, each judged at its boundary.\<close>

function has_marker_from :: "char option \<Rightarrow> string \<Rightarrow> string \<Rightarrow> nat \<Rightarrow> bool" where
  "has_marker_from prev [] m k = False"
| "has_marker_from prev (c # cs) m k =
     (if m \<noteq> [] \<and> prefix m (c # cs)
      then ((case prev of None \<Rightarrow> True | Some p \<Rightarrow> \<not> alphanumeric p)
              \<and> k \<le> length (c # cs) - length m)
           \<or> has_marker_from (Some (last m)) (drop (length m) (c # cs)) m k
      else has_marker_from (Some c) cs m k)"
  by pat_completeness auto
termination
  by (relation "measure (\<lambda>(p, s, m, k). length s)") (auto simp: neq_Nil_conv)

definition has_marker :: "string \<Rightarrow> string \<Rightarrow> nat \<Rightarrow> bool" where
  "has_marker lowered marker min_tail = has_marker_from None lowered marker min_tail"

definition has_url_credentials :: "string \<Rightarrow> bool" where
  "has_url_credentials lowered \<longleftrightarrow>
     list_ex (\<lambda>part. CHR ''@'' \<in> set (takeWhile
        (\<lambda>c. c \<notin> set [CHR ''/'', CHR ''?'', CHR ''#'', CHR '' '', CHR 0x0A, CHR 0x0D, CHR 0x09])
        part))
       (tl (split_text ''://'' lowered))"

definition reject_sensitive_text :: "string \<Rightarrow> string \<Rightarrow> unit DomainResult" where
  "reject_sensitive_text path txt =
     (if txt = [] then Inr ()
      else let lowered = to_lowercase txt in
        if list_ex (\<lambda>(marker, min_tail). has_marker lowered marker min_tail) SECRET_MARKERS
           \<or> list_ex (contains_text lowered) SECRET_ASSIGNMENTS
           \<or> has_url_credentials lowered
        then Inl (SensitiveMaterial path) else Inr ())"

section \<open>Lexical rules of keys and names\<close>

definition MAX_KEY_LEN :: nat where "MAX_KEY_LEN = 128"
definition MAX_EXTERNAL_NAME_LEN :: nat where "MAX_EXTERNAL_NAME_LEN = 512"
definition MAX_EXTERNAL_ID_LEN :: nat where "MAX_EXTERNAL_ID_LEN = 256"

definition key_char :: "char \<Rightarrow> bool" where
  "key_char c \<longleftrightarrow> ascii_lowercase c \<or> ascii_digit c \<or> c \<in> {CHR ''.'', CHR ''_'', CHR ''-''}"

definition validate_open_key :: "string \<Rightarrow> string \<Rightarrow> unit DomainResult" where
  "validate_open_key subject txt =
     (case txt of
        [] \<Rightarrow> Inl (Invalid subject ''must not be empty'')
      | first # rest \<Rightarrow>
          if length txt > MAX_KEY_LEN then Inl (Invalid subject ''longer than 128 characters'')
          else if \<not> ascii_lowercase first \<and> \<not> ascii_digit first
          then Inl (Invalid subject ''must start with a lowercase ASCII letter or digit'')
          else if \<not> list_all key_char rest
          then Inl (Invalid subject
            (''may contain only lowercase ASCII letters, digits, '.', '_' and '-'' @ [CHR 0x27]))
          else reject_sensitive_text subject txt)"

definition validate_module_segment :: "string \<Rightarrow> string \<Rightarrow> unit DomainResult" where
  "validate_module_segment subject segment =
     (case segment of
        [] \<Rightarrow> Inl (Invalid subject ''must be a relative path with no empty segment'')
      | first # rest \<Rightarrow>
          if \<not> ascii_lowercase first \<and> \<not> ascii_digit first \<and> first \<noteq> CHR ''_''
          then Inl (Invalid subject
            (''every path segment must start with a lowercase ASCII letter, digit or '_'' @ [CHR 0x27]))
          else if \<not> list_all key_char rest
          then Inl (Invalid subject
            ''may contain only lowercase ASCII letters, digits, '.', '_', '-' and '/' between path segments'')
          else Inr ())"

definition validate_module_key :: "string \<Rightarrow> string \<Rightarrow> unit DomainResult" where
  "validate_module_key subject txt =
     (if txt = [] then Inl (Invalid subject ''must not be empty'')
      else if length txt > MAX_KEY_LEN then Inl (Invalid subject ''longer than 128 characters'')
      else try_bind (try_each (validate_module_segment subject) (split_char (CHR ''/'') txt))
             (\<lambda>_. reject_sensitive_text subject txt))"

definition ExternalName_parse :: "string \<Rightarrow> string DomainResult" where
  "ExternalName_parse txt =
     (if txt = [] \<or> trim_text txt \<noteq> txt
      then Inl (Invalid ''ExternalName''
        ''must be non-empty and free of leading or trailing whitespace'')
      else if length txt > MAX_EXTERNAL_NAME_LEN
      then Inl (Invalid ''ExternalName'' ''longer than 512 characters'')
      else if list_ex control_char txt
      then Inl (Invalid ''ExternalName'' ''must not contain control characters'')
      else try_bind (reject_sensitive_text ''ExternalName'' txt) (\<lambda>_. Inr txt))"

definition ExternalId_parse :: "string \<Rightarrow> string DomainResult" where
  "ExternalId_parse txt =
     (if txt = [] then Inl (Invalid ''ExternalId'' ''must not be empty'')
      else if length txt > MAX_EXTERNAL_ID_LEN
      then Inl (Invalid ''ExternalId'' ''longer than 256 characters'')
      else if list_ex whitespace txt
      then Inl (Invalid ''ExternalId'' ''must not contain whitespace'')
      else if list_ex control_char txt
      then Inl (Invalid ''ExternalId'' ''must not contain control characters'')
      else try_bind (reject_sensitive_text ''ExternalId'' txt) (\<lambda>_. Inr txt))"

section \<open>Module contention\<close>

definition contention_identity :: "string \<Rightarrow> string" where
  "contention_identity key = map (\<lambda>c. if c = CHR ''/'' then CHR ''.'' else c) key"

definition contends_with :: "string \<Rightarrow> string \<Rightarrow> bool" where
  "contends_with a b \<longleftrightarrow> contention_identity a = contention_identity b"

lemma contends_with_refl [simp]: "contends_with a a"
  by (simp add: contends_with_def)

lemma contends_with_sym: "contends_with a b \<longleftrightarrow> contends_with b a"
  by (auto simp: contends_with_def)

lemma contends_with_trans: "contends_with a b \<Longrightarrow> contends_with b c \<Longrightarrow> contends_with a c"
  by (simp add: contends_with_def)

end
