(* ===== verification/Phase_Graph.thy ===== *)
theory Phase_Graph
  imports Identity "HOL-Library.AList"
begin

text \<open>
  \<^verbatim>\<open>PhaseGraph\<close> of \<^verbatim>\<open>crates/kontor-core/src/spec.rs\<close>: the adjacency view of a work profile's
  phases, the depth-first searches over it and Kahn's cycle check.  A \<open>BTreeMap\<close> is the
  association list of its entries in key order, a \<open>Vec\<close> used as a stack is a list whose head is its
  top.  The searches terminate because a phase is expanded once; the cycle check because every push
  pays one unit of in-degree.  The lemmas show that the searches compute reachability and that the
  cycle check accepts exactly the acyclic graphs.
\<close>

type_synonym PhaseKey = string
type_synonym adjacency = "(PhaseKey \<times> PhaseKey list) list"

section \<open>Adjacency\<close>

record PhaseEdge =
  pe_from :: PhaseKey
  pe_to :: PhaseKey
  pe_handoff_role :: "string option"

record PhaseGraph =
  g_order :: "PhaseKey list"
  g_successors :: adjacency
  g_predecessors :: adjacency

definition empty_adjacency :: "PhaseKey list \<Rightarrow> adjacency" where
  "empty_adjacency order = map (\<lambda>p. (p, [])) (sort (remdups order))"

definition adj :: "adjacency \<Rightarrow> PhaseKey \<Rightarrow> PhaseKey list" where
  "adj m p = (case map_of m p of None \<Rightarrow> [] | Some s \<Rightarrow> s)"

definition adj_insert :: "PhaseKey \<Rightarrow> PhaseKey \<Rightarrow> adjacency \<Rightarrow> adjacency" where
  "adj_insert k x m = (case map_of m k of None \<Rightarrow> m | Some s \<Rightarrow> AList.update k (bt_insert x s) m)"

fun add_edges ::
  "PhaseKey list \<Rightarrow> PhaseEdge list \<Rightarrow> adjacency \<times> adjacency \<Rightarrow> (adjacency \<times> adjacency) DomainResult"
where
  "add_edges known [] sp = Inr sp"
| "add_edges known (e # es) (su, pr) =
     (if pe_from e \<notin> set known \<or> pe_to e \<notin> set known
      then Inl (Invalid ''WorkProfileSpec'' ''an edge references an undeclared phase'')
      else if pe_from e = pe_to e
      then Inl (Invalid ''WorkProfileSpec'' ''an edge connects a phase to itself'')
      else if pe_to e \<in> set (adj su (pe_from e))
      then Inl (Invalid ''WorkProfileSpec'' ''declares a duplicate edge'')
      else add_edges known es
             (adj_insert (pe_from e) (pe_to e) su, adj_insert (pe_to e) (pe_from e) pr))"

definition PhaseGraph_build :: "PhaseKey list \<Rightarrow> PhaseEdge list \<Rightarrow> PhaseGraph DomainResult" where
  "PhaseGraph_build order edges =
     try_bind (add_edges order edges (empty_adjacency order, empty_adjacency order))
       (\<lambda>(su, pr). Inr \<lparr>g_order = order, g_successors = su, g_predecessors = pr\<rparr>)"

definition graph_contains :: "PhaseGraph \<Rightarrow> PhaseKey \<Rightarrow> bool" where
  "graph_contains g p \<longleftrightarrow> map_of (g_successors g) p \<noteq> None"

section \<open>Depth-first search\<close>

function search :: "adjacency \<Rightarrow> PhaseKey list \<Rightarrow> PhaseKey list \<Rightarrow> PhaseKey list" where
  "search m [] seen = seen"
| "search m (p # stack) seen =
     (if p \<in> set seen then search m stack seen
      else search m (rev (adj m p) @ stack) (bt_insert p seen))"
  by pat_completeness auto

termination
proof (relation "measures [\<lambda>(m, stack, seen). card (fst ` set m - set seen), \<lambda>(m, stack, seen). length stack]")
  fix m :: adjacency and p :: PhaseKey and stack seen :: "PhaseKey list"
  assume new: "p \<notin> set seen"
  show "((m, rev (adj m p) @ stack, bt_insert p seen), m, p # stack, seen)
    \<in> measures [\<lambda>(m, stack, seen). card (fst ` set m - set seen), \<lambda>(m, stack, seen). length stack]"
  proof (cases "p \<in> fst ` set m")
    case True
    with new have "fst ` set m - insert p (set seen) \<subset> fst ` set m - set seen" by blast
    then have "card (fst ` set m - insert p (set seen)) < card (fst ` set m - set seen)"
      by (rule psubset_card_mono [rotated]) simp
    then show ?thesis by simp
  next
    case False
    then have "map_of m p = None" by (simp add: map_of_eq_None_iff)
    then have "adj m p = []" by (simp add: adj_def)
    moreover from False have "fst ` set m - insert p (set seen) = fst ` set m - set seen" by blast
    ultimately show ?thesis by simp
  qed
qed auto

definition reachable_from :: "PhaseGraph \<Rightarrow> PhaseKey \<Rightarrow> PhaseKey list" where
  "reachable_from g start = search (g_successors g) [start] []"

definition co_reachable_from :: "PhaseGraph \<Rightarrow> PhaseKey list \<Rightarrow> PhaseKey list" where
  "co_reachable_from g terminals = search (g_predecessors g) (rev (sort (remdups terminals))) []"

definition ancestors_of :: "PhaseGraph \<Rightarrow> PhaseKey \<Rightarrow> PhaseKey list" where
  "ancestors_of g p = search (g_predecessors g) (rev (adj (g_predecessors g) p)) []"

section \<open>Kahn's algorithm\<close>

text \<open>
  \<open>release\<close> is the inner loop over the successors of a popped phase.  It returns \<open>None\<close> where the
  in-degree would be decremented below zero, which panics in the code.
\<close>

fun release ::
  "PhaseKey list \<Rightarrow> PhaseKey list \<Rightarrow> (PhaseKey \<times> nat) list \<Rightarrow>
   (PhaseKey list \<times> (PhaseKey \<times> nat) list) option" where
  "release [] queue deg = Some (queue, deg)"
| "release (s # ss) queue deg =
     (case map_of deg s of
        None \<Rightarrow> release ss queue deg
      | Some 0 \<Rightarrow> None
      | Some (Suc n) \<Rightarrow>
          release ss (if n = 0 then s # queue else queue) (AList.update s n deg))"

definition total_degree :: "(PhaseKey \<times> nat) list \<Rightarrow> nat" where
  "total_degree deg = sum_list (map snd deg)"

lemma total_degree_update:
  "map_of deg s = Some (Suc n) \<Longrightarrow> Suc (total_degree (AList.update s n deg)) = total_degree deg"
  by (induction deg) (auto simp: total_degree_def split: if_splits)

lemma release_pays:
  "release ss queue deg = Some (queue', deg') \<Longrightarrow>
   length queue' + total_degree deg' \<le> length queue + total_degree deg"
proof (induction ss queue deg rule: release.induct)
  case (2 s ss queue deg)
  show ?case
  proof (cases "map_of deg s")
    case (Some k)
    with 2 obtain n where n: "k = Suc n" by (cases k) auto
    have "release ss (if n = 0 then s # queue else queue) (AList.update s n deg) = Some (queue', deg')"
      using 2(3) Some n by simp
    from 2(2) [OF Some n this] total_degree_update [OF Some [unfolded n]] show ?thesis
      by (simp split: if_splits)
  qed (use 2 in auto)
qed simp

function kahn ::
  "adjacency \<Rightarrow> PhaseKey list \<Rightarrow> (PhaseKey \<times> nat) list \<Rightarrow> nat \<Rightarrow> nat option" where
  "kahn su [] deg visited = Some visited"
| "kahn su (p # queue) deg visited =
     (case release (adj su p) queue deg of
        None \<Rightarrow> None
      | Some (queue', deg') \<Rightarrow> kahn su queue' deg' (Suc visited))"
  by pat_completeness auto

termination
  by (relation "measure (\<lambda>(su, queue, deg, visited). length queue + total_degree deg)")
    (auto dest: release_pays)

definition initial_degrees :: "PhaseGraph \<Rightarrow> (PhaseKey \<times> nat) list" where
  "initial_degrees g =
     map (\<lambda>p. (p, length (adj (g_predecessors g) p))) (sort (remdups (g_order g)))"

definition kahn_visited :: "PhaseGraph \<Rightarrow> nat option" where
  "kahn_visited g =
     (let deg = initial_degrees g
      in kahn (g_successors g) (rev (map fst (filter (\<lambda>(p, n). n = 0) deg))) deg 0)"

definition reject_cycles :: "PhaseGraph \<Rightarrow> unit DomainResult" where
  "reject_cycles g =
     (case kahn_visited g of
        None \<Rightarrow> Inl (Invalid ''panic'' ''attempt to subtract with overflow'')
      | Some visited \<Rightarrow>
          if visited = length (g_order g) then Inr ()
          else Inl (Invalid ''WorkProfileSpec'' ''the forward phase graph contains a cycle''))"

definition ensure_strict_ancestor ::
  "PhaseGraph \<Rightarrow> PhaseKey \<Rightarrow> PhaseKey \<Rightarrow> string \<Rightarrow> unit DomainResult" where
  "ensure_strict_ancestor g target phase subject =
     (if \<not> graph_contains g target
      then Inl (Invalid ''WorkProfileSpec'' ''a rejection route references an undeclared phase'')
      else if target = phase
      then Inl (Invalid subject ''a rejection route must not target its own phase'')
      else if target \<notin> set (ancestors_of g phase)
      then Inl (Invalid subject ''a rejection route must target a strict ancestor'')
      else Inr ())"

section \<open>The searches compute reachability\<close>

definition edge_rel :: "adjacency \<Rightarrow> (PhaseKey \<times> PhaseKey) set" where
  "edge_rel m = {(a, b). b \<in> set (adj m a)}"

lemma search_covers:
  "set seen \<union> set stack \<subseteq> set (search m stack seen)"
  by (induction m stack seen rule: search.induct) auto

lemma search_closed:
  "(\<And>a b. a \<in> set seen \<Longrightarrow> (a, b) \<in> edge_rel m \<Longrightarrow> b \<in> set seen \<union> set stack) \<Longrightarrow>
   a \<in> set (search m stack seen) \<Longrightarrow> (a, b) \<in> edge_rel m \<Longrightarrow> b \<in> set (search m stack seen)"
proof (induction m stack seen rule: search.induct)
  case (2 m p stack seen)
  show ?case
  proof (cases "p \<in> set seen")
    case True
    have *: "b \<in> set seen \<union> set stack" if "a \<in> set seen" "(a, b) \<in> edge_rel m" for a b
      using 2(3) [OF that] True by auto
    from 2(1) [OF True *] 2(4,5) True show ?thesis by simp
  next
    case False
    have *: "b \<in> set (bt_insert p seen) \<union> set (rev (adj m p) @ stack)"
      if "a \<in> set (bt_insert p seen)" "(a, b) \<in> edge_rel m" for a b
      using that 2(3) [of a b] by (auto simp: edge_rel_def)
    from 2(2) [OF False *] 2(4,5) False show ?thesis by simp
  qed
qed auto

lemma search_sound:
  "set (search m stack seen) \<subseteq> set seen \<union> (edge_rel m)\<^sup>* `` set stack"
proof (induction m stack seen rule: search.induct)
  case (2 m p stack seen)
  have step: "(edge_rel m)\<^sup>* `` set (adj m p) \<subseteq> (edge_rel m)\<^sup>* `` {p}"
    by (auto simp: edge_rel_def intro: converse_rtrancl_into_rtrancl)
  show ?case
  proof (cases "p \<in> set seen")
    case False
    with 2(2) step show ?thesis by (auto simp: Image_Un)
  qed (use 2(1) in auto)
qed simp

lemma search_reachable: "set (search m stack []) = (edge_rel m)\<^sup>* `` set stack"
proof
  show "set (search m stack []) \<subseteq> (edge_rel m)\<^sup>* `` set stack" using search_sound [of m stack "[]"] by simp
next
  have "y \<in> set (search m stack [])" if "(x, y) \<in> (edge_rel m)\<^sup>*" "x \<in> set stack" for x y
    using that(1)
  proof (induction rule: rtrancl_induct)
    case base
    then show ?case using search_covers [of "[]" stack m] that(2) by auto
  next
    case (step y z)
    show ?case by (rule search_closed [OF _ step(3,2)]) simp
  qed
  then show "(edge_rel m)\<^sup>* `` set stack \<subseteq> set (search m stack [])" by blast
qed

lemma search_distinct: "distinct seen \<Longrightarrow> distinct (search m stack seen)"
  by (induction m stack seen rule: search.induct) (auto simp: bt_insert_def distinct_insort)

section \<open>Kahn's algorithm accepts exactly the acyclic graphs\<close>

text \<open>The inner loop in closed form, where no in-degree underflows.\<close>

lemma release_closed_form:
  assumes "distinct ss" and "distinct (map fst deg)"
    and "\<forall>s \<in> set ss. \<exists>n. map_of deg s = Some (Suc n)"
  shows "\<exists>deg'. release ss queue deg = Some (rev (filter (\<lambda>s. map_of deg s = Some 1) ss) @ queue, deg')
      \<and> distinct (map fst deg')
      \<and> map_of deg' = (\<lambda>x. if x \<in> set ss then map_option (\<lambda>n. n - 1) (map_of deg x) else map_of deg x)"
  using assms
proof (induction ss arbitrary: queue deg)
  case (Cons s ss)
  then obtain n where n: "map_of deg s = Some (Suc n)" by auto
  let ?deg = "AList.update s n deg"
  have upd: "map_of ?deg = (map_of deg)(s \<mapsto> n)" by (simp add: update_conv')
  from Cons.prems have "distinct (map fst ?deg)" by (simp add: distinct_update)
  moreover have "\<forall>x \<in> set ss. \<exists>k. map_of ?deg x = Some (Suc k)"
    using Cons.prems upd by (metis distinct.simps(2) fun_upd_other list.set_intros(2))
  ultimately obtain deg' where
    r: "release ss (if n = 0 then s # queue else queue) ?deg
        = Some (rev (filter (\<lambda>x. map_of ?deg x = Some 1) ss) @ (if n = 0 then s # queue else queue), deg')"
    and d: "distinct (map fst deg')"
    and m: "map_of deg' = (\<lambda>x. if x \<in> set ss then map_option (\<lambda>n. n - 1) (map_of ?deg x) else map_of ?deg x)"
    using Cons.IH [of ?deg "if n = 0 then s # queue else queue"] Cons.prems(1) by fastforce
  have "filter (\<lambda>x. map_of ?deg x = Some 1) ss = filter (\<lambda>x. map_of deg x = Some 1) ss"
    using Cons.prems(1) upd by (intro filter_cong) auto
  moreover have "map_of deg' = (\<lambda>x. if x \<in> set (s # ss) then map_option (\<lambda>n. n - 1) (map_of deg x) else map_of deg x)"
    using Cons.prems(1) m upd n by (auto simp: fun_eq_iff)
  ultimately show ?case using r d n by auto
qed auto

text \<open>
  The loop invariant over the phases \<open>D\<close> already visited: every in-degree counts the predecessors
  still unvisited, the queue holds exactly the unvisited phases without one, and everything that
  leads into \<open>D\<close> is in \<open>D\<close>.
\<close>

definition kahn_inv ::
  "PhaseKey set \<Rightarrow> (PhaseKey \<times> PhaseKey) set \<Rightarrow> PhaseKey set \<Rightarrow> PhaseKey list \<Rightarrow>
   (PhaseKey \<times> nat) list \<Rightarrow> bool" where
  "kahn_inv K E D queue deg \<longleftrightarrow>
     D \<subseteq> K \<and> distinct queue \<and> set queue = {p \<in> K - D. E\<inverse> `` {p} \<subseteq> D}
     \<and> distinct (map fst deg)
     \<and> (\<forall>p \<in> K. map_of deg p = Some (card (E\<inverse> `` {p} - D)))
     \<and> E\<inverse> `` D \<subseteq> D \<and> acyclic (E \<inter> D \<times> D)"

lemma acyclic_extend:
  assumes "acyclic (E \<inter> D \<times> D)" and "E\<inverse> `` {p} \<subseteq> D" and "E\<inverse> `` D \<subseteq> D" and "p \<notin> D"
  shows "acyclic (E \<inter> insert p D \<times> insert p D)"
proof -
  let ?R = "E \<inter> insert p D \<times> insert p D"
  have no_out: "(p, b) \<notin> ?R" for b using assms(2-4) by auto
  have inside: "(a, b) \<in> ?R\<^sup>+ \<Longrightarrow> b \<in> D \<Longrightarrow> (a, b) \<in> (E \<inter> D \<times> D)\<^sup>+" for a b
  proof (induction rule: trancl_induct)
    case (base y)
    then show ?case using assms(3,4) no_out by blast
  next
    case (step y z)
    then have "y \<in> D" using no_out [of z] by auto
    moreover have "(y, z) \<in> E \<inter> D \<times> D" using step.hyps step.prems \<open>y \<in> D\<close> by auto
    ultimately show ?case using step.IH by (meson trancl.trancl_into_trancl)
  qed
  show ?thesis unfolding acyclic_def
  proof
    fix x show "(x, x) \<notin> ?R\<^sup>+"
    proof
      assume c: "(x, x) \<in> ?R\<^sup>+"
      then have "x \<in> insert p D" by (meson IntD2 SigmaE tranclE insert_iff mem_Sigma_iff)
      moreover have "x \<noteq> p" using c no_out by (metis tranclD)
      ultimately have "(x, x) \<in> (E \<inter> D \<times> D)\<^sup>+" using inside c by blast
      with assms(1) show False by (simp add: acyclic_def)
    qed
  qed
qed

lemma kahn_step:
  assumes inv: "kahn_inv K E D (p # queue) deg" and fin: "finite K" and EK: "E \<subseteq> K \<times> K"
    and su: "set (adj su p) = E `` {p}" "distinct (adj su p)"
  shows "\<exists>queue' deg'. release (adj su p) queue deg = Some (queue', deg')
      \<and> kahn_inv K E (insert p D) queue' deg' \<and> p \<notin> D"
proof -
  have p: "p \<in> K" "p \<notin> D" "E\<inverse> `` {p} \<subseteq> D" and dq: "distinct (p # queue)"
    and q: "set (p # queue) = {p \<in> K - D. E\<inverse> `` {p} \<subseteq> D}"
    and dd: "distinct (map fst deg)"
    and deg: "\<And>x. x \<in> K \<Longrightarrow> map_of deg x = Some (card (E\<inverse> `` {x} - D))"
    and clo: "E\<inverse> `` D \<subseteq> D" and acy: "acyclic (E \<inter> D \<times> D)" and DK: "D \<subseteq> K"
    using inv by (auto simp: kahn_inv_def)
  have finp: "finite (E\<inverse> `` {x})" for x using fin EK by (meson ImageE converseD finite_subset mem_Sigma_iff subset_iff)
  have sK: "x \<in> K" if "x \<in> set (adj su p)" for x using that su(1) EK by auto
  have drop: "E\<inverse> `` {x} - insert p D = E\<inverse> `` {x} - D - {p}" for x by auto
  have cnt: "card (E\<inverse> `` {x} - insert p D) =
      (if x \<in> set (adj su p) then card (E\<inverse> `` {x} - D) - 1 else card (E\<inverse> `` {x} - D))" for x
    using finp [of x] p(2) su(1) by (auto simp: drop card_Diff_singleton_if)
  have pos: "card (E\<inverse> `` {x} - D) \<noteq> 0" if "x \<in> set (adj su p)" for x
    using that finp [of x] p(2) su(1) by auto
  have "\<forall>s \<in> set (adj su p). \<exists>n. map_of deg s = Some (Suc n)"
  proof
    fix s assume s: "s \<in> set (adj su p)"
    from deg [OF sK [OF s]] pos [OF s] show "\<exists>n. map_of deg s = Some (Suc n)"
      by (metis not0_implies_Suc)
  qed
  from release_closed_form [OF su(2) dd this, of queue] obtain deg' where
    rel: "release (adj su p) queue deg
      = Some (rev (filter (\<lambda>s. map_of deg s = Some 1) (adj su p)) @ queue, deg')"
    and dd': "distinct (map fst deg')"
    and m': "map_of deg' = (\<lambda>x. if x \<in> set (adj su p) then map_option (\<lambda>n. n - 1) (map_of deg x)
                               else map_of deg x)"
    by blast
  let ?new = "filter (\<lambda>s. map_of deg s = Some 1) (adj su p)"
  have deg': "map_of deg' x = Some (card (E\<inverse> `` {x} - insert p D))" if "x \<in> K" for x
    using deg [OF that] by (simp add: m' cnt)
  have new: "x \<in> set ?new \<longleftrightarrow> x \<in> set (adj su p) \<and> E\<inverse> `` {x} \<subseteq> insert p D" for x
  proof (cases "x \<in> set (adj su p)")
    case True
    then have "x \<in> set ?new \<longleftrightarrow> card (E\<inverse> `` {x} - D) = 1" using deg [OF sK [OF True]] by simp
    also have "\<dots> \<longleftrightarrow> card (E\<inverse> `` {x} - insert p D) = 0" using cnt [of x] pos [OF True] True by auto
    also have "\<dots> \<longleftrightarrow> E\<inverse> `` {x} \<subseteq> insert p D" using finp [of x] by auto
    finally show ?thesis using True by simp
  qed simp
  have succ_out: "x \<notin> D" if "x \<in> set (adj su p)" for x using that su(1) clo p(2) by auto
  have self: "p \<notin> set (adj su p)" using su(1) p(2,3) by auto
  have qset: "set (rev ?new @ queue) = {x \<in> K - insert p D. E\<inverse> `` {x} \<subseteq> insert p D}"
  proof (intro set_eqI iffI)
    fix x assume "x \<in> set (rev ?new @ queue)"
    then consider "x \<in> set ?new" | "x \<in> set queue" by auto
    then show "x \<in> {x \<in> K - insert p D. E\<inverse> `` {x} \<subseteq> insert p D}"
    proof cases
      case 1
      then show ?thesis using new [of x] sK succ_out self by auto
    next
      case 2
      then have "x \<in> {p \<in> K - D. E\<inverse> `` {p} \<subseteq> D}" "x \<noteq> p" using q dq by auto
      then show ?thesis by auto
    qed
  next
    fix x assume x: "x \<in> {x \<in> K - insert p D. E\<inverse> `` {x} \<subseteq> insert p D}"
    show "x \<in> set (rev ?new @ queue)"
    proof (cases "x \<in> set (adj su p)")
      case True
      with x new show ?thesis by auto
    next
      case False
      then have "p \<notin> E\<inverse> `` {x}" using su(1) by auto
      with x have "x \<in> set (p # queue)" unfolding q by auto
      with x show ?thesis by auto
    qed
  qed
  have "set ?new \<inter> set queue = {}"
  proof -
    have "x \<notin> set queue" if "x \<in> set ?new" for x
    proof
      assume "x \<in> set queue"
      then have "E\<inverse> `` {x} \<subseteq> D" using q by auto
      moreover have "p \<in> E\<inverse> `` {x}" using that su(1) by auto
      ultimately show False using p(2) by auto
    qed
    then show ?thesis by auto
  qed
  then have "distinct (rev ?new @ queue)" using su(2) dq by auto
  moreover have "E\<inverse> `` insert p D \<subseteq> insert p D" using clo p(3) by auto
  moreover have "acyclic (E \<inter> insert p D \<times> insert p D)" by (rule acyclic_extend [OF acy p(3) clo p(2)])
  ultimately have "kahn_inv K E (insert p D) (rev ?new @ queue) deg'"
    using DK p(1) qset dd' deg' by (auto simp: kahn_inv_def)
  with rel p(2) show ?thesis by auto
qed

lemma kahn_end:
  assumes "kahn_inv K E D [] deg" and "finite K" and "E \<subseteq> K \<times> K"
  shows "D = K \<longleftrightarrow> acyclic E"
proof
  assume "D = K"
  with assms show "acyclic E" by (auto simp: kahn_inv_def inf_absorb1)
next
  assume acy: "acyclic E"
  have "finite E" using assms(2,3) by (meson finite_SigmaI finite_subset)
  with acy have wf: "wf E" by (rule finite_acyclic_wf [rotated])
  show "D = K"
  proof (rule ccontr)
    assume "D \<noteq> K"
    then obtain x where "x \<in> K - D" using assms(1) by (auto simp: kahn_inv_def)
    then obtain z where z: "z \<in> K - D" and min: "\<And>y. (y, z) \<in> E \<Longrightarrow> y \<notin> K - D"
      using wfE_min [OF wf] by metis
    then have "E\<inverse> `` {z} \<subseteq> D" using assms(3) by auto
    with z assms(1) show False by (auto simp: kahn_inv_def)
  qed
qed

lemma kahn_correct:
  assumes "finite K" and "E \<subseteq> K \<times> K"
  shows "(\<forall>p \<in> K. set (adj su p) = E `` {p} \<and> distinct (adj su p)) \<Longrightarrow> kahn_inv K E D queue deg \<Longrightarrow>
    \<exists>v. kahn su queue deg (card D) = Some v \<and> (v = card K \<longleftrightarrow> acyclic E)"
proof (induction su queue deg "card D" arbitrary: D rule: kahn.induct)
  case (1 su deg D)
  then have "D \<subseteq> K" by (simp add: kahn_inv_def)
  with assms(1) have "card D = card K \<longleftrightarrow> D = K" by (auto dest: card_subset_eq)
  with kahn_end [OF 1(2) assms] show ?case by simp
next
  case (2 su p queue deg D)
  have D: "D \<subseteq> K" "p \<in> K" using 2(3) by (auto simp: kahn_inv_def)
  with 2(2) have sp: "set (adj su p) = E `` {p}" "distinct (adj su p)" by auto
  from kahn_step [OF 2(3) assms sp] obtain queue' deg' where
    rel: "release (adj su p) queue deg = Some (queue', deg')"
    and inv: "kahn_inv K E (insert p D) queue' deg'" and new: "p \<notin> D" by blast
  from new D assms(1) have c: "Suc (card D) = card (insert p D)" by (simp add: finite_subset)
  from 2(1) [OF rel refl c 2(2) inv] show ?case using rel c by simp
qed

section \<open>Built graphs\<close>

definition edge_pair :: "PhaseEdge \<Rightarrow> PhaseKey \<times> PhaseKey" where
  "edge_pair e = (pe_from e, pe_to e)"

definition edges_ok :: "PhaseKey list \<Rightarrow> PhaseEdge list \<Rightarrow> bool" where
  "edges_ok order edges \<longleftrightarrow>
     (\<forall>e \<in> set edges. pe_from e \<in> set order \<and> pe_to e \<in> set order \<and> pe_from e \<noteq> pe_to e)
     \<and> distinct (map edge_pair edges)"

definition adj_rep :: "PhaseKey set \<Rightarrow> (PhaseKey \<times> PhaseKey) set \<Rightarrow> adjacency \<Rightarrow> bool" where
  "adj_rep K E m \<longleftrightarrow>
     dom (map_of m) = K \<and> (\<forall>p. set (adj m p) = E `` {p} \<and> distinct (adj m p))"

lemma adj_rep_edge_rel: "adj_rep K E m \<Longrightarrow> edge_rel m = E"
  by (auto simp: adj_rep_def edge_rel_def)

lemma map_of_empty_adjacency:
  "map_of (empty_adjacency order) p = (if p \<in> set order then Some [] else None)"
proof -
  have "map_of (map (\<lambda>p. (p, [] :: PhaseKey list)) xs) p = (if p \<in> set xs then Some [] else None)" for xs
    by (induction xs) auto
  then show ?thesis by (simp add: empty_adjacency_def)
qed

lemma adj_rep_empty: "adj_rep (set order) {} (empty_adjacency order)"
  by (auto simp: adj_rep_def map_of_empty_adjacency adj_def split: if_splits)

lemma adj_rep_insert:
  assumes "adj_rep K E m" and "k \<in> K"
  shows "adj_rep K (insert (k, x) E) (adj_insert k x m)"
proof -
  from assms obtain s where s: "map_of m k = Some s" by (auto simp: adj_rep_def dom_def)
  then have s': "set s = E `` {k}" "distinct s" using assms(1) by (auto simp: adj_rep_def adj_def dest: spec [of _ k])
  have m': "map_of (adj_insert k x m) = (map_of m)(k \<mapsto> bt_insert x s)"
    using s by (simp add: adj_insert_def update_conv')
  have "adj (adj_insert k x m) p = (if p = k then bt_insert x s else adj m p)" for p
    by (simp add: adj_def m')
  then show ?thesis using assms s' m'
    by (auto simp: adj_rep_def bt_insert_def distinct_insort set_insort_key split: if_splits)
qed

lemma converse_insert_pair: "(insert (a, b) E)\<inverse> = insert (b, a) (E\<inverse>)"
  by auto

lemma add_edges_iff:
  assumes "adj_rep (set known) E su" and "adj_rep (set known) (E\<inverse>) pr"
  shows "(\<exists>su' pr'. add_edges known es (su, pr) = Inr (su', pr')
            \<and> adj_rep (set known) (E \<union> edge_pair ` set es) su'
            \<and> adj_rep (set known) ((E \<union> edge_pair ` set es)\<inverse>) pr')
         \<and> edges_ok known es \<and> edge_pair ` set es \<inter> E = {}
       \<or> (\<exists>err. add_edges known es (su, pr) = Inl err)
         \<and> \<not> (edges_ok known es \<and> edge_pair ` set es \<inter> E = {})"
  using assms
proof (induction es arbitrary: E su pr)
  case Nil
  then show ?case by (simp add: edges_ok_def)
next
  case (Cons e es)
  let ?f = "pe_from e" and ?t = "pe_to e"
  have dup: "?t \<in> set (adj su ?f) \<longleftrightarrow> edge_pair e \<in> E"
    using Cons.prems(1) by (auto simp: adj_rep_def edge_pair_def)
  show ?case
  proof (cases "?f \<in> set known \<and> ?t \<in> set known \<and> ?f \<noteq> ?t \<and> edge_pair e \<notin> E")
    case True
    let ?E = "insert (edge_pair e) E"
    have "adj_rep (set known) ?E (adj_insert ?f ?t su)"
      using adj_rep_insert [OF Cons.prems(1), of ?f ?t] True by (simp add: edge_pair_def)
    moreover have "adj_rep (set known) (?E\<inverse>) (adj_insert ?t ?f pr)"
      using adj_rep_insert [OF Cons.prems(2), of ?t ?f] True
      by (simp add: edge_pair_def converse_insert_pair)
    ultimately have "(\<exists>su' pr'. add_edges known (e # es) (su, pr) = Inr (su', pr')
            \<and> adj_rep (set known) (?E \<union> edge_pair ` set es) su'
            \<and> adj_rep (set known) ((?E \<union> edge_pair ` set es)\<inverse>) pr')
         \<and> edges_ok known es \<and> edge_pair ` set es \<inter> ?E = {}
       \<or> (\<exists>err. add_edges known (e # es) (su, pr) = Inl err)
         \<and> \<not> (edges_ok known es \<and> edge_pair ` set es \<inter> ?E = {})"
      using Cons.IH [of ?E "adj_insert ?f ?t su" "adj_insert ?t ?f pr"] True dup by simp
    moreover have "edges_ok known (e # es) \<and> edge_pair ` set (e # es) \<inter> E = {}
        \<longleftrightarrow> edges_ok known es \<and> edge_pair ` set es \<inter> ?E = {}"
      using True by (auto simp: edges_ok_def)
    moreover have "?E \<union> edge_pair ` set es = E \<union> edge_pair ` set (e # es)" by auto
    ultimately show ?thesis by metis
  next
    case False
    then have "\<exists>err. add_edges known (e # es) (su, pr) = Inl err" using dup by auto
    moreover have "\<not> (edges_ok known (e # es) \<and> edge_pair ` set (e # es) \<inter> E = {})"
      using False by (auto simp: edges_ok_def)
    ultimately show ?thesis by blast
  qed
qed

definition graph_of :: "PhaseKey list \<Rightarrow> PhaseEdge list \<Rightarrow> PhaseGraph \<Rightarrow> bool" where
  "graph_of order edges g \<longleftrightarrow>
     g_order g = order \<and> adj_rep (set order) (edge_pair ` set edges) (g_successors g)
     \<and> adj_rep (set order) ((edge_pair ` set edges)\<inverse>) (g_predecessors g)
     \<and> edges_ok order edges"

lemma build_graph:
  "(\<exists>g. PhaseGraph_build order edges = Inr g \<and> graph_of order edges g)
   \<or> (\<exists>err. PhaseGraph_build order edges = Inl err) \<and> \<not> edges_ok order edges"
proof -
  have "adj_rep (set order) ({}\<inverse>) (empty_adjacency order)" by (simp add: adj_rep_empty)
  from add_edges_iff [OF adj_rep_empty this, of edges] show ?thesis
    by (auto simp: PhaseGraph_build_def graph_of_def)
qed

lemma build_graph_Inr: "PhaseGraph_build order edges = Inr g \<Longrightarrow> graph_of order edges g"
  using build_graph [of order edges] by auto

lemma graph_of_contains [simp]:
  "graph_of order edges g \<Longrightarrow> graph_contains g p \<longleftrightarrow> p \<in> set order"
  by (auto simp: graph_of_def graph_contains_def adj_rep_def dom_def)

lemma reject_cycles_iff:
  assumes "graph_of order edges g" and "distinct order"
  shows "reject_cycles g = Inr () \<longleftrightarrow> acyclic (edge_pair ` set edges)"
    and "kahn_visited g \<noteq> None"
proof -
  let ?E = "edge_pair ` set edges" and ?K = "set order"
  have EK: "?E \<subseteq> ?K \<times> ?K" using assms(1) by (auto simp: graph_of_def edges_ok_def edge_pair_def)
  have su: "\<forall>p \<in> ?K. set (adj (g_successors g) p) = ?E `` {p} \<and> distinct (adj (g_successors g) p)"
    using assms(1) by (simp add: graph_of_def adj_rep_def)
  let ?ks = "sort (remdups order)"
  have len: "length (adj (g_predecessors g) p) = card (?E\<inverse> `` {p} - {})" for p
    using assms(1) by (metis Diff_empty adj_rep_def distinct_card graph_of_def)
  have order: "g_order g = order" using assms(1) by (simp add: graph_of_def)
  have keys: "map fst (initial_degrees g) = ?ks" by (simp add: initial_degrees_def order o_def)
  have deg: "map_of (initial_degrees g) p = Some (card (?E\<inverse> `` {p} - {}))" if "p \<in> ?K" for p
    using that by (simp add: initial_degrees_def order len map_of_map_restrict)
  let ?q = "rev (map fst (filter (\<lambda>(p, n). n = 0) (initial_degrees g)))"
  have q: "set ?q = {p \<in> ?K - {}. ?E\<inverse> `` {p} \<subseteq> {}}"
    by (force simp: initial_degrees_def order len)
  have "distinct ?q" using keys by (simp add: distinct_map_filter)
  then have "kahn_inv ?K ?E {} ?q (initial_degrees g)"
    using q deg keys by (simp add: kahn_inv_def wf_acyclic)
  from kahn_correct [OF _ EK su this] obtain v where
    "kahn_visited g = Some v" "v = card ?K \<longleftrightarrow> acyclic ?E"
    by (auto simp: kahn_visited_def Let_def)
  then show "reject_cycles g = Inr () \<longleftrightarrow> acyclic ?E" and "kahn_visited g \<noteq> None"
    using assms(2) order by (simp_all add: reject_cycles_def distinct_card)
qed

lemma reachable_from_iff:
  assumes "graph_of order edges g"
  shows "set (reachable_from g p) = (edge_pair ` set edges)\<^sup>* `` {p}"
proof -
  have "edge_rel (g_successors g) = edge_pair ` set edges"
    using assms unfolding graph_of_def by (blast dest: adj_rep_edge_rel)
  then show ?thesis unfolding reachable_from_def search_reachable by simp
qed

lemma co_reachable_from_iff:
  assumes "graph_of order edges g"
  shows "set (co_reachable_from g ts) = ((edge_pair ` set edges)\<inverse>)\<^sup>* `` set ts"
proof -
  have "edge_rel (g_predecessors g) = (edge_pair ` set edges)\<inverse>"
    using assms unfolding graph_of_def by (blast dest: adj_rep_edge_rel)
  then show ?thesis unfolding co_reachable_from_def search_reachable by simp
qed

lemma ancestors_of_iff:
  assumes "graph_of order edges g"
  shows "a \<in> set (ancestors_of g p) \<longleftrightarrow> (a, p) \<in> (edge_pair ` set edges)\<^sup>+"
proof -
  let ?E = "edge_pair ` set edges"
  have rep: "adj_rep (set order) (?E\<inverse>) (g_predecessors g)" using assms by (simp add: graph_of_def)
  then have pr: "set (adj (g_predecessors g) p) = ?E\<inverse> `` {p}" by (simp add: adj_rep_def)
  have "set (ancestors_of g p) = (?E\<inverse>)\<^sup>* `` (?E\<inverse> `` {p})"
    unfolding ancestors_of_def search_reachable adj_rep_edge_rel [OF rep] set_rev pr ..
  also have "a \<in> \<dots> \<longleftrightarrow> (p, a) \<in> ?E\<inverse> O (?E\<inverse>)\<^sup>*" by auto
  also have "\<dots> \<longleftrightarrow> (p, a) \<in> (?E\<inverse>)\<^sup>+" by (simp add: trancl_unfold_left)
  finally show ?thesis by (simp add: trancl_converse)
qed

lemma all_in_search:
  assumes "distinct order" and "set (search m stack []) \<subseteq> set order"
  shows "length (search m stack []) = length order \<longleftrightarrow> set order \<subseteq> set (search m stack [])"
proof -
  have "length (search m stack []) = card (set (search m stack []))"
    by (simp add: distinct_card search_distinct)
  moreover have "length order = card (set order)" using assms(1) by (simp add: distinct_card)
  ultimately show ?thesis using assms(2) by (metis card_subset_eq finite_set subset_antisym subset_refl)
qed

section \<open>Claims\<close>

text \<open>C8: On every graph built from declared phases and edges the cycle check returns (its
  in-degree counter never underflows) and accepts exactly the acyclic forward graphs.\<close>

theorem cycle_check_exact:
  assumes "PhaseGraph_build order edges = Inr g" and "distinct order"
  shows "kahn_visited g \<noteq> None \<and> (reject_cycles g = Inr () \<longleftrightarrow> acyclic (edge_pair ` set edges))"
  using reject_cycles_iff [OF build_graph_Inr [OF assms(1)] assms(2)] by blast

definition sample_edge :: "PhaseKey \<Rightarrow> PhaseKey \<Rightarrow> PhaseEdge" where
  "sample_edge a b = \<lparr>pe_from = a, pe_to = b, pe_handoff_role = None\<rparr>"

theorem cycle_check_exact_witness:
  "acyclic (edge_pair ` set [sample_edge ''plan'' ''build'', sample_edge ''build'' ''test'']) \<and>
   \<not> acyclic (edge_pair ` set [sample_edge ''plan'' ''build'', sample_edge ''build'' ''test'',
       sample_edge ''test'' ''plan''])"
proof -
  have c: "PhaseGraph_build [''plan'', ''build'', ''test'']
      [sample_edge ''plan'' ''build'', sample_edge ''build'' ''test'', sample_edge ''test'' ''plan'']
    = Inr \<lparr>g_order = [''plan'', ''build'', ''test''],
        g_successors = [(''build'', [''test'']), (''plan'', [''build'']), (''test'', [''plan''])],
        g_predecessors = [(''build'', [''plan'']), (''plan'', [''test'']), (''test'', [''build''])]\<rparr>"
    by code_simp
  have a: "PhaseGraph_build [''plan'', ''build'', ''test'']
      [sample_edge ''plan'' ''build'', sample_edge ''build'' ''test'']
    = Inr \<lparr>g_order = [''plan'', ''build'', ''test''],
        g_successors = [(''build'', [''test'']), (''plan'', [''build'']), (''test'', [])],
        g_predecessors = [(''build'', [''plan'']), (''plan'', []), (''test'', [''build''])]\<rparr>"
    by code_simp
  have "reject_cycles \<lparr>g_order = [''plan'', ''build'', ''test''],
        g_successors = [(''build'', [''test'']), (''plan'', [''build'']), (''test'', [''plan''])],
        g_predecessors = [(''build'', [''plan'']), (''plan'', [''test'']), (''test'', [''build''])]\<rparr> \<noteq> Inr ()"
    by code_simp
  moreover have "reject_cycles \<lparr>g_order = [''plan'', ''build'', ''test''],
        g_successors = [(''build'', [''test'']), (''plan'', [''build'']), (''test'', [])],
        g_predecessors = [(''build'', [''plan'']), (''plan'', []), (''test'', [''build''])]\<rparr> = Inr ()"
    by code_simp
  moreover have d: "distinct [''plan'', ''build'', ''test'']" by code_simp
  ultimately show ?thesis using cycle_check_exact [OF c d] cycle_check_exact [OF a d] by blast
qed

end
