(* ===== verification/Context_Window.thy ===== *)
theory Context_Window
  imports Identity
begin

text \<open>
  \<^verbatim>\<open>crates/kontor-core/src/spec.rs\<close>, budget bounds and context-window policy: which declaration a
  seat's window comes from, who may select the widest classes, and how the requested trigger is
  fitted to the bounds a runtime attests.  The canonical document digests are arguments of
  the snapshot's \<open>freeze\<close> and \<open>verify\<close>.
\<close>

section \<open>Budgets\<close>

record Money =
  minor_units :: u64
  currency :: string

record BudgetBounds =
  max_tokens :: u64
  max_commands :: u64
  max_duration_seconds :: u64
  max_cost :: Money

definition STORABLE_MAX :: u64 where
  "STORABLE_MAX = 9223372036854775807"

definition BudgetBounds_unconstrained :: BudgetBounds where
  "BudgetBounds_unconstrained =
     \<lparr>max_tokens = STORABLE_MAX, max_commands = STORABLE_MAX,
      max_duration_seconds = STORABLE_MAX,
      max_cost = \<lparr>minor_units = STORABLE_MAX, currency = ''XXX''\<rparr>\<rparr>"

definition is_unconstrained :: "BudgetBounds \<Rightarrow> bool" where
  "is_unconstrained b \<longleftrightarrow> b = BudgetBounds_unconstrained"

definition BudgetBounds_validate :: "BudgetBounds \<Rightarrow> unit DomainResult" where
  "BudgetBounds_validate b =
     (if max_tokens b = 0 \<or> max_commands b = 0 \<or> max_duration_seconds b = 0
         \<or> minor_units (max_cost b) = 0
      then Inl (Invalid ''BudgetBounds'' ''every bound must be positive'') else Inr ())"

section \<open>Policy vocabulary\<close>

datatype ContextWindowClass = Lean | Standard | Deep | Extended | Native

definition ContextWindowClass_ALL :: "ContextWindowClass list" where
  "ContextWindowClass_ALL = [Lean, Standard, Deep, Extended, Native]"

primrec ContextWindowClass_as_str :: "ContextWindowClass \<Rightarrow> string" where
  "ContextWindowClass_as_str Lean = ''lean''"
| "ContextWindowClass_as_str Standard = ''standard''"
| "ContextWindowClass_as_str Deep = ''deep''"
| "ContextWindowClass_as_str Extended = ''extended''"
| "ContextWindowClass_as_str Native = ''native''"

primrec class_trigger_tokens :: "ContextWindowClass \<Rightarrow> u64 option" where
  "class_trigger_tokens Lean = Some 128000"
| "class_trigger_tokens Standard = Some 256000"
| "class_trigger_tokens Deep = Some 512000"
| "class_trigger_tokens Extended = Some 720000"
| "class_trigger_tokens Native = None"

definition requires_explicit_selection :: "ContextWindowClass \<Rightarrow> bool" where
  "requires_explicit_selection c \<longleftrightarrow> c \<in> {Extended, Native}"

datatype ContextEnforcement = BestEffort | Required

datatype SeatAutonomy = Supervised | Bounded | Advisory

definition may_act :: "SeatAutonomy \<Rightarrow> bool" where
  "may_act a \<longleftrightarrow> a \<in> {Supervised, Bounded}"

datatype ContextTriggerScope = Total | GrowthAfterPrefix

datatype ContextSummaryProfile = PortableHandoffV1

datatype ContextPolicySource =
  AuthorizedRunOverride | RoleSlot | WorkProfile | RoleSeed | StandardFallback

definition PRECEDENCE :: "ContextPolicySource list" where
  "PRECEDENCE = [AuthorizedRunOverride, RoleSlot, WorkProfile, RoleSeed]"

definition may_select_explicit_only :: "ContextPolicySource \<Rightarrow> bool" where
  "may_select_explicit_only s \<longleftrightarrow> s \<in> {AuthorizedRunOverride, RoleSlot, WorkProfile}"

record ContextWindowPolicy =
  cw_class :: ContextWindowClass
  cw_enforcement :: ContextEnforcement
  cw_trigger_scope :: ContextTriggerScope
  cw_boundary_compaction :: bool
  cw_summary_profile :: ContextSummaryProfile

definition ContextWindowPolicy_standard :: ContextWindowPolicy where
  "ContextWindowPolicy_standard =
     \<lparr>cw_class = Standard, cw_enforcement = BestEffort, cw_trigger_scope = GrowthAfterPrefix,
      cw_boundary_compaction = True, cw_summary_profile = PortableHandoffV1\<rparr>"

definition ensure_selectable_by ::
  "ContextWindowPolicy \<Rightarrow> ContextPolicySource \<Rightarrow> unit DomainResult" where
  "ensure_selectable_by p source =
     (if requires_explicit_selection (cw_class p) \<and> \<not> may_select_explicit_only source
      then Inl (MissingAuthority ''context window policy''
        ''the largest windows and the runtime default require an explicit declaration'')
      else Inr ())"

section \<open>Resolution by precedence\<close>

record ContextPolicyInputs =
  run_override :: "ContextWindowPolicy option"
  role_slot :: "ContextWindowPolicy option"
  work_profile :: "ContextWindowPolicy option"
  role_seed :: "ContextWindowPolicy option"

primrec candidate_policy ::
  "ContextPolicyInputs \<Rightarrow> ContextPolicySource \<Rightarrow> ContextWindowPolicy option" where
  "candidate_policy i AuthorizedRunOverride = run_override i"
| "candidate_policy i RoleSlot = role_slot i"
| "candidate_policy i WorkProfile = work_profile i"
| "candidate_policy i RoleSeed = role_seed i"
| "candidate_policy i StandardFallback = None"

record ResolvedContextPolicy =
  rc_source :: ContextPolicySource
  rc_policy :: ContextWindowPolicy

fun resolve_from ::
  "ContextPolicyInputs \<Rightarrow> ContextPolicySource list \<Rightarrow> ResolvedContextPolicy DomainResult" where
  "resolve_from i [] =
     Inr \<lparr>rc_source = StandardFallback, rc_policy = ContextWindowPolicy_standard\<rparr>"
| "resolve_from i (source # rest) =
     (case candidate_policy i source of
        Some policy \<Rightarrow>
          try_bind (ensure_selectable_by policy source)
            (\<lambda>_. Inr \<lparr>rc_source = source, rc_policy = policy\<rparr>)
      | None \<Rightarrow> resolve_from i rest)"

definition resolve_context_window :: "ContextPolicyInputs \<Rightarrow> ResolvedContextPolicy DomainResult" where
  "resolve_context_window i = resolve_from i PRECEDENCE"

section \<open>Fitting the request to the runtime\<close>

record ContextWindowBounds =
  safe_ceiling_tokens :: "u64 option"
  minimum_trigger_tokens :: "u64 option"

definition ContextWindowBounds_unknown :: ContextWindowBounds where
  "ContextWindowBounds_unknown =
     \<lparr>safe_ceiling_tokens = None, minimum_trigger_tokens = None\<rparr>"

definition ContextWindowBounds_validate :: "ContextWindowBounds \<Rightarrow> unit DomainResult" where
  "ContextWindowBounds_validate b =
     (if safe_ceiling_tokens b = Some 0 \<or> minimum_trigger_tokens b = Some 0
      then Inl (Invalid ''ContextWindowBounds'' ''a declared bound must be positive'')
      else case (safe_ceiling_tokens b, minimum_trigger_tokens b) of
        (Some ceil, Some minimum) \<Rightarrow>
          if ceil < minimum
          then Inl (Invalid ''ContextWindowBounds''
            ''the minimum configurable trigger is above the safe ceiling'')
          else Inr ()
      | _ \<Rightarrow> Inr ())"

datatype ContextCapabilityResult = Configured | NotEnforced | Pending

datatype ContextClamp = NoClamp | ToSafeCeiling | ToMinimumTrigger

definition is_clamped :: "ContextClamp \<Rightarrow> bool" where
  "is_clamped c \<longleftrightarrow> c \<noteq> NoClamp"

record RequestedContextPolicy =
  rq_schema_version :: u32
  rq_source :: ContextPolicySource
  rq_policy :: ContextWindowPolicy
  rq_trigger_tokens :: "u64 option"

definition RequestedContextPolicy_of ::
  "ResolvedContextPolicy \<Rightarrow> u32 \<Rightarrow> RequestedContextPolicy" where
  "RequestedContextPolicy_of resolved schema_version =
     \<lparr>rq_schema_version = schema_version, rq_source = rc_source resolved,
      rq_policy = rc_policy resolved,
      rq_trigger_tokens = class_trigger_tokens (cw_class (rc_policy resolved))\<rparr>"

record EffectiveContextPolicy =
  ef_schema_version :: u32
  ef_policy :: ContextWindowPolicy
  ef_trigger_tokens :: "u64 option"
  ef_bounds :: ContextWindowBounds
  ef_clamp :: ContextClamp
  ef_capability :: ContextCapabilityResult

definition raise_to_minimum ::
  "bool \<Rightarrow> u64 option \<Rightarrow> u64 \<Rightarrow> (u64 \<times> ContextClamp) DomainResult" where
  "raise_to_minimum enforced minimum target =
     (case minimum of
        Some m \<Rightarrow>
          if target < m
          then if enforced
               then Inl (Invalid ''context window policy''
                 (''the runtime'' @ [CHR 0x27] @
                  ''s smallest configurable trigger is above a required target''))
               else Inr (m, ToMinimumTrigger)
          else Inr (target, NoClamp)
      | None \<Rightarrow> Inr (target, NoClamp))"

definition lower_to_ceiling ::
  "u64 option \<Rightarrow> u64 \<times> ContextClamp \<Rightarrow> u64 \<times> ContextClamp" where
  "lower_to_ceiling ceil r =
     (case ceil of
        Some c \<Rightarrow> if c < fst r then (c, ToSafeCeiling) else r
      | None \<Rightarrow> r)"

definition EffectiveContextPolicy_derive ::
  "RequestedContextPolicy \<Rightarrow> ContextWindowBounds \<Rightarrow> bool \<Rightarrow> EffectiveContextPolicy DomainResult"
where
  "EffectiveContextPolicy_derive requested bounds supported =
     try_bind (ContextWindowBounds_validate bounds) (\<lambda>_.
     let enforced = (cw_enforcement (rq_policy requested) = Required);
         effective = (\<lambda>trigger cl cap.
           \<lparr>ef_schema_version = rq_schema_version requested, ef_policy = rq_policy requested,
            ef_trigger_tokens = trigger, ef_bounds = bounds, ef_clamp = cl,
            ef_capability = cap\<rparr>)
     in if \<not> supported
        then if enforced
             then Inl (MissingEvidence ''context window policy''
               ''required enforcement needs a runtime that can configure it'')
             else Inr (effective None NoClamp NotEnforced)
        else case rq_trigger_tokens requested of
               None \<Rightarrow> Inr (effective None NoClamp Configured)
             | Some target \<Rightarrow>
                 try_bind (raise_to_minimum enforced (minimum_trigger_tokens bounds) target)
                   (\<lambda>raised. let r = lower_to_ceiling (safe_ceiling_tokens bounds) raised
                             in Inr (effective (Some (fst r)) (snd r) Configured)))"

definition EffectiveContextPolicy_pending :: "EffectiveContextPolicy \<Rightarrow> EffectiveContextPolicy" where
  "EffectiveContextPolicy_pending e = e\<lparr>ef_capability := Pending\<rparr>"

record ContextPolicySnapshot =
  cs_schema_version :: u32
  cs_requested :: RequestedContextPolicy
  cs_requested_hash :: content_hash
  cs_effective :: EffectiveContextPolicy
  cs_effective_hash :: content_hash
  cs_resolved_at :: timestamp

type_synonym 'd digest = "'d \<Rightarrow> content_hash DomainResult"

definition ContextPolicySnapshot_freeze ::
  "RequestedContextPolicy digest \<Rightarrow> EffectiveContextPolicy digest \<Rightarrow> RequestedContextPolicy \<Rightarrow>
   EffectiveContextPolicy \<Rightarrow> timestamp \<Rightarrow> ContextPolicySnapshot DomainResult" where
  "ContextPolicySnapshot_freeze rdigest edigest requested effective resolved_at =
     try_bind (rdigest requested) (\<lambda>requested_hash.
     try_bind (edigest effective) (\<lambda>effective_hash.
       Inr \<lparr>cs_schema_version = rq_schema_version requested, cs_requested = requested,
            cs_requested_hash = requested_hash, cs_effective = effective,
            cs_effective_hash = effective_hash, cs_resolved_at = resolved_at\<rparr>))"

definition ContextPolicySnapshot_standard ::
  "RequestedContextPolicy digest \<Rightarrow> EffectiveContextPolicy digest \<Rightarrow> ContextWindowBounds \<Rightarrow> bool \<Rightarrow>
   u32 \<Rightarrow> timestamp \<Rightarrow> ContextPolicySnapshot DomainResult" where
  "ContextPolicySnapshot_standard rdigest edigest bounds supported schema_version resolved_at =
     try_bind (resolve_context_window
       \<lparr>run_override = None, role_slot = None, work_profile = None, role_seed = None\<rparr>)
       (\<lambda>resolved. let requested = RequestedContextPolicy_of resolved schema_version in
         try_bind (EffectiveContextPolicy_derive requested bounds supported) (\<lambda>effective.
           ContextPolicySnapshot_freeze rdigest edigest requested effective resolved_at))"

definition ContextPolicySnapshot_verify ::
  "RequestedContextPolicy digest \<Rightarrow> EffectiveContextPolicy digest \<Rightarrow> ContextPolicySnapshot \<Rightarrow>
   unit DomainResult" where
  "ContextPolicySnapshot_verify rdigest edigest s =
     try_bind (rdigest (cs_requested s)) (\<lambda>requested.
     if requested \<noteq> cs_requested_hash s
     then Inl (Invalid ''ContextPolicySnapshot''
       ''the requested policy no longer matches its pinned hash'')
     else try_bind (edigest (cs_effective s)) (\<lambda>effective.
       if effective \<noteq> cs_effective_hash s
       then Inl (Invalid ''ContextPolicySnapshot''
         ''the effective policy no longer matches its pinned hash'')
       else Inr ()))"

definition permits_reuse :: "ContextPolicySnapshot \<Rightarrow> bool" where
  "permits_reuse s \<longleftrightarrow> ef_capability (cs_effective s) \<noteq> Pending"

section \<open>Properties\<close>

lemma resolve_from_sources:
  "resolve_from i sources = Inr r \<Longrightarrow> rc_source r \<noteq> StandardFallback \<Longrightarrow>
   rc_source r \<in> set sources \<and> candidate_policy i (rc_source r) = Some (rc_policy r)
   \<and> ensure_selectable_by (rc_policy r) (rc_source r) = Inr ()"
  by (induction sources) (auto split: option.splits)

lemma resolve_first_declared:
  "resolve_context_window i = Inr r \<longleftrightarrow>
     (case first_some (\<lambda>s. map_option (Pair s) (candidate_policy i s)) PRECEDENCE of
        None \<Rightarrow> r = \<lparr>rc_source = StandardFallback, rc_policy = ContextWindowPolicy_standard\<rparr>
      | Some (s, p) \<Rightarrow> ensure_selectable_by p s = Inr () \<and> r = \<lparr>rc_source = s, rc_policy = p\<rparr>)"
  by (auto simp: resolve_context_window_def PRECEDENCE_def split: option.splits)

lemma seeds_never_widen:
  assumes "resolve_context_window i = Inr r"
    and "requires_explicit_selection (cw_class (rc_policy r))"
  shows "may_select_explicit_only (rc_source r)"
proof (cases "rc_source r = StandardFallback")
  case True
  from assms(1) have "rc_policy r = ContextWindowPolicy_standard"
    using True by (auto simp: resolve_context_window_def PRECEDENCE_def split: option.splits)
  with assms(2) show ?thesis
    by (simp add: ContextWindowPolicy_standard_def requires_explicit_selection_def)
next
  case False
  from resolve_from_sources [OF assms(1) [unfolded resolve_context_window_def] False] assms(2)
  show ?thesis by (simp add: ensure_selectable_by_def split: if_splits)
qed

lemma derive_trigger:
  assumes "EffectiveContextPolicy_derive requested bounds True = Inr e"
    and "rq_trigger_tokens requested = Some target"
  shows "ef_trigger_tokens e =
      Some (let raised = (case minimum_trigger_tokens bounds of None \<Rightarrow> target | Some m \<Rightarrow> max m target)
            in case safe_ceiling_tokens bounds of None \<Rightarrow> raised | Some c \<Rightarrow> min c raised)"
  using assms
  by (auto simp: EffectiveContextPolicy_derive_def Let_def raise_to_minimum_def lower_to_ceiling_def
      max_def min_def split: option.splits if_splits)

lemma derive_within_bounds:
  assumes "EffectiveContextPolicy_derive requested bounds True = Inr e"
    and "ef_trigger_tokens e = Some t"
  shows "(\<forall>c. safe_ceiling_tokens bounds = Some c \<longrightarrow> t \<le> c)
       \<and> (\<forall>m. minimum_trigger_tokens bounds = Some m \<longrightarrow> m \<le> t)"
  using assms
  by (auto simp: EffectiveContextPolicy_derive_def ContextWindowBounds_validate_def Let_def
      raise_to_minimum_def lower_to_ceiling_def split: option.splits if_splits)

lemma freeze_verifies:
  "ContextPolicySnapshot_freeze rdigest edigest q e at = Inr s \<Longrightarrow>
   ContextPolicySnapshot_verify rdigest edigest s = Inr ()"
  by (auto simp: ContextPolicySnapshot_freeze_def ContextPolicySnapshot_verify_def)

lemma unconstrained_valid: "BudgetBounds_validate BudgetBounds_unconstrained = Inr ()"
  by (simp add: BudgetBounds_validate_def BudgetBounds_unconstrained_def STORABLE_MAX_def)

section \<open>Claims\<close>

text \<open>The context policy of a seat is the first declared one in precedence order, taken whole;
  without any declaration it is the standard one.  A class that needs explicit selection is reached
  only through a run override, a role slot or a work profile, never from a seed or the
  fallback.\<close>

theorem context_policy_resolution:
  assumes "resolve_context_window i = Inr r"
  shows "r = (case first_some (\<lambda>s. map_option (Pair s) (candidate_policy i s)) PRECEDENCE of
                None \<Rightarrow> \<lparr>rc_source = StandardFallback, rc_policy = ContextWindowPolicy_standard\<rparr>
              | Some (s, p) \<Rightarrow> \<lparr>rc_source = s, rc_policy = p\<rparr>)
       \<and> (requires_explicit_selection (cw_class (rc_policy r))
            \<longrightarrow> rc_source r \<in> {AuthorizedRunOverride, RoleSlot, WorkProfile})"
  using assms seeds_never_widen [OF assms] unfolding resolve_first_declared
  by (auto simp: may_select_explicit_only_def simp del: first_some_None
      split: option.splits prod.splits)

definition sample_inputs :: ContextPolicyInputs where
  "sample_inputs =
     \<lparr>run_override = None, role_slot = None,
      work_profile = Some (ContextWindowPolicy_standard\<lparr>cw_class := Extended\<rparr>),
      role_seed = Some (ContextWindowPolicy_standard\<lparr>cw_class := Lean\<rparr>)\<rparr>"

theorem context_policy_resolution_witness:
  "resolve_context_window sample_inputs =
     Inr \<lparr>rc_source = WorkProfile, rc_policy = ContextWindowPolicy_standard\<lparr>cw_class := Extended\<rparr>\<rparr>
   \<and> WorkProfile \<in> {AuthorizedRunOverride, RoleSlot, WorkProfile}"
proof -
  have r: "resolve_context_window sample_inputs =
     Inr \<lparr>rc_source = WorkProfile, rc_policy = ContextWindowPolicy_standard\<lparr>cw_class := Extended\<rparr>\<rparr>"
    by code_simp
  with context_policy_resolution [OF r] show ?thesis by simp
qed

text \<open>On a runtime that can be configured the effective trigger is the requested one raised to
  the declared minimum and lowered to the declared ceiling, so it lies within both declared bounds;
  an undeclared bound changes nothing, and required enforcement is never silently raised.\<close>

theorem effective_trigger_within_bounds:
  assumes "EffectiveContextPolicy_derive requested bounds True = Inr e"
    and "rq_trigger_tokens requested = Some target"
  shows "\<exists>t. ef_trigger_tokens e = Some t
     \<and> t = (let raised = (case minimum_trigger_tokens bounds of None \<Rightarrow> target | Some m \<Rightarrow> max m target)
            in case safe_ceiling_tokens bounds of None \<Rightarrow> raised | Some c \<Rightarrow> min c raised)
     \<and> (\<forall>c. safe_ceiling_tokens bounds = Some c \<longrightarrow> t \<le> c)
     \<and> (\<forall>m. minimum_trigger_tokens bounds = Some m \<longrightarrow> m \<le> t)
     \<and> (cw_enforcement (rq_policy requested) = Required \<longrightarrow> t \<le> target)"
proof -
  obtain t where t: "ef_trigger_tokens e = Some t" using derive_trigger [OF assms] by blast
  have "cw_enforcement (rq_policy requested) = Required \<longrightarrow> t \<le> target"
    using assms t by (auto simp: EffectiveContextPolicy_derive_def Let_def raise_to_minimum_def
        lower_to_ceiling_def split: option.splits if_splits)
  with derive_trigger [OF assms] derive_within_bounds [OF assms(1) t] t show ?thesis by simp
qed

definition sample_request :: RequestedContextPolicy where
  "sample_request =
     \<lparr>rq_schema_version = 1, rq_source = RoleSlot,
      rq_policy = ContextWindowPolicy_standard\<lparr>cw_class := Deep\<rparr>, rq_trigger_tokens = Some 512000\<rparr>"

definition sample_bounds :: ContextWindowBounds where
  "sample_bounds = \<lparr>safe_ceiling_tokens = Some 200000, minimum_trigger_tokens = Some 1000\<rparr>"

theorem effective_trigger_within_bounds_witness:
  "\<exists>e. EffectiveContextPolicy_derive sample_request sample_bounds True = Inr e
     \<and> ef_trigger_tokens e = Some 200000"
proof -
  have d: "\<exists>e. EffectiveContextPolicy_derive sample_request sample_bounds True = Inr e"
    by (simp add: EffectiveContextPolicy_derive_def ContextWindowBounds_validate_def Let_def
        raise_to_minimum_def lower_to_ceiling_def sample_request_def sample_bounds_def)
  then obtain e where e: "EffectiveContextPolicy_derive sample_request sample_bounds True = Inr e" ..
  have "rq_trigger_tokens sample_request = Some 512000" by (simp add: sample_request_def)
  from effective_trigger_within_bounds [OF e this] e show ?thesis
    by (auto simp: sample_bounds_def)
qed

end
