(* ===== verification/Run_Lifecycle.thy ===== *)
theory Run_Lifecycle
  imports Identity
begin

text \<open>
  \<^verbatim>\<open>crates/kontor-core/src/state.rs\<close>, run part: the run lifecycle and its advance table, the
  reduction of runtime observations, freshness, closure evidence with its verification, and the
  derivation of what may be concluded about a run.
\<close>

section \<open>Lifecycles and observations\<close>

datatype RunLifecycle =
    Queued | Launching | Running | WaitingInput | Blocked | Succeeded | Failed | Cancelled |
    Parked

primrec RunLifecycle_as_str :: "RunLifecycle \<Rightarrow> string" where
  "RunLifecycle_as_str RunLifecycle.Queued = ''queued''"
| "RunLifecycle_as_str RunLifecycle.Launching = ''launching''"
| "RunLifecycle_as_str RunLifecycle.Running = ''running''"
| "RunLifecycle_as_str RunLifecycle.WaitingInput = ''waiting_input''"
| "RunLifecycle_as_str RunLifecycle.Blocked = ''blocked''"
| "RunLifecycle_as_str RunLifecycle.Succeeded = ''succeeded''"
| "RunLifecycle_as_str RunLifecycle.Failed = ''failed''"
| "RunLifecycle_as_str RunLifecycle.Cancelled = ''cancelled''"
| "RunLifecycle_as_str RunLifecycle.Parked = ''parked''"

definition RunLifecycle_ALL :: "RunLifecycle list" where
  "RunLifecycle_ALL =
     [RunLifecycle.Queued, RunLifecycle.Launching, RunLifecycle.Running,
     RunLifecycle.WaitingInput, RunLifecycle.Blocked, RunLifecycle.Succeeded,
     RunLifecycle.Failed, RunLifecycle.Cancelled, RunLifecycle.Parked]"

datatype DesiredRunState =
    NoIntent | RunRequested | CancelRequested | ParkRequested | AbandonRequested

primrec DesiredRunState_as_str :: "DesiredRunState \<Rightarrow> string" where
  "DesiredRunState_as_str DesiredRunState.NoIntent = ''no_intent''"
| "DesiredRunState_as_str DesiredRunState.RunRequested = ''run_requested''"
| "DesiredRunState_as_str DesiredRunState.CancelRequested = ''cancel_requested''"
| "DesiredRunState_as_str DesiredRunState.ParkRequested = ''park_requested''"
| "DesiredRunState_as_str DesiredRunState.AbandonRequested = ''abandon_requested''"

definition DesiredRunState_ALL :: "DesiredRunState list" where
  "DesiredRunState_ALL =
     [DesiredRunState.NoIntent, DesiredRunState.RunRequested, DesiredRunState.CancelRequested,
     DesiredRunState.ParkRequested, DesiredRunState.AbandonRequested]"

datatype ObservedRunState =
    Unknown | Queued | Launching | Running | WaitingInput | Blocked | Succeeded | Failed |
    Cancelled

primrec ObservedRunState_as_str :: "ObservedRunState \<Rightarrow> string" where
  "ObservedRunState_as_str ObservedRunState.Unknown = ''unknown''"
| "ObservedRunState_as_str ObservedRunState.Queued = ''queued''"
| "ObservedRunState_as_str ObservedRunState.Launching = ''launching''"
| "ObservedRunState_as_str ObservedRunState.Running = ''running''"
| "ObservedRunState_as_str ObservedRunState.WaitingInput = ''waiting_input''"
| "ObservedRunState_as_str ObservedRunState.Blocked = ''blocked''"
| "ObservedRunState_as_str ObservedRunState.Succeeded = ''succeeded''"
| "ObservedRunState_as_str ObservedRunState.Failed = ''failed''"
| "ObservedRunState_as_str ObservedRunState.Cancelled = ''cancelled''"

definition ObservedRunState_ALL :: "ObservedRunState list" where
  "ObservedRunState_ALL =
     [ObservedRunState.Unknown, ObservedRunState.Queued, ObservedRunState.Launching,
     ObservedRunState.Running, ObservedRunState.WaitingInput, ObservedRunState.Blocked,
     ObservedRunState.Succeeded, ObservedRunState.Failed, ObservedRunState.Cancelled]"

datatype TerminalOutcome =
    Succeeded | Failed | Cancelled | Parked | Abandoned

primrec TerminalOutcome_as_str :: "TerminalOutcome \<Rightarrow> string" where
  "TerminalOutcome_as_str TerminalOutcome.Succeeded = ''succeeded''"
| "TerminalOutcome_as_str TerminalOutcome.Failed = ''failed''"
| "TerminalOutcome_as_str TerminalOutcome.Cancelled = ''cancelled''"
| "TerminalOutcome_as_str TerminalOutcome.Parked = ''parked''"
| "TerminalOutcome_as_str TerminalOutcome.Abandoned = ''abandoned''"

definition TerminalOutcome_ALL :: "TerminalOutcome list" where
  "TerminalOutcome_ALL =
     [TerminalOutcome.Succeeded, TerminalOutcome.Failed, TerminalOutcome.Cancelled,
     TerminalOutcome.Parked, TerminalOutcome.Abandoned]"

definition RunLifecycle_is_terminal :: "RunLifecycle \<Rightarrow> bool" where
  "RunLifecycle_is_terminal s \<longleftrightarrow>
     s \<in> {RunLifecycle.Succeeded, RunLifecycle.Failed, RunLifecycle.Cancelled,
          RunLifecycle.Parked}"

definition RunLifecycle_is_dispatched :: "RunLifecycle \<Rightarrow> bool" where
  "RunLifecycle_is_dispatched s \<longleftrightarrow>
     \<not> RunLifecycle_is_terminal s \<and> s \<noteq> RunLifecycle.Queued"

definition RunLifecycle_can_advance_to :: "RunLifecycle \<Rightarrow> RunLifecycle \<Rightarrow> bool" where
  "RunLifecycle_can_advance_to s n \<longleftrightarrow>
     (case s of
        RunLifecycle.Queued \<Rightarrow> n = RunLifecycle.Launching
      | RunLifecycle.Launching \<Rightarrow>
          n \<in> {RunLifecycle.Running, RunLifecycle.WaitingInput, RunLifecycle.Blocked}
      | RunLifecycle.Running \<Rightarrow> n \<in> {RunLifecycle.WaitingInput, RunLifecycle.Blocked}
      | RunLifecycle.WaitingInput \<Rightarrow> n \<in> {RunLifecycle.Running, RunLifecycle.Blocked}
      | RunLifecycle.Blocked \<Rightarrow> n \<in> {RunLifecycle.Running, RunLifecycle.WaitingInput}
      | _ \<Rightarrow> False)"

definition RunLifecycle_terminal_outcome :: "RunLifecycle \<Rightarrow> TerminalOutcome option" where
  "RunLifecycle_terminal_outcome s =
     (case s of
        RunLifecycle.Succeeded \<Rightarrow> Some TerminalOutcome.Succeeded
      | RunLifecycle.Failed \<Rightarrow> Some TerminalOutcome.Failed
      | RunLifecycle.Cancelled \<Rightarrow> Some TerminalOutcome.Cancelled
      | RunLifecycle.Parked \<Rightarrow> Some TerminalOutcome.Parked
      | _ \<Rightarrow> None)"

definition observed_terminal_outcome :: "ObservedRunState \<Rightarrow> TerminalOutcome option" where
  "observed_terminal_outcome s =
     (case s of
        ObservedRunState.Succeeded \<Rightarrow> Some TerminalOutcome.Succeeded
      | ObservedRunState.Failed \<Rightarrow> Some TerminalOutcome.Failed
      | ObservedRunState.Cancelled \<Rightarrow> Some TerminalOutcome.Cancelled
      | _ \<Rightarrow> None)"

definition TerminalOutcome_lifecycle :: "TerminalOutcome \<Rightarrow> RunLifecycle" where
  "TerminalOutcome_lifecycle out =
     (case out of
        TerminalOutcome.Succeeded \<Rightarrow> RunLifecycle.Succeeded
      | TerminalOutcome.Failed \<Rightarrow> RunLifecycle.Failed
      | TerminalOutcome.Cancelled \<Rightarrow> RunLifecycle.Cancelled
      | TerminalOutcome.Parked \<Rightarrow> RunLifecycle.Parked
      | TerminalOutcome.Abandoned \<Rightarrow> RunLifecycle.Parked)"

definition reduce_run_lifecycle :: "RunLifecycle \<Rightarrow> ObservedRunState \<Rightarrow> RunLifecycle" where
  "reduce_run_lifecycle current observed =
     (if RunLifecycle_is_terminal current then current
      else case observed of
        ObservedRunState.Launching \<Rightarrow>
          if current = RunLifecycle.Queued then RunLifecycle.Launching else current
      | ObservedRunState.Running \<Rightarrow>
          if current \<in> {RunLifecycle.Queued, RunLifecycle.Launching, RunLifecycle.WaitingInput,
                        RunLifecycle.Blocked}
          then RunLifecycle.Running else current
      | ObservedRunState.WaitingInput \<Rightarrow>
          if current \<in> {RunLifecycle.Queued, RunLifecycle.Launching, RunLifecycle.Running,
                        RunLifecycle.Blocked}
          then RunLifecycle.WaitingInput else current
      | ObservedRunState.Blocked \<Rightarrow>
          if current \<in> {RunLifecycle.Queued, RunLifecycle.Launching, RunLifecycle.Running,
                        RunLifecycle.WaitingInput}
          then RunLifecycle.Blocked else current
      | _ \<Rightarrow> current)"

section \<open>Conclusions, freshness and contact\<close>

datatype DerivedRunState =
    PendingConfirmation
  | Confirmed
  | Stale
  | Diverged
  | RuntimeUnavailable
  | Orphaned
  | LostContact
  | Terminal (derived_outcome: TerminalOutcome)

definition DerivedRunState_is_terminal :: "DerivedRunState \<Rightarrow> bool" where
  "DerivedRunState_is_terminal d = (case d of DerivedRunState.Terminal _ \<Rightarrow> True | _ \<Rightarrow> False)"

definition DerivedRunState_is_uncertain :: "DerivedRunState \<Rightarrow> bool" where
  "DerivedRunState_is_uncertain d \<longleftrightarrow>
     d \<in> {DerivedRunState.PendingConfirmation, DerivedRunState.Stale, DerivedRunState.Diverged,
          DerivedRunState.RuntimeUnavailable, DerivedRunState.Orphaned,
          DerivedRunState.LostContact}"

primrec DerivedRunState_as_str :: "DerivedRunState \<Rightarrow> string" where
  "DerivedRunState_as_str DerivedRunState.PendingConfirmation = ''pending_confirmation''"
| "DerivedRunState_as_str DerivedRunState.Confirmed = ''confirmed''"
| "DerivedRunState_as_str DerivedRunState.Stale = ''stale''"
| "DerivedRunState_as_str DerivedRunState.Diverged = ''diverged''"
| "DerivedRunState_as_str DerivedRunState.RuntimeUnavailable = ''runtime_unavailable''"
| "DerivedRunState_as_str DerivedRunState.Orphaned = ''orphaned''"
| "DerivedRunState_as_str DerivedRunState.LostContact = ''lost_contact''"
| "DerivedRunState_as_str (DerivedRunState.Terminal out) = ''terminal''"

datatype Freshness =
    Fresh | Stale | Unknown

primrec Freshness_as_str :: "Freshness \<Rightarrow> string" where
  "Freshness_as_str Freshness.Fresh = ''fresh''"
| "Freshness_as_str Freshness.Stale = ''stale''"
| "Freshness_as_str Freshness.Unknown = ''unknown''"

definition Freshness_ALL :: "Freshness list" where
  "Freshness_ALL =
     [Freshness.Fresh, Freshness.Stale, Freshness.Unknown]"

definition Freshness_evaluate ::
  "since \<Rightarrow> timestamp option \<Rightarrow> timestamp \<Rightarrow> duration \<Rightarrow> Freshness" where
  "Freshness_evaluate since last_confirmed_at now max_age =
     (case last_confirmed_at of
        None \<Rightarrow> Freshness.Unknown
      | Some confirmed \<Rightarrow>
          if since now confirmed \<le> max_age then Freshness.Fresh else Freshness.Stale)"

datatype RuntimeContact =
    Reachable | Unavailable | ProcessMissing | StreamClosed

primrec RuntimeContact_as_str :: "RuntimeContact \<Rightarrow> string" where
  "RuntimeContact_as_str RuntimeContact.Reachable = ''reachable''"
| "RuntimeContact_as_str RuntimeContact.Unavailable = ''unavailable''"
| "RuntimeContact_as_str RuntimeContact.ProcessMissing = ''process_missing''"
| "RuntimeContact_as_str RuntimeContact.StreamClosed = ''stream_closed''"

definition RuntimeContact_ALL :: "RuntimeContact list" where
  "RuntimeContact_ALL =
     [RuntimeContact.Reachable, RuntimeContact.Unavailable, RuntimeContact.ProcessMissing,
     RuntimeContact.StreamClosed]"

record NativeRuntimeIdentity =
  ni_runtime_kind :: string
  ni_host :: string
  ni_generation :: u64
  ni_native_id :: string

definition same_session :: "NativeRuntimeIdentity \<Rightarrow> NativeRuntimeIdentity \<Rightarrow> bool" where
  "same_session self other \<longleftrightarrow> self = other"

definition generation_changed :: "NativeRuntimeIdentity \<Rightarrow> NativeRuntimeIdentity \<Rightarrow> bool" where
  "generation_changed self other \<longleftrightarrow>
     ni_runtime_kind self = ni_runtime_kind other \<and> ni_host self = ni_host other
     \<and> ni_generation self \<noteq> ni_generation other"

record RuntimeObservation =
  ro_agent_run_id :: uuid
  ro_state :: ObservedRunState
  ro_identity :: NativeRuntimeIdentity
  ro_cursor :: int
  ro_observed_at :: timestamp
  ro_evidence_hash :: content_hash

section \<open>Closure evidence of one run\<close>

datatype TerminalEvidenceSource =
    RuntimeObservation (cited_cursor: int)
  | OperatorAbandon (cited_receipt: uuid)

record TerminalEvidence =
  te_outcome :: TerminalOutcome
  te_source :: TerminalEvidenceSource
  te_evidence_hash :: content_hash
  te_closed_at :: timestamp

record AbandonReceiptFacts =
  kind_is_abandon :: bool
  targets_aggregate :: bool
  target_revision :: u64
  intent_hash :: content_hash
  recorded_at :: timestamp

definition AbandonReceiptFacts_verify ::
  "AbandonReceiptFacts \<Rightarrow> string \<Rightarrow> u64 \<Rightarrow> content_hash \<Rightarrow> timestamp \<Rightarrow> unit DomainResult" where
  "AbandonReceiptFacts_verify facts subject closing_revision evidence_hash closed_at =
     (if \<not> kind_is_abandon facts
      then Inl (MissingAuthority subject ''the cited receipt is not an abandon command'')
      else if \<not> targets_aggregate facts
      then Inl (MissingAuthority subject ''the cited receipt targets a different aggregate'')
      else if target_revision facts \<noteq> closing_revision
      then Inl (MissingAuthority subject
             ''the cited receipt targets a different revision of this aggregate'')
      else if intent_hash facts \<noteq> evidence_hash
      then Inl (MissingEvidence subject ''the cited receipt has a different intent digest'')
      else if closed_at < recorded_at facts
      then Inl (Invalid ''TerminalEvidence''
             ''closes the aggregate before its receipt was recorded'')
      else Inr ())"

definition TerminalEvidence_validate :: "TerminalEvidence \<Rightarrow> unit DomainResult" where
  "TerminalEvidence_validate ev =
     (case te_source ev of
        TerminalEvidenceSource.OperatorAbandon _ \<Rightarrow>
          if te_outcome ev \<noteq> TerminalOutcome.Abandoned
          then Inl (MissingAuthority ''run closure''
                 ''an operator receipt can only evidence an abandoned run'')
          else Inr ()
      | _ \<Rightarrow> Inr ())"

definition verify_observation ::
  "TerminalEvidence \<Rightarrow> ObservedRunState \<Rightarrow> timestamp \<Rightarrow> content_hash \<Rightarrow> unit DomainResult" where
  "verify_observation ev observed observed_at payload_hash =
     (case observed_terminal_outcome observed of
        None \<Rightarrow> Inl (MissingEvidence ''run closure''
                  ''the cited event is not a terminal runtime report'')
      | Some evidenced \<Rightarrow>
          if evidenced \<noteq> te_outcome ev
          then Inl (MissingEvidence ''run closure''
                 ''the cited event evidences a different outcome'')
          else if payload_hash \<noteq> te_evidence_hash ev
          then Inl (MissingEvidence ''run closure''
                 ''the cited event has a different payload digest'')
          else if te_closed_at ev < observed_at
          then Inl (Invalid ''TerminalEvidence''
                 ''closes the run before its evidence was observed'')
          else Inr ())"

definition TerminalEvidence_verify_abandon ::
  "TerminalEvidence \<Rightarrow> u64 \<Rightarrow> AbandonReceiptFacts \<Rightarrow> unit DomainResult" where
  "TerminalEvidence_verify_abandon ev closing_revision facts =
     try_bind (TerminalEvidence_validate ev) (\<lambda>_.
       AbandonReceiptFacts_verify facts ''run closure'' closing_revision (te_evidence_hash ev)
         (te_closed_at ev))"

section \<open>The conclusion about a run\<close>

record RunDerivation =
  rd_desired :: DesiredRunState
  rd_observation :: "RuntimeObservation option"
  rd_binding :: "NativeRuntimeIdentity option"
  rd_freshness :: Freshness
  rd_contact :: RuntimeContact
  rd_terminal :: "TerminalEvidence option"

definition intent_diverged :: "DesiredRunState \<Rightarrow> ObservedRunState \<Rightarrow> bool" where
  "intent_diverged desired observed \<longleftrightarrow>
     (case desired of
        DesiredRunState.NoIntent \<Rightarrow> observed \<noteq> ObservedRunState.Unknown
      | DesiredRunState.RunRequested \<Rightarrow>
          observed \<in> {ObservedRunState.Cancelled, ObservedRunState.Unknown}
      | DesiredRunState.ParkRequested \<Rightarrow> observed = ObservedRunState.Running
      | _ \<Rightarrow> observed \<in> {ObservedRunState.Running, ObservedRunState.Launching,
                       ObservedRunState.Queued, ObservedRunState.WaitingInput})"

definition derive_run_state :: "RunDerivation \<Rightarrow> DerivedRunState DomainResult" where
  "derive_run_state inp =
     (case rd_terminal inp of
        Some evidence \<Rightarrow>
          try_bind (TerminalEvidence_validate evidence)
            (\<lambda>_. Inr (DerivedRunState.Terminal (te_outcome evidence)))
      | None \<Rightarrow>
      (case rd_contact inp of
         RuntimeContact.Unavailable \<Rightarrow> Inr DerivedRunState.RuntimeUnavailable
       | RuntimeContact.ProcessMissing \<Rightarrow> Inr DerivedRunState.LostContact
       | RuntimeContact.StreamClosed \<Rightarrow> Inr DerivedRunState.LostContact
       | RuntimeContact.Reachable \<Rightarrow>
       (case rd_observation inp of
          None \<Rightarrow> Inr DerivedRunState.PendingConfirmation
        | Some observation \<Rightarrow>
        (case rd_binding inp of
           None \<Rightarrow> Inr DerivedRunState.Orphaned
         | Some binding \<Rightarrow>
           if generation_changed binding (ro_identity observation)
              \<or> \<not> same_session binding (ro_identity observation)
           then Inr DerivedRunState.Orphaned
           else if rd_freshness inp \<noteq> Freshness.Fresh then Inr DerivedRunState.Stale
           else if intent_diverged (rd_desired inp) (ro_state observation)
           then Inr DerivedRunState.Diverged
           else if ro_state observation = ObservedRunState.Unknown
           then Inr DerivedRunState.PendingConfirmation
           else Inr DerivedRunState.Confirmed))))"

record RunProjection =
  rp_lifecycle :: RunLifecycle
  rp_desired :: DesiredRunState
  rp_observed :: ObservedRunState
  rp_derived :: DerivedRunState
  rp_last_confirmed_at :: "timestamp option"
  rp_last_cursor :: "int option"

definition may_reduce :: "u64 option \<Rightarrow> u64 \<Rightarrow> bool" where
  "may_reduce last_applied incoming =
     (case last_applied of None \<Rightarrow> True | Some applied \<Rightarrow> applied < incoming)"

definition RunProjection_is_closed :: "RunProjection \<Rightarrow> bool" where
  "RunProjection_is_closed p = RunLifecycle_is_terminal (rp_lifecycle p)"

definition RunProjection_ensure_open :: "RunProjection \<Rightarrow> string \<Rightarrow> unit DomainResult" where
  "RunProjection_ensure_open p subject =
     (if RunProjection_is_closed p then Inl (DomainError.Terminal subject) else Inr ())"

section \<open>Spellings\<close>

interpretation run_lifecycle: closed_enum "''RunLifecycle''" RunLifecycle_ALL RunLifecycle_as_str
proof
  fix v show "v \<in> set RunLifecycle_ALL" by (cases v) (simp_all add: RunLifecycle_ALL_def)
qed (code_simp)

interpretation desired_run_state: closed_enum "''DesiredRunState''" DesiredRunState_ALL DesiredRunState_as_str
proof
  fix v show "v \<in> set DesiredRunState_ALL" by (cases v) (simp_all add: DesiredRunState_ALL_def)
qed (code_simp)

interpretation observed_run_state: closed_enum "''ObservedRunState''" ObservedRunState_ALL ObservedRunState_as_str
proof
  fix v show "v \<in> set ObservedRunState_ALL" by (cases v) (simp_all add: ObservedRunState_ALL_def)
qed (code_simp)

interpretation terminal_outcome: closed_enum "''TerminalOutcome''" TerminalOutcome_ALL TerminalOutcome_as_str
proof
  fix v show "v \<in> set TerminalOutcome_ALL" by (cases v) (simp_all add: TerminalOutcome_ALL_def)
qed (code_simp)

interpretation freshness: closed_enum "''Freshness''" Freshness_ALL Freshness_as_str
proof
  fix v show "v \<in> set Freshness_ALL" by (cases v) (simp_all add: Freshness_ALL_def)
qed (code_simp)

interpretation runtime_contact: closed_enum "''RuntimeContact''" RuntimeContact_ALL RuntimeContact_as_str
proof
  fix v show "v \<in> set RuntimeContact_ALL" by (cases v) (simp_all add: RuntimeContact_ALL_def)
qed (code_simp)

section \<open>Properties of the run lifecycle\<close>

lemma reduce_never_terminal:
  "\<not> RunLifecycle_is_terminal s \<Longrightarrow> \<not> RunLifecycle_is_terminal (reduce_run_lifecycle s ob)"
  by (cases ob; cases s) (simp_all add: reduce_run_lifecycle_def RunLifecycle_is_terminal_def)

lemma advance_never_terminal:
  "RunLifecycle_can_advance_to s n \<Longrightarrow>
   \<not> RunLifecycle_is_terminal s \<and> \<not> RunLifecycle_is_terminal n \<and> s \<noteq> n"
  by (cases s; cases n) (simp_all add: RunLifecycle_can_advance_to_def RunLifecycle_is_terminal_def)

lemma reduce_at_most_two_advances:
  "reduce_run_lifecycle s ob = s
   \<or> RunLifecycle_can_advance_to s (reduce_run_lifecycle s ob)
   \<or> (s = RunLifecycle.Queued \<and> RunLifecycle_can_advance_to s RunLifecycle.Launching
      \<and> RunLifecycle_can_advance_to RunLifecycle.Launching (reduce_run_lifecycle s ob))"
  by (cases ob; cases s)
    (simp_all add: reduce_run_lifecycle_def RunLifecycle_is_terminal_def
      RunLifecycle_can_advance_to_def)

lemma reduce_path: "RunLifecycle_can_advance_to\<^sup>*\<^sup>* s (reduce_run_lifecycle s ob)"
  using reduce_at_most_two_advances [of s ob]
  by (metis converse_rtranclp_into_rtranclp r_into_rtranclp rtranclp.rtrancl_refl)

lemma reduce_idem: "reduce_run_lifecycle (reduce_run_lifecycle s ob) ob = reduce_run_lifecycle s ob"
  by (cases ob; cases s) (simp_all add: reduce_run_lifecycle_def RunLifecycle_is_terminal_def)

lemma outcome_lifecycle_round_trip:
  "RunLifecycle_terminal_outcome s = Some out \<Longrightarrow> TerminalOutcome_lifecycle out = s"
  by (cases s)
    (simp_all add: RunLifecycle_terminal_outcome_def TerminalOutcome_lifecycle_def split: prod.splits)

lemma advances_stay_open:
  "RunLifecycle_can_advance_to\<^sup>*\<^sup>* s n \<Longrightarrow> \<not> RunLifecycle_is_terminal s \<Longrightarrow>
   \<not> RunLifecycle_is_terminal n"
  by (induction rule: rtranclp_induct) (auto dest: advance_never_terminal)

lemma derive_not_terminal_without_evidence:
  "rd_terminal inp = None \<Longrightarrow> derive_run_state inp = Inr d \<Longrightarrow> \<not> DerivedRunState_is_terminal d"
  by (auto simp: derive_run_state_def DerivedRunState_is_terminal_def
      split: RuntimeContact.splits option.splits if_splits)

section \<open>Claims\<close>

text \<open>Reducing a runtime observation moves a run only along the declared advance table (in
  at most a path of legal advances), never makes an open run terminal or a terminal run open, and
  a repeated delivery of the same observation changes nothing.\<close>

theorem reduction_follows_table:
  "RunLifecycle_can_advance_to\<^sup>*\<^sup>* s (reduce_run_lifecycle s ob)
   \<and> (RunLifecycle_is_terminal (reduce_run_lifecycle s ob) \<longleftrightarrow> RunLifecycle_is_terminal s)
   \<and> reduce_run_lifecycle (reduce_run_lifecycle s ob) ob = reduce_run_lifecycle s ob"
  using reduce_path reduce_idem reduce_never_terminal
  by (auto simp: reduce_run_lifecycle_def)

text \<open>C39: A run is concluded terminal exactly when closure evidence is present that an operator
  receipt may carry only for an abandoned run; no observation, contact result or freshness can
  conclude it.\<close>

theorem terminal_only_on_evidence:
  "derive_run_state inp = Inr (DerivedRunState.Terminal out) \<longleftrightarrow>
     (\<exists>ev. rd_terminal inp = Some ev \<and> te_outcome ev = out
        \<and> (\<forall>r. te_source ev = TerminalEvidenceSource.OperatorAbandon r
             \<longrightarrow> out = TerminalOutcome.Abandoned))"
proof (cases "rd_terminal inp")
  case None
  then show ?thesis
    using derive_not_terminal_without_evidence [OF None]
    by (auto simp: DerivedRunState_is_terminal_def)
next
  case (Some ev)
  then show ?thesis
    by (auto simp: derive_run_state_def TerminalEvidence_validate_def
        split: TerminalEvidenceSource.splits)
qed

definition sample_derivation :: "TerminalEvidenceSource \<Rightarrow> TerminalOutcome \<Rightarrow> RunDerivation" where
  "sample_derivation src out =
     \<lparr>rd_desired = DesiredRunState.CancelRequested, rd_observation = None, rd_binding = None,
      rd_freshness = Freshness.Unknown, rd_contact = RuntimeContact.ProcessMissing,
      rd_terminal = Some \<lparr>te_outcome = out, te_source = src, te_evidence_hash = ''e'',
        te_closed_at = 10\<rparr>\<rparr>"

theorem terminal_only_on_evidence_witness:
  "derive_run_state (sample_derivation (TerminalEvidenceSource.OperatorAbandon 7)
      TerminalOutcome.Abandoned) = Inr (DerivedRunState.Terminal TerminalOutcome.Abandoned)
   \<and> derive_run_state (sample_derivation (TerminalEvidenceSource.OperatorAbandon 7)
      TerminalOutcome.Succeeded) \<noteq> Inr (DerivedRunState.Terminal TerminalOutcome.Succeeded)"
  unfolding terminal_only_on_evidence by (simp add: sample_derivation_def)

end
