(* ===== verification/Task_Lifecycle.thy ===== *)
theory Task_Lifecycle
  imports Run_Lifecycle
begin

text \<open>
  \<^verbatim>\<open>crates/kontor-core/src/state.rs\<close>, task part: the task lifecycle with its transition table,
  the conclusion about a seat's attachment, the certificates a transition presents, the transition
  function with every refusal, and the gate states of a work profile.
\<close>

section \<open>Task states\<close>

datatype TaskState =
    Draft | Todo | Ready | InProgress | Blocked | Parked | NeedsHuman | Done | Failed |
    Cancelled | Withdrawn

primrec TaskState_as_str :: "TaskState \<Rightarrow> string" where
  "TaskState_as_str TaskState.Draft = ''draft''"
| "TaskState_as_str TaskState.Todo = ''todo''"
| "TaskState_as_str TaskState.Ready = ''ready''"
| "TaskState_as_str TaskState.InProgress = ''in_progress''"
| "TaskState_as_str TaskState.Blocked = ''blocked''"
| "TaskState_as_str TaskState.Parked = ''parked''"
| "TaskState_as_str TaskState.NeedsHuman = ''needs_human''"
| "TaskState_as_str TaskState.Done = ''done''"
| "TaskState_as_str TaskState.Failed = ''failed''"
| "TaskState_as_str TaskState.Cancelled = ''cancelled''"
| "TaskState_as_str TaskState.Withdrawn = ''withdrawn''"

definition TaskState_ALL :: "TaskState list" where
  "TaskState_ALL =
     [TaskState.Draft, TaskState.Todo, TaskState.Ready, TaskState.InProgress,
     TaskState.Blocked, TaskState.Parked, TaskState.NeedsHuman, TaskState.Done,
     TaskState.Failed, TaskState.Cancelled, TaskState.Withdrawn]"

datatype ImportedTaskState =
    Ready | Completed

primrec ImportedTaskState_as_str :: "ImportedTaskState \<Rightarrow> string" where
  "ImportedTaskState_as_str ImportedTaskState.Ready = ''ready''"
| "ImportedTaskState_as_str ImportedTaskState.Completed = ''completed''"

definition ImportedTaskState_ALL :: "ImportedTaskState list" where
  "ImportedTaskState_ALL =
     [ImportedTaskState.Ready, ImportedTaskState.Completed]"

definition ImportedTaskState_task_state :: "ImportedTaskState \<Rightarrow> TaskState" where
  "ImportedTaskState_task_state s =
     (case s of
        ImportedTaskState.Ready \<Rightarrow> TaskState.Ready
      | ImportedTaskState.Completed \<Rightarrow> TaskState.Done)"

definition is_historical_completion :: "ImportedTaskState \<Rightarrow> bool" where
  "is_historical_completion s \<longleftrightarrow> s = ImportedTaskState.Completed"

definition TaskState_is_terminal :: "TaskState \<Rightarrow> bool" where
  "TaskState_is_terminal s \<longleftrightarrow>
     s \<in> {TaskState.Done, TaskState.Failed, TaskState.Cancelled, TaskState.Withdrawn}"

definition requires_resume_command :: "TaskState \<Rightarrow> bool" where
  "requires_resume_command s \<longleftrightarrow>
     s \<in> {TaskState.Blocked, TaskState.Parked, TaskState.NeedsHuman}"

definition is_reopenable :: "TaskState \<Rightarrow> bool" where
  "is_reopenable s \<longleftrightarrow> s = TaskState.Done"

definition can_transition_to :: "TaskState \<Rightarrow> TaskState \<Rightarrow> bool" where
  "can_transition_to s n \<longleftrightarrow>
     (case s of
        TaskState.Draft \<Rightarrow> n \<in> {TaskState.Todo, TaskState.Cancelled, TaskState.Withdrawn}
      | TaskState.Todo \<Rightarrow>
          n \<in> {TaskState.Ready, TaskState.Blocked, TaskState.Parked, TaskState.NeedsHuman,
               TaskState.Cancelled, TaskState.Withdrawn}
      | TaskState.Ready \<Rightarrow>
          n \<in> {TaskState.InProgress, TaskState.Blocked, TaskState.Parked, TaskState.NeedsHuman,
               TaskState.Todo, TaskState.Done, TaskState.Cancelled, TaskState.Withdrawn}
      | TaskState.InProgress \<Rightarrow>
          n \<in> {TaskState.Blocked, TaskState.Parked, TaskState.NeedsHuman, TaskState.Done,
               TaskState.Failed, TaskState.Cancelled, TaskState.Ready}
      | TaskState.Blocked \<Rightarrow> n \<in> {TaskState.Ready, TaskState.Cancelled, TaskState.Withdrawn}
      | TaskState.Parked \<Rightarrow> n \<in> {TaskState.Ready, TaskState.Cancelled}
      | TaskState.NeedsHuman \<Rightarrow> n \<in> {TaskState.Ready, TaskState.Cancelled}
      | TaskState.Done \<Rightarrow> n = TaskState.Ready
      | _ \<Rightarrow> False)"

section \<open>Seat attachment\<close>

datatype SeatAttachment =
    Pending | Attached | AttachmentFailed | Orphaned | Stalled | Released

primrec SeatAttachment_as_str :: "SeatAttachment \<Rightarrow> string" where
  "SeatAttachment_as_str SeatAttachment.Pending = ''pending''"
| "SeatAttachment_as_str SeatAttachment.Attached = ''attached''"
| "SeatAttachment_as_str SeatAttachment.AttachmentFailed = ''attachment_failed''"
| "SeatAttachment_as_str SeatAttachment.Orphaned = ''orphaned''"
| "SeatAttachment_as_str SeatAttachment.Stalled = ''stalled''"
| "SeatAttachment_as_str SeatAttachment.Released = ''released''"

definition SeatAttachment_ALL :: "SeatAttachment list" where
  "SeatAttachment_ALL =
     [SeatAttachment.Pending, SeatAttachment.Attached, SeatAttachment.AttachmentFailed,
     SeatAttachment.Orphaned, SeatAttachment.Stalled, SeatAttachment.Released]"

definition is_executing :: "SeatAttachment \<Rightarrow> bool" where
  "is_executing a \<longleftrightarrow> a = SeatAttachment.Attached"

definition is_excluded :: "SeatAttachment \<Rightarrow> bool" where
  "is_excluded a \<longleftrightarrow>
     a \<in> {SeatAttachment.Orphaned, SeatAttachment.AttachmentFailed, SeatAttachment.Released}"

definition SeatAttachment_requires_human :: "SeatAttachment \<Rightarrow> bool" where
  "SeatAttachment_requires_human a \<longleftrightarrow> a = SeatAttachment.Stalled"

definition can_hold_progress :: "SeatAttachment \<Rightarrow> bool" where
  "can_hold_progress a \<longleftrightarrow> a \<in> {SeatAttachment.Attached, SeatAttachment.Pending}"

record SeatAttachmentObservation =
  attach_deadline :: timestamp
  last_attached_at :: "timestamp option"
  last_activity_at :: "timestamp option"
  parent_closed :: bool
  seat_released :: bool
  runtime_reported :: ObservedRunState

definition evaluate_seat_attachment ::
  "since \<Rightarrow> SeatAttachmentObservation \<Rightarrow> timestamp \<Rightarrow> duration \<Rightarrow> SeatAttachment" where
  "evaluate_seat_attachment since observation now max_idle =
     (if seat_released observation then SeatAttachment.Released
      else if parent_closed observation then SeatAttachment.Orphaned
      else if last_attached_at observation = None
      then (if attach_deadline observation < now then SeatAttachment.AttachmentFailed
            else SeatAttachment.Pending)
      else case Freshness_evaluate since (last_activity_at observation) now max_idle of
             Freshness.Fresh \<Rightarrow> SeatAttachment.Attached
           | _ \<Rightarrow> SeatAttachment.Stalled)"

section \<open>Certificates\<close>

text \<open>
  Both certificates have a private field and a crate-private constructor; the values below are
  produced by \<open>certify_task_progress\<close> and, in the work profile theory, by \<open>certify_closure\<close>.
\<close>

datatype TaskClosureCertificate = IssuedClosure

datatype TaskProgressEvidence = IssuedProgress

definition certify_task_progress ::
  "RunLifecycle \<Rightarrow> SeatAttachment list \<Rightarrow> TaskProgressEvidence DomainResult" where
  "certify_task_progress run seats =
     (if RunLifecycle_is_terminal run
      then Inl (MissingEvidence ''task progress'' ''a closed run is not work in progress'')
      else if seats \<noteq> [] \<and> \<not> list_ex can_hold_progress seats
      then Inl (MissingEvidence ''task progress''
             ''every seat has failed to attach, orphaned, stalled or been released'')
      else Inr IssuedProgress)"

datatype TaskTeamClosure =
    NoTeam
  | Certified (closed_team_run: uuid) (closed_policy_digest: content_hash)

section \<open>Transitions\<close>

record TaskTransition =
  tt_to :: TaskState
  tt_resume_receipt :: "uuid option"
  tt_reopen :: "uuid option"
  tt_run_outcome :: "TerminalOutcome option"
  tt_closure :: "TaskClosureCertificate option"
  tt_progress :: "TaskProgressEvidence option"

definition TaskTransition_to :: "TaskState \<Rightarrow> TaskTransition" where
  "TaskTransition_to s =
     \<lparr>tt_to = s, tt_resume_receipt = None, tt_reopen = None, tt_run_outcome = None,
      tt_closure = None, tt_progress = None\<rparr>"

definition illegal_task :: "string \<Rightarrow> TaskState \<Rightarrow> TaskState \<Rightarrow> 'a DomainResult" where
  "illegal_task subject from to =
     Inl (IllegalTransition subject (TaskState_as_str from) (TaskState_as_str to))"

definition reopen_guard :: "TaskState \<Rightarrow> TaskTransition \<Rightarrow> unit DomainResult" where
  "reopen_guard from tr =
     (if TaskState_is_terminal from
      then (case tt_reopen tr of
              None \<Rightarrow> Inl (DomainError.Terminal ''task'')
            | Some _ \<Rightarrow>
                if \<not> is_reopenable from then illegal_task ''task reopen'' from (tt_to tr)
                else if tt_to tr \<noteq> TaskState.Ready
                then illegal_task ''task reopen'' from (tt_to tr)
                else Inr ())
      else if tt_reopen tr \<noteq> None then illegal_task ''task reopen'' from (tt_to tr)
      else Inr ())"

definition transition_evidence :: "TaskTransition \<Rightarrow> unit DomainResult" where
  "transition_evidence tr =
     (case tt_to tr of
        TaskState.Done \<Rightarrow>
          if tt_closure tr = None
          then Inl (MissingEvidence ''task completion''
                 ''every required phase, gate and artifact must pass or be waived'')
          else Inr ()
      | TaskState.Failed \<Rightarrow>
          if tt_run_outcome tr \<noteq> Some TerminalOutcome.Failed
          then Inl (MissingEvidence ''task failure'' ''the current run must be closed failed'')
          else Inr ()
      | TaskState.InProgress \<Rightarrow>
          if tt_progress tr = None
          then Inl (MissingEvidence ''task progress''
                 ''a dispatched run with at least one attached seat must be observed'')
          else Inr ()
      | _ \<Rightarrow> Inr ())"

definition apply_task_transition :: "TaskState \<Rightarrow> TaskTransition \<Rightarrow> TaskState DomainResult" where
  "apply_task_transition from tr =
     try_bind (reopen_guard from tr) (\<lambda>_.
     if \<not> can_transition_to from (tt_to tr) then illegal_task ''task'' from (tt_to tr)
     else if requires_resume_command from \<and> tt_to tr = TaskState.Ready
             \<and> tt_resume_receipt tr = None
     then Inl (MissingAuthority ''task resume''
            ''leaving blocked, parked or needs_human requires a command receipt'')
     else try_bind (transition_evidence tr) (\<lambda>_. Inr (tt_to tr)))"

section \<open>Gates\<close>

datatype GateState =
    NotReady | Ready | Active | Passed | Rejected | Waived | Parked

primrec GateState_as_str :: "GateState \<Rightarrow> string" where
  "GateState_as_str GateState.NotReady = ''not_ready''"
| "GateState_as_str GateState.Ready = ''ready''"
| "GateState_as_str GateState.Active = ''active''"
| "GateState_as_str GateState.Passed = ''passed''"
| "GateState_as_str GateState.Rejected = ''rejected''"
| "GateState_as_str GateState.Waived = ''waived''"
| "GateState_as_str GateState.Parked = ''parked''"

definition GateState_ALL :: "GateState list" where
  "GateState_ALL =
     [GateState.NotReady, GateState.Ready, GateState.Active, GateState.Passed,
     GateState.Rejected, GateState.Waived, GateState.Parked]"

definition satisfies_requirement :: "GateState \<Rightarrow> bool" where
  "satisfies_requirement g \<longleftrightarrow> g \<in> {GateState.Passed, GateState.Waived}"

datatype GateVerdict =
    Started | Passed | Rejected | Waived | Parked

primrec GateVerdict_as_str :: "GateVerdict \<Rightarrow> string" where
  "GateVerdict_as_str GateVerdict.Started = ''started''"
| "GateVerdict_as_str GateVerdict.Passed = ''passed''"
| "GateVerdict_as_str GateVerdict.Rejected = ''rejected''"
| "GateVerdict_as_str GateVerdict.Waived = ''waived''"
| "GateVerdict_as_str GateVerdict.Parked = ''parked''"

definition GateVerdict_ALL :: "GateVerdict list" where
  "GateVerdict_ALL =
     [GateVerdict.Started, GateVerdict.Passed, GateVerdict.Rejected, GateVerdict.Waived,
     GateVerdict.Parked]"

definition resulting_state :: "GateVerdict \<Rightarrow> GateState" where
  "resulting_state v =
     (case v of
        GateVerdict.Started \<Rightarrow> GateState.Active
      | GateVerdict.Passed \<Rightarrow> GateState.Passed
      | GateVerdict.Rejected \<Rightarrow> GateState.Rejected
      | GateVerdict.Waived \<Rightarrow> GateState.Waived
      | GateVerdict.Parked \<Rightarrow> GateState.Parked)"

definition requires_evidence :: "GateVerdict \<Rightarrow> bool" where
  "requires_evidence v \<longleftrightarrow> v \<in> {GateVerdict.Passed, GateVerdict.Waived}"

section \<open>Spellings\<close>

interpretation task_state: closed_enum "''TaskState''" TaskState_ALL TaskState_as_str
proof
  fix v show "v \<in> set TaskState_ALL" by (cases v) (simp_all add: TaskState_ALL_def)
qed (code_simp)

interpretation imported_task_state: closed_enum "''ImportedTaskState''" ImportedTaskState_ALL ImportedTaskState_as_str
proof
  fix v show "v \<in> set ImportedTaskState_ALL" by (cases v) (simp_all add: ImportedTaskState_ALL_def)
qed (code_simp)

interpretation seat_attachment: closed_enum "''SeatAttachment''" SeatAttachment_ALL SeatAttachment_as_str
proof
  fix v show "v \<in> set SeatAttachment_ALL" by (cases v) (simp_all add: SeatAttachment_ALL_def)
qed (code_simp)

interpretation gate_state: closed_enum "''GateState''" GateState_ALL GateState_as_str
proof
  fix v show "v \<in> set GateState_ALL" by (cases v) (simp_all add: GateState_ALL_def)
qed (code_simp)

interpretation gate_verdict: closed_enum "''GateVerdict''" GateVerdict_ALL GateVerdict_as_str
proof
  fix v show "v \<in> set GateVerdict_ALL" by (cases v) (simp_all add: GateVerdict_ALL_def)
qed (code_simp)

section \<open>Properties of the transition function\<close>

lemma transition_evidence_Inr [step_simps]:
  "transition_evidence tr = Inr u \<longleftrightarrow>
     (tt_to tr = TaskState.Done \<longrightarrow> tt_closure tr \<noteq> None)
     \<and> (tt_to tr = TaskState.Failed \<longrightarrow> tt_run_outcome tr = Some TerminalOutcome.Failed)
     \<and> (tt_to tr = TaskState.InProgress \<longrightarrow> tt_progress tr \<noteq> None)"
  by (auto simp: transition_evidence_def split: TaskState.splits)

lemma reopen_guard_Inr [step_simps]:
  "reopen_guard from tr = Inr u \<longleftrightarrow>
     (if TaskState_is_terminal from
      then tt_reopen tr \<noteq> None \<and> from = TaskState.Done \<and> tt_to tr = TaskState.Ready
      else tt_reopen tr = None)"
  by (auto simp: reopen_guard_def is_reopenable_def illegal_task_def split: option.splits)

lemma apply_task_transition_Inr:
  "apply_task_transition from tr = Inr s \<longleftrightarrow>
     s = tt_to tr \<and> reopen_guard from tr = Inr () \<and> can_transition_to from (tt_to tr)
     \<and> (requires_resume_command from \<and> tt_to tr = TaskState.Ready
         \<longrightarrow> tt_resume_receipt tr \<noteq> None)
     \<and> transition_evidence tr = Inr ()"
  by (auto simp: apply_task_transition_def illegal_task_def split: if_splits)

lemma terminal_needs_reopen:
  "TaskState_is_terminal from \<Longrightarrow> apply_task_transition from tr = Inr s \<Longrightarrow>
   from = TaskState.Done \<and> s = TaskState.Ready \<and> tt_reopen tr \<noteq> None"
  by (simp add: apply_task_transition_Inr step_simps)

lemma terminal_run_stays:
  assumes "TaskState_is_terminal s" and "list_all (\<lambda>tr. tt_reopen tr = None) trs"
    and "try_run apply_task_transition s trs = Inr t"
  shows "trs = [] \<and> t = s"
  using assms by (cases trs) (auto dest: terminal_needs_reopen)

lemma evaluate_attached:
  "evaluate_seat_attachment since ob now max_idle = SeatAttachment.Attached \<longleftrightarrow>
     \<not> seat_released ob \<and> \<not> parent_closed ob \<and> last_attached_at ob \<noteq> None
     \<and> (\<exists>t. last_activity_at ob = Some t \<and> since now t \<le> max_idle)"
  by (auto simp: evaluate_seat_attachment_def Freshness_evaluate_def split: option.splits)

section \<open>Claims\<close>



text \<open>Transitions are attempted one after the other; a refused one leaves the task as it was.\<close>

definition attempt_transition :: "TaskState \<Rightarrow> TaskTransition \<Rightarrow> TaskState" where
  "attempt_transition s tr = (case apply_task_transition s tr of Inl _ \<Rightarrow> s | Inr s' \<Rightarrow> s')"

text \<open>A terminal task is immutable over any sequence of attempted transitions: failed,
  cancelled and withdrawn tasks whatever is presented, done tasks as long as no reopen authority
  is.\<close>

theorem terminal_task_immutable:
  assumes "TaskState_is_terminal s"
    and "s = TaskState.Done \<longrightarrow> (\<forall>tr \<in> set trs. tt_reopen tr = None)"
  shows "foldl attempt_transition s trs = s"
  using assms(2)
proof (induction trs)
  case (Cons tr trs)
  have "attempt_transition s tr = s"
    using terminal_needs_reopen [OF assms(1), of tr] Cons.prems
    by (auto simp: attempt_transition_def split: sum.splits)
  with Cons show ?case by simp
qed simp

theorem terminal_task_immutable_witness:
  "foldl attempt_transition TaskState.Failed
     [(TaskTransition_to TaskState.Ready)\<lparr>tt_reopen := Some 1\<rparr>, TaskTransition_to TaskState.Cancelled]
   = TaskState.Failed"
  by (rule terminal_task_immutable) (simp_all add: TaskState_is_terminal_def)

text \<open>The conclusion about a seat's attachment never depends on what the runtime says of
  itself, and a seat can hold a task in progress exactly while it is not released, its owner is
  open, and it is either still inside its attachment deadline or attached with activity inside the
  declared bound.\<close>

theorem seat_progress_exact:
  "evaluate_seat_attachment since (ob\<lparr>runtime_reported := r\<rparr>) now max_idle
     = evaluate_seat_attachment since ob now max_idle
   \<and> (can_hold_progress (evaluate_seat_attachment since ob now max_idle) \<longleftrightarrow>
       \<not> seat_released ob \<and> \<not> parent_closed ob
       \<and> (case last_attached_at ob of
            None \<Rightarrow> now \<le> attach_deadline ob
          | Some _ \<Rightarrow> (\<exists>t. last_activity_at ob = Some t \<and> since now t \<le> max_idle)))"
  by (auto simp: evaluate_seat_attachment_def Freshness_evaluate_def can_hold_progress_def
      split: option.splits)

end
