(* ===== verification/Work_Profile.thy ===== *)
theory Work_Profile
  imports Phase_Graph Context_Window Task_Lifecycle
begin

text \<open>
  \<^verbatim>\<open>WorkProfileSpec\<close> and \<^verbatim>\<open>ResolvedWorkProfileSnapshot\<close> of \<^verbatim>\<open>crates/kontor-core/src/spec.rs\<close>: the
  phases, gates and artifact contracts of a profile, its validation rule by rule, and the
  certificate a task needs to close.  \<open>well_formed\<close> states declaratively what validation
  accepts.  The canonical digest of a profile is the argument \<open>digest\<close>.
\<close>

section \<open>The profile document\<close>

datatype ArtifactContentType = Document | Link | CodeChange | Report | Image | Dataset

record ArtifactContractSpec =
  ac_key :: string
  ac_label :: string
  ac_producer_phase :: PhaseKey
  ac_content_type :: ArtifactContentType
  ac_evidence_required :: bool

record PhaseSpec =
  ph_id :: PhaseKey
  ph_label :: string
  ph_required_artifacts :: "string list"
  ph_gates :: "string list"
  ph_rejection_route :: "PhaseKey option"

record GateSpec =
  ga_id :: string
  ga_phase :: PhaseKey
  ga_evaluator_roles :: "string list"
  ga_required_evidence :: "string list"
  ga_rejection_target :: PhaseKey
  ga_waiver_allowed :: bool
  ga_waiver_roles :: "string list"

record RoleRef =
  rr_role :: string
  rr_version :: u32

record SkillRef =
  sr_skill :: string
  sr_version :: u32

record TeamTemplateRef =
  tr_template_id :: uuid
  tr_version :: u32

record RuntimeRoutingRef =
  rt_runtime_kind :: string
  rt_version :: u32

record CalendarPolicyRef =
  cp_profile_id :: uuid
  cp_version :: u32

record ExternalWorkflowRef =
  ew_connector :: string
  ew_project :: string
  ew_issue_type :: string
  ew_version :: u32

record WorkProfileSpec =
  wp_schema_version :: u32
  wp_id :: string
  wp_version :: u32
  wp_name :: string
  wp_phases :: "PhaseSpec list"
  wp_edges :: "PhaseEdge list"
  wp_entry_phase :: PhaseKey
  wp_terminal_phases :: "PhaseKey list"
  wp_roles :: "RoleRef list"
  wp_skills :: "SkillRef list"
  wp_team_template :: "TeamTemplateRef option"
  wp_artifacts :: "ArtifactContractSpec list"
  wp_gates :: "GateSpec list"
  wp_runtime_routing :: RuntimeRoutingRef
  wp_budget_defaults :: BudgetBounds
  wp_calendar_policy :: "CalendarPolicyRef option"
  wp_external_workflow :: "ExternalWorkflowRef option"
  wp_context_window :: "ContextWindowPolicy option"

definition MAX_PHASES :: nat where "MAX_PHASES = 256"
definition MAX_GATES :: nat where "MAX_GATES = 256"

abbreviation profile_error :: "string \<Rightarrow> DomainError" where
  "profile_error rule \<equiv> Invalid ''WorkProfileSpec'' rule"

section \<open>Validation\<close>

definition validate_inventory :: "WorkProfileSpec \<Rightarrow> unit DomainResult" where
  "validate_inventory w = checks
     [require (wp_phases w \<noteq> []) (profile_error ''must declare at least one phase''),
      require (length (wp_phases w) \<le> MAX_PHASES)
        (profile_error ''declares more phases than the bound allows''),
      require (length (wp_gates w) \<le> MAX_GATES)
        (profile_error ''declares more gates than the bound allows''),
      require (distinct (map ph_id (wp_phases w)))
        (profile_error ''declares a duplicate phase id''),
      require (distinct (map ga_id (wp_gates w)))
        (profile_error ''declares a duplicate gate id''),
      require (distinct (map ac_key (wp_artifacts w)))
        (profile_error ''declares a duplicate artifact contract'')]"

definition validate_terminal :: "PhaseGraph \<Rightarrow> PhaseKey \<Rightarrow> unit DomainResult" where
  "validate_terminal g terminal = checks
     [require (graph_contains g terminal) (profile_error ''a terminal phase is not declared''),
      require (adj (g_successors g) terminal = [])
        (profile_error ''a terminal phase must have no outgoing edge'')]"

definition validate_rejection_route :: "PhaseGraph \<Rightarrow> PhaseSpec \<Rightarrow> unit DomainResult" where
  "validate_rejection_route g phase =
     (case ph_rejection_route phase of
        None \<Rightarrow> Inr ()
      | Some route \<Rightarrow> ensure_strict_ancestor g route (ph_id phase) ''phase rejection'')"

definition validate_shape :: "PhaseGraph \<Rightarrow> WorkProfileSpec \<Rightarrow> unit DomainResult" where
  "validate_shape g w = checks
     [require (graph_contains g (wp_entry_phase w))
        (profile_error ''the entry phase is not declared''),
      require (adj (g_predecessors g) (wp_entry_phase w) = [])
        (profile_error ''the entry phase must have no incoming edge''),
      require (wp_terminal_phases w \<noteq> [])
        (profile_error ''must declare at least one terminal phase''),
      require (length (remdups (wp_terminal_phases w)) = length (wp_terminal_phases w))
        (profile_error ''declares a duplicate terminal phase''),
      try_each (validate_terminal g) (sort (remdups (wp_terminal_phases w))),
      try_each (\<lambda>p. require
          (\<not> (map_of (g_successors g) p = Some [] \<and> p \<notin> set (wp_terminal_phases w)))
          (profile_error ''a phase without outgoing edges is not declared terminal''))
        (g_order g),
      reject_cycles g,
      require (length (reachable_from g (wp_entry_phase w)) = length (g_order g))
        (profile_error ''a phase is unreachable from the entry phase''),
      require (length (co_reachable_from g (wp_terminal_phases w)) = length (g_order g))
        (profile_error ''a phase cannot reach a terminal phase''),
      try_each (validate_rejection_route g) (wp_phases w)]"

definition validate_waiver :: "string set \<Rightarrow> GateSpec \<Rightarrow> unit DomainResult" where
  "validate_waiver declared gate =
     (if ga_waiver_allowed gate
      then checks
        [require (ga_waiver_roles gate \<noteq> [])
           (MissingAuthority ''gate waiver'' ''a waivable gate must declare waiver authority''),
         try_each (\<lambda>role. checks
           [require (role \<in> declared)
              (profile_error ''a gate references an undeclared waiver role''),
            require (role \<notin> set (ga_evaluator_roles gate))
              (MissingAuthority ''gate waiver''
                 ''waiver authority must be distinct from evaluator authority'')])
           (ga_waiver_roles gate)]
      else require (ga_waiver_roles gate = [])
        (profile_error ''a non-waivable gate must not declare waiver authority''))"

definition validate_gate :: "PhaseGraph \<Rightarrow> WorkProfileSpec \<Rightarrow> GateSpec \<Rightarrow> unit DomainResult" where
  "validate_gate g w gate = checks
     [require (graph_contains g (ga_phase gate))
        (profile_error ''a gate references an undeclared phase''),
      require (ga_evaluator_roles gate \<noteq> [])
        (MissingAuthority ''gate'' ''a gate must declare at least one evaluator role''),
      require (length (remdups (ga_evaluator_roles gate)) = length (ga_evaluator_roles gate))
        (profile_error ''a gate lists a duplicate evaluator role''),
      try_each (\<lambda>role. require (role \<in> rr_role ` set (wp_roles w))
          (profile_error ''a gate references an undeclared role''))
        (ga_evaluator_roles gate),
      validate_waiver (rr_role ` set (wp_roles w)) gate,
      try_each (\<lambda>evidence. require (evidence \<in> ac_key ` set (wp_artifacts w))
          (profile_error ''a gate requires evidence with no artifact contract''))
        (ga_required_evidence gate),
      ensure_strict_ancestor g (ga_rejection_target gate) (ga_phase gate) ''gate rejection'']"

definition validate_gates :: "PhaseGraph \<Rightarrow> WorkProfileSpec \<Rightarrow> unit DomainResult" where
  "validate_gates g w = checks
     [try_each (\<lambda>phase. try_each (\<lambda>gate. require (gate \<in> ga_id ` set (wp_gates w))
            (profile_error ''a phase references an undeclared gate'')) (ph_gates phase))
        (wp_phases w),
      try_each (validate_gate g w) (wp_gates w)]"

text \<open>The contract map keeps the last contract of a key, as collecting into a map does.\<close>

definition contract_of :: "WorkProfileSpec \<Rightarrow> string \<Rightarrow> ArtifactContractSpec option" where
  "contract_of w key = map_of (rev (map (\<lambda>a. (ac_key a, a)) (wp_artifacts w))) key"

definition validate_required_artifact :: "WorkProfileSpec \<Rightarrow> string \<Rightarrow> unit DomainResult" where
  "validate_required_artifact w required =
     (case contract_of w required of
        None \<Rightarrow> Inl (profile_error ''a required artifact has no producing contract'')
      | Some contract \<Rightarrow>
          require (ac_evidence_required contract)
            (MissingEvidence ''artifact contract''
               ''a required artifact must carry an evidence contract''))"

definition validate_artifacts :: "WorkProfileSpec \<Rightarrow> unit DomainResult" where
  "validate_artifacts w = checks
     [try_each (\<lambda>artifact. require (ac_producer_phase artifact \<in> ph_id ` set (wp_phases w))
          (profile_error ''an artifact contract names an undeclared producer phase''))
        (wp_artifacts w),
      try_each (\<lambda>phase. try_each (validate_required_artifact w) (ph_required_artifacts phase))
        (wp_phases w)]"

definition WorkProfileSpec_validate :: "WorkProfileSpec \<Rightarrow> unit DomainResult" where
  "WorkProfileSpec_validate w =
     try_bind (validate_inventory w) (\<lambda>_.
     try_bind (PhaseGraph_build (map ph_id (wp_phases w)) (wp_edges w)) (\<lambda>graph.
     try_bind (validate_shape graph w) (\<lambda>_.
     try_bind (validate_gates graph w) (\<lambda>_.
     try_bind (validate_artifacts w) (\<lambda>_.
       BudgetBounds_validate (wp_budget_defaults w))))))"

definition WorkProfileSpec_canonicalize ::
  "WorkProfileSpec digest \<Rightarrow> WorkProfileSpec \<Rightarrow> content_hash DomainResult" where
  "WorkProfileSpec_canonicalize digest w =
     try_bind (WorkProfileSpec_validate w) (\<lambda>_. digest w)"

definition gates_of :: "WorkProfileSpec \<Rightarrow> PhaseKey \<Rightarrow> GateSpec list" where
  "gates_of w phase = filter (\<lambda>g. ga_phase g = phase) (wp_gates w)"

definition gate_lookup :: "WorkProfileSpec \<Rightarrow> string \<Rightarrow> GateSpec option" where
  "gate_lookup w gate = find (\<lambda>g. ga_id g = gate) (wp_gates w)"

section \<open>The frozen snapshot and closure\<close>

record ResolvedWorkProfileSnapshot =
  rs_schema_version :: u32
  rs_definition :: WorkProfileSpec
  rs_definition_hash :: content_hash
  rs_resolved_at :: timestamp

definition snapshot_resolve ::
  "WorkProfileSpec digest \<Rightarrow> WorkProfileSpec \<Rightarrow> timestamp \<Rightarrow> ResolvedWorkProfileSnapshot DomainResult"
where
  "snapshot_resolve digest w resolved_at =
     try_bind (WorkProfileSpec_canonicalize digest w) (\<lambda>hash.
       Inr \<lparr>rs_schema_version = wp_schema_version w, rs_definition = w,
            rs_definition_hash = hash, rs_resolved_at = resolved_at\<rparr>)"

definition snapshot_verify ::
  "WorkProfileSpec digest \<Rightarrow> ResolvedWorkProfileSnapshot \<Rightarrow> unit DomainResult" where
  "snapshot_verify digest s =
     try_bind (WorkProfileSpec_canonicalize digest (rs_definition s)) (\<lambda>hash.
       require (hash = rs_definition_hash s)
         (Invalid ''ResolvedWorkProfileSnapshot'' ''definition no longer matches its pinned hash''))"

definition close_phase :: "string set \<Rightarrow> string set \<Rightarrow> PhaseSpec \<Rightarrow> unit DomainResult" where
  "close_phase completed produced phase = checks
     [require (ph_id phase \<in> completed)
        (MissingEvidence ''task closure'' ''a profile phase has not completed''),
      try_each (\<lambda>artifact. require (artifact \<in> produced)
          (MissingEvidence ''task closure'' ''a required artifact has not been produced''))
        (ph_required_artifacts phase)]"

definition close_gate :: "(string \<rightharpoonup> GateState) \<Rightarrow> string set \<Rightarrow> GateSpec \<Rightarrow> unit DomainResult" where
  "close_gate states produced gate =
     (let state = (case states (ga_id gate) of None \<Rightarrow> GateState.NotReady | Some s \<Rightarrow> s) in checks
     [require (satisfies_requirement state)
        (MissingEvidence ''task closure'' ''a profile gate has not passed or been waived''),
      require (\<not> (state = GateState.Waived \<and> \<not> ga_waiver_allowed gate))
        (MissingAuthority ''task closure'' ''a gate was waived that the profile forbids waiving''),
      try_each (\<lambda>evidence. require (evidence \<in> produced)
          (MissingEvidence ''task closure'' ''gate evidence is missing''))
        (ga_required_evidence gate)])"

definition certify_closure ::
  "ResolvedWorkProfileSnapshot \<Rightarrow> string set \<Rightarrow> (string \<rightharpoonup> GateState) \<Rightarrow> string set \<Rightarrow>
   TaskClosureCertificate DomainResult" where
  "certify_closure s completed states produced =
     try_bind (try_each (close_phase completed produced) (wp_phases (rs_definition s))) (\<lambda>_.
     try_bind (try_each (close_gate states produced) (wp_gates (rs_definition s))) (\<lambda>_.
       Inr IssuedClosure))"

section \<open>What validation accepts\<close>

definition phase_rel :: "WorkProfileSpec \<Rightarrow> (PhaseKey \<times> PhaseKey) set" where
  "phase_rel w = edge_pair ` set (wp_edges w)"

definition phase_ids :: "WorkProfileSpec \<Rightarrow> PhaseKey set" where
  "phase_ids w = ph_id ` set (wp_phases w)"

definition gate_well_formed :: "WorkProfileSpec \<Rightarrow> GateSpec \<Rightarrow> bool" where
  "gate_well_formed w gate \<longleftrightarrow>
     ga_phase gate \<in> phase_ids w
     \<and> ga_evaluator_roles gate \<noteq> [] \<and> distinct (ga_evaluator_roles gate)
     \<and> set (ga_evaluator_roles gate) \<subseteq> rr_role ` set (wp_roles w)
     \<and> (if ga_waiver_allowed gate
        then ga_waiver_roles gate \<noteq> []
          \<and> set (ga_waiver_roles gate) \<subseteq> rr_role ` set (wp_roles w) - set (ga_evaluator_roles gate)
        else ga_waiver_roles gate = [])
     \<and> set (ga_required_evidence gate) \<subseteq> ac_key ` set (wp_artifacts w)
     \<and> (ga_rejection_target gate, ga_phase gate) \<in> (phase_rel w)\<^sup>+"

definition well_formed :: "WorkProfileSpec \<Rightarrow> bool" where
  "well_formed w \<longleftrightarrow>
     \<comment> \<open>inventory\<close>
     wp_phases w \<noteq> [] \<and> length (wp_phases w) \<le> 256 \<and> length (wp_gates w) \<le> 256
     \<and> distinct (map ph_id (wp_phases w)) \<and> distinct (map ga_id (wp_gates w))
     \<and> distinct (map ac_key (wp_artifacts w))
     \<comment> \<open>the forward graph\<close>
     \<and> edges_ok (map ph_id (wp_phases w)) (wp_edges w) \<and> acyclic (phase_rel w)
     \<and> wp_entry_phase w \<in> phase_ids w \<and> (phase_rel w)\<inverse> `` {wp_entry_phase w} = {}
     \<and> wp_terminal_phases w \<noteq> [] \<and> distinct (wp_terminal_phases w)
     \<and> set (wp_terminal_phases w) = {p \<in> phase_ids w. phase_rel w `` {p} = {}}
     \<and> (\<forall>p \<in> phase_ids w. (wp_entry_phase w, p) \<in> (phase_rel w)\<^sup>*)
     \<and> (\<forall>p \<in> phase_ids w. \<exists>t \<in> set (wp_terminal_phases w). (p, t) \<in> (phase_rel w)\<^sup>*)
     \<and> (\<forall>ph \<in> set (wp_phases w). \<forall>r. ph_rejection_route ph = Some r
           \<longrightarrow> (r, ph_id ph) \<in> (phase_rel w)\<^sup>+)
     \<comment> \<open>gates, artifacts and budget\<close>
     \<and> (\<forall>ph \<in> set (wp_phases w). set (ph_gates ph) \<subseteq> ga_id ` set (wp_gates w))
     \<and> (\<forall>gate \<in> set (wp_gates w). gate_well_formed w gate)
     \<and> (\<forall>a \<in> set (wp_artifacts w). ac_producer_phase a \<in> phase_ids w)
     \<and> (\<forall>ph \<in> set (wp_phases w). \<forall>k \<in> set (ph_required_artifacts ph).
           \<exists>a \<in> set (wp_artifacts w). ac_key a = k \<and> ac_evidence_required a)
     \<and> BudgetBounds_validate (wp_budget_defaults w) = Inr ()"

section \<open>Validation is exact\<close>

lemma length_remdups_distinct [simp]: "length (remdups xs) = length xs \<longleftrightarrow> distinct xs"
  by (simp add: length_remdups_eq)

lemma ensure_strict_ancestor_iff:
  assumes "graph_of (map ph_id (wp_phases w)) (wp_edges w) g" and "acyclic (phase_rel w)"
  shows "ensure_strict_ancestor g target phase subject = Inr () \<longleftrightarrow> (target, phase) \<in> (phase_rel w)\<^sup>+"
proof -
  let ?E = "phase_rel w"
  have anc: "target \<in> set (ancestors_of g phase) \<longleftrightarrow> (target, phase) \<in> ?E\<^sup>+"
    using ancestors_of_iff [OF assms(1)] by (simp add: phase_rel_def)
  have "target \<in> phase_ids w" if "(target, phase) \<in> ?E\<^sup>+"
    using that assms(1)
    by (auto simp: phase_rel_def graph_of_def edges_ok_def edge_pair_def phase_ids_def dest!: tranclD)
  moreover have "target \<noteq> phase" if "(target, phase) \<in> ?E\<^sup>+" using that assms(2) by (auto simp: acyclic_def)
  ultimately show ?thesis using assms(1) by (auto simp: ensure_strict_ancestor_def anc phase_ids_def)
qed

lemma validate_inventory_iff:
  "validate_inventory w = Inr () \<longleftrightarrow>
     wp_phases w \<noteq> [] \<and> length (wp_phases w) \<le> 256 \<and> length (wp_gates w) \<le> 256
     \<and> distinct (map ph_id (wp_phases w)) \<and> distinct (map ga_id (wp_gates w))
     \<and> distinct (map ac_key (wp_artifacts w))"
  by (auto simp: validate_inventory_def MAX_PHASES_def MAX_GATES_def)

lemma contract_of_iff:
  assumes "distinct (map ac_key (wp_artifacts w))"
  shows "validate_required_artifact w k = Inr () \<longleftrightarrow>
    (\<exists>a \<in> set (wp_artifacts w). ac_key a = k \<and> ac_evidence_required a)"
proof -
  have d: "distinct (map fst (rev (map (\<lambda>a. (ac_key a, a)) (wp_artifacts w))))"
    using assms by (simp add: rev_map [symmetric] o_def)
  then have "contract_of w k = Some a \<longleftrightarrow> a \<in> set (wp_artifacts w) \<and> ac_key a = k" for a
    unfolding contract_of_def by (subst map_of_eq_Some_iff [OF d]) auto
  then show ?thesis by (fastforce simp: validate_required_artifact_def split: option.splits)
qed

lemma validate_artifacts_iff:
  assumes "distinct (map ac_key (wp_artifacts w))"
  shows "validate_artifacts w = Inr () \<longleftrightarrow>
     (\<forall>a \<in> set (wp_artifacts w). ac_producer_phase a \<in> phase_ids w)
     \<and> (\<forall>ph \<in> set (wp_phases w). \<forall>k \<in> set (ph_required_artifacts ph).
           \<exists>a \<in> set (wp_artifacts w). ac_key a = k \<and> ac_evidence_required a)"
  by (simp add: validate_artifacts_def contract_of_iff [OF assms] phase_ids_def)

lemma validate_waiver_iff:
  "validate_waiver declared gate = Inr () \<longleftrightarrow>
     (if ga_waiver_allowed gate
      then ga_waiver_roles gate \<noteq> []
        \<and> set (ga_waiver_roles gate) \<subseteq> declared - set (ga_evaluator_roles gate)
      else ga_waiver_roles gate = [])"
  by (auto simp: validate_waiver_def)

lemma validate_gates_iff:
  assumes "graph_of (map ph_id (wp_phases w)) (wp_edges w) g" and "acyclic (phase_rel w)"
  shows "validate_gates g w = Inr () \<longleftrightarrow>
     (\<forall>ph \<in> set (wp_phases w). set (ph_gates ph) \<subseteq> ga_id ` set (wp_gates w))
     \<and> (\<forall>gate \<in> set (wp_gates w). gate_well_formed w gate)"
proof -
  have "validate_gate g w gate = Inr () \<longleftrightarrow> gate_well_formed w gate" for gate
    using assms(1)
    by (auto simp: validate_gate_def gate_well_formed_def validate_waiver_iff
        ensure_strict_ancestor_iff [OF assms] phase_ids_def)
  then show ?thesis by (auto simp: validate_gates_def)
qed

lemma validate_shape_iff:
  assumes g: "graph_of (map ph_id (wp_phases w)) (wp_edges w) g" and d: "distinct (map ph_id (wp_phases w))"
  shows "validate_shape g w = Inr () \<longleftrightarrow>
     acyclic (phase_rel w)
     \<and> wp_entry_phase w \<in> phase_ids w \<and> (phase_rel w)\<inverse> `` {wp_entry_phase w} = {}
     \<and> wp_terminal_phases w \<noteq> [] \<and> distinct (wp_terminal_phases w)
     \<and> set (wp_terminal_phases w) = {p \<in> phase_ids w. phase_rel w `` {p} = {}}
     \<and> (\<forall>p \<in> phase_ids w. (wp_entry_phase w, p) \<in> (phase_rel w)\<^sup>*)
     \<and> (\<forall>p \<in> phase_ids w. \<exists>t \<in> set (wp_terminal_phases w). (p, t) \<in> (phase_rel w)\<^sup>*)
     \<and> (\<forall>ph \<in> set (wp_phases w). \<forall>r. ph_rejection_route ph = Some r
           \<longrightarrow> (r, ph_id ph) \<in> (phase_rel w)\<^sup>+)"
    (is "_ \<longleftrightarrow> acyclic ?E \<and> ?entry \<and> ?noin \<and> ?ne \<and> ?dist \<and> ?sinks \<and> ?reach \<and> ?coreach \<and> ?routes")
proof -
  let ?ids = "map ph_id (wp_phases w)" and ?ts = "wp_terminal_phases w"
  have E: "edge_pair ` set (wp_edges w) = ?E" by (simp add: phase_rel_def)
  have ids: "set ?ids = phase_ids w" "g_order g = ?ids" using g by (auto simp: phase_ids_def graph_of_def)
  have EK: "?E \<subseteq> phase_ids w \<times> phase_ids w"
    using g by (auto simp: graph_of_def edges_ok_def edge_pair_def phase_rel_def phase_ids_def)
  have su: "set (adj (g_successors g) p) = ?E `` {p}" and pr: "set (adj (g_predecessors g) p) = ?E\<inverse> `` {p}" for p
    using g by (simp_all add: graph_of_def adj_rep_def E)
  have some: "map_of (g_successors g) p = Some [] \<longleftrightarrow> ?E `` {p} = {}" if "p \<in> phase_ids w" for p
  proof -
    have "p \<in> dom (map_of (g_successors g))" using that g ids by (auto simp: graph_of_def adj_rep_def)
    with su [of p] show ?thesis by (auto simp: adj_def dom_def)
  qed
  have noin: "adj (g_predecessors g) p = [] \<longleftrightarrow> ?E\<inverse> `` {p} = {}"
    and noout: "adj (g_successors g) p = [] \<longleftrightarrow> ?E `` {p} = {}" for p
    using pr [of p] su [of p] by (metis set_empty)+
  have cyc: "reject_cycles g = Inr () \<longleftrightarrow> acyclic ?E" using reject_cycles_iff(1) [OF g d] by (simp add: E)
  have reach: "length (reachable_from g p) = length ?ids \<longleftrightarrow> (\<forall>q \<in> phase_ids w. (p, q) \<in> ?E\<^sup>*)"
    if "p \<in> phase_ids w" for p
  proof -
    have s: "set (reachable_from g p) = ?E\<^sup>* `` {p}" using reachable_from_iff [OF g] by (simp add: E)
    have "?E\<^sup>* `` {p} \<subseteq> phase_ids w" using that EK by (auto elim: rtranclE)
    with all_in_search [OF d, of "g_successors g" "[p]"] s ids show ?thesis
      by (auto simp: reachable_from_def simp del: search.simps)
  qed
  have coreach: "length (co_reachable_from g ?ts) = length ?ids
      \<longleftrightarrow> (\<forall>q \<in> phase_ids w. \<exists>t \<in> set ?ts. (q, t) \<in> ?E\<^sup>*)" if "set ?ts \<subseteq> phase_ids w"
  proof -
    have s: "set (co_reachable_from g ?ts) = (?E\<inverse>)\<^sup>* `` set ?ts" using co_reachable_from_iff [OF g] by (simp add: E)
    have "(?E\<inverse>)\<^sup>* `` set ?ts \<subseteq> phase_ids w" using that EK by (auto elim: rtranclE)
    with all_in_search [OF d, of "g_predecessors g" "rev (sort (remdups ?ts))"] s ids show ?thesis
      by (auto simp: co_reachable_from_def rtrancl_converse simp del: search.simps)
  qed
  have routes: "try_each (validate_rejection_route g) (wp_phases w) = Inr () \<longleftrightarrow> ?routes" if "acyclic ?E"
    using ensure_strict_ancestor_iff [OF g that]
    by (auto simp: validate_rejection_route_def split: option.splits)
  have sinks: "try_each (validate_terminal g) (sort (remdups ?ts)) = Inr ()
      \<and> try_each (\<lambda>p. require (\<not> (map_of (g_successors g) p = Some [] \<and> p \<notin> set ?ts))
          (profile_error ''a phase without outgoing edges is not declared terminal'')) (g_order g) = Inr ()
    \<longleftrightarrow> ?sinks" using g some by (auto simp: validate_terminal_def noout ids phase_ids_def)
  have sub: "?sinks \<Longrightarrow> set ?ts \<subseteq> phase_ids w" by auto
  show ?thesis
    unfolding validate_shape_def checks_simps require_Inr graph_of_contains [OF g] ids noin cyc
      length_remdups_distinct
    using sinks sub reach coreach routes by (simp add: ids) blast
qed

lemma validate_exact: "WorkProfileSpec_validate w = Inr () \<longleftrightarrow> well_formed w"
proof -
  let ?ids = "map ph_id (wp_phases w)"
  consider g where "PhaseGraph_build ?ids (wp_edges w) = Inr g" "graph_of ?ids (wp_edges w) g"
    | err where "PhaseGraph_build ?ids (wp_edges w) = Inl err" "\<not> edges_ok ?ids (wp_edges w)"
    using build_graph by blast
  then show ?thesis
  proof cases
    case 1
    have ok: "edges_ok ?ids (wp_edges w)" using 1(2) by (simp add: graph_of_def)
    have "WorkProfileSpec_validate w = Inr () \<longleftrightarrow>
        validate_inventory w = Inr () \<and> validate_shape g w = Inr () \<and> validate_gates g w = Inr ()
        \<and> validate_artifacts w = Inr () \<and> BudgetBounds_validate (wp_budget_defaults w) = Inr ()"
      using 1(1) by (auto simp: WorkProfileSpec_validate_def)
    then show ?thesis
      using validate_shape_iff [OF 1(2)] validate_gates_iff [OF 1(2)] validate_artifacts_iff [of w]
        validate_inventory_iff [of w] ok
      unfolding well_formed_def by argo
  next
    case 2
    then show ?thesis by (auto simp: WorkProfileSpec_validate_def well_formed_def)
  qed
qed

lemma certify_closure_Inr:
  "certify_closure s completed states produced = Inr c \<longleftrightarrow>
     (\<forall>ph \<in> set (wp_phases (rs_definition s)).
        ph_id ph \<in> completed \<and> set (ph_required_artifacts ph) \<subseteq> produced)
     \<and> (\<forall>gate \<in> set (wp_gates (rs_definition s)).
          (states (ga_id gate) = Some GateState.Passed
           \<or> states (ga_id gate) = Some GateState.Waived \<and> ga_waiver_allowed gate)
          \<and> set (ga_required_evidence gate) \<subseteq> produced)"
proof -
  have phase: "close_phase completed produced ph = Inr () \<longleftrightarrow>
      ph_id ph \<in> completed \<and> set (ph_required_artifacts ph) \<subseteq> produced" for ph
    by (auto simp: close_phase_def)
  have gate: "close_gate states produced gate = Inr () \<longleftrightarrow>
      (states (ga_id gate) = Some GateState.Passed
       \<or> states (ga_id gate) = Some GateState.Waived \<and> ga_waiver_allowed gate)
      \<and> set (ga_required_evidence gate) \<subseteq> produced" for gate
    by (auto simp: close_gate_def Let_def satisfies_requirement_def split: option.splits)
  have "c = IssuedClosure" by (cases c) simp
  then show ?thesis by (auto simp: certify_closure_def phase gate)
qed

lemma resolve_then_verify:
  "snapshot_resolve digest w at = Inr s \<Longrightarrow>
   snapshot_verify digest s = Inr () \<and> well_formed (rs_definition s)"
  by (auto simp: snapshot_resolve_def snapshot_verify_def WorkProfileSpec_canonicalize_def
      validate_exact)

section \<open>Claims\<close>

text \<open>C7: Validation accepts exactly the well-formed work profiles: unique ids within bounds; an
  acyclic forward graph over declared phases with one source entry, its declared terminals exactly
  its sinks, every phase on a path from the entry to a terminal; rejection routes to strict
  ancestors only; gates with declared evaluators and disjoint waiver authority; every required
  artifact produced under an evidence contract.\<close>

theorem profile_validation_exact:
  "WorkProfileSpec_validate w = Inr () \<longleftrightarrow> well_formed w"
  by (rule validate_exact)

text \<open>A closure certificate is issued exactly when every phase of the frozen profile is
  completed with its required artifacts and every gate passed, or was waived where the profile
  allows it, with its evidence present.\<close>

theorem closure_certificate_exact:
  "certify_closure s completed states produced = Inr IssuedClosure \<longleftrightarrow>
     (\<forall>ph \<in> set (wp_phases (rs_definition s)).
        ph_id ph \<in> completed \<and> set (ph_required_artifacts ph) \<subseteq> produced)
     \<and> (\<forall>gate \<in> set (wp_gates (rs_definition s)).
          (states (ga_id gate) = Some GateState.Passed
           \<or> states (ga_id gate) = Some GateState.Waived \<and> ga_waiver_allowed gate)
          \<and> set (ga_required_evidence gate) \<subseteq> produced)"
  by (rule certify_closure_Inr)

definition sample_phase :: "PhaseKey \<Rightarrow> PhaseSpec" where
  "sample_phase p = \<lparr>ph_id = p, ph_label = p, ph_required_artifacts = [''diff''],
     ph_gates = [''review''], ph_rejection_route = None\<rparr>"

definition sample_gate :: GateSpec where
  "sample_gate = \<lparr>ga_id = ''review'', ga_phase = ''build'', ga_evaluator_roles = [''qa''],
     ga_required_evidence = [''report''], ga_rejection_target = ''plan'',
     ga_waiver_allowed = True, ga_waiver_roles = [''lead'']\<rparr>"

definition sample_artifact :: "string \<Rightarrow> ArtifactContractSpec" where
  "sample_artifact k = \<lparr>ac_key = k, ac_label = k, ac_producer_phase = ''build'',
     ac_content_type = Report, ac_evidence_required = True\<rparr>"

definition sample_profile :: WorkProfileSpec where
  "sample_profile =
     \<lparr>wp_schema_version = 1, wp_id = ''delivery'', wp_version = 1, wp_name = ''Delivery'',
      wp_phases = [sample_phase ''plan'', sample_phase ''build''],
      wp_edges = [sample_edge ''plan'' ''build''], wp_entry_phase = ''plan'',
      wp_terminal_phases = [''build''],
      wp_roles = [\<lparr>rr_role = ''qa'', rr_version = 1\<rparr>, \<lparr>rr_role = ''lead'', rr_version = 1\<rparr>],
      wp_skills = [], wp_team_template = None,
      wp_artifacts = [sample_artifact ''diff'', sample_artifact ''report''],
      wp_gates = [sample_gate],
      wp_runtime_routing = \<lparr>rt_runtime_kind = ''cli'', rt_version = 1\<rparr>,
      wp_budget_defaults = BudgetBounds_unconstrained, wp_calendar_policy = None,
      wp_external_workflow = None, wp_context_window = None\<rparr>"

definition sample_snapshot :: ResolvedWorkProfileSnapshot where
  "sample_snapshot = \<lparr>rs_schema_version = 1, rs_definition = sample_profile,
     rs_definition_hash = ''h'', rs_resolved_at = 0\<rparr>"

theorem closure_certificate_exact_witness:
  "certify_closure sample_snapshot {''plan'', ''build''} [''review'' \<mapsto> GateState.Waived]
     {''diff'', ''report''} = Inr IssuedClosure
   \<and> certify_closure sample_snapshot {''plan'', ''build''} [''review'' \<mapsto> GateState.Rejected]
     {''diff'', ''report''} \<noteq> Inr IssuedClosure"
  unfolding closure_certificate_exact
  by (simp add: sample_snapshot_def sample_profile_def sample_phase_def sample_gate_def)

lemma sample_profile_valid: "WorkProfileSpec_validate sample_profile = Inr ()"
  by code_simp

end
