(* ===== verification/Guardrails.thy ===== *)
theory Guardrails
  imports Work_Profile
begin

text \<open>
  \<^verbatim>\<open>crates/kontor-policy/src/model.rs\<close> and \<^verbatim>\<open>evaluator.rs\<close>: the inputs a guardrail may read, the
  seven rules as functions of those inputs, and the recorded evaluation.  The text of a UUID and
  the canonical digests are arguments; the session transcript record of a gate evaluation, which
  no rule reads, is left out.  The lemmas characterise when each rule admits.
\<close>

section \<open>Vocabularies\<close>

datatype GuardrailRuleKey =
    WorktreeSticky | ModuleCollision | SecondRejectionParks | DegradedVerdictDenied |
    DestructiveRequiresApproval | AccountPinRequired | TerminalEvidenceRequired

primrec GuardrailRuleKey_as_str :: "GuardrailRuleKey \<Rightarrow> string" where
  "GuardrailRuleKey_as_str GuardrailRuleKey.WorktreeSticky = ''worktree_sticky''"
| "GuardrailRuleKey_as_str GuardrailRuleKey.ModuleCollision = ''module_collision''"
| "GuardrailRuleKey_as_str GuardrailRuleKey.SecondRejectionParks = ''second_rejection_parks''"
| "GuardrailRuleKey_as_str GuardrailRuleKey.DegradedVerdictDenied = ''degraded_verdict_denied''"
| "GuardrailRuleKey_as_str GuardrailRuleKey.DestructiveRequiresApproval = ''destructive_requires_approval''"
| "GuardrailRuleKey_as_str GuardrailRuleKey.AccountPinRequired = ''account_pin_required''"
| "GuardrailRuleKey_as_str GuardrailRuleKey.TerminalEvidenceRequired = ''terminal_evidence_required''"

definition GuardrailRuleKey_ALL :: "GuardrailRuleKey list" where
  "GuardrailRuleKey_ALL =
     [GuardrailRuleKey.WorktreeSticky, GuardrailRuleKey.ModuleCollision,
     GuardrailRuleKey.SecondRejectionParks, GuardrailRuleKey.DegradedVerdictDenied,
     GuardrailRuleKey.DestructiveRequiresApproval, GuardrailRuleKey.AccountPinRequired,
     GuardrailRuleKey.TerminalEvidenceRequired]"

datatype PolicyVerdict =
    Pass | Warn | Block | Park | NeedsHuman

primrec PolicyVerdict_as_str :: "PolicyVerdict \<Rightarrow> string" where
  "PolicyVerdict_as_str PolicyVerdict.Pass = ''pass''"
| "PolicyVerdict_as_str PolicyVerdict.Warn = ''warn''"
| "PolicyVerdict_as_str PolicyVerdict.Block = ''block''"
| "PolicyVerdict_as_str PolicyVerdict.Park = ''park''"
| "PolicyVerdict_as_str PolicyVerdict.NeedsHuman = ''needs_human''"

definition PolicyVerdict_ALL :: "PolicyVerdict list" where
  "PolicyVerdict_ALL =
     [PolicyVerdict.Pass, PolicyVerdict.Warn, PolicyVerdict.Block, PolicyVerdict.Park,
     PolicyVerdict.NeedsHuman]"

datatype ReasonCode =
    NotApplicable | WorktreeFirstClaim | WorktreeMatchesPin | WorktreeMoved |
    WorktreeAmbiguous | WorktreeUnclaimed | ModuleFree | ModuleIsolatedByWorktree |
    ModuleInFlight | NoRejectionRecorded | FirstRejection | SecondRejectionParks |
    VerdictAuthorityHeld | VerdictRungDegraded | RoleNotAuthorized | PersonaCannotEvaluate |
    PersonaSelfApproval | ActionNonDestructive | ActionDryRun | ApprovalBound |
    ApprovalMissing | ApprovalExpired | ApprovalConsumed | ApprovalActionMismatch |
    ApprovalScopeMismatch | ApprovalFromRecoveryAdvice | AccountPinMatches |
    AccountPinMissing | AccountPinMismatch | TerminalEvidencePresent |
    TerminalEvidenceMissing | TerminalEvidenceForeign | ArtifactEvidenceComplete |
    ArtifactEvidenceIncomplete

primrec ReasonCode_as_str :: "ReasonCode \<Rightarrow> string" where
  "ReasonCode_as_str ReasonCode.NotApplicable = ''not_applicable''"
| "ReasonCode_as_str ReasonCode.WorktreeFirstClaim = ''worktree_first_claim''"
| "ReasonCode_as_str ReasonCode.WorktreeMatchesPin = ''worktree_matches_pin''"
| "ReasonCode_as_str ReasonCode.WorktreeMoved = ''worktree_moved''"
| "ReasonCode_as_str ReasonCode.WorktreeAmbiguous = ''worktree_ambiguous''"
| "ReasonCode_as_str ReasonCode.WorktreeUnclaimed = ''worktree_unclaimed''"
| "ReasonCode_as_str ReasonCode.ModuleFree = ''module_free''"
| "ReasonCode_as_str ReasonCode.ModuleIsolatedByWorktree = ''module_isolated_by_worktree''"
| "ReasonCode_as_str ReasonCode.ModuleInFlight = ''module_in_flight''"
| "ReasonCode_as_str ReasonCode.NoRejectionRecorded = ''no_rejection_recorded''"
| "ReasonCode_as_str ReasonCode.FirstRejection = ''first_rejection''"
| "ReasonCode_as_str ReasonCode.SecondRejectionParks = ''second_rejection_parks''"
| "ReasonCode_as_str ReasonCode.VerdictAuthorityHeld = ''verdict_authority_held''"
| "ReasonCode_as_str ReasonCode.VerdictRungDegraded = ''verdict_rung_degraded''"
| "ReasonCode_as_str ReasonCode.RoleNotAuthorized = ''role_not_authorized''"
| "ReasonCode_as_str ReasonCode.PersonaCannotEvaluate = ''persona_cannot_evaluate''"
| "ReasonCode_as_str ReasonCode.PersonaSelfApproval = ''persona_self_approval''"
| "ReasonCode_as_str ReasonCode.ActionNonDestructive = ''action_non_destructive''"
| "ReasonCode_as_str ReasonCode.ActionDryRun = ''action_dry_run''"
| "ReasonCode_as_str ReasonCode.ApprovalBound = ''approval_bound''"
| "ReasonCode_as_str ReasonCode.ApprovalMissing = ''approval_missing''"
| "ReasonCode_as_str ReasonCode.ApprovalExpired = ''approval_expired''"
| "ReasonCode_as_str ReasonCode.ApprovalConsumed = ''approval_consumed''"
| "ReasonCode_as_str ReasonCode.ApprovalActionMismatch = ''approval_action_mismatch''"
| "ReasonCode_as_str ReasonCode.ApprovalScopeMismatch = ''approval_scope_mismatch''"
| "ReasonCode_as_str ReasonCode.ApprovalFromRecoveryAdvice = ''approval_from_recovery_advice''"
| "ReasonCode_as_str ReasonCode.AccountPinMatches = ''account_pin_matches''"
| "ReasonCode_as_str ReasonCode.AccountPinMissing = ''account_pin_missing''"
| "ReasonCode_as_str ReasonCode.AccountPinMismatch = ''account_pin_mismatch''"
| "ReasonCode_as_str ReasonCode.TerminalEvidencePresent = ''terminal_evidence_present''"
| "ReasonCode_as_str ReasonCode.TerminalEvidenceMissing = ''terminal_evidence_missing''"
| "ReasonCode_as_str ReasonCode.TerminalEvidenceForeign = ''terminal_evidence_foreign''"
| "ReasonCode_as_str ReasonCode.ArtifactEvidenceComplete = ''artifact_evidence_complete''"
| "ReasonCode_as_str ReasonCode.ArtifactEvidenceIncomplete = ''artifact_evidence_incomplete''"

definition ReasonCode_ALL :: "ReasonCode list" where
  "ReasonCode_ALL =
     [ReasonCode.NotApplicable, ReasonCode.WorktreeFirstClaim, ReasonCode.WorktreeMatchesPin,
     ReasonCode.WorktreeMoved, ReasonCode.WorktreeAmbiguous, ReasonCode.WorktreeUnclaimed,
     ReasonCode.ModuleFree, ReasonCode.ModuleIsolatedByWorktree, ReasonCode.ModuleInFlight,
     ReasonCode.NoRejectionRecorded, ReasonCode.FirstRejection,
     ReasonCode.SecondRejectionParks, ReasonCode.VerdictAuthorityHeld,
     ReasonCode.VerdictRungDegraded, ReasonCode.RoleNotAuthorized,
     ReasonCode.PersonaCannotEvaluate, ReasonCode.PersonaSelfApproval,
     ReasonCode.ActionNonDestructive, ReasonCode.ActionDryRun, ReasonCode.ApprovalBound,
     ReasonCode.ApprovalMissing, ReasonCode.ApprovalExpired, ReasonCode.ApprovalConsumed,
     ReasonCode.ApprovalActionMismatch, ReasonCode.ApprovalScopeMismatch,
     ReasonCode.ApprovalFromRecoveryAdvice, ReasonCode.AccountPinMatches,
     ReasonCode.AccountPinMissing, ReasonCode.AccountPinMismatch,
     ReasonCode.TerminalEvidencePresent, ReasonCode.TerminalEvidenceMissing,
     ReasonCode.TerminalEvidenceForeign, ReasonCode.ArtifactEvidenceComplete,
     ReasonCode.ArtifactEvidenceIncomplete]"

datatype SubjectKind =
    Task | TaskWorkflow | TeamRun | AgentRun | Gate | Action

primrec SubjectKind_as_str :: "SubjectKind \<Rightarrow> string" where
  "SubjectKind_as_str SubjectKind.Task = ''task''"
| "SubjectKind_as_str SubjectKind.TaskWorkflow = ''task_workflow''"
| "SubjectKind_as_str SubjectKind.TeamRun = ''team_run''"
| "SubjectKind_as_str SubjectKind.AgentRun = ''agent_run''"
| "SubjectKind_as_str SubjectKind.Gate = ''gate''"
| "SubjectKind_as_str SubjectKind.Action = ''action''"

definition SubjectKind_ALL :: "SubjectKind list" where
  "SubjectKind_ALL =
     [SubjectKind.Task, SubjectKind.TaskWorkflow, SubjectKind.TeamRun, SubjectKind.AgentRun,
     SubjectKind.Gate, SubjectKind.Action]"

datatype ActionDomain =
    Filesystem | Runtime | ExternalTicket | ControlPlane

primrec ActionDomain_as_str :: "ActionDomain \<Rightarrow> string" where
  "ActionDomain_as_str ActionDomain.Filesystem = ''filesystem''"
| "ActionDomain_as_str ActionDomain.Runtime = ''runtime''"
| "ActionDomain_as_str ActionDomain.ExternalTicket = ''external_ticket''"
| "ActionDomain_as_str ActionDomain.ControlPlane = ''control_plane''"

definition ActionDomain_ALL :: "ActionDomain list" where
  "ActionDomain_ALL =
     [ActionDomain.Filesystem, ActionDomain.Runtime, ActionDomain.ExternalTicket,
     ActionDomain.ControlPlane]"

datatype ActionIntent =
    Inspect | ProduceArtifact | CompletePhase | RecordGateVerdict | RecordGateRejection |
    CloseRun | Mutate

primrec ActionIntent_as_str :: "ActionIntent \<Rightarrow> string" where
  "ActionIntent_as_str ActionIntent.Inspect = ''inspect''"
| "ActionIntent_as_str ActionIntent.ProduceArtifact = ''produce_artifact''"
| "ActionIntent_as_str ActionIntent.CompletePhase = ''complete_phase''"
| "ActionIntent_as_str ActionIntent.RecordGateVerdict = ''record_gate_verdict''"
| "ActionIntent_as_str ActionIntent.RecordGateRejection = ''record_gate_rejection''"
| "ActionIntent_as_str ActionIntent.CloseRun = ''close_run''"
| "ActionIntent_as_str ActionIntent.Mutate = ''mutate''"

definition ActionIntent_ALL :: "ActionIntent list" where
  "ActionIntent_ALL =
     [ActionIntent.Inspect, ActionIntent.ProduceArtifact, ActionIntent.CompletePhase,
     ActionIntent.RecordGateVerdict, ActionIntent.RecordGateRejection, ActionIntent.CloseRun,
     ActionIntent.Mutate]"

definition writes_gate_verdict :: "ActionIntent \<Rightarrow> bool" where
  "writes_gate_verdict i \<longleftrightarrow>
     i \<in> {ActionIntent.RecordGateVerdict, ActionIntent.RecordGateRejection}"

datatype ActionEffect =
    Read | Mutate | Destroy

primrec ActionEffect_as_str :: "ActionEffect \<Rightarrow> string" where
  "ActionEffect_as_str ActionEffect.Read = ''read''"
| "ActionEffect_as_str ActionEffect.Mutate = ''mutate''"
| "ActionEffect_as_str ActionEffect.Destroy = ''destroy''"

definition ActionEffect_ALL :: "ActionEffect list" where
  "ActionEffect_ALL =
     [ActionEffect.Read, ActionEffect.Mutate, ActionEffect.Destroy]"

datatype AuthoritySource =
    Operator | ExecutionAuthorization | RecoveryAdvice

primrec AuthoritySource_as_str :: "AuthoritySource \<Rightarrow> string" where
  "AuthoritySource_as_str AuthoritySource.Operator = ''operator''"
| "AuthoritySource_as_str AuthoritySource.ExecutionAuthorization = ''execution_authorization''"
| "AuthoritySource_as_str AuthoritySource.RecoveryAdvice = ''recovery_advice''"

definition AuthoritySource_ALL :: "AuthoritySource list" where
  "AuthoritySource_ALL =
     [AuthoritySource.Operator, AuthoritySource.ExecutionAuthorization,
     AuthoritySource.RecoveryAdvice]"

datatype ApprovalScopeKind =
    Project | Task

primrec ApprovalScopeKind_as_str :: "ApprovalScopeKind \<Rightarrow> string" where
  "ApprovalScopeKind_as_str ApprovalScopeKind.Project = ''project''"
| "ApprovalScopeKind_as_str ApprovalScopeKind.Task = ''task''"

definition ApprovalScopeKind_ALL :: "ApprovalScopeKind list" where
  "ApprovalScopeKind_ALL =
     [ApprovalScopeKind.Project, ApprovalScopeKind.Task]"

type_synonym VerdictRung = u32

definition VERDICT_THRESHOLD :: VerdictRung where
  "VERDICT_THRESHOLD = 2"

definition VerdictRung_parse :: "u32 \<Rightarrow> VerdictRung DomainResult" where
  "VerdictRung_parse v =
     (if v = 0 then Inl (Invalid ''VerdictRung'' ''must be at least 1'') else Inr v)"

definition may_write_verdict :: "VerdictRung \<Rightarrow> bool" where
  "may_write_verdict r \<longleftrightarrow> VERDICT_THRESHOLD \<le> r"

section \<open>Inputs\<close>

record GuardrailRule =
  gr_key :: GuardrailRuleKey
  gr_version :: u32

record PersonaActor =
  pa_persona :: string
  pa_gate_under_test :: string
  pa_actor_role :: string

record ActorContext =
  actor_account :: uuid
  actor_principal :: string
  actor_role :: string
  actor_verdict_rung :: VerdictRung
  actor_persona :: "PersonaActor option"

record RequestedAction =
  act_domain :: ActionDomain
  act_intent :: ActionIntent
  act_effect :: ActionEffect
  act_operation :: string
  act_target :: string
  act_digest :: content_hash
  act_dry_run_supported :: bool
  act_dry_run :: bool

record RunContext =
  run_project_id :: uuid
  run_task_id :: uuid
  run_workflow_id :: uuid
  run_module :: "string option"
  run_team_run_id :: "uuid option"
  run_agent_run_id :: "uuid option"
  run_parent_agent_run_id :: "uuid option"
  run_pinned_account :: "uuid option"
  run_recorded_worktree :: "string option"
  run_requested_action :: RequestedAction
  run_rule_set_revision :: u32

record ModuleClaim =
  mc_module :: string
  mc_task_id :: uuid
  mc_worktree :: "string option"
  mc_in_flight :: bool

record WorkspaceEvidence =
  ws_claimed_worktree :: "string option"
  ws_candidate_worktrees :: "string list"
  ws_module_claims :: "ModuleClaim list"

record ArtifactEvidence =
  ae_id :: uuid
  ae_key :: string
  ae_locator :: string
  ae_producer_role :: string
  ae_producer_account :: "uuid option"
  ae_recorded_at :: timestamp

record ApprovalReceipt =
  ap_id :: uuid
  ap_scope_kind :: ApprovalScopeKind
  ap_project_id :: uuid
  ap_task_id :: "uuid option"
  ap_action_domain :: ActionDomain
  ap_action_intent :: ActionIntent
  ap_action_effect :: ActionEffect
  ap_action_digest :: content_hash
  ap_approver_principal :: string
  ap_approver_role :: string
  ap_approver_account :: uuid
  ap_authority_source :: AuthoritySource
  ap_evidence :: string
  ap_issued_at :: timestamp
  ap_expires_at :: timestamp
  ap_consumed_at :: "timestamp option"

definition refusal_for ::
  "ApprovalReceipt \<Rightarrow> RequestedAction \<Rightarrow> uuid \<Rightarrow> uuid \<Rightarrow> timestamp \<Rightarrow> ReasonCode option" where
  "refusal_for a action project task now =
     (if ap_authority_source a = AuthoritySource.RecoveryAdvice
      then Some ReasonCode.ApprovalFromRecoveryAdvice
      else if ap_action_digest a \<noteq> act_digest action \<or> ap_action_domain a \<noteq> act_domain action
              \<or> ap_action_intent a \<noteq> act_intent action \<or> ap_action_effect a \<noteq> act_effect action
      then Some ReasonCode.ApprovalActionMismatch
      else if ap_project_id a \<noteq> project then Some ReasonCode.ApprovalScopeMismatch
      else if ap_scope_kind a = ApprovalScopeKind.Task \<and> ap_task_id a \<noteq> Some task
      then Some ReasonCode.ApprovalScopeMismatch
      else if ap_consumed_at a \<noteq> None then Some ReasonCode.ApprovalConsumed
      else if ap_expires_at a \<le> now then Some ReasonCode.ApprovalExpired
      else None)"

record RuntimeObservationRef =
  or_agent_run_id :: uuid
  or_cursor :: int
  or_evidence_hash :: content_hash

record GateEvaluation =
  ge_project_id :: uuid
  ge_workflow_id :: uuid
  ge_gate :: string
  ge_sequence :: u32
  ge_verdict :: GateVerdict
  ge_evaluator_role :: string
  ge_evaluator_account :: uuid
  ge_evidence :: "string list"
  ge_agent_run_id :: "uuid option"
  ge_reviewer_principal :: "string option"
  ge_policy_evaluation_id :: "uuid option"
  ge_recorded_at :: timestamp

datatype EvidenceRef =
    Artifact string uuid
  | Approval uuid content_hash
  | GateVerdictRef string u32
  | RuntimeObservationEvidence uuid int
  | Worktree string
  | ModuleClaimRef string uuid

record EvaluationSubject =
  es_kind :: SubjectKind
  es_id :: string

record EvaluationRequest =
  er_schema_version :: u32
  er_rule :: GuardrailRule
  er_workflow :: ResolvedWorkProfileSnapshot
  er_current_phase :: PhaseKey
  er_gate :: "string option"
  er_actor :: ActorContext
  er_run :: RunContext
  er_workspace :: WorkspaceEvidence
  er_artifacts :: "ArtifactEvidence list"
  er_approval :: "ApprovalReceipt option"
  er_prior_gate_evaluations :: "GateEvaluation list"
  er_terminal_observation :: "RuntimeObservationRef option"
  er_evaluated_at :: timestamp

record Decision =
  de_verdict :: PolicyVerdict
  de_reason_code :: ReasonCode
  de_evidence_refs :: "EvidenceRef list"

definition bare :: "PolicyVerdict \<Rightarrow> ReasonCode \<Rightarrow> Decision" where
  "bare v r = \<lparr>de_verdict = v, de_reason_code = r, de_evidence_refs = []\<rparr>"

definition with_evidence :: "PolicyVerdict \<Rightarrow> ReasonCode \<Rightarrow> EvidenceRef list \<Rightarrow> Decision" where
  "with_evidence v r refs = \<lparr>de_verdict = v, de_reason_code = r, de_evidence_refs = refs\<rparr>"

definition Decision_admits :: "Decision \<Rightarrow> bool" where
  "Decision_admits d \<longleftrightarrow> de_verdict d \<in> {PolicyVerdict.Pass, PolicyVerdict.Warn}"

section \<open>The rules\<close>

definition worktree_sticky :: "EvaluationRequest \<Rightarrow> Decision" where
  "worktree_sticky req =
     (let candidates = ws_candidate_worktrees (er_workspace req) in
      case (run_recorded_worktree (er_run req), ws_claimed_worktree (er_workspace req)) of
        (Some pinned, Some claim) \<Rightarrow>
          if pinned = claim
          then with_evidence PolicyVerdict.Pass ReasonCode.WorktreeMatchesPin [Worktree claim]
          else with_evidence PolicyVerdict.Park ReasonCode.WorktreeMoved [Worktree claim]
      | (_, None) \<Rightarrow> bare PolicyVerdict.Park ReasonCode.WorktreeUnclaimed
      | (None, Some claim) \<Rightarrow>
          if claim \<notin> set candidates
          then with_evidence PolicyVerdict.Park ReasonCode.WorktreeMoved [Worktree claim]
          else if length candidates \<noteq> 1
          then bare PolicyVerdict.Park ReasonCode.WorktreeAmbiguous
          else with_evidence PolicyVerdict.Pass ReasonCode.WorktreeFirstClaim [Worktree claim])"

definition module_isolated_by_worktree :: "string option \<Rightarrow> ModuleClaim list \<Rightarrow> bool" where
  "module_isolated_by_worktree mine contenders =
     (case mine of
        None \<Rightarrow> False
      | Some m \<Rightarrow>
          list_all (\<lambda>c. case mc_worktree c of None \<Rightarrow> False | Some theirs \<Rightarrow> theirs \<noteq> m)
            contenders)"

definition contenders_of :: "ModuleClaim list \<Rightarrow> string \<Rightarrow> uuid \<Rightarrow> ModuleClaim list" where
  "contenders_of claims module task =
     filter (\<lambda>c. mc_in_flight c \<and> contends_with (mc_module c) module \<and> mc_task_id c \<noteq> task) claims"

definition module_collision :: "EvaluationRequest \<Rightarrow> Decision" where
  "module_collision req =
     (case run_module (er_run req) of
        None \<Rightarrow> bare PolicyVerdict.Pass ReasonCode.ModuleFree
      | Some module \<Rightarrow>
          let contenders = contenders_of (ws_module_claims (er_workspace req)) module
                             (run_task_id (er_run req));
              evidence = map (\<lambda>c. ModuleClaimRef (mc_module c) (mc_task_id c)) contenders;
              mine = (case run_recorded_worktree (er_run req) of
                        Some w \<Rightarrow> Some w | None \<Rightarrow> ws_claimed_worktree (er_workspace req))
          in if contenders = [] then bare PolicyVerdict.Pass ReasonCode.ModuleFree
             else if module_isolated_by_worktree mine contenders
             then with_evidence PolicyVerdict.Pass ReasonCode.ModuleIsolatedByWorktree evidence
             else with_evidence PolicyVerdict.Block ReasonCode.ModuleInFlight evidence)"

definition REJECTIONS_BEFORE_PARK :: u32 where
  "REJECTIONS_BEFORE_PARK = 2"

definition relevant_history ::
  "GateEvaluation list \<Rightarrow> string \<Rightarrow> string \<Rightarrow> GateEvaluation list" where
  "relevant_history history gate reviewer =
     sort_key ge_sequence
       (filter (\<lambda>e. ge_gate e = gate \<and> ge_reviewer_principal e = Some reviewer) history)"

definition count_rejection :: "u32 \<Rightarrow> GateEvaluation \<Rightarrow> u32" where
  "count_rejection n e =
     (case ge_verdict e of
        GateVerdict.Rejected \<Rightarrow> n + 1
      | GateVerdict.Passed \<Rightarrow> 0
      | _ \<Rightarrow> n)"

definition rejections_since_pass :: "GateEvaluation list \<Rightarrow> string \<Rightarrow> string \<Rightarrow> u32" where
  "rejections_since_pass history gate reviewer =
     foldl count_rejection 0 (relevant_history history gate reviewer)"

definition second_rejection_parks :: "EvaluationRequest \<Rightarrow> Decision" where
  "second_rejection_parks req =
     (case er_gate req of
        None \<Rightarrow> bare PolicyVerdict.Pass ReasonCode.NotApplicable
      | Some gate \<Rightarrow>
          let prior = rejections_since_pass (er_prior_gate_evaluations req) gate
                        (actor_principal (er_actor req));
              pending = (if act_intent (run_requested_action (er_run req))
                            = ActionIntent.RecordGateRejection then 1 else 0);
              total = prior + pending;
              evidence = map (\<lambda>e. GateVerdictRef (ge_gate e) (ge_sequence e))
                (filter (\<lambda>e. ge_gate e = gate \<and> ge_verdict e = GateVerdict.Rejected
                     \<and> ge_reviewer_principal e = Some (actor_principal (er_actor req)))
                   (er_prior_gate_evaluations req))
          in if REJECTIONS_BEFORE_PARK \<le> total
             then with_evidence PolicyVerdict.Park ReasonCode.SecondRejectionParks evidence
             else if total = 1
             then with_evidence PolicyVerdict.Warn ReasonCode.FirstRejection evidence
             else bare PolicyVerdict.Pass ReasonCode.NoRejectionRecorded)"

definition gate_authorizes :: "GateSpec \<Rightarrow> string \<Rightarrow> bool" where
  "gate_authorizes gate role \<longleftrightarrow>
     role \<in> set (ga_evaluator_roles gate)
     \<or> (ga_waiver_allowed gate \<and> role \<in> set (ga_waiver_roles gate))"

definition degraded_verdict_denied :: "EvaluationRequest \<Rightarrow> Decision" where
  "degraded_verdict_denied req =
     (if \<not> writes_gate_verdict (act_intent (run_requested_action (er_run req)))
      then bare PolicyVerdict.Pass ReasonCode.NotApplicable
      else case actor_persona (er_actor req) of
        Some persona \<Rightarrow>
          bare PolicyVerdict.Block
            (if Some (pa_gate_under_test persona) = er_gate req
             then ReasonCode.PersonaSelfApproval else ReasonCode.PersonaCannotEvaluate)
      | None \<Rightarrow>
          if (case er_gate req of
                None \<Rightarrow> False
              | Some gate \<Rightarrow>
                  (case gate_lookup (rs_definition (er_workflow req)) gate of
                     None \<Rightarrow> True
                   | Some spec \<Rightarrow> \<not> gate_authorizes spec (actor_role (er_actor req))))
          then bare PolicyVerdict.Block ReasonCode.RoleNotAuthorized
          else if may_write_verdict (actor_verdict_rung (er_actor req))
          then bare PolicyVerdict.Pass ReasonCode.VerdictAuthorityHeld
          else bare PolicyVerdict.Block ReasonCode.VerdictRungDegraded)"

definition destructive_requires_approval :: "EvaluationRequest \<Rightarrow> Decision" where
  "destructive_requires_approval req =
     (let action = run_requested_action (er_run req) in
      if act_effect action \<noteq> ActionEffect.Destroy
      then bare PolicyVerdict.Pass ReasonCode.ActionNonDestructive
      else if act_dry_run action then bare PolicyVerdict.Pass ReasonCode.ActionDryRun
      else case er_approval req of
        None \<Rightarrow> bare PolicyVerdict.Block ReasonCode.ApprovalMissing
      | Some approval \<Rightarrow>
          (case refusal_for approval action (run_project_id (er_run req))
                  (run_task_id (er_run req)) (er_evaluated_at req) of
             Some reason \<Rightarrow> bare PolicyVerdict.Block reason
           | None \<Rightarrow> with_evidence PolicyVerdict.Pass ReasonCode.ApprovalBound
                       [Approval (ap_id approval) (ap_action_digest approval)]))"

definition account_pin_required :: "EvaluationRequest \<Rightarrow> Decision" where
  "account_pin_required req =
     (case run_pinned_account (er_run req) of
        None \<Rightarrow> bare PolicyVerdict.Block ReasonCode.AccountPinMissing
      | Some pinned \<Rightarrow>
          if pinned \<noteq> actor_account (er_actor req)
          then bare PolicyVerdict.Block ReasonCode.AccountPinMismatch
          else bare PolicyVerdict.Pass ReasonCode.AccountPinMatches)"

definition phase_evidence :: "EvaluationRequest \<Rightarrow> Decision" where
  "phase_evidence req =
     (case find (\<lambda>p. ph_id p = er_current_phase req) (wp_phases (rs_definition (er_workflow req))) of
        None \<Rightarrow> bare PolicyVerdict.Block ReasonCode.ArtifactEvidenceIncomplete
      | Some phase \<Rightarrow>
          if list_ex (\<lambda>k. k \<notin> ae_key ` set (er_artifacts req)) (ph_required_artifacts phase)
          then bare PolicyVerdict.Block ReasonCode.ArtifactEvidenceIncomplete
          else with_evidence PolicyVerdict.Pass ReasonCode.ArtifactEvidenceComplete
                 (map (\<lambda>r. Artifact (ae_key r) (ae_id r))
                   (filter (\<lambda>r. ae_key r \<in> set (ph_required_artifacts phase)) (er_artifacts req))))"

definition closure_evidence :: "EvaluationRequest \<Rightarrow> Decision" where
  "closure_evidence req =
     (case er_terminal_observation req of
        None \<Rightarrow> bare PolicyVerdict.Block ReasonCode.TerminalEvidenceMissing
      | Some ob \<Rightarrow>
          if Some (or_agent_run_id ob) \<noteq> run_agent_run_id (er_run req)
          then bare PolicyVerdict.Block ReasonCode.TerminalEvidenceForeign
          else with_evidence PolicyVerdict.Pass ReasonCode.TerminalEvidencePresent
                 [RuntimeObservationEvidence (or_agent_run_id ob) (or_cursor ob)])"

definition terminal_evidence_required :: "EvaluationRequest \<Rightarrow> Decision" where
  "terminal_evidence_required req =
     (case act_intent (run_requested_action (er_run req)) of
        ActionIntent.CompletePhase \<Rightarrow> phase_evidence req
      | ActionIntent.CloseRun \<Rightarrow> closure_evidence req
      | _ \<Rightarrow> bare PolicyVerdict.Pass ReasonCode.NotApplicable)"

section \<open>Evaluation\<close>

definition decide :: "WorkProfileSpec digest \<Rightarrow> EvaluationRequest \<Rightarrow> Decision DomainResult" where
  "decide pdigest req =
     try_bind (snapshot_verify pdigest (er_workflow req)) (\<lambda>_.
       Inr (case gr_key (er_rule req) of
          GuardrailRuleKey.WorktreeSticky \<Rightarrow> worktree_sticky req
        | GuardrailRuleKey.ModuleCollision \<Rightarrow> module_collision req
        | GuardrailRuleKey.SecondRejectionParks \<Rightarrow> second_rejection_parks req
        | GuardrailRuleKey.DegradedVerdictDenied \<Rightarrow> degraded_verdict_denied req
        | GuardrailRuleKey.DestructiveRequiresApproval \<Rightarrow> destructive_requires_approval req
        | GuardrailRuleKey.AccountPinRequired \<Rightarrow> account_pin_required req
        | GuardrailRuleKey.TerminalEvidenceRequired \<Rightarrow> terminal_evidence_required req))"

definition run_subject :: "(uuid \<Rightarrow> string) \<Rightarrow> EvaluationRequest \<Rightarrow> SubjectKind \<times> string" where
  "run_subject uuid_text req =
     (case run_agent_run_id (er_run req) of
        Some run \<Rightarrow> (SubjectKind.AgentRun, uuid_text run)
      | None \<Rightarrow>
          (case run_team_run_id (er_run req) of
             Some team \<Rightarrow> (SubjectKind.TeamRun, uuid_text team)
           | None \<Rightarrow> (SubjectKind.TaskWorkflow, uuid_text (run_workflow_id (er_run req)))))"

definition gate_subject :: "(uuid \<Rightarrow> string) \<Rightarrow> EvaluationRequest \<Rightarrow> SubjectKind \<times> string" where
  "gate_subject uuid_text req =
     (case er_gate req of
        Some gate \<Rightarrow> (SubjectKind.Gate, gate) | None \<Rightarrow> run_subject uuid_text req)"

definition subject_of ::
  "(uuid \<Rightarrow> string) \<Rightarrow> EvaluationRequest \<Rightarrow> EvaluationSubject DomainResult" where
  "subject_of uuid_text req =
     (let (kind, ident) = (case gr_key (er_rule req) of
          GuardrailRuleKey.ModuleCollision \<Rightarrow>
            (SubjectKind.Task, uuid_text (run_task_id (er_run req)))
        | GuardrailRuleKey.SecondRejectionParks \<Rightarrow> gate_subject uuid_text req
        | GuardrailRuleKey.DegradedVerdictDenied \<Rightarrow> gate_subject uuid_text req
        | GuardrailRuleKey.DestructiveRequiresApproval \<Rightarrow>
            (SubjectKind.Action, act_digest (run_requested_action (er_run req)))
        | _ \<Rightarrow> run_subject uuid_text req)
      in try_bind (ExternalId_parse ident) (\<lambda>parsed. Inr \<lparr>es_kind = kind, es_id = parsed\<rparr>))"

record GuardrailEvaluation =
  gv_id :: uuid
  gv_rule_key :: GuardrailRuleKey
  gv_rule_version :: u32
  gv_subject :: EvaluationSubject
  gv_inputs :: EvaluationRequest
  gv_inputs_hash :: content_hash
  gv_verdict :: PolicyVerdict
  gv_reason_code :: ReasonCode
  gv_evidence_refs :: "EvidenceRef list"
  gv_recorded_at :: timestamp

definition evaluate ::
  "WorkProfileSpec digest \<Rightarrow> EvaluationRequest digest \<Rightarrow> (uuid \<Rightarrow> string) \<Rightarrow> EvaluationRequest \<Rightarrow>
   uuid \<Rightarrow> GuardrailEvaluation DomainResult" where
  "evaluate pdigest rdigest uuid_text req ident =
     try_bind (decide pdigest req) (\<lambda>decision.
     try_bind (rdigest req) (\<lambda>hash.
     try_bind (subject_of uuid_text req) (\<lambda>subject.
       Inr \<lparr>gv_id = ident, gv_rule_key = gr_key (er_rule req),
            gv_rule_version = gr_version (er_rule req), gv_subject = subject, gv_inputs = req,
            gv_inputs_hash = hash, gv_verdict = de_verdict decision,
            gv_reason_code = de_reason_code decision,
            gv_evidence_refs = de_evidence_refs decision, gv_recorded_at = er_evaluated_at req\<rparr>)))"

section \<open>Spellings\<close>

interpretation guardrail_rule_key: closed_enum "''GuardrailRuleKey''" GuardrailRuleKey_ALL GuardrailRuleKey_as_str
proof
  fix v show "v \<in> set GuardrailRuleKey_ALL" by (cases v) (simp_all add: GuardrailRuleKey_ALL_def)
qed (code_simp)

interpretation policy_verdict: closed_enum "''PolicyVerdict''" PolicyVerdict_ALL PolicyVerdict_as_str
proof
  fix v show "v \<in> set PolicyVerdict_ALL" by (cases v) (simp_all add: PolicyVerdict_ALL_def)
qed (code_simp)

interpretation reason_code: closed_enum "''ReasonCode''" ReasonCode_ALL ReasonCode_as_str
proof
  fix v show "v \<in> set ReasonCode_ALL" by (cases v) (simp_all add: ReasonCode_ALL_def)
qed (code_simp)

interpretation subject_kind: closed_enum "''SubjectKind''" SubjectKind_ALL SubjectKind_as_str
proof
  fix v show "v \<in> set SubjectKind_ALL" by (cases v) (simp_all add: SubjectKind_ALL_def)
qed (code_simp)

interpretation action_domain: closed_enum "''ActionDomain''" ActionDomain_ALL ActionDomain_as_str
proof
  fix v show "v \<in> set ActionDomain_ALL" by (cases v) (simp_all add: ActionDomain_ALL_def)
qed (code_simp)

interpretation action_intent: closed_enum "''ActionIntent''" ActionIntent_ALL ActionIntent_as_str
proof
  fix v show "v \<in> set ActionIntent_ALL" by (cases v) (simp_all add: ActionIntent_ALL_def)
qed (code_simp)

interpretation action_effect: closed_enum "''ActionEffect''" ActionEffect_ALL ActionEffect_as_str
proof
  fix v show "v \<in> set ActionEffect_ALL" by (cases v) (simp_all add: ActionEffect_ALL_def)
qed (code_simp)

interpretation authority_source: closed_enum "''AuthoritySource''" AuthoritySource_ALL AuthoritySource_as_str
proof
  fix v show "v \<in> set AuthoritySource_ALL" by (cases v) (simp_all add: AuthoritySource_ALL_def)
qed (code_simp)

interpretation approval_scope_kind: closed_enum "''ApprovalScopeKind''" ApprovalScopeKind_ALL ApprovalScopeKind_as_str
proof
  fix v show "v \<in> set ApprovalScopeKind_ALL" by (cases v) (simp_all add: ApprovalScopeKind_ALL_def)
qed (code_simp)

section \<open>When each rule admits\<close>

lemmas decision_simps = bare_def with_evidence_def Decision_admits_def

lemma worktree_sticky_admits:
  "Decision_admits (worktree_sticky req) \<longleftrightarrow>
     (\<exists>w. ws_claimed_worktree (er_workspace req) = Some w
        \<and> (run_recorded_worktree (er_run req) = Some w
           \<or> run_recorded_worktree (er_run req) = None
             \<and> ws_candidate_worktrees (er_workspace req) = [w]))"
  by (auto simp: worktree_sticky_def decision_simps Let_def length_Suc_conv
      split: option.splits if_splits)

lemma module_collision_admits:
  "Decision_admits (module_collision req) \<longleftrightarrow>
     (\<forall>module. run_module (er_run req) = Some module \<longrightarrow>
        contenders_of (ws_module_claims (er_workspace req)) module (run_task_id (er_run req)) = []
        \<or> module_isolated_by_worktree
            (case run_recorded_worktree (er_run req) of
               Some w \<Rightarrow> Some w | None \<Rightarrow> ws_claimed_worktree (er_workspace req))
            (contenders_of (ws_module_claims (er_workspace req)) module (run_task_id (er_run req))))"
  by (auto simp: module_collision_def decision_simps Let_def split: option.splits)

lemma refusal_for_None:
  "refusal_for a action project task now = None \<longleftrightarrow>
     ap_authority_source a \<noteq> AuthoritySource.RecoveryAdvice
     \<and> ap_action_digest a = act_digest action \<and> ap_action_domain a = act_domain action
     \<and> ap_action_intent a = act_intent action \<and> ap_action_effect a = act_effect action
     \<and> ap_project_id a = project
     \<and> (ap_scope_kind a = ApprovalScopeKind.Task \<longrightarrow> ap_task_id a = Some task)
     \<and> ap_consumed_at a = None \<and> now < ap_expires_at a"
  by (auto simp: refusal_for_def)

lemma destructive_admits:
  "Decision_admits (destructive_requires_approval req) \<longleftrightarrow>
     act_effect (run_requested_action (er_run req)) \<noteq> ActionEffect.Destroy
     \<or> act_dry_run (run_requested_action (er_run req))
     \<or> (\<exists>a. er_approval req = Some a
          \<and> refusal_for a (run_requested_action (er_run req)) (run_project_id (er_run req))
              (run_task_id (er_run req)) (er_evaluated_at req) = None)"
  by (auto simp: destructive_requires_approval_def decision_simps Let_def split: option.splits)

text \<open>Counting rejections since the last pass, in the order of the append-only history.\<close>

fun open_rejections :: "GateVerdict list \<Rightarrow> nat" where
  "open_rejections vs =
     length (filter (\<lambda>v. v = GateVerdict.Rejected) (takeWhile (\<lambda>v. v \<noteq> GateVerdict.Passed) (rev vs)))"

lemma open_rejections_snoc:
  "open_rejections (vs @ [v]) =
     (case v of GateVerdict.Rejected \<Rightarrow> Suc (open_rejections vs)
      | GateVerdict.Passed \<Rightarrow> 0 | _ \<Rightarrow> open_rejections vs)"
  by (cases v) simp_all

lemma open_rejections_le: "open_rejections vs \<le> length vs"
  using le_trans [OF length_filter_le length_takeWhile_le [of _ "rev vs"]] by simp

lemma foldl_count_rejection:
  "length es < 2 ^ 32 \<Longrightarrow> unat (foldl count_rejection 0 es) = open_rejections (map ge_verdict es)"
proof (induction es rule: rev_induct)
  case (snoc e es)
  have "open_rejections (map ge_verdict es) < 2 ^ 32 - 1"
    using open_rejections_le [of "map ge_verdict es"] snoc.prems by simp
  with snoc show ?case
    by (auto simp: count_rejection_def open_rejections_snoc unat_word_ariths simp del: open_rejections.simps
        split: GateVerdict.splits)
qed simp

lemma rejections_since_pass_counts:
  assumes "length history < 2 ^ 32"
  shows "unat (rejections_since_pass history gate reviewer)
    = open_rejections (map ge_verdict (relevant_history history gate reviewer))"
proof -
  have "length (relevant_history history gate reviewer) \<le> length history"
    by (simp add: relevant_history_def)
  with assms show ?thesis unfolding rejections_since_pass_def by (intro foldl_count_rejection) simp
qed

section \<open>Claims\<close>

text \<open>C38: A destructive, non-dry-run action is admitted exactly when an approval is presented that
  names this exact action (digest, domain, intent and effect), this project and, if task-scoped,
  this task, is unspent and unexpired at the evaluation instant, and does not come from recovery
  advice.\<close>

theorem destructive_needs_bound_approval:
  assumes "act_effect (run_requested_action (er_run req)) = ActionEffect.Destroy"
    and "\<not> act_dry_run (run_requested_action (er_run req))"
  shows "Decision_admits (destructive_requires_approval req) \<longleftrightarrow>
     (\<exists>a. er_approval req = Some a \<and> ap_authority_source a \<noteq> AuthoritySource.RecoveryAdvice
        \<and> ap_action_digest a = act_digest (run_requested_action (er_run req))
        \<and> ap_action_domain a = act_domain (run_requested_action (er_run req))
        \<and> ap_action_intent a = act_intent (run_requested_action (er_run req))
        \<and> ap_action_effect a = ActionEffect.Destroy
        \<and> ap_project_id a = run_project_id (er_run req)
        \<and> (ap_scope_kind a = ApprovalScopeKind.Task \<longrightarrow> ap_task_id a = Some (run_task_id (er_run req)))
        \<and> ap_consumed_at a = None \<and> er_evaluated_at req < ap_expires_at a)"
  using assms by (auto simp: destructive_admits refusal_for_None)

text \<open>A request about a gate is parked exactly when the acting reviewer's own rejections of
  that gate since their own last pass, counting a rejection being recorded now, reach two; verdicts
  of other reviewers and other gates never count, and only the reviewer's own pass resets.\<close>

theorem second_rejection_parks_exact:
  assumes "er_gate req = Some gate" and "length (er_prior_gate_evaluations req) < 2 ^ 32 - 1"
  shows "de_verdict (second_rejection_parks req) = PolicyVerdict.Park \<longleftrightarrow>
     2 \<le> open_rejections (map ge_verdict (relevant_history (er_prior_gate_evaluations req) gate
              (actor_principal (er_actor req))))
         + (if act_intent (run_requested_action (er_run req)) = ActionIntent.RecordGateRejection
            then 1 else 0)"
proof -
  let ?es = "relevant_history (er_prior_gate_evaluations req) gate (actor_principal (er_actor req))"
  let ?n = "open_rejections (map ge_verdict ?es)"
  have len: "length ?es \<le> length (er_prior_gate_evaluations req)" by (simp add: relevant_history_def)
  have n: "?n < 2 ^ 32 - 1" using open_rejections_le [of "map ge_verdict ?es"] len assms(2) by simp
  have prior: "unat (rejections_since_pass (er_prior_gate_evaluations req) gate
      (actor_principal (er_actor req))) = ?n"
    using rejections_since_pass_counts [of "er_prior_gate_evaluations req"] assms(2) by simp
  define p :: u32 where "p = (if act_intent (run_requested_action (er_run req))
      = ActionIntent.RecordGateRejection then 1 else 0)"
  have sum: "unat (rejections_since_pass (er_prior_gate_evaluations req) gate
      (actor_principal (er_actor req)) + p) = ?n + unat p"
    using n prior by (simp add: p_def unat_word_ariths)
  have "de_verdict (second_rejection_parks req) = PolicyVerdict.Park \<longleftrightarrow> 2 \<le> ?n + unat p"
    using assms(1)
    by (simp add: second_rejection_parks_def Let_def decision_simps REJECTIONS_BEFORE_PARK_def
        word_le_nat_alt p_def [symmetric] sum del: open_rejections.simps)
  then show ?thesis by (simp add: p_def split: if_splits)
qed

text \<open>A gate verdict is admitted exactly from an actor that is not a simulated persona, whose
  role the pinned profile authorises over the gate in question, and whose evidence rung reaches the
  verdict threshold.\<close>

theorem verdict_authority_exact:
  assumes "writes_gate_verdict (act_intent (run_requested_action (er_run req)))"
  shows "Decision_admits (degraded_verdict_denied req) \<longleftrightarrow>
     actor_persona (er_actor req) = None \<and> 2 \<le> actor_verdict_rung (er_actor req)
     \<and> (\<forall>gate. er_gate req = Some gate \<longrightarrow>
          (\<exists>spec. gate_lookup (rs_definition (er_workflow req)) gate = Some spec
             \<and> (actor_role (er_actor req) \<in> set (ga_evaluator_roles spec)
                \<or> ga_waiver_allowed spec \<and> actor_role (er_actor req) \<in> set (ga_waiver_roles spec))))"
  using assms
  by (auto simp: degraded_verdict_denied_def decision_simps may_write_verdict_def VERDICT_THRESHOLD_def
      gate_authorizes_def split: option.splits)

definition sample_action :: "ActionIntent \<Rightarrow> RequestedAction" where
  "sample_action i = \<lparr>act_domain = ActionDomain.Filesystem, act_intent = i,
     act_effect = ActionEffect.Destroy, act_operation = ''remove'', act_target = ''tree'',
     act_digest = ''d1'', act_dry_run_supported = False, act_dry_run = False\<rparr>"

definition sample_approval :: ApprovalReceipt where
  "sample_approval =
     \<lparr>ap_id = 1, ap_scope_kind = ApprovalScopeKind.Task, ap_project_id = 3, ap_task_id = Some 5,
      ap_action_domain = ActionDomain.Filesystem, ap_action_intent = ActionIntent.RecordGateRejection,
      ap_action_effect = ActionEffect.Destroy, ap_action_digest = ''d1'',
      ap_approver_principal = ''op'', ap_approver_role = ''lead'', ap_approver_account = 2,
      ap_authority_source = AuthoritySource.Operator, ap_evidence = ''e'', ap_issued_at = 0,
      ap_expires_at = 10, ap_consumed_at = None\<rparr>"

definition sample_verdict :: "u32 \<Rightarrow> GateVerdict \<Rightarrow> GateEvaluation" where
  "sample_verdict i v =
     \<lparr>ge_project_id = 3, ge_workflow_id = 8, ge_gate = ''review'', ge_sequence = i, ge_verdict = v,
      ge_evaluator_role = ''qa'', ge_evaluator_account = 2, ge_evidence = [], ge_agent_run_id = None,
      ge_reviewer_principal = Some ''ann'', ge_policy_evaluation_id = None, ge_recorded_at = 0\<rparr>"

definition sample_evaluation :: EvaluationRequest where
  "sample_evaluation =
     \<lparr>er_schema_version = 1, er_rule = \<lparr>gr_key = GuardrailRuleKey.SecondRejectionParks, gr_version = 1\<rparr>,
      er_workflow = sample_snapshot, er_current_phase = ''build'', er_gate = Some ''review'',
      er_actor = \<lparr>actor_account = 2, actor_principal = ''ann'', actor_role = ''qa'',
        actor_verdict_rung = 2, actor_persona = None\<rparr>,
      er_run = \<lparr>run_project_id = 3, run_task_id = 5, run_workflow_id = 8, run_module = None,
        run_team_run_id = None, run_agent_run_id = Some 6, run_parent_agent_run_id = None,
        run_pinned_account = Some 2, run_recorded_worktree = None,
        run_requested_action = sample_action ActionIntent.RecordGateRejection,
        run_rule_set_revision = 1\<rparr>,
      er_workspace = \<lparr>ws_claimed_worktree = None, ws_candidate_worktrees = [], ws_module_claims = []\<rparr>,
      er_artifacts = [], er_approval = Some sample_approval,
      er_prior_gate_evaluations =
        [sample_verdict 3 GateVerdict.Rejected, sample_verdict 1 GateVerdict.Rejected,
         sample_verdict 2 GateVerdict.Passed],
      er_terminal_observation = None, er_evaluated_at = 4\<rparr>"

theorem destructive_needs_bound_approval_witness:
  "Decision_admits (destructive_requires_approval sample_evaluation)
   \<and> \<not> Decision_admits (destructive_requires_approval (sample_evaluation\<lparr>er_evaluated_at := 10\<rparr>))"
  by (subst (1 2) destructive_needs_bound_approval)
    (simp_all add: sample_evaluation_def sample_action_def sample_approval_def)

theorem second_rejection_parks_exact_witness:
  "de_verdict (second_rejection_parks sample_evaluation) = PolicyVerdict.Park"
proof -
  have "2 \<le> open_rejections (map ge_verdict (relevant_history
      (er_prior_gate_evaluations sample_evaluation) ''review'' (actor_principal (er_actor sample_evaluation))))
      + (if act_intent (run_requested_action (er_run sample_evaluation)) = ActionIntent.RecordGateRejection
         then 1 else 0)"
    by code_simp
  moreover have "er_gate sample_evaluation = Some ''review''" by (simp add: sample_evaluation_def)
  moreover have "length (er_prior_gate_evaluations sample_evaluation) < 2 ^ 32 - 1"
    by (simp add: sample_evaluation_def)
  ultimately show ?thesis using second_rejection_parks_exact by blast
qed

theorem verdict_authority_exact_witness:
  "Decision_admits (degraded_verdict_denied sample_evaluation)
   \<and> \<not> Decision_admits (degraded_verdict_denied
        (sample_evaluation\<lparr>er_actor := (er_actor sample_evaluation)\<lparr>actor_verdict_rung := 1\<rparr>\<rparr>))"
  by (subst (1 2) verdict_authority_exact)
    (simp_all add: sample_evaluation_def sample_action_def writes_gate_verdict_def gate_lookup_def
      sample_snapshot_def sample_profile_def sample_gate_def word_le_nat_alt)

end
