(* ===== verification/Team_Closure.thy ===== *)
theory Team_Closure
  imports Run_Lifecycle
begin

text \<open>
  \<^verbatim>\<open>crates/kontor-core/src/state.rs\<close>, team part: the evidence a team run closes on, the
  reduction of child lifecycles to a team outcome, and the two decisions (advance and closure) that
  write a team run, each guarded by the stored revision.  The canonical document digest is the
  argument \<open>digest\<close> of the definitions that compute one.
\<close>

section \<open>Team evidence\<close>

datatype TeamEvidenceSource =
    ChildEvidence (cited_team: uuid)
  | OperatorAbandon (cited_team_receipt: uuid)
  | SettledTurns (cited_team: uuid)
  | RoleSlotDispositions (cited_team: uuid)

datatype SlotDisposition =
    SettledTurn (disposition_hash: content_hash)
  | WaivedUnbound (disposition_hash: content_hash)

record TeamTerminalEvidence =
  tte_outcome :: TerminalOutcome
  tte_source :: TeamEvidenceSource
  tte_evidence_hash :: content_hash
  tte_closed_at :: timestamp

record TeamChildEvidence =
  tc_agent_run_id :: uuid
  tc_lifecycle :: RunLifecycle
  tc_evidence_hash :: "content_hash option"

record TeamChildEvidenceDigestInput =
  tcd_schema_version :: u32
  tcd_children :: "TeamChildEvidence list"

type_synonym child_digest = "TeamChildEvidenceDigestInput \<Rightarrow> content_hash DomainResult"

definition team_child_evidence_digest ::
  "child_digest \<Rightarrow> TeamChildEvidence list \<Rightarrow> content_hash DomainResult" where
  "team_child_evidence_digest digest children =
     digest \<lparr>tcd_schema_version = SCHEMA_VERSION,
             tcd_children = sort_key tc_agent_run_id children\<rparr>"

record DispositionDigestInput =
  dd_schema_version :: u32
  dd_team_run_id :: uuid
  dd_template_id :: uuid
  dd_template_version :: u32
  dd_template_hash :: content_hash
  dd_slots :: "(string \<times> SlotDisposition) list"

type_synonym disposition_digest = "DispositionDigestInput \<Rightarrow> content_hash DomainResult"

definition role_slot_disposition_digest ::
  "disposition_digest \<Rightarrow> u32 \<Rightarrow> uuid \<Rightarrow> uuid \<Rightarrow> u32 \<Rightarrow> content_hash \<Rightarrow>
   (string \<times> SlotDisposition) list \<Rightarrow> content_hash DomainResult" where
  "role_slot_disposition_digest digest schema_version team_run_id template_id template_version
     template_hash slots =
     digest \<lparr>dd_schema_version = schema_version, dd_team_run_id = team_run_id,
             dd_template_id = template_id, dd_template_version = template_version,
             dd_template_hash = template_hash, dd_slots = slots\<rparr>"

definition reduce_team_outcome :: "RunLifecycle list \<Rightarrow> TerminalOutcome DomainResult" where
  "reduce_team_outcome children =
     (if children = []
      then Inl (MissingEvidence ''team closure''
             ''a team with no child runs has no evidence to close on'')
      else if list_ex (\<lambda>c. \<not> RunLifecycle_is_terminal c) children
      then Inl (MissingEvidence ''team closure''
             ''every child run must be terminal before the team closes'')
      else if RunLifecycle.Failed \<in> set children then Inr TerminalOutcome.Failed
      else if RunLifecycle.Cancelled \<in> set children then Inr TerminalOutcome.Cancelled
      else if RunLifecycle.Parked \<in> set children then Inr TerminalOutcome.Parked
      else Inr TerminalOutcome.Succeeded)"

definition TeamTerminalEvidence_validate :: "TeamTerminalEvidence \<Rightarrow> unit DomainResult" where
  "TeamTerminalEvidence_validate ev =
     (case tte_source ev of
        TeamEvidenceSource.OperatorAbandon _ \<Rightarrow>
          if tte_outcome ev \<noteq> TerminalOutcome.Abandoned
          then Inl (MissingAuthority ''team closure''
                 ''an operator receipt can only evidence an abandoned team'')
          else Inr ()
      | _ \<Rightarrow> Inr ())"

definition verify_children ::
  "child_digest \<Rightarrow> TeamTerminalEvidence \<Rightarrow> uuid \<Rightarrow> TeamChildEvidence list \<Rightarrow> unit DomainResult"
where
  "verify_children digest ev team_run_id children =
     (case tte_source ev of
        TeamEvidenceSource.ChildEvidence cited \<Rightarrow>
          if cited \<noteq> team_run_id
          then Inl (MissingEvidence ''team closure''
                 ''the cited child evidence belongs to a different team'')
          else
            try_bind (reduce_team_outcome (map tc_lifecycle children)) (\<lambda>computed.
              if computed \<noteq> tte_outcome ev
              then Inl (MissingEvidence ''team closure''
                     ''the children compute a different outcome'')
              else try_bind (team_child_evidence_digest digest children) (\<lambda>hash.
                if hash \<noteq> tte_evidence_hash ev
                then Inl (MissingEvidence ''team closure'' (''the digest does not match the team'' @ [CHR 0x27] @ ''s own child evidence''))
                else Inr ()))
      | _ \<Rightarrow> Inl (MissingAuthority ''team closure''
               ''this closure is not evidenced by child runs''))"

definition TeamTerminalEvidence_verify_abandon ::
  "TeamTerminalEvidence \<Rightarrow> u64 \<Rightarrow> AbandonReceiptFacts \<Rightarrow> unit DomainResult" where
  "TeamTerminalEvidence_verify_abandon ev closing_revision facts =
     try_bind (TeamTerminalEvidence_validate ev) (\<lambda>_.
       (case tte_source ev of
          TeamEvidenceSource.OperatorAbandon _ \<Rightarrow>
            AbandonReceiptFacts_verify facts ''team closure'' closing_revision
              (tte_evidence_hash ev) (tte_closed_at ev)
        | _ \<Rightarrow> Inl (MissingAuthority ''team closure''
                 ''this closure is not evidenced by an operator receipt'')))"

section \<open>Decisions on a team run\<close>

definition plan_team_advance ::
  "RunLifecycle \<Rightarrow> u64 \<Rightarrow> u64 \<Rightarrow> RunLifecycle \<Rightarrow> u64 DomainResult" where
  "plan_team_advance current stored_revision expected to =
     (if RunLifecycle_is_terminal current then Inl (DomainError.Terminal ''team run'')
      else try_bind (AggregateRevision_expect stored_revision ''team run'' expected) (\<lambda>_.
        if \<not> RunLifecycle_can_advance_to current to
        then Inl (IllegalTransition ''team run'' (RunLifecycle_as_str current)
               (RunLifecycle_as_str to))
        else AggregateRevision_next stored_revision))"

definition verify_team_evidence ::
  "child_digest \<Rightarrow> u64 \<Rightarrow> uuid \<Rightarrow> TeamTerminalEvidence \<Rightarrow> TeamChildEvidence list \<Rightarrow>
   AbandonReceiptFacts option \<Rightarrow> unit DomainResult" where
  "verify_team_evidence digest stored_revision team_run_id evidence children receipt =
     (case tte_source evidence of
        TeamEvidenceSource.ChildEvidence _ \<Rightarrow>
          verify_children digest evidence team_run_id children
      | TeamEvidenceSource.OperatorAbandon _ \<Rightarrow>
          (case receipt of
             None \<Rightarrow> Inl (MissingEvidence ''team closure''
                       ''the cited receipt is not stored in this project'')
           | Some facts \<Rightarrow> TeamTerminalEvidence_verify_abandon evidence stored_revision facts)
      | TeamEvidenceSource.SettledTurns cited \<Rightarrow>
          if cited \<noteq> team_run_id
          then Inl (MissingEvidence ''team closure''
                 ''the settled-turn evidence names another team run'')
          else Inr ()
      | TeamEvidenceSource.RoleSlotDispositions cited \<Rightarrow>
          if cited \<noteq> team_run_id
          then Inl (MissingEvidence ''team closure''
                 ''the role-slot disposition evidence names another team run'')
          else Inr ())"

definition plan_team_closure ::
  "child_digest \<Rightarrow> RunLifecycle \<Rightarrow> u64 \<Rightarrow> u64 \<Rightarrow> uuid \<Rightarrow> TeamTerminalEvidence \<Rightarrow>
   TeamChildEvidence list \<Rightarrow> AbandonReceiptFacts option \<Rightarrow> u64 DomainResult" where
  "plan_team_closure digest current stored_revision expected team_run_id evidence children receipt =
     try_bind (TeamTerminalEvidence_validate evidence) (\<lambda>_.
     if RunLifecycle_is_terminal current then Inl (DomainError.Terminal ''team run'')
     else
       try_bind (AggregateRevision_expect stored_revision ''team run'' expected) (\<lambda>_.
       try_bind (verify_team_evidence digest stored_revision team_run_id evidence children receipt)
         (\<lambda>_. AggregateRevision_next stored_revision)))"

section \<open>Properties of team outcomes\<close>

lemma terminal_lifecycles:
  "RunLifecycle_is_terminal s \<Longrightarrow>
   s = RunLifecycle.Succeeded \<or> s = RunLifecycle.Failed \<or> s = RunLifecycle.Cancelled
   \<or> s = RunLifecycle.Parked"
  by (simp add: RunLifecycle_is_terminal_def)

lemma reduce_succeeded:
  "reduce_team_outcome cs = Inr TerminalOutcome.Succeeded \<longleftrightarrow>
     cs \<noteq> [] \<and> (\<forall>c \<in> set cs. c = RunLifecycle.Succeeded)"
  by (auto simp: reduce_team_outcome_def list_ex_iff RunLifecycle_is_terminal_def)

lemma reduce_closes_iff:
  "(\<exists>out. reduce_team_outcome cs = Inr out) \<longleftrightarrow>
     cs \<noteq> [] \<and> (\<forall>c \<in> set cs. RunLifecycle_is_terminal c)"
  by (auto simp: reduce_team_outcome_def list_ex_iff)

lemma reduce_set_cong:
  "set cs = set ds \<Longrightarrow> reduce_team_outcome cs = reduce_team_outcome ds"
  by (cases cs; cases ds) (auto simp: reduce_team_outcome_def list_ex_iff)

lemma digest_perm:
  assumes "mset children = mset other" and "distinct (map tc_agent_run_id children)"
  shows "team_child_evidence_digest digest children = team_child_evidence_digest digest other"
  using sort_key_perm_unique [OF assms(1), of tc_agent_run_id] assms(2)
  by (simp add: team_child_evidence_digest_def distinct_map)

lemma plan_team_closure_Inr:
  "plan_team_closure digest cur stored ex team ev cs r = Inr n \<longleftrightarrow>
     TeamTerminalEvidence_validate ev = Inr () \<and> \<not> RunLifecycle_is_terminal cur \<and> stored = ex
     \<and> verify_team_evidence digest stored team ev cs r = Inr () \<and> AggregateRevision_next stored = Inr n"
  by (auto simp: plan_team_closure_def)

lemma verify_children_Inr:
  "verify_children digest ev team cs = Inr u \<longleftrightarrow>
     tte_source ev = TeamEvidenceSource.ChildEvidence team
     \<and> reduce_team_outcome (map tc_lifecycle cs) = Inr (tte_outcome ev)
     \<and> team_child_evidence_digest digest cs = Inr (tte_evidence_hash ev)"
  by (auto simp: verify_children_def split: TeamEvidenceSource.splits)

section \<open>Claims\<close>

text \<open>A team outcome is computed from its children and never asserted: it exists exactly when
  there is a child and every child is terminal, it is success exactly when every child succeeded,
  and it depends only on which lifecycles occur.\<close>

theorem team_outcome_computed:
  "((\<exists>out. reduce_team_outcome cs = Inr out) \<longleftrightarrow>
      cs \<noteq> [] \<and> list_all RunLifecycle_is_terminal cs)
   \<and> (reduce_team_outcome cs = Inr TerminalOutcome.Succeeded \<longleftrightarrow>
      cs \<noteq> [] \<and> set cs = {RunLifecycle.Succeeded})
   \<and> reduce_team_outcome (rev cs @ cs) = reduce_team_outcome cs"
  using reduce_closes_iff [of cs] reduce_succeeded [of cs] reduce_set_cong [of "rev cs @ cs" cs]
  by (cases cs) (auto simp: list_all_iff)

text \<open>A closure on child evidence is accepted exactly for an open team at the expected
  revision, citing this team, with the outcome its children compute and the digest of exactly
  those children; the digest does not depend on the order the rows were read in.\<close>

theorem child_closure_exact:
  assumes "tte_source ev = TeamEvidenceSource.ChildEvidence cited"
    and "mset children = mset reread" and "distinct (map tc_agent_run_id children)"
  shows "plan_team_closure digest cur stored expected team ev reread receipt = Inr n \<longleftrightarrow>
     \<not> RunLifecycle_is_terminal cur \<and> stored = expected \<and> cited = team
     \<and> reduce_team_outcome (map tc_lifecycle children) = Inr (tte_outcome ev)
     \<and> team_child_evidence_digest digest children = Inr (tte_evidence_hash ev)
     \<and> AggregateRevision_next stored = Inr n"
proof -
  have "set (map tc_lifecycle reread) = set (map tc_lifecycle children)"
    using mset_eq_setD [OF assms(2)] by simp
  from reduce_set_cong [OF this] digest_perm [OF assms(2,3), of digest] assms(1)
  show ?thesis
    by (auto simp: plan_team_closure_Inr verify_team_evidence_def verify_children_Inr
        TeamTerminalEvidence_validate_def)
qed

definition sample_child :: "uuid \<Rightarrow> TeamChildEvidence" where
  "sample_child i =
     \<lparr>tc_agent_run_id = i, tc_lifecycle = RunLifecycle.Succeeded, tc_evidence_hash = Some ''h''\<rparr>"

definition sample_digest :: child_digest where
  "sample_digest d = Inr (concat (List.map_filter tc_evidence_hash (tcd_children d)))"

definition sample_evidence :: TeamTerminalEvidence where
  "sample_evidence =
     \<lparr>tte_outcome = TerminalOutcome.Succeeded, tte_source = TeamEvidenceSource.ChildEvidence 9,
      tte_evidence_hash = ''hh'', tte_closed_at = 3\<rparr>"

theorem child_closure_exact_witness:
  "plan_team_closure sample_digest RunLifecycle.Running 4 4 9 sample_evidence
     [sample_child 2, sample_child 1] None = Inr 5"
proof -
  let ?cs = "[sample_child 1, sample_child 2]"
  have "tte_source sample_evidence = TeamEvidenceSource.ChildEvidence 9"
    by (simp add: sample_evidence_def)
  moreover have "mset ?cs = mset [sample_child 2, sample_child 1]" by (simp add: add_mset_commute)
  moreover have "distinct (map tc_agent_run_id ?cs)" by code_simp
  moreover have "\<not> RunLifecycle_is_terminal RunLifecycle.Running" by code_simp
  moreover have "reduce_team_outcome (map tc_lifecycle ?cs) = Inr (tte_outcome sample_evidence)"
    by code_simp
  moreover have "team_child_evidence_digest sample_digest ?cs = Inr (tte_evidence_hash sample_evidence)"
    by code_simp
  moreover have "AggregateRevision_next 4 = Inr 5"
    by (simp add: AggregateRevision_next_def checked_add_def)
  ultimately show ?thesis using child_closure_exact by blast
qed

end
