(* ===== verification/Task_Store.thy ===== *)
theory Task_Store
  imports Work_Profile Team_Closure
begin

text \<open>
  The task and team-run writers of \<^verbatim>\<open>crates/kontor-store/src/repository.rs\<close>, over one project's rows:
  \<^verbatim>\<open>transition_task_in_transaction\<close> with the proofs it reads from the store,
  \<^verbatim>\<open>advance_team_run\<close> and \<^verbatim>\<open>close_team_run\<close>.  Tables are lists of typed rows (the columns carry
  \<open>CHECK\<close> constraints, so a stored spelling always parses); SQLite gives a transaction the rows it
  read, so the final compare-and-swap of each write is the revision test already made.  Arithmetic
  on instants and the canonical digests are arguments.
\<close>

section \<open>Repository errors\<close>

datatype RepositoryError =
    Domain DomainError
  | NotFound string
  | Conflict string string
  | CapacityExhausted string
  | AuthorityWithheld string
  | CrossProject string
  | Backend string

type_synonym 'a RepositoryResult = "RepositoryError + 'a"

definition domain :: "'a DomainResult \<Rightarrow> 'a RepositoryResult" where
  "domain r = (case r of Inl e \<Rightarrow> Inl (Domain e) | Inr x \<Rightarrow> Inr x)"

lemma domain_Inr [simp]: "domain r = Inr x \<longleftrightarrow> r = Inr x"
  by (cases r) (simp_all add: domain_def)

section \<open>Rows\<close>

datatype SubjectAuthority =
    Agentsroom | Kontor

primrec SubjectAuthority_as_str :: "SubjectAuthority \<Rightarrow> string" where
  "SubjectAuthority_as_str SubjectAuthority.Agentsroom = ''agentsroom''"
| "SubjectAuthority_as_str SubjectAuthority.Kontor = ''kontor''"

definition SubjectAuthority_ALL :: "SubjectAuthority list" where
  "SubjectAuthority_ALL =
     [SubjectAuthority.Agentsroom, SubjectAuthority.Kontor]"

datatype TopologyLifecycle =
    Active | Retired | Archived

primrec TopologyLifecycle_as_str :: "TopologyLifecycle \<Rightarrow> string" where
  "TopologyLifecycle_as_str TopologyLifecycle.Active = ''active''"
| "TopologyLifecycle_as_str TopologyLifecycle.Retired = ''retired''"
| "TopologyLifecycle_as_str TopologyLifecycle.Archived = ''archived''"

definition TopologyLifecycle_ALL :: "TopologyLifecycle list" where
  "TopologyLifecycle_ALL =
     [TopologyLifecycle.Active, TopologyLifecycle.Retired, TopologyLifecycle.Archived]"

record SeatBinding =
  sb_id :: uuid
  sb_team_run_id :: "uuid option"
  sb_lifecycle :: TopologyLifecycle
  sb_attach_deadline :: timestamp
  sb_last_attached_at :: "timestamp option"
  sb_last_activity_at :: "timestamp option"
  sb_parent_seat_binding_id :: "uuid option"
  sb_released_at :: "timestamp option"
  sb_replaced_by :: "uuid option"
  sb_runtime_reported :: "ObservedRunState option"

definition closes_children :: "SeatBinding \<Rightarrow> bool" where
  "closes_children b \<longleftrightarrow>
     sb_replaced_by b \<noteq> None \<or> sb_released_at b \<noteq> None
     \<or> sb_lifecycle b \<noteq> TopologyLifecycle.Active"

definition attachment_observation :: "SeatBinding \<Rightarrow> bool \<Rightarrow> SeatAttachmentObservation" where
  "attachment_observation b closed =
     \<lparr>attach_deadline = sb_attach_deadline b, last_attached_at = sb_last_attached_at b,
      last_activity_at = sb_last_activity_at b, parent_closed = closed,
      seat_released = (sb_released_at b \<noteq> None),
      runtime_reported = (case sb_runtime_reported b of
         Some s \<Rightarrow> s | None \<Rightarrow> ObservedRunState.Unknown)\<rparr>"

record agent_run_row =
  ar_id :: uuid
  ar_team_run_id :: uuid
  ar_lifecycle :: RunLifecycle
  ar_observed_state :: ObservedRunState
  ar_last_confirmed_at :: "timestamp option"
  ar_created_at :: timestamp
  ar_closed_at :: "timestamp option"
  ar_terminal_evidence_hash :: "content_hash option"

record team_run_row =
  tm_id :: uuid
  tm_task_id :: uuid
  tm_template_id :: uuid
  tm_template_version :: u32
  tm_definition_hash :: content_hash
  tm_role_slots :: "string list DomainResult"
  tm_lifecycle :: RunLifecycle
  tm_terminal_outcome :: "TerminalOutcome option"
  tm_terminal_source :: "TeamEvidenceSource option"
  tm_terminal_evidence_hash :: "content_hash option"
  tm_closed_at :: "timestamp option"
  tm_revision :: u64

record task_row =
  tk_state :: TaskState
  tk_imported_state :: "ImportedTaskState option"
  tk_revision :: u64
  tk_updated_at :: timestamp

record workflow_row =
  wf_id :: uuid
  wf_task_id :: uuid
  wf_snapshot :: ResolvedWorkProfileSnapshot
  wf_active :: bool

record receipt_row =
  rc_id :: uuid
  rc_is_abandon_run :: bool
  rc_target_team_run :: "uuid option"
  rc_target_revision :: u64
  rc_intent_hash :: content_hash
  rc_created_at :: timestamp

text \<open>Gate evaluations, role turns and waivers are listed in the order their queries return them.\<close>

record store =
  st_backlog_authority :: "SubjectAuthority option"
  st_tasks :: "uuid \<rightharpoonup> task_row"
  st_dependencies :: "(uuid \<times> uuid) list"
  st_workflows :: "workflow_row list"
  st_gate_evaluations :: "(uuid \<times> string \<times> GateVerdict) list"
  st_team_runs :: "team_run_row list"
  st_agent_runs :: "agent_run_row list"
  st_seat_bindings :: "SeatBinding list"
  st_role_turns :: "(uuid \<times> string \<times> content_hash) list"
  st_role_slot_waivers :: "(uuid \<times> string \<times> content_hash) list"
  st_receipts :: "receipt_row list"

section \<open>Revisions as columns\<close>

definition revision_column :: "u64 \<Rightarrow> u64 RepositoryResult" where
  "revision_column r =
     (if r \<le> STORABLE_MAX then Inr r else Inl (Backend ''revision exceeds the storable range''))"

definition next_revision :: "u64 \<Rightarrow> u64 RepositoryResult" where
  "next_revision r = try_bind (domain (AggregateRevision_next r)) revision_column"

lemma next_revision_Inr: "next_revision r = Inr n \<Longrightarrow> unat n = Suc (unat r)"
  by (auto simp: next_revision_def revision_column_def dest: AggregateRevision_next_Inr
      split: if_splits)

section \<open>Proofs read from the rows\<close>

definition require_backlog_authority :: "store \<Rightarrow> unit RepositoryResult" where
  "require_backlog_authority st =
     (case st_backlog_authority st of
        Some SubjectAuthority.Kontor \<Rightarrow> Inr ()
      | _ \<Rightarrow> Inl (AuthorityWithheld ''backlog''))"

definition SEAT_ATTACH_GRACE :: duration where "SEAT_ATTACH_GRACE = 600"
definition SEAT_MAX_IDLE :: duration where "SEAT_MAX_IDLE = 1800"

type_synonym plus_time = "timestamp \<Rightarrow> duration \<Rightarrow> timestamp option"

definition conclude_seat :: "since \<Rightarrow> store \<Rightarrow> timestamp \<Rightarrow> SeatBinding \<Rightarrow> SeatAttachment" where
  "conclude_seat since st now b =
     (let closed = (case sb_parent_seat_binding_id b of
            None \<Rightarrow> False
          | Some parent \<Rightarrow>
              (case find (\<lambda>p. sb_id p = parent) (st_seat_bindings st) of
                 None \<Rightarrow> True
               | Some p \<Rightarrow> closes_children p))
      in evaluate_seat_attachment since (attachment_observation b closed) now SEAT_MAX_IDLE)"

definition legacy_seat ::
  "since \<Rightarrow> plus_time \<Rightarrow> timestamp \<Rightarrow> agent_run_row \<Rightarrow> SeatAttachment DomainResult" where
  "legacy_seat since add_time now r =
     (case add_time (ar_created_at r) SEAT_ATTACH_GRACE of
        None \<Rightarrow> Inl (Invalid ''seat attach deadline'' ''overflows the timestamp range'')
      | Some deadline \<Rightarrow>
          Inr (evaluate_seat_attachment since
            \<lparr>attach_deadline = deadline,
             last_attached_at = (if RunLifecycle_is_dispatched (ar_lifecycle r)
                                 then ar_last_confirmed_at r else None),
             last_activity_at = ar_last_confirmed_at r, parent_closed = False,
             seat_released = (ar_closed_at r \<noteq> None),
             runtime_reported = ar_observed_state r\<rparr> now SEAT_MAX_IDLE))"

fun collect :: "('a \<Rightarrow> 'e + 'b) \<Rightarrow> 'a list \<Rightarrow> 'e + 'b list" where
  "collect f [] = Inr []"
| "collect f (x # xs) = try_bind (f x) (\<lambda>y. try_bind (collect f xs) (\<lambda>ys. Inr (y # ys)))"

definition read_seat_attachments ::
  "since \<Rightarrow> plus_time \<Rightarrow> store \<Rightarrow> uuid \<Rightarrow> timestamp \<Rightarrow> SeatAttachment list DomainResult" where
  "read_seat_attachments since add_time st team now =
     (let bindings = filter (\<lambda>b. sb_team_run_id b = Some team) (st_seat_bindings st)
      in if bindings = []
         then collect (legacy_seat since add_time now)
                (filter (\<lambda>r. ar_team_run_id r = team) (st_agent_runs st))
         else Inr (map (conclude_seat since st now) bindings))"

fun first_certified ::
  "since \<Rightarrow> plus_time \<Rightarrow> store \<Rightarrow> timestamp \<Rightarrow> team_run_row list \<Rightarrow> TaskProgressEvidence DomainResult"
where
  "first_certified since add_time st now [] =
     Inl (MissingEvidence ''task progress''
       ''every open team run of this task has lost all of its seats'')"
| "first_certified since add_time st now (run # runs) =
     try_bind (read_seat_attachments since add_time st (tm_id run) now) (\<lambda>seats.
       case certify_task_progress (tm_lifecycle run) seats of
         Inr evidence \<Rightarrow> Inr evidence
       | Inl _ \<Rightarrow> first_certified since add_time st now runs)"

definition certify_task_progress_from_store ::
  "since \<Rightarrow> plus_time \<Rightarrow> store \<Rightarrow> uuid \<Rightarrow> timestamp \<Rightarrow> TaskProgressEvidence DomainResult" where
  "certify_task_progress_from_store since add_time st task now =
     (let runs = filter (\<lambda>r. tm_task_id r = task \<and> tm_closed_at r = None) (st_team_runs st)
      in if runs = []
         then certify_task_progress RunLifecycle.Running [SeatAttachment.Attached]
         else first_certified since add_time st now runs)"

definition reduce_gate_states :: "store \<Rightarrow> uuid \<Rightarrow> string \<rightharpoonup> GateState" where
  "reduce_gate_states st workflow =
     foldl (\<lambda>states (w, gate, verdict).
         if w = workflow then states(gate \<mapsto> resulting_state verdict) else states)
       Map.empty (st_gate_evaluations st)"

definition team_children :: "store \<Rightarrow> uuid \<Rightarrow> TeamChildEvidence list" where
  "team_children st team =
     map (\<lambda>r. \<lparr>tc_agent_run_id = ar_id r, tc_lifecycle = ar_lifecycle r,
              tc_evidence_hash = ar_terminal_evidence_hash r\<rparr>)
       (sort_key ar_id (filter (\<lambda>r. ar_team_run_id r = team) (st_agent_runs st)))"

definition ensure_declared_slots_settled :: "store \<Rightarrow> team_run_row \<Rightarrow> unit DomainResult" where
  "ensure_declared_slots_settled st run =
     try_bind (tm_role_slots run) (\<lambda>declared.
       try_each (\<lambda>slot. require
           (\<exists>(team, settled, _) \<in> set (st_role_turns st). team = tm_id run \<and> settled = slot)
           (MissingEvidence ''task transition''
              ''a declared role slot of the cited team run settled no turn''))
         (sort (remdups declared)))"

definition slot_rows :: "uuid \<Rightarrow> (uuid \<times> string \<times> content_hash) list \<Rightarrow> string \<rightharpoonup> content_hash" where
  "slot_rows team rows =
     foldl (\<lambda>m (t, slot, hash). if t = team then m(slot \<mapsto> hash) else m) Map.empty rows"

definition slot_disposition ::
  "store \<Rightarrow> team_run_row \<Rightarrow> string \<Rightarrow> (string \<times> SlotDisposition) DomainResult" where
  "slot_disposition st run slot =
     (case (slot_rows (tm_id run) (st_role_turns st) slot,
            slot_rows (tm_id run) (st_role_slot_waivers st) slot) of
        (Some _, Some _) \<Rightarrow> Inl (Invalid ''task transition''
            ''a declared role slot both settled a turn and was waived'')
      | (None, None) \<Rightarrow> Inl (MissingEvidence ''task transition''
            ''a declared role slot of the cited team run is neither settled nor waived'')
      | (Some hash, None) \<Rightarrow> Inr (slot, SettledTurn hash)
      | (None, Some hash) \<Rightarrow> Inr (slot, WaivedUnbound hash))"

definition ensure_declared_slots_disposed ::
  "disposition_digest \<Rightarrow> store \<Rightarrow> team_run_row \<Rightarrow> content_hash \<Rightarrow> unit DomainResult" where
  "ensure_declared_slots_disposed digest st run cited =
     try_bind (tm_role_slots run) (\<lambda>declared.
     try_bind (collect (slot_disposition st run) declared) (\<lambda>dispositions.
     try_bind (role_slot_disposition_digest digest SCHEMA_VERSION (tm_id run) (tm_template_id run)
                 (tm_template_version run) (tm_definition_hash run) dispositions) (\<lambda>hash.
       checks
         [require (tm_terminal_evidence_hash run = Some hash)
            (MissingEvidence ''task transition'' (''the cited team run'' @ [CHR 0x27] @
               ''s dispositions no longer hash to its closure evidence'')),
          require (cited = hash)
            (MissingEvidence ''task transition''
               ''the cited policy digest is not the one this team run closed with'')])))"

record TaskTransitionRequest =
  rq_task_id :: uuid
  rq_expected_revision :: u64
  rq_to :: TaskState
  rq_resume_receipt :: "uuid option"
  rq_reopen :: bool
  rq_run_outcome :: "TerminalOutcome option"
  rq_produced_artifacts :: "string set"
  rq_completed_phases :: "string set"
  rq_team_closure :: TaskTeamClosure
  rq_occurred_at :: timestamp

definition closed_team_accounts ::
  "disposition_digest \<Rightarrow> store \<Rightarrow> team_run_row \<Rightarrow> content_hash \<Rightarrow> unit DomainResult" where
  "closed_team_accounts digest st run cited =
     (case tm_terminal_source run of
        Some (TeamEvidenceSource.SettledTurns _) \<Rightarrow> ensure_declared_slots_settled st run
      | Some (TeamEvidenceSource.RoleSlotDispositions _) \<Rightarrow>
          ensure_declared_slots_disposed digest st run cited
      | _ \<Rightarrow> require (\<forall>c \<in> set (team_children st (tm_id run)). RunLifecycle_is_terminal (tc_lifecycle c))
               (MissingEvidence ''task transition''
                  ''a role slot of the cited team run is still open''))"

definition ensure_team_accounted_for ::
  "disposition_digest \<Rightarrow> store \<Rightarrow> TaskTransitionRequest \<Rightarrow> bool \<Rightarrow> unit DomainResult" where
  "ensure_team_accounted_for digest st req prescribes_team =
     (if \<not> prescribes_team
      then require (rq_team_closure req = NoTeam)
             (Invalid ''task transition''
                ''team closure was cited for a task whose profile prescribes no team'')
      else case rq_team_closure req of
        NoTeam \<Rightarrow> Inl (MissingEvidence ''task transition'' (''a task whose profile prescribes a team must cite that team'' @ [CHR 0x27] @ ''s closure''))
      | Certified team policy_digest \<Rightarrow>
          (case find (\<lambda>r. tm_id r = team) (st_team_runs st) of
             None \<Rightarrow> Inl (MissingEvidence ''task transition''
                       ''the cited team run is not stored in this project'')
           | Some run \<Rightarrow>
               if tm_task_id run \<noteq> rq_task_id req
               then Inl (MissingEvidence ''task transition''
                      ''the cited team run serves a different task'')
               else if \<not> RunLifecycle_is_terminal (tm_lifecycle run)
               then Inl (MissingEvidence ''task transition''
                      ''the cited team run has not closed'')
               else closed_team_accounts digest st run policy_digest))"

section \<open>Moving a task\<close>

definition withdrawal_guard :: "store \<Rightarrow> TaskTransitionRequest \<Rightarrow> unit RepositoryResult" where
  "withdrawal_guard st req =
     (if rq_to req \<noteq> TaskState.Withdrawn then Inr ()
      else if list_ex (\<lambda>r. tm_task_id r = rq_task_id req) (st_team_runs st)
      then Inl (Conflict ''task withdrawal'' ''a task with TeamRun history is not never-started'')
      else if list_ex (\<lambda>(dependent, dependency). dependency = rq_task_id req
                \<and> (case st_tasks st dependent of
                     None \<Rightarrow> False | Some t \<Rightarrow> \<not> TaskState_is_terminal (tk_state t)))
             (st_dependencies st)
      then Inl (Conflict ''task withdrawal'' ''an unresolved dependent task still requires it'')
      else Inr ())"

definition active_workflow :: "store \<Rightarrow> uuid \<Rightarrow> workflow_row option" where
  "active_workflow st task = find (\<lambda>w. wf_task_id w = task \<and> wf_active w) (st_workflows st)"

definition load_active_workflow ::
  "WorkProfileSpec digest \<Rightarrow> store \<Rightarrow> uuid \<Rightarrow> workflow_row option DomainResult" where
  "load_active_workflow pdigest st task =
     (case active_workflow st task of
        None \<Rightarrow> Inr None
      | Some w \<Rightarrow> try_bind (snapshot_verify pdigest (wf_snapshot w)) (\<lambda>_. Inr (Some w)))"

definition terminal_certificate ::
  "WorkProfileSpec digest \<Rightarrow> disposition_digest \<Rightarrow> store \<Rightarrow> TaskTransitionRequest \<Rightarrow>
   TaskClosureCertificate option DomainResult" where
  "terminal_certificate pdigest ddigest st req =
     (if TaskState_is_terminal (rq_to req) \<and> rq_to req \<noteq> TaskState.Withdrawn
      then
        try_bind (load_active_workflow pdigest st (rq_task_id req)) (\<lambda>pinned.
        try_bind (ensure_team_accounted_for ddigest st req
            (case pinned of
               None \<Rightarrow> False
             | Some w \<Rightarrow> wp_team_template (rs_definition (wf_snapshot w)) \<noteq> None)) (\<lambda>_.
          if rq_to req = TaskState.Done
          then (case pinned of
                  None \<Rightarrow> Inl (MissingEvidence ''task completion''
                            ''a task without an active workflow has no closure evidence'')
                | Some w \<Rightarrow>
                    try_bind (certify_closure (wf_snapshot w) (rq_completed_phases req)
                                (reduce_gate_states st (wf_id w)) (rq_produced_artifacts req))
                      (\<lambda>c. Inr (Some c)))
          else Inr None))
      else Inr None)"

definition progress_evidence ::
  "since \<Rightarrow> plus_time \<Rightarrow> store \<Rightarrow> TaskTransitionRequest \<Rightarrow> TaskProgressEvidence option DomainResult"
where
  "progress_evidence since add_time st req =
     (if rq_to req = TaskState.InProgress
      then try_bind (certify_task_progress_from_store since add_time st (rq_task_id req)
                       (rq_occurred_at req)) (\<lambda>e. Inr (Some e))
      else Inr None)"

definition reopen_authority :: "TaskTransitionRequest \<Rightarrow> uuid option DomainResult" where
  "reopen_authority req =
     (if rq_reopen req
      then (case rq_resume_receipt req of
              Some receipt \<Rightarrow> Inr (Some receipt)
            | None \<Rightarrow> Inl (MissingAuthority ''task reopen''
                       ''reopening a terminal task requires a command receipt''))
      else Inr None)"

definition transition_task ::
  "WorkProfileSpec digest \<Rightarrow> disposition_digest \<Rightarrow> since \<Rightarrow> plus_time \<Rightarrow> store \<Rightarrow>
   TaskTransitionRequest \<Rightarrow> store RepositoryResult" where
  "transition_task pdigest ddigest since add_time st req =
     try_bind (require_backlog_authority st) (\<lambda>_.
     case st_tasks st (rq_task_id req) of
       None \<Rightarrow> Inl (NotFound ''task'')
     | Some row \<Rightarrow>
         try_bind (domain (AggregateRevision_expect (tk_revision row) ''task''
                             (rq_expected_revision req))) (\<lambda>_.
         try_bind (withdrawal_guard st req) (\<lambda>_.
         try_bind (domain (terminal_certificate pdigest ddigest st req)) (\<lambda>certificate.
         try_bind (domain (progress_evidence since add_time st req)) (\<lambda>progress.
         try_bind (domain (reopen_authority req)) (\<lambda>reopen.
         try_bind (domain (apply_task_transition (tk_state row)
             \<lparr>tt_to = rq_to req, tt_resume_receipt = rq_resume_receipt req, tt_reopen = reopen,
              tt_run_outcome = rq_run_outcome req, tt_closure = certificate,
              tt_progress = progress\<rparr>)) (\<lambda>next_state.
         try_bind (next_revision (tk_revision row)) (\<lambda>revision.
           Inr (st\<lparr>st_tasks := (st_tasks st)(rq_task_id req \<mapsto>
             \<lparr>tk_state = next_state, tk_imported_state = None, tk_revision = revision,
              tk_updated_at = rq_occurred_at req\<rparr>)\<rparr>)))))))))"

section \<open>Team runs\<close>

definition update_team :: "team_run_row \<Rightarrow> store \<Rightarrow> store" where
  "update_team row st =
     st\<lparr>st_team_runs := map (\<lambda>r. if tm_id r = tm_id row then row else r) (st_team_runs st)\<rparr>"

definition advance_team_run ::
  "store \<Rightarrow> uuid \<Rightarrow> u64 \<Rightarrow> RunLifecycle \<Rightarrow> store RepositoryResult" where
  "advance_team_run st team expected to =
     (if RunLifecycle_is_terminal to
      then Inl (Domain (Invalid ''team run advance''
        ''a terminal value is reached through evidence-bearing closure, not an advance''))
      else case find (\<lambda>r. tm_id r = team) (st_team_runs st) of
        None \<Rightarrow> Inl (NotFound ''team run'')
      | Some row \<Rightarrow>
          try_bind (domain (plan_team_advance (tm_lifecycle row) (tm_revision row) expected to))
            (\<lambda>next. try_bind (revision_column next) (\<lambda>column.
              Inr (update_team (row\<lparr>tm_lifecycle := to, tm_revision := column\<rparr>) st))))"

definition read_abandon_receipt ::
  "store \<Rightarrow> uuid \<Rightarrow> uuid \<Rightarrow> AbandonReceiptFacts RepositoryResult" where
  "read_abandon_receipt st receipt team =
     (case find (\<lambda>r. rc_id r = receipt) (st_receipts st) of
        None \<Rightarrow> Inl (NotFound ''abandon receipt'')
      | Some r \<Rightarrow> Inr \<lparr>kind_is_abandon = rc_is_abandon_run r,
                        targets_aggregate = (rc_target_team_run r = Some team),
                        target_revision = rc_target_revision r, intent_hash = rc_intent_hash r,
                        recorded_at = rc_created_at r\<rparr>)"

definition cited_abandon_receipt ::
  "store \<Rightarrow> uuid \<Rightarrow> TeamTerminalEvidence \<Rightarrow> AbandonReceiptFacts option RepositoryResult" where
  "cited_abandon_receipt st team evidence =
     (case tte_source evidence of
        TeamEvidenceSource.OperatorAbandon receipt \<Rightarrow>
          try_bind (read_abandon_receipt st receipt team) (\<lambda>facts. Inr (Some facts))
      | _ \<Rightarrow> Inr None)"

definition close_row :: "TeamTerminalEvidence \<Rightarrow> u64 \<Rightarrow> team_run_row \<Rightarrow> team_run_row" where
  "close_row evidence column row =
     row\<lparr>tm_lifecycle := TerminalOutcome_lifecycle (tte_outcome evidence),
         tm_terminal_outcome := Some (tte_outcome evidence),
         tm_terminal_source := Some (tte_source evidence),
         tm_terminal_evidence_hash := Some (tte_evidence_hash evidence),
         tm_closed_at := Some (tte_closed_at evidence), tm_revision := column\<rparr>"

definition close_team_run ::
  "child_digest \<Rightarrow> store \<Rightarrow> uuid \<Rightarrow> u64 \<Rightarrow> TeamTerminalEvidence \<Rightarrow> store RepositoryResult" where
  "close_team_run digest st team expected evidence =
     try_bind (domain (TeamTerminalEvidence_validate evidence)) (\<lambda>_.
     case find (\<lambda>r. tm_id r = team) (st_team_runs st) of
       None \<Rightarrow> Inl (NotFound ''team run'')
     | Some row \<Rightarrow>
         try_bind (cited_abandon_receipt st team evidence) (\<lambda>receipt.
         try_bind (domain (plan_team_closure digest (tm_lifecycle row) (tm_revision row) expected
                             team evidence (team_children st team) receipt)) (\<lambda>next.
         try_bind (revision_column next) (\<lambda>column.
           Inr (update_team
             (close_row evidence column row) st)))))"

section \<open>Spellings\<close>

interpretation subject_authority: closed_enum "''SubjectAuthority''" SubjectAuthority_ALL SubjectAuthority_as_str
proof
  fix v show "v \<in> set SubjectAuthority_ALL" by (cases v) (simp_all add: SubjectAuthority_ALL_def)
qed (code_simp)

interpretation topology_lifecycle: closed_enum "''TopologyLifecycle''" TopologyLifecycle_ALL TopologyLifecycle_as_str
proof
  fix v show "v \<in> set TopologyLifecycle_ALL" by (cases v) (simp_all add: TopologyLifecycle_ALL_def)
qed (code_simp)

section \<open>Accepted task transitions\<close>

lemma transition_task_Inr:
  "transition_task pd dd since add_time st req = Inr st' \<longleftrightarrow>
     (\<exists>row certificate progress reopen next_state revision.
        require_backlog_authority st = Inr () \<and> st_tasks st (rq_task_id req) = Some row
        \<and> tk_revision row = rq_expected_revision req \<and> withdrawal_guard st req = Inr ()
        \<and> terminal_certificate pd dd st req = Inr certificate
        \<and> progress_evidence since add_time st req = Inr progress
        \<and> reopen_authority req = Inr reopen
        \<and> apply_task_transition (tk_state row)
             \<lparr>tt_to = rq_to req, tt_resume_receipt = rq_resume_receipt req, tt_reopen = reopen,
              tt_run_outcome = rq_run_outcome req, tt_closure = certificate,
              tt_progress = progress\<rparr> = Inr next_state
        \<and> next_revision (tk_revision row) = Inr revision
        \<and> st' = st\<lparr>st_tasks := (st_tasks st)(rq_task_id req \<mapsto>
             \<lparr>tk_state = next_state, tk_imported_state = None, tk_revision = revision,
              tk_updated_at = rq_occurred_at req\<rparr>)\<rparr>)"
  by (auto simp: transition_task_def split: option.splits)

lemma next_state_is_target:
  "apply_task_transition from tr = Inr s \<Longrightarrow> s = tt_to tr"
  by (simp add: apply_task_transition_Inr)

definition closure_proved ::
  "disposition_digest \<Rightarrow> store \<Rightarrow> TaskTransitionRequest \<Rightarrow> workflow_row \<Rightarrow> bool" where
  "closure_proved dd st req w \<longleftrightarrow>
     well_formed (rs_definition (wf_snapshot w))
     \<and> (\<forall>ph \<in> set (wp_phases (rs_definition (wf_snapshot w))).
          ph_id ph \<in> rq_completed_phases req
          \<and> set (ph_required_artifacts ph) \<subseteq> rq_produced_artifacts req)
     \<and> (\<forall>gate \<in> set (wp_gates (rs_definition (wf_snapshot w))).
          (reduce_gate_states st (wf_id w) (ga_id gate) = Some GateState.Passed
           \<or> reduce_gate_states st (wf_id w) (ga_id gate) = Some GateState.Waived
             \<and> ga_waiver_allowed gate)
          \<and> set (ga_required_evidence gate) \<subseteq> rq_produced_artifacts req)
     \<and> (if wp_team_template (rs_definition (wf_snapshot w)) = None
        then rq_team_closure req = NoTeam
        else \<exists>team cited run. rq_team_closure req = Certified team cited
               \<and> run \<in> set (st_team_runs st) \<and> tm_id run = team
               \<and> tm_task_id run = rq_task_id req \<and> RunLifecycle_is_terminal (tm_lifecycle run)
               \<and> closed_team_accounts dd st run cited = Inr ())"

lemma ensure_team_accounted_for_Inr:
  "ensure_team_accounted_for dd st req prescribed = Inr u \<Longrightarrow>
   (if prescribed
    then \<exists>team cited run. rq_team_closure req = Certified team cited
           \<and> run \<in> set (st_team_runs st) \<and> tm_id run = team
           \<and> tm_task_id run = rq_task_id req \<and> RunLifecycle_is_terminal (tm_lifecycle run)
           \<and> closed_team_accounts dd st run cited = Inr ()
    else rq_team_closure req = NoTeam)"
  by (auto simp: ensure_team_accounted_for_def dest: find_SomeD
      split: TaskTeamClosure.splits option.splits if_splits)

lemma snapshot_verify_well_formed:
  "snapshot_verify pd s = Inr u \<Longrightarrow> well_formed (rs_definition s)"
  by (auto simp: snapshot_verify_def WorkProfileSpec_canonicalize_def validate_exact)

lemma terminal_certificate_Some:
  assumes "terminal_certificate pd dd st req = Inr (Some c)"
  shows "\<exists>w. active_workflow st (rq_task_id req) = Some w \<and> closure_proved dd st req w"
proof -
  from assms obtain w where
    w: "active_workflow st (rq_task_id req) = Some w"
    and v: "snapshot_verify pd (wf_snapshot w) = Inr ()"
    and team: "ensure_team_accounted_for dd st req
        (wp_team_template (rs_definition (wf_snapshot w)) \<noteq> None) = Inr ()"
    and cert: "certify_closure (wf_snapshot w) (rq_completed_phases req)
        (reduce_gate_states st (wf_id w)) (rq_produced_artifacts req) = Inr c"
    by (auto simp: terminal_certificate_def load_active_workflow_def split: if_splits option.splits)
  have "closure_proved dd st req w"
    using ensure_team_accounted_for_Inr [OF team] cert snapshot_verify_well_formed [OF v]
    by (auto simp: closure_proved_def certify_closure_Inr split: if_splits)
  with w show ?thesis by blast
qed

lemma done_needs_closure:
  assumes "transition_task pd dd since add_time st req = Inr st'" and "rq_to req = TaskState.Done"
  shows "\<exists>w. active_workflow st (rq_task_id req) = Some w \<and> closure_proved dd st req w"
proof -
  from assms(1) obtain certificate and row :: task_row and progress reopen next_state where
    c: "terminal_certificate pd dd st req = Inr certificate"
    and a: "apply_task_transition (tk_state row)
             \<lparr>tt_to = rq_to req, tt_resume_receipt = rq_resume_receipt req, tt_reopen = reopen,
              tt_run_outcome = rq_run_outcome req, tt_closure = certificate,
              tt_progress = progress\<rparr> = Inr next_state"
    unfolding transition_task_Inr by blast
  from a assms(2) obtain x where "certificate = Some x"
    by (auto simp: apply_task_transition_Inr step_simps)
  with c terminal_certificate_Some show ?thesis by blast
qed

section \<open>Compare and swap on one task\<close>

definition task_revision :: "uuid \<Rightarrow> store \<Rightarrow> u64" where
  "task_revision task st = (case st_tasks st task of None \<Rightarrow> 0 | Some row \<Rightarrow> tk_revision row)"

definition move_task ::
  "WorkProfileSpec digest \<Rightarrow> disposition_digest \<Rightarrow> since \<Rightarrow> plus_time \<Rightarrow> uuid \<Rightarrow> store \<Rightarrow>
   TaskTransitionRequest \<Rightarrow> store RepositoryResult" where
  "move_task pd dd since add_time task st req =
     transition_task pd dd since add_time st (req\<lparr>rq_task_id := task\<rparr>)"

interpretation task_cas: revision_guarded "task_revision task" rq_expected_revision
  "move_task pd dd since add_time task"
proof
  fix s r s' assume "move_task pd dd since add_time task s r = Inr s'"
  then show "task_revision task s = rq_expected_revision r"
    and "unat (task_revision task s') = Suc (unat (task_revision task s))"
    by (auto simp: move_task_def transition_task_Inr task_revision_def dest: next_revision_Inr)
qed

section \<open>Team runs close once, on evidence\<close>

datatype team_request =
    AdvanceTeam (req_expected: u64) (req_to: RunLifecycle)
  | CloseTeam (req_expected: u64) (req_evidence: TeamTerminalEvidence)

definition team_revision :: "uuid \<Rightarrow> store \<Rightarrow> u64" where
  "team_revision team st =
     (case find (\<lambda>r. tm_id r = team) (st_team_runs st) of None \<Rightarrow> 0 | Some row \<Rightarrow> tm_revision row)"

definition team_step ::
  "child_digest \<Rightarrow> uuid \<Rightarrow> store \<Rightarrow> team_request \<Rightarrow> store RepositoryResult" where
  "team_step digest team st req =
     (case req of
        AdvanceTeam expected to \<Rightarrow> advance_team_run st team expected to
      | CloseTeam expected evidence \<Rightarrow> close_team_run digest st team expected evidence)"

lemma find_update_team:
  assumes "find (\<lambda>r. tm_id r = team) (st_team_runs st) = Some old" and "tm_id row = team"
  shows "find (\<lambda>r. tm_id r = team) (st_team_runs (update_team row st)) = Some row"
proof -
  have "find (\<lambda>r. tm_id r = team) (map (\<lambda>r. if tm_id r = team then row else r) rs) =
      (case find (\<lambda>r. tm_id r = team) rs of None \<Rightarrow> None | Some _ \<Rightarrow> Some row)" for rs
    using assms(2) by (induction rs) auto
  with assms show ?thesis by (simp add: update_team_def)
qed

lemma team_step_row:
  assumes "team_step digest team st req = Inr st'"
  shows "\<exists>row row'. find (\<lambda>r. tm_id r = team) (st_team_runs st) = Some row
     \<and> tm_revision row = req_expected req \<and> \<not> RunLifecycle_is_terminal (tm_lifecycle row)
     \<and> unat (tm_revision row') = Suc (unat (tm_revision row)) \<and> tm_id row' = team
     \<and> st' = update_team row' st"
proof (cases req)
  case (AdvanceTeam expected to)
  with assms obtain row n where
    row: "find (\<lambda>r. tm_id r = team) (st_team_runs st) = Some row"
    and plan: "plan_team_advance (tm_lifecycle row) (tm_revision row) expected to = Inr n"
    and st': "st' = update_team (row\<lparr>tm_lifecycle := to, tm_revision := n\<rparr>) st"
    by (auto simp: team_step_def advance_team_run_def revision_column_def split: if_splits option.splits)
  from plan have "tm_revision row = expected" "\<not> RunLifecycle_is_terminal (tm_lifecycle row)"
    "unat n = Suc (unat (tm_revision row))"
    by (auto simp: plan_team_advance_def dest: AggregateRevision_next_Inr split: if_splits)
  moreover have "tm_id row = team" using find_SomeD [OF row] by simp
  ultimately show ?thesis using row st' AdvanceTeam
    by (intro exI [of _ row] exI [of _ "row\<lparr>tm_lifecycle := to, tm_revision := n\<rparr>"]) simp
next
  case (CloseTeam expected evidence)
  with assms obtain row n receipt where
    row: "find (\<lambda>r. tm_id r = team) (st_team_runs st) = Some row"
    and plan: "plan_team_closure digest (tm_lifecycle row) (tm_revision row) expected team evidence
        (team_children st team) receipt = Inr n"
    and st': "st' = update_team
             (close_row evidence n row) st"
    by (auto simp: team_step_def close_team_run_def revision_column_def split: if_splits option.splits)
  from plan have "tm_revision row = expected" "\<not> RunLifecycle_is_terminal (tm_lifecycle row)"
    "unat n = Suc (unat (tm_revision row))"
    by (auto simp: plan_team_closure_Inr dest: AggregateRevision_next_Inr)
  moreover have "tm_id row = team" using find_SomeD [OF row] by simp
  ultimately show ?thesis using row st' CloseTeam
    by (intro exI [of _ row] exI [of _ "close_row evidence n row"]) (simp add: close_row_def)
qed

interpretation team_cas: revision_guarded "team_revision team" req_expected "team_step digest team"
proof
  fix s r s' assume step: "team_step digest team s r = Inr s'"
  from team_step_row [OF step] obtain row row' where *:
    "find (\<lambda>r. tm_id r = team) (st_team_runs s) = Some row" "tm_revision row = req_expected r"
    "unat (tm_revision row') = Suc (unat (tm_revision row))" "tm_id row' = team"
    "s' = update_team row' s" by blast
  then show "team_revision team s = req_expected r"
    and "unat (team_revision team s') = Suc (unat (team_revision team s))"
    by (simp_all add: team_revision_def find_update_team)
qed

text \<open>What every stored team run satisfies.\<close>

definition team_row_ok :: "team_run_row \<Rightarrow> bool" where
  "team_row_ok row \<longleftrightarrow>
     (if RunLifecycle_is_terminal (tm_lifecycle row)
      then \<exists>out src. tm_terminal_outcome row = Some out \<and> tm_terminal_source row = Some src
             \<and> tm_lifecycle row = TerminalOutcome_lifecycle out \<and> tm_terminal_evidence_hash row \<noteq> None
             \<and> tm_closed_at row \<noteq> None
             \<and> (\<forall>r. src = TeamEvidenceSource.OperatorAbandon r \<longrightarrow> out = TerminalOutcome.Abandoned)
      else tm_terminal_outcome row = None \<and> tm_closed_at row = None)"

definition teams_ok :: "store \<Rightarrow> bool" where
  "teams_ok st \<longleftrightarrow> (\<forall>row \<in> set (st_team_runs st). team_row_ok row)"

lemma outcome_lifecycle_terminal: "RunLifecycle_is_terminal (TerminalOutcome_lifecycle out)"
  by (cases out) (simp_all add: TerminalOutcome_lifecycle_def RunLifecycle_is_terminal_def)

lemma update_team_ok: "teams_ok st \<Longrightarrow> team_row_ok row \<Longrightarrow> teams_ok (update_team row st)"
  by (auto simp: teams_ok_def update_team_def)

lemma advance_ok:
  assumes "teams_ok st" and "advance_team_run st team expected to = Inr st'"
  shows "teams_ok st'"
proof -
  from assms(2) obtain row n where
    row: "find (\<lambda>r. tm_id r = team) (st_team_runs st) = Some row"
    and open_target: "\<not> RunLifecycle_is_terminal to"
    and plan: "plan_team_advance (tm_lifecycle row) (tm_revision row) expected to = Inr n"
    and st': "st' = update_team (row\<lparr>tm_lifecycle := to, tm_revision := n\<rparr>) st"
    by (auto simp: advance_team_run_def revision_column_def split: if_splits option.splits)
  have "team_row_ok row" using assms(1) find_SomeD [OF row] by (simp add: teams_ok_def)
  moreover have "\<not> RunLifecycle_is_terminal (tm_lifecycle row)"
    using plan by (auto simp: plan_team_advance_def)
  ultimately have "team_row_ok (row\<lparr>tm_lifecycle := to, tm_revision := n\<rparr>)"
    using open_target by (simp add: team_row_ok_def)
  with assms(1) st' show ?thesis by (simp add: update_team_ok)
qed

lemma close_ok:
  assumes "teams_ok st" and "close_team_run digest st team expected evidence = Inr st'"
  shows "teams_ok st'"
proof -
  from assms(2) obtain row n where
    valid: "TeamTerminalEvidence_validate evidence = Inr ()"
    and st': "st' = update_team
             (close_row evidence n row) st"
    by (auto simp: close_team_run_def revision_column_def split: if_splits option.splits)
  from valid show ?thesis unfolding st'
    by (intro update_team_ok [OF assms(1)])
      (auto simp: close_row_def team_row_ok_def outcome_lifecycle_terminal
        TeamTerminalEvidence_validate_def split: if_splits)
qed

lemma team_step_ok: "teams_ok st \<Longrightarrow> team_step digest team st req = Inr st' \<Longrightarrow> teams_ok st'"
  by (cases req) (auto simp: team_step_def intro: advance_ok close_ok)

section \<open>Claims\<close>


text \<open>Sample rows for the concrete instances below.\<close>

definition sample_team :: team_run_row where
  "sample_team = \<lparr>tm_id = 9, tm_task_id = 5, tm_template_id = 1, tm_template_version = 1,
     tm_definition_hash = ''d'', tm_role_slots = Inr [''dev''], tm_lifecycle = RunLifecycle.Running,
     tm_terminal_outcome = None, tm_terminal_source = None, tm_terminal_evidence_hash = None,
     tm_closed_at = None, tm_revision = 4\<rparr>"

definition sample_agent :: agent_run_row where
  "sample_agent = \<lparr>ar_id = 2, ar_team_run_id = 9, ar_lifecycle = RunLifecycle.Succeeded,
     ar_observed_state = ObservedRunState.Succeeded, ar_last_confirmed_at = Some 3,
     ar_created_at = 0, ar_closed_at = Some 3, ar_terminal_evidence_hash = Some ''hh''\<rparr>"

definition sample_workflow :: workflow_row where
  "sample_workflow = \<lparr>wf_id = 8, wf_task_id = 5, wf_snapshot = sample_snapshot, wf_active = True\<rparr>"

definition sample_task :: task_row where
  "sample_task = \<lparr>tk_state = TaskState.InProgress, tk_imported_state = None, tk_revision = 2,
     tk_updated_at = 0\<rparr>"

definition sample_store :: store where
  "sample_store =
     \<lparr>st_backlog_authority = Some SubjectAuthority.Kontor, st_tasks = [5 \<mapsto> sample_task],
      st_dependencies = [], st_workflows = [sample_workflow],
      st_gate_evaluations = [(8, ''review'', GateVerdict.Rejected), (8, ''review'', GateVerdict.Passed)],
      st_team_runs = [sample_team], st_agent_runs = [sample_agent], st_seat_bindings = [],
      st_role_turns = [], st_role_slot_waivers = [], st_receipts = []\<rparr>"

definition sample_done :: TaskTransitionRequest where
  "sample_done =
     \<lparr>rq_task_id = 5, rq_expected_revision = 2, rq_to = TaskState.Done, rq_resume_receipt = None,
      rq_reopen = False, rq_run_outcome = None, rq_produced_artifacts = {''diff'', ''report''},
      rq_completed_phases = {''plan'', ''build''}, rq_team_closure = NoTeam, rq_occurred_at = 7\<rparr>"

definition sample_move :: "store \<Rightarrow> TaskTransitionRequest \<Rightarrow> store RepositoryResult" where
  "sample_move = move_task (\<lambda>w. Inr ''h'') (\<lambda>d. Inr ''d'') (-) (\<lambda>t d. Some (t + d)) 5"

lemma sample_transition:
  "\<exists>st'. transition_task (\<lambda>w. Inr ''h'') (\<lambda>d. Inr ''d'') (-) (\<lambda>t d. Some (t + d)) sample_store
     sample_done = Inr st'"
proof -
  have cert: "terminal_certificate (\<lambda>w. Inr ''h'') (\<lambda>d. Inr ''d'') sample_store sample_done
      = Inr (Some IssuedClosure)" by code_simp
  have next_rev: "next_revision 2 = Inr 3"
    by (simp add: next_revision_def revision_column_def AggregateRevision_next_def checked_add_def
        domain_def STORABLE_MAX_def)
  show ?thesis unfolding transition_task_Inr
    by (intro exI [of _ sample_task] exI [of _ "Some IssuedClosure"] exI [of _ None]
        exI [of _ TaskState.Done] exI [of _ 3] exI conjI)
      (use cert next_rev in \<open>simp_all add: sample_store_def sample_done_def sample_task_def
        require_backlog_authority_def withdrawal_guard_def progress_evidence_def reopen_authority_def
        apply_task_transition_Inr reopen_guard_Inr transition_evidence_Inr TaskState_is_terminal_def
        can_transition_to_def requires_resume_command_def\<close>)
qed


text \<open>Concurrent writers of one task cannot both win: in any accepted sequence of requests
  against a task each request named the revision current at its turn, no two requests named the
  same revision, and the stored revision counts the accepted requests.\<close>

theorem task_writes_serialize:
  assumes "try_run (move_task pd dd since add_time task) st reqs = Inr st'"
  shows "(\<forall>i < length reqs. unat (rq_expected_revision (reqs ! i)) = unat (task_revision task st) + i)
     \<and> distinct (map rq_expected_revision reqs)
     \<and> unat (task_revision task st') = unat (task_revision task st) + length reqs"
  using task_cas.run_expectations [OF assms] task_cas.no_request_twice [OF assms]
    task_cas.run_revision [OF assms] by blast

theorem task_writes_serialize_witness:
  "\<exists>st'. try_run sample_move sample_store [sample_done] = Inr st' \<and> unat (task_revision 5 st') = 3"
proof -
  obtain st' where t: "transition_task (\<lambda>w. Inr ''h'') (\<lambda>d. Inr ''d'') (-) (\<lambda>t d. Some (t + d))
      sample_store sample_done = Inr st'" using sample_transition by blast
  have "sample_done\<lparr>rq_task_id := 5\<rparr> = sample_done" by (simp add: sample_done_def)
  with t have r: "try_run sample_move sample_store [sample_done] = Inr st'"
    by (simp add: move_task_def sample_move_def)
  have "unat (task_revision 5 sample_store) = 2"
    by (simp add: task_revision_def sample_store_def sample_task_def)
  with task_writes_serialize [OF r [unfolded sample_move_def]] r show ?thesis by auto
qed

text \<open>Whatever sequence of advances and closures a team run accepts, a terminal row carries the
  evidence it closed on, its lifecycle is the one of its outcome, an operator receipt evidences only
  abandonment, an open row carries no closure, and nothing is accepted after the closure.\<close>

theorem team_runs_close_on_evidence:
  assumes "teams_ok st" and "try_run (team_step digest team) st reqs = Inr st'"
    and "find (\<lambda>r. tm_id r = team) (st_team_runs st') = Some row"
  shows "team_row_ok row
     \<and> (RunLifecycle_is_terminal (tm_lifecycle row)
          \<longrightarrow> (\<forall>req st''. team_step digest team st' req \<noteq> Inr st''))"
proof -
  have "teams_ok st'" 
    by (rule try_run_invariant [where I = teams_ok and step = "team_step digest team", OF _ assms(1,2)])
      (rule team_step_ok)
  moreover have "row \<in> set (st_team_runs st')" using find_SomeD [OF assms(3)] by blast
  moreover have "team_step digest team st' req \<noteq> Inr st''"
    if "RunLifecycle_is_terminal (tm_lifecycle row)" for req st''
    using team_step_row [of digest team st' req st''] assms(3) that by auto
  ultimately show ?thesis by (auto simp: teams_ok_def)
qed

theorem team_runs_close_on_evidence_witness:
  "team_row_ok (close_row sample_evidence 5 sample_team)"
proof -
  have ok: "teams_ok sample_store"
    by (simp add: teams_ok_def team_row_ok_def sample_store_def sample_team_def
        RunLifecycle_is_terminal_def)
  have f: "find (\<lambda>r. tm_id r = 9) (st_team_runs sample_store) = Some sample_team"
    by (simp add: sample_store_def sample_team_def)
  have v: "TeamTerminalEvidence_validate sample_evidence = Inr ()" by code_simp
  have r: "cited_abandon_receipt sample_store 9 sample_evidence = Inr None" by code_simp
  have e: "verify_team_evidence sample_digest 4 9 sample_evidence (team_children sample_store 9) None
      = Inr ()" by code_simp
  have p: "plan_team_closure sample_digest RunLifecycle.Running 4 4 9 sample_evidence
      (team_children sample_store 9) None = Inr 5"
    unfolding plan_team_closure_Inr using v e
    by (simp add: RunLifecycle_is_terminal_def AggregateRevision_next_def checked_add_def)
  have s: "team_step sample_digest 9 sample_store (CloseTeam 4 sample_evidence)
      = Inr (update_team (close_row sample_evidence 5 sample_team) sample_store)"
    using f v r p by (simp add: team_step_def close_team_run_def domain_def sample_team_def
        revision_column_def STORABLE_MAX_def)
  have run: "try_run (team_step sample_digest 9) sample_store [CloseTeam 4 sample_evidence]
      = Inr (update_team (close_row sample_evidence 5 sample_team) sample_store)" using s by simp
  have "tm_id (close_row sample_evidence 5 sample_team) = 9"
    by (simp add: close_row_def sample_team_def)
  with find_update_team [OF f] have
    "find (\<lambda>r. tm_id r = 9) (st_team_runs (update_team (close_row sample_evidence 5 sample_team)
        sample_store)) = Some (close_row sample_evidence 5 sample_team)" by blast
  from team_runs_close_on_evidence [OF ok run this] show ?thesis by blast
qed

end
