(* ===== verification/Recovery.thy ===== *)
theory Recovery
  imports Guardrails Task_Store
begin

text \<open>
  The bounded parked-recovery machine: \<^verbatim>\<open>crates/kontor-policy/src/recovery.rs\<close> (\<open>plan\<close> and its
  escalations), the episode of \<^verbatim>\<open>crates/kontor-policy/src/model.rs\<close>, and its writer in
  \<^verbatim>\<open>crates/kontor-store/src/policy.rs\<close> (\<open>apply_recovery_transition\<close>, \<open>write_transition\<close>,
  \<open>ensure_linked_successor\<close>) with the schema trigger that binds an update to its step.  The
  lemmas carry one invariant over every accepted sequence of requests: budgets, distinct
  successors, closure, and one step per revision.
\<close>

section \<open>Episodes\<close>

datatype RecoveryStatus =
    Open | DeterministicRepair | Advisor | Committee | Followup | Recovered | NeedsHuman

primrec RecoveryStatus_as_str :: "RecoveryStatus \<Rightarrow> string" where
  "RecoveryStatus_as_str RecoveryStatus.Open = ''open''"
| "RecoveryStatus_as_str RecoveryStatus.DeterministicRepair = ''deterministic_repair''"
| "RecoveryStatus_as_str RecoveryStatus.Advisor = ''advisor''"
| "RecoveryStatus_as_str RecoveryStatus.Committee = ''committee''"
| "RecoveryStatus_as_str RecoveryStatus.Followup = ''followup''"
| "RecoveryStatus_as_str RecoveryStatus.Recovered = ''recovered''"
| "RecoveryStatus_as_str RecoveryStatus.NeedsHuman = ''needs_human''"

definition RecoveryStatus_ALL :: "RecoveryStatus list" where
  "RecoveryStatus_ALL =
     [RecoveryStatus.Open, RecoveryStatus.DeterministicRepair, RecoveryStatus.Advisor,
     RecoveryStatus.Committee, RecoveryStatus.Followup, RecoveryStatus.Recovered,
     RecoveryStatus.NeedsHuman]"

datatype RecoveryStepKind =
    DeterministicRepair | Advisor | Committee | FollowupExecution | Escalation

primrec RecoveryStepKind_as_str :: "RecoveryStepKind \<Rightarrow> string" where
  "RecoveryStepKind_as_str RecoveryStepKind.DeterministicRepair = ''deterministic_repair''"
| "RecoveryStepKind_as_str RecoveryStepKind.Advisor = ''advisor''"
| "RecoveryStepKind_as_str RecoveryStepKind.Committee = ''committee''"
| "RecoveryStepKind_as_str RecoveryStepKind.FollowupExecution = ''followup_execution''"
| "RecoveryStepKind_as_str RecoveryStepKind.Escalation = ''escalation''"

definition RecoveryStepKind_ALL :: "RecoveryStepKind list" where
  "RecoveryStepKind_ALL =
     [RecoveryStepKind.DeterministicRepair, RecoveryStepKind.Advisor,
     RecoveryStepKind.Committee, RecoveryStepKind.FollowupExecution,
     RecoveryStepKind.Escalation]"

datatype EscalationCause =
    UnsafeState | MissingAuthority | CommitteeDisagreement | IncompleteEvidence |
    BudgetExhausted

primrec EscalationCause_as_str :: "EscalationCause \<Rightarrow> string" where
  "EscalationCause_as_str EscalationCause.UnsafeState = ''unsafe_state''"
| "EscalationCause_as_str EscalationCause.MissingAuthority = ''missing_authority''"
| "EscalationCause_as_str EscalationCause.CommitteeDisagreement = ''committee_disagreement''"
| "EscalationCause_as_str EscalationCause.IncompleteEvidence = ''incomplete_evidence''"
| "EscalationCause_as_str EscalationCause.BudgetExhausted = ''budget_exhausted''"

definition EscalationCause_ALL :: "EscalationCause list" where
  "EscalationCause_ALL =
     [EscalationCause.UnsafeState, EscalationCause.MissingAuthority,
     EscalationCause.CommitteeDisagreement, EscalationCause.IncompleteEvidence,
     EscalationCause.BudgetExhausted]"

definition RecoveryStatus_is_terminal :: "RecoveryStatus \<Rightarrow> bool" where
  "RecoveryStatus_is_terminal s \<longleftrightarrow> s \<in> {RecoveryStatus.Recovered, RecoveryStatus.NeedsHuman}"

definition is_read_only :: "RecoveryStepKind \<Rightarrow> bool" where
  "is_read_only k \<longleftrightarrow> k \<in> {RecoveryStepKind.Advisor, RecoveryStepKind.Committee}"

record Escalation =
  esc_cause :: EscalationCause
  esc_recommendation :: string
  esc_recommended_by :: string

record DeliberationPath =
  dp_deterministic_repair :: bool
  dp_advisor :: bool
  dp_committee :: bool
  dp_followups :: u32

record RecoveryEpisode =
  re_id :: uuid
  re_project_id :: uuid
  re_task_id :: uuid
  re_workflow_id :: uuid
  re_parked_agent_run_id :: uuid
  re_status :: RecoveryStatus
  re_cause_evaluation_id :: uuid
  re_advisor_used :: bool
  re_committee_used :: bool
  re_effective_followups :: u32
  re_successor_agent_run_id :: "uuid option"
  re_escalation_cause :: "EscalationCause option"
  re_escalation_brief :: "Escalation option"
  re_deliberation_path :: "DeliberationPath option"
  re_revision :: u64
  re_created_at :: timestamp
  re_closed_at :: "timestamp option"

definition DeliberationPath_of :: "RecoveryEpisode \<Rightarrow> DeliberationPath" where
  "DeliberationPath_of e =
     \<lparr>dp_deterministic_repair = (re_status e \<noteq> RecoveryStatus.Open),
      dp_advisor = re_advisor_used e, dp_committee = re_committee_used e,
      dp_followups = re_effective_followups e\<rparr>"

definition DeliberationPath_is_empty :: "DeliberationPath \<Rightarrow> bool" where
  "DeliberationPath_is_empty p \<longleftrightarrow>
     \<not> dp_deterministic_repair p \<and> \<not> dp_advisor p \<and> \<not> dp_committee p \<and> dp_followups p = 0"

section \<open>Planning a transition\<close>

definition MAX_EFFECTIVE_FOLLOWUPS :: u32 where "MAX_EFFECTIVE_FOLLOWUPS = 2"

datatype RecoveryAction =
    DeterministicRepair bool
  | Advisor
  | Committee
  | Followup bool uuid
  | Recover
  | Escalate Escalation

fun step_kind :: "RecoveryAction \<Rightarrow> RecoveryStepKind" where
  "step_kind (RecoveryAction.DeterministicRepair _) = RecoveryStepKind.DeterministicRepair"
| "step_kind RecoveryAction.Advisor = RecoveryStepKind.Advisor"
| "step_kind RecoveryAction.Committee = RecoveryStepKind.Committee"
| "step_kind (RecoveryAction.Followup _ _) = RecoveryStepKind.FollowupExecution"
| "step_kind RecoveryAction.Recover = RecoveryStepKind.Escalation"
| "step_kind (RecoveryAction.Escalate _) = RecoveryStepKind.Escalation"

record RecoveryRequest =
  rr_expected_revision :: u64
  rr_action :: RecoveryAction
  rr_input_hash :: content_hash
  rr_output_hash :: "content_hash option"
  rr_occurred_at :: timestamp

record RecoveryTransition =
  rt_status :: RecoveryStatus
  rt_step :: RecoveryStepKind
  rt_advisor_used :: bool
  rt_committee_used :: bool
  rt_effective_followups :: u32
  rt_successor_agent_run_id :: "uuid option"
  rt_dispatched_successor :: "uuid option"
  rt_escalation_cause :: "EscalationCause option"
  rt_escalation_brief :: "Escalation option"
  rt_deliberation_path :: "DeliberationPath option"
  rt_closed_at :: "timestamp option"

definition SYSTEM_AUTHOR :: string where "SYSTEM_AUTHOR = ''kontord''"

definition unsafe_state_escalation :: Escalation where
  "unsafe_state_escalation =
     \<lparr>esc_cause = EscalationCause.UnsafeState,
      esc_recommendation =
        ''Deterministic inspection found the workspace or runtime state unsafe to act on, so '' @
        ''nothing was attempted. Inspect the seat'' @ [CHR 0x27] @ ''s worktree and runtime session, then either '' @
        ''clear the unsafe condition and re-open the episode, or cancel the work. Do not '' @
        ''dispatch a follow-up until the state is understood: this escalation exists because '' @
        ''acting on it is what would cause damage.'',
      esc_recommended_by = SYSTEM_AUTHOR\<rparr>"

definition settled_transition :: "RecoveryEpisode \<Rightarrow> RecoveryAction \<Rightarrow> RecoveryTransition" where
  "settled_transition e a =
     \<lparr>rt_status = re_status e, rt_step = step_kind a, rt_advisor_used = re_advisor_used e,
      rt_committee_used = re_committee_used e, rt_effective_followups = re_effective_followups e,
      rt_successor_agent_run_id = re_successor_agent_run_id e, rt_dispatched_successor = None,
      rt_escalation_cause = None, rt_escalation_brief = None, rt_deliberation_path = None,
      rt_closed_at = None\<rparr>"

definition escalated ::
  "RecoveryTransition \<Rightarrow> RecoveryEpisode \<Rightarrow> Escalation \<Rightarrow> timestamp \<Rightarrow> RecoveryTransition" where
  "escalated settled e escalation at =
     settled\<lparr>rt_status := RecoveryStatus.NeedsHuman,
             rt_escalation_cause := Some (esc_cause escalation),
             rt_escalation_brief := Some escalation,
             rt_deliberation_path := Some (DeliberationPath_of e),
             rt_closed_at := Some at\<rparr>"

definition illegal_recovery :: "RecoveryEpisode \<Rightarrow> RecoveryStatus \<Rightarrow> DomainError" where
  "illegal_recovery e to =
     IllegalTransition ''recovery episode'' (RecoveryStatus_as_str (re_status e))
       (RecoveryStatus_as_str to)"

definition plan_followup ::
  "RecoveryEpisode \<Rightarrow> RecoveryTransition \<Rightarrow> bool \<Rightarrow> uuid \<Rightarrow> RecoveryTransition DomainResult" where
  "plan_followup e settled dispatched successor =
     (if re_status e = RecoveryStatus.Open then Inl (illegal_recovery e RecoveryStatus.Followup)
      else if successor = re_parked_agent_run_id e
      then Inl (Invalid ''recovery follow-up'' ''a follow-up runs as a successor, never as the parked run'')
      else if re_successor_agent_run_id e = Some successor
      then Inl (Invalid ''recovery follow-up''
             ''each follow-up dispatches its own successor, not the one already running'')
      else if re_effective_followups e \<ge> MAX_EFFECTIVE_FOLLOWUPS
      then Inl (Invalid ''recovery episode'' ''the follow-up budget for this episode is exhausted'')
      else if dispatched
      then Inr (settled\<lparr>rt_status := RecoveryStatus.Followup,
                       rt_effective_followups := re_effective_followups e + 1,
                       rt_successor_agent_run_id := Some successor,
                       rt_dispatched_successor := Some successor\<rparr>)
      else Inr settled)"

definition recovery_plan ::
  "RecoveryEpisode \<Rightarrow> RecoveryRequest \<Rightarrow> RecoveryTransition DomainResult" where
  "recovery_plan e req =
     (if RecoveryStatus_is_terminal (re_status e) then Inl (DomainError.Terminal ''recovery episode'')
      else try_bind (AggregateRevision_expect (re_revision e) ''recovery episode''
                       (rr_expected_revision req)) (\<lambda>_.
        let settled = settled_transition e (rr_action req) in
        case rr_action req of
          RecoveryAction.DeterministicRepair safe \<Rightarrow>
            if re_status e \<noteq> RecoveryStatus.Open
            then Inl (illegal_recovery e RecoveryStatus.DeterministicRepair)
            else if safe then Inr (settled\<lparr>rt_status := RecoveryStatus.DeterministicRepair\<rparr>)
            else Inr (escalated settled e unsafe_state_escalation (rr_occurred_at req))
        | RecoveryAction.Advisor \<Rightarrow>
            if re_advisor_used e
            then Inl (Invalid ''recovery episode''
                   ''the advisor consultation for this episode is already spent'')
            else if re_status e \<noteq> RecoveryStatus.DeterministicRepair
            then Inl (illegal_recovery e RecoveryStatus.Advisor)
            else Inr (settled\<lparr>rt_status := RecoveryStatus.Advisor, rt_advisor_used := True\<rparr>)
        | RecoveryAction.Committee \<Rightarrow>
            if re_committee_used e
            then Inl (Invalid ''recovery episode''
                   ''the committee for this episode is already convened'')
            else if re_status e \<notin> {RecoveryStatus.DeterministicRepair, RecoveryStatus.Advisor}
            then Inl (illegal_recovery e RecoveryStatus.Committee)
            else Inr (settled\<lparr>rt_status := RecoveryStatus.Committee, rt_committee_used := True\<rparr>)
        | RecoveryAction.Followup dispatched successor \<Rightarrow> plan_followup e settled dispatched successor
        | RecoveryAction.Recover \<Rightarrow>
            if re_status e = RecoveryStatus.Open
            then Inl (illegal_recovery e RecoveryStatus.Recovered)
            else Inr (settled\<lparr>rt_status := RecoveryStatus.Recovered,
                             rt_closed_at := Some (rr_occurred_at req)\<rparr>)
        | RecoveryAction.Escalate escalation \<Rightarrow>
            Inr (escalated settled e escalation (rr_occurred_at req))))"

section \<open>Writing a transition\<close>

record recovery_step_row =
  sr_project_id :: uuid
  sr_episode_id :: uuid
  sr_sequence :: nat
  sr_kind :: RecoveryStepKind
  sr_input_hash :: content_hash
  sr_output_hash :: "content_hash option"
  sr_agent_run_id :: "uuid option"
  sr_recorded_at :: timestamp

record lineage_row =
  ln_project_id :: uuid
  ln_run_id :: uuid
  ln_parent :: "uuid option"

record recovery_store =
  rs_episodes :: "RecoveryEpisode list"
  rs_steps :: "recovery_step_row list"
  rs_runs :: "lineage_row list"

definition is_episode :: "uuid \<Rightarrow> uuid \<Rightarrow> RecoveryEpisode \<Rightarrow> bool" where
  "is_episode project episode e \<longleftrightarrow> re_project_id e = project \<and> re_id e = episode"

definition read_episode :: "recovery_store \<Rightarrow> uuid \<Rightarrow> uuid \<Rightarrow> RecoveryEpisode option" where
  "read_episode st project episode = find (is_episode project episode) (rs_episodes st)"

definition steps_of :: "recovery_store \<Rightarrow> uuid \<Rightarrow> uuid \<Rightarrow> recovery_step_row list" where
  "steps_of st project episode =
     filter (\<lambda>s. sr_project_id s = project \<and> sr_episode_id s = episode) (rs_steps st)"

definition ensure_linked_successor ::
  "recovery_store \<Rightarrow> RecoveryEpisode \<Rightarrow> uuid \<Rightarrow> unit RepositoryResult" where
  "ensure_linked_successor st e successor =
     (case find (\<lambda>r. ln_project_id r = re_project_id e \<and> ln_run_id r = successor) (rs_runs st) of
        None \<Rightarrow> Inl (NotFound ''recovery successor run'')
      | Some run \<Rightarrow>
          (case ln_parent run of
             None \<Rightarrow> Inl (Domain (MissingEvidence ''recovery follow-up''
                          ''a successor must descend from the run it is recovering''))
           | Some parent \<Rightarrow>
               if parent \<noteq> re_parked_agent_run_id e \<and> Some parent \<noteq> re_successor_agent_run_id e
               then Inl (Domain (MissingEvidence ''recovery follow-up''
                      (''a successor'' @ [CHR 0x27] @ ''s lineage must lead back to the parked run'')))
               else if list_ex (\<lambda>s. sr_agent_run_id s = Some successor)
                         (steps_of st (re_project_id e) (re_id e))
               then Inl (Conflict ''recovery follow-up''
                      ''this successor has already been dispatched by an earlier step'')
               else Inr ()))"

definition next_sequence :: "recovery_step_row list \<Rightarrow> nat" where
  "next_sequence steps = (case steps of [] \<Rightarrow> 1 | _ \<Rightarrow> Max (set (map sr_sequence steps)) + 1)"

definition transition_step ::
  "recovery_store \<Rightarrow> RecoveryEpisode \<Rightarrow> RecoveryRequest \<Rightarrow> RecoveryTransition \<Rightarrow> recovery_step_row" where
  "transition_step st e req t =
     \<lparr>sr_project_id = re_project_id e, sr_episode_id = re_id e,
      sr_sequence = next_sequence (steps_of st (re_project_id e) (re_id e)),
      sr_kind = rt_step t, sr_input_hash = rr_input_hash req, sr_output_hash = rr_output_hash req,
      sr_agent_run_id = rt_dispatched_successor t, sr_recorded_at = rr_occurred_at req\<rparr>"

definition moved_episode :: "RecoveryEpisode \<Rightarrow> RecoveryTransition \<Rightarrow> u64 \<Rightarrow> RecoveryEpisode" where
  "moved_episode e t revision =
     e\<lparr>re_status := rt_status t, re_advisor_used := rt_advisor_used t,
       re_committee_used := rt_committee_used t,
       re_effective_followups := rt_effective_followups t,
       re_successor_agent_run_id := rt_successor_agent_run_id t,
       re_escalation_cause := rt_escalation_cause t, re_escalation_brief := rt_escalation_brief t,
       re_deliberation_path := rt_deliberation_path t, re_revision := revision,
       re_closed_at := rt_closed_at t\<rparr>"

text \<open>The schema trigger \<open>recovery_episodes_require_step\<close>: the new revision counts the steps.\<close>

definition require_step :: "recovery_step_row list \<Rightarrow> u64 \<Rightarrow> unit RepositoryResult" where
  "require_step steps revision =
     (if unat revision = length steps + 1 then Inr ()
      else Inl (Backend ''a recovery episode advances only by appending a step''))"

definition put_episode :: "RecoveryEpisode \<Rightarrow> RecoveryEpisode list \<Rightarrow> RecoveryEpisode list" where
  "put_episode e es = map (\<lambda>x. if is_episode (re_project_id e) (re_id e) x then e else x) es"

definition write_transition ::
  "recovery_store \<Rightarrow> RecoveryEpisode \<Rightarrow> RecoveryRequest \<Rightarrow> RecoveryTransition \<Rightarrow>
   (RecoveryEpisode \<times> recovery_store) RepositoryResult" where
  "write_transition st e req t =
     try_bind (domain (AggregateRevision_next (re_revision e))) (\<lambda>next.
     try_bind (case rt_dispatched_successor t of
                 None \<Rightarrow> Inr () | Some s \<Rightarrow> ensure_linked_successor st e s) (\<lambda>_.
       let st1 = st\<lparr>rs_steps := rs_steps st @ [transition_step st e req t]\<rparr> in
       try_bind (revision_column next) (\<lambda>column.
       try_bind (require_step (steps_of st1 (re_project_id e) (re_id e)) column) (\<lambda>_.
         let moved = moved_episode e t column in
         Inr (moved, st1\<lparr>rs_episodes := put_episode moved (rs_episodes st1)\<rparr>)))))"

definition apply_recovery_transition ::
  "recovery_store \<Rightarrow> uuid \<Rightarrow> uuid \<Rightarrow> RecoveryRequest \<Rightarrow>
   (RecoveryEpisode \<times> recovery_store) RepositoryResult" where
  "apply_recovery_transition st project episode req =
     (case read_episode st project episode of
        None \<Rightarrow> Inl (NotFound ''recovery episode'')
      | Some e \<Rightarrow> try_bind (domain (recovery_plan e req)) (write_transition st e req))"

interpretation recovery_status: closed_enum "''RecoveryStatus''" RecoveryStatus_ALL RecoveryStatus_as_str
proof
  fix v show "v \<in> set RecoveryStatus_ALL" by (cases v) (simp_all add: RecoveryStatus_ALL_def)
qed (code_simp)

interpretation recovery_step_kind: closed_enum "''RecoveryStepKind''" RecoveryStepKind_ALL RecoveryStepKind_as_str
proof
  fix v show "v \<in> set RecoveryStepKind_ALL" by (cases v) (simp_all add: RecoveryStepKind_ALL_def)
qed (code_simp)

interpretation escalation_cause: closed_enum "''EscalationCause''" EscalationCause_ALL EscalationCause_as_str
proof
  fix v show "v \<in> set EscalationCause_ALL" by (cases v) (simp_all add: EscalationCause_ALL_def)
qed (code_simp)

section \<open>What an accepted plan does\<close>

definition action_admitted :: "RecoveryEpisode \<Rightarrow> RecoveryAction \<Rightarrow> bool" where
  "action_admitted e a =
     (case a of
        RecoveryAction.DeterministicRepair _ \<Rightarrow> re_status e = RecoveryStatus.Open
      | RecoveryAction.Advisor \<Rightarrow>
          \<not> re_advisor_used e \<and> re_status e = RecoveryStatus.DeterministicRepair
      | RecoveryAction.Committee \<Rightarrow>
          \<not> re_committee_used e
          \<and> re_status e \<in> {RecoveryStatus.DeterministicRepair, RecoveryStatus.Advisor}
      | RecoveryAction.Followup _ successor \<Rightarrow>
          re_status e \<noteq> RecoveryStatus.Open \<and> successor \<noteq> re_parked_agent_run_id e
          \<and> re_successor_agent_run_id e \<noteq> Some successor \<and> unat (re_effective_followups e) < 2
      | RecoveryAction.Recover \<Rightarrow> re_status e \<noteq> RecoveryStatus.Open
      | RecoveryAction.Escalate _ \<Rightarrow> True)"

lemma followups_left: "(MAX_EFFECTIVE_FOLLOWUPS \<le> n) \<longleftrightarrow> \<not> unat n < 2"
  by (simp add: MAX_EFFECTIVE_FOLLOWUPS_def word_le_nat_alt not_less)

lemma followup_counts: "unat (n :: u32) < 2 \<Longrightarrow> unat (n + 1) = Suc (unat n)"
  by (simp add: unat_word_ariths)

lemma recovery_plan_accepts:
  "(\<exists>t. recovery_plan e req = Inr t) \<longleftrightarrow>
     \<not> RecoveryStatus_is_terminal (re_status e) \<and> re_revision e = rr_expected_revision req
     \<and> action_admitted e (rr_action req)"
  by (cases "rr_action req")
    (auto simp: recovery_plan_def plan_followup_def action_admitted_def followups_left Let_def)

text \<open>The counters, the closure and the successor of an accepted transition.\<close>

lemma recovery_plan_Inr:
  assumes "recovery_plan e req = Inr t"
  shows "\<not> RecoveryStatus_is_terminal (re_status e)" "re_revision e = rr_expected_revision req"
    "action_admitted e (rr_action req)" "rt_step t = step_kind (rr_action req)"
  using assms recovery_plan_accepts [of e req]
  by (auto simp: recovery_plan_def plan_followup_def settled_transition_def escalated_def Let_def
      split: RecoveryAction.splits if_splits)

lemma recovery_plan_budget:
  assumes "recovery_plan e req = Inr t"
  shows "rt_advisor_used t = (re_advisor_used e \<or> rr_action req = RecoveryAction.Advisor)"
    "rt_committee_used t = (re_committee_used e \<or> rr_action req = RecoveryAction.Committee)"
    "unat (rt_effective_followups t) =
       unat (re_effective_followups e) + (if rt_dispatched_successor t = None then 0 else 1)"
    "rt_successor_agent_run_id t =
       (case rt_dispatched_successor t of None \<Rightarrow> re_successor_agent_run_id e | Some s \<Rightarrow> Some s)"
  using assms
  by (auto simp: recovery_plan_def plan_followup_def settled_transition_def escalated_def Let_def
      followups_left followup_counts split: RecoveryAction.splits if_splits)

lemma recovery_plan_dispatch:
  assumes "recovery_plan e req = Inr t" and "rt_dispatched_successor t = Some s"
  shows "rr_action req = RecoveryAction.Followup True s"
  using assms
  by (auto simp: recovery_plan_def plan_followup_def settled_transition_def escalated_def Let_def
      split: RecoveryAction.splits if_splits)

lemma recovery_plan_closure:
  assumes "recovery_plan e req = Inr t"
  shows "rt_status t \<noteq> RecoveryStatus.Open"
    "(rt_closed_at t \<noteq> None) = RecoveryStatus_is_terminal (rt_status t)"
    "(rt_escalation_brief t \<noteq> None) = (rt_status t = RecoveryStatus.NeedsHuman)"
    "rt_escalation_cause t = map_option esc_cause (rt_escalation_brief t)"
    "rt_deliberation_path t =
       (if rt_status t = RecoveryStatus.NeedsHuman then Some (DeliberationPath_of e) else None)"
  using assms
  by (auto simp: recovery_plan_def plan_followup_def settled_transition_def escalated_def Let_def
      RecoveryStatus_is_terminal_def split: RecoveryAction.splits if_splits)

section \<open>One episode over any sequence of requests\<close>

definition recovery_step ::
  "uuid \<Rightarrow> uuid \<Rightarrow> recovery_store \<Rightarrow> RecoveryRequest \<Rightarrow> recovery_store RepositoryResult" where
  "recovery_step project episode st req =
     try_bind (apply_recovery_transition st project episode req) (\<lambda>r. Inr (snd r))"

definition episode_revision :: "uuid \<Rightarrow> uuid \<Rightarrow> recovery_store \<Rightarrow> u64" where
  "episode_revision project episode st =
     (case read_episode st project episode of None \<Rightarrow> 0 | Some e \<Rightarrow> re_revision e)"

definition step_runs :: "recovery_step_row list \<Rightarrow> uuid list" where
  "step_runs steps = List.map_filter sr_agent_run_id steps"

definition kind_count :: "RecoveryStepKind \<Rightarrow> recovery_step_row list \<Rightarrow> nat" where
  "kind_count k steps = length (filter (\<lambda>s. sr_kind s = k) steps)"

lemma step_runs_append [simp]:
  "step_runs (xs @ [s]) = step_runs xs @ (case sr_agent_run_id s of None \<Rightarrow> [] | Some r \<Rightarrow> [r])"
  by (simp add: step_runs_def List.map_filter_def split: option.splits)

lemma in_step_runs: "r \<in> set (step_runs steps) \<longleftrightarrow> (\<exists>s \<in> set steps. sr_agent_run_id s = Some r)"
  by (force simp: step_runs_def List.map_filter_def)

lemma kind_count_append [simp]:
  "kind_count k (xs @ [s]) = kind_count k xs + (if sr_kind s = k then 1 else 0)"
  by (simp add: kind_count_def)

lemma read_put_episode:
  assumes "find (is_episode p i) es = Some e" and "is_episode p i e'"
  shows "find (is_episode p i) (put_episode e' es) = Some e'"
  using assms by (induction es) (auto simp: put_episode_def is_episode_def split: if_splits)

text \<open>An accepted step, in terms of the episode, the plan and the appended row.\<close>

lemma recovery_step_Inr:
  assumes "recovery_step p i st req = Inr st'"
  obtains e t n where "read_episode st p i = Some e" "re_project_id e = p" "re_id e = i"
    "recovery_plan e req = Inr t" "unat n = Suc (unat (re_revision e))"
    "case rt_dispatched_successor t of None \<Rightarrow> True | Some s \<Rightarrow> ensure_linked_successor st e s = Inr ()"
    "unat n = length (steps_of st p i) + 2"
    "read_episode st' p i = Some (moved_episode e t n)"
    "steps_of st' p i = steps_of st p i @ [transition_step st e req t]"
    "rs_runs st' = rs_runs st"
proof -
  from assms obtain e t n m where e: "read_episode st p i = Some e"
    and t: "recovery_plan e req = Inr t" and n: "AggregateRevision_next (re_revision e) = Inr n"
    and linked: "(case rt_dispatched_successor t of
                 None \<Rightarrow> Inr () | Some s \<Rightarrow> ensure_linked_successor st e s) = Inr ()"
    and st': "write_transition st e req t = Inr (m, st')"
    by (auto simp: recovery_step_def apply_recovery_transition_def write_transition_def Let_def
        split: option.splits)
  have id: "re_project_id e = p" "re_id e = i"
    using find_SomeD [OF e [unfolded read_episode_def]] by (simp_all add: is_episode_def)
  let ?steps = "steps_of st p i @ [transition_step st e req t]"
  have steps: "steps_of (st\<lparr>rs_steps := rs_steps st @ [transition_step st e req t]\<rparr>) p i = ?steps"
    using id by (simp add: steps_of_def transition_step_def)
  from st' n linked id have w: "require_step ?steps n = Inr ()"
    "st' = st\<lparr>rs_steps := rs_steps st @ [transition_step st e req t],
              rs_episodes := put_episode (moved_episode e t n) (rs_episodes st)\<rparr>"
    by (auto simp: write_transition_def Let_def revision_column_def steps split: if_splits)
  show thesis
  proof (rule that [of e t n])
    show "unat n = Suc (unat (re_revision e))" using AggregateRevision_next_Inr [OF n] .
    show "case rt_dispatched_successor t of None \<Rightarrow> True | Some s \<Rightarrow> ensure_linked_successor st e s = Inr ()"
      using linked by (simp split: option.splits)
    show "unat n = length (steps_of st p i) + 2"
      using w(1) by (simp add: require_step_def split: if_splits)
    show "read_episode st' p i = Some (moved_episode e t n)"
      using e id w(2) by (simp add: read_episode_def read_put_episode is_episode_def moved_episode_def)
    show "steps_of st' p i = ?steps"
      using steps w(2) by (simp add: steps_of_def)
  qed (use e id t w(2) in simp_all)
qed

interpretation recovery_cas: revision_guarded "episode_revision p i" rr_expected_revision
  "recovery_step p i"
proof
  fix s r s' assume step: "recovery_step p i s r = Inr s'"
  from step show "episode_revision p i s = rr_expected_revision r"
    by (rule recovery_step_Inr) (simp add: episode_revision_def recovery_plan_Inr)
  from step show "unat (episode_revision p i s') = Suc (unat (episode_revision p i s))"
    by (rule recovery_step_Inr) (simp add: episode_revision_def moved_episode_def)
qed

definition lineage_ok :: "lineage_row list \<Rightarrow> uuid \<Rightarrow> uuid \<Rightarrow> uuid list \<Rightarrow> bool" where
  "lineage_ok runs project parked successors \<longleftrightarrow>
     (\<forall>k < length successors. \<exists>row \<in> set runs.
        ln_project_id row = project \<and> ln_run_id row = successors ! k
        \<and> (\<exists>parent. ln_parent row = Some parent \<and> parent \<in> insert parked (set (take k successors))))"

definition episode_ok :: "lineage_row list \<Rightarrow> RecoveryEpisode \<Rightarrow> recovery_step_row list \<Rightarrow> bool" where
  "episode_ok runs e steps \<longleftrightarrow>
     unat (re_revision e) = length steps + 1
     \<and> (re_status e = RecoveryStatus.Open) = (steps = [])
     \<and> kind_count RecoveryStepKind.Advisor steps = of_bool (re_advisor_used e)
     \<and> kind_count RecoveryStepKind.Committee steps = of_bool (re_committee_used e)
     \<and> length (step_runs steps) = unat (re_effective_followups e)
     \<and> unat (re_effective_followups e) \<le> 2
     \<and> distinct (step_runs steps) \<and> re_parked_agent_run_id e \<notin> set (step_runs steps)
     \<and> re_successor_agent_run_id e
         = (if step_runs steps = [] then None else Some (last (step_runs steps)))
     \<and> lineage_ok runs (re_project_id e) (re_parked_agent_run_id e) (step_runs steps)
     \<and> (\<forall>s \<in> set steps. sr_agent_run_id s \<noteq> None \<longrightarrow> sr_kind s = RecoveryStepKind.FollowupExecution)
     \<and> (re_closed_at e \<noteq> None) = RecoveryStatus_is_terminal (re_status e)
     \<and> (re_escalation_brief e \<noteq> None) = (re_status e = RecoveryStatus.NeedsHuman)
     \<and> re_escalation_cause e = map_option esc_cause (re_escalation_brief e)
     \<and> (re_deliberation_path e \<noteq> None) = (re_status e = RecoveryStatus.NeedsHuman)"

definition recovery_ok :: "uuid \<Rightarrow> uuid \<Rightarrow> recovery_store \<Rightarrow> bool" where
  "recovery_ok p i st \<longleftrightarrow>
     (case read_episode st p i of
        None \<Rightarrow> False | Some e \<Rightarrow> episode_ok (rs_runs st) e (steps_of st p i))"

lemma linked_successor:
  assumes "ensure_linked_successor st e s = Inr ()"
  shows "\<exists>row \<in> set (rs_runs st). ln_project_id row = re_project_id e \<and> ln_run_id row = s
     \<and> (\<exists>parent. ln_parent row = Some parent
          \<and> (parent = re_parked_agent_run_id e \<or> re_successor_agent_run_id e = Some parent))"
    and "s \<notin> set (step_runs (steps_of st (re_project_id e) (re_id e)))"
  using assms
  by (auto simp: ensure_linked_successor_def list_ex_iff in_step_runs split: option.splits if_splits
      dest!: find_SomeD) metis

lemma lineage_ok_snoc:
  assumes "lineage_ok runs p parked xs"
    and "\<exists>row \<in> set runs. ln_project_id row = p \<and> ln_run_id row = s
       \<and> (\<exists>parent. ln_parent row = Some parent \<and> parent \<in> insert parked (set xs))"
  shows "lineage_ok runs p parked (xs @ [s])"
  unfolding lineage_ok_def
proof (intro allI impI)
  fix k assume k: "k < length (xs @ [s])"
  show "\<exists>row \<in> set runs. ln_project_id row = p \<and> ln_run_id row = (xs @ [s]) ! k
      \<and> (\<exists>parent. ln_parent row = Some parent \<and> parent \<in> insert parked (set (take k (xs @ [s]))))"
  proof (cases "k < length xs")
    case True
    with assms(1) show ?thesis by (simp add: lineage_ok_def nth_append)
  next
    case False
    with k have "k = length xs" by simp
    with assms(2) show ?thesis by simp
  qed
qed

lemma kind_of_action:
  "step_kind a = RecoveryStepKind.Advisor \<longleftrightarrow> a = RecoveryAction.Advisor"
  "step_kind a = RecoveryStepKind.Committee \<longleftrightarrow> a = RecoveryAction.Committee"
  by (cases a; simp)+

text \<open>The rows a dispatched follow-up adds keep the successor facts.\<close>

lemma successors_kept:
  assumes ok: "episode_ok (rs_runs st) e (steps_of st p i)"
    and id: "re_project_id e = p" "re_id e = i" and t: "recovery_plan e req = Inr t"
    and linked: "case rt_dispatched_successor t of
          None \<Rightarrow> True | Some s \<Rightarrow> ensure_linked_successor st e s = Inr ()"
  shows "let runs = step_runs (steps_of st p i @ [transition_step st e req t]) in
     length runs = unat (rt_effective_followups t) \<and> unat (rt_effective_followups t) \<le> 2
     \<and> distinct runs \<and> re_parked_agent_run_id e \<notin> set runs
     \<and> rt_successor_agent_run_id t = (if runs = [] then None else Some (last runs))
     \<and> lineage_ok (rs_runs st) p (re_parked_agent_run_id e) runs"
proof (cases "rt_dispatched_successor t")
  case None
  with ok id recovery_plan_budget [OF t] show ?thesis
    by (simp add: episode_ok_def transition_step_def Let_def)
next
  case (Some s)
  from recovery_plan_dispatch [OF t Some] recovery_plan_Inr(3) [OF t]
  have s: "s \<noteq> re_parked_agent_run_id e" "unat (re_effective_followups e) < 2"
    by (simp_all add: action_admitted_def)
  from linked Some have l: "ensure_linked_successor st e s = Inr ()" by simp
  have "lineage_ok (rs_runs st) p (re_parked_agent_run_id e) (step_runs (steps_of st p i) @ [s])"
  proof (rule lineage_ok_snoc)
    show "lineage_ok (rs_runs st) p (re_parked_agent_run_id e) (step_runs (steps_of st p i))"
      using ok id by (simp add: episode_ok_def)
    have "re_successor_agent_run_id e = Some parent \<Longrightarrow> parent \<in> set (step_runs (steps_of st p i))"
      for parent using ok by (auto simp: episode_ok_def split: if_splits)
    then show "\<exists>row \<in> set (rs_runs st). ln_project_id row = p \<and> ln_run_id row = s
       \<and> (\<exists>parent. ln_parent row = Some parent
            \<and> parent \<in> insert (re_parked_agent_run_id e) (set (step_runs (steps_of st p i))))"
      using linked_successor(1) [OF l] id by auto
  qed
  with ok id s Some linked_successor(2) [OF l] recovery_plan_budget [OF t] show ?thesis
    by (simp add: episode_ok_def transition_step_def Let_def)
qed

lemma recovery_step_keeps:
  assumes inv: "recovery_ok p i st" and step: "recovery_step p i st req = Inr st'"
  shows "recovery_ok p i st'"
proof -
  from step obtain e t n where e: "read_episode st p i = Some e"
    and id: "re_project_id e = p" "re_id e = i" and t: "recovery_plan e req = Inr t"
    and n: "unat n = length (steps_of st p i) + 2"
    and linked: "case rt_dispatched_successor t of
          None \<Rightarrow> True | Some s \<Rightarrow> ensure_linked_successor st e s = Inr ()"
    and e': "read_episode st' p i = Some (moved_episode e t n)"
    and steps: "steps_of st' p i = steps_of st p i @ [transition_step st e req t]"
    and runs: "rs_runs st' = rs_runs st"
    by (rule recovery_step_Inr)
  from inv e have ok: "episode_ok (rs_runs st) e (steps_of st p i)" by (simp add: recovery_ok_def)
  let ?s = "transition_step st e req t"
  have kind: "sr_kind ?s = step_kind (rr_action req)" "sr_agent_run_id ?s = rt_dispatched_successor t"
    using recovery_plan_Inr(4) [OF t] by (simp_all add: transition_step_def)
  have run_kind: "rt_dispatched_successor t \<noteq> None \<Longrightarrow> sr_kind ?s = RecoveryStepKind.FollowupExecution"
    using recovery_plan_dispatch [OF t] kind by auto
  have budget: "kind_count RecoveryStepKind.Advisor (steps_of st p i @ [?s]) = of_bool (rt_advisor_used t)"
    "kind_count RecoveryStepKind.Committee (steps_of st p i @ [?s]) = of_bool (rt_committee_used t)"
    using ok kind recovery_plan_budget(1,2) [OF t] recovery_plan_Inr(3) [OF t]
    by (auto simp: episode_ok_def kind_of_action action_admitted_def)
  have "episode_ok (rs_runs st) (moved_episode e t n) (steps_of st p i @ [?s])"
    using successors_kept [OF ok id t linked] budget recovery_plan_closure [OF t] n id run_kind kind ok
    by (simp add: episode_ok_def moved_episode_def Let_def)
  with e' steps runs show ?thesis by (simp add: recovery_ok_def)
qed

definition opened_episode :: "RecoveryEpisode \<Rightarrow> bool" where
  "opened_episode e \<longleftrightarrow>
     re_status e = RecoveryStatus.Open \<and> \<not> re_advisor_used e \<and> \<not> re_committee_used e
     \<and> re_effective_followups e = 0 \<and> re_successor_agent_run_id e = None
     \<and> re_escalation_cause e = None \<and> re_escalation_brief e = None
     \<and> re_deliberation_path e = None \<and> re_revision e = 1 \<and> re_closed_at e = None"

lemma opened_ok: "opened_episode e \<Longrightarrow> episode_ok runs e []"
  by (simp add: opened_episode_def episode_ok_def kind_count_def step_runs_def map_filter_simps
      lineage_ok_def RecoveryStatus_is_terminal_def)

lemma recovery_run_keeps:
  assumes "recovery_ok p i st" and "try_run (recovery_step p i) st rs = Inr st'"
  shows "recovery_ok p i st'"
  using try_run_invariant [where I = "recovery_ok p i" and step = "recovery_step p i"]
    recovery_step_keeps assms by blast

lemma recovery_run_runs:
  "try_run (recovery_step p i) st rs = Inr st' \<Longrightarrow> rs_runs st' = rs_runs st"
proof (induction rs arbitrary: st)
  case (Cons r rs)
  then obtain st1 where "recovery_step p i st r = Inr st1" "try_run (recovery_step p i) st1 rs = Inr st'"
    by auto
  with Cons.IH show ?case by (metis recovery_step_Inr)
qed simp

lemma recovery_run_parked:
  assumes "read_episode st p i = Some e" and "try_run (recovery_step p i) st rs = Inr st'"
  shows "\<exists>e'. read_episode st' p i = Some e' \<and> re_parked_agent_run_id e' = re_parked_agent_run_id e
     \<and> re_project_id e' = p"
proof -
  let ?I = "\<lambda>s. \<exists>e'. read_episode s p i = Some e'
     \<and> re_parked_agent_run_id e' = re_parked_agent_run_id e \<and> re_project_id e' = p"
  have "?I st" using assms(1) find_SomeD [OF assms(1) [unfolded read_episode_def]]
    by (simp add: is_episode_def)
  moreover have "?I s'" if s: "?I s" and "recovery_step p i s r = Inr s'" for s r s'
    using that(2) by (rule recovery_step_Inr) (use s in \<open>auto simp: moved_episode_def\<close>)
  ultimately show ?thesis
    using try_run_invariant [where I = ?I and step = "recovery_step p i"] assms(2) by blast
qed

lemma opened_recovery_ok:
  assumes "read_episode st p i = Some e" "opened_episode e" "steps_of st p i = []"
  shows "recovery_ok p i st"
  using assms by (simp add: recovery_ok_def opened_ok)

lemma writable_next:
  assumes "r < STORABLE_MAX"
  obtains n where "AggregateRevision_next r = Inr n" "revision_column n = Inr n"
    "unat n = Suc (unat r)"
proof -
  have r: "unat r < 9223372036854775807"
    using assms by (simp add: STORABLE_MAX_def word_less_nat_alt)
  have "unat (r + 1) = Suc (unat r)" using r by (simp add: unat_word_ariths)
  moreover have "checked_add r 1 = Some (r + 1)" using r by (simp add: checked_add_def)
  ultimately show thesis using r that [of "r + 1"]
    by (simp add: AggregateRevision_next_def revision_column_def STORABLE_MAX_def word_le_nat_alt)
qed

definition dispatch_linked :: "recovery_store \<Rightarrow> RecoveryEpisode \<Rightarrow> RecoveryAction \<Rightarrow> bool" where
  "dispatch_linked st e a =
     (case a of RecoveryAction.Followup True s \<Rightarrow> ensure_linked_successor st e s = Inr () | _ \<Rightarrow> True)"

lemma planned_dispatch:
  assumes "recovery_plan e req = Inr t"
  shows "(case rt_dispatched_successor t of None \<Rightarrow> Inr () | Some s \<Rightarrow> ensure_linked_successor st e s)
     = Inr () \<longleftrightarrow> dispatch_linked st e (rr_action req)"
  using assms
  by (auto simp: dispatch_linked_def recovery_plan_def plan_followup_def settled_transition_def
      escalated_def Let_def split: RecoveryAction.splits if_splits bool.splits)

lemma recovery_write_total:
  assumes ok: "recovery_ok p i st" and e: "read_episode st p i = Some e"
    and room: "re_revision e < STORABLE_MAX" and t: "recovery_plan e req = Inr t"
    and linked: "dispatch_linked st e (rr_action req)"
  shows "\<exists>st'. recovery_step p i st req = Inr st'"
proof -
  obtain n where n: "AggregateRevision_next (re_revision e) = Inr n" "revision_column n = Inr n"
    "unat n = Suc (unat (re_revision e))" using writable_next [OF room] .
  have id: "re_project_id e = p" "re_id e = i"
    using find_SomeD [OF e [unfolded read_episode_def]] by (simp_all add: is_episode_def)
  have "unat n = length (steps_of st p i) + 2"
    using ok e n(3) by (simp add: recovery_ok_def episode_ok_def)
  then have "require_step (steps_of (st\<lparr>rs_steps := rs_steps st @ [transition_step st e req t]\<rparr>) p i) n
      = Inr ()"
    using id by (simp add: require_step_def steps_of_def transition_step_def)
  with n(1,2) e t id linked planned_dispatch [OF t] show ?thesis
    by (simp add: recovery_step_def apply_recovery_transition_def write_transition_def Let_def)
qed

section \<open>Properties\<close>

text \<open>C3. From the moment an episode is opened, whatever sequence of requests is accepted, there is
  one step per accepted request, at most one advisor and one committee consultation and at most two
  dispatched follow-ups; the dispatched successors are distinct, are never the parked run, descend
  from it through recorded runs, and only follow-up steps name a run; and an episode that reached a
  human carries its cause, the recommendation and the path already tried.\<close>

theorem recovery_stays_bounded:
  assumes "read_episode st p i = Some e0" "opened_episode e0" "steps_of st p i = []"
    and "try_run (recovery_step p i) st rs = Inr st'"
  shows "\<exists>e. read_episode st' p i = Some e
     \<and> length (steps_of st' p i) = length rs
     \<and> kind_count RecoveryStepKind.Advisor (steps_of st' p i) \<le> 1
     \<and> kind_count RecoveryStepKind.Committee (steps_of st' p i) \<le> 1
     \<and> length (step_runs (steps_of st' p i)) \<le> 2 \<and> distinct (step_runs (steps_of st' p i))
     \<and> re_parked_agent_run_id e0 \<notin> set (step_runs (steps_of st' p i))
     \<and> lineage_ok (rs_runs st) p (re_parked_agent_run_id e0) (step_runs (steps_of st' p i))
     \<and> (\<forall>s \<in> set (steps_of st' p i). is_read_only (sr_kind s) \<longrightarrow> sr_agent_run_id s = None)
     \<and> (re_status e = RecoveryStatus.NeedsHuman \<longrightarrow>
          (\<exists>brief path. re_escalation_brief e = Some brief \<and> re_deliberation_path e = Some path
             \<and> re_escalation_cause e = Some (esc_cause brief)))"
proof -
  have ok: "recovery_ok p i st'"
    using recovery_run_keeps [OF opened_recovery_ok [OF assms(1-3)] assms(4)] .
  obtain e where e: "read_episode st' p i = Some e"
    "re_parked_agent_run_id e = re_parked_agent_run_id e0" "re_project_id e = p"
    using recovery_run_parked [OF assms(1,4)] by blast
  from ok e(1) have *: "episode_ok (rs_runs st') e (steps_of st' p i)" by (simp add: recovery_ok_def)
  have "unat (re_revision e) = 1 + length rs"
    using recovery_cas.run_revision [OF assms(4)] assms(1,2) e(1)
    by (simp add: episode_revision_def opened_episode_def)
  with * e recovery_run_runs [OF assms(4)] show ?thesis
    by (auto simp: episode_ok_def is_read_only_def split: if_splits)
qed

definition sample_episode :: RecoveryEpisode where
  "sample_episode =
     \<lparr>re_id = 1, re_project_id = 1, re_task_id = 5, re_workflow_id = 6, re_parked_agent_run_id = 10,
      re_status = RecoveryStatus.Open, re_cause_evaluation_id = 7, re_advisor_used = False,
      re_committee_used = False, re_effective_followups = 0, re_successor_agent_run_id = None,
      re_escalation_cause = None, re_escalation_brief = None, re_deliberation_path = None,
      re_revision = 1, re_created_at = 0, re_closed_at = None\<rparr>"

definition sample_recovery :: recovery_store where
  "sample_recovery =
     \<lparr>rs_episodes = [sample_episode], rs_steps = [],
      rs_runs = [\<lparr>ln_project_id = 1, ln_run_id = 11, ln_parent = Some 10\<rparr>]\<rparr>"

definition sample_recovery_request :: "u64 \<Rightarrow> RecoveryAction \<Rightarrow> RecoveryRequest" where
  "sample_recovery_request revision a =
     \<lparr>rr_expected_revision = revision, rr_action = a, rr_input_hash = ''in'', rr_output_hash = None,
      rr_occurred_at = int (unat revision)\<rparr>"

definition sample_recovery_run :: "RecoveryRequest list" where
  "sample_recovery_run =
     [sample_recovery_request 1 (RecoveryAction.DeterministicRepair True),
      sample_recovery_request 2 RecoveryAction.Advisor,
      sample_recovery_request 3 (RecoveryAction.Followup True 11)]"

lemmas recovery_eval =
  recovery_step_def apply_recovery_transition_def read_episode_def is_episode_def recovery_plan_def
  plan_followup_def settled_transition_def write_transition_def AggregateRevision_next_def
  checked_add_def domain_def revision_column_def STORABLE_MAX_def require_step_def steps_of_def
  transition_step_def moved_episode_def put_episode_def ensure_linked_successor_def
  next_sequence_def RecoveryStatus_is_terminal_def MAX_EFFECTIVE_FOLLOWUPS_def Let_def
  sample_recovery_def sample_episode_def sample_recovery_request_def

lemma sample_recovery_runs:
  "\<not> isl (try_run (recovery_step 1 1) sample_recovery sample_recovery_run)"
  by (simp add: recovery_eval sample_recovery_run_def AggregateRevision_expect_def)

theorem recovery_stays_bounded_witness:
  "\<exists>st' e. try_run (recovery_step 1 1) sample_recovery sample_recovery_run = Inr st'
     \<and> read_episode st' 1 1 = Some e \<and> length (steps_of st' 1 1) = 3"
proof -
  obtain st' where
    run: "try_run (recovery_step 1 1) sample_recovery sample_recovery_run = Inr st'"
    using sample_recovery_runs
    by (cases "try_run (recovery_step 1 1) sample_recovery sample_recovery_run") auto
  have "read_episode sample_recovery 1 1 = Some sample_episode" "opened_episode sample_episode"
    "steps_of sample_recovery 1 1 = []"
    by (simp_all add: recovery_eval opened_episode_def)
  from recovery_stays_bounded [OF this run] run show ?thesis
    by (auto simp: sample_recovery_run_def)
qed

text \<open>C36. For an episode reached from its opening, a request is accepted exactly when the episode is
  not closed, the request names its current revision, the action is one its status and remaining
  budget allow, and a dispatched successor is a recorded run that descends from the parked run and
  was not dispatched before.  In particular escalation to a human is always available, and the
  schema's step accounting never refuses an accepted plan.\<close>

theorem recovery_accepts_exactly:
  assumes "read_episode st p i = Some e0" "opened_episode e0" "steps_of st p i = []"
    and "try_run (recovery_step p i) st rs = Inr st'"
    and "read_episode st' p i = Some e" and "re_revision e < STORABLE_MAX"
  shows "(\<exists>st''. recovery_step p i st' req = Inr st'') \<longleftrightarrow>
     \<not> RecoveryStatus_is_terminal (re_status e) \<and> rr_expected_revision req = re_revision e
     \<and> action_admitted e (rr_action req) \<and> dispatch_linked st' e (rr_action req)"
  (is "?L \<longleftrightarrow> ?R")
proof
  assume ?L
  then obtain st'' where "recovery_step p i st' req = Inr st''" by blast
  then obtain t where t: "recovery_plan e req = Inr t"
    and l: "case rt_dispatched_successor t of
          None \<Rightarrow> True | Some s \<Rightarrow> ensure_linked_successor st' e s = Inr ()"
    by (rule recovery_step_Inr) (use assms(5) in auto)
  from planned_dispatch [OF t, of st'] l have "dispatch_linked st' e (rr_action req)"
    by (simp split: option.splits)
  with recovery_plan_Inr [OF t] show ?R by simp
next
  assume R: ?R
  with recovery_plan_accepts [of e req] obtain t where "recovery_plan e req = Inr t" by auto
  moreover have "recovery_ok p i st'"
    using recovery_run_keeps [OF opened_recovery_ok [OF assms(1-3)] assms(4)] .
  ultimately show ?L using recovery_write_total assms(5,6) R by blast
qed

theorem recovery_accepts_exactly_witness:
  "(\<exists>st''. recovery_step 1 1 sample_recovery
       (sample_recovery_request 1 (RecoveryAction.Escalate unsafe_state_escalation)) = Inr st'')
   \<and> \<not> (\<exists>st''. recovery_step 1 1 sample_recovery
       (sample_recovery_request 1 RecoveryAction.Advisor) = Inr st'')"
proof -
  have s: "read_episode sample_recovery 1 1 = Some sample_episode" "opened_episode sample_episode"
    "steps_of sample_recovery 1 1 = []" "re_revision sample_episode < STORABLE_MAX"
    "try_run (recovery_step 1 1) sample_recovery [] = Inr sample_recovery"
    by (simp_all add: recovery_eval opened_episode_def)
  note exact = recovery_accepts_exactly [OF s(1,2,3,5,1,4)]
  show ?thesis unfolding exact
    by (simp add: action_admitted_def dispatch_linked_def sample_recovery_request_def
        sample_episode_def RecoveryStatus_is_terminal_def)
qed

end
