(* ===== verification/Open_Question.thy ===== *)
theory Open_Question
  imports Identity "HOL-Library.Sublist"
begin

text \<open>
  The open-question ledger, \<^verbatim>\<open>crates/kontor-core/src/open_question.rs\<close>: the append-only histories
  of a question, its derived status, who may close it, and the report-only detector.  The write-time
  classification comes from \<^verbatim>\<open>crates/kontor-core/src/spec.rs\<close>.  An operation of the aggregate
  returns the new ordinal with the updated question.  The lemmas show that histories only grow, that
  ordinals number them, and what each operation does to the derived status.
\<close>

section \<open>Classification\<close>

datatype ShareabilityTier =
    OperationalState | ProjectKnowledge | PersonalDraft

primrec ShareabilityTier_as_str :: "ShareabilityTier \<Rightarrow> string" where
  "ShareabilityTier_as_str ShareabilityTier.OperationalState = ''operational_state''"
| "ShareabilityTier_as_str ShareabilityTier.ProjectKnowledge = ''project_knowledge''"
| "ShareabilityTier_as_str ShareabilityTier.PersonalDraft = ''personal_draft''"

definition ShareabilityTier_ALL :: "ShareabilityTier list" where
  "ShareabilityTier_ALL =
     [ShareabilityTier.OperationalState, ShareabilityTier.ProjectKnowledge,
     ShareabilityTier.PersonalDraft]"

datatype ShareabilityClass =
    ProjectShared | KontorLocal

primrec ShareabilityClass_as_str :: "ShareabilityClass \<Rightarrow> string" where
  "ShareabilityClass_as_str ShareabilityClass.ProjectShared = ''project_shared''"
| "ShareabilityClass_as_str ShareabilityClass.KontorLocal = ''kontor_local''"

definition ShareabilityClass_ALL :: "ShareabilityClass list" where
  "ShareabilityClass_ALL =
     [ShareabilityClass.ProjectShared, ShareabilityClass.KontorLocal]"

datatype ShareabilityProvenance =
    TypeDefault | HumanOverride

primrec ShareabilityProvenance_as_str :: "ShareabilityProvenance \<Rightarrow> string" where
  "ShareabilityProvenance_as_str ShareabilityProvenance.TypeDefault = ''type_default''"
| "ShareabilityProvenance_as_str ShareabilityProvenance.HumanOverride = ''human_override''"

definition ShareabilityProvenance_ALL :: "ShareabilityProvenance list" where
  "ShareabilityProvenance_ALL =
     [ShareabilityProvenance.TypeDefault, ShareabilityProvenance.HumanOverride]"

datatype ShareabilityClassifier = TypeDefaultRule | Human string

record Shareability =
  sh_class :: ShareabilityClass
  sh_classifier :: ShareabilityClassifier
  sh_provenance :: ShareabilityProvenance

definition is_classifiable :: "ShareabilityTier \<Rightarrow> bool" where
  "is_classifiable tier \<longleftrightarrow> tier \<noteq> ShareabilityTier.OperationalState"

definition default_class :: "ShareabilityTier \<Rightarrow> ShareabilityClass DomainResult" where
  "default_class tier =
     (case tier of
        ShareabilityTier.OperationalState \<Rightarrow>
          Inl (Invalid ''Shareability'' ''tier-A Kontor operational state refuses classification'')
      | ShareabilityTier.ProjectKnowledge \<Rightarrow> Inr ShareabilityClass.ProjectShared
      | ShareabilityTier.PersonalDraft \<Rightarrow> Inr ShareabilityClass.KontorLocal)"

definition Shareability_default_for :: "ShareabilityTier \<Rightarrow> Shareability DomainResult" where
  "Shareability_default_for tier =
     try_bind (default_class tier) (\<lambda>c.
       Inr \<lparr>sh_class = c, sh_classifier = TypeDefaultRule,
            sh_provenance = ShareabilityProvenance.TypeDefault\<rparr>)"

definition Shareability_overridden_by ::
  "ShareabilityTier \<Rightarrow> ShareabilityClass \<Rightarrow> string \<Rightarrow> Shareability DomainResult" where
  "Shareability_overridden_by tier c human =
     try_bind (default_class tier) (\<lambda>_.
       Inr \<lparr>sh_class = c, sh_classifier = Human human,
            sh_provenance = ShareabilityProvenance.HumanOverride\<rparr>)"

section \<open>Questions\<close>

datatype QuestionScope =
    Architecture | Product | Process | Routing

primrec QuestionScope_as_str :: "QuestionScope \<Rightarrow> string" where
  "QuestionScope_as_str QuestionScope.Architecture = ''architecture''"
| "QuestionScope_as_str QuestionScope.Product = ''product''"
| "QuestionScope_as_str QuestionScope.Process = ''process''"
| "QuestionScope_as_str QuestionScope.Routing = ''routing''"

definition QuestionScope_ALL :: "QuestionScope list" where
  "QuestionScope_ALL =
     [QuestionScope.Architecture, QuestionScope.Product, QuestionScope.Process,
     QuestionScope.Routing]"

datatype DispositionKind =
    Resolved | Deferred | NotRelevant

primrec DispositionKind_as_str :: "DispositionKind \<Rightarrow> string" where
  "DispositionKind_as_str DispositionKind.Resolved = ''resolved''"
| "DispositionKind_as_str DispositionKind.Deferred = ''deferred''"
| "DispositionKind_as_str DispositionKind.NotRelevant = ''not_relevant''"

definition DispositionKind_ALL :: "DispositionKind list" where
  "DispositionKind_ALL =
     [DispositionKind.Resolved, DispositionKind.Deferred, DispositionKind.NotRelevant]"

datatype OpenQuestionStatus =
    Open | Resolved | Deferred | NotRelevant | Reopened

primrec OpenQuestionStatus_as_str :: "OpenQuestionStatus \<Rightarrow> string" where
  "OpenQuestionStatus_as_str OpenQuestionStatus.Open = ''open''"
| "OpenQuestionStatus_as_str OpenQuestionStatus.Resolved = ''resolved''"
| "OpenQuestionStatus_as_str OpenQuestionStatus.Deferred = ''deferred''"
| "OpenQuestionStatus_as_str OpenQuestionStatus.NotRelevant = ''not_relevant''"
| "OpenQuestionStatus_as_str OpenQuestionStatus.Reopened = ''reopened''"

definition OpenQuestionStatus_ALL :: "OpenQuestionStatus list" where
  "OpenQuestionStatus_ALL =
     [OpenQuestionStatus.Open, OpenQuestionStatus.Resolved, OpenQuestionStatus.Deferred,
     OpenQuestionStatus.NotRelevant, OpenQuestionStatus.Reopened]"

definition MAX_QUESTION_OPTIONS :: nat where "MAX_QUESTION_OPTIONS = 32"

definition needs_architecture_closer :: "QuestionScope \<Rightarrow> bool" where
  "needs_architecture_closer s \<longleftrightarrow> s \<in> {QuestionScope.Architecture, QuestionScope.Product}"

datatype AggregateRef =
    Project uuid
  | MiniProject uuid
  | Task uuid
  | TeamRun uuid
  | AgentRun uuid
  | TicketLink uuid
  | WorkCalendar uuid

record DecisionCitation =
  dc_record :: AggregateRef
  dc_revision :: content_hash

datatype OpenQuestionAttachment = Record AggregateRef | Document content_hash

record ReopeningTrigger =
  tr_key :: string
  tr_condition :: string

definition ReopeningTrigger_validate :: "ReopeningTrigger \<Rightarrow> unit DomainResult" where
  "ReopeningTrigger_validate t =
     (if trim_text (tr_condition t) = []
      then Inl (Invalid ''ReopeningTrigger'' ''a deferral must state the concrete condition that reopens it'')
      else Inr ())"

datatype DispositionOutcome =
    Resolved DecisionCitation
  | Deferred ReopeningTrigger
  | NotRelevant string

fun outcome_kind :: "DispositionOutcome \<Rightarrow> DispositionKind" where
  "outcome_kind (DispositionOutcome.Resolved _) = DispositionKind.Resolved"
| "outcome_kind (DispositionOutcome.Deferred _) = DispositionKind.Deferred"
| "outcome_kind (DispositionOutcome.NotRelevant _) = DispositionKind.NotRelevant"

fun deferred_trigger :: "DispositionOutcome \<Rightarrow> ReopeningTrigger option" where
  "deferred_trigger (DispositionOutcome.Deferred t) = Some t"
| "deferred_trigger (DispositionOutcome.Resolved _) = None"
| "deferred_trigger (DispositionOutcome.NotRelevant _) = None"

fun DispositionOutcome_validate :: "DispositionOutcome \<Rightarrow> unit DomainResult" where
  "DispositionOutcome_validate (DispositionOutcome.Resolved _) = Inr ()"
| "DispositionOutcome_validate (DispositionOutcome.Deferred t) = ReopeningTrigger_validate t"
| "DispositionOutcome_validate (DispositionOutcome.NotRelevant reason) =
     (if trim_text reason = []
      then Inl (Invalid ''DispositionOutcome'' ''`not_relevant` must say why it is not relevant'')
      else Inr ())"

record AmbiguityRound =
  ar_ordinal :: u32
  ar_author :: uuid
  ar_why_ambiguous :: string
  ar_options :: "string list"
  ar_supersedes :: "u32 option"
  ar_recorded_at :: timestamp

record Disposition =
  di_ordinal :: u32
  di_author :: uuid
  di_outcome :: DispositionOutcome
  di_supersedes :: "u32 option"
  di_recorded_at :: timestamp

record TriggerFiring =
  tf_ordinal :: u32
  tf_disposition_ordinal :: u32
  tf_trigger :: string
  tf_observed_by :: uuid
  tf_recorded_at :: timestamp

definition blocks_completion :: "OpenQuestionStatus \<Rightarrow> bool" where
  "blocks_completion s \<longleftrightarrow> s \<in> {OpenQuestionStatus.Open, OpenQuestionStatus.Reopened}"

record CloserPolicy =
  cp_architecture_closer :: string
  cp_process_closer :: string

definition closer_for :: "CloserPolicy \<Rightarrow> QuestionScope \<Rightarrow> string" where
  "closer_for policy s =
     (if needs_architecture_closer s then cp_architecture_closer policy else cp_process_closer policy)"

record OpenQuestionSummary =
  os_question_id :: uuid
  os_subject :: string
  os_status :: OpenQuestionStatus

record OpenQuestion =
  oq_question_id :: uuid
  oq_project_id :: uuid
  oq_mini_project_id :: uuid
  oq_subject :: string
  oq_scope :: QuestionScope
  oq_attachment :: OpenQuestionAttachment
  oq_author :: uuid
  oq_shareability :: Shareability
  oq_created_at :: timestamp
  oq_revision :: u64
  oq_rounds :: "AmbiguityRound list"
  oq_dispositions :: "Disposition list"
  oq_firings :: "TriggerFiring list"

definition repeated :: "'a list \<Rightarrow> bool" where
  "repeated xs = list_ex (\<lambda>i. xs ! i \<in> set (drop (i + 1) xs)) [0..<length xs]"

definition validate_round :: "string \<Rightarrow> string list \<Rightarrow> unit DomainResult" where
  "validate_round why options =
     (if trim_text why = []
      then Inl (Invalid ''OpenQuestion round'' ''a round must say why the state is ambiguous'')
      else if options = []
      then Inl (Invalid ''OpenQuestion round'' ''a round must record the options that were seen'')
      else if length options > MAX_QUESTION_OPTIONS
      then Inl (Invalid ''OpenQuestion round'' ''records more options than one round may hold'')
      else if list_ex (\<lambda>opt. trim_text opt = []) options
      then Inl (Invalid ''OpenQuestion round'' ''an option must say something'')
      else if repeated options
      then Inl (Invalid ''OpenQuestion round'' ''records one option twice'')
      else Inr ())"

definition next_ordinal :: "nat \<Rightarrow> string \<Rightarrow> u32 DomainResult" where
  "next_ordinal len subject =
     (if len + 1 < 2 ^ 32 then Inr (of_nat (len + 1))
      else Inl (Invalid subject ''the append-only history overflowed''))"

definition raise_question ::
  "uuid \<Rightarrow> uuid \<Rightarrow> uuid \<Rightarrow> string \<Rightarrow> QuestionScope \<Rightarrow> OpenQuestionAttachment \<Rightarrow> uuid \<Rightarrow> string \<Rightarrow>
   string list \<Rightarrow> timestamp \<Rightarrow> OpenQuestion DomainResult" where
  "raise_question qid project mini subject scope attachment author why options now =
     (if trim_text subject = []
      then Inl (Invalid ''OpenQuestion'' ''a question must say what it is about'')
      else try_bind (validate_round why options) (\<lambda>_.
           try_bind (Shareability_default_for ShareabilityTier.ProjectKnowledge) (\<lambda>share.
             Inr \<lparr>oq_question_id = qid, oq_project_id = project, oq_mini_project_id = mini,
                  oq_subject = subject, oq_scope = scope, oq_attachment = attachment,
                  oq_author = author, oq_shareability = share, oq_created_at = now,
                  oq_revision = AggregateRevision_INITIAL,
                  oq_rounds = [\<lparr>ar_ordinal = 1, ar_author = author, ar_why_ambiguous = why,
                                ar_options = options, ar_supersedes = None, ar_recorded_at = now\<rparr>],
                  oq_dispositions = [], oq_firings = []\<rparr>)))"

definition current_disposition :: "OpenQuestion \<Rightarrow> Disposition option" where
  "current_disposition q = (case oq_dispositions q of [] \<Rightarrow> None | ds \<Rightarrow> Some (last ds))"

definition fired_against :: "OpenQuestion \<Rightarrow> u32 \<Rightarrow> string \<Rightarrow> bool" where
  "fired_against q ordinal trigger =
     list_ex (\<lambda>f. tf_disposition_ordinal f = ordinal \<and> tf_trigger f = trigger) (oq_firings q)"

definition question_status :: "OpenQuestion \<Rightarrow> OpenQuestionStatus" where
  "question_status q =
     (case current_disposition q of
        None \<Rightarrow> OpenQuestionStatus.Open
      | Some d \<Rightarrow>
          (case di_outcome d of
             DispositionOutcome.Resolved _ \<Rightarrow> OpenQuestionStatus.Resolved
           | DispositionOutcome.NotRelevant _ \<Rightarrow> OpenQuestionStatus.NotRelevant
           | DispositionOutcome.Deferred t \<Rightarrow>
               if fired_against q (di_ordinal d) (tr_key t) then OpenQuestionStatus.Reopened
               else OpenQuestionStatus.Deferred))"

definition question_summary :: "OpenQuestion \<Rightarrow> OpenQuestionSummary" where
  "question_summary q =
     \<lparr>os_question_id = oq_question_id q, os_subject = oq_subject q, os_status = question_status q\<rparr>"

definition append_round ::
  "OpenQuestion \<Rightarrow> uuid \<Rightarrow> string \<Rightarrow> string list \<Rightarrow> u32 option \<Rightarrow> timestamp \<Rightarrow>
   (u32 \<times> OpenQuestion) DomainResult" where
  "append_round q author why options supersedes now =
     try_bind (validate_round why options) (\<lambda>_.
       if (case supersedes of None \<Rightarrow> False | Some p \<Rightarrow> \<not> list_ex (\<lambda>r. ar_ordinal r = p) (oq_rounds q))
       then Inl (Invalid ''OpenQuestion round'' ''a correction must name a round that exists'')
       else try_bind (next_ordinal (length (oq_rounds q)) ''OpenQuestion round'') (\<lambda>ordinal.
            try_bind (AggregateRevision_next (oq_revision q)) (\<lambda>revision.
              Inr (ordinal,
                q\<lparr>oq_rounds := oq_rounds q @
                     [\<lparr>ar_ordinal = ordinal, ar_author = author, ar_why_ambiguous = why,
                       ar_options = options, ar_supersedes = supersedes, ar_recorded_at = now\<rparr>],
                  oq_revision := revision\<rparr>))))"

definition dispose ::
  "OpenQuestion \<Rightarrow> uuid \<Rightarrow> string \<Rightarrow> CloserPolicy \<Rightarrow> DispositionOutcome \<Rightarrow> u32 option \<Rightarrow> timestamp \<Rightarrow>
   (u32 \<times> OpenQuestion) DomainResult" where
  "dispose q author author_role policy outcome supersedes now =
     try_bind (DispositionOutcome_validate outcome) (\<lambda>_.
       if author_role \<noteq> closer_for policy (oq_scope q)
       then Inl (MissingAuthority ''OpenQuestion disposition''
              (''only the configured closer for this question'' @ [CHR 0x27] @ ''s scope may close it''))
       else if (case supersedes of None \<Rightarrow> False
                | Some p \<Rightarrow> \<not> list_ex (\<lambda>d. di_ordinal d = p) (oq_dispositions q))
       then Inl (Invalid ''OpenQuestion disposition'' ''a correction must name a disposition that exists'')
       else try_bind (next_ordinal (length (oq_dispositions q)) ''OpenQuestion disposition'') (\<lambda>ordinal.
            try_bind (AggregateRevision_next (oq_revision q)) (\<lambda>revision.
              Inr (ordinal,
                q\<lparr>oq_dispositions := oq_dispositions q @
                     [\<lparr>di_ordinal = ordinal, di_author = author, di_outcome = outcome,
                       di_supersedes = supersedes, di_recorded_at = now\<rparr>],
                  oq_revision := revision\<rparr>))))"

definition fire_trigger ::
  "OpenQuestion \<Rightarrow> string \<Rightarrow> uuid \<Rightarrow> timestamp \<Rightarrow> (u32 \<times> OpenQuestion) DomainResult" where
  "fire_trigger q trigger observed_by now =
     (case current_disposition q of
        None \<Rightarrow> Inl (Invalid ''OpenQuestion trigger''
                  ''an undispositioned question has no deferral to reopen'')
      | Some d \<Rightarrow>
          (case deferred_trigger (di_outcome d) of
             None \<Rightarrow> Inl (Invalid ''OpenQuestion trigger'' ''only a deferred question reopens on a trigger'')
           | Some t \<Rightarrow>
               if tr_key t \<noteq> trigger
               then Inl (Invalid ''OpenQuestion trigger''
                      ''only the exact trigger the deferral named reopens it'')
               else if fired_against q (di_ordinal d) trigger
               then Inl (Invalid ''OpenQuestion trigger''
                      (''this deferral'' @ [CHR 0x27] @ ''s trigger has already been recorded as fired''))
               else try_bind (next_ordinal (length (oq_firings q)) ''OpenQuestion trigger'') (\<lambda>ordinal.
                    try_bind (AggregateRevision_next (oq_revision q)) (\<lambda>revision.
                      Inr (ordinal,
                        q\<lparr>oq_firings := oq_firings q @
                             [\<lparr>tf_ordinal = ordinal, tf_disposition_ordinal = di_ordinal d,
                               tf_trigger = trigger, tf_observed_by = observed_by,
                               tf_recorded_at = now\<rparr>],
                          oq_revision := revision\<rparr>)))))"

section \<open>The detector\<close>

record AcceptedDecision =
  ad_subject :: string
  ad_record :: AggregateRef
  ad_revision :: content_hash
  ad_superseded :: bool

record DetectorObservations =
  ob_questions :: "OpenQuestion list"
  ob_decisions :: "AcceptedDecision list"
  ob_fired_triggers :: "string list"

datatype OpenQuestionFinding =
    ContradictingDecisions string "content_hash list"
  | SupersededCitation uuid string content_hash
  | DeferredTriggerFired uuid string string

text \<open>\<open>by_subject\<close>: the distinct accepted revisions per subject, both in ascending order.\<close>

definition accepted_revisions :: "AcceptedDecision list \<Rightarrow> string \<Rightarrow> content_hash list" where
  "accepted_revisions ds subject =
     foldl (\<lambda>acc d. bt_insert (ad_revision d) acc) []
       (filter (\<lambda>d. \<not> ad_superseded d \<and> ad_subject d = subject) ds)"

definition accepted_subjects :: "AcceptedDecision list \<Rightarrow> string list" where
  "accepted_subjects ds =
     foldl (\<lambda>acc d. bt_insert (ad_subject d) acc) [] (filter (\<lambda>d. \<not> ad_superseded d) ds)"

definition contradictions :: "AcceptedDecision list \<Rightarrow> OpenQuestionFinding list" where
  "contradictions ds =
     List.map_filter (\<lambda>s. if length (accepted_revisions ds s) > 1
                      then Some (ContradictingDecisions s (accepted_revisions ds s)) else None)
       (accepted_subjects ds)"

definition question_finding ::
  "AcceptedDecision list \<Rightarrow> string list \<Rightarrow> OpenQuestion \<Rightarrow> OpenQuestionFinding option" where
  "question_finding decisions fired q =
     (case current_disposition q of
        None \<Rightarrow> None
      | Some d \<Rightarrow>
          (case di_outcome d of
             DispositionOutcome.Resolved c \<Rightarrow>
               if list_ex (\<lambda>a. ad_record a = dc_record c \<and> ad_revision a = dc_revision c
                               \<and> ad_superseded a) decisions
               then Some (SupersededCitation (oq_question_id q) (oq_subject q) (dc_revision c))
               else None
           | DispositionOutcome.Deferred t \<Rightarrow>
               if question_status q \<noteq> OpenQuestionStatus.Reopened \<and> tr_key t \<in> set fired
               then Some (DeferredTriggerFired (oq_question_id q) (oq_subject q) (tr_key t))
               else None
           | DispositionOutcome.NotRelevant _ \<Rightarrow> None))"

definition detect :: "DetectorObservations \<Rightarrow> OpenQuestionFinding list" where
  "detect ob =
     contradictions (ob_decisions ob) @
     List.map_filter (question_finding (ob_decisions ob) (ob_fired_triggers ob))
       (sort_key oq_question_id (ob_questions ob))"

interpretation shareability_tier: closed_enum "''ShareabilityTier''" ShareabilityTier_ALL ShareabilityTier_as_str
proof
  fix v show "v \<in> set ShareabilityTier_ALL" by (cases v) (simp_all add: ShareabilityTier_ALL_def)
qed (code_simp)

interpretation shareability_class: closed_enum "''ShareabilityClass''" ShareabilityClass_ALL ShareabilityClass_as_str
proof
  fix v show "v \<in> set ShareabilityClass_ALL" by (cases v) (simp_all add: ShareabilityClass_ALL_def)
qed (code_simp)

interpretation shareability_provenance: closed_enum "''ShareabilityProvenance''" ShareabilityProvenance_ALL ShareabilityProvenance_as_str
proof
  fix v show "v \<in> set ShareabilityProvenance_ALL" by (cases v) (simp_all add: ShareabilityProvenance_ALL_def)
qed (code_simp)

interpretation question_scope: closed_enum "''QuestionScope''" QuestionScope_ALL QuestionScope_as_str
proof
  fix v show "v \<in> set QuestionScope_ALL" by (cases v) (simp_all add: QuestionScope_ALL_def)
qed (code_simp)

interpretation disposition_kind: closed_enum "''DispositionKind''" DispositionKind_ALL DispositionKind_as_str
proof
  fix v show "v \<in> set DispositionKind_ALL" by (cases v) (simp_all add: DispositionKind_ALL_def)
qed (code_simp)

interpretation open_question_status: closed_enum "''OpenQuestionStatus''" OpenQuestionStatus_ALL OpenQuestionStatus_as_str
proof
  fix v show "v \<in> set OpenQuestionStatus_ALL" by (cases v) (simp_all add: OpenQuestionStatus_ALL_def)
qed (code_simp)

section \<open>Histories\<close>

lemma repeated_distinct: "repeated xs \<longleftrightarrow> \<not> distinct xs"
proof (induction xs)
  case (Cons x xs)
  have "repeated (x # xs) \<longleftrightarrow> x \<in> set xs \<or> repeated xs"
  proof -
    have "[0..<length (x # xs)] = 0 # map Suc [0..<length xs]"
      by (simp add: upt_conv_Cons map_Suc_upt del: upt_Suc)
    then show ?thesis by (simp add: repeated_def list_ex_iff image_iff Bex_def
      del: upt_Suc map_Suc_upt image_Suc_atLeastLessThan) auto
  qed
  with Cons.IH show ?case by auto
qed (simp add: repeated_def)

lemma next_ordinal_Inr: "next_ordinal n s = Inr k \<Longrightarrow> unat k = n + 1"
  by (auto simp: next_ordinal_def unsigned_of_nat take_bit_nat_eq_self split: if_splits
      simp del: of_nat_Suc of_nat_add)

datatype question_op =
    AppendRound uuid string "string list" "u32 option" timestamp
  | Dispose uuid string CloserPolicy DispositionOutcome "u32 option" timestamp
  | FireTrigger string uuid timestamp

definition question_step :: "OpenQuestion \<Rightarrow> question_op \<Rightarrow> OpenQuestion DomainResult" where
  "question_step q oper =
     try_bind
       (case oper of
          AppendRound author why options supersedes now \<Rightarrow> append_round q author why options supersedes now
        | Dispose author role policy outcome supersedes now \<Rightarrow>
            dispose q author role policy outcome supersedes now
        | FireTrigger trigger by now \<Rightarrow> fire_trigger q trigger by now)
       (\<lambda>r. Inr (snd r))"

definition ordinals_ok :: "u32 list \<Rightarrow> bool" where
  "ordinals_ok xs \<longleftrightarrow> map unat xs = [1..<length xs + 1]"

definition question_ok :: "OpenQuestion \<Rightarrow> bool" where
  "question_ok q \<longleftrightarrow>
     ordinals_ok (map ar_ordinal (oq_rounds q)) \<and> ordinals_ok (map di_ordinal (oq_dispositions q))
     \<and> ordinals_ok (map tf_ordinal (oq_firings q))
     \<and> (\<forall>f \<in> set (oq_firings q). unat (tf_disposition_ordinal f) \<le> length (oq_dispositions q))
     \<and> unat (oq_revision q) = length (oq_rounds q) + length (oq_dispositions q) + length (oq_firings q)"

lemma ordinals_ok_snoc:
  "ordinals_ok xs \<Longrightarrow> unat k = length xs + 1 \<Longrightarrow> ordinals_ok (xs @ [k])"
  by (simp add: ordinals_ok_def)

lemma ordinals_ok_last:
  assumes "ordinals_ok xs" "xs \<noteq> []" shows "unat (last xs) = length xs"
proof -
  have "unat (last xs) = last (map unat xs)" using assms(2) by (simp add: last_map)
  also have "\<dots> = last [1..<length xs + 1]" using assms(1) by (simp add: ordinals_ok_def)
  finally show ?thesis using assms(2) by (cases xs) simp_all
qed

lemma current_disposition_ordinal:
  assumes "question_ok q" "current_disposition q = Some d"
  shows "unat (di_ordinal d) = length (oq_dispositions q)"
proof -
  have "oq_dispositions q \<noteq> []" "d = last (oq_dispositions q)"
    using assms(2) by (auto simp: current_disposition_def split: list.splits)
  with ordinals_ok_last [of "map di_ordinal (oq_dispositions q)"] assms(1) show ?thesis
    by (simp add: question_ok_def last_map)
qed

text \<open>Everything but the histories and the revision; histories only grow.\<close>

definition question_header :: "OpenQuestion \<Rightarrow> OpenQuestion" where
  "question_header q = q\<lparr>oq_rounds := [], oq_dispositions := [], oq_firings := [], oq_revision := 0\<rparr>"

definition extends :: "OpenQuestion \<Rightarrow> OpenQuestion \<Rightarrow> bool" where
  "extends q q' \<longleftrightarrow>
     question_header q' = question_header q \<and> prefix (oq_rounds q) (oq_rounds q')
     \<and> prefix (oq_dispositions q) (oq_dispositions q') \<and> prefix (oq_firings q) (oq_firings q')"

lemma extends_trans: "extends a b \<Longrightarrow> extends b c \<Longrightarrow> extends a c"
  by (auto simp: extends_def)

lemma appended_round:
  assumes "append_round q author why options supersedes now = Inr (k, q')"
  obtains row n where "q' = q\<lparr>oq_rounds := oq_rounds q @ [row], oq_revision := n\<rparr>" "ar_ordinal row = k"
    "unat k = length (oq_rounds q) + 1" "unat n = Suc (unat (oq_revision q))"
  using assms
  by (auto simp: append_round_def dest!: next_ordinal_Inr AggregateRevision_next_Inr split: if_splits)

lemma appended_disposition:
  assumes "dispose q author role policy outcome supersedes now = Inr (k, q')"
  obtains row n where
    "q' = q\<lparr>oq_dispositions := oq_dispositions q @ [row], oq_revision := n\<rparr>"
    "di_ordinal row = k" "di_outcome row = outcome" "di_author row = author"
    "role = closer_for policy (oq_scope q)" "DispositionOutcome_validate outcome = Inr ()"
    "unat k = length (oq_dispositions q) + 1" "unat n = Suc (unat (oq_revision q))"
  using assms
  by (auto simp: dispose_def dest!: next_ordinal_Inr AggregateRevision_next_Inr split: if_splits)

lemma appended_firing:
  assumes "fire_trigger q trigger observer now = Inr (k, q')"
  obtains row n d t where
    "q' = q\<lparr>oq_firings := oq_firings q @ [row], oq_revision := n\<rparr>"
    "current_disposition q = Some d" "di_outcome d = DispositionOutcome.Deferred t"
    "tr_key t = trigger" "\<not> fired_against q (di_ordinal d) trigger"
    "tf_ordinal row = k" "tf_disposition_ordinal row = di_ordinal d" "tf_trigger row = trigger"
    "unat k = length (oq_firings q) + 1" "unat n = Suc (unat (oq_revision q))"
proof -
  from assms obtain d t n where d: "current_disposition q = Some d"
    and t: "deferred_trigger (di_outcome d) = Some t" "tr_key t = trigger"
    "\<not> fired_against q (di_ordinal d) trigger"
    and k: "next_ordinal (length (oq_firings q)) ''OpenQuestion trigger'' = Inr k"
    and n: "AggregateRevision_next (oq_revision q) = Inr n"
    and q': "q' = q\<lparr>oq_firings := oq_firings q @
        [\<lparr>tf_ordinal = k, tf_disposition_ordinal = di_ordinal d, tf_trigger = trigger,
          tf_observed_by = observer, tf_recorded_at = now\<rparr>], oq_revision := n\<rparr>"
    by (auto simp: fire_trigger_def split: option.splits if_splits)
  from t(1) have "di_outcome d = DispositionOutcome.Deferred t" by (cases "di_outcome d") simp_all
  from that [OF q' d this t(2,3)] next_ordinal_Inr [OF k] AggregateRevision_next_Inr [OF n]
  show thesis by simp
qed

lemma question_step_extends: "question_step q oper = Inr q' \<Longrightarrow> extends q q'"
  by (cases oper)
    (auto simp: question_step_def extends_def question_header_def elim!: appended_round
      appended_disposition appended_firing)

lemma question_step_ok:
  assumes ok: "question_ok q" and step: "question_step q oper = Inr q'"
  shows "question_ok q'"
proof (cases oper)
  case (AppendRound author why options supersedes now)
  with step obtain k where "append_round q author why options supersedes now = Inr (k, q')"
    by (auto simp: question_step_def)
  then show ?thesis
    by (rule appended_round) (use ok in \<open>auto simp: question_ok_def ordinals_ok_snoc\<close>)
next
  case (Dispose author role policy outcome supersedes now)
  with step obtain k where "dispose q author role policy outcome supersedes now = Inr (k, q')"
    by (auto simp: question_step_def)
  then show ?thesis
    by (rule appended_disposition)
      (use ok in \<open>auto simp: question_ok_def ordinals_ok_snoc le_Suc_eq\<close>)
next
  case (FireTrigger trigger observer now)
  with step obtain k where "fire_trigger q trigger observer now = Inr (k, q')"
    by (auto simp: question_step_def)
  then obtain row n d where q': "q' = q\<lparr>oq_firings := oq_firings q @ [row], oq_revision := n\<rparr>"
    and d: "current_disposition q = Some d" and row: "tf_ordinal row = k"
    "tf_disposition_ordinal row = di_ordinal d" "unat k = length (oq_firings q) + 1"
    and n: "unat n = Suc (unat (oq_revision q))" by (rule appended_firing)
  with ok current_disposition_ordinal [OF ok d] show ?thesis
    by (simp add: question_ok_def ordinals_ok_snoc)
qed

lemma raised_ok:
  "raise_question qid project mini subject scope attachment author why options now = Inr q
   \<Longrightarrow> question_ok q \<and> question_status q = OpenQuestionStatus.Open"
  by (auto simp: raise_question_def question_ok_def ordinals_ok_def AggregateRevision_INITIAL_def
      question_status_def current_disposition_def split: if_splits)

lemma question_run:
  assumes "question_ok q" and "try_run question_step q ops = Inr q'"
  shows "question_ok q' \<and> extends q q' \<and> unat (oq_revision q') = unat (oq_revision q) + length ops"
  using assms
proof (induction ops arbitrary: q)
  case Nil
  then show ?case by (simp add: extends_def)
next
  case (Cons oper ops)
  then obtain q1 where s: "question_step q oper = Inr q1" and r: "try_run question_step q1 ops = Inr q'"
    by auto
  have "unat (oq_revision q1) = Suc (unat (oq_revision q))"
    using s by (cases oper)
      (auto simp: question_step_def elim!: appended_round appended_disposition appended_firing)
  with Cons.IH [OF question_step_ok [OF Cons.prems(1) s] r] question_step_extends [OF s]
  show ?case by (auto intro: extends_trans)
qed

lemma current_disposition_alt:
  "current_disposition q =
     (if oq_dispositions q = [] then None else Some (last (oq_dispositions q)))"
  by (cases "oq_dispositions q") (simp_all add: current_disposition_def)

lemma status_after_round:
  "append_round q author why options supersedes now = Inr (k, q') \<Longrightarrow> question_status q' = question_status q"
  by (elim appended_round)
    (simp add: question_status_def current_disposition_alt fired_against_def
      split: DispositionOutcome.splits)

lemma status_after_dispose:
  assumes ok: "question_ok q" and d: "dispose q author role policy outcome supersedes now = Inr (k, q')"
  shows "question_status q' =
     (case outcome of DispositionOutcome.Resolved _ \<Rightarrow> OpenQuestionStatus.Resolved
      | DispositionOutcome.Deferred _ \<Rightarrow> OpenQuestionStatus.Deferred
      | DispositionOutcome.NotRelevant _ \<Rightarrow> OpenQuestionStatus.NotRelevant)"
  using d
proof (rule appended_disposition)
  fix row n assume q': "q' = q\<lparr>oq_dispositions := oq_dispositions q @ [row], oq_revision := n\<rparr>"
    and row: "di_ordinal row = k" "di_outcome row = outcome"
    and k: "unat k = length (oq_dispositions q) + 1"
  have "\<not> fired_against q' k trigger" for trigger
    using ok k q' by (fastforce simp: fired_against_def list_ex_iff question_ok_def)
  moreover have "current_disposition q' = Some row"
    using q' by (simp add: current_disposition_alt)
  ultimately show ?thesis using row
    by (simp add: question_status_def split: DispositionOutcome.splits)
qed

lemma status_after_firing:
  "fire_trigger q trigger observer now = Inr (k, q') \<Longrightarrow>
     question_status q = OpenQuestionStatus.Deferred \<and> question_status q' = OpenQuestionStatus.Reopened"
  by (elim appended_firing)
    (auto simp: question_status_def current_disposition_alt fired_against_def split: if_splits)

section \<open>Properties\<close>

text \<open>The ledger is append-only: from the raising of a question on, any accepted sequence of
  operations leaves its header as raised and its earlier rounds, dispositions and firings in place,
  numbers each history from one, and advances the revision once per operation.\<close>

theorem question_history_append_only:
  assumes "raise_question qid project mini subject scope attachment author why options now = Inr q"
    and "try_run question_step q ops = Inr q'" and "try_run question_step q' ops' = Inr q''"
  shows "extends q' q'' \<and> question_header q'' = question_header q
     \<and> map (unat \<circ> ar_ordinal) (oq_rounds q'') = [1..<length (oq_rounds q'') + 1]
     \<and> map (unat \<circ> di_ordinal) (oq_dispositions q'') = [1..<length (oq_dispositions q'') + 1]
     \<and> map (unat \<circ> tf_ordinal) (oq_firings q'') = [1..<length (oq_firings q'') + 1]
     \<and> unat (oq_revision q'') = 1 + length ops + length ops'"
proof -
  have ok: "question_ok q" and rev1: "unat (oq_revision q) = 1"
    using raised_ok [OF assms(1)] assms(1)
    by (auto simp: raise_question_def AggregateRevision_INITIAL_def split: if_splits)
  note first = question_run [OF ok assms(2)]
  then have "question_ok q'" by simp
  note second = question_run [OF this assms(3)]
  from first second rev1 show ?thesis
    by (simp add: extends_def question_ok_def ordinals_ok_def)
qed

definition sample_policy :: CloserPolicy where
  "sample_policy = \<lparr>cp_architecture_closer = ''lsa'', cp_process_closer = ''tpm''\<rparr>"

definition sample_question :: OpenQuestion where
  "sample_question =
     \<lparr>oq_question_id = 4, oq_project_id = 1, oq_mini_project_id = 2, oq_subject = ''which store'',
      oq_scope = QuestionScope.Architecture, oq_attachment = OpenQuestionAttachment.Record (Task 9),
      oq_author = 7,
      oq_shareability = \<lparr>sh_class = ShareabilityClass.ProjectShared, sh_classifier = TypeDefaultRule,
                         sh_provenance = ShareabilityProvenance.TypeDefault\<rparr>,
      oq_created_at = 0, oq_revision = 1,
      oq_rounds = [\<lparr>ar_ordinal = 1, ar_author = 7, ar_why_ambiguous = ''two drafts'',
                    ar_options = [''a'', ''b''], ar_supersedes = None, ar_recorded_at = 0\<rparr>],
      oq_dispositions = [], oq_firings = []\<rparr>"

definition sample_deferral :: DispositionOutcome where
  "sample_deferral =
     DispositionOutcome.Deferred \<lparr>tr_key = ''second-client'', tr_condition = ''a second client asks''\<rparr>"

definition sample_ops :: "question_op list" where
  "sample_ops =
     [Dispose 8 ''lsa'' sample_policy sample_deferral None 1, FireTrigger ''second-client'' 7 2]"

lemmas question_eval =
  question_step_def append_round_def dispose_def fire_trigger_def next_ordinal_def
  AggregateRevision_next_def checked_add_def closer_for_def needs_architecture_closer_def
  ReopeningTrigger_validate_def current_disposition_def fired_against_def question_status_def
  sample_question_def sample_policy_def sample_ops_def sample_deferral_def

lemma sample_trims:
  "trim_text ''a second client asks'' \<noteq> []" "trim_text ''which store'' \<noteq> []"
  "trim_text ''two drafts'' \<noteq> []" "trim_text ''a'' \<noteq> []" "trim_text ''b'' \<noteq> []"
  by code_simp+

lemma sample_question_raised:
  "raise_question 4 1 2 ''which store'' QuestionScope.Architecture
     (OpenQuestionAttachment.Record (Task 9)) 7 ''two drafts'' [''a'', ''b''] 0 = Inr sample_question"
  by (simp add: raise_question_def validate_round_def sample_trims MAX_QUESTION_OPTIONS_def
      repeated_distinct Shareability_default_for_def default_class_def AggregateRevision_INITIAL_def
      sample_question_def)

lemma sample_question_ops: "\<not> isl (try_run question_step sample_question sample_ops)"
  by (simp add: question_eval sample_trims)

theorem question_history_append_only_witness:
  "\<exists>q'. try_run question_step sample_question sample_ops = Inr q' \<and> extends sample_question q'
     \<and> unat (oq_revision q') = 3"
proof -
  obtain q' where run: "try_run question_step sample_question sample_ops = Inr q'"
    using sample_question_ops
    by (cases "try_run question_step sample_question sample_ops") auto
  have none: "try_run question_step sample_question [] = Inr sample_question" by simp
  from question_history_append_only [OF sample_question_raised none run] run show ?thesis
    by (auto simp: sample_ops_def)
qed

text \<open>Which questions hold completion open: recording a round never changes that; only the
  configured closer of the question's scope can close it, and every disposition releases it, even
  after an earlier deferral was reopened; and a trigger reopens a question exactly once per
  deferral, and only the trigger that deferral names.\<close>

theorem question_closing_exact:
  assumes raised: "raise_question qid project mini subject scope attachment author why options now = Inr q0"
    and run: "try_run question_step q0 ops = Inr q"
  shows "(\<forall>a w opts s at k q1. append_round q a w opts s at = Inr (k, q1) \<longrightarrow>
        blocks_completion (question_status q1) = blocks_completion (question_status q))
    \<and> (\<forall>a role policy outcome s at k q1. dispose q a role policy outcome s at = Inr (k, q1) \<longrightarrow>
        role = closer_for policy scope \<and> \<not> blocks_completion (question_status q1))
    \<and> (\<forall>trigger seat at k q1. fire_trigger q trigger seat at = Inr (k, q1) \<longrightarrow>
        \<not> blocks_completion (question_status q) \<and> blocks_completion (question_status q1)
        \<and> (\<forall>trigger' seat' at' r. fire_trigger q1 trigger' seat' at' \<noteq> Inr r))"
proof (intro conjI allI impI)
  have ok: "question_ok q" and ext: "extends q0 q"
    using question_run [OF _ run] raised_ok [OF raised] by simp_all
  have "oq_scope (question_header q) = oq_scope (question_header q0)"
    using ext by (simp add: extends_def)
  then have scope: "oq_scope q = scope"
    using raised by (auto simp: question_header_def raise_question_def split: if_splits)
  show "blocks_completion (question_status q1) = blocks_completion (question_status q)"
    if "append_round q a w opts s at = Inr (k, q1)" for a w opts s at k q1
    by (simp add: status_after_round [OF that])
  show "role = closer_for policy scope"
    if "dispose q a role policy outcome s at = Inr (k, q1)" for a role policy outcome s at k q1
    using that scope by (auto elim: appended_disposition)
  show "\<not> blocks_completion (question_status q1)"
    if "dispose q a role policy outcome s at = Inr (k, q1)" for a role policy outcome s at k q1
    by (simp add: status_after_dispose [OF ok that] blocks_completion_def
        split: DispositionOutcome.splits)
  fix trigger seat at k q1 assume f: "fire_trigger q trigger seat at = Inr (k, q1)"
  show "\<not> blocks_completion (question_status q)" "blocks_completion (question_status q1)"
    using status_after_firing [OF f] by (simp_all add: blocks_completion_def)
  show "fire_trigger q1 trigger' seat' at' \<noteq> Inr r" for trigger' seat' at' r
    using status_after_firing [OF f] status_after_firing [of q1 trigger' seat' at' "fst r" "snd r"]
    by auto
qed

theorem question_closing_exact_witness:
  "\<exists>k q1. dispose sample_question 8 ''lsa'' sample_policy sample_deferral None 1 = Inr (k, q1)
     \<and> \<not> blocks_completion (question_status q1)"
proof -
  have "\<not> isl (dispose sample_question 8 ''lsa'' sample_policy sample_deferral None 1)"
    by (simp add: question_eval sample_trims)
  then obtain k q1 where d: "dispose sample_question 8 ''lsa'' sample_policy sample_deferral None 1 = Inr (k, q1)"
    by (cases "dispose sample_question 8 ''lsa'' sample_policy sample_deferral None 1") auto
  have none: "try_run question_step sample_question [] = Inr sample_question" by simp
  from question_closing_exact [OF sample_question_raised none, THEN conjunct2, THEN conjunct1,
      rule_format, OF d] d
  show ?thesis by auto
qed

end
