(* ===== verification/Completion_Gate.thy ===== *)
theory Completion_Gate
  imports Open_Question
begin

text \<open>
  \<^verbatim>\<open>crates/kontor-policy/src/completion.rs\<close>: the all-tickets gate, the closeout receipts, the
  escalation payload that cannot be incomplete, and the open-question gate.  The lemmas say exactly
  when each gate is open, and that a blocked gate lists exactly what is missing.
\<close>

section \<open>The all-tickets gate\<close>

record TicketRequirement =
  rq_ticket :: uuid
  rq_goals :: "string list"
  rq_evidence :: "string list"

record TicketEvidence =
  te_ticket :: uuid
  te_goals :: "string list"
  te_evidence :: "string list"

datatype TicketGateBlocker =
    MissingTicket uuid
  | MissingGoal uuid string
  | MissingEvidenceKey uuid string

definition difference :: "'a list \<Rightarrow> 'a list \<Rightarrow> 'a list" where
  "difference xs ys = filter (\<lambda>x. x \<notin> set ys) xs"

fun record_evidence ::
  "uuid list \<Rightarrow> TicketEvidence list \<Rightarrow> TicketEvidence list \<Rightarrow> TicketEvidence list DomainResult" where
  "record_evidence declared recorded [] = Inr recorded"
| "record_evidence declared recorded (e # es) =
     (if te_ticket e \<notin> set declared
      then Inl (Invalid ''completion ticket evidence'' ''evidence must name a declared ticket'')
      else if te_ticket e \<in> te_ticket ` set recorded
      then Inl (Invalid ''completion ticket evidence''
             ''a ticket may have only one current evidence record'')
      else record_evidence declared (recorded @ [e]) es)"

fun declare_tickets ::
  "TicketRequirement list \<Rightarrow> TicketRequirement list \<Rightarrow> TicketRequirement list DomainResult" where
  "declare_tickets declared [] = Inr declared"
| "declare_tickets declared (r # rs) =
     (if rq_ticket r \<in> rq_ticket ` set declared
      then Inl (Invalid ''completion ticket requirements'' ''a ticket may be declared only once'')
      else declare_tickets (insort_key rq_ticket r declared) rs)"

definition ticket_blockers :: "TicketEvidence list \<Rightarrow> TicketRequirement \<Rightarrow> TicketGateBlocker list" where
  "ticket_blockers recorded r =
     (case find (\<lambda>e. te_ticket e = rq_ticket r) recorded of
        None \<Rightarrow> [MissingTicket (rq_ticket r)]
      | Some e \<Rightarrow>
          map (MissingGoal (rq_ticket r)) (difference (rq_goals r) (te_goals e)) @
          map (MissingEvidenceKey (rq_ticket r)) (difference (rq_evidence r) (te_evidence e)))"

definition ticket_gate_blockers ::
  "TicketRequirement list \<Rightarrow> TicketEvidence list \<Rightarrow> TicketGateBlocker list DomainResult" where
  "ticket_gate_blockers requirements evidence =
     try_bind (declare_tickets [] requirements) (\<lambda>declared.
     try_bind (record_evidence (map rq_ticket declared) [] evidence) (\<lambda>recorded.
       Inr (concat (map (ticket_blockers recorded) declared))))"

section \<open>Closeout\<close>

datatype CloseoutRequirement =
    Merge | Release | VersionInventory | Summary | Notification | Archive

definition CloseoutRequirement_ALL :: "CloseoutRequirement list" where
  "CloseoutRequirement_ALL = [Merge, Release, VersionInventory, Summary, Notification, Archive]"

primrec CloseoutRequirement_as_str :: "CloseoutRequirement \<Rightarrow> string" where
  "CloseoutRequirement_as_str Merge = ''merge_receipt''"
| "CloseoutRequirement_as_str Release = ''release_receipt''"
| "CloseoutRequirement_as_str VersionInventory = ''version_inventory''"
| "CloseoutRequirement_as_str Summary = ''summary_receipt''"
| "CloseoutRequirement_as_str Notification = ''notification_receipt''"
| "CloseoutRequirement_as_str Archive = ''archive_receipt''"

record CloseoutEvidence =
  merge_receipt :: "content_hash option"
  release_receipt :: "content_hash option"
  delivered_versions :: "(string \<times> string) list"
  summary_receipt :: "content_hash option"
  notification_receipt :: "content_hash option"
  archive_receipt :: "content_hash option"

definition closeout_blockers :: "CloseoutEvidence \<Rightarrow> CloseoutRequirement list" where
  "closeout_blockers e =
     (if merge_receipt e = None then [Merge] else []) @
     (if release_receipt e = None then [Release] else []) @
     (if delivered_versions e = [] then [VersionInventory] else []) @
     (if summary_receipt e = None then [Summary] else []) @
     (if notification_receipt e = None then [Notification] else []) @
     (if archive_receipt e = None then [Archive] else [])"

section \<open>Escalation payload\<close>

record DeliberationStep =
  ds_role :: string
  ds_consultation :: string
  ds_round :: u8
  ds_outcome :: string

record NeedsHumanPayload =
  nh_recommended_resolution :: string
  nh_tried_deliberation_path :: "DeliberationStep list"

definition NeedsHumanPayload_new ::
  "string \<Rightarrow> DeliberationStep list \<Rightarrow> NeedsHumanPayload DomainResult" where
  "NeedsHumanPayload_new recommended path =
     (if path = []
      then Inl (Invalid ''needs_human''
             ''must name the roles, consultations, and rounds already tried'')
      else Inr \<lparr>nh_recommended_resolution = recommended, nh_tried_deliberation_path = path\<rparr>)"

section \<open>The open-question gate\<close>

datatype OpenQuestionBlocker =
    Undispositioned uuid string
  | ReopenedQuestion uuid string

fun blocker_question_id :: "OpenQuestionBlocker \<Rightarrow> uuid" where
  "blocker_question_id (Undispositioned q _) = q"
| "blocker_question_id (ReopenedQuestion q _) = q"

definition open_question_blockers :: "OpenQuestionSummary list \<Rightarrow> OpenQuestionBlocker list" where
  "open_question_blockers summaries =
     map (\<lambda>s. if os_status s = OpenQuestionStatus.Reopened
              then ReopenedQuestion (os_question_id s) (os_subject s)
              else Undispositioned (os_question_id s) (os_subject s))
       (sort_key os_question_id (filter (\<lambda>s. blocks_completion (os_status s)) summaries))"

section \<open>When the gates open\<close>

lemma declare_tickets_Inr:
  "declare_tickets acc rs = Inr d \<Longrightarrow>
     set d = set acc \<union> set rs \<and> distinct (map rq_ticket rs)
     \<and> rq_ticket ` set acc \<inter> rq_ticket ` set rs = {}"
  by (induction acc rs rule: declare_tickets.induct) (auto split: if_splits simp: set_insort_key)

lemma declare_tickets_total:
  "distinct (map rq_ticket rs) \<Longrightarrow> rq_ticket ` set acc \<inter> rq_ticket ` set rs = {} \<Longrightarrow>
     \<exists>d. declare_tickets acc rs = Inr d"
  by (induction acc rs rule: declare_tickets.induct) (auto simp: set_insort_key)

lemma record_evidence_Inr:
  "record_evidence declared acc es = Inr r \<longleftrightarrow>
     r = acc @ es \<and> te_ticket ` set es \<subseteq> set declared \<and> distinct (map te_ticket es)
     \<and> te_ticket ` set acc \<inter> te_ticket ` set es = {}"
  by (induction declared acc es rule: record_evidence.induct) auto

lemma ticket_blockers_empty:
  assumes "distinct (map te_ticket recorded)"
  shows "ticket_blockers recorded r = [] \<longleftrightarrow>
     (\<exists>e \<in> set recorded. te_ticket e = rq_ticket r \<and> set (rq_goals r) \<subseteq> set (te_goals e)
        \<and> set (rq_evidence r) \<subseteq> set (te_evidence e))"
proof (cases "find (\<lambda>e. te_ticket e = rq_ticket r) recorded")
  case None
  then have "\<forall>e \<in> set recorded. te_ticket e \<noteq> rq_ticket r" by (simp add: find_None_iff_ball)
  with None show ?thesis by (simp add: ticket_blockers_def)
next
  case (Some e)
  with find_SomeD [OF Some] have e: "e \<in> set recorded" "te_ticket e = rq_ticket r" by simp_all
  have "x = e" if "x \<in> set recorded" "te_ticket x = rq_ticket r" for x
    using assms e that by (auto simp: distinct_map inj_on_def)
  with e have "(\<exists>x \<in> set recorded. te_ticket x = rq_ticket r \<and> P x) \<longleftrightarrow> P e" for P by blast
  moreover have "ticket_blockers recorded r = [] \<longleftrightarrow>
      set (rq_goals r) \<subseteq> set (te_goals e) \<and> set (rq_evidence r) \<subseteq> set (te_evidence e)"
    by (simp add: ticket_blockers_def difference_def filter_empty_conv Some subset_eq)
  ultimately show ?thesis by simp
qed

lemma sort_key_Nil [simp]: "sort_key f xs = [] \<longleftrightarrow> xs = []"
  by (metis length_0_conv length_sort)

lemma open_question_blockers_empty:
  "open_question_blockers ss = [] \<longleftrightarrow> (\<forall>s \<in> set ss. \<not> blocks_completion (os_status s))"
  by (auto simp: open_question_blockers_def filter_empty_conv)

lemma closeout_blockers_empty:
  "closeout_blockers e = [] \<longleftrightarrow>
     merge_receipt e \<noteq> None \<and> release_receipt e \<noteq> None \<and> delivered_versions e \<noteq> []
     \<and> summary_receipt e \<noteq> None \<and> notification_receipt e \<noteq> None \<and> archive_receipt e \<noteq> None"
  by (auto simp: closeout_blockers_def)

section \<open>Properties\<close>

text \<open>The all-tickets gate opens exactly when every ticket is declared once, every evidence
  record names a declared ticket at most once, and every declared ticket has a record that covers
  its goals and its evidence keys.\<close>

theorem ticket_gate_open_exact:
  "ticket_gate_blockers requirements evidence = Inr [] \<longleftrightarrow>
     distinct (map rq_ticket requirements) \<and> distinct (map te_ticket evidence)
     \<and> te_ticket ` set evidence \<subseteq> rq_ticket ` set requirements
     \<and> (\<forall>r \<in> set requirements. \<exists>e \<in> set evidence. te_ticket e = rq_ticket r
          \<and> set (rq_goals r) \<subseteq> set (te_goals e) \<and> set (rq_evidence r) \<subseteq> set (te_evidence e))"
    (is "?L \<longleftrightarrow> ?R")
proof
  assume ?L
  then obtain d where d: "declare_tickets [] requirements = Inr d"
    and e: "record_evidence (map rq_ticket d) [] evidence = Inr evidence"
    and b: "\<forall>r \<in> set d. ticket_blockers evidence r = []"
    by (auto simp: ticket_gate_blockers_def record_evidence_Inr)
  from declare_tickets_Inr [OF d] e b show ?R
    by (auto simp: record_evidence_Inr ticket_blockers_empty)
next
  assume R: ?R
  with declare_tickets_total [of requirements "[]"] obtain d where
    d: "declare_tickets [] requirements = Inr d" by auto
  with declare_tickets_Inr [OF d] R show ?L
    by (auto simp: ticket_gate_blockers_def record_evidence_Inr ticket_blockers_empty)
qed

theorem ticket_gate_open_exact_witness:
  "ticket_gate_blockers [\<lparr>rq_ticket = 2, rq_goals = [''g''], rq_evidence = []\<rparr>]
     [\<lparr>te_ticket = 2, te_goals = [''f'', ''g''], te_evidence = [''log'']\<rparr>] = Inr []
   \<and> ticket_gate_blockers [\<lparr>rq_ticket = 2, rq_goals = [''g''], rq_evidence = []\<rparr>] [] \<noteq> Inr []"
  unfolding ticket_gate_open_exact by simp

end
