(* ===== verification/Headroom.thy ===== *)
theory Headroom
  imports Completion_Gate Context_Window
begin

text \<open>
  Provider headroom: \<^verbatim>\<open>crates/kontor-core/src/quota.rs\<close> (windows, thresholds, credit),
  \<^verbatim>\<open>ProviderQuotaState\<close> of \<^verbatim>\<open>crates/kontor-core/src/repository.rs\<close>, the model chain of
  \<^verbatim>\<open>crates/kontor-core/src/spec.rs\<close> and the account-before-rung walk of
  \<^verbatim>\<open>crates/kontor-scheduler/src/headroom.rs\<close>.  The instant arithmetic of the \<open>jiff\<close> package is
  an argument: \<open>since\<close> for the elapsed time, \<open>as_second\<close> for the whole seconds of an instant and
  \<open>show_instant\<close> for its text.
\<close>

section \<open>Windows, thresholds and credit\<close>

datatype QuotaWindowKind =
    Session | Daily | Weekly | Monthly

primrec QuotaWindowKind_as_str :: "QuotaWindowKind \<Rightarrow> string" where
  "QuotaWindowKind_as_str QuotaWindowKind.Session = ''session''"
| "QuotaWindowKind_as_str QuotaWindowKind.Daily = ''daily''"
| "QuotaWindowKind_as_str QuotaWindowKind.Weekly = ''weekly''"
| "QuotaWindowKind_as_str QuotaWindowKind.Monthly = ''monthly''"

definition QuotaWindowKind_ALL :: "QuotaWindowKind list" where
  "QuotaWindowKind_ALL =
     [QuotaWindowKind.Session, QuotaWindowKind.Daily, QuotaWindowKind.Weekly,
     QuotaWindowKind.Monthly]"

datatype ProviderQuotaKind =
    Available | Exhausted | Drained | Unknown | CannotReport

primrec ProviderQuotaKind_as_str :: "ProviderQuotaKind \<Rightarrow> string" where
  "ProviderQuotaKind_as_str ProviderQuotaKind.Available = ''available''"
| "ProviderQuotaKind_as_str ProviderQuotaKind.Exhausted = ''exhausted''"
| "ProviderQuotaKind_as_str ProviderQuotaKind.Drained = ''drained''"
| "ProviderQuotaKind_as_str ProviderQuotaKind.Unknown = ''unknown''"
| "ProviderQuotaKind_as_str ProviderQuotaKind.CannotReport = ''cannot_report''"

definition ProviderQuotaKind_ALL :: "ProviderQuotaKind list" where
  "ProviderQuotaKind_ALL =
     [ProviderQuotaKind.Available, ProviderQuotaKind.Exhausted, ProviderQuotaKind.Drained,
     ProviderQuotaKind.Unknown, ProviderQuotaKind.CannotReport]"

datatype ProviderQuotaSource =
    RuntimeObservation | ProviderReport | Operator

primrec ProviderQuotaSource_as_str :: "ProviderQuotaSource \<Rightarrow> string" where
  "ProviderQuotaSource_as_str ProviderQuotaSource.RuntimeObservation = ''runtime_observation''"
| "ProviderQuotaSource_as_str ProviderQuotaSource.ProviderReport = ''provider_report''"
| "ProviderQuotaSource_as_str ProviderQuotaSource.Operator = ''operator''"

definition ProviderQuotaSource_ALL :: "ProviderQuotaSource list" where
  "ProviderQuotaSource_ALL =
     [ProviderQuotaSource.RuntimeObservation, ProviderQuotaSource.ProviderReport,
     ProviderQuotaSource.Operator]"

definition from_minutes :: "u32 \<Rightarrow> QuotaWindowKind" where
  "from_minutes m =
     (if m < 1440 then QuotaWindowKind.Session
      else if m < 10080 then QuotaWindowKind.Daily
      else if m < 43200 then QuotaWindowKind.Weekly
      else QuotaWindowKind.Monthly)"

record HeadroomThresholds =
  session_percent :: u8
  daily_percent :: u8
  weekly_percent :: u8
  monthly_percent :: u8

fun for_kind :: "HeadroomThresholds \<Rightarrow> QuotaWindowKind \<Rightarrow> u8" where
  "for_kind t QuotaWindowKind.Session = session_percent t"
| "for_kind t QuotaWindowKind.Daily = daily_percent t"
| "for_kind t QuotaWindowKind.Weekly = weekly_percent t"
| "for_kind t QuotaWindowKind.Monthly = monthly_percent t"

definition threshold_list :: "HeadroomThresholds \<Rightarrow> u8 list" where
  "threshold_list t = [session_percent t, daily_percent t, weekly_percent t, monthly_percent t]"

definition HeadroomThresholds_validate :: "HeadroomThresholds \<Rightarrow> unit DomainResult" where
  "HeadroomThresholds_validate t =
     try_each (\<lambda>p. if p = 0 \<or> p > 100
                   then Inl (Invalid ''HeadroomThresholds''
                          ''every threshold must be a share between 1 and 100'')
                   else Inr ()) (threshold_list t)"

record QuotaWindow =
  qw_kind :: QuotaWindowKind
  qw_resets_at :: timestamp
  qw_used_percent :: u8

definition has_headroom :: "QuotaWindow \<Rightarrow> HeadroomThresholds \<Rightarrow> bool" where
  "has_headroom w t \<longleftrightarrow> qw_used_percent w < for_kind t (qw_kind w)"

datatype WindowOutlook = Headroom | Blocked timestamp

definition latest :: "timestamp list \<Rightarrow> timestamp option" where
  "latest ts = (case ts of [] \<Rightarrow> None | t # rest \<Rightarrow> Some (fold max rest t))"

definition earliest :: "timestamp list \<Rightarrow> timestamp option" where
  "earliest ts = (case ts of [] \<Rightarrow> None | t # rest \<Rightarrow> Some (fold min rest t))"

definition window_outlook :: "QuotaWindow list \<Rightarrow> HeadroomThresholds \<Rightarrow> WindowOutlook" where
  "window_outlook windows t =
     (case latest (map qw_resets_at (filter (\<lambda>w. \<not> has_headroom w t) windows)) of
        None \<Rightarrow> WindowOutlook.Headroom | Some until \<Rightarrow> WindowOutlook.Blocked until)"

record CreditBalance =
  cb_remaining :: Money
  cb_reserve :: Money

datatype CreditRefusal = BelowReserve | CurrencyMismatch

definition clears_reserve :: "CreditBalance \<Rightarrow> CreditRefusal + unit" where
  "clears_reserve c =
     (if currency (cb_remaining c) \<noteq> currency (cb_reserve c) then Inl CurrencyMismatch
      else if minor_units (cb_remaining c) \<le> minor_units (cb_reserve c) then Inl BelowReserve
      else Inr ())"

record ProviderQuotaState =
  pq_project_id :: uuid
  pq_account_profile_id :: uuid
  pq_provider :: string
  pq_state :: ProviderQuotaKind
  pq_resets_at :: "timestamp option"
  pq_windows :: "QuotaWindow list"
  pq_credit :: "CreditBalance option"
  pq_evidence_hash :: content_hash
  pq_source :: ProviderQuotaSource
  pq_observed_at :: timestamp
  pq_provenance_id :: "uuid option"
  pq_revision :: u64
  pq_updated_at :: timestamp

definition blocks_at :: "ProviderQuotaState \<Rightarrow> timestamp \<Rightarrow> bool" where
  "blocks_at s now =
     (case pq_state s of
        ProviderQuotaKind.Available \<Rightarrow> False
      | ProviderQuotaKind.Exhausted \<Rightarrow>
          (case pq_resets_at s of None \<Rightarrow> False | Some r \<Rightarrow> now < r)
      | ProviderQuotaKind.Drained \<Rightarrow> True
      | ProviderQuotaKind.Unknown \<Rightarrow> True
      | ProviderQuotaKind.CannotReport \<Rightarrow> False)"

datatype ProviderHeadroom = Admissible | BlockedUntil timestamp | Unavailable

definition state_headroom ::
  "ProviderQuotaState \<Rightarrow> HeadroomThresholds \<Rightarrow> timestamp \<Rightarrow> ProviderHeadroom" where
  "state_headroom s t now =
     (if blocks_at s now
      then (case pq_resets_at s of Some until \<Rightarrow> BlockedUntil until | None \<Rightarrow> Unavailable)
      else case window_outlook (pq_windows s) t of
             WindowOutlook.Blocked until \<Rightarrow> BlockedUntil until
           | WindowOutlook.Headroom \<Rightarrow>
               (case map_option clears_reserve (pq_credit s) of
                  Some (Inl _) \<Rightarrow> Unavailable
                | Some (Inr _) \<Rightarrow> Admissible
                | None \<Rightarrow> Admissible))"

section \<open>The model chain\<close>

datatype EffortLevel = Off | Low | Medium | High | Xhigh | MaxEffort | Ultra | Ultracode

record ModelRung =
  mr_provider :: string
  mr_model :: string
  mr_effort :: "EffortLevel option"

definition ModelRung_validate :: "ModelRung \<Rightarrow> unit DomainResult" where
  "ModelRung_validate r =
     (if trim_text (mr_provider r) = [] \<or> trim_text (mr_model r) = []
      then Inl (Invalid ''ModelRung'' ''a model rung must name both provider and model'')
      else Inr ())"

definition ModelChainPolicy_validate :: "ModelRung list \<Rightarrow> unit DomainResult" where
  "ModelChainPolicy_validate rungs =
     (if rungs = [] \<or> length rungs > 4
      then Inl (Invalid ''ModelChainPolicy'' ''a model chain must declare one to four rungs'')
      else try_each ModelRung_validate rungs)"

section \<open>The headroom policy\<close>

datatype SeatClass = ControlPlane | Delivery

record HeadroomConfig =
  hc_thresholds :: HeadroomThresholds
  hc_control_plane_reserve_percent :: u8
  hc_short_horizon_seconds :: int
  hc_escalation_horizon_seconds :: int

definition HeadroomConfig_validate :: "HeadroomConfig \<Rightarrow> unit DomainResult" where
  "HeadroomConfig_validate c =
     try_bind (HeadroomThresholds_validate (hc_thresholds c)) (\<lambda>_.
       if hc_short_horizon_seconds c \<le> 0 \<or> hc_escalation_horizon_seconds c \<le> 0
       then Inl (Invalid ''HeadroomConfig'' ''both horizons must be positive spans'')
       else if hc_short_horizon_seconds c > hc_escalation_horizon_seconds c
       then Inl (Invalid ''HeadroomConfig'' ''the short horizon must fall inside the escalation horizon'')
       else if hc_control_plane_reserve_percent c \<ge> Min (set (threshold_list (hc_thresholds c)))
       then Inl (Invalid ''HeadroomConfig''
              ''the control-plane reserve must leave a delivery seat some headroom'')
       else Inr ())"

definition reserved :: "HeadroomConfig \<Rightarrow> u8 \<Rightarrow> u8" where
  "reserved c p = max (saturating_sub p (hc_control_plane_reserve_percent c)) 1"

definition thresholds_for :: "HeadroomConfig \<Rightarrow> SeatClass \<Rightarrow> HeadroomThresholds" where
  "thresholds_for c seat =
     (case seat of
        ControlPlane \<Rightarrow> hc_thresholds c
      | Delivery \<Rightarrow>
          \<lparr>session_percent = reserved c (session_percent (hc_thresholds c)),
           daily_percent = reserved c (daily_percent (hc_thresholds c)),
           weekly_percent = reserved c (weekly_percent (hc_thresholds c)),
           monthly_percent = reserved c (monthly_percent (hc_thresholds c))\<rparr>)"

definition state_only :: HeadroomConfig where
  "state_only =
     \<lparr>hc_thresholds = \<lparr>session_percent = 100, daily_percent = 100, weekly_percent = 100,
                       monthly_percent = 100\<rparr>,
      hc_control_plane_reserve_percent = 0, hc_short_horizon_seconds = 1,
      hc_escalation_horizon_seconds = 1\<rparr>"

section \<open>Placements\<close>

datatype WaitReason = NearReset | Exhausted

datatype Placement =
    Admit ModelRung uuid
  | Wait timestamp WaitReason
  | NeedsHuman "timestamp option" NeedsHumanPayload

record EligibleAccount =
  ea_account_profile_id :: uuid
  ea_selectable_providers :: "string list"

record RungEvidence =
  rg_admissible :: "uuid option"
  rg_had_candidate :: bool
  rg_resets :: "timestamp list"

text \<open>The decimal text of a count, as \<open>format!\<close> writes a \<open>usize\<close>.\<close>

fun show_count :: "nat \<Rightarrow> string" where
  "show_count n =
     (if n < 10 then [char_of (48 + n)] else show_count (n div 10) @ [char_of (48 + n mod 10)])"

declare show_count.simps [simp del]

definition quota_escalation ::
  "(timestamp \<Rightarrow> string) \<Rightarrow> nat \<Rightarrow> nat \<Rightarrow> timestamp option \<Rightarrow> NeedsHumanPayload DomainResult" where
  "quota_escalation show_instant rungs accounts earliest_reset =
     (let recommendation =
        (case earliest_reset of
           Some instant \<Rightarrow>
             ''No eligible account has admissible current headroom on the '' @ show_count rungs @
             '' declared rungs, and the earliest reset is '' @ show_instant instant @
             '', which is beyond the declared escalation horizon. '' @
             ''Either widen the horizon and let the work park, register another account for one of '' @
             ''these rungs, or accept the delay deliberately.''
         | None \<Rightarrow>
             ''No eligible account has admissible current headroom on the '' @ show_count rungs @
             '' declared rungs. '' @
             ''Probe the exact configured accounts to obtain current quota evidence; inspect any '' @
             ''provider refusal, balance or reserve mismatch. Missing or stale evidence does not '' @
             ''establish that an account is out of quota.'')
      in try_bind (ExternalName_parse recommendation) (\<lambda>resolution.
         try_bind (ExternalName_parse ''scheduler'') (\<lambda>role.
         try_bind (ExternalName_parse ''provider-headroom-resolution'') (\<lambda>consultation.
         try_bind (ExternalName_parse
             (''walked '' @ show_count rungs @ '' rungs across '' @ show_count accounts @
              '' eligible accounts; none admissible'')) (\<lambda>outcome.
           NeedsHumanPayload_new resolution
             [\<lparr>ds_role = role, ds_consultation = consultation, ds_round = 1, ds_outcome = outcome\<rparr>])))))"

definition headroom_of ::
  "since \<Rightarrow> ProviderQuotaState list \<Rightarrow> uuid \<Rightarrow> string \<Rightarrow> HeadroomThresholds \<Rightarrow> timestamp \<Rightarrow> duration \<Rightarrow>
   ProviderHeadroom" where
  "headroom_of since states account provider t now freshness =
     (case find (\<lambda>s. pq_account_profile_id s = account \<and> pq_provider s = provider) states of
        None \<Rightarrow> Unavailable
      | Some s \<Rightarrow>
          if blocks_at s now \<or> pq_state s = ProviderQuotaKind.CannotReport
          then state_headroom s t now
          else if freshness \<le> 0 \<or> pq_observed_at s > now \<or> since now (pq_observed_at s) > freshness
          then Unavailable
          else state_headroom s t now)"

text \<open>The loop over the ordered accounts of one rung, with its \<open>break\<close>.\<close>

fun walk_accounts :: "(uuid \<Rightarrow> ProviderHeadroom) \<Rightarrow> string \<Rightarrow> RungEvidence \<Rightarrow> EligibleAccount list \<Rightarrow> RungEvidence" where
  "walk_accounts headroom provider e [] = e"
| "walk_accounts headroom provider e (a # as) =
     (if provider \<notin> set (ea_selectable_providers a) then walk_accounts headroom provider e as
      else let e' = e\<lparr>rg_had_candidate := True\<rparr> in
           case headroom (ea_account_profile_id a) of
             Admissible \<Rightarrow> e'\<lparr>rg_admissible := Some (ea_account_profile_id a)\<rparr>
           | BlockedUntil until \<Rightarrow>
               walk_accounts headroom provider (e'\<lparr>rg_resets := rg_resets e' @ [until]\<rparr>) as
           | Unavailable \<Rightarrow> walk_accounts headroom provider e' as)"

definition no_evidence :: RungEvidence where
  "no_evidence = \<lparr>rg_admissible = None, rg_had_candidate = False, rg_resets = []\<rparr>"

definition rung_evidence ::
  "since \<Rightarrow> ModelRung list \<Rightarrow> EligibleAccount list \<Rightarrow> ProviderQuotaState list \<Rightarrow> HeadroomConfig \<Rightarrow>
   SeatClass \<Rightarrow> timestamp \<Rightarrow> duration \<Rightarrow> (string \<Rightarrow> bool) \<Rightarrow> RungEvidence list" where
  "rung_evidence since rungs accounts states c seat now freshness enabled =
     (let t = thresholds_for c seat; ordered = sort_key ea_account_profile_id accounts in
      map (\<lambda>rung.
        if \<not> enabled (mr_provider rung) then no_evidence
        else walk_accounts
               (\<lambda>account. headroom_of since states account (mr_provider rung) t now freshness)
               (mr_provider rung) no_evidence ordered) rungs)"

definition i64_MAX :: int where "i64_MAX = 9223372036854775807"
definition i64_MIN :: int where "i64_MIN = - 9223372036854775808"

definition within :: "(timestamp \<Rightarrow> int) \<Rightarrow> timestamp \<Rightarrow> timestamp \<Rightarrow> int \<Rightarrow> bool" where
  "within as_second now instant span \<longleftrightarrow>
     clamp (as_second instant - as_second now) i64_MIN i64_MAX \<le> span"

fun walk_rungs ::
  "(timestamp \<Rightarrow> int) \<Rightarrow> HeadroomConfig \<Rightarrow> timestamp \<Rightarrow> nat option \<Rightarrow> nat \<Rightarrow>
   (ModelRung \<times> RungEvidence) list \<Rightarrow> Placement option DomainResult" where
  "walk_rungs as_second c now admitted index [] = Inr None"
| "walk_rungs as_second c now admitted index ((rung, e) # rest) =
     (if admitted = Some index
      then (case rg_admissible e of
              None \<Rightarrow> Inl (Invalid ''ProviderHeadroom''
                        ''the chosen rung has no account with admissible headroom'')
            | Some account \<Rightarrow> Inr (Some (Admit rung account)))
      else case (if rg_had_candidate e then earliest (rg_resets e) else None) of
             Some soonest \<Rightarrow>
               if within as_second now soonest (hc_short_horizon_seconds c)
               then Inr (Some (Wait soonest WaitReason.NearReset))
               else walk_rungs as_second c now admitted (index + 1) rest
           | None \<Rightarrow> walk_rungs as_second c now admitted (index + 1) rest)"

definition exhausted_placement ::
  "(timestamp \<Rightarrow> int) \<Rightarrow> (timestamp \<Rightarrow> string) \<Rightarrow> nat \<Rightarrow> RungEvidence list \<Rightarrow> nat \<Rightarrow> HeadroomConfig \<Rightarrow>
   timestamp \<Rightarrow> Placement DomainResult" where
  "exhausted_placement as_second show_instant rungs evidence accounts c now =
     (let earliest_reset = earliest (concat (map rg_resets evidence)) in
      case earliest_reset of
        Some e \<Rightarrow>
          if within as_second now e (hc_escalation_horizon_seconds c)
          then Inr (Wait e WaitReason.Exhausted)
          else try_bind (quota_escalation show_instant rungs accounts earliest_reset)
                 (\<lambda>payload. Inr (NeedsHuman earliest_reset payload))
      | None \<Rightarrow> try_bind (quota_escalation show_instant rungs accounts earliest_reset)
                  (\<lambda>payload. Inr (NeedsHuman earliest_reset payload)))"

definition placement ::
  "(timestamp \<Rightarrow> int) \<Rightarrow> (timestamp \<Rightarrow> string) \<Rightarrow> ModelRung list \<Rightarrow> RungEvidence list \<Rightarrow> nat option \<Rightarrow> nat \<Rightarrow>
   HeadroomConfig \<Rightarrow> timestamp \<Rightarrow> Placement DomainResult" where
  "placement as_second show_instant rungs evidence admitted accounts c now =
     (if rungs = []
      then Inl (Invalid ''ModelChainPolicy'' ''a model chain must declare at least one rung'')
      else if length evidence \<noteq> length rungs
              \<or> (case admitted of None \<Rightarrow> False | Some i \<Rightarrow> i \<ge> length rungs)
      then Inl (Invalid ''ProviderHeadroom'' ''the headroom evidence does not describe this chain'')
      else try_bind (walk_rungs as_second c now admitted 0 (zip rungs evidence)) (\<lambda>answer.
        case answer of
          Some p \<Rightarrow> Inr p
        | None \<Rightarrow> exhausted_placement as_second show_instant (length rungs) evidence accounts c now))"

fun position :: "('a \<Rightarrow> bool) \<Rightarrow> 'a list \<Rightarrow> nat option" where
  "position P [] = None"
| "position P (x # xs) = (if P x then Some 0 else map_option Suc (position P xs))"

definition resolve ::
  "since \<Rightarrow> (timestamp \<Rightarrow> int) \<Rightarrow> (timestamp \<Rightarrow> string) \<Rightarrow> ModelRung list \<Rightarrow> EligibleAccount list \<Rightarrow>
   ProviderQuotaState list \<Rightarrow> HeadroomConfig \<Rightarrow> SeatClass \<Rightarrow> timestamp \<Rightarrow> duration \<Rightarrow> (string \<Rightarrow> bool) \<Rightarrow>
   Placement DomainResult" where
  "resolve since as_second show_instant rungs accounts states c seat now freshness enabled =
     (let evidence = rung_evidence since rungs accounts states c seat now freshness enabled in
      placement as_second show_instant rungs evidence
        (position (\<lambda>e. rg_admissible e \<noteq> None) evidence) (length accounts) c now)"

interpretation quota_window_kind: closed_enum "''QuotaWindowKind''" QuotaWindowKind_ALL QuotaWindowKind_as_str
proof
  fix v show "v \<in> set QuotaWindowKind_ALL" by (cases v) (simp_all add: QuotaWindowKind_ALL_def)
qed (code_simp)

interpretation provider_quota_kind: closed_enum "''ProviderQuotaKind''" ProviderQuotaKind_ALL ProviderQuotaKind_as_str
proof
  fix v show "v \<in> set ProviderQuotaKind_ALL" by (cases v) (simp_all add: ProviderQuotaKind_ALL_def)
qed (code_simp)

interpretation provider_quota_source: closed_enum "''ProviderQuotaSource''" ProviderQuotaSource_ALL ProviderQuotaSource_as_str
proof
  fix v show "v \<in> set ProviderQuotaSource_ALL" by (cases v) (simp_all add: ProviderQuotaSource_ALL_def)
qed (code_simp)

section \<open>What the walks compute\<close>

lemma in_map_filter: "y \<in> set (List.map_filter f xs) \<longleftrightarrow> (\<exists>x \<in> set xs. f x = Some y)"
  by (force simp: List.map_filter_def)

lemma earliest_eq: "earliest ts = (if ts = [] then None else Some (Min (set ts)))"
  by (cases ts) (simp_all add: earliest_def flip: Min.set_eq_fold)

lemma latest_eq: "latest ts = (if ts = [] then None else Some (Max (set ts)))"
  by (cases ts) (simp_all add: latest_def flip: Max.set_eq_fold)

lemma position_Some:
  "position P xs = Some i \<longleftrightarrow> i < length xs \<and> P (xs ! i) \<and> (\<forall>j < i. \<not> P (xs ! j))"
proof (induction xs arbitrary: i)
  case (Cons x xs)
  then show ?case by (cases i) (auto simp: less_Suc_eq_0_disj)
qed simp

lemma position_None: "position P xs = None \<longleftrightarrow> (\<forall>x \<in> set xs. \<not> P x)"
  by (induction xs) auto

definition candidate :: "string \<Rightarrow> EligibleAccount \<Rightarrow> bool" where
  "candidate provider a \<longleftrightarrow> provider \<in> set (ea_selectable_providers a)"

lemma walk_admissible:
  "rg_admissible (walk_accounts h p e as) =
     (case find (\<lambda>a. candidate p a \<and> h (ea_account_profile_id a) = Admissible) as of
        Some a \<Rightarrow> Some (ea_account_profile_id a) | None \<Rightarrow> rg_admissible e)"
  by (induction h p e as rule: walk_accounts.induct)
    (auto simp: candidate_def Let_def split: ProviderHeadroom.splits option.splits)

lemma walk_had_candidate:
  "rg_had_candidate (walk_accounts h p e as) \<longleftrightarrow> rg_had_candidate e \<or> (\<exists>a \<in> set as. candidate p a)"
  by (induction h p e as rule: walk_accounts.induct)
    (auto simp: candidate_def Let_def split: ProviderHeadroom.splits)

definition reset_at :: "(uuid \<Rightarrow> ProviderHeadroom) \<Rightarrow> string \<Rightarrow> EligibleAccount \<Rightarrow> timestamp option" where
  "reset_at h p a =
     (if candidate p a
      then (case h (ea_account_profile_id a) of BlockedUntil u \<Rightarrow> Some u | _ \<Rightarrow> None) else None)"

lemma reset_at_Some [simp]:
  "reset_at h p a = Some u \<longleftrightarrow> candidate p a \<and> h (ea_account_profile_id a) = BlockedUntil u"
  by (simp add: reset_at_def split: ProviderHeadroom.splits)

lemma walk_resets:
  "rg_resets (walk_accounts h p e as) = rg_resets e @
     List.map_filter (reset_at h p)
       (takeWhile (\<lambda>a. \<not> (candidate p a \<and> h (ea_account_profile_id a) = Admissible)) as)"
  by (induction h p e as rule: walk_accounts.induct)
    (auto simp: candidate_def reset_at_def Let_def map_filter_simps split: ProviderHeadroom.splits)

lemma find_sorted_least:
  assumes "find P (sort_key f xs) = Some a"
  shows "a \<in> set xs" "P a" "\<And>b. b \<in> set xs \<Longrightarrow> P b \<Longrightarrow> f a \<le> f b"
proof -
  from assms show "a \<in> set xs" "P a" by (auto dest: find_SomeD)
  fix b assume b: "b \<in> set xs" "P b"
  have "sorted (map f ys) \<Longrightarrow> find P ys = Some a \<Longrightarrow> b \<in> set ys \<Longrightarrow> P b \<Longrightarrow> f a \<le> f b" for ys
    by (induction ys) (auto split: if_splits)
  from this [of "sort_key f xs"] assms b show "f a \<le> f b" by simp
qed

text \<open>One rung's accounts as the walk sees them: usable now, or returning at an instant.\<close>

definition account_usable ::
  "since \<Rightarrow> EligibleAccount list \<Rightarrow> ProviderQuotaState list \<Rightarrow> HeadroomConfig \<Rightarrow> SeatClass \<Rightarrow> timestamp \<Rightarrow>
   duration \<Rightarrow> (string \<Rightarrow> bool) \<Rightarrow> ModelRung \<Rightarrow> uuid \<Rightarrow> bool" where
  "account_usable since accounts states c seat now freshness enabled rung account \<longleftrightarrow>
     enabled (mr_provider rung)
     \<and> (\<exists>a \<in> set accounts. ea_account_profile_id a = account \<and> candidate (mr_provider rung) a)
     \<and> headroom_of since states account (mr_provider rung) (thresholds_for c seat) now freshness
         = Admissible"

definition account_returns ::
  "since \<Rightarrow> EligibleAccount list \<Rightarrow> ProviderQuotaState list \<Rightarrow> HeadroomConfig \<Rightarrow> SeatClass \<Rightarrow> timestamp \<Rightarrow>
   duration \<Rightarrow> (string \<Rightarrow> bool) \<Rightarrow> ModelRung \<Rightarrow> timestamp \<Rightarrow> bool" where
  "account_returns since accounts states c seat now freshness enabled rung at \<longleftrightarrow>
     enabled (mr_provider rung)
     \<and> (\<exists>a \<in> set accounts. candidate (mr_provider rung) a
          \<and> headroom_of since states (ea_account_profile_id a) (mr_provider rung)
              (thresholds_for c seat) now freshness = BlockedUntil at)"

locale rung_walk =
  fixes since :: since and accounts :: "EligibleAccount list" and states :: "ProviderQuotaState list"
    and c :: HeadroomConfig and seat :: SeatClass and now :: timestamp and freshness :: duration
    and enabled :: "string \<Rightarrow> bool" and evidence_of :: "ModelRung \<Rightarrow> RungEvidence"
  assumes evidence_of: "rung_evidence since rungs accounts states c seat now freshness enabled
    = map evidence_of rungs"
begin

abbreviation usable :: "ModelRung \<Rightarrow> uuid \<Rightarrow> bool" where
  "usable \<equiv> account_usable since accounts states c seat now freshness enabled"

abbreviation returns :: "ModelRung \<Rightarrow> timestamp \<Rightarrow> bool" where
  "returns \<equiv> account_returns since accounts states c seat now freshness enabled"

lemma evidence_of_rung:
  "evidence_of rung =
     (if \<not> enabled (mr_provider rung) then no_evidence
      else walk_accounts
             (\<lambda>account. headroom_of since states account (mr_provider rung) (thresholds_for c seat)
                now freshness)
             (mr_provider rung) no_evidence (sort_key ea_account_profile_id accounts))"
  using evidence_of [of "[rung]"] by (simp add: rung_evidence_def Let_def split: if_splits)

lemma admissible_usable:
  assumes "rg_admissible (evidence_of rung) = Some account"
  shows "usable rung account" "\<And>other. usable rung other \<Longrightarrow> account \<le> other"
proof -
  let ?h = "\<lambda>account. headroom_of since states account (mr_provider rung) (thresholds_for c seat) now freshness"
  let ?P = "\<lambda>a. candidate (mr_provider rung) a \<and> ?h (ea_account_profile_id a) = Admissible"
  from assms have en: "enabled (mr_provider rung)"
    by (simp add: evidence_of_rung no_evidence_def split: if_splits)
  with assms obtain a where a: "find ?P (sort_key ea_account_profile_id accounts) = Some a"
    "account = ea_account_profile_id a"
    by (auto simp: evidence_of_rung walk_admissible no_evidence_def split: option.splits)
  note least = find_sorted_least [OF a(1)]
  from least(1,2) en a(2) show "usable rung account" by (auto simp: account_usable_def)
  show "account \<le> other" if "usable rung other" for other
    using that least(3) a(2) by (auto simp: account_usable_def)
qed

lemma inadmissible_unusable:
  assumes "rg_admissible (evidence_of rung) = None" shows "\<not> usable rung account"
  using assms
  by (auto simp: evidence_of_rung walk_admissible no_evidence_def account_usable_def find_None_iff
      split: if_splits option.splits)

lemma resets_return: "at \<in> set (rg_resets (evidence_of rung)) \<Longrightarrow> returns rung at"
  by (auto simp: evidence_of_rung walk_resets no_evidence_def account_returns_def in_map_filter
      split: if_splits dest!: set_takeWhileD)

lemma returns_reset:
  assumes "rg_admissible (evidence_of rung) = None" and "returns rung at"
  shows "at \<in> set (rg_resets (evidence_of rung))" "rg_had_candidate (evidence_of rung)"
proof -
  let ?h = "\<lambda>account. headroom_of since states account (mr_provider rung) (thresholds_for c seat) now freshness"
  let ?P = "\<lambda>a. candidate (mr_provider rung) a \<and> ?h (ea_account_profile_id a) = Admissible"
  from assms have en: "enabled (mr_provider rung)" by (simp add: account_returns_def)
  with assms(1) have "\<forall>a \<in> set accounts. \<not> ?P a"
    by (auto simp: evidence_of_rung walk_admissible no_evidence_def find_None_iff split: option.splits)
  then have all: "takeWhile (\<lambda>a. \<not> ?P a) (sort_key ea_account_profile_id accounts)
      = sort_key ea_account_profile_id accounts"
    by (simp add: takeWhile_eq_all_conv)
  have "rg_resets (evidence_of rung)
      = List.map_filter (reset_at ?h (mr_provider rung)) (sort_key ea_account_profile_id accounts)"
    using en by (simp only: evidence_of_rung walk_resets all if_False not_True_eq_False simp_thms)
      (simp add: no_evidence_def)
  with assms(2) show "at \<in> set (rg_resets (evidence_of rung))"
    by (auto simp: account_returns_def in_map_filter)
  from en assms(2) show "rg_had_candidate (evidence_of rung)"
    by (auto simp: evidence_of_rung walk_had_candidate account_returns_def)
qed

end

interpretation headroom_walk: rung_walk since accounts states c seat now freshness enabled
  "\<lambda>rung. if \<not> enabled (mr_provider rung) then no_evidence
     else walk_accounts
            (\<lambda>account. headroom_of since states account (mr_provider rung) (thresholds_for c seat)
               now freshness)
            (mr_provider rung) no_evidence (sort_key ea_account_profile_id accounts)"
  by unfold_locales (simp add: rung_evidence_def Let_def)

definition near_reset ::
  "(timestamp \<Rightarrow> int) \<Rightarrow> HeadroomConfig \<Rightarrow> timestamp \<Rightarrow> RungEvidence \<Rightarrow> timestamp \<Rightarrow> bool" where
  "near_reset as_second c now e at \<longleftrightarrow>
     rg_had_candidate e \<and> earliest (rg_resets e) = Some at
     \<and> within as_second now at (hc_short_horizon_seconds c)"

lemma walk_rungs_step:
  "walk_rungs as_second c now admitted i ((rung, e) # rest) =
     (if admitted = Some i
      then (case rg_admissible e of
              None \<Rightarrow> Inl (Invalid ''ProviderHeadroom''
                        ''the chosen rung has no account with admissible headroom'')
            | Some account \<Rightarrow> Inr (Some (Admit rung account)))
      else if \<exists>at. near_reset as_second c now e at
      then Inr (Some (Wait (the (earliest (rg_resets e))) WaitReason.NearReset))
      else walk_rungs as_second c now admitted (i + 1) rest)"
  by (auto simp: near_reset_def split: option.splits)

lemma walk_rungs_Some:
  assumes "walk_rungs as_second c now admitted i xs = Inr (Some p)"
  shows "\<exists>k < length xs.
     (\<forall>j < k. admitted \<noteq> Some (i + j) \<and> (\<forall>at. \<not> near_reset as_second c now (snd (xs ! j)) at))
     \<and> (if admitted = Some (i + k)
        then \<exists>a. rg_admissible (snd (xs ! k)) = Some a \<and> p = Admit (fst (xs ! k)) a
        else \<exists>at. near_reset as_second c now (snd (xs ! k)) at \<and> p = Wait at WaitReason.NearReset)"
  using assms
proof (induction xs arbitrary: i)
  case (Cons x xs)
  obtain rung e where x: "x = (rung, e)" by (cases x)
  show ?case
  proof (cases "admitted = Some i \<or> (\<exists>at. near_reset as_second c now e at)")
    case True
    with Cons.prems x show ?thesis
      by (intro exI [of _ 0]) (auto simp: walk_rungs_step near_reset_def simp del: walk_rungs.simps(2)
          split: option.splits if_splits)
  next
    case False
    with Cons.prems x have "walk_rungs as_second c now admitted (i + 1) xs = Inr (Some p)"
      by (auto simp: walk_rungs_step simp del: walk_rungs.simps(2) split: if_splits)
    from Cons.IH [OF this] obtain k where "k < length xs"
      "\<forall>j < k. admitted \<noteq> Some (i + Suc j) \<and> (\<forall>at. \<not> near_reset as_second c now (snd (xs ! j)) at)"
      "if admitted = Some (i + Suc k)
        then \<exists>a. rg_admissible (snd (xs ! k)) = Some a \<and> p = Admit (fst (xs ! k)) a
        else \<exists>at. near_reset as_second c now (snd (xs ! k)) at \<and> p = Wait at WaitReason.NearReset"
      by auto
    with False x show ?thesis
      by (intro exI [of _ "Suc k"]) (auto simp: less_Suc_eq_0_disj)
  qed
qed simp

lemma walk_rungs_None:
  assumes "walk_rungs as_second c now admitted i xs = Inr None"
  shows "\<forall>j < length xs. admitted \<noteq> Some (i + j)
     \<and> (\<forall>at. \<not> near_reset as_second c now (snd (xs ! j)) at)"
  using assms
proof (induction xs arbitrary: i)
  case (Cons x xs)
  obtain rung e where x: "x = (rung, e)" by (cases x)
  from Cons.prems x have no: "admitted \<noteq> Some i" "\<forall>at. \<not> near_reset as_second c now e at"
    and rest: "walk_rungs as_second c now admitted (i + 1) xs = Inr None"
    by (auto simp: walk_rungs_step simp del: walk_rungs.simps(2) split: if_splits option.splits)
  from Cons.IH [OF rest] no x show ?case by (auto simp: less_Suc_eq_0_disj)
qed simp

section \<open>What a resolution may answer\<close>

text \<open>The answer an outcome stands for, in terms of usable and returning accounts.\<close>

definition answer_justified ::
  "(timestamp \<Rightarrow> int) \<Rightarrow> HeadroomConfig \<Rightarrow> timestamp \<Rightarrow> (ModelRung \<Rightarrow> uuid \<Rightarrow> bool) \<Rightarrow>
   (ModelRung \<Rightarrow> timestamp \<Rightarrow> bool) \<Rightarrow> ModelRung list \<Rightarrow> Placement \<Rightarrow> bool" where
  "answer_justified as_second c now usable returns rungs p \<longleftrightarrow>
     (case p of
        Admit rung account \<Rightarrow>
          (\<exists>k < length rungs. rung = rungs ! k \<and> usable rung account
             \<and> (\<forall>other. usable rung other \<longrightarrow> account \<le> other)
             \<and> (\<forall>j < k. (\<forall>other. \<not> usable (rungs ! j) other)
                  \<and> (\<forall>at. returns (rungs ! j) at \<longrightarrow>
                       \<not> within as_second now at (hc_short_horizon_seconds c))))
      | Wait at WaitReason.NearReset \<Rightarrow>
          (\<exists>k < length rungs. returns (rungs ! k) at
             \<and> within as_second now at (hc_short_horizon_seconds c)
             \<and> (\<forall>j \<le> k. \<forall>other. \<not> usable (rungs ! j) other))
      | Wait at WaitReason.Exhausted \<Rightarrow>
          (\<forall>rung \<in> set rungs. \<forall>other. \<not> usable rung other)
          \<and> (\<exists>rung \<in> set rungs. returns rung at)
          \<and> (\<forall>rung \<in> set rungs. \<forall>other. returns rung other \<longrightarrow> at \<le> other)
          \<and> within as_second now at (hc_escalation_horizon_seconds c)
      | NeedsHuman reset payload \<Rightarrow>
          (\<forall>rung \<in> set rungs. \<forall>other. \<not> usable rung other)
          \<and> nh_tried_deliberation_path payload \<noteq> []
          \<and> (\<forall>rung \<in> set rungs. \<forall>at. returns rung at \<longrightarrow>
               \<not> within as_second now at (hc_short_horizon_seconds c))
          \<and> (case reset of
               None \<Rightarrow> (\<forall>rung \<in> set rungs. \<forall>at. \<not> returns rung at)
             | Some at \<Rightarrow> \<not> within as_second now at (hc_escalation_horizon_seconds c)))"

definition seconds_monotone :: "(timestamp \<Rightarrow> int) \<Rightarrow> bool" where
  "seconds_monotone as_second \<longleftrightarrow> (\<forall>a b. a \<le> b \<longrightarrow> as_second a \<le> as_second b)"

lemma within_mono:
  assumes "seconds_monotone as_second" "a \<le> b" "within as_second now b span"
  shows "within as_second now a span"
proof -
  have "as_second a \<le> as_second b" using assms(1,2) by (auto simp: seconds_monotone_def)
  with assms(3) show ?thesis by (auto simp: within_def clamp_def i64_MIN_def i64_MAX_def split: if_splits)
qed

context rung_walk
begin

lemma near_returns:
  "near_reset as_second c now (evidence_of rung) at \<Longrightarrow>
     returns rung at \<and> within as_second now at (hc_short_horizon_seconds c)"
  by (auto simp: near_reset_def earliest_eq split: if_splits intro!: resets_return Min_in)

lemma far_returns:
  assumes mono: "seconds_monotone as_second"
    and none: "rg_admissible (evidence_of rung) = None"
    and far: "\<forall>at. \<not> near_reset as_second c now (evidence_of rung) at" and at: "returns rung at"
  shows "\<not> within as_second now at (hc_short_horizon_seconds c)"
proof
  assume w: "within as_second now at (hc_short_horizon_seconds c)"
  note r = returns_reset [OF none at]
  then have e: "earliest (rg_resets (evidence_of rung)) = Some (Min (set (rg_resets (evidence_of rung))))"
    by (auto simp: earliest_eq)
  have "Min (set (rg_resets (evidence_of rung))) \<le> at" using r(1) by simp
  from within_mono [OF mono this w] e r(2) far show False by (auto simp: near_reset_def)
qed

lemma chosen_rung:
  assumes "position (\<lambda>e. rg_admissible e \<noteq> None) (map evidence_of rungs) = Some i"
  shows "i < length rungs" "\<exists>a. rg_admissible (evidence_of (rungs ! i)) = Some a"
    "\<And>j. j < i \<Longrightarrow> rg_admissible (evidence_of (rungs ! j)) = None"
  using assms by (auto simp: position_Some)

lemma walked_answer:
  assumes mono: "seconds_monotone as_second"
    and walk: "walk_rungs as_second c now
        (position (\<lambda>e. rg_admissible e \<noteq> None) (map evidence_of rungs)) 0
        (zip rungs (map evidence_of rungs)) = Inr (Some p)"
  shows "answer_justified as_second c now usable returns rungs p"
proof -
  let ?adm = "position (\<lambda>e. rg_admissible e \<noteq> None) (map evidence_of rungs)"
  let ?xs = "zip rungs (map evidence_of rungs)"
  from walk_rungs_Some [OF walk] obtain k where raw: "k < length ?xs"
    "\<forall>j < k. ?adm \<noteq> Some (0 + j) \<and> (\<forall>at. \<not> near_reset as_second c now (snd (?xs ! j)) at)"
    "if ?adm = Some (0 + k)
        then \<exists>a. rg_admissible (snd (?xs ! k)) = Some a \<and> p = Admit (fst (?xs ! k)) a
        else \<exists>at. near_reset as_second c now (snd (?xs ! k)) at \<and> p = Wait at WaitReason.NearReset"
    by blast
  have nth: "fst (?xs ! j) = rungs ! j" "snd (?xs ! j) = evidence_of (rungs ! j)" if "j \<le> k" for j
    using that raw(1) by simp_all
  have k: "k < length rungs" using raw(1) by simp
  have before: "\<forall>j < k. ?adm \<noteq> Some j \<and> (\<forall>at. \<not> near_reset as_second c now (evidence_of (rungs ! j)) at)"
    using raw(2) nth by simp
  have here: "if ?adm = Some k
        then \<exists>a. rg_admissible (evidence_of (rungs ! k)) = Some a \<and> p = Admit (rungs ! k) a
        else \<exists>at. near_reset as_second c now (evidence_of (rungs ! k)) at \<and> p = Wait at WaitReason.NearReset"
    using raw(3) unfolding nth [OF order_refl] add_0 .
  have none: "rg_admissible (evidence_of (rungs ! j)) = None" if "j < k" for j
  proof (cases ?adm)
    case None
    with that k show ?thesis by (simp add: position_None)
  next
    case (Some i)
    with before have "k \<le> i" by (meson not_less)
    with that chosen_rung(3) [OF Some] show ?thesis by simp
  qed
  show ?thesis
  proof (cases "?adm = Some k")
    case True
    with here obtain a where a: "rg_admissible (evidence_of (rungs ! k)) = Some a" "p = Admit (rungs ! k) a"
      by auto
    have "\<not> usable (rungs ! j) other" "returns (rungs ! j) at \<Longrightarrow>
        \<not> within as_second now at (hc_short_horizon_seconds c)" if "j < k" for j other at
      using inadmissible_unusable [OF none [OF that]] far_returns [OF mono none [OF that]] before that
      by auto
    with a k admissible_usable [OF a(1)] show ?thesis by (auto simp: answer_justified_def)
  next
    case False
    with here obtain at where at: "near_reset as_second c now (evidence_of (rungs ! k)) at"
      "p = Wait at WaitReason.NearReset" by auto
    have "rg_admissible (evidence_of (rungs ! k)) = None"
    proof (cases ?adm)
      case None
      with k show ?thesis by (simp add: position_None)
    next
      case (Some i)
      with before False have "k < i" by (metis nat_neq_iff)
      with chosen_rung(3) [OF Some] show ?thesis by simp
    qed
    with none have "rg_admissible (evidence_of (rungs ! j)) = None" if "j \<le> k" for j
      using that by (cases "j = k") auto
    with inadmissible_unusable at near_returns [OF at(1)] k show ?thesis
      by (auto simp: answer_justified_def)
  qed
qed

lemma exhausted_answer:
  assumes mono: "seconds_monotone as_second"
    and walk: "walk_rungs as_second c now
        (position (\<lambda>e. rg_admissible e \<noteq> None) (map evidence_of rungs)) 0
        (zip rungs (map evidence_of rungs)) = Inr None"
    and answer: "exhausted_placement as_second show_instant n (map evidence_of rungs) m c now = Inr p"
  shows "answer_justified as_second c now usable returns rungs p"
proof -
  let ?adm = "position (\<lambda>e. rg_admissible e \<noteq> None) (map evidence_of rungs)"
  from walk_rungs_None [OF walk] have *: "\<forall>j < length rungs. ?adm \<noteq> Some j
      \<and> (\<forall>at. \<not> near_reset as_second c now (evidence_of (rungs ! j)) at)" by simp
  then have "?adm = None" using chosen_rung(1) [of rungs] by (cases ?adm) auto
  then have none: "\<forall>rung \<in> set rungs. rg_admissible (evidence_of rung) = None"
    by (simp add: position_None)
  have far: "\<not> within as_second now at (hc_short_horizon_seconds c)"
    if "rung \<in> set rungs" "returns rung at" for rung at
    using far_returns [OF mono _ _ that(2)] none * that(1) by (auto simp: in_set_conv_nth)
  let ?all = "concat (map rg_resets (map evidence_of rungs))"
  have all: "at \<in> set ?all \<longleftrightarrow> (\<exists>rung \<in> set rungs. returns rung at)" for at
    using resets_return returns_reset(1) none by (simp add: Bex_def) blast
  have payload: "quota_escalation show_instant n m r = Inr q \<Longrightarrow> nh_tried_deliberation_path q \<noteq> []" for r q
    by (auto simp: quota_escalation_def NeedsHumanPayload_new_def Let_def split: option.splits)
  show ?thesis
  proof (cases "?all = []")
    case True
    with all have "\<forall>rung \<in> set rungs. \<forall>at. \<not> returns rung at" by auto
    with True answer payload none inadmissible_unusable show ?thesis
      by (auto simp: exhausted_placement_def earliest_eq answer_justified_def)
  next
    case False
    let ?m = "Min (set ?all)"
    have m: "\<exists>rung \<in> set rungs. returns rung ?m" "\<forall>rung \<in> set rungs. \<forall>other. returns rung other \<longrightarrow> ?m \<le> other"
      using False all [of ?m] all by (auto intro: Min_le simp del: set_concat)
    with False answer payload none inadmissible_unusable far show ?thesis
      by (auto simp: exhausted_placement_def earliest_eq answer_justified_def Let_def split: if_splits
          simp del: set_concat)
  qed
qed

end

section \<open>Thresholds and the reserve\<close>

lemma validated_thresholds:
  assumes "HeadroomConfig_validate c = Inr ()"
  shows "0 < unat (for_kind (hc_thresholds c) k)"
    "unat (hc_control_plane_reserve_percent c) < unat (for_kind (hc_thresholds c) k)"
proof -
  have kind: "for_kind (hc_thresholds c) k \<in> set (threshold_list (hc_thresholds c))"
    by (cases k) (simp_all add: threshold_list_def)
  have v: "HeadroomThresholds_validate (hc_thresholds c) = Inr ()"
    "hc_control_plane_reserve_percent c < Min (set (threshold_list (hc_thresholds c)))"
    using assms by (auto simp: HeadroomConfig_validate_def split: if_splits)
  from v(1) kind show "0 < unat (for_kind (hc_thresholds c) k)"
    by (auto simp: HeadroomThresholds_validate_def unat_gt_0 split: if_splits)
  have "Min (set (threshold_list (hc_thresholds c))) \<le> for_kind (hc_thresholds c) k"
    using kind by simp
  with v(2) show "unat (hc_control_plane_reserve_percent c) < unat (for_kind (hc_thresholds c) k)"
    by (simp add: word_less_nat_alt word_le_nat_alt)
qed

lemma delivery_threshold:
  assumes "HeadroomConfig_validate c = Inr ()"
  shows "unat (for_kind (thresholds_for c Delivery) k) + unat (hc_control_plane_reserve_percent c)
    = unat (for_kind (thresholds_for c ControlPlane) k)"
proof -
  have "for_kind (thresholds_for c Delivery) k = reserved c (for_kind (hc_thresholds c) k)"
    by (cases k) (simp_all add: thresholds_for_def)
  moreover have "1 \<le> saturating_sub (for_kind (hc_thresholds c) k) (hc_control_plane_reserve_percent c)"
    using validated_thresholds(2) [OF assms, of k] by (simp add: word_le_nat_alt)
  ultimately show ?thesis
    using validated_thresholds(2) [OF assms, of k] by (simp add: reserved_def max_def thresholds_for_def)
qed

lemma headroom_mono:
  assumes "\<And>k. for_kind t k \<le> for_kind t' k" and "state_headroom s t now = Admissible"
  shows "state_headroom s t' now = Admissible"
proof -
  have "has_headroom w t \<Longrightarrow> has_headroom w t'" for w
    using assms(1) by (auto simp: has_headroom_def intro: less_le_trans)
  then have "window_outlook (pq_windows s) t = WindowOutlook.Headroom \<Longrightarrow>
      window_outlook (pq_windows s) t' = WindowOutlook.Headroom"
    by (auto simp: window_outlook_def latest_eq filter_empty_conv split: if_splits)
  with assms(2) show ?thesis
    by (auto simp: state_headroom_def split: if_splits option.splits WindowOutlook.splits)
qed

section \<open>Properties\<close>


definition sample_thresholds :: HeadroomThresholds where
  "sample_thresholds =
     \<lparr>session_percent = 90, daily_percent = 85, weekly_percent = 70, monthly_percent = 80\<rparr>"

definition sample_headroom :: HeadroomConfig where
  "sample_headroom =
     \<lparr>hc_thresholds = sample_thresholds, hc_control_plane_reserve_percent = 10,
      hc_short_horizon_seconds = 900, hc_escalation_horizon_seconds = 7200\<rparr>"

definition sample_quota :: "uuid \<Rightarrow> QuotaWindow list \<Rightarrow> ProviderQuotaState" where
  "sample_quota account windows =
     \<lparr>pq_project_id = 1, pq_account_profile_id = account, pq_provider = ''codex'',
      pq_state = ProviderQuotaKind.Available, pq_resets_at = None, pq_windows = windows,
      pq_credit = None, pq_evidence_hash = ''h'', pq_source = ProviderQuotaSource.ProviderReport,
      pq_observed_at = 990, pq_provenance_id = None, pq_revision = 1, pq_updated_at = 990\<rparr>"

definition sample_rung :: ModelRung where
  "sample_rung = \<lparr>mr_provider = ''codex'', mr_model = ''m'', mr_effort = None\<rparr>"

definition sample_account :: "uuid \<Rightarrow> EligibleAccount" where
  "sample_account a = \<lparr>ea_account_profile_id = a, ea_selectable_providers = [''codex'']\<rparr>"

lemmas headroom_eval =
  resolve_def placement_def rung_evidence_def no_evidence_def headroom_of_def state_headroom_def
  blocks_at_def window_outlook_def latest_def earliest_def has_headroom_def thresholds_for_def
  reserved_def saturating_sub_def Let_def sample_thresholds_def sample_headroom_def
  sample_quota_def sample_rung_def sample_account_def

lemma sample_resolves:
  "resolve (-) id (\<lambda>_. ''later'') [sample_rung] [sample_account 2, sample_account 1]
     [sample_quota 1 [], sample_quota 2 []] sample_headroom Delivery 1000 60 (\<lambda>_. True)
   = Inr (Admit sample_rung 1)"
  by (simp add: headroom_eval)


text \<open>The order in which accounts arrive cannot change a resolution, so a replay selects what the
  plan selected.\<close>

theorem resolve_order_independent:
  assumes "mset accounts = mset accounts'" and "distinct (map ea_account_profile_id accounts)"
  shows "resolve since as_second show_instant rungs accounts states c seat now freshness enabled =
     resolve since as_second show_instant rungs accounts' states c seat now freshness enabled"
proof -
  have "sort_key ea_account_profile_id accounts = sort_key ea_account_profile_id accounts'"
    using assms by (intro sort_key_perm_unique) (simp_all add: distinct_map)
  moreover have "length accounts = length accounts'" using assms(1) by (rule mset_eq_length)
  ultimately show ?thesis by (simp add: resolve_def rung_evidence_def Let_def)
qed

theorem resolve_order_independent_witness:
  "resolve (-) id (\<lambda>_. ''later'') [sample_rung] [sample_account 1, sample_account 2]
     [sample_quota 1 [], sample_quota 2 []] sample_headroom Delivery 1000 60 (\<lambda>_. True)
   = Inr (Admit sample_rung 1)"
  using resolve_order_independent [of "[sample_account 1, sample_account 2]"
      "[sample_account 2, sample_account 1]"] sample_resolves
  by (simp add: sample_account_def)

text \<open>Under a validated policy the reserve is exactly what separates the two seat classes:
  a delivery seat's threshold is the declared one less the reserve, and whatever admits a delivery
  seat admits a control-plane seat.\<close>

theorem reserve_favours_control:
  assumes "HeadroomConfig_validate c = Inr ()"
  shows "unat (for_kind (thresholds_for c Delivery) k) + unat (hc_control_plane_reserve_percent c)
      = unat (for_kind (thresholds_for c ControlPlane) k)
    \<and> 0 < unat (for_kind (thresholds_for c Delivery) k)
    \<and> (headroom_of since states account provider (thresholds_for c Delivery) now freshness = Admissible
       \<longrightarrow> headroom_of since states account provider (thresholds_for c ControlPlane) now freshness
           = Admissible)"
proof -
  have le: "for_kind (thresholds_for c Delivery) k \<le> for_kind (thresholds_for c ControlPlane) k" for k
    using delivery_threshold [OF assms, of k] by (simp add: word_le_nat_alt)
  have "0 < unat (for_kind (thresholds_for c Delivery) k)"
    using delivery_threshold [OF assms, of k] validated_thresholds(2) [OF assms, of k]
    by (simp add: thresholds_for_def)
  moreover have "headroom_of since states account provider (thresholds_for c Delivery) now freshness
      = Admissible \<longrightarrow>
    headroom_of since states account provider (thresholds_for c ControlPlane) now freshness = Admissible"
    using headroom_mono [OF le] by (auto simp: headroom_of_def split: option.splits if_splits)
  ultimately show ?thesis using delivery_threshold [OF assms] by blast
qed

theorem reserve_favours_control_witness:
  "unat (for_kind (thresholds_for sample_headroom Delivery) QuotaWindowKind.Weekly) + 10
     = unat (for_kind (thresholds_for sample_headroom ControlPlane) QuotaWindowKind.Weekly)"
proof -
  have "HeadroomConfig_validate sample_headroom = Inr ()"
    by (simp add: HeadroomConfig_validate_def HeadroomThresholds_validate_def threshold_list_def
        sample_headroom_def sample_thresholds_def word_le_nat_alt word_less_nat_alt min_def)
  from reserve_favours_control [OF this, of QuotaWindowKind.Weekly] show ?thesis
    by (simp add: sample_headroom_def)
qed

text \<open>A spent window whose reset has already passed still answers as a wait: a fresh report of
  such a window makes the resolution wait until an instant that is not in the future.\<close>

theorem elapsed_window_still_waits:
  assumes "seconds_monotone as_second" and "enabled (mr_provider rung)"
    and "mr_provider rung \<in> set (ea_selectable_providers a)"
    and "pq_account_profile_id s = ea_account_profile_id a" "pq_provider s = mr_provider rung"
    and "pq_state s = ProviderQuotaKind.Available" "pq_windows s = [w]"
    and "\<not> has_headroom w (thresholds_for c seat)" "qw_resets_at w \<le> now"
    and "0 < freshness" "pq_observed_at s \<le> now" "since now (pq_observed_at s) \<le> freshness"
    and "0 < hc_short_horizon_seconds c"
  shows "resolve since as_second show_instant [rung] [a] [s] c seat now freshness enabled
     = Inr (Wait (qw_resets_at w) WaitReason.NearReset)"
proof -
  have "headroom_of since [s] (ea_account_profile_id a) (mr_provider rung) (thresholds_for c seat) now
      freshness = BlockedUntil (qw_resets_at w)"
    using assms(4-12)
    by (simp add: headroom_of_def blocks_at_def state_headroom_def window_outlook_def latest_def)
  moreover have "within as_second now (qw_resets_at w) (hc_short_horizon_seconds c)"
  proof -
    have "as_second (qw_resets_at w) \<le> as_second now"
      using assms(1,9) by (auto simp: seconds_monotone_def)
    with assms(13) show ?thesis by (auto simp: within_def clamp_def i64_MIN_def i64_MAX_def)
  qed
  ultimately show ?thesis using assms(2,3)
    by (simp add: resolve_def placement_def rung_evidence_def no_evidence_def earliest_def Let_def)
qed

theorem elapsed_window_still_waits_witness:
  "resolve (-) id (\<lambda>_. ''later'') [sample_rung] [sample_account 1]
     [sample_quota 1 [\<lparr>qw_kind = QuotaWindowKind.Session, qw_resets_at = 995, qw_used_percent = 99\<rparr>]]
     sample_headroom Delivery 1000 60 (\<lambda>_. True) = Inr (Wait 995 WaitReason.NearReset)"
  using elapsed_window_still_waits [of id "\<lambda>_. True" sample_rung "sample_account 1"
      "sample_quota 1 [\<lparr>qw_kind = QuotaWindowKind.Session, qw_resets_at = 995, qw_used_percent = 99\<rparr>]"
      "\<lparr>qw_kind = QuotaWindowKind.Session, qw_resets_at = 995, qw_used_percent = 99\<rparr>"
      sample_headroom Delivery 1000 60 "(-)" "\<lambda>_. ''later''"]
  by (simp add: seconds_monotone_def headroom_eval)

end
