(* ===== verification/Scheduler_Model.thy ===== *)
theory Scheduler_Model
  imports Guardrails Headroom
begin

text \<open>
  What a scheduling pass may look at and what it may say:
  \<^verbatim>\<open>crates/kontor-scheduler/src/model.rs\<close>, with the calendar answer and work scope of
  \<^verbatim>\<open>crates/kontor-core/src/calendar.rs\<close>, the intake result of \<^verbatim>\<open>crates/kontor-core/src/spec.rs\<close>
  and the capability vocabulary of \<^verbatim>\<open>crates/kontor-runtime/src/capability.rs\<close>.  Ordered sets are
  lists in iteration order; the usage maps are partial functions.  The lemmas treat the covering
  grant, the adaptive window and the snapshot's validation.
\<close>

section \<open>Runtime capabilities\<close>

datatype RuntimeCapability =
    Discovery | PrepareWorkspace | PrepareProject | Launch | Resume | SendMessage | Cancel | Retire
  | Inspect | Adopt | History | LiveEvents | PermissionResponse | ContextPolicy | Compact
  | RetitleContainer | Summarize

definition RuntimeCapability_ALL :: "RuntimeCapability list" where
  "RuntimeCapability_ALL =
     [Discovery, PrepareWorkspace, PrepareProject, Launch, Resume, SendMessage, Cancel, Retire,
      Inspect, Adopt, History, LiveEvents, PermissionResponse, ContextPolicy, Compact,
      RetitleContainer, Summarize]"

definition changes_runtime :: "RuntimeCapability \<Rightarrow> bool" where
  "changes_runtime c \<longleftrightarrow>
     c \<in> {PrepareWorkspace, PrepareProject, Launch, Resume, SendMessage, Cancel, Retire, Adopt,
           PermissionResponse, Compact, RetitleContainer, Summarize}"

datatype TrustGrade = GradeA | GradeB | GradeC

fun trust_rank :: "TrustGrade \<Rightarrow> u8" where
  "trust_rank GradeA = 2"
| "trust_rank GradeB = 1"
| "trust_rank GradeC = 0"

definition at_least :: "TrustGrade \<Rightarrow> TrustGrade \<Rightarrow> bool" where
  "at_least g minimum \<longleftrightarrow> trust_rank g \<ge> trust_rank minimum"

definition may_dispatch_autonomously :: "TrustGrade \<Rightarrow> bool" where
  "may_dispatch_autonomously g \<longleftrightarrow> g \<in> {GradeA, GradeB}"

record RuntimeLimits =
  rl_max_message_bytes :: u64
  rl_max_history_page :: u32
  rl_max_concurrent_sessions :: u32
  rl_context_window :: ContextWindowBounds

record RuntimeCapabilities =
  rc_trust_grade :: TrustGrade
  rc_supported :: "RuntimeCapability list"
  rc_account_env :: bool
  rc_limits :: RuntimeLimits

definition supports :: "RuntimeCapabilities \<Rightarrow> RuntimeCapability \<Rightarrow> bool" where
  "supports c capability \<longleftrightarrow> capability \<in> set (rc_supported c)"

section \<open>Calendar and authorization\<close>

datatype EffectiveCalendarState =
    Unrestricted | Closed | Open | Draining | OverrideOpen

primrec EffectiveCalendarState_as_str :: "EffectiveCalendarState \<Rightarrow> string" where
  "EffectiveCalendarState_as_str EffectiveCalendarState.Unrestricted = ''unrestricted''"
| "EffectiveCalendarState_as_str EffectiveCalendarState.Closed = ''closed''"
| "EffectiveCalendarState_as_str EffectiveCalendarState.Open = ''open''"
| "EffectiveCalendarState_as_str EffectiveCalendarState.Draining = ''draining''"
| "EffectiveCalendarState_as_str EffectiveCalendarState.OverrideOpen = ''override_open''"

definition EffectiveCalendarState_ALL :: "EffectiveCalendarState list" where
  "EffectiveCalendarState_ALL =
     [EffectiveCalendarState.Unrestricted, EffectiveCalendarState.Closed,
     EffectiveCalendarState.Open, EffectiveCalendarState.Draining,
     EffectiveCalendarState.OverrideOpen]"

datatype WorkScope = ProjectScope | MiniProjectScope uuid | TaskScope uuid

fun scope_covers :: "WorkScope \<Rightarrow> uuid option \<Rightarrow> uuid option \<Rightarrow> bool" where
  "scope_covers ProjectScope mini task = True"
| "scope_covers (MiniProjectScope m) mini task = (mini = Some m)"
| "scope_covers (TaskScope t) mini task = (task = Some t)"

record CalendarPolicyEvidence =
  ce_profile_id :: uuid
  ce_policy_revision :: u32
  ce_timezone :: string
  ce_matched_window :: "string option"

record CalendarAdmission =
  ca_state :: EffectiveCalendarState
  ca_policy :: "CalendarPolicyEvidence option"
  ca_override_id :: "uuid option"
  ca_next_opening :: "timestamp option"

definition calendar_unrestricted :: CalendarAdmission where
  "calendar_unrestricted =
     \<lparr>ca_state = EffectiveCalendarState.Unrestricted, ca_policy = None, ca_override_id = None,
      ca_next_opening = None\<rparr>"

definition admits_new_work :: "CalendarAdmission \<Rightarrow> bool" where
  "admits_new_work c \<longleftrightarrow>
     ca_state c \<in> {EffectiveCalendarState.Unrestricted, EffectiveCalendarState.Open,
                   EffectiveCalendarState.OverrideOpen}"

definition CalendarAdmission_validate :: "CalendarAdmission \<Rightarrow> unit DomainResult" where
  "CalendarAdmission_validate c =
     (if (ca_state c = EffectiveCalendarState.Unrestricted) \<noteq> (ca_policy c = None)
      then Inl (Invalid ''CalendarAdmission''
             ''a policy is recorded exactly when a calendar restricts execution'')
      else if (ca_state c = EffectiveCalendarState.OverrideOpen) \<noteq> (ca_override_id c \<noteq> None)
      then Inl (Invalid ''CalendarAdmission''
             ''an override id is recorded exactly when an override is in force'')
      else if ca_next_opening c \<noteq> None \<and> ca_state c \<noteq> EffectiveCalendarState.Closed
      then Inl (Invalid ''CalendarAdmission'' ''only a closed calendar has a next opening'')
      else Inr ())"

record AuthorizationEvidence =
  au_id :: uuid
  au_project_id :: uuid
  au_scope :: WorkScope
  au_selected_tasks :: "uuid list"
  au_allowed_start :: timestamp
  au_allowed_end :: timestamp
  au_max_concurrency :: u32

definition arms :: "AuthorizationEvidence \<Rightarrow> uuid \<Rightarrow> uuid option \<Rightarrow> uuid \<Rightarrow> timestamp \<Rightarrow> bool" where
  "arms a project mini task now \<longleftrightarrow>
     au_project_id a = project \<and> scope_covers (au_scope a) mini (Some task)
     \<and> (au_selected_tasks a = [] \<or> task \<in> set (au_selected_tasks a))
     \<and> au_allowed_start a \<le> now \<and> now \<le> au_allowed_end a"

fun scope_rank :: "WorkScope \<Rightarrow> nat" where
  "scope_rank (TaskScope _) = 0"
| "scope_rank (MiniProjectScope _) = 1"
| "scope_rank ProjectScope = 2"

definition grant_live :: "timestamp \<Rightarrow> AuthorizationEvidence \<Rightarrow> bool" where
  "grant_live now a \<longleftrightarrow> au_allowed_start a \<le> now \<and> now \<le> au_allowed_end a"

text \<open>The preference key; \<open>Reverse\<close> of an instant or an id is its negation.\<close>

definition grant_preference :: "timestamp \<Rightarrow> AuthorizationEvidence \<Rightarrow> nat \<times> nat \<times> int \<times> int" where
  "grant_preference now a =
     (of_bool (\<not> grant_live now a), scope_rank (au_scope a), - au_allowed_start a, - int (au_id a))"

text \<open>\<open>Iterator::min_by_key\<close>: the first element with the least key.\<close>

fun min_by_key :: "('a \<Rightarrow> 'k::linorder) \<Rightarrow> 'a list \<Rightarrow> 'a option" where
  "min_by_key f [] = None"
| "min_by_key f (x # xs) =
     (case min_by_key f xs of
        None \<Rightarrow> Some x
      | Some y \<Rightarrow> if f y < f x then Some y else Some x)"

definition covering_authority ::
  "AuthorizationEvidence list \<Rightarrow> AuthorizationEvidence list \<Rightarrow> uuid option \<Rightarrow> uuid \<Rightarrow> timestamp \<Rightarrow>
   AuthorizationEvidence option \<times> uuid option" where
  "covering_authority active revoked mini task now =
     (let in_scope = \<lambda>a. scope_covers (au_scope a) mini (Some task) in
      case min_by_key (grant_preference now) (filter in_scope active) of
        Some grant \<Rightarrow> (Some grant, None)
      | None \<Rightarrow>
          (None, map_option au_id (min_by_key (grant_preference now) (filter in_scope revoked))))"

section \<open>Runtime and account evidence\<close>

datatype RuntimeHealth =
    Healthy | Degraded | Unavailable

primrec RuntimeHealth_as_str :: "RuntimeHealth \<Rightarrow> string" where
  "RuntimeHealth_as_str RuntimeHealth.Healthy = ''healthy''"
| "RuntimeHealth_as_str RuntimeHealth.Degraded = ''degraded''"
| "RuntimeHealth_as_str RuntimeHealth.Unavailable = ''unavailable''"

definition RuntimeHealth_ALL :: "RuntimeHealth list" where
  "RuntimeHealth_ALL =
     [RuntimeHealth.Healthy, RuntimeHealth.Degraded, RuntimeHealth.Unavailable]"

record ReconciliationScope =
  rsc_project_id :: uuid
  rsc_runtime_kind :: string
  rsc_host :: string
  rsc_generation :: u64

record ReconciliationEvidence =
  ree_epoch_completed :: bool
  ree_scope :: ReconciliationScope
  ree_open_replay_gap :: bool
  ree_divergence :: bool
  ree_orphan_ambiguity :: bool
  ree_stale_lost_contact :: bool

record RuntimeAdmissionEvidence =
  ra_runtime_kind :: string
  ra_host :: string
  ra_generation :: u64
  ra_capabilities :: RuntimeCapabilities
  ra_required :: "RuntimeCapability list"
  ra_health :: RuntimeHealth
  ra_reconciliation :: ReconciliationEvidence
  ra_last_confirmed_at :: "timestamp option"

datatype PreflightOutcome =
    Passed | Failed | Absent

primrec PreflightOutcome_as_str :: "PreflightOutcome \<Rightarrow> string" where
  "PreflightOutcome_as_str PreflightOutcome.Passed = ''passed''"
| "PreflightOutcome_as_str PreflightOutcome.Failed = ''failed''"
| "PreflightOutcome_as_str PreflightOutcome.Absent = ''absent''"

definition PreflightOutcome_ALL :: "PreflightOutcome list" where
  "PreflightOutcome_ALL =
     [PreflightOutcome.Passed, PreflightOutcome.Failed, PreflightOutcome.Absent]"

record FleetPreflight =
  fp_outcome :: PreflightOutcome
  fp_evidence_hash :: content_hash
  fp_observed_at :: timestamp

record AccountPin =
  pin_account_profile_id :: uuid
  pin_pinned_revision :: u64
  pin_current_revision :: u64
  pin_enabled :: bool
  pin_cooldown_until :: "timestamp option"
  pin_harness :: string
  pin_declared_capabilities :: "string list"
  pin_provider_identity :: "string option"
  pin_preflight :: FleetPreflight

record AccountAdmissionEvidence =
  aa_pin :: "AccountPin option"
  aa_required_capabilities :: "string list"

section \<open>External ownership, origin and worktree\<close>

record ExternalOwnership =
  eo_connector :: string
  eo_spec_version :: u32
  eo_ownership_milestone :: string
  eo_milestone_confirmed :: bool
  eo_owning_principal :: "string option"
  eo_acting_principal :: string

definition owned_by_another :: "ExternalOwnership \<Rightarrow> bool" where
  "owned_by_another o1 =
     (case eo_owning_principal o1 of None \<Rightarrow> False | Some owner \<Rightarrow> owner \<noteq> eo_acting_principal o1)"

record ExternalWorkEvidence =
  ew_blocking_conflicts :: "uuid list"
  ew_ownership :: "ExternalOwnership option"

datatype IntakeResult =
    Proposed | Approved | Rejected | Ignored | Duplicate

primrec IntakeResult_as_str :: "IntakeResult \<Rightarrow> string" where
  "IntakeResult_as_str IntakeResult.Proposed = ''proposed''"
| "IntakeResult_as_str IntakeResult.Approved = ''approved''"
| "IntakeResult_as_str IntakeResult.Rejected = ''rejected''"
| "IntakeResult_as_str IntakeResult.Ignored = ''ignored''"
| "IntakeResult_as_str IntakeResult.Duplicate = ''duplicate''"

definition IntakeResult_ALL :: "IntakeResult list" where
  "IntakeResult_ALL =
     [IntakeResult.Proposed, IntakeResult.Approved, IntakeResult.Rejected,
     IntakeResult.Ignored, IntakeResult.Duplicate]"

datatype RejectionCode =
    TaskNotReady | TaskAlreadyInFlight | EpicRosterUnfrozen | LeadershipSeatUnbound |
    DependencyIncomplete | SerializationPeerInFlight | ModuleInFlight | WorktreeUnverified |
    WorktreeDuplicate | AuthorizationMissing | AuthorizationBlocked |
    AuthorizationScopeMismatch | AuthorizationExpired | DeliverySlotUnregistered |
    JiraBindingUnconfirmed | TeamDefinitionUnpinned | WorktreeMissing |
    NativeTopologyUnconfirmed | RuntimeCapabilityMissing | RuntimeTrustInsufficient |
    RuntimeUnhealthy | RuntimeReconciliationIncomplete | RuntimeEvidenceStale |
    AccountPinStale | AccountDisabled | AccountCoolingDown | AccountRuntimeIncompatible |
    AccountCapabilityMissing | AccountEnvironmentUnavailable | FleetPreflightFailed |
    ExternalConflictUnresolved | ExternalOwnershipConflict | OwnershipMilestoneUnconfirmed |
    CalendarClosed | CalendarDraining | IntakeReceiptMissing | IntakeReceiptNotApproved |
    IntakeReceiptMismatched | CapacityExhausted

primrec RejectionCode_as_str :: "RejectionCode \<Rightarrow> string" where
  "RejectionCode_as_str RejectionCode.TaskNotReady = ''task_not_ready''"
| "RejectionCode_as_str RejectionCode.TaskAlreadyInFlight = ''task_already_in_flight''"
| "RejectionCode_as_str RejectionCode.EpicRosterUnfrozen = ''epic_roster_unfrozen''"
| "RejectionCode_as_str RejectionCode.LeadershipSeatUnbound = ''leadership_seat_unbound''"
| "RejectionCode_as_str RejectionCode.DependencyIncomplete = ''dependency_incomplete''"
| "RejectionCode_as_str RejectionCode.SerializationPeerInFlight = ''serialization_peer_in_flight''"
| "RejectionCode_as_str RejectionCode.ModuleInFlight = ''module_in_flight''"
| "RejectionCode_as_str RejectionCode.WorktreeUnverified = ''worktree_unverified''"
| "RejectionCode_as_str RejectionCode.WorktreeDuplicate = ''worktree_duplicate''"
| "RejectionCode_as_str RejectionCode.AuthorizationMissing = ''authorization_missing''"
| "RejectionCode_as_str RejectionCode.AuthorizationBlocked = ''authorization_blocked''"
| "RejectionCode_as_str RejectionCode.AuthorizationScopeMismatch = ''authorization_scope_mismatch''"
| "RejectionCode_as_str RejectionCode.AuthorizationExpired = ''authorization_expired''"
| "RejectionCode_as_str RejectionCode.DeliverySlotUnregistered = ''delivery_slot_unregistered''"
| "RejectionCode_as_str RejectionCode.JiraBindingUnconfirmed = ''jira_binding_unconfirmed''"
| "RejectionCode_as_str RejectionCode.TeamDefinitionUnpinned = ''team_definition_unpinned''"
| "RejectionCode_as_str RejectionCode.WorktreeMissing = ''worktree_missing''"
| "RejectionCode_as_str RejectionCode.NativeTopologyUnconfirmed = ''native_topology_unconfirmed''"
| "RejectionCode_as_str RejectionCode.RuntimeCapabilityMissing = ''runtime_capability_missing''"
| "RejectionCode_as_str RejectionCode.RuntimeTrustInsufficient = ''runtime_trust_insufficient''"
| "RejectionCode_as_str RejectionCode.RuntimeUnhealthy = ''runtime_unhealthy''"
| "RejectionCode_as_str RejectionCode.RuntimeReconciliationIncomplete = ''runtime_reconciliation_incomplete''"
| "RejectionCode_as_str RejectionCode.RuntimeEvidenceStale = ''runtime_evidence_stale''"
| "RejectionCode_as_str RejectionCode.AccountPinStale = ''account_pin_stale''"
| "RejectionCode_as_str RejectionCode.AccountDisabled = ''account_disabled''"
| "RejectionCode_as_str RejectionCode.AccountCoolingDown = ''account_cooling_down''"
| "RejectionCode_as_str RejectionCode.AccountRuntimeIncompatible = ''account_runtime_incompatible''"
| "RejectionCode_as_str RejectionCode.AccountCapabilityMissing = ''account_capability_missing''"
| "RejectionCode_as_str RejectionCode.AccountEnvironmentUnavailable = ''account_environment_unavailable''"
| "RejectionCode_as_str RejectionCode.FleetPreflightFailed = ''fleet_preflight_failed''"
| "RejectionCode_as_str RejectionCode.ExternalConflictUnresolved = ''external_conflict_unresolved''"
| "RejectionCode_as_str RejectionCode.ExternalOwnershipConflict = ''external_ownership_conflict''"
| "RejectionCode_as_str RejectionCode.OwnershipMilestoneUnconfirmed = ''ownership_milestone_unconfirmed''"
| "RejectionCode_as_str RejectionCode.CalendarClosed = ''calendar_closed''"
| "RejectionCode_as_str RejectionCode.CalendarDraining = ''calendar_draining''"
| "RejectionCode_as_str RejectionCode.IntakeReceiptMissing = ''intake_receipt_missing''"
| "RejectionCode_as_str RejectionCode.IntakeReceiptNotApproved = ''intake_receipt_not_approved''"
| "RejectionCode_as_str RejectionCode.IntakeReceiptMismatched = ''intake_receipt_mismatched''"
| "RejectionCode_as_str RejectionCode.CapacityExhausted = ''capacity_exhausted''"

definition RejectionCode_ALL :: "RejectionCode list" where
  "RejectionCode_ALL =
     [RejectionCode.TaskNotReady, RejectionCode.TaskAlreadyInFlight,
     RejectionCode.EpicRosterUnfrozen, RejectionCode.LeadershipSeatUnbound,
     RejectionCode.DependencyIncomplete, RejectionCode.SerializationPeerInFlight,
     RejectionCode.ModuleInFlight, RejectionCode.WorktreeUnverified,
     RejectionCode.WorktreeDuplicate, RejectionCode.AuthorizationMissing,
     RejectionCode.AuthorizationBlocked, RejectionCode.AuthorizationScopeMismatch,
     RejectionCode.AuthorizationExpired, RejectionCode.DeliverySlotUnregistered,
     RejectionCode.JiraBindingUnconfirmed, RejectionCode.TeamDefinitionUnpinned,
     RejectionCode.WorktreeMissing, RejectionCode.NativeTopologyUnconfirmed,
     RejectionCode.RuntimeCapabilityMissing, RejectionCode.RuntimeTrustInsufficient,
     RejectionCode.RuntimeUnhealthy, RejectionCode.RuntimeReconciliationIncomplete,
     RejectionCode.RuntimeEvidenceStale, RejectionCode.AccountPinStale,
     RejectionCode.AccountDisabled, RejectionCode.AccountCoolingDown,
     RejectionCode.AccountRuntimeIncompatible, RejectionCode.AccountCapabilityMissing,
     RejectionCode.AccountEnvironmentUnavailable, RejectionCode.FleetPreflightFailed,
     RejectionCode.ExternalConflictUnresolved, RejectionCode.ExternalOwnershipConflict,
     RejectionCode.OwnershipMilestoneUnconfirmed, RejectionCode.CalendarClosed,
     RejectionCode.CalendarDraining, RejectionCode.IntakeReceiptMissing,
     RejectionCode.IntakeReceiptNotApproved, RejectionCode.IntakeReceiptMismatched,
     RejectionCode.CapacityExhausted]"

record IntakeLineage =
  il_receipt_id :: uuid
  il_result :: IntakeResult
  il_armed_task_id :: uuid
  il_auto_arm_authorization :: "uuid option"

datatype TaskOrigin = Manual | Event "IntakeLineage option"

fun origin_admits :: "TaskOrigin \<Rightarrow> uuid \<Rightarrow> RejectionCode + unit" where
  "origin_admits Manual task = Inr ()"
| "origin_admits (Event None) task = Inl RejectionCode.IntakeReceiptMissing"
| "origin_admits (Event (Some l)) task =
     (if il_armed_task_id l \<noteq> task then Inl RejectionCode.IntakeReceiptMismatched
      else case il_result l of
             IntakeResult.Approved \<Rightarrow> Inr ()
           | IntakeResult.Proposed \<Rightarrow>
               if il_auto_arm_authorization l \<noteq> None then Inr ()
               else Inl RejectionCode.IntakeReceiptNotApproved
           | _ \<Rightarrow> Inl RejectionCode.IntakeReceiptNotApproved)"

datatype WorktreeVerification =
    Verified | Unverified

primrec WorktreeVerification_as_str :: "WorktreeVerification \<Rightarrow> string" where
  "WorktreeVerification_as_str WorktreeVerification.Verified = ''verified''"
| "WorktreeVerification_as_str WorktreeVerification.Unverified = ''unverified''"

definition WorktreeVerification_ALL :: "WorktreeVerification list" where
  "WorktreeVerification_ALL =
     [WorktreeVerification.Verified, WorktreeVerification.Unverified]"

record WorktreeClaim =
  wc_worktree :: string
  wc_verification :: WorktreeVerification

definition claim_verified :: "WorktreeClaim \<Rightarrow> string option" where
  "claim_verified w =
     (case wc_verification w of
        WorktreeVerification.Verified \<Rightarrow> Some (wc_worktree w)
      | WorktreeVerification.Unverified \<Rightarrow> None)"

section \<open>Capacity\<close>

datatype CapacityLimitKind =
    Global | Project | Mission | Account | Provider | Runtime | RuntimeSessions |
    Authorization | AdaptiveWindow

primrec CapacityLimitKind_as_str :: "CapacityLimitKind \<Rightarrow> string" where
  "CapacityLimitKind_as_str CapacityLimitKind.Global = ''global''"
| "CapacityLimitKind_as_str CapacityLimitKind.Project = ''project''"
| "CapacityLimitKind_as_str CapacityLimitKind.Mission = ''mission''"
| "CapacityLimitKind_as_str CapacityLimitKind.Account = ''account''"
| "CapacityLimitKind_as_str CapacityLimitKind.Provider = ''provider''"
| "CapacityLimitKind_as_str CapacityLimitKind.Runtime = ''runtime''"
| "CapacityLimitKind_as_str CapacityLimitKind.RuntimeSessions = ''runtime_sessions''"
| "CapacityLimitKind_as_str CapacityLimitKind.Authorization = ''arming_authorization''"
| "CapacityLimitKind_as_str CapacityLimitKind.AdaptiveWindow = ''adaptive_window''"

definition CapacityLimitKind_ALL :: "CapacityLimitKind list" where
  "CapacityLimitKind_ALL =
     [CapacityLimitKind.Global, CapacityLimitKind.Project, CapacityLimitKind.Mission,
     CapacityLimitKind.Account, CapacityLimitKind.Provider, CapacityLimitKind.Runtime,
     CapacityLimitKind.RuntimeSessions, CapacityLimitKind.Authorization,
     CapacityLimitKind.AdaptiveWindow]"

record AdaptiveWindowConfig =
  aw_initial :: u32
  aw_floor :: u32
  aw_ceiling :: u32
  aw_growth_step :: u32

definition AdaptiveWindowConfig_validate :: "AdaptiveWindowConfig \<Rightarrow> unit DomainResult" where
  "AdaptiveWindowConfig_validate c =
     (if aw_floor c = 0 \<or> aw_growth_step c = 0
      then Inl (Invalid ''AdaptiveWindowConfig'' ''the floor and the growth step must be positive'')
      else if \<not> (aw_floor c \<le> aw_initial c \<and> aw_initial c \<le> aw_ceiling c)
      then Inl (Invalid ''AdaptiveWindowConfig''
             ''the floor, the initial width and the ceiling must be ordered'')
      else Inr ())"

record CapacityConfig =
  cc_global_max_in_flight :: u32
  cc_project_max_in_flight :: u32
  cc_mission_max_in_flight :: u32
  cc_account_max_in_flight :: u32
  cc_provider_max_in_flight :: u32
  cc_runtime_max_in_flight :: u32
  cc_adaptive :: AdaptiveWindowConfig
  cc_headroom :: "HeadroomConfig option"

definition CapacityConfig_validate :: "CapacityConfig \<Rightarrow> unit DomainResult" where
  "CapacityConfig_validate c =
     (if 0 \<in> set [cc_global_max_in_flight c, cc_project_max_in_flight c, cc_mission_max_in_flight c,
                   cc_account_max_in_flight c, cc_provider_max_in_flight c,
                   cc_runtime_max_in_flight c]
      then Inl (Invalid ''CapacityConfig'' ''every ceiling must be positive'')
      else try_bind (case cc_headroom c of None \<Rightarrow> Inr () | Some h \<Rightarrow> HeadroomConfig_validate h)
             (\<lambda>_. AdaptiveWindowConfig_validate (cc_adaptive c)))"

datatype CapacityObservation =
    Clean | Pressure

primrec CapacityObservation_as_str :: "CapacityObservation \<Rightarrow> string" where
  "CapacityObservation_as_str CapacityObservation.Clean = ''clean''"
| "CapacityObservation_as_str CapacityObservation.Pressure = ''pressure''"

definition CapacityObservation_ALL :: "CapacityObservation list" where
  "CapacityObservation_ALL =
     [CapacityObservation.Clean, CapacityObservation.Pressure]"

record AdaptiveWindow =
  window_current :: u32

definition AdaptiveWindow_start :: "AdaptiveWindowConfig \<Rightarrow> AdaptiveWindow" where
  "AdaptiveWindow_start c = \<lparr>window_current = aw_initial c\<rparr>"

definition AdaptiveWindow_restore :: "AdaptiveWindowConfig \<Rightarrow> u32 \<Rightarrow> AdaptiveWindow" where
  "AdaptiveWindow_restore c width = \<lparr>window_current = clamp width (aw_floor c) (aw_ceiling c)\<rparr>"

definition AdaptiveWindow_observe ::
  "AdaptiveWindowConfig \<Rightarrow> AdaptiveWindow \<Rightarrow> CapacityObservation \<Rightarrow> AdaptiveWindow" where
  "AdaptiveWindow_observe c w observation =
     (let current =
        (case observation of
           CapacityObservation.Clean \<Rightarrow>
             min (saturating_add (window_current w) (aw_growth_step c)) (aw_ceiling c)
         | CapacityObservation.Pressure \<Rightarrow> aw_floor c)
      in \<lparr>window_current = clamp current (aw_floor c) (aw_ceiling c)\<rparr>)"

record CapacityUsage =
  cu_global_in_flight :: u32
  cu_project_in_flight :: "uuid \<rightharpoonup> u32"
  cu_mission_in_flight :: "uuid \<rightharpoonup> u32"
  cu_account_in_flight :: "uuid \<rightharpoonup> u32"
  cu_provider_in_flight :: "string \<rightharpoonup> u32"
  cu_runtime_in_flight :: "string \<rightharpoonup> u32"

record CapacitySnapshot =
  cs_remaining :: "(CapacityLimitKind \<times> u32) list"
  cs_effective :: u32
  cs_binding :: CapacityLimitKind

section \<open>Candidates\<close>

datatype RosterGovernance = Seated | RosterUnfrozen | LeadershipSeatUnbound

datatype PlacementAdmission =
    Confirmed content_hash
  | JiraBindingUnconfirmed
  | TeamDefinitionUnpinned
  | DeliverySlotUnregistered
  | WorktreeMissing
  | WorktreeUnverified
  | NativeTopologyUnconfirmed

fun placement_rejection_code :: "PlacementAdmission \<Rightarrow> RejectionCode option" where
  "placement_rejection_code (PlacementAdmission.Confirmed _) = None"
| "placement_rejection_code PlacementAdmission.JiraBindingUnconfirmed = Some RejectionCode.JiraBindingUnconfirmed"
| "placement_rejection_code PlacementAdmission.TeamDefinitionUnpinned = Some RejectionCode.TeamDefinitionUnpinned"
| "placement_rejection_code PlacementAdmission.DeliverySlotUnregistered = Some RejectionCode.DeliverySlotUnregistered"
| "placement_rejection_code PlacementAdmission.WorktreeMissing = Some RejectionCode.WorktreeMissing"
| "placement_rejection_code PlacementAdmission.WorktreeUnverified = Some RejectionCode.WorktreeUnverified"
| "placement_rejection_code PlacementAdmission.NativeTopologyUnconfirmed = Some RejectionCode.NativeTopologyUnconfirmed"

definition attestation_digest :: "PlacementAdmission \<Rightarrow> content_hash option" where
  "attestation_digest p = (case p of PlacementAdmission.Confirmed d \<Rightarrow> Some d | _ \<Rightarrow> None)"

definition MAX_PRIORITY :: u32 where "MAX_PRIORITY = 1000"

record Candidate =
  cd_project_id :: uuid
  cd_task_id :: uuid
  cd_mini_project_id :: "uuid option"
  cd_workflow_id :: uuid
  cd_delivery_slots_registered :: bool
  cd_placement :: PlacementAdmission
  cd_state :: TaskState
  cd_revision :: u64
  cd_created_at :: timestamp
  cd_priority :: u32
  cd_governance :: RosterGovernance
  cd_module :: "string option"
  cd_changed_modules :: "string list"
  cd_worktree :: "WorktreeClaim option"
  cd_depends_on :: "uuid list"
  cd_serializes_with :: "uuid list"
  cd_origin :: TaskOrigin
  cd_authorization :: "AuthorizationEvidence option"
  cd_blocked_by :: "uuid option"
  cd_calendar :: CalendarAdmission
  cd_runtime :: RuntimeAdmissionEvidence
  cd_account :: AccountAdmissionEvidence
  cd_external :: ExternalWorkEvidence

definition integration_modules :: "string option \<Rightarrow> string list \<Rightarrow> string list" where
  "integration_modules primary extras =
     foldl (\<lambda>modules extra. if list_ex (\<lambda>existing. contends_with existing extra) modules then modules
                            else bt_insert extra modules)
       (case primary of None \<Rightarrow> [] | Some p \<Rightarrow> [p]) extras"

record OrderingInputs =
  oi_priority :: u32
  oi_created_at :: timestamp
  oi_task_id :: uuid

definition candidate_ordering :: "Candidate \<Rightarrow> OrderingInputs" where
  "candidate_ordering c =
     \<lparr>oi_priority = cd_priority c, oi_created_at = cd_created_at c, oi_task_id = cd_task_id c\<rparr>"

definition ordering_sort_key :: "OrderingInputs \<Rightarrow> int \<times> timestamp \<times> uuid" where
  "ordering_sort_key k = (- int (unat (oi_priority k)), oi_created_at k, oi_task_id k)"

definition candidate_provider :: "Candidate \<Rightarrow> string option" where
  "candidate_provider c =
     (case aa_pin (cd_account c) of None \<Rightarrow> None | Some pin \<Rightarrow> pin_provider_identity pin)"

definition verified_worktree :: "Candidate \<Rightarrow> string option" where
  "verified_worktree c =
     (case cd_worktree c of None \<Rightarrow> None | Some claim \<Rightarrow> claim_verified claim)"

definition module_claim :: "Candidate \<Rightarrow> ModuleClaim option" where
  "module_claim c =
     map_option (\<lambda>module. \<lparr>mc_module = module, mc_task_id = cd_task_id c,
                           mc_worktree = verified_worktree c, mc_in_flight = True\<rparr>) (cd_module c)"

definition candidate_modules :: "Candidate \<Rightarrow> string list" where
  "candidate_modules c = integration_modules (cd_module c) (cd_changed_modules c)"

definition module_claims :: "Candidate \<Rightarrow> ModuleClaim list" where
  "module_claims c =
     map (\<lambda>module. \<lparr>mc_module = module, mc_task_id = cd_task_id c,
                    mc_worktree = verified_worktree c, mc_in_flight = True\<rparr>) (candidate_modules c)"

definition Candidate_validate :: "Candidate \<Rightarrow> unit DomainResult" where
  "Candidate_validate c =
     (if cd_priority c > MAX_PRIORITY then Inl (Invalid ''Candidate'' ''priority is out of range'')
      else if cd_task_id c \<in> set (cd_depends_on c)
      then Inl (Invalid ''Candidate'' ''a task must not depend on itself'')
      else if cd_task_id c \<in> set (cd_serializes_with c)
      then Inl (Invalid ''Candidate'' ''a task must not serialize against itself'')
      else CalendarAdmission_validate (cd_calendar c))"

section \<open>Decisions\<close>

definition public_code :: "RejectionCode \<Rightarrow> string" where
  "public_code r =
     (if r \<in> {RejectionCode.DeliverySlotUnregistered, RejectionCode.JiraBindingUnconfirmed,
              RejectionCode.TeamDefinitionUnpinned, RejectionCode.WorktreeMissing,
              RejectionCode.NativeTopologyUnconfirmed}
      then ''placement_blocked'' else RejectionCode_as_str r)"

datatype RejectionEvidence =
    DependencyEvidence uuid
  | SerializationPeer uuid
  | ModuleHeld string uuid
  | WorktreeEvidence string
  | AuthorizationRef uuid
  | RuntimeRef string u64
  | MissingRuntimeCapability RuntimeCapability
  | MissingAccountCapability string
  | AccountRef uuid
  | ConflictRef uuid
  | IntakeReceiptRef uuid
  | CalendarRef EffectiveCalendarState "timestamp option"
  | CapacityRef CapacityLimitKind u32

record AdmittedCandidate =
  ac_project_id :: uuid
  ac_task_id :: uuid
  ac_revision :: u64
  ac_workflow_id :: uuid
  ac_ordering :: OrderingInputs
  ac_capacity :: CapacitySnapshot
  ac_module :: "string option"
  ac_changed_modules :: "string list"
  ac_worktree :: "string option"
  ac_authorization_id :: "uuid option"
  ac_calendar :: CalendarAdmission
  ac_account_profile_id :: "uuid option"
  ac_runtime_kind :: string
  ac_runtime_generation :: u64
  ac_placement_attestation_digest :: "content_hash option"
  ac_intake_receipt_id :: "uuid option"

definition admitted_modules :: "AdmittedCandidate \<Rightarrow> string list" where
  "admitted_modules a = integration_modules (ac_module a) (ac_changed_modules a)"

datatype CandidateDecision =
    Admit AdmittedCandidate
  | Reject uuid uuid RejectionCode "RejectionEvidence list"

fun decision_task_id :: "CandidateDecision \<Rightarrow> uuid" where
  "decision_task_id (CandidateDecision.Admit a) = ac_task_id a"
| "decision_task_id (CandidateDecision.Reject task _ _ _) = task"

fun decision_rejection_code :: "CandidateDecision \<Rightarrow> RejectionCode option" where
  "decision_rejection_code (CandidateDecision.Admit _) = None"
| "decision_rejection_code (CandidateDecision.Reject _ _ code _) = Some code"

record Plan =
  plan_schema_version :: u32
  plan_taken_at :: timestamp
  plan_decisions :: "CandidateDecision list"

definition plan_batch :: "Plan \<Rightarrow> AdmittedCandidate list" where
  "plan_batch p =
     List.map_filter (\<lambda>d. case d of CandidateDecision.Admit a \<Rightarrow> Some a | _ \<Rightarrow> None) (plan_decisions p)"

definition admitted_count :: "Plan \<Rightarrow> nat" where
  "admitted_count p = length (plan_batch p)"

section \<open>Snapshots\<close>

record SchedulingSnapshot =
  sn_schema_version :: u32
  sn_taken_at :: timestamp
  sn_candidates :: "Candidate list"
  sn_in_flight_tasks :: "uuid list"
  sn_completed_tasks :: "uuid list"
  sn_module_leases :: "ModuleClaim list"
  sn_worktree_leases :: "string list"
  sn_usage :: CapacityUsage
  sn_capacity :: CapacityConfig
  sn_adaptive_window :: AdaptiveWindow
  sn_freshness :: duration

fun validate_candidates :: "uuid list \<Rightarrow> Candidate list \<Rightarrow> unit DomainResult" where
  "validate_candidates seen [] = Inr ()"
| "validate_candidates seen (c # cs) =
     try_bind (Candidate_validate c) (\<lambda>_.
       if cd_task_id c \<in> set seen
       then Inl (Invalid ''SchedulingSnapshot'' ''a task appears twice among the candidates'')
       else validate_candidates (cd_task_id c # seen) cs)"

definition SchedulingSnapshot_validate :: "SchedulingSnapshot \<Rightarrow> unit DomainResult" where
  "SchedulingSnapshot_validate s =
     try_bind (CapacityConfig_validate (sn_capacity s)) (\<lambda>_.
       if sn_freshness s \<le> 0
       then Inl (Invalid ''SchedulingSnapshot'' ''the freshness window must be positive'')
       else validate_candidates [] (sn_candidates s))"

definition candidate_key :: "Candidate \<Rightarrow> int \<times> timestamp \<times> uuid" where
  "candidate_key c = ordering_sort_key (candidate_ordering c)"

definition sorted_candidates :: "SchedulingSnapshot \<Rightarrow> Candidate list" where
  "sorted_candidates s = sort_key candidate_key (sn_candidates s)"

interpretation effective_calendar_state: closed_enum "''EffectiveCalendarState''" EffectiveCalendarState_ALL EffectiveCalendarState_as_str
proof
  fix v show "v \<in> set EffectiveCalendarState_ALL" by (cases v) (simp_all add: EffectiveCalendarState_ALL_def)
qed (code_simp)

interpretation runtime_health: closed_enum "''RuntimeHealth''" RuntimeHealth_ALL RuntimeHealth_as_str
proof
  fix v show "v \<in> set RuntimeHealth_ALL" by (cases v) (simp_all add: RuntimeHealth_ALL_def)
qed (code_simp)

interpretation preflight_outcome: closed_enum "''PreflightOutcome''" PreflightOutcome_ALL PreflightOutcome_as_str
proof
  fix v show "v \<in> set PreflightOutcome_ALL" by (cases v) (simp_all add: PreflightOutcome_ALL_def)
qed (code_simp)

interpretation intake_result: closed_enum "''IntakeResult''" IntakeResult_ALL IntakeResult_as_str
proof
  fix v show "v \<in> set IntakeResult_ALL" by (cases v) (simp_all add: IntakeResult_ALL_def)
qed (code_simp)

interpretation rejection_code: closed_enum "''RejectionCode''" RejectionCode_ALL RejectionCode_as_str
proof
  fix v show "v \<in> set RejectionCode_ALL" by (cases v) (simp_all add: RejectionCode_ALL_def)
qed (code_simp)

interpretation worktree_verification: closed_enum "''WorktreeVerification''" WorktreeVerification_ALL WorktreeVerification_as_str
proof
  fix v show "v \<in> set WorktreeVerification_ALL" by (cases v) (simp_all add: WorktreeVerification_ALL_def)
qed (code_simp)

interpretation capacity_limit_kind: closed_enum "''CapacityLimitKind''" CapacityLimitKind_ALL CapacityLimitKind_as_str
proof
  fix v show "v \<in> set CapacityLimitKind_ALL" by (cases v) (simp_all add: CapacityLimitKind_ALL_def)
qed (code_simp)

interpretation capacity_observation: closed_enum "''CapacityObservation''" CapacityObservation_ALL CapacityObservation_as_str
proof
  fix v show "v \<in> set CapacityObservation_ALL" by (cases v) (simp_all add: CapacityObservation_ALL_def)
qed (code_simp)

section \<open>Validation and order\<close>

lemma validate_candidates_Inr:
  "validate_candidates seen cs = Inr u \<longleftrightarrow>
     (\<forall>c \<in> set cs. Candidate_validate c = Inr ()) \<and> distinct (map cd_task_id cs)
     \<and> set seen \<inter> cd_task_id ` set cs = {}"
  by (induction seen cs rule: validate_candidates.induct) auto

lemma snapshot_valid:
  assumes "SchedulingSnapshot_validate s = Inr ()"
  shows "distinct (map cd_task_id (sn_candidates s))"
    "CapacityConfig_validate (sn_capacity s) = Inr ()" "0 < sn_freshness s"
    "\<forall>c \<in> set (sn_candidates s). Candidate_validate c = Inr ()"
  using assms by (auto simp: SchedulingSnapshot_validate_def validate_candidates_Inr split: if_splits)

lemma candidate_key_inj:
  "candidate_key c = candidate_key d \<Longrightarrow> cd_task_id c = cd_task_id d"
  by (simp add: candidate_key_def ordering_sort_key_def candidate_ordering_def)

lemma min_by_key_None [simp]: "min_by_key f xs = None \<longleftrightarrow> xs = []"
  by (cases xs) (auto split: option.splits)

lemma min_by_key_Some:
  "min_by_key f xs = Some x \<Longrightarrow> x \<in> set xs \<and> (\<forall>y \<in> set xs. f x \<le> f y)"
  by (induction xs arbitrary: x) (force split: option.splits if_splits)+

lemma grant_preference_le:
  assumes "grant_preference now g \<le> grant_preference now g'"
  shows "grant_live now g' \<Longrightarrow> grant_live now g"
    "grant_live now g = grant_live now g' \<Longrightarrow> scope_rank (au_scope g) \<le> scope_rank (au_scope g')"
  using assms by (auto simp: grant_preference_def of_bool_def split: if_splits)

section \<open>The adaptive window\<close>

definition in_band :: "AdaptiveWindowConfig \<Rightarrow> AdaptiveWindow \<Rightarrow> bool" where
  "in_band c w \<longleftrightarrow> aw_floor c \<le> window_current w \<and> window_current w \<le> aw_ceiling c"

lemma window_config_ordered:
  assumes "AdaptiveWindowConfig_validate c = Inr ()"
  shows "aw_floor c \<le> aw_ceiling c" "in_band c (AdaptiveWindow_start c)"
    "in_band c (AdaptiveWindow_restore c width)" "0 < aw_growth_step c" "0 < aw_floor c"
proof -
  have v: "aw_floor c \<le> aw_initial c" "aw_initial c \<le> aw_ceiling c" "aw_floor c \<noteq> 0" "aw_growth_step c \<noteq> 0"
    using assms by (auto simp: AdaptiveWindowConfig_validate_def split: if_splits)
  then show band: "aw_floor c \<le> aw_ceiling c" by simp
  from v show "in_band c (AdaptiveWindow_start c)" by (simp add: in_band_def AdaptiveWindow_start_def)
  from clamp_in_band [OF band] show "in_band c (AdaptiveWindow_restore c width)"
    by (simp add: in_band_def AdaptiveWindow_restore_def)
  from v show "0 < aw_growth_step c" "0 < aw_floor c" by (simp_all add: word_neq_0_conv)
qed

lemma observe_current:
  assumes "aw_floor c \<le> aw_ceiling c" "in_band c w"
  shows "unat (window_current (AdaptiveWindow_observe c w observation)) =
     (case observation of
        CapacityObservation.Clean \<Rightarrow>
          min (unat (window_current w) + unat (aw_growth_step c)) (unat (aw_ceiling c))
      | CapacityObservation.Pressure \<Rightarrow> unat (aw_floor c))"
proof (cases observation)
  case Clean
  let ?grown = "min (saturating_add (window_current w) (aw_growth_step c)) (aw_ceiling c)"
  have sat: "unat (saturating_add (window_current w) (aw_growth_step c))
      = min (unat (window_current w) + unat (aw_growth_step c)) (2 ^ 32 - 1)"
    by (simp add: unat_saturating_add)
  have ceiling: "unat (aw_ceiling c) \<le> 2 ^ 32 - 1"
  proof -
    have "unat (aw_ceiling c) < 2 ^ LENGTH(32)" by (rule unsigned_less)
    then show ?thesis by simp
  qed
  have grown: "unat ?grown = min (unat (window_current w) + unat (aw_growth_step c)) (unat (aw_ceiling c))"
    using sat ceiling by (simp add: min_def word_le_nat_alt)
  have "aw_floor c \<le> ?grown"
    using assms grown by (simp add: in_band_def word_le_nat_alt)
  with grown Clean show ?thesis
    by (simp add: AdaptiveWindow_observe_def clamp_id)
next
  case Pressure
  with assms show ?thesis by (simp add: AdaptiveWindow_observe_def clamp_id)
qed

lemma observe_in_band:
  assumes "aw_floor c \<le> aw_ceiling c" shows "in_band c (AdaptiveWindow_observe c w observation)"
  using clamp_in_band [OF assms] by (simp add: AdaptiveWindow_observe_def in_band_def Let_def)

lemma observations_in_band:
  assumes "aw_floor c \<le> aw_ceiling c" "in_band c w"
  shows "in_band c (foldl (AdaptiveWindow_observe c) w os)"
  using assms by (induction os arbitrary: w) (simp_all add: observe_in_band)

lemma clean_growth:
  assumes "aw_floor c \<le> aw_ceiling c" "in_band c w"
  shows "unat (window_current (foldl (AdaptiveWindow_observe c) w (replicate n CapacityObservation.Clean)))
     = min (unat (window_current w) + n * unat (aw_growth_step c)) (unat (aw_ceiling c))"
  using assms(2)
proof (induction n arbitrary: w)
  case 0
  then show ?case by (simp add: in_band_def word_le_nat_alt)
next
  case (Suc n)
  let ?w = "AdaptiveWindow_observe c w CapacityObservation.Clean"
  have "unat (window_current ?w)
      = min (unat (window_current w) + unat (aw_growth_step c)) (unat (aw_ceiling c))"
    using observe_current [OF assms(1) Suc.prems, of CapacityObservation.Clean] by simp
  with Suc.IH [OF observe_in_band [OF assms(1)]] show ?case
    by (simp add: min_def)
qed

section \<open>Properties\<close>

text \<open>The grant that travels with a candidate covers it and is live whenever any covering active
  grant is live, the narrowest of its kind; a candidate is reported as disarmed exactly when no
  active grant covers it and a revoked one does, and as unarmed when neither does.\<close>

theorem covering_authority_exact:
  "case covering_authority active revoked mini task now of
     (Some g, blocked) \<Rightarrow>
       blocked = None \<and> g \<in> set active \<and> scope_covers (au_scope g) mini (Some task)
       \<and> (\<forall>g' \<in> set active. scope_covers (au_scope g') mini (Some task) \<longrightarrow>
            (grant_live now g' \<longrightarrow> grant_live now g)
            \<and> (grant_live now g = grant_live now g' \<longrightarrow>
                 scope_rank (au_scope g) \<le> scope_rank (au_scope g')))
   | (None, Some disarm) \<Rightarrow>
       (\<forall>g \<in> set active. \<not> scope_covers (au_scope g) mini (Some task))
       \<and> (\<exists>g \<in> set revoked. scope_covers (au_scope g) mini (Some task) \<and> au_id g = disarm)
   | (None, None) \<Rightarrow>
       (\<forall>g \<in> set active \<union> set revoked. \<not> scope_covers (au_scope g) mini (Some task))"
proof -
  let ?in = "\<lambda>a. scope_covers (au_scope a) mini (Some task)"
  show ?thesis
  proof (cases "min_by_key (grant_preference now) (filter ?in active)")
    case (Some g)
    have "covering_authority active revoked mini task now = (Some g, None)"
      using Some by (simp add: covering_authority_def Let_def)
    moreover from min_by_key_Some [OF Some] grant_preference_le [of now g]
    have "g \<in> set active" "?in g" "\<forall>g' \<in> set active. ?in g' \<longrightarrow> (grant_live now g' \<longrightarrow> grant_live now g)
        \<and> (grant_live now g = grant_live now g' \<longrightarrow> scope_rank (au_scope g) \<le> scope_rank (au_scope g'))"
      by auto
    ultimately show ?thesis by simp
  next
    case None
    then have no: "\<forall>g \<in> set active. \<not> ?in g" by (auto simp: filter_empty_conv)
    show ?thesis
    proof (cases "min_by_key (grant_preference now) (filter ?in revoked)")
      case None': None
      with None no show ?thesis by (auto simp: covering_authority_def Let_def filter_empty_conv)
    next
      case Some': (Some r)
      from min_by_key_Some [OF Some'] None no Some' show ?thesis
        by (auto simp: covering_authority_def Let_def)
    qed
  qed
qed

definition sample_grant :: "uuid \<Rightarrow> WorkScope \<Rightarrow> timestamp \<Rightarrow> timestamp \<Rightarrow> AuthorizationEvidence" where
  "sample_grant i scope start until =
     \<lparr>au_id = i, au_project_id = 1, au_scope = scope, au_selected_tasks = [], au_allowed_start = start,
      au_allowed_end = until, au_max_concurrency = 3\<rparr>"

lemma sample_covering:
  "covering_authority [sample_grant 1 (TaskScope 5) 0 10, sample_grant 2 ProjectScope 0 100] [] None 5 50
     = (Some (sample_grant 2 ProjectScope 0 100), None)"
  by (simp add: covering_authority_def grant_preference_def grant_live_def sample_grant_def Let_def)

theorem covering_authority_exact_witness:
  "grant_live 50 (sample_grant 2 ProjectScope 0 100)
   \<and> covering_authority [sample_grant 1 (TaskScope 5) 0 10, sample_grant 2 ProjectScope 0 100] [] None 5 50
     = (Some (sample_grant 2 ProjectScope 0 100), None)"
  using covering_authority_exact [of "[sample_grant 1 (TaskScope 5) 0 10, sample_grant 2 ProjectScope 0 100]"
      "[]" None 5 50]
  unfolding sample_covering by (simp add: grant_live_def sample_grant_def)

text \<open>Under a validated configuration the adaptive window stays between its floor and its ceiling
  over any sequence of observations from a started or restored width, pressure drops it to the floor
  at once, and enough clean observations bring it to the ceiling; growth does not wrap at 32 bits.\<close>

theorem adaptive_window_bounded:
  assumes "AdaptiveWindowConfig_validate c = Inr ()"
    and "w = AdaptiveWindow_start c \<or> (\<exists>width. w = AdaptiveWindow_restore c width)"
  shows "in_band c (foldl (AdaptiveWindow_observe c) w os)
     \<and> window_current (foldl (AdaptiveWindow_observe c) w (os @ [CapacityObservation.Pressure])) = aw_floor c
     \<and> (unat (aw_ceiling c) \<le> n \<longrightarrow>
          window_current (foldl (AdaptiveWindow_observe c) w (os @ replicate n CapacityObservation.Clean))
            = aw_ceiling c)"
proof -
  note v = window_config_ordered [OF assms(1)]
  have w: "in_band c w" using assms(2) v by auto
  have band: "in_band c (foldl (AdaptiveWindow_observe c) w os)"
    by (rule observations_in_band [OF v(1) w])
  have "unat (window_current (foldl (AdaptiveWindow_observe c) w (os @ [CapacityObservation.Pressure])))
      = unat (aw_floor c)"
    using observe_current [OF v(1) band, of CapacityObservation.Pressure] by simp
  moreover have "unat (window_current
      (foldl (AdaptiveWindow_observe c) w (os @ replicate n CapacityObservation.Clean))) = unat (aw_ceiling c)"
    if "unat (aw_ceiling c) \<le> n"
  proof -
    have "n \<le> n * unat (aw_growth_step c)" using v(4) by (simp add: word_less_nat_alt Suc_le_eq)
    with clean_growth [OF v(1) band, of n] that show ?thesis by simp
  qed
  ultimately show ?thesis using band by (simp add: word_unat_eq_iff)
qed

theorem adaptive_window_bounded_witness:
  "in_band \<lparr>aw_initial = 4, aw_floor = 2, aw_ceiling = 7, aw_growth_step = 1\<rparr>
     (foldl (AdaptiveWindow_observe \<lparr>aw_initial = 4, aw_floor = 2, aw_ceiling = 7, aw_growth_step = 1\<rparr>)
        (AdaptiveWindow_start \<lparr>aw_initial = 4, aw_floor = 2, aw_ceiling = 7, aw_growth_step = 1\<rparr>)
        [CapacityObservation.Pressure, CapacityObservation.Clean])"
  using adaptive_window_bounded [of "\<lparr>aw_initial = 4, aw_floor = 2, aw_ceiling = 7, aw_growth_step = 1\<rparr>"
      "AdaptiveWindow_start \<lparr>aw_initial = 4, aw_floor = 2, aw_ceiling = 7, aw_growth_step = 1\<rparr>"
      "[CapacityObservation.Pressure, CapacityObservation.Clean]" 0]
  by (simp add: AdaptiveWindowConfig_validate_def word_le_nat_alt)

end
