(* ===== verification/Scheduler_Ready.thy ===== *)
theory Scheduler_Ready
  imports Scheduler_Model
begin

text \<open>
  The ready-batch pass, \<^verbatim>\<open>crates/kontor-scheduler/src/ready.rs\<close>: the snapshot-only blockers in
  their evaluation order, the refusal and the explanation built from them, the selection that
  carries spent capacity and held claims, and \<open>plan\<close> itself.  \<open>since\<close> is the elapsed time of the
  \<open>jiff\<close> package.
\<close>

section \<open>Blockers\<close>

datatype Blocker =
    Readiness | Governance | Origin | Dependencies | Authorization | Calendar | ExternalWork |
    StaticPlacement | Runtime | Account | Worktree | Contention

primrec Blocker_as_str :: "Blocker \<Rightarrow> string" where
  "Blocker_as_str Blocker.Readiness = ''readiness''"
| "Blocker_as_str Blocker.Governance = ''governance''"
| "Blocker_as_str Blocker.Origin = ''origin''"
| "Blocker_as_str Blocker.Dependencies = ''dependencies''"
| "Blocker_as_str Blocker.Authorization = ''authorization''"
| "Blocker_as_str Blocker.Calendar = ''calendar''"
| "Blocker_as_str Blocker.ExternalWork = ''external_work''"
| "Blocker_as_str Blocker.StaticPlacement = ''static_placement''"
| "Blocker_as_str Blocker.Runtime = ''runtime''"
| "Blocker_as_str Blocker.Account = ''account''"
| "Blocker_as_str Blocker.Worktree = ''worktree''"
| "Blocker_as_str Blocker.Contention = ''contention''"

definition Blocker_ALL :: "Blocker list" where
  "Blocker_ALL =
     [Blocker.Readiness, Blocker.Governance, Blocker.Origin, Blocker.Dependencies,
     Blocker.Authorization, Blocker.Calendar, Blocker.ExternalWork, Blocker.StaticPlacement,
     Blocker.Runtime, Blocker.Account, Blocker.Worktree, Blocker.Contention]"

definition BLOCKER_ORDER :: "Blocker list" where
  "BLOCKER_ORDER = Blocker_ALL"

type_synonym Refusal = "(RejectionCode \<times> RejectionEvidence list) option"

definition refuse_bare :: "RejectionCode \<Rightarrow> Refusal" where
  "refuse_bare code = Some (code, [])"

definition refuse_with :: "RejectionCode \<Rightarrow> RejectionEvidence list \<Rightarrow> Refusal" where
  "refuse_with code evidence = Some (code, evidence)"

definition readiness :: "SchedulingSnapshot \<Rightarrow> Candidate \<Rightarrow> Refusal" where
  "readiness s c =
     (if cd_state c \<noteq> TaskState.Ready then refuse_bare RejectionCode.TaskNotReady
      else if cd_task_id c \<in> set (sn_in_flight_tasks s)
      then refuse_bare RejectionCode.TaskAlreadyInFlight
      else None)"

definition governance :: "Candidate \<Rightarrow> Refusal" where
  "governance c =
     (case cd_governance c of
        RosterGovernance.Seated \<Rightarrow> None
      | RosterGovernance.RosterUnfrozen \<Rightarrow> refuse_with RejectionCode.EpicRosterUnfrozen []
      | RosterGovernance.LeadershipSeatUnbound \<Rightarrow> refuse_with RejectionCode.LeadershipSeatUnbound [])"

definition static_placement :: "Candidate \<Rightarrow> Refusal" where
  "static_placement c =
     (case placement_rejection_code (cd_placement c) of
        Some code \<Rightarrow>
          refuse_with code
            (if code = RejectionCode.WorktreeUnverified
             then (case cd_worktree c of None \<Rightarrow> [] | Some claim \<Rightarrow> [WorktreeEvidence (wc_worktree claim)])
             else [])
      | None \<Rightarrow>
          if \<not> cd_delivery_slots_registered c
          then refuse_with RejectionCode.DeliverySlotUnregistered [] else None)"

definition origin :: "Candidate \<Rightarrow> Refusal" where
  "origin c =
     (case origin_admits (cd_origin c) (cd_task_id c) of
        Inr _ \<Rightarrow> None
      | Inl code \<Rightarrow>
          refuse_with code
            (case cd_origin c of Event (Some l) \<Rightarrow> [IntakeReceiptRef (il_receipt_id l)] | _ \<Rightarrow> []))"

definition dependencies :: "SchedulingSnapshot \<Rightarrow> Candidate \<Rightarrow> Refusal" where
  "dependencies s c =
     (let unfinished = map DependencyEvidence
            (filter (\<lambda>d. d \<notin> set (sn_completed_tasks s)) (cd_depends_on c)) in
      if unfinished = [] then None else refuse_with RejectionCode.DependencyIncomplete unfinished)"

definition authorization :: "SchedulingSnapshot \<Rightarrow> Candidate \<Rightarrow> Refusal" where
  "authorization s c =
     (case cd_blocked_by c of
        Some i \<Rightarrow> refuse_with RejectionCode.AuthorizationBlocked [AuthorizationRef i]
      | None \<Rightarrow>
          (case cd_authorization c of
             None \<Rightarrow> None
           | Some a \<Rightarrow>
               if au_project_id a \<noteq> cd_project_id c
                  \<or> \<not> scope_covers (au_scope a) (cd_mini_project_id c) (Some (cd_task_id c))
                  \<or> \<not> (au_selected_tasks a = [] \<or> cd_task_id c \<in> set (au_selected_tasks a))
               then refuse_with RejectionCode.AuthorizationScopeMismatch [AuthorizationRef (au_id a)]
               else if sn_taken_at s < au_allowed_start a \<or> sn_taken_at s > au_allowed_end a
               then refuse_with RejectionCode.AuthorizationExpired [AuthorizationRef (au_id a)]
               else None))"

definition calendar :: "Candidate \<Rightarrow> Refusal" where
  "calendar c =
     (if admits_new_work (cd_calendar c) then None
      else refuse_with
             (if ca_state (cd_calendar c) = EffectiveCalendarState.Draining
              then RejectionCode.CalendarDraining else RejectionCode.CalendarClosed)
             [CalendarRef (ca_state (cd_calendar c)) (ca_next_opening (cd_calendar c))])"

definition external_work :: "Candidate \<Rightarrow> Refusal" where
  "external_work c =
     (case ew_blocking_conflicts (cd_external c) of
        conflict # _ \<Rightarrow> refuse_with RejectionCode.ExternalConflictUnresolved [ConflictRef conflict]
      | [] \<Rightarrow>
          (case ew_ownership (cd_external c) of
             None \<Rightarrow> None
           | Some ownership \<Rightarrow>
               if owned_by_another ownership then refuse_bare RejectionCode.ExternalOwnershipConflict
               else if \<not> eo_milestone_confirmed ownership
               then refuse_bare RejectionCode.OwnershipMilestoneUnconfirmed
               else None))"

definition fresh :: "since \<Rightarrow> SchedulingSnapshot \<Rightarrow> timestamp option \<Rightarrow> bool" where
  "fresh since s at =
     (case at of
        None \<Rightarrow> False
      | Some t \<Rightarrow> t \<le> sn_taken_at s \<and> since (sn_taken_at s) t \<le> sn_freshness s)"

definition reconciliation_settled :: "Candidate \<Rightarrow> bool" where
  "reconciliation_settled c \<longleftrightarrow>
     (let r = ra_reconciliation (cd_runtime c); scope = ree_scope r in
      ree_epoch_completed r
      \<and> (rsc_project_id scope = cd_project_id c
         \<and> rsc_runtime_kind scope = ra_runtime_kind (cd_runtime c)
         \<and> rsc_host scope = ra_host (cd_runtime c)
         \<and> rsc_generation scope = ra_generation (cd_runtime c))
      \<and> \<not> ree_open_replay_gap r \<and> \<not> ree_divergence r \<and> \<not> ree_orphan_ambiguity r
      \<and> \<not> ree_stale_lost_contact r)"

definition runtime :: "since \<Rightarrow> SchedulingSnapshot \<Rightarrow> Candidate \<Rightarrow> Refusal" where
  "runtime since s c =
     (let r = cd_runtime c; evidence = [RuntimeRef (ra_runtime_kind r) (ra_generation r)] in
      case find (\<lambda>k. \<not> supports (ra_capabilities r) k) (ra_required r) of
        Some missing \<Rightarrow>
          refuse_with RejectionCode.RuntimeCapabilityMissing [MissingRuntimeCapability missing]
      | None \<Rightarrow>
          if \<not> may_dispatch_autonomously (rc_trust_grade (ra_capabilities r))
          then refuse_with RejectionCode.RuntimeTrustInsufficient evidence
          else if ra_health r \<noteq> RuntimeHealth.Healthy
          then refuse_with RejectionCode.RuntimeUnhealthy evidence
          else if \<not> reconciliation_settled c
          then refuse_with RejectionCode.RuntimeReconciliationIncomplete evidence
          else if \<not> fresh since s (ra_last_confirmed_at r)
          then refuse_with RejectionCode.RuntimeEvidenceStale evidence
          else None)"

definition preflight_valid :: "since \<Rightarrow> SchedulingSnapshot \<Rightarrow> AccountPin \<Rightarrow> bool" where
  "preflight_valid since s pin \<longleftrightarrow>
     fp_outcome (pin_preflight pin) = PreflightOutcome.Passed
     \<and> fresh since s (Some (fp_observed_at (pin_preflight pin)))"

definition cooling_down :: "SchedulingSnapshot \<Rightarrow> AccountPin \<Rightarrow> bool" where
  "cooling_down s pin =
     (case pin_cooldown_until pin of None \<Rightarrow> False | Some until \<Rightarrow> sn_taken_at s < until)"

definition account :: "since \<Rightarrow> SchedulingSnapshot \<Rightarrow> Candidate \<Rightarrow> Refusal" where
  "account since s c =
     (case aa_pin (cd_account c) of
        None \<Rightarrow> None
      | Some pin \<Rightarrow>
          let evidence = [AccountRef (pin_account_profile_id pin)] in
          if pin_pinned_revision pin \<noteq> pin_current_revision pin
          then refuse_with RejectionCode.AccountPinStale evidence
          else if \<not> pin_enabled pin then refuse_with RejectionCode.AccountDisabled evidence
          else if cooling_down s pin then refuse_with RejectionCode.AccountCoolingDown evidence
          else if pin_harness pin \<noteq> ra_runtime_kind (cd_runtime c)
          then refuse_with RejectionCode.AccountRuntimeIncompatible evidence
          else case find (\<lambda>k. k \<notin> set (pin_declared_capabilities pin))
                      (aa_required_capabilities (cd_account c)) of
                 Some missing \<Rightarrow>
                   refuse_with RejectionCode.AccountCapabilityMissing [MissingAccountCapability missing]
               | None \<Rightarrow>
                   if \<not> rc_account_env (ra_capabilities (cd_runtime c))
                   then refuse_with RejectionCode.AccountEnvironmentUnavailable evidence
                   else if \<not> preflight_valid since s pin
                   then refuse_with RejectionCode.FleetPreflightFailed evidence
                   else None)"

definition worktree :: "Candidate \<Rightarrow> Refusal" where
  "worktree c =
     (case cd_worktree c of
        None \<Rightarrow> None
      | Some claim \<Rightarrow>
          if wc_verification claim = WorktreeVerification.Unverified
          then refuse_with RejectionCode.WorktreeUnverified [WorktreeEvidence (wc_worktree claim)]
          else None)"

definition module_conflict :: "Candidate \<Rightarrow> ModuleClaim list \<Rightarrow> Refusal" where
  "module_conflict c held =
     (let mine = verified_worktree c;
          evidence = concat (map (\<lambda>module.
            let contenders = contenders_of held module (cd_task_id c) in
            if contenders = [] then []
            else if module_isolated_by_worktree mine contenders then []
            else map (\<lambda>k. ModuleHeld (mc_module k) (mc_task_id k)) contenders) (candidate_modules c))
      in if evidence = [] then None else refuse_with RejectionCode.ModuleInFlight evidence)"

definition contention :: "SchedulingSnapshot \<Rightarrow> Candidate \<Rightarrow> Refusal" where
  "contention s c =
     (case find (\<lambda>peer. peer \<in> set (sn_in_flight_tasks s)) (cd_serializes_with c) of
        Some peer \<Rightarrow> refuse_with RejectionCode.SerializationPeerInFlight [SerializationPeer peer]
      | None \<Rightarrow> module_conflict c (sn_module_leases s))"

fun verdict :: "since \<Rightarrow> SchedulingSnapshot \<Rightarrow> Candidate \<Rightarrow> Blocker \<Rightarrow> Refusal" where
  "verdict since s c Blocker.Readiness = readiness s c"
| "verdict since s c Blocker.Governance = governance c"
| "verdict since s c Blocker.Origin = origin c"
| "verdict since s c Blocker.Dependencies = dependencies s c"
| "verdict since s c Blocker.Authorization = authorization s c"
| "verdict since s c Blocker.Calendar = calendar c"
| "verdict since s c Blocker.ExternalWork = external_work c"
| "verdict since s c Blocker.StaticPlacement = static_placement c"
| "verdict since s c Blocker.Runtime = runtime since s c"
| "verdict since s c Blocker.Account = account since s c"
| "verdict since s c Blocker.Worktree = worktree c"
| "verdict since s c Blocker.Contention = contention s c"

definition refuse :: "since \<Rightarrow> SchedulingSnapshot \<Rightarrow> Candidate \<Rightarrow> Refusal" where
  "refuse since s c = first_some (verdict since s c) BLOCKER_ORDER"

record Refused =
  rf_blocker :: Blocker
  rf_code :: RejectionCode
  rf_evidence :: "RejectionEvidence list"

definition explain :: "since \<Rightarrow> SchedulingSnapshot \<Rightarrow> Candidate \<Rightarrow> Refused list DomainResult" where
  "explain since s c =
     try_bind (SchedulingSnapshot_validate s) (\<lambda>_.
     try_bind (Candidate_validate c) (\<lambda>_.
       Inr (List.map_filter (\<lambda>b. map_option (\<lambda>(code, evidence).
              \<lparr>rf_blocker = b, rf_code = code, rf_evidence = evidence\<rparr>) (verdict since s c b))
            BLOCKER_ORDER)))"

section \<open>The walk\<close>

record Selection =
  se_usage :: CapacityUsage
  se_module_claims :: "ModuleClaim list"
  se_worktrees :: "string list"
  se_selected_tasks :: "uuid list"
  se_window_remaining :: u32

definition Selection_new :: "SchedulingSnapshot \<Rightarrow> Selection" where
  "Selection_new s =
     \<lparr>se_usage = sn_usage s, se_module_claims = sn_module_leases s,
      se_worktrees = sn_worktree_leases s, se_selected_tasks = [],
      se_window_remaining = window_current (sn_adaptive_window s)\<rparr>"

definition counted :: "('k \<rightharpoonup> u32) \<Rightarrow> 'k \<Rightarrow> u32" where
  "counted counts key = (case counts key of None \<Rightarrow> 0 | Some n \<Rightarrow> n)"

definition bump :: "('k \<rightharpoonup> u32) \<Rightarrow> 'k \<Rightarrow> ('k \<rightharpoonup> u32)" where
  "bump counts key = counts(key \<mapsto> saturating_add (counted counts key) 1)"

text \<open>The ceilings that apply to a candidate with their spare capacity, in key order.\<close>

definition headroom_entries ::
  "Selection \<Rightarrow> SchedulingSnapshot \<Rightarrow> Candidate \<Rightarrow> (CapacityLimitKind \<times> u32) list" where
  "headroom_entries sel s c =
     (let cfg = sn_capacity s; u = se_usage sel;
          project_used = counted (cu_project_in_flight u) (cd_project_id c);
          runtime_used = counted (cu_runtime_in_flight u) (ra_runtime_kind (cd_runtime c)) in
      [(CapacityLimitKind.Global, saturating_sub (cc_global_max_in_flight cfg) (cu_global_in_flight u)),
       (CapacityLimitKind.Project, saturating_sub (cc_project_max_in_flight cfg) project_used)]
      @ (case cd_mini_project_id c of
           None \<Rightarrow> []
         | Some mission \<Rightarrow>
             [(CapacityLimitKind.Mission,
               saturating_sub (cc_mission_max_in_flight cfg) (counted (cu_mission_in_flight u) mission))])
      @ (case aa_pin (cd_account c) of
           None \<Rightarrow> []
         | Some pin \<Rightarrow>
             [(CapacityLimitKind.Account,
               saturating_sub (cc_account_max_in_flight cfg)
                 (counted (cu_account_in_flight u) (pin_account_profile_id pin)))])
      @ (case candidate_provider c of
           None \<Rightarrow> []
         | Some provider \<Rightarrow>
             [(CapacityLimitKind.Provider,
               saturating_sub (cc_provider_max_in_flight cfg)
                 (counted (cu_provider_in_flight u) provider))])
      @ [(CapacityLimitKind.Runtime, saturating_sub (cc_runtime_max_in_flight cfg) runtime_used),
         (CapacityLimitKind.RuntimeSessions,
          saturating_sub (rl_max_concurrent_sessions (rc_limits (ra_capabilities (cd_runtime c))))
            runtime_used)]
      @ (case cd_authorization c of
           None \<Rightarrow> []
         | Some a \<Rightarrow>
             [(CapacityLimitKind.Authorization, saturating_sub (au_max_concurrency a) project_used)])
      @ [(CapacityLimitKind.AdaptiveWindow, se_window_remaining sel)])"

text \<open>The entries are in declared order, so the first least entry is the least by
  \<open>(spare, limit)\<close>.\<close>

definition headroom :: "Selection \<Rightarrow> SchedulingSnapshot \<Rightarrow> Candidate \<Rightarrow> CapacitySnapshot" where
  "headroom sel s c =
     (let remaining = headroom_entries sel s c in
      case min_by_key snd remaining of
        None \<Rightarrow> \<lparr>cs_remaining = remaining, cs_effective = 0, cs_binding = CapacityLimitKind.Global\<rparr>
      | Some (limit, spare) \<Rightarrow>
          \<lparr>cs_remaining = remaining, cs_effective = spare, cs_binding = limit\<rparr>)"

definition spend_usage :: "Candidate \<Rightarrow> CapacityUsage \<Rightarrow> CapacityUsage" where
  "spend_usage c u =
     u\<lparr>cu_global_in_flight := saturating_add (cu_global_in_flight u) 1,
       cu_project_in_flight := bump (cu_project_in_flight u) (cd_project_id c),
       cu_mission_in_flight :=
         (case cd_mini_project_id c of
            None \<Rightarrow> cu_mission_in_flight u | Some m \<Rightarrow> bump (cu_mission_in_flight u) m),
       cu_account_in_flight :=
         (case aa_pin (cd_account c) of
            None \<Rightarrow> cu_account_in_flight u
          | Some pin \<Rightarrow> bump (cu_account_in_flight u) (pin_account_profile_id pin)),
       cu_provider_in_flight :=
         (case candidate_provider c of
            None \<Rightarrow> cu_provider_in_flight u | Some p \<Rightarrow> bump (cu_provider_in_flight u) p),
       cu_runtime_in_flight := bump (cu_runtime_in_flight u) (ra_runtime_kind (cd_runtime c))\<rparr>"

definition spend :: "Selection \<Rightarrow> Candidate \<Rightarrow> Selection" where
  "spend sel c =
     sel\<lparr>se_usage := spend_usage c (se_usage sel),
         se_window_remaining := saturating_sub (se_window_remaining sel) 1\<rparr>"

definition admitted_record :: "CapacitySnapshot \<Rightarrow> Candidate \<Rightarrow> AdmittedCandidate" where
  "admitted_record capacity c =
     \<lparr>ac_project_id = cd_project_id c, ac_task_id = cd_task_id c, ac_revision = cd_revision c,
      ac_workflow_id = cd_workflow_id c, ac_ordering = candidate_ordering c, ac_capacity = capacity,
      ac_module = cd_module c, ac_changed_modules = cd_changed_modules c,
      ac_worktree = verified_worktree c, ac_authorization_id = map_option au_id (cd_authorization c),
      ac_calendar = cd_calendar c,
      ac_account_profile_id = map_option pin_account_profile_id (aa_pin (cd_account c)),
      ac_runtime_kind = ra_runtime_kind (cd_runtime c),
      ac_runtime_generation = ra_generation (cd_runtime c),
      ac_placement_attestation_digest = attestation_digest (cd_placement c),
      ac_intake_receipt_id =
        (case cd_origin c of Event (Some l) \<Rightarrow> Some (il_receipt_id l) | _ \<Rightarrow> None)\<rparr>"

definition claimed :: "Selection \<Rightarrow> Candidate \<Rightarrow> Selection" where
  "claimed sel c =
     (let spent = spend sel c in
      spent\<lparr>se_module_claims := se_module_claims spent @ module_claims c,
            se_worktrees := (case verified_worktree c of
                               None \<Rightarrow> se_worktrees spent
                             | Some w \<Rightarrow> bt_insert w (se_worktrees spent)),
            se_selected_tasks := bt_insert (cd_task_id c) (se_selected_tasks spent)\<rparr>)"

definition take_candidate ::
  "Selection \<Rightarrow> SchedulingSnapshot \<Rightarrow> Candidate \<Rightarrow>
   ((RejectionCode \<times> RejectionEvidence list) + AdmittedCandidate \<times> Selection)" where
  "take_candidate sel s c =
     (case find (\<lambda>peer. peer \<in> set (se_selected_tasks sel)) (cd_serializes_with c) of
        Some peer \<Rightarrow> Inl (RejectionCode.SerializationPeerInFlight, [SerializationPeer peer])
      | None \<Rightarrow>
      case module_conflict c (se_module_claims sel) of
        Some refusal \<Rightarrow> Inl refusal
      | None \<Rightarrow>
      case (case verified_worktree c of
              None \<Rightarrow> None | Some w \<Rightarrow> if w \<in> set (se_worktrees sel) then Some w else None) of
        Some w \<Rightarrow> Inl (RejectionCode.WorktreeDuplicate, [WorktreeEvidence w])
      | None \<Rightarrow>
      let capacity = headroom sel s c in
      if cs_effective capacity = 0
      then Inl (RejectionCode.CapacityExhausted, [CapacityRef (cs_binding capacity) 0])
      else Inr (admitted_record capacity c, claimed sel c))"

definition rejected :: "Candidate \<Rightarrow> RejectionCode \<times> RejectionEvidence list \<Rightarrow> CandidateDecision" where
  "rejected c r = CandidateDecision.Reject (cd_task_id c) (cd_project_id c) (fst r) (snd r)"

fun walk :: "SchedulingSnapshot \<Rightarrow> Selection \<Rightarrow> Candidate list \<Rightarrow> CandidateDecision list" where
  "walk s sel [] = []"
| "walk s sel (c # cs) =
     (case take_candidate sel s c of
        Inr (admitted, sel') \<Rightarrow> CandidateDecision.Admit admitted # walk s sel' cs
      | Inl refusal \<Rightarrow> rejected c refusal # walk s sel cs)"

definition refusals :: "since \<Rightarrow> SchedulingSnapshot \<Rightarrow> Candidate list \<Rightarrow> CandidateDecision list" where
  "refusals since s cs = List.map_filter (\<lambda>c. map_option (rejected c) (refuse since s c)) cs"

definition eligible :: "since \<Rightarrow> SchedulingSnapshot \<Rightarrow> Candidate list \<Rightarrow> Candidate list" where
  "eligible since s cs = filter (\<lambda>c. refuse since s c = None) cs"

definition position_of :: "Candidate list \<Rightarrow> uuid \<Rightarrow> nat" where
  "position_of ordered task =
     (case position (\<lambda>c. cd_task_id c = task) ordered of None \<Rightarrow> 0 | Some i \<Rightarrow> i)"

definition plan :: "since \<Rightarrow> SchedulingSnapshot \<Rightarrow> Plan DomainResult" where
  "plan since s =
     try_bind (SchedulingSnapshot_validate s) (\<lambda>_.
       let ordered = sorted_candidates s;
           decisions = refusals since s ordered @ walk s (Selection_new s) (eligible since s ordered)
       in Inr \<lparr>plan_schema_version = SCHEMA_VERSION, plan_taken_at = sn_taken_at s,
               plan_decisions =
                 sort_key (\<lambda>d. position_of ordered (decision_task_id d)) decisions\<rparr>)"

definition minimum_launch_capabilities :: "RuntimeCapability list" where
  "minimum_launch_capabilities = [Launch, Inspect, LiveEvents]"

interpretation blocker: closed_enum "''Blocker''" Blocker_ALL Blocker_as_str
proof
  fix v show "v \<in> set Blocker_ALL" by (cases v) (simp_all add: Blocker_ALL_def)
qed (code_simp)

section \<open>First refusals\<close>

text \<open>
  A chain of checks in a fixed order, complete for its vocabulary: the client reports the first
  refusal, or all of them.
\<close>

locale refusal_chain =
  fixes order :: "'b list" and answer :: "'c \<Rightarrow> 'b \<Rightarrow> 'r option"
  assumes complete: "b \<in> set order"
begin

lemma passes_iff: "first_some (answer c) order = None \<longleftrightarrow> (\<forall>b. answer c b = None)"
  using complete by auto

lemma first_of_all:
  "first_some (answer c) order = (case List.map_filter (answer c) order of [] \<Rightarrow> None | r # _ \<Rightarrow> Some r)"
  by (rule first_some_hd)

lemma all_reported: "r \<in> set (List.map_filter (answer c) order) \<longleftrightarrow> (\<exists>b. answer c b = Some r)"
  using complete by (auto simp: in_map_filter)

end

interpretation blockers: refusal_chain BLOCKER_ORDER "verdict since s" for since s
  by unfold_locales (simp add: BLOCKER_ORDER_def blocker.all_complete)

section \<open>What an unrefused candidate satisfies\<close>

definition origin_authorizes :: "Candidate \<Rightarrow> bool" where
  "origin_authorizes c \<longleftrightarrow>
     (case cd_origin c of
        Manual \<Rightarrow> True
      | Event None \<Rightarrow> False
      | Event (Some l) \<Rightarrow>
          il_armed_task_id l = cd_task_id c
          \<and> (il_result l = IntakeResult.Approved
             \<or> il_result l = IntakeResult.Proposed \<and> il_auto_arm_authorization l \<noteq> None))"

definition external_clear :: "Candidate \<Rightarrow> bool" where
  "external_clear c \<longleftrightarrow>
     ew_blocking_conflicts (cd_external c) = []
     \<and> (\<forall>o1. ew_ownership (cd_external c) = Some o1 \<longrightarrow>
          eo_milestone_confirmed o1 \<and> eo_owning_principal o1 \<in> {None, Some (eo_acting_principal o1)})"

definition runtime_ready :: "since \<Rightarrow> SchedulingSnapshot \<Rightarrow> Candidate \<Rightarrow> bool" where
  "runtime_ready since s c \<longleftrightarrow>
     (let r = cd_runtime c in
      set (ra_required r) \<subseteq> set (rc_supported (ra_capabilities r))
      \<and> rc_trust_grade (ra_capabilities r) \<noteq> GradeC \<and> ra_health r = RuntimeHealth.Healthy
      \<and> reconciliation_settled c
      \<and> (\<exists>t. ra_last_confirmed_at r = Some t \<and> t \<le> sn_taken_at s
           \<and> since (sn_taken_at s) t \<le> sn_freshness s))"

definition account_ready :: "since \<Rightarrow> SchedulingSnapshot \<Rightarrow> Candidate \<Rightarrow> AccountPin \<Rightarrow> bool" where
  "account_ready since s c pin \<longleftrightarrow>
     pin_pinned_revision pin = pin_current_revision pin \<and> pin_enabled pin
     \<and> (\<forall>until. pin_cooldown_until pin = Some until \<longrightarrow> until \<le> sn_taken_at s)
     \<and> pin_harness pin = ra_runtime_kind (cd_runtime c)
     \<and> set (aa_required_capabilities (cd_account c)) \<subseteq> set (pin_declared_capabilities pin)
     \<and> rc_account_env (ra_capabilities (cd_runtime c))
     \<and> fp_outcome (pin_preflight pin) = PreflightOutcome.Passed
     \<and> fp_observed_at (pin_preflight pin) \<le> sn_taken_at s
     \<and> since (sn_taken_at s) (fp_observed_at (pin_preflight pin)) \<le> sn_freshness s"

text \<open>Two claims on contending modules are compatible on distinct verified trees only.\<close>

definition isolated_from :: "Candidate \<Rightarrow> ModuleClaim \<Rightarrow> bool" where
  "isolated_from c k \<longleftrightarrow>
     (\<exists>mine theirs. verified_worktree c = Some mine \<and> mc_worktree k = Some theirs \<and> mine \<noteq> theirs)"

definition modules_free :: "Candidate \<Rightarrow> ModuleClaim list \<Rightarrow> bool" where
  "modules_free c held \<longleftrightarrow>
     (\<forall>m \<in> set (candidate_modules c). \<forall>k \<in> set held.
        mc_in_flight k \<and> contends_with (mc_module k) m \<and> mc_task_id k \<noteq> cd_task_id c \<longrightarrow>
        isolated_from c k)"

definition admissible :: "since \<Rightarrow> SchedulingSnapshot \<Rightarrow> Candidate \<Rightarrow> bool" where
  "admissible since s c \<longleftrightarrow>
     cd_state c = TaskState.Ready \<and> cd_task_id c \<notin> set (sn_in_flight_tasks s)
     \<and> cd_governance c = RosterGovernance.Seated
     \<and> (\<exists>digest. cd_placement c = PlacementAdmission.Confirmed digest) \<and> cd_delivery_slots_registered c
     \<and> origin_authorizes c \<and> set (cd_depends_on c) \<subseteq> set (sn_completed_tasks s)
     \<and> cd_blocked_by c = None
     \<and> (\<forall>a. cd_authorization c = Some a \<longrightarrow>
          arms a (cd_project_id c) (cd_mini_project_id c) (cd_task_id c) (sn_taken_at s))
     \<and> admits_new_work (cd_calendar c) \<and> external_clear c \<and> runtime_ready since s c
     \<and> (\<forall>pin. aa_pin (cd_account c) = Some pin \<longrightarrow> account_ready since s c pin)
     \<and> (cd_worktree c \<noteq> None \<longrightarrow> verified_worktree c \<noteq> None)
     \<and> set (cd_serializes_with c) \<inter> set (sn_in_flight_tasks s) = {}
     \<and> modules_free c (sn_module_leases s)"

lemmas refusal_defs = refuse_bare_def refuse_with_def

lemma readiness_None [verdict_simps]:
  "readiness s c = None \<longleftrightarrow> cd_state c = TaskState.Ready \<and> cd_task_id c \<notin> set (sn_in_flight_tasks s)"
  by (simp add: readiness_def refusal_defs)

lemma governance_None [verdict_simps]: "governance c = None \<longleftrightarrow> cd_governance c = RosterGovernance.Seated"
  by (simp add: governance_def refusal_defs split: RosterGovernance.splits)

lemma static_placement_None [verdict_simps]:
  "static_placement c = None \<longleftrightarrow>
     (\<exists>digest. cd_placement c = PlacementAdmission.Confirmed digest) \<and> cd_delivery_slots_registered c"
  by (cases "cd_placement c") (simp_all add: static_placement_def refusal_defs)

lemma origin_None [verdict_simps]: "origin c = None \<longleftrightarrow> origin_authorizes c"
  by (cases "(cd_origin c, cd_task_id c)" rule: origin_admits.cases)
    (auto simp: origin_def origin_authorizes_def refusal_defs split: IntakeResult.splits)

lemma dependencies_None [verdict_simps]:
  "dependencies s c = None \<longleftrightarrow> set (cd_depends_on c) \<subseteq> set (sn_completed_tasks s)"
  by (auto simp: dependencies_def refusal_defs Let_def filter_empty_conv)

lemma authorization_None [verdict_simps]:
  "authorization s c = None \<longleftrightarrow> cd_blocked_by c = None
     \<and> (\<forall>a. cd_authorization c = Some a \<longrightarrow>
          arms a (cd_project_id c) (cd_mini_project_id c) (cd_task_id c) (sn_taken_at s))"
  by (auto simp: authorization_def arms_def refusal_defs split: option.splits)

lemma calendar_None [verdict_simps]: "calendar c = None \<longleftrightarrow> admits_new_work (cd_calendar c)"
  by (simp add: calendar_def refusal_defs)

lemma external_work_None [verdict_simps]: "external_work c = None \<longleftrightarrow> external_clear c"
  by (auto simp: external_work_def external_clear_def owned_by_another_def refusal_defs
      split: list.splits option.splits)

lemma runtime_None [verdict_simps]: "runtime since s c = None \<longleftrightarrow> runtime_ready since s c"
proof -
  have "may_dispatch_autonomously g \<longleftrightarrow> g \<noteq> GradeC" for g
    by (cases g) (simp_all add: may_dispatch_autonomously_def)
  moreover have "find (\<lambda>k. \<not> supports (ra_capabilities (cd_runtime c)) k) (ra_required (cd_runtime c)) = None
      \<longleftrightarrow> set (ra_required (cd_runtime c)) \<subseteq> set (rc_supported (ra_capabilities (cd_runtime c)))"
    by (auto simp: find_None_iff_ball supports_def)
  ultimately show ?thesis
    by (auto simp: runtime_def runtime_ready_def fresh_def refusal_defs Let_def split: option.splits)
qed

lemma account_None [verdict_simps]:
  "account since s c = None \<longleftrightarrow> (\<forall>pin. aa_pin (cd_account c) = Some pin \<longrightarrow> account_ready since s c pin)"
proof (cases "aa_pin (cd_account c)")
  case None
  then show ?thesis by (simp add: account_def)
next
  case (Some pin)
  have "find (\<lambda>k. k \<notin> set (pin_declared_capabilities pin)) (aa_required_capabilities (cd_account c)) = None
      \<longleftrightarrow> set (aa_required_capabilities (cd_account c)) \<subseteq> set (pin_declared_capabilities pin)"
    by (auto simp: find_None_iff_ball)
  with Some show ?thesis
    by (auto simp: account_def account_ready_def preflight_valid_def fresh_def cooling_down_def
        refusal_defs Let_def split: option.splits)
qed

lemma worktree_None [verdict_simps]:
  "worktree c = None \<longleftrightarrow> (cd_worktree c \<noteq> None \<longrightarrow> verified_worktree c \<noteq> None)"
  by (auto simp: worktree_def verified_worktree_def claim_verified_def refusal_defs
      split: option.splits WorktreeVerification.splits)

lemma isolated_by_worktree:
  "ks \<noteq> [] \<Longrightarrow> module_isolated_by_worktree (verified_worktree c) ks \<longleftrightarrow> (\<forall>k \<in> set ks. isolated_from c k)"
  by (cases ks) (auto simp: module_isolated_by_worktree_def isolated_from_def list_all_iff split: option.splits)

lemma module_conflict_None [verdict_simps]: "module_conflict c held = None \<longleftrightarrow> modules_free c held"
proof -
  let ?evidence = "\<lambda>module. let contenders = contenders_of held module (cd_task_id c) in
      if contenders = [] then []
      else if module_isolated_by_worktree (verified_worktree c) contenders then []
      else map (\<lambda>k. ModuleHeld (mc_module k) (mc_task_id k)) contenders"
  have "?evidence m = [] \<longleftrightarrow> (\<forall>k \<in> set (contenders_of held m (cd_task_id c)). isolated_from c k)" for m
    using isolated_by_worktree [of "contenders_of held m (cd_task_id c)" c] by (auto simp: Let_def)
  then have "concat (map ?evidence (candidate_modules c)) = [] \<longleftrightarrow>
      (\<forall>m \<in> set (candidate_modules c). \<forall>k \<in> set (contenders_of held m (cd_task_id c)). isolated_from c k)"
    by (simp only: concat_eq_Nil_conv set_map ball_simps)
  then show ?thesis
    by (auto simp: module_conflict_def modules_free_def contenders_of_def refusal_defs Let_def)
qed

lemma contention_None [verdict_simps]:
  "contention s c = None \<longleftrightarrow> set (cd_serializes_with c) \<inter> set (sn_in_flight_tasks s) = {}
     \<and> modules_free c (sn_module_leases s)"
  by (auto simp: contention_def refusal_defs module_conflict_None find_None_iff_ball split: option.splits
      dest: find_SomeD)

lemma verdicts_None:
  "(\<forall>b. verdict since s c b = None) \<longleftrightarrow> admissible since s c"
proof -
  have "(\<forall>b. P b) \<longleftrightarrow> (\<forall>b \<in> set Blocker_ALL. P b)" for P
    by (simp add: Ball_def blocker.all_complete)
  then show ?thesis
    by (simp add: Blocker_ALL_def verdict_simps admissible_def) blast
qed

lemma refuse_None: "refuse since s c = None \<longleftrightarrow> admissible since s c"
  unfolding refuse_def blockers.passes_iff verdicts_None ..

end
