(* ===== verification/Scheduler_Plan.thy ===== *)
theory Scheduler_Plan
  imports Scheduler_Ready
begin

text \<open>
  What a plan of \<^verbatim>\<open>crates/kontor-scheduler/src/ready.rs\<close> guarantees: the walk as the sequence of
  its takes, the ceilings it keeps, its independence of the candidates' order, and that it leaves no
  admissible candidate out for which there is room.
\<close>

section \<open>The walk as a sequence of takes\<close>

fun taken :: "SchedulingSnapshot \<Rightarrow> Selection \<Rightarrow> Candidate list \<Rightarrow> Candidate list" where
  "taken s sel [] = []"
| "taken s sel (c # cs) =
     (case take_candidate sel s c of
        Inr (_, sel') \<Rightarrow> c # taken s sel' cs
      | Inl _ \<Rightarrow> taken s sel cs)"

lemma take_candidate_Inr:
  "take_candidate sel s c = Inr (a, sel') \<longleftrightarrow>
     set (cd_serializes_with c) \<inter> set (se_selected_tasks sel) = {}
     \<and> modules_free c (se_module_claims sel)
     \<and> (\<forall>w. verified_worktree c = Some w \<longrightarrow> w \<notin> set (se_worktrees sel))
     \<and> cs_effective (headroom sel s c) \<noteq> 0
     \<and> a = admitted_record (headroom sel s c) c \<and> sel' = claimed sel c"
proof -
  have "find (\<lambda>peer. peer \<in> set (se_selected_tasks sel)) (cd_serializes_with c) = None
      \<longleftrightarrow> set (cd_serializes_with c) \<inter> set (se_selected_tasks sel) = {}"
    by (auto simp: find_None_iff_ball)
  then show ?thesis
    by (auto simp: take_candidate_def module_conflict_None [symmetric] Let_def
        split: option.splits if_splits)
qed

lemma take_candidate_task: "take_candidate sel s c = Inr (a, sel') \<Longrightarrow> ac_task_id a = cd_task_id c"
  by (simp add: take_candidate_Inr admitted_record_def)

lemma walk_tasks: "map decision_task_id (walk s sel cs) = map cd_task_id cs"
  by (induction s sel cs rule: walk.induct)
    (auto simp: rejected_def dest: take_candidate_task split: sum.splits)

lemma walk_admits:
  "List.map_filter (\<lambda>d. case d of CandidateDecision.Admit a \<Rightarrow> Some (ac_task_id a) | _ \<Rightarrow> None) (walk s sel cs)
     = map cd_task_id (taken s sel cs)"
  by (induction s sel cs rule: walk.induct)
    (auto simp: rejected_def map_filter_simps dest: take_candidate_task split: sum.splits)

lemma taken_subset: "set (taken s sel cs) \<subseteq> set cs"
proof (induction cs arbitrary: sel)
  case (Cons c cs)
  from Cons.IH show ?case by (cases "take_candidate sel s c") (fastforce split: prod.splits)+
qed simp

lemma distinct_taken: "distinct (map cd_task_id cs) \<Longrightarrow> distinct (map cd_task_id (taken s sel cs))"
proof (induction cs arbitrary: sel)
  case (Cons c cs)
  then have "cd_task_id c \<notin> cd_task_id ` set (taken s sel' cs)" for sel'
    using taken_subset [of s sel' cs] by auto
  with Cons show ?case by (cases "take_candidate sel s c") (auto split: prod.splits)
qed simp

lemma walk_Admit:
  "CandidateDecision.Admit a \<in> set (walk s sel cs) \<Longrightarrow>
     \<exists>c \<in> set (taken s sel cs).
       \<exists>capacity. a = admitted_record capacity c \<and> cs_effective capacity \<noteq> 0"
proof (induction cs arbitrary: sel)
  case (Cons c cs)
  show ?case
  proof (cases "take_candidate sel s c")
    case (Inl r)
    with Cons show ?thesis by (simp add: rejected_def)
  next
    case (Inr r)
    obtain a' sel' where r: "r = (a', sel')" by (cases r)
    have "\<exists>capacity. a' = admitted_record capacity c \<and> cs_effective capacity \<noteq> 0"
      using Inr r by (auto simp: take_candidate_Inr)
    with Inr r Cons.prems Cons.IH [of sel'] show ?thesis by auto
  qed
qed simp

section \<open>Spent capacity\<close>

text \<open>
  One ceiling of a snapshot: what a selection has used of it, which candidates are charged to it,
  and its limit.  The provider promises that a taken candidate that is charged found room and uses
  exactly one more, and that any other take leaves the count alone; the client gets that the walk
  never exceeds the limit.
\<close>

locale ceiling =
  fixes s :: SchedulingSnapshot and used :: "Selection \<Rightarrow> nat" and charged :: "Candidate \<Rightarrow> bool"
    and limit :: nat
  assumes charged_take: "take_candidate sel s c = Inr (a, sel') \<Longrightarrow> charged c \<Longrightarrow>
      used sel < limit \<and> used sel' = Suc (used sel)"
    and uncharged_take: "take_candidate sel s c = Inr (a, sel') \<Longrightarrow> \<not> charged c \<Longrightarrow> used sel' = used sel"
begin

lemma walk_within:
  "used sel + length (filter charged (taken s sel cs)) \<le> max limit (used sel)"
proof (induction cs arbitrary: sel)
  case (Cons c cs)
  show ?case
  proof (cases "take_candidate sel s c")
    case (Inr r)
    obtain a sel' where r: "r = (a, sel')" by (cases r)
    show ?thesis
    proof (cases "charged c")
      case True
      with charged_take [of sel c a sel'] Inr r Cons.IH [of sel'] show ?thesis by simp
    next
      case False
      with uncharged_take [of sel c a sel'] Inr r Cons.IH [of sel'] show ?thesis by simp
    qed
  qed (use Cons.IH in simp)
qed simp

end

lemma headroom_effective_le:
  assumes "cs_effective (headroom sel s c) \<noteq> 0" and "(limit, spare) \<in> set (headroom_entries sel s c)"
  shows "spare \<noteq> 0"
proof
  assume "spare = 0"
  obtain l e where m: "min_by_key snd (headroom_entries sel s c) = Some (l, e)"
    using assms(2) by (cases "min_by_key snd (headroom_entries sel s c)") auto
  with assms(1) have "e \<noteq> 0" by (simp add: headroom_def Let_def)
  moreover have "e \<le> spare" using min_by_key_Some [OF m] assms(2) by force
  ultimately show False using \<open>spare = 0\<close> by simp
qed

lemma spare_left: "saturating_sub a b \<noteq> 0 \<longleftrightarrow> unat b < unat (a :: u32)"
  by (simp add: saturating_sub_eq_0 word_le_nat_alt not_le)

lemma counted_bump:
  assumes "unat (counted counts k) < unat (l :: u32)"
  shows "unat (counted (bump counts k) k) = Suc (unat (counted counts k))"
proof -
  have "unat (counted counts k) + 1 < 2 ^ 32"
  proof -
    have "unat l < 2 ^ LENGTH(32)" by (rule unsigned_less)
    with assms show ?thesis by simp
  qed
  then show ?thesis by (simp add: bump_def counted_def [of "_(_ \<mapsto> _)"] unat_saturating_add)
qed

lemma counted_bump_other: "k' \<noteq> k \<Longrightarrow> counted (bump counts k) k' = counted counts k'"
  by (simp add: bump_def counted_def)

lemma taken_room:
  assumes "take_candidate sel s c = Inr (a, sel')" and "(l, spare) \<in> set (headroom_entries sel s c)"
  shows "spare \<noteq> 0" "sel' = claimed sel c"
  using assms headroom_effective_le [OF _ assms(2)] by (simp_all add: take_candidate_Inr)

lemma claimed_usage [simp]:
  "se_usage (claimed sel c) = spend_usage c (se_usage sel)"
  "se_window_remaining (claimed sel c) = saturating_sub (se_window_remaining sel) 1"
  "se_module_claims (claimed sel c) = se_module_claims sel @ module_claims c"
  "set (se_selected_tasks (claimed sel c)) = insert (cd_task_id c) (set (se_selected_tasks sel))"
  "set (se_worktrees (claimed sel c)) = set (se_worktrees sel) \<union> set_option (verified_worktree c)"
  by (auto simp: claimed_def spend_def Let_def split: option.splits)

interpretation global_ceiling: ceiling s "\<lambda>sel. unat (cu_global_in_flight (se_usage sel))" "\<lambda>_. True"
  "unat (cc_global_max_in_flight (sn_capacity s))" for s
proof
  fix sel c a sel' assume t: "take_candidate sel s c = Inr (a, sel')"
  have room: "unat (cu_global_in_flight (se_usage sel)) < unat (cc_global_max_in_flight (sn_capacity s))"
    using taken_room(1) [OF t, of CapacityLimitKind.Global]
    by (simp add: headroom_entries_def Let_def spare_left)
  moreover have "unat (cc_global_max_in_flight (sn_capacity s)) < 2 ^ LENGTH(32)" by (rule unsigned_less)
  ultimately show "unat (cu_global_in_flight (se_usage sel)) < unat (cc_global_max_in_flight (sn_capacity s))
    \<and> unat (cu_global_in_flight (se_usage sel')) = Suc (unat (cu_global_in_flight (se_usage sel)))"
    using t by (simp add: take_candidate_Inr spend_usage_def unat_saturating_add)
qed simp

interpretation project_ceiling: ceiling s
  "\<lambda>sel. unat (counted (cu_project_in_flight (se_usage sel)) project)"
  "\<lambda>c. cd_project_id c = project" "unat (cc_project_max_in_flight (sn_capacity s))" for s project
proof
  fix sel c a sel' assume t: "take_candidate sel s c = Inr (a, sel')"
  {
    assume p: "cd_project_id c = project"
    have "unat (counted (cu_project_in_flight (se_usage sel)) project)
        < unat (cc_project_max_in_flight (sn_capacity s))"
      using taken_room(1) [OF t, of CapacityLimitKind.Project] p
      by (simp add: headroom_entries_def Let_def spare_left)
    with t p counted_bump show "unat (counted (cu_project_in_flight (se_usage sel)) project)
        < unat (cc_project_max_in_flight (sn_capacity s))
      \<and> unat (counted (cu_project_in_flight (se_usage sel')) project)
        = Suc (unat (counted (cu_project_in_flight (se_usage sel)) project))"
      by (simp add: take_candidate_Inr spend_usage_def)
  }
  assume "cd_project_id c \<noteq> project"
  with t show "unat (counted (cu_project_in_flight (se_usage sel')) project)
      = unat (counted (cu_project_in_flight (se_usage sel)) project)"
    by (auto simp: take_candidate_Inr spend_usage_def counted_bump_other)
qed

interpretation mission_ceiling: ceiling s
  "\<lambda>sel. unat (counted (cu_mission_in_flight (se_usage sel)) mission)"
  "\<lambda>c. cd_mini_project_id c = Some mission" "unat (cc_mission_max_in_flight (sn_capacity s))" for s mission
proof
  fix sel c a sel' assume t: "take_candidate sel s c = Inr (a, sel')"
  {
    assume p: "cd_mini_project_id c = Some mission"
    have "unat (counted (cu_mission_in_flight (se_usage sel)) mission) < unat (cc_mission_max_in_flight (sn_capacity s))"
      using taken_room(1) [OF t, of CapacityLimitKind.Mission] p
      by (auto simp: headroom_entries_def Let_def spare_left)
    with t p counted_bump show "unat (counted (cu_mission_in_flight (se_usage sel)) mission)
        < unat (cc_mission_max_in_flight (sn_capacity s))
      \<and> unat (counted (cu_mission_in_flight (se_usage sel')) mission)
        = Suc (unat (counted (cu_mission_in_flight (se_usage sel)) mission))"
      by (auto simp: take_candidate_Inr spend_usage_def)
  }
  assume "\<not> (cd_mini_project_id c = Some mission)"
  with t show "unat (counted (cu_mission_in_flight (se_usage sel')) mission)
      = unat (counted (cu_mission_in_flight (se_usage sel)) mission)"
    by (auto simp: take_candidate_Inr spend_usage_def counted_bump_other split: option.splits)
qed

interpretation account_ceiling: ceiling s
  "\<lambda>sel. unat (counted (cu_account_in_flight (se_usage sel)) profile)"
  "\<lambda>c. map_option pin_account_profile_id (aa_pin (cd_account c)) = Some profile" "unat (cc_account_max_in_flight (sn_capacity s))" for s profile
proof
  fix sel c a sel' assume t: "take_candidate sel s c = Inr (a, sel')"
  {
    assume p: "map_option pin_account_profile_id (aa_pin (cd_account c)) = Some profile"
    have "unat (counted (cu_account_in_flight (se_usage sel)) profile) < unat (cc_account_max_in_flight (sn_capacity s))"
      using taken_room(1) [OF t, of CapacityLimitKind.Account] p
      by (auto simp: headroom_entries_def Let_def spare_left)
    with t p counted_bump show "unat (counted (cu_account_in_flight (se_usage sel)) profile)
        < unat (cc_account_max_in_flight (sn_capacity s))
      \<and> unat (counted (cu_account_in_flight (se_usage sel')) profile)
        = Suc (unat (counted (cu_account_in_flight (se_usage sel)) profile))"
      by (auto simp: take_candidate_Inr spend_usage_def)
  }
  assume "\<not> (map_option pin_account_profile_id (aa_pin (cd_account c)) = Some profile)"
  with t show "unat (counted (cu_account_in_flight (se_usage sel')) profile)
      = unat (counted (cu_account_in_flight (se_usage sel)) profile)"
    by (auto simp: take_candidate_Inr spend_usage_def counted_bump_other split: option.splits)
qed

interpretation provider_ceiling: ceiling s
  "\<lambda>sel. unat (counted (cu_provider_in_flight (se_usage sel)) provider)"
  "\<lambda>c. candidate_provider c = Some provider" "unat (cc_provider_max_in_flight (sn_capacity s))" for s provider
proof
  fix sel c a sel' assume t: "take_candidate sel s c = Inr (a, sel')"
  {
    assume p: "candidate_provider c = Some provider"
    have "unat (counted (cu_provider_in_flight (se_usage sel)) provider) < unat (cc_provider_max_in_flight (sn_capacity s))"
      using taken_room(1) [OF t, of CapacityLimitKind.Provider] p
      by (auto simp: headroom_entries_def Let_def spare_left)
    with t p counted_bump show "unat (counted (cu_provider_in_flight (se_usage sel)) provider)
        < unat (cc_provider_max_in_flight (sn_capacity s))
      \<and> unat (counted (cu_provider_in_flight (se_usage sel')) provider)
        = Suc (unat (counted (cu_provider_in_flight (se_usage sel)) provider))"
      by (auto simp: take_candidate_Inr spend_usage_def)
  }
  assume "\<not> (candidate_provider c = Some provider)"
  with t show "unat (counted (cu_provider_in_flight (se_usage sel')) provider)
      = unat (counted (cu_provider_in_flight (se_usage sel)) provider)"
    by (auto simp: take_candidate_Inr spend_usage_def counted_bump_other split: option.splits)
qed

interpretation runtime_ceiling: ceiling s
  "\<lambda>sel. unat (counted (cu_runtime_in_flight (se_usage sel)) kind)"
  "\<lambda>c. ra_runtime_kind (cd_runtime c) = kind" "unat (cc_runtime_max_in_flight (sn_capacity s))" for s kind
proof
  fix sel c a sel' assume t: "take_candidate sel s c = Inr (a, sel')"
  {
    assume p: "ra_runtime_kind (cd_runtime c) = kind"
    have "unat (counted (cu_runtime_in_flight (se_usage sel)) kind) < unat (cc_runtime_max_in_flight (sn_capacity s))"
      using taken_room(1) [OF t, of CapacityLimitKind.Runtime] p
      by (auto simp: headroom_entries_def Let_def spare_left)
    with t p counted_bump show "unat (counted (cu_runtime_in_flight (se_usage sel)) kind)
        < unat (cc_runtime_max_in_flight (sn_capacity s))
      \<and> unat (counted (cu_runtime_in_flight (se_usage sel')) kind)
        = Suc (unat (counted (cu_runtime_in_flight (se_usage sel)) kind))"
      by (auto simp: take_candidate_Inr spend_usage_def)
  }
  assume "\<not> (ra_runtime_kind (cd_runtime c) = kind)"
  with t show "unat (counted (cu_runtime_in_flight (se_usage sel')) kind)
      = unat (counted (cu_runtime_in_flight (se_usage sel)) kind)"
    by (auto simp: take_candidate_Inr spend_usage_def counted_bump_other split: option.splits)
qed

interpretation window_ceiling: ceiling s "\<lambda>sel. 2 ^ 32 - unat (se_window_remaining sel)" "\<lambda>_. True"
  "2 ^ 32" for s
proof
  fix sel c a sel' assume t: "take_candidate sel s c = Inr (a, sel')"
  have "se_window_remaining sel \<noteq> 0"
    using taken_room(1) [OF t, of CapacityLimitKind.AdaptiveWindow]
    by (simp add: headroom_entries_def Let_def)
  then have "0 < unat (se_window_remaining sel)" by (simp add: unat_gt_0)
  moreover have "unat (se_window_remaining sel) < 2 ^ LENGTH(32)" by (rule unsigned_less)
  ultimately show "2 ^ 32 - unat (se_window_remaining sel) < 2 ^ 32
      \<and> 2 ^ 32 - unat (se_window_remaining sel') = Suc (2 ^ 32 - unat (se_window_remaining sel))"
    using t by (auto simp: take_candidate_Inr)
qed simp

section \<open>The decided candidates\<close>

lemma plan_Inr:
  assumes "plan since s = Inr p"
  shows "SchedulingSnapshot_validate s = Inr ()"
    "plan_decisions p = sort_key (\<lambda>d. position_of (sorted_candidates s) (decision_task_id d))
       (refusals since s (sorted_candidates s)
        @ walk s (Selection_new s) (eligible since s (sorted_candidates s)))"
    "plan_taken_at p = sn_taken_at s"
  using assms by (auto simp: plan_def Let_def)

lemma plan_decisions_mset:
  assumes "plan since s = Inr p"
  shows "mset (plan_decisions p) = mset (refusals since s (sorted_candidates s))
      + mset (walk s (Selection_new s) (eligible since s (sorted_candidates s)))"
  by (simp add: plan_Inr(2) [OF assms])

lemma refusal_tasks:
  "map decision_task_id (refusals since s cs) = map cd_task_id (filter (\<lambda>c. refuse since s c \<noteq> None) cs)"
  by (induction cs) (auto simp: refusals_def map_filter_simps rejected_def split: option.splits)

lemma position_of_nth:
  assumes "distinct (map cd_task_id cs)" and "i < length cs"
  shows "position_of cs (cd_task_id (cs ! i)) = i"
proof -
  have "position (\<lambda>c. cd_task_id c = cd_task_id (cs ! i)) cs = Some i"
    unfolding position_Some using assms
    by (auto simp: distinct_conv_nth)
  then show ?thesis by (simp add: position_of_def)
qed

lemma sort_by_position:
  assumes dist: "distinct (map cd_task_id cs)" and perm: "mset (map key xs) = mset (map cd_task_id cs)"
  shows "map key (sort_key (\<lambda>x. position_of cs (key x)) xs) = map cd_task_id cs"
proof -
  let ?ids = "map key (sort_key (\<lambda>x. position_of cs (key x)) xs)"
  have at: "map (position_of cs) (map cd_task_id cs) = [0..<length cs]"
    using position_of_nth [OF dist] by (auto intro: nth_equalityI)
  have same: "mset ?ids = mset (map cd_task_id cs)" using perm by simp
  have inj: "inj_on (position_of cs) (set (map cd_task_id cs))"
    using at by (metis distinct_map distinct_upt)
  have set_ids: "set ?ids = set (map cd_task_id cs)" using same by (rule mset_eq_setD)
  have "distinct ?ids" using same dist by (metis mset_eq_imp_distinct_iff)
  then have "distinct (map (position_of cs) ?ids)"
    using inj set_ids by (metis distinct_map)
  moreover have "sorted (map (position_of cs) ?ids)" by (simp add: comp_def)
  ultimately show ?thesis
    using at inj set_ids
    by (intro map_sorted_distinct_set_unique [of "position_of cs"]) (simp_all del: set_map map_map)
qed

lemma sorted_candidates_set [simp]: "set (sorted_candidates s) = set (sn_candidates s)"
  by (simp add: sorted_candidates_def)

lemma sorted_candidates_distinct:
  "SchedulingSnapshot_validate s = Inr () \<Longrightarrow> distinct (map cd_task_id (sorted_candidates s))"
  using snapshot_valid(1) [of s]
    mset_eq_imp_distinct_iff [of "map cd_task_id (sorted_candidates s)" "map cd_task_id (sn_candidates s)"]
  by (simp add: sorted_candidates_def)

lemma decisions_in_order:
  assumes p: "plan since s = Inr p"
  shows "map decision_task_id (plan_decisions p) = map cd_task_id (sorted_candidates s)"
proof -
  let ?cs = "sorted_candidates s"
  let ?ds = "refusals since s ?cs @ walk s (Selection_new s) (eligible since s ?cs)"
  have "mset (map decision_task_id ?ds)
      = mset (map cd_task_id (filter (\<lambda>c. refuse since s c \<noteq> None) ?cs @ filter (\<lambda>c. refuse since s c = None) ?cs))"
    by (simp only: map_append refusal_tasks walk_tasks eligible_def)
  also have "\<dots> = image_mset cd_task_id (mset ?cs)"
  proof -
    have "mset (filter (\<lambda>c. refuse since s c \<noteq> None) cs @ filter (\<lambda>c. refuse since s c = None) cs) = mset cs"
      for cs by (induction cs) auto
    then show ?thesis by (simp only: mset_map)
  qed
  finally have "mset (map decision_task_id ?ds) = mset (map cd_task_id ?cs)" by simp
  from sort_by_position [OF sorted_candidates_distinct [OF plan_Inr(1) [OF p]] this]
  show ?thesis by (simp only: plan_Inr(2) [OF p])
qed

text \<open>The candidates a plan admits, in walk order.\<close>

definition admitted_candidates :: "since \<Rightarrow> SchedulingSnapshot \<Rightarrow> Candidate list" where
  "admitted_candidates since s =
     taken s (Selection_new s) (eligible since s (sorted_candidates s))"

lemma batch_Admit: "a \<in> set (plan_batch p) \<longleftrightarrow> CandidateDecision.Admit a \<in> set (plan_decisions p)"
proof -
  have "(case d of CandidateDecision.Admit a \<Rightarrow> Some a | _ \<Rightarrow> None) = Some a \<longleftrightarrow> d = CandidateDecision.Admit a"
    for d by (cases d) auto
  then show ?thesis by (auto simp: plan_batch_def in_map_filter)
qed

lemma refusals_no_Admit: "CandidateDecision.Admit a \<notin> set (refusals since s cs)"
  by (auto simp: refusals_def in_map_filter rejected_def)

lemma batch_candidate:
  assumes "plan since s = Inr p" and "a \<in> set (plan_batch p)"
  shows "\<exists>c \<in> set (admitted_candidates since s). \<exists>capacity.
     a = admitted_record capacity c \<and> cs_effective capacity \<noteq> 0"
proof -
  have "CandidateDecision.Admit a \<in> set (plan_decisions p)" using assms(2) by (simp add: batch_Admit)
  then have "CandidateDecision.Admit a \<in> set (walk s (Selection_new s) (eligible since s (sorted_candidates s)))"
    using refusals_no_Admit by (auto simp: plan_Inr(2) [OF assms(1)])
  from walk_Admit [OF this] show ?thesis by (simp add: admitted_candidates_def)
qed

lemma admitted_candidate_facts:
  assumes "c \<in> set (admitted_candidates since s)"
  shows "c \<in> set (sn_candidates s)" "admissible since s c"
  using assms taken_subset by (fastforce simp: admitted_candidates_def eligible_def refuse_None)+

lemma batch_tasks:
  assumes "plan since s = Inr p"
  shows "mset (map ac_task_id (plan_batch p)) = mset (map cd_task_id (admitted_candidates since s))"
proof -
  let ?f = "\<lambda>d. case d of CandidateDecision.Admit a \<Rightarrow> Some (ac_task_id a) | _ \<Rightarrow> None"
  have ids: "map ac_task_id (List.map_filter (\<lambda>d. case d of CandidateDecision.Admit a \<Rightarrow> Some a | _ \<Rightarrow> None) ds)
      = List.map_filter ?f ds" for ds
    by (induction ds) (simp_all add: map_filter_simps split: CandidateDecision.splits)
  have filt: "mset (List.map_filter ?f (sort_key k ds)) = mset (List.map_filter ?f ds)" for k ds
    by (simp add: List.map_filter_def mset_map)
  have none: "List.map_filter ?f (refusals since s cs) = []" for cs
    by (induction cs) (auto simp: refusals_def map_filter_simps rejected_def split: option.splits)
  have app: "List.map_filter ?f (xs @ ys) = List.map_filter ?f xs @ List.map_filter ?f ys" for xs ys
    by (simp add: List.map_filter_def)
  show ?thesis
    unfolding plan_batch_def ids plan_Inr(2) [OF assms] filt app none walk_admits admitted_candidates_def
    by simp
qed

section \<open>What each take saw\<close>

lemma taken_saw:
  assumes "j < length (taken s sel cs)"
  obtains selj a where "take_candidate selj s (taken s sel cs ! j) = Inr (a, claimed selj (taken s sel cs ! j))"
    "set (se_module_claims selj) = set (se_module_claims sel)
       \<union> (\<Union>c \<in> set (take j (taken s sel cs)). set (module_claims c))"
    "set (se_selected_tasks selj) = set (se_selected_tasks sel) \<union> cd_task_id ` set (take j (taken s sel cs))"
    "set (se_worktrees selj) = set (se_worktrees sel)
       \<union> (\<Union>c \<in> set (take j (taken s sel cs)). set_option (verified_worktree c))"
  using assms
proof (induction cs arbitrary: sel j thesis)
  case (Cons c cs)
  show ?case
  proof (cases "take_candidate sel s c")
    case (Inl r)
    with Cons.prems(2) have "j < length (taken s sel cs)" by simp
    then show ?thesis by (rule Cons.IH [rotated], intro Cons.prems(1)) (use Inl in simp_all)
  next
    case (Inr r)
    obtain a sel' where r: "r = (a, sel')" by (cases r)
    have sel': "sel' = claimed sel c" using Inr r by (simp add: take_candidate_Inr)
    show ?thesis
    proof (cases j)
      case 0
      with Cons.prems(1) [of sel a] Inr r sel' show ?thesis by simp
    next
      case (Suc i)
      with Cons.prems(2) Inr r have i: "i < length (taken s sel' cs)" by simp
      show ?thesis
        by (rule Cons.IH [OF _ i], rule Cons.prems(1)) (use Inr r Suc sel' in auto)
    qed
  qed
qed simp

lemma module_claims_of:
  "k \<in> set (module_claims c) \<longleftrightarrow>
     (\<exists>m \<in> set (candidate_modules c). k = \<lparr>mc_module = m, mc_task_id = cd_task_id c,
        mc_worktree = verified_worktree c, mc_in_flight = True\<rparr>)"
  by (auto simp: module_claims_def)

lemma modules_free_claims:
  assumes "modules_free d held" "set (module_claims c) \<subseteq> set held" "cd_task_id c \<noteq> cd_task_id d"
    and "m \<in> set (candidate_modules c)" "m' \<in> set (candidate_modules d)" "contends_with m m'"
  shows "\<exists>w w'. verified_worktree c = Some w \<and> verified_worktree d = Some w' \<and> w \<noteq> w'"
proof -
  let ?k = "\<lparr>mc_module = m, mc_task_id = cd_task_id c, mc_worktree = verified_worktree c, mc_in_flight = True\<rparr>"
  have "?k \<in> set held" using assms(2,4) by (auto simp: module_claims_of)
  with assms(1,3,5,6) have "isolated_from d ?k" by (auto simp: modules_free_def)
  then show ?thesis by (auto simp: isolated_from_def)
qed

text \<open>Two admitted candidates, the earlier one first.\<close>

lemma later_take:
  assumes "i < j" "j < length ts" "ts = taken s (Selection_new s) cs" "distinct (map cd_task_id cs)"
  shows "\<forall>m \<in> set (candidate_modules (ts ! i)). \<forall>m' \<in> set (candidate_modules (ts ! j)). contends_with m m' \<longrightarrow>
       (\<exists>w w'. verified_worktree (ts ! i) = Some w \<and> verified_worktree (ts ! j) = Some w' \<and> w \<noteq> w')"
    "\<forall>w. verified_worktree (ts ! i) = Some w \<longrightarrow> verified_worktree (ts ! j) \<noteq> Some w"
    "cd_task_id (ts ! i) \<notin> set (cd_serializes_with (ts ! j))"
    "cd_task_id (ts ! i) \<noteq> cd_task_id (ts ! j)"
proof -
  have i: "ts ! i \<in> set (take j ts)" using assms(1,2) by (auto simp: in_set_conv_nth)
  have ids: "distinct (map cd_task_id ts)" using distinct_taken assms(3,4) by simp
  then show ne: "cd_task_id (ts ! i) \<noteq> cd_task_id (ts ! j)"
    using assms(1,2) by (simp add: distinct_conv_nth)
  obtain selj a where t: "take_candidate selj s (ts ! j) = Inr (a, claimed selj (ts ! j))"
    and claims: "set (module_claims (ts ! i)) \<subseteq> set (se_module_claims selj)"
    and sel: "cd_task_id (ts ! i) \<in> set (se_selected_tasks selj)"
    and trees: "set_option (verified_worktree (ts ! i)) \<subseteq> set (se_worktrees selj)"
    using assms(2,3) i taken_saw [of j s "Selection_new s" cs] by (metis UN_upper UnI2 image_eqI le_supI2)
  from t have free: "modules_free (ts ! j) (se_module_claims selj)"
    and w: "\<forall>w. verified_worktree (ts ! j) = Some w \<longrightarrow> w \<notin> set (se_worktrees selj)"
    and peers: "set (cd_serializes_with (ts ! j)) \<inter> set (se_selected_tasks selj) = {}"
    by (simp_all add: take_candidate_Inr)
  show "\<forall>m \<in> set (candidate_modules (ts ! i)). \<forall>m' \<in> set (candidate_modules (ts ! j)). contends_with m m' \<longrightarrow>
       (\<exists>w w'. verified_worktree (ts ! i) = Some w \<and> verified_worktree (ts ! j) = Some w' \<and> w \<noteq> w')"
    using modules_free_claims [OF free claims ne] by blast
  show "\<forall>w. verified_worktree (ts ! i) = Some w \<longrightarrow> verified_worktree (ts ! j) \<noteq> Some w"
    using w trees by auto
  show "cd_task_id (ts ! i) \<notin> set (cd_serializes_with (ts ! j))" using peers sel by auto
qed

lemma taken_lease_free:
  assumes "c \<in> set (taken s (Selection_new s) cs)" "verified_worktree c = Some w"
  shows "w \<notin> set (sn_worktree_leases s)"
proof -
  from assms(1) obtain j where j: "j < length (taken s (Selection_new s) cs)" "c = taken s (Selection_new s) cs ! j"
    by (auto simp: in_set_conv_nth)
  from j(1) show ?thesis
    by (rule taken_saw) (use assms(2) j(2) in \<open>auto simp: take_candidate_Inr Selection_new_def\<close>)
qed

lemma admitted_pair:
  assumes p: "plan since s = Inr p"
    and "c \<in> set (admitted_candidates since s)" "d \<in> set (admitted_candidates since s)"
    and "cd_task_id c \<noteq> cd_task_id d"
  shows "\<forall>m \<in> set (candidate_modules c). \<forall>m' \<in> set (candidate_modules d). contends_with m m' \<longrightarrow>
       (\<exists>w w'. verified_worktree c = Some w \<and> verified_worktree d = Some w' \<and> w \<noteq> w')"
    "\<forall>w. verified_worktree c = Some w \<longrightarrow> verified_worktree d \<noteq> Some w"
    "\<not> (cd_task_id c \<in> set (cd_serializes_with d) \<and> cd_task_id d \<in> set (cd_serializes_with c))"
proof -
  let ?cs = "eligible since s (sorted_candidates s)"
  let ?ts = "taken s (Selection_new s) ?cs"
  have dist: "distinct (map cd_task_id ?cs)"
    using sorted_candidates_distinct [OF plan_Inr(1) [OF p]]
    by (simp add: eligible_def distinct_map_filter)
  from assms(2,3) obtain i j where ij: "i < length ?ts" "c = ?ts ! i" "j < length ?ts" "d = ?ts ! j"
    by (auto simp: admitted_candidates_def in_set_conv_nth)
  with assms(4) have "i < j \<or> j < i" by (metis nat_neq_iff)
  then show "\<forall>m \<in> set (candidate_modules c). \<forall>m' \<in> set (candidate_modules d). contends_with m m' \<longrightarrow>
       (\<exists>w w'. verified_worktree c = Some w \<and> verified_worktree d = Some w' \<and> w \<noteq> w')"
    "\<forall>w. verified_worktree c = Some w \<longrightarrow> verified_worktree d \<noteq> Some w"
    "\<not> (cd_task_id c \<in> set (cd_serializes_with d) \<and> cd_task_id d \<in> set (cd_serializes_with c))"
    using later_take [OF _ ij(3) refl dist, of i] later_take [OF _ ij(1) refl dist, of j] ij contends_with_sym
    by metis+
qed

lemma admitted_are_taken:
  assumes p: "plan since s = Inr p"
  shows "mset (filter (\<lambda>c. cd_task_id c \<in> ac_task_id ` set (plan_batch p)) (sn_candidates s))
     = mset (admitted_candidates since s)"
proof -
  have dist: "distinct (map cd_task_id (sn_candidates s))"
    by (rule snapshot_valid(1) [OF plan_Inr(1) [OF p]])
  have ids: "ac_task_id ` set (plan_batch p) = cd_task_id ` set (admitted_candidates since s)"
    using mset_eq_setD [OF batch_tasks [OF p]] by simp
  have sub: "set (admitted_candidates since s) \<subseteq> set (sn_candidates s)"
    using admitted_candidate_facts(1) by blast
  have "distinct (map cd_task_id (eligible since s (sorted_candidates s)))"
    using sorted_candidates_distinct [OF plan_Inr(1) [OF p]] by (simp add: eligible_def distinct_map_filter)
  then have adm: "distinct (admitted_candidates since s)"
    unfolding admitted_candidates_def by (rule distinct_taken [THEN distinct_map [THEN iffD1], THEN conjunct1])
  have "{c \<in> set (sn_candidates s). cd_task_id c \<in> ac_task_id ` set (plan_batch p)}
      = set (admitted_candidates since s)"
    using dist sub unfolding ids distinct_map by (auto dest: inj_onD)
  with adm dist show ?thesis
    by (subst set_eq_iff_mset_eq_distinct [symmetric]) (auto simp: distinct_map)
qed

definition charged_admissions :: "SchedulingSnapshot \<Rightarrow> Plan \<Rightarrow> (Candidate \<Rightarrow> bool) \<Rightarrow> nat" where
  "charged_admissions s p charged =
     length (filter (\<lambda>c. charged c \<and> cd_task_id c \<in> ac_task_id ` set (plan_batch p)) (sn_candidates s))"

lemma charged_admissions_taken:
  assumes p: "plan since s = Inr p"
  shows "charged_admissions s p charged
     = length (filter charged (taken s (Selection_new s) (eligible since s (sorted_candidates s))))"
proof -
  have "charged_admissions s p charged =
      length (filter charged (filter (\<lambda>c. cd_task_id c \<in> ac_task_id ` set (plan_batch p)) (sn_candidates s)))"
    by (simp add: charged_admissions_def conj_commute)
  also have "\<dots> = size (filter_mset charged (mset (admitted_candidates since s)))"
    by (simp only: admitted_are_taken [OF p, symmetric] mset_filter [symmetric] size_mset)
  finally show ?thesis by (simp add: admitted_candidates_def mset_filter [symmetric] del: mset_filter)
qed

section \<open>What a plan depends on\<close>

lemma refuse_candidates [simp]: "refuse since (s\<lparr>sn_candidates := cs\<rparr>) c = refuse since s c"
proof -
  have "verdict since (s\<lparr>sn_candidates := cs\<rparr>) c b = verdict since s c b" for b
    by (cases b) (simp_all add: readiness_def dependencies_def authorization_def runtime_def account_def
        fresh_def preflight_valid_def cooling_down_def contention_def Let_def cong: option.case_cong split: option.split)
  then have "verdict since (s\<lparr>sn_candidates := cs\<rparr>) c = verdict since s c" by (rule ext)
  then show ?thesis by (simp add: refuse_def)
qed

lemma take_candidates [simp]: "take_candidate sel (s\<lparr>sn_candidates := cs\<rparr>) c = take_candidate sel s c"
  by (simp add: take_candidate_def headroom_def headroom_entries_def cong: option.case_cong)

lemma walk_candidates [simp]: "walk (s\<lparr>sn_candidates := cs'\<rparr>) sel cs = walk s sel cs"
  by (induction s sel cs rule: walk.induct) (auto split: sum.splits)

lemma candidates_order:
  assumes "SchedulingSnapshot_validate s = Inr ()" and "mset cs = mset (sn_candidates s)"
  shows "sort_key candidate_key cs = sorted_candidates s"
    "SchedulingSnapshot_validate (s\<lparr>sn_candidates := cs\<rparr>) = Inr ()"
proof -
  have same: "set cs = set (sn_candidates s)" by (rule mset_eq_setD [OF assms(2)])
  have dist: "distinct (map cd_task_id (sn_candidates s))" by (rule snapshot_valid(1) [OF assms(1)])
  have "inj_on cd_task_id (set (sn_candidates s))" using dist by (simp add: distinct_map)
  then have inj: "inj_on candidate_key (set (sn_candidates s))"
    by (intro inj_onI) (auto dest: candidate_key_inj inj_onD)
  have dist': "distinct (map cd_task_id cs)"
    using dist assms(2) by (metis mset_eq_imp_distinct_iff mset_map)
  then show "sort_key candidate_key cs = sorted_candidates s"
    unfolding sorted_candidates_def using inj dist
    by (intro map_sorted_distinct_set_unique [of candidate_key]) (simp_all add: same distinct_map)
  from dist' show "SchedulingSnapshot_validate (s\<lparr>sn_candidates := cs\<rparr>) = Inr ()"
    using snapshot_valid [OF assms(1)] same
    by (simp add: SchedulingSnapshot_validate_def validate_candidates_Inr)
qed

section \<open>What a refusal in the walk leaves\<close>

definition room_for :: "Selection \<Rightarrow> SchedulingSnapshot \<Rightarrow> Candidate \<Rightarrow> bool" where
  "room_for sel s c \<longleftrightarrow>
     set (cd_serializes_with c) \<inter> set (se_selected_tasks sel) = {}
     \<and> modules_free c (se_module_claims sel)
     \<and> (\<forall>w. verified_worktree c = Some w \<longrightarrow> w \<notin> set (se_worktrees sel))
     \<and> cs_effective (headroom sel s c) \<noteq> 0"

lemma take_candidate_room: "(\<exists>r. take_candidate sel s c = Inr r) \<longleftrightarrow> room_for sel s c"
  by (auto simp: take_candidate_Inr room_for_def)

lemma headroom_zero:
  "cs_effective (headroom sel s c) = 0 \<longleftrightarrow> (\<exists>l. (l, 0) \<in> set (headroom_entries sel s c))"
proof -
  have "headroom_entries sel s c \<noteq> []" by (simp add: headroom_entries_def Let_def)
  then obtain l e where m: "min_by_key snd (headroom_entries sel s c) = Some (l, e)"
    by (cases "min_by_key snd (headroom_entries sel s c)") auto
  from min_by_key_Some [OF m] have "(l, e) \<in> set (headroom_entries sel s c)"
    "\<forall>y \<in> set (headroom_entries sel s c). e \<le> snd y" by auto
  then show ?thesis by (auto simp: headroom_def m Let_def)
qed

lemma counted_bump_mono: "unat (counted counts k') \<le> unat (counted (bump counts k) k')"
proof (cases "k' = k")
  case True
  have "unat (counted counts k) < 2 ^ LENGTH(32)" by (rule unsigned_less)
  then show ?thesis using True by (simp add: bump_def counted_def [of "_(_ \<mapsto> _)"] unat_saturating_add)
qed (simp add: counted_bump_other)


lemma counted_grown:
  "unat (counted m k) \<le> unat (counted (case x of None \<Rightarrow> m | Some y \<Rightarrow> bump m (g y)) k)"
  by (cases x) (simp_all add: counted_bump_mono)

lemma global_grown: "unat n \<le> unat (saturating_add n (1 :: u32))"
proof -
  have "unat n < 2 ^ LENGTH(32)" by (rule unsigned_less)
  then show ?thesis by (simp add: unat_saturating_add)
qed

lemma entries_shrink:
  "list_all2 (\<lambda>x y. fst x = fst y \<and> unat (snd y) \<le> unat (snd x))
     (headroom_entries sel s c) (headroom_entries (claimed sel d) s c)"
  unfolding headroom_entries_def Let_def
  by (intro list_all2_appendI)
    (simp_all add: spend_usage_def diff_le_mono2 global_grown counted_grown counted_bump_mono split: option.split)

lemma entries_kept_empty:
  assumes "(l, 0) \<in> set (headroom_entries sel s c)"
  shows "(l, 0) \<in> set (headroom_entries (claimed sel d) s c)"
proof -
  from assms obtain i where i: "i < length (headroom_entries sel s c)" "headroom_entries sel s c ! i = (l, 0)"
    by (auto simp: in_set_conv_nth)
  with list_all2_nthD [OF entries_shrink i(1), of d] have "headroom_entries (claimed sel d) s c ! i = (l, 0)"
    by (simp add: prod_eq_iff unat_eq_0)
  with i(1) list_all2_lengthD [OF entries_shrink, of sel s c d] show ?thesis by (metis nth_mem)
qed

lemma refusal_kept: "\<not> room_for sel s c \<Longrightarrow> \<not> room_for (claimed sel d) s c"
  by (fastforce simp: room_for_def headroom_zero modules_free_def dest: entries_kept_empty [where d = d])

lemma refusal_kept_all: "\<not> room_for sel s c \<Longrightarrow> \<not> room_for (foldl claimed sel ds) s c"
  by (induction ds arbitrary: sel) (simp_all add: refusal_kept)

lemma passed_over:
  assumes "c \<in> set cs" "c \<notin> set (taken s sel cs)"
  shows "\<not> room_for (foldl claimed sel (taken s sel cs)) s c"
  using assms
proof (induction cs arbitrary: sel)
  case (Cons d cs)
  show ?case
  proof (cases "take_candidate sel s d")
    case (Inl r)
    then have "\<not> room_for sel s d" using take_candidate_room [of sel s d] by auto
    with Inl Cons refusal_kept_all [of sel s d] show ?thesis by auto
  next
    case (Inr r)
    then have "snd r = claimed sel d" by (cases r) (simp add: take_candidate_Inr)
    with Inr Cons show ?thesis by (cases r) auto
  qed
qed simp

abbreviation walk_codes :: "RejectionCode option set" where
  "walk_codes \<equiv> {None, Some RejectionCode.SerializationPeerInFlight, Some RejectionCode.ModuleInFlight,
     Some RejectionCode.WorktreeDuplicate, Some RejectionCode.CapacityExhausted}"

lemma take_candidate_code: "take_candidate sel s c = Inl r \<Longrightarrow> Some (fst r) \<in> walk_codes"
  by (auto simp: take_candidate_def module_conflict_def refusal_defs Let_def
      split: option.splits if_splits)

lemma walk_decision:
  "d \<in> set (walk s sel cs) \<Longrightarrow>
     \<exists>c \<in> set cs. decision_task_id d = cd_task_id c \<and> decision_rejection_code d \<in> walk_codes"
proof (induction cs arbitrary: sel)
  case (Cons c cs)
  show ?case
  proof (cases "take_candidate sel s c")
    case (Inl r)
    with Cons take_candidate_code [OF Inl] show ?thesis by (auto simp: rejected_def)
  next
    case (Inr r)
    with Cons show ?thesis by (cases r) (auto dest: take_candidate_task)
  qed
qed simp

lemma plan_decision:
  assumes "plan since s = Inr p" and "d \<in> set (plan_decisions p)"
  shows "\<exists>c \<in> set (sn_candidates s). decision_task_id d = cd_task_id c
     \<and> (case refuse since s c of Some r \<Rightarrow> d = rejected c r | None \<Rightarrow> decision_rejection_code d \<in> walk_codes)"
proof -
  from assms(2) consider "d \<in> set (refusals since s (sorted_candidates s))"
    | "d \<in> set (walk s (Selection_new s) (eligible since s (sorted_candidates s)))"
    by (auto simp: plan_Inr(2) [OF assms(1)])
  then show ?thesis
  proof cases
    case 1
    then show ?thesis by (auto simp: refusals_def in_map_filter rejected_def)
  next
    case 2
    from walk_decision [OF this] obtain c where "c \<in> set (eligible since s (sorted_candidates s))"
      "decision_task_id d = cd_task_id c" "decision_rejection_code d \<in> walk_codes" by blast
    then show ?thesis by (intro bexI [of _ c]) (simp_all add: eligible_def)
  qed
qed

lemma explain_blockers:
  assumes "SchedulingSnapshot_validate s = Inr ()" "c \<in> set (sn_candidates s)"
  obtains rs where "explain since s c = Inr rs"
    "map rf_blocker rs = filter (\<lambda>b. verdict since s c b \<noteq> None) BLOCKER_ORDER"
    "refuse since s c = (case rs of [] \<Rightarrow> None | r # _ \<Rightarrow> Some (rf_code r, rf_evidence r))"
proof -
  let ?f = "\<lambda>b. map_option (\<lambda>(code, evidence). \<lparr>rf_blocker = b, rf_code = code, rf_evidence = evidence\<rparr>)
      (verdict since s c b)"
  have blockers: "map rf_blocker (List.map_filter ?f bs) = filter (\<lambda>b. verdict since s c b \<noteq> None) bs" for bs
    by (induction bs) (auto simp: map_filter_simps split: option.splits)
  have first: "first_some (verdict since s c) bs
      = (case List.map_filter ?f bs of [] \<Rightarrow> None | r # _ \<Rightarrow> Some (rf_code r, rf_evidence r))" for bs
    by (induction bs) (auto simp: map_filter_simps split: option.splits)
  have "explain since s c = Inr (List.map_filter ?f BLOCKER_ORDER)"
    using assms(1) snapshot_valid(4) [OF assms(1)] assms(2) by (simp add: explain_def)
  then show ?thesis by (rule that) (simp_all only: blockers first refuse_def)
qed

lemma batch_pair:
  assumes "plan since s = Inr p" and "a \<in> set (plan_batch p)" "b \<in> set (plan_batch p)"
    and "ac_task_id a \<noteq> ac_task_id b"
  obtains c d where "c \<in> set (admitted_candidates since s)" "d \<in> set (admitted_candidates since s)"
    "cd_task_id c \<noteq> cd_task_id d"
    "admitted_modules a = candidate_modules c" "admitted_modules b = candidate_modules d"
    "ac_worktree a = verified_worktree c" "ac_worktree b = verified_worktree d"
    "ac_task_id a = cd_task_id c" "ac_task_id b = cd_task_id d"
proof -
  from batch_candidate [OF assms(1,2)] obtain c x where c: "c \<in> set (admitted_candidates since s)"
    "a = admitted_record x c" by blast
  from batch_candidate [OF assms(1,3)] obtain d y where d: "d \<in> set (admitted_candidates since s)"
    "b = admitted_record y d" by blast
  show ?thesis
    by (rule that [OF c(1) d(1)]) (use c(2) d(2) assms(4) in
      \<open>simp_all add: admitted_record_def admitted_modules_def candidate_modules_def\<close>)
qed

lemma batch_modules_isolated:
  assumes "plan since s = Inr p" and "a \<in> set (plan_batch p)" "b \<in> set (plan_batch p)"
    and "ac_task_id a \<noteq> ac_task_id b" and "m \<in> set (admitted_modules a)" "m' \<in> set (admitted_modules b)"
    and "contends_with m m'"
  shows "\<exists>w w'. ac_worktree a = Some w \<and> ac_worktree b = Some w' \<and> w \<noteq> w'"
proof -
  from batch_pair [OF assms(1-4)] obtain c d where "c \<in> set (admitted_candidates since s)"
    "d \<in> set (admitted_candidates since s)" "cd_task_id c \<noteq> cd_task_id d"
    "admitted_modules a = candidate_modules c" "admitted_modules b = candidate_modules d"
    "ac_worktree a = verified_worktree c" "ac_worktree b = verified_worktree d" .
  with admitted_pair(1) [OF assms(1), of c d] assms(5-7) show ?thesis by auto
qed

lemma batch_lease_isolated:
  assumes "plan since s = Inr p" and "a \<in> set (plan_batch p)" and "m \<in> set (admitted_modules a)"
    and "k \<in> set (sn_module_leases s)" "mc_in_flight k" "contends_with (mc_module k) m"
    "mc_task_id k \<noteq> ac_task_id a"
  shows "\<exists>w w'. ac_worktree a = Some w \<and> mc_worktree k = Some w' \<and> w \<noteq> w'"
proof -
  from batch_candidate [OF assms(1,2)] obtain c x where c: "c \<in> set (admitted_candidates since s)"
    "a = admitted_record x c" by blast
  then have "modules_free c (sn_module_leases s)"
    using admitted_candidate_facts(2) [OF c(1)] by (simp add: admissible_def)
  with c(2) assms(3-7) show ?thesis
    by (simp add: modules_free_def isolated_from_def admitted_record_def admitted_modules_def
        candidate_modules_def)
qed

section \<open>Properties\<close>

text \<open>A plan decides every candidate exactly once, in the total order of priority, age and task
  id, whatever the blockers and the ceilings answered.\<close>

theorem plan_decides_each_once:
  assumes "plan since s = Inr p"
  shows "map decision_task_id (plan_decisions p) = map cd_task_id (sort_key candidate_key (sn_candidates s))
     \<and> distinct (map decision_task_id (plan_decisions p))"
  using decisions_in_order [OF assms] sorted_candidates_distinct [OF plan_Inr(1) [OF assms]]
  by (simp add: sorted_candidates_def)

text \<open>C2. Whatever a plan admits is admissible: the task is ready and not in flight, its epic is
  governed, its placement attested, its origin, grant and calendar allow it now, its dependencies
  are done, nothing external stands against it, its runtime and pinned account are proved and
  fresh, a claimed tree is verified, and no peer or lease contends with it.  Conversely no blocker
  refuses an admissible candidate.\<close>

theorem admissions_are_admissible:
  assumes "plan since s = Inr p"
  shows "(\<forall>a \<in> set (plan_batch p). \<exists>c \<in> set (sn_candidates s). admissible since s c
        \<and> (\<exists>capacity. a = admitted_record capacity c \<and> cs_effective capacity \<noteq> 0))
     \<and> (\<forall>c. refuse since s c = None \<longleftrightarrow> admissible since s c)"
  using batch_candidate [OF assms] admitted_candidate_facts refuse_None by metis


section \<open>A worked snapshot\<close>

definition sample_since :: since where
  "sample_since later earlier = later - earlier"

definition sample_candidate :: "uuid \<Rightarrow> string option \<Rightarrow> u32 \<Rightarrow> Candidate" where
  "sample_candidate task tree priority =
     \<lparr>cd_project_id = 100, cd_task_id = task, cd_mini_project_id = None, cd_workflow_id = 200,
      cd_delivery_slots_registered = True, cd_placement = PlacementAdmission.Confirmed ''digest'',
      cd_state = TaskState.Ready, cd_revision = 1, cd_created_at = 10, cd_priority = priority,
      cd_governance = RosterGovernance.Seated, cd_module = Some ''billing'', cd_changed_modules = [],
      cd_worktree = map_option (\<lambda>w. \<lparr>wc_worktree = w, wc_verification = WorktreeVerification.Verified\<rparr>) tree,
      cd_depends_on = [], cd_serializes_with = [], cd_origin = Manual, cd_authorization = None,
      cd_blocked_by = None, cd_calendar = calendar_unrestricted,
      cd_runtime =
        \<lparr>ra_runtime_kind = ''paseo'', ra_host = ''local'', ra_generation = 1,
         ra_capabilities =
           \<lparr>rc_trust_grade = GradeA, rc_supported = minimum_launch_capabilities, rc_account_env = True,
            rc_limits = \<lparr>rl_max_message_bytes = 1000, rl_max_history_page = 10,
              rl_max_concurrent_sessions = 8, rl_context_window = sample_bounds\<rparr>\<rparr>,
         ra_required = minimum_launch_capabilities, ra_health = RuntimeHealth.Healthy,
         ra_reconciliation =
           \<lparr>ree_epoch_completed = True,
            ree_scope = \<lparr>rsc_project_id = 100, rsc_runtime_kind = ''paseo'', rsc_host = ''local'',
              rsc_generation = 1\<rparr>,
            ree_open_replay_gap = False, ree_divergence = False, ree_orphan_ambiguity = False,
            ree_stale_lost_contact = False\<rparr>,
         ra_last_confirmed_at = Some 45\<rparr>,
      cd_account = \<lparr>aa_pin = None, aa_required_capabilities = []\<rparr>,
      cd_external = \<lparr>ew_blocking_conflicts = [], ew_ownership = None\<rparr>\<rparr>"

definition sample_schedule :: SchedulingSnapshot where
  "sample_schedule =
     \<lparr>sn_schema_version = 1, sn_taken_at = 50,
      sn_candidates = [sample_candidate 1 (Some ''tree-a'') 5, sample_candidate 2 (Some ''tree-b'') 9,
        sample_candidate 3 None 7],
      sn_in_flight_tasks = [], sn_completed_tasks = [], sn_module_leases = [], sn_worktree_leases = [],
      sn_usage = \<lparr>cu_global_in_flight = 0, cu_project_in_flight = Map.empty,
        cu_mission_in_flight = Map.empty, cu_account_in_flight = Map.empty,
        cu_provider_in_flight = Map.empty, cu_runtime_in_flight = Map.empty\<rparr>,
      sn_capacity = \<lparr>cc_global_max_in_flight = 4, cc_project_max_in_flight = 2,
        cc_mission_max_in_flight = 2, cc_account_max_in_flight = 2, cc_provider_max_in_flight = 2,
        cc_runtime_max_in_flight = 2,
        cc_adaptive = \<lparr>aw_initial = 2, aw_floor = 1, aw_ceiling = 4, aw_growth_step = 1\<rparr>,
        cc_headroom = None\<rparr>,
      sn_adaptive_window = \<lparr>window_current = 2\<rparr>, sn_freshness = 30\<rparr>"

lemma sample_key: "candidate_key (sample_candidate task tree priority) = (- int (unat priority), 10, task)"
  by (simp add: candidate_key_def ordering_sort_key_def candidate_ordering_def sample_candidate_def)

lemma sample_order:
  "sorted_candidates sample_schedule =
     [sample_candidate 2 (Some ''tree-b'') 9, sample_candidate 3 None 7, sample_candidate 1 (Some ''tree-a'') 5]"
  by (simp add: sorted_candidates_def sample_schedule_def sample_key)

lemma sample_valid: "SchedulingSnapshot_validate sample_schedule = Inr ()"
  by (simp add: SchedulingSnapshot_validate_def sample_schedule_def CapacityConfig_validate_def
      AdaptiveWindowConfig_validate_def Candidate_validate_def sample_candidate_def MAX_PRIORITY_def
      CalendarAdmission_validate_def calendar_unrestricted_def)

lemma sample_admissible: "refuse sample_since sample_schedule (sample_candidate task tree priority) = None"
  unfolding refuse_None
  by (simp add: admissible_def sample_candidate_def sample_schedule_def origin_authorizes_def
      admits_new_work_def calendar_unrestricted_def external_clear_def runtime_ready_def
      reconciliation_settled_def sample_since_def verified_worktree_def claim_verified_def
      modules_free_def split: option.splits)

lemma sample_taken:
  "taken sample_schedule (Selection_new sample_schedule)
     [sample_candidate 2 (Some ''tree-b'') 9, sample_candidate 3 None 7, sample_candidate 1 (Some ''tree-a'') 5]
   = [sample_candidate 2 (Some ''tree-b'') 9, sample_candidate 1 (Some ''tree-a'') 5]"
  by (simp add: take_candidate_def Selection_new_def sample_schedule_def sample_candidate_def
      module_conflict_def candidate_modules_def integration_modules_def verified_worktree_def
      claim_verified_def contenders_of_def module_isolated_by_worktree_def claimed_def spend_def
      spend_usage_def headroom_def headroom_entries_def module_claims_def counted_def bump_def
      saturating_add_def saturating_sub_def candidate_provider_def contends_with_def refusal_defs
      Let_def sample_bounds_def)

text \<open>C4. A plan never overcommits: counting what was in flight, the admitted batch stays within the
  global, project, mission, account, provider and runtime ceilings, or admits nothing more where a
  ceiling was already exceeded, and the batch is no larger than the adaptive window.\<close>

theorem plan_within_capacity:
  assumes "plan since s = Inr p"
  shows "length (plan_batch p) \<le> unat (window_current (sn_adaptive_window s))
     \<and> unat (cu_global_in_flight (sn_usage s)) + charged_admissions s p (\<lambda>_. True)
         \<le> max (unat (cc_global_max_in_flight (sn_capacity s))) (unat (cu_global_in_flight (sn_usage s)))
     \<and> (\<forall>project. unat (counted (cu_project_in_flight (sn_usage s)) project)
           + charged_admissions s p (\<lambda>c. cd_project_id c = project)
         \<le> max (unat (cc_project_max_in_flight (sn_capacity s)))
               (unat (counted (cu_project_in_flight (sn_usage s)) project)))
     \<and> (\<forall>mission. unat (counted (cu_mission_in_flight (sn_usage s)) mission)
           + charged_admissions s p (\<lambda>c. cd_mini_project_id c = Some mission)
         \<le> max (unat (cc_mission_max_in_flight (sn_capacity s)))
               (unat (counted (cu_mission_in_flight (sn_usage s)) mission)))
     \<and> (\<forall>profile. unat (counted (cu_account_in_flight (sn_usage s)) profile)
           + charged_admissions s p (\<lambda>c. map_option pin_account_profile_id (aa_pin (cd_account c)) = Some profile)
         \<le> max (unat (cc_account_max_in_flight (sn_capacity s)))
               (unat (counted (cu_account_in_flight (sn_usage s)) profile)))
     \<and> (\<forall>provider. unat (counted (cu_provider_in_flight (sn_usage s)) provider)
           + charged_admissions s p (\<lambda>c. candidate_provider c = Some provider)
         \<le> max (unat (cc_provider_max_in_flight (sn_capacity s)))
               (unat (counted (cu_provider_in_flight (sn_usage s)) provider)))
     \<and> (\<forall>kind. unat (counted (cu_runtime_in_flight (sn_usage s)) kind)
           + charged_admissions s p (\<lambda>c. ra_runtime_kind (cd_runtime c) = kind)
         \<le> max (unat (cc_runtime_max_in_flight (sn_capacity s)))
               (unat (counted (cu_runtime_in_flight (sn_usage s)) kind)))"
proof -
  note within = charged_admissions_taken [OF assms]
  let ?cs = "eligible since s (sorted_candidates s)"
  have "length (plan_batch p) = length (taken s (Selection_new s) ?cs)"
    using arg_cong [OF batch_tasks [OF assms], of size] by (simp add: admitted_candidates_def)
  moreover have "unat (window_current (sn_adaptive_window s)) < 2 ^ LENGTH(32)" by (rule unsigned_less)
  ultimately have "length (plan_batch p) \<le> unat (window_current (sn_adaptive_window s))"
    using window_ceiling.walk_within [of "Selection_new s" s ?cs] by (simp add: Selection_new_def)
  then show ?thesis
    using global_ceiling.walk_within [of "Selection_new s" s ?cs]
      project_ceiling.walk_within [of "Selection_new s" _ s ?cs]
      mission_ceiling.walk_within [of "Selection_new s" _ s ?cs]
      account_ceiling.walk_within [of "Selection_new s" _ s ?cs]
      provider_ceiling.walk_within [of "Selection_new s" _ s ?cs]
      runtime_ceiling.walk_within [of "Selection_new s" _ s ?cs]
    unfolding within by (simp add: Selection_new_def)
qed

text \<open>A plan is a function of the set of candidates: presenting the same candidates in another order
  gives the same plan, decision for decision.\<close>

theorem plan_order_independent:
  assumes "plan since s = Inr p" and "mset cs = mset (sn_candidates s)"
  shows "plan since (s\<lparr>sn_candidates := cs\<rparr>) = Inr p"
proof -
  note valid = plan_Inr(1) [OF assms(1)]
  have order: "sorted_candidates (s\<lparr>sn_candidates := cs\<rparr>) = sorted_candidates s"
    using candidates_order(1) [OF valid assms(2)] by (simp add: sorted_candidates_def)
  have "refusals since (s\<lparr>sn_candidates := cs\<rparr>) ds = refusals since s ds"
    "eligible since (s\<lparr>sn_candidates := cs\<rparr>) ds = eligible since s ds" for ds
    by (simp_all add: refusals_def eligible_def)
  then show ?thesis
    using assms(1) valid candidates_order(2) [OF valid assms(2)] order
    by (simp add: plan_def Selection_new_def Let_def)
qed

text \<open>C25. A plan wastes no room: an admissible candidate that is not in the batch could not have been
  added to it either, because against the finished batch it still meets a serialization peer, a
  contending module claim, a taken tree or an exhausted ceiling.\<close>

theorem plan_is_maximal:
  assumes "plan since s = Inr p" and "c \<in> set (sn_candidates s)" and "admissible since s c"
    and "cd_task_id c \<notin> ac_task_id ` set (plan_batch p)"
  shows "\<not> room_for (foldl claimed (Selection_new s) (admitted_candidates since s)) s c"
proof -
  have "c \<in> set (eligible since s (sorted_candidates s))"
    using assms(2,3) by (simp add: eligible_def refuse_None)
  moreover have "c \<notin> set (admitted_candidates since s)"
    using assms(4) mset_eq_setD [OF batch_tasks [OF assms(1)]] by auto
  ultimately show ?thesis using passed_over by (simp add: admitted_candidates_def)
qed

text \<open>The reason a plan gives is the first blocker of the full explanation, in the declared blocker
  order; a candidate with an empty explanation is admitted or refused for what the walk holds: a
  serialization peer, a module claim, a duplicated tree or exhausted capacity.\<close>

theorem plan_reports_first_blocker:
  assumes "plan since s = Inr p" and "c \<in> set (sn_candidates s)"
  shows "\<exists>rs. explain since s c = Inr rs
     \<and> map rf_blocker rs = filter (\<lambda>b. verdict since s c b \<noteq> None) BLOCKER_ORDER
     \<and> (\<forall>d \<in> set (plan_decisions p). decision_task_id d = cd_task_id c \<longrightarrow>
          (case rs of
             r # _ \<Rightarrow> d = CandidateDecision.Reject (cd_task_id c) (cd_project_id c) (rf_code r) (rf_evidence r)
           | [] \<Rightarrow> decision_rejection_code d \<in> {None, Some RejectionCode.SerializationPeerInFlight,
                Some RejectionCode.ModuleInFlight, Some RejectionCode.WorktreeDuplicate,
                Some RejectionCode.CapacityExhausted}))"
proof -
  note valid = plan_Inr(1) [OF assms(1)]
  have same: "c' = c" if "c' \<in> set (sn_candidates s)" "cd_task_id c' = cd_task_id c" for c'
    using that assms(2) snapshot_valid(1) [OF valid] by (auto simp: distinct_map dest: inj_onD)
  from explain_blockers [OF valid assms(2), of since] obtain rs where rs: "explain since s c = Inr rs"
    "map rf_blocker rs = filter (\<lambda>b. verdict since s c b \<noteq> None) BLOCKER_ORDER"
    "refuse since s c = (case rs of [] \<Rightarrow> None | r # _ \<Rightarrow> Some (rf_code r, rf_evidence r))" .
  have "case refuse since s c of Some r \<Rightarrow> d = rejected c r | None \<Rightarrow> decision_rejection_code d \<in> walk_codes"
    if "d \<in> set (plan_decisions p)" "decision_task_id d = cd_task_id c" for d
  proof -
    from plan_decision [OF assms(1) that(1)] that(2) obtain c' where "c' \<in> set (sn_candidates s)"
      "cd_task_id c' = cd_task_id c" "case refuse since s c' of Some r \<Rightarrow> d = rejected c' r
        | None \<Rightarrow> decision_rejection_code d \<in> walk_codes" by auto
    then show ?thesis using same by blast
  qed
  with rs show ?thesis by (cases rs) (auto simp: rejected_def)
qed

lemma sample_planned:
  obtains p where "plan sample_since sample_schedule = Inr p"
    "ac_task_id ` set (plan_batch p) = {1, 2}"
    "admitted_candidates sample_since sample_schedule
     = [sample_candidate 2 (Some ''tree-b'') 9, sample_candidate 1 (Some ''tree-a'') 5]"
proof -
  have "\<exists>p. plan sample_since sample_schedule = Inr p" by (simp add: plan_def sample_valid Let_def)
  then obtain p where p: "plan sample_since sample_schedule = Inr p" ..
  have admitted: "admitted_candidates sample_since sample_schedule
      = [sample_candidate 2 (Some ''tree-b'') 9, sample_candidate 1 (Some ''tree-a'') 5]"
    by (simp only: admitted_candidates_def sample_order eligible_def sample_admissible filter.simps
        simp_thms if_True sample_taken)
  have "ac_task_id ` set (plan_batch p) = {1, 2}"
    using mset_eq_setD [OF batch_tasks [OF p]] by (auto simp: admitted sample_candidate_def)
  with that p admitted show ?thesis by blast
qed

theorem plan_decides_each_once_witness:
  "\<exists>p. plan sample_since sample_schedule = Inr p \<and> map decision_task_id (plan_decisions p) = [2, 3, 1]"
proof -
  obtain p where p: "plan sample_since sample_schedule = Inr p" by (rule sample_planned)
  have "map cd_task_id (sort_key candidate_key (sn_candidates sample_schedule)) = [2, 3, 1]"
    using sample_order by (simp add: sorted_candidates_def sample_candidate_def)
  with p plan_decides_each_once [OF p] show ?thesis by auto
qed

theorem admissions_are_admissible_witness:
  "\<exists>p a c. plan sample_since sample_schedule = Inr p \<and> a \<in> set (plan_batch p)
     \<and> c \<in> set (sn_candidates sample_schedule) \<and> admissible sample_since sample_schedule c
     \<and> (\<exists>capacity. a = admitted_record capacity c)"
proof -
  obtain p where p: "plan sample_since sample_schedule = Inr p" "ac_task_id ` set (plan_batch p) = {1, 2}"
    by (rule sample_planned)
  then obtain a where "a \<in> set (plan_batch p)" by (metis image_iff insertI1)
  with p(1) admissions_are_admissible [OF p(1)] show ?thesis by blast
qed


theorem plan_within_capacity_witness:
  "\<exists>p. plan sample_since sample_schedule = Inr p \<and> length (plan_batch p) \<le> 2"
proof -
  obtain p where p: "plan sample_since sample_schedule = Inr p" by (rule sample_planned)
  have "unat (window_current (sn_adaptive_window sample_schedule)) = 2" by (simp add: sample_schedule_def)
  with p plan_within_capacity [OF p] show ?thesis by auto
qed

theorem plan_order_independent_witness:
  "plan sample_since (sample_schedule\<lparr>sn_candidates := rev (sn_candidates sample_schedule)\<rparr>)
   = plan sample_since sample_schedule"
proof -
  obtain p where p: "plan sample_since sample_schedule = Inr p" by (rule sample_planned)
  with plan_order_independent [OF p, of "rev (sn_candidates sample_schedule)"] show ?thesis by simp
qed

theorem plan_is_maximal_witness:
  "\<not> room_for (foldl claimed (Selection_new sample_schedule)
       [sample_candidate 2 (Some ''tree-b'') 9, sample_candidate 1 (Some ''tree-a'') 5])
     sample_schedule (sample_candidate 3 None 7)"
proof -
  obtain p where p: "plan sample_since sample_schedule = Inr p" "ac_task_id ` set (plan_batch p) = {1, 2}"
    "admitted_candidates sample_since sample_schedule
     = [sample_candidate 2 (Some ''tree-b'') 9, sample_candidate 1 (Some ''tree-a'') 5]"
    by (rule sample_planned)
  have "admissible sample_since sample_schedule (sample_candidate 3 None 7)"
    using sample_admissible [of 3 None 7] by (simp add: refuse_None)
  with plan_is_maximal [OF p(1), of "sample_candidate 3 None 7"] p(2,3) show ?thesis
    by (simp add: sample_schedule_def sample_candidate_def)
qed

theorem plan_reports_first_blocker_witness:
  "explain sample_since sample_schedule (sample_candidate 3 None 7) = Inr []
   \<and> (\<exists>p. plan sample_since sample_schedule = Inr p
        \<and> (\<forall>d \<in> set (plan_decisions p). decision_task_id d = 3 \<longrightarrow> decision_rejection_code d \<in> walk_codes))"
proof -
  let ?c = "sample_candidate 3 None 7"
  obtain p where p: "plan sample_since sample_schedule = Inr p" by (rule sample_planned)
  have c: "?c \<in> set (sn_candidates sample_schedule)" "cd_task_id ?c = 3"
    by (simp_all add: sample_schedule_def sample_candidate_def)
  have "\<forall>b. verdict sample_since sample_schedule ?c b = None"
    using sample_admissible [of 3 None 7] by (simp add: refuse_None verdicts_None)
  with plan_reports_first_blocker [OF p c(1)] p c(2) show ?thesis by auto
qed

end
