(* ===== verification/Completion.thy ===== *)
theory Completion
  imports Completion_Gate
begin

text \<open>
  \<^verbatim>\<open>crates/kontor-scheduler/src/completion.rs\<close>: a completion profile compiled into a graph of
  ordinary execution nodes, and the revision-checked machine that carries an epic from its tickets
  over integration, verdict and remediation rounds to closeout.  The canonical bytes of a profile
  and their hash are one parameter, \<open>digest\<close>.
\<close>

section \<open>Profiles and their compiled graph\<close>

record PollingFallback =
  pf_max_attempts :: u8

record CompletionProfile =
  pr_id :: string
  pr_version :: u32
  pr_name :: string
  pr_integration_team :: string
  pr_verdict_committee :: string
  pr_max_remediation_rounds :: u8
  pr_polling_fallback :: "PollingFallback option"

definition CompletionProfile_validate :: "CompletionProfile \<Rightarrow> unit DomainResult" where
  "CompletionProfile_validate p =
     (case pr_polling_fallback p of
        Some f \<Rightarrow>
          if pf_max_attempts f = 0
          then Inl (Invalid ''completion profile polling fallback''
                 ''max_attempts must be positive when polling is declared'')
          else Inr ()
      | None \<Rightarrow> Inr ())"

definition operational_default :: "CompletionProfile DomainResult" where
  "operational_default =
     try_bind (ExternalName_parse ''operational_default'') (\<lambda>i.
     try_bind (ExternalName_parse ''Operational default'') (\<lambda>name.
     try_bind (ExternalName_parse ''Team C'') (\<lambda>team.
     try_bind (ExternalName_parse ''independent_review@1'') (\<lambda>committee.
       Inr \<lparr>pr_id = i, pr_version = SpecVersion_FIRST, pr_name = name, pr_integration_team = team,
            pr_verdict_committee = committee, pr_max_remediation_rounds = 1,
            pr_polling_fallback = None\<rparr>))))"

datatype CompletionNodeKey =
    Tickets
  | Integration
  | Verdict u8
  | Remediation u8
  | Closeout CloseoutRequirement
  | Done
  | NeedsHuman

datatype CompletionNodeKind =
    TaskGate
  | TeamRun string
  | CommitteeGate string u8
  | Remediation u8
  | Receipt CloseoutRequirement
  | Done
  | NeedsHuman

datatype CompletionEdgeCondition = Success | Pass | Fail

record CompletionNode =
  nd_key :: CompletionNodeKey
  nd_kind :: CompletionNodeKind

record CompletionEdge =
  ed_from :: CompletionNodeKey
  ed_to :: CompletionNodeKey
  ed_condition :: CompletionEdgeCondition

record CompiledCompletion =
  cc_profile :: CompletionProfile
  cc_definition_hash :: content_hash
  cc_nodes :: "CompletionNode list"
  cc_edges :: "CompletionEdge list"

abbreviation node :: "CompletionNodeKey \<Rightarrow> CompletionNodeKind \<Rightarrow> CompletionNode" where
  "node k kind \<equiv> \<lparr>nd_key = k, nd_kind = kind\<rparr>"

abbreviation edge :: "CompletionNodeKey \<Rightarrow> CompletionNodeKey \<Rightarrow> CompletionEdgeCondition \<Rightarrow> CompletionEdge" where
  "edge a b c \<equiv> \<lparr>ed_from = a, ed_to = b, ed_condition = c\<rparr>"

definition verdict_round :: "string \<Rightarrow> u8 \<Rightarrow> u8 DomainResult" where
  "verdict_round subject round =
     (case checked_add round 1 of
        Some r \<Rightarrow> Inr r
      | None \<Rightarrow> Inl (Invalid subject ''the verdict round overflowed''))"

text \<open>The inclusive range \<open>1..=n\<close> of a byte.\<close>

definition rounds_to :: "u8 \<Rightarrow> u8 list" where
  "rounds_to n = map of_nat [1..<Suc (unat n)]"

fun compile_rounds ::
  "string \<Rightarrow> u8 list \<Rightarrow> (CompletionNode list \<times> CompletionEdge list) DomainResult" where
  "compile_rounds committee [] = Inr ([], [])"
| "compile_rounds committee (r # rs) =
     try_bind (verdict_round ''completion profile'' r) (\<lambda>v.
     try_bind (compile_rounds committee rs) (\<lambda>(nodes, edges).
       Inr ([node (CompletionNodeKey.Remediation r) (CompletionNodeKind.Remediation r),
             node (CompletionNodeKey.Verdict v) (CommitteeGate committee v)] @ nodes,
            [edge (CompletionNodeKey.Verdict r) (CompletionNodeKey.Remediation r) CompletionEdgeCondition.Fail,
             edge (CompletionNodeKey.Remediation r) (CompletionNodeKey.Verdict v)
               CompletionEdgeCondition.Success] @ edges)))"

definition closeout_nodes :: "CompletionNode list" where
  "closeout_nodes = map (\<lambda>r. node (CompletionNodeKey.Closeout r) (Receipt r)) CloseoutRequirement_ALL"

definition closeout_edges :: "CompletionEdge list" where
  "closeout_edges =
     map2 (\<lambda>a b. edge (CompletionNodeKey.Closeout a) (CompletionNodeKey.Closeout b)
        CompletionEdgeCondition.Success) CloseoutRequirement_ALL (tl CloseoutRequirement_ALL)"

definition compile :: "(CompletionProfile \<Rightarrow> content_hash DomainResult) \<Rightarrow> CompletionProfile \<Rightarrow>
    CompiledCompletion DomainResult" where
  "compile digest p =
     try_bind (CompletionProfile_validate p) (\<lambda>_.
     try_bind (digest p) (\<lambda>hash.
     try_bind (compile_rounds (pr_verdict_committee p) (rounds_to (pr_max_remediation_rounds p)))
       (\<lambda>(nodes, edges).
     try_bind (verdict_round ''completion profile'' (pr_max_remediation_rounds p)) (\<lambda>final.
       Inr \<lparr>cc_profile = p, cc_definition_hash = hash,
         cc_nodes =
           [node CompletionNodeKey.Tickets TaskGate,
            node CompletionNodeKey.Integration (TeamRun (pr_integration_team p)),
            node (CompletionNodeKey.Verdict 1) (CommitteeGate (pr_verdict_committee p) 1)]
           @ nodes @ closeout_nodes
           @ [node CompletionNodeKey.Done CompletionNodeKind.Done,
              node CompletionNodeKey.NeedsHuman CompletionNodeKind.NeedsHuman],
         cc_edges =
           [edge CompletionNodeKey.Tickets CompletionNodeKey.Integration CompletionEdgeCondition.Success,
            edge CompletionNodeKey.Integration (CompletionNodeKey.Verdict 1) CompletionEdgeCondition.Success]
           @ edges
           @ map (\<lambda>v. edge (CompletionNodeKey.Verdict v) (CompletionNodeKey.Closeout Merge)
                CompletionEdgeCondition.Pass) (rounds_to final)
           @ [edge (CompletionNodeKey.Verdict final) CompletionNodeKey.NeedsHuman CompletionEdgeCondition.Fail]
           @ closeout_edges
           @ [edge (CompletionNodeKey.Closeout Archive) CompletionNodeKey.Done
                CompletionEdgeCondition.Success]\<rparr>))))"

section \<open>State\<close>

record CompletionProfileRef =
  pf_id :: string
  pf_version :: u32
  pf_name :: string
  pf_definition_hash :: content_hash

datatype CompletionPhase =
    Tickets
  | Integration
  | Verdict u8
  | AwaitRemediation u8
  | Remediating u8
  | Closeout
  | Done
  | NeedsHuman

definition CompletionPhase_is_terminal :: "CompletionPhase \<Rightarrow> bool" where
  "CompletionPhase_is_terminal p \<longleftrightarrow> p \<in> {CompletionPhase.Done, CompletionPhase.NeedsHuman}"

record RepositoryOutcome =
  ro_repository :: string
  ro_pull_request :: string
  ro_module_revision :: string
  ro_root_pointer_revision :: "string option"

record EraStamp =
  era_generation :: u32
  era_definition_hash :: content_hash
  era_team :: "string option"

record IntegrationRecord =
  in_receipt :: content_hash
  in_repositories :: "RepositoryOutcome list"
  in_decided_in :: "EraStamp option"

record RecordedCloseout =
  cl_generation :: u32
  cl_definition_hash :: content_hash
  cl_evidence :: CloseoutEvidence

datatype CommitteeVerdict = Pass | Fail

record CompletionRound =
  cr_round :: u8
  cr_verdict :: CommitteeVerdict
  cr_evidence :: content_hash
  cr_committee_run_id :: "uuid option"
  cr_result_hash :: "content_hash option"
  cr_remediation_hash :: "content_hash option"
  cr_deliberation :: "DeliberationStep list"
  cr_decided_in :: "EraStamp option"

record RemediationAuthority =
  au_seat_binding_id :: uuid
  au_occupancy_generation :: u64

record RemediationAuthorization =
  rz_lsa_proposal :: content_hash
  rz_tpm_routing :: content_hash
  rz_lsa_actor :: "RemediationAuthority option"
  rz_tpm_actor :: "RemediationAuthority option"
  rz_needs_human_recovery :: bool

record RemediationRecord =
  rd_round :: u8
  rd_authorization :: RemediationAuthorization
  rd_integration :: IntegrationRecord
  rd_decided_in :: "EraStamp option"

definition initial_completion_generation :: u32 where
  "initial_completion_generation = 1"

definition recorded_era :: "EraStamp option \<Rightarrow> u32" where
  "recorded_era stamp =
     (case stamp of Some s \<Rightarrow> era_generation s | None \<Rightarrow> initial_completion_generation)"

record CompletionState =
  cst_profile :: CompletionProfileRef
  cst_tpm_seat_id :: uuid
  cst_phase :: CompletionPhase
  cst_ticket_requirements :: "TicketRequirement list"
  cst_ticket_evidence :: "TicketEvidence list"
  cst_integrations :: "IntegrationRecord list"
  cst_rounds :: "CompletionRound list"
  cst_remediations :: "RemediationRecord list"
  cst_pending_remediation :: "RemediationAuthorization option"
  cst_closeout :: CloseoutEvidence
  cst_open_questions :: "OpenQuestionSummary list"
  cst_needs_human :: "NeedsHumanPayload option"
  cst_handled_signals :: "content_hash list"
  cst_polling_attempts :: u8
  cst_generation :: u32
  cst_closeout_history :: "RecordedCloseout list"
  cst_revision :: u64

definition CloseoutEvidence_default :: CloseoutEvidence where
  "CloseoutEvidence_default =
     \<lparr>merge_receipt = None, release_receipt = None, delivered_versions = [], summary_receipt = None,
      notification_receipt = None, archive_receipt = None\<rparr>"

definition profile_ref :: "CompiledCompletion \<Rightarrow> CompletionProfileRef" where
  "profile_ref c =
     \<lparr>pf_id = pr_id (cc_profile c), pf_version = pr_version (cc_profile c), pf_name = pr_name (cc_profile c),
      pf_definition_hash = cc_definition_hash c\<rparr>"

definition start :: "CompiledCompletion \<Rightarrow> uuid \<Rightarrow> TicketRequirement list \<Rightarrow> CompletionState DomainResult" where
  "start c tpm requirements =
     try_bind (ticket_gate_blockers requirements []) (\<lambda>_.
       Inr \<lparr>cst_profile = profile_ref c, cst_tpm_seat_id = tpm, cst_phase = CompletionPhase.Tickets,
            cst_ticket_requirements = requirements, cst_ticket_evidence = [], cst_integrations = [],
            cst_rounds = [], cst_remediations = [], cst_pending_remediation = None,
            cst_closeout = CloseoutEvidence_default, cst_open_questions = [], cst_needs_human = None,
            cst_handled_signals = [], cst_polling_attempts = 0,
            cst_generation = initial_completion_generation, cst_closeout_history = [],
            cst_revision = AggregateRevision_INITIAL\<rparr>)"

section \<open>Signals and commands\<close>

datatype SignalDelivery = Callback | Polling

record RemediationApproval =
  ra_round :: u8
  ra_authorization :: RemediationAuthorization

datatype CompletionObservation =
    TicketsClosed "TicketEvidence list"
  | IntegrationCompleted IntegrationRecord
  | VerdictRecorded u8 CommitteeVerdict content_hash "uuid option" "content_hash option"
      "content_hash option" "DeliberationStep list"
  | TicketWorkReopened "TicketRequirement list"
  | RemediationApproved RemediationApproval
  | RemediationCompleted IntegrationRecord
  | CloseoutRecorded CloseoutEvidence "OpenQuestionSummary list"
  | Attention
  | Stalled NeedsHumanPayload

record CompletionSignal =
  sg_id :: content_hash
  sg_expected_revision :: u64
  sg_delivery :: SignalDelivery
  sg_observation :: CompletionObservation

datatype CompletionCommand =
    StartIntegration string
  | InvokeCommittee string u8
  | DeliverFailureToLsa u8 content_hash
  | LaunchRemediation u8 RemediationAuthorization
  | WakeTpm uuid
  | SchedulePoll u8 u8
  | MarkDone

record CompletionTransition =
  ct_state :: CompletionState
  ct_commands :: "CompletionCommand list"
  ct_replayed :: bool

fun phase_name :: "CompletionPhase \<Rightarrow> string" where
  "phase_name CompletionPhase.Tickets = ''tickets''"
| "phase_name CompletionPhase.Integration = ''integration''"
| "phase_name (CompletionPhase.Verdict _) = ''verdict''"
| "phase_name (CompletionPhase.AwaitRemediation _) = ''await_remediation''"
| "phase_name (CompletionPhase.Remediating _) = ''remediating''"
| "phase_name CompletionPhase.Closeout = ''closeout''"
| "phase_name CompletionPhase.Done = ''done''"
| "phase_name CompletionPhase.NeedsHuman = ''needs_human''"

fun observation_name :: "CompletionObservation \<Rightarrow> string" where
  "observation_name (TicketsClosed _) = ''tickets_closed''"
| "observation_name (TicketWorkReopened _) = ''ticket_work_reopened''"
| "observation_name (IntegrationCompleted _) = ''integration_completed''"
| "observation_name (VerdictRecorded _ _ _ _ _ _ _) = ''verdict_recorded''"
| "observation_name (RemediationApproved _) = ''remediation_approved''"
| "observation_name (RemediationCompleted _) = ''remediation_completed''"
| "observation_name (CloseoutRecorded _ _) = ''closeout_recorded''"
| "observation_name Attention = ''attention''"
| "observation_name (Stalled _) = ''needs_human''"

section \<open>Evidence checks\<close>

definition validate_integration :: "IntegrationRecord \<Rightarrow> unit DomainResult" where
  "validate_integration i =
     (if in_repositories i = []
      then Inl (MissingEvidence ''completion integration'' ''at least one repository outcome is required'')
      else if length (remdups (map ro_repository (in_repositories i))) \<noteq> length (in_repositories i)
      then Inl (Invalid ''completion integration''
             ''each repository may have only one outcome per round'')
      else Inr ())"

definition needs_human_recovery_round :: "CompletionState \<Rightarrow> u8 \<Rightarrow> u8 option" where
  "needs_human_recovery_round s max_rounds =
     (if cst_phase s \<noteq> CompletionPhase.NeedsHuman \<or> cst_needs_human s = None
         \<or> cst_pending_remediation s \<noteq> None \<or> cst_rounds s = []
      then None
      else let failed = last (cst_rounds s) in
        if cr_round failed \<le> max_rounds \<or> cr_verdict failed \<noteq> CommitteeVerdict.Fail
           \<or> list_ex (\<lambda>r. rd_round r = cr_round failed
                \<and> recorded_era (rd_decided_in r) = recorded_era (cr_decided_in failed)) (cst_remediations s)
        then None else Some (cr_round failed))"

definition validate_new_recovery_integration ::
  "CompletionState \<Rightarrow> IntegrationRecord \<Rightarrow> unit DomainResult" where
  "validate_new_recovery_integration s i =
     (if list_ex (\<lambda>r. in_receipt r = in_receipt i) (cst_integrations s)
      then Inl (MissingEvidence ''completion needs_human recovery''
             ''the recovery must carry a new integration receipt'')
      else if \<not> list_ex (\<lambda>c. c \<notin> set (concat (map in_repositories (cst_integrations s)))) (in_repositories i)
      then Inl (MissingEvidence ''completion needs_human recovery''
             ''the recovery must name at least one new repository outcome'')
      else Inr ())"

definition merge_receipt_into ::
  "content_hash option \<Rightarrow> content_hash option \<Rightarrow> content_hash option DomainResult" where
  "merge_receipt_into target incoming =
     (case (target, incoming) of
        (Some stored, Some candidate) \<Rightarrow>
          if stored \<noteq> candidate
          then Inl (Invalid ''completion closeout receipt'' ''a recorded receipt is immutable'')
          else Inr target
      | (None, Some candidate) \<Rightarrow> Inr (Some candidate)
      | _ \<Rightarrow> Inr target)"

fun merge_versions ::
  "(string \<times> string) list \<Rightarrow> (string \<times> string) list \<Rightarrow> (string \<times> string) list DomainResult" where
  "merge_versions stored [] = Inr stored"
| "merge_versions stored ((service, version) # incoming) =
     (case map_of stored service of
        Some v \<Rightarrow>
          if v \<noteq> version
          then Inl (Invalid ''completion version inventory'' ''a recorded service version is immutable'')
          else merge_versions stored incoming
      | None \<Rightarrow> merge_versions (insort_key fst (service, version) stored) incoming)"

definition merge_closeout :: "CloseoutEvidence \<Rightarrow> CloseoutEvidence \<Rightarrow> CloseoutEvidence DomainResult" where
  "merge_closeout t i =
     try_bind (merge_receipt_into (merge_receipt t) (merge_receipt i)) (\<lambda>merge.
     try_bind (merge_receipt_into (release_receipt t) (release_receipt i)) (\<lambda>release.
     try_bind (merge_receipt_into (summary_receipt t) (summary_receipt i)) (\<lambda>summary.
     try_bind (merge_receipt_into (notification_receipt t) (notification_receipt i)) (\<lambda>notification.
     try_bind (merge_receipt_into (archive_receipt t) (archive_receipt i)) (\<lambda>archive.
     try_bind (merge_versions (delivered_versions t) (delivered_versions i)) (\<lambda>versions.
       Inr \<lparr>merge_receipt = merge, release_receipt = release, delivered_versions = versions,
            summary_receipt = summary, notification_receipt = notification, archive_receipt = archive\<rparr>))))))"

section \<open>Human attention and delivery\<close>

definition enter_failed_verdict_needs_human :: "CompletionState \<Rightarrow> CompletionState DomainResult" where
  "enter_failed_verdict_needs_human s =
     try_bind (ExternalName_parse
         ''Review the unresolved Committee evidence with the LSA and TPM before continuing'') (\<lambda>text.
     try_bind (NeedsHumanPayload_new text (concat (map cr_deliberation (cst_rounds s)))) (\<lambda>payload.
       Inr (s\<lparr>cst_needs_human := Some payload, cst_phase := CompletionPhase.NeedsHuman\<rparr>)))"

definition phase_round :: "CompletionPhase \<Rightarrow> u8" where
  "phase_round p =
     (case p of
        CompletionPhase.Verdict r \<Rightarrow> r
      | CompletionPhase.AwaitRemediation r \<Rightarrow> r
      | CompletionPhase.Remediating r \<Rightarrow> r
      | _ \<Rightarrow> 0)"

definition enter_polling_needs_human :: "CompletionState \<Rightarrow> string \<Rightarrow> CompletionState DomainResult" where
  "enter_polling_needs_human s outcome =
     try_bind (ExternalName_parse
         ''Restore callback delivery or explicitly authorize a new bounded observation path'') (\<lambda>text.
     try_bind (ExternalName_parse ''TPM'') (\<lambda>role.
     try_bind (ExternalName_parse ''bounded polling fallback'') (\<lambda>consultation.
     try_bind (ExternalName_parse outcome) (\<lambda>outcome.
     try_bind (NeedsHumanPayload_new text
         [\<lparr>ds_role = role, ds_consultation = consultation, ds_round = phase_round (cst_phase s),
           ds_outcome = outcome\<rparr>]) (\<lambda>payload.
       Inr (s\<lparr>cst_needs_human := Some payload, cst_phase := CompletionPhase.NeedsHuman\<rparr>))))))"

definition apply_delivery ::
  "CompiledCompletion \<Rightarrow> CompletionState \<Rightarrow> CompletionPhase \<Rightarrow> SignalDelivery \<Rightarrow> CompletionCommand list \<Rightarrow>
   (CompletionState \<times> CompletionCommand list) DomainResult" where
  "apply_delivery c s previous delivery commands =
     (if delivery = Callback then Inr (s, commands @ [WakeTpm (cst_tpm_seat_id s)])
      else if CompletionPhase_is_terminal (cst_phase s) then Inr (s, commands)
      else
        let s = (if cst_phase s \<noteq> previous then s\<lparr>cst_polling_attempts := 0\<rparr> else s) in
        case pr_polling_fallback (cc_profile c) of
          None \<Rightarrow>
            try_bind (enter_polling_needs_human s ''no bounded polling fallback was declared'')
              (\<lambda>s. Inr (s, commands))
        | Some fallback \<Rightarrow>
            if cst_polling_attempts s \<ge> pf_max_attempts fallback
            then try_bind (enter_polling_needs_human s ''the bounded polling fallback was exhausted'')
                   (\<lambda>s. Inr (s, commands))
            else case checked_add (cst_polling_attempts s) 1 of
                   None \<Rightarrow> Inl (Invalid ''completion polling'' ''the polling attempt counter overflowed'')
                 | Some attempts \<Rightarrow>
                     Inr (s\<lparr>cst_polling_attempts := attempts\<rparr>,
                          commands @ [SchedulePoll attempts (pf_max_attempts fallback)]))"

section \<open>One observation\<close>

definition stamp :: "CompiledCompletion \<Rightarrow> CompletionState \<Rightarrow> string \<Rightarrow> EraStamp option" where
  "stamp c s team =
     Some \<lparr>era_generation = cst_generation s, era_definition_hash = cc_definition_hash c,
           era_team = Some team\<rparr>"

type_synonym effect = "(CompletionState \<times> CompletionCommand list) DomainResult"

definition illegal_completion :: "CompletionState \<Rightarrow> CompletionObservation \<Rightarrow> effect" where
  "illegal_completion s observation =
     Inl (IllegalTransition ''completion'' (phase_name (cst_phase s)) (observation_name observation))"

definition observe_reopened :: "CompiledCompletion \<Rightarrow> CompletionState \<Rightarrow> TicketRequirement list \<Rightarrow> effect" where
  "observe_reopened c s requirements =
     try_bind (ticket_gate_blockers requirements []) (\<lambda>outstanding.
       if outstanding = []
       then Inl (Invalid ''completion'' ''no ticket work is outstanding, so there is nothing to reopen'')
       else case checked_add (cst_generation s) 1 of
              None \<Rightarrow> Inl (Invalid ''completion'' ''this epic has reopened as many times as can be recorded'')
            | Some generation \<Rightarrow>
                Inr (s\<lparr>cst_profile := profile_ref c, cst_phase := CompletionPhase.Tickets,
                       cst_ticket_requirements := requirements, cst_ticket_evidence := [],
                       cst_pending_remediation := None,
                       cst_closeout_history :=
                         (if cst_closeout s \<noteq> CloseoutEvidence_default
                          then cst_closeout_history s @
                            [\<lparr>cl_generation = cst_generation s,
                              cl_definition_hash = pf_definition_hash (cst_profile s),
                              cl_evidence = cst_closeout s\<rparr>]
                          else cst_closeout_history s),
                       cst_closeout := CloseoutEvidence_default, cst_needs_human := None,
                       cst_open_questions := [], cst_generation := generation\<rparr>, []))"

definition observe_tickets :: "CompiledCompletion \<Rightarrow> CompletionState \<Rightarrow> TicketEvidence list \<Rightarrow> effect" where
  "observe_tickets c s evidence =
     try_bind (ticket_gate_blockers (cst_ticket_requirements s) evidence) (\<lambda>blocking.
       if blocking \<noteq> []
       then Inl (MissingEvidence ''completion ticket gate''
              ''every declared ticket goal and evidence item must be complete'')
       else Inr (s\<lparr>cst_ticket_evidence := evidence, cst_phase := CompletionPhase.Integration\<rparr>,
                 [StartIntegration (pr_integration_team (cc_profile c))]))"

definition observe_integration :: "CompiledCompletion \<Rightarrow> CompletionState \<Rightarrow> IntegrationRecord \<Rightarrow> effect" where
  "observe_integration c s i =
     try_bind (validate_integration i) (\<lambda>_.
       Inr (s\<lparr>cst_integrations := cst_integrations s
                 @ [i\<lparr>in_decided_in := stamp c s (pr_integration_team (cc_profile c))\<rparr>],
              cst_phase := CompletionPhase.Verdict 1\<rparr>,
            [InvokeCommittee (pr_verdict_committee (cc_profile c)) 1]))"

definition observe_verdict ::
  "CompiledCompletion \<Rightarrow> CompletionState \<Rightarrow> CompletionRound \<Rightarrow> effect" where
  "observe_verdict c s r =
     (if cr_deliberation r = []
      then Inl (MissingEvidence ''completion verdict''
             ''the independent finding path must name its roles and consultation'')
      else
        let next = s\<lparr>cst_rounds := cst_rounds s
              @ [r\<lparr>cr_decided_in := stamp c s (pr_verdict_committee (cc_profile c))\<rparr>]\<rparr>
        in case cr_verdict r of
             CommitteeVerdict.Pass \<Rightarrow> Inr (next\<lparr>cst_phase := CompletionPhase.Closeout\<rparr>, [])
           | CommitteeVerdict.Fail \<Rightarrow>
               let commands = [DeliverFailureToLsa (cr_round r) (cr_evidence r)] in
               if cr_round r \<le> pr_max_remediation_rounds (cc_profile c)
               then Inr (next\<lparr>cst_phase := CompletionPhase.AwaitRemediation (cr_round r)\<rparr>, commands)
               else try_bind (enter_failed_verdict_needs_human next) (\<lambda>next. Inr (next, commands)))"

definition observe_approval :: "CompiledCompletion \<Rightarrow> CompletionState \<Rightarrow> RemediationApproval \<Rightarrow> effect" where
  "observe_approval c s a =
     (let launch = [LaunchRemediation (ra_round a) (ra_authorization a)];
          next = s\<lparr>cst_pending_remediation := Some (ra_authorization a),
                   cst_phase := CompletionPhase.Remediating (ra_round a)\<rparr> in
      if cst_phase s = CompletionPhase.AwaitRemediation (ra_round a)
         \<and> \<not> rz_needs_human_recovery (ra_authorization a)
      then Inr (next, launch)
      else if cst_phase s = CompletionPhase.NeedsHuman
         \<and> rz_needs_human_recovery (ra_authorization a)
         \<and> needs_human_recovery_round s (pr_max_remediation_rounds (cc_profile c)) = Some (ra_round a)
      then Inr (next\<lparr>cst_needs_human := None\<rparr>, launch)
      else illegal_completion s (RemediationApproved a))"

definition observe_remediation ::
  "CompiledCompletion \<Rightarrow> CompletionState \<Rightarrow> u8 \<Rightarrow> IntegrationRecord \<Rightarrow> effect" where
  "observe_remediation c s round i =
     try_bind (validate_integration i) (\<lambda>_.
     case cst_pending_remediation s of
       None \<Rightarrow> Inl (MissingAuthority ''completion remediation''
                 ''LSA proposal and TPM routing receipts are required before launch'')
     | Some authorization \<Rightarrow>
         try_bind (if rz_needs_human_recovery authorization then validate_new_recovery_integration s i
                   else Inr ()) (\<lambda>_.
         try_bind (verdict_round ''completion remediation'' round) (\<lambda>v.
           let mark = stamp c s (pr_integration_team (cc_profile c)); i = i\<lparr>in_decided_in := mark\<rparr> in
           Inr (s\<lparr>cst_pending_remediation := None, cst_integrations := cst_integrations s @ [i],
                  cst_remediations := cst_remediations s @
                    [\<lparr>rd_round = round, rd_authorization = authorization, rd_integration = i,
                      rd_decided_in = mark\<rparr>],
                  cst_phase := CompletionPhase.Verdict v\<rparr>,
                [InvokeCommittee (pr_verdict_committee (cc_profile c)) v]))))"

definition observe_closeout ::
  "CompletionState \<Rightarrow> CloseoutEvidence \<Rightarrow> OpenQuestionSummary list \<Rightarrow> effect" where
  "observe_closeout s evidence questions =
     try_bind (merge_closeout (cst_closeout s) evidence) (\<lambda>closeout.
       let next = s\<lparr>cst_closeout := closeout, cst_open_questions := questions\<rparr> in
       if closeout_blockers closeout = [] \<and> open_question_blockers questions = []
       then Inr (next\<lparr>cst_phase := CompletionPhase.Done\<rparr>, [MarkDone])
       else Inr (next, []))"

definition observe :: "CompiledCompletion \<Rightarrow> CompletionState \<Rightarrow> CompletionObservation \<Rightarrow> effect" where
  "observe c s observation =
     (case observation of
        TicketWorkReopened requirements \<Rightarrow> observe_reopened c s requirements
      | TicketsClosed evidence \<Rightarrow>
          if cst_phase s = CompletionPhase.Tickets then observe_tickets c s evidence
          else illegal_completion s observation
      | IntegrationCompleted i \<Rightarrow>
          if cst_phase s = CompletionPhase.Integration then observe_integration c s i
          else illegal_completion s observation
      | VerdictRecorded round verdict evidence run result remediation deliberation \<Rightarrow>
          if cst_phase s = CompletionPhase.Verdict round
          then observe_verdict c s
                 \<lparr>cr_round = round, cr_verdict = verdict, cr_evidence = evidence,
                  cr_committee_run_id = run, cr_result_hash = result, cr_remediation_hash = remediation,
                  cr_deliberation = deliberation, cr_decided_in = None\<rparr>
          else illegal_completion s observation
      | RemediationApproved a \<Rightarrow> observe_approval c s a
      | RemediationCompleted i \<Rightarrow>
          (case cst_phase s of
             CompletionPhase.Remediating round \<Rightarrow> observe_remediation c s round i
           | _ \<Rightarrow> illegal_completion s observation)
      | CloseoutRecorded evidence questions \<Rightarrow>
          if cst_phase s = CompletionPhase.Closeout then observe_closeout s evidence questions
          else illegal_completion s observation
      | Attention \<Rightarrow> Inr (s, [])
      | Stalled payload \<Rightarrow>
          Inr (s\<lparr>cst_phase := CompletionPhase.NeedsHuman, cst_needs_human := Some payload\<rparr>, []))"

definition reopens :: "CompletionObservation \<Rightarrow> bool" where
  "reopens observation = (case observation of TicketWorkReopened _ \<Rightarrow> True | _ \<Rightarrow> False)"

definition governed_recovery :: "CompiledCompletion \<Rightarrow> CompletionState \<Rightarrow> CompletionObservation \<Rightarrow> bool" where
  "governed_recovery c s observation =
     (case observation of
        RemediationApproved a \<Rightarrow>
          cst_phase s = CompletionPhase.NeedsHuman \<and> rz_needs_human_recovery (ra_authorization a)
          \<and> needs_human_recovery_round s (pr_max_remediation_rounds (cc_profile c)) = Some (ra_round a)
      | _ \<Rightarrow> False)"

definition advance ::
  "CompiledCompletion \<Rightarrow> CompletionState \<Rightarrow> CompletionSignal \<Rightarrow> CompletionTransition DomainResult" where
  "advance c s signal =
     (if sg_id signal \<in> set (cst_handled_signals s)
      then Inr \<lparr>ct_state = s, ct_commands = [], ct_replayed = True\<rparr>
      else if CompletionPhase_is_terminal (cst_phase s) \<and> \<not> governed_recovery c s (sg_observation signal)
              \<and> \<not> reopens (sg_observation signal)
      then Inl (Terminal ''completion'')
      else
        try_bind (AggregateRevision_expect (cst_revision s) ''completion'' (sg_expected_revision signal)) (\<lambda>_.
        if \<not> reopens (sg_observation signal) \<and> pf_definition_hash (cst_profile s) \<noteq> cc_definition_hash c
        then Inl (Invalid ''completion'' ''the compiled profile does not match the pinned definition'')
        else
          try_bind (observe c s (sg_observation signal)) (\<lambda>(next, commands).
          try_bind (AggregateRevision_next (cst_revision next)) (\<lambda>revision.
          try_bind (apply_delivery c
              (next\<lparr>cst_handled_signals := bt_insert (sg_id signal) (cst_handled_signals next),
                    cst_revision := revision\<rparr>)
              (cst_phase s) (sg_delivery signal) commands) (\<lambda>(next, commands).
            Inr \<lparr>ct_state = next, ct_commands = commands, ct_replayed = False\<rparr>)))))"

section \<open>Blockers\<close>

datatype CompletionBlocker =
    TicketBlocker TicketGateBlocker
  | IntegrationTeamRun
  | CommitteeVerdictBlocker u8
  | RemediationAuthorizationBlocker u8
  | RemediationResult u8
  | CloseoutBlocker CloseoutRequirement
  | OpenQuestionBlocked OpenQuestionBlocker

definition blockers :: "CompletionState \<Rightarrow> CompletionBlocker list DomainResult" where
  "blockers s =
     try_bind (ticket_gate_blockers (cst_ticket_requirements s) (cst_ticket_evidence s)) (\<lambda>outstanding.
       if outstanding \<noteq> [] then Inr (map TicketBlocker outstanding)
       else case cst_phase s of
         CompletionPhase.Tickets \<Rightarrow> Inr []
       | CompletionPhase.Integration \<Rightarrow> Inr [IntegrationTeamRun]
       | CompletionPhase.Verdict round \<Rightarrow> Inr [CommitteeVerdictBlocker round]
       | CompletionPhase.AwaitRemediation round \<Rightarrow> Inr [RemediationAuthorizationBlocker round]
       | CompletionPhase.Remediating round \<Rightarrow> Inr [RemediationResult round]
       | CompletionPhase.Closeout \<Rightarrow>
           Inr (map CloseoutBlocker (closeout_blockers (cst_closeout s))
                @ map OpenQuestionBlocked (open_question_blockers (cst_open_questions s)))
       | CompletionPhase.Done \<Rightarrow> Inr []
       | CompletionPhase.NeedsHuman \<Rightarrow> Inr [])"

section \<open>Inversion\<close>

lemma verdict_round_Inr: "verdict_round subject r = Inr v \<Longrightarrow> unat v = Suc (unat r)"
  by (auto simp: verdict_round_def split: option.splits dest: checked_add_Some)

lemma advance_Inr:
  "advance c s signal = Inr t \<longleftrightarrow>
     (sg_id signal \<in> set (cst_handled_signals s) \<and> t = \<lparr>ct_state = s, ct_commands = [], ct_replayed = True\<rparr>)
   \<or> (sg_id signal \<notin> set (cst_handled_signals s)
      \<and> (CompletionPhase_is_terminal (cst_phase s) \<longrightarrow>
           governed_recovery c s (sg_observation signal) \<or> reopens (sg_observation signal))
      \<and> cst_revision s = sg_expected_revision signal
      \<and> (reopens (sg_observation signal) \<or> pf_definition_hash (cst_profile s) = cc_definition_hash c)
      \<and> (\<exists>next commands revision next' commands'.
           observe c s (sg_observation signal) = Inr (next, commands)
           \<and> AggregateRevision_next (cst_revision next) = Inr revision
           \<and> apply_delivery c
               (next\<lparr>cst_handled_signals := bt_insert (sg_id signal) (cst_handled_signals next),
                     cst_revision := revision\<rparr>)
               (cst_phase s) (sg_delivery signal) commands = Inr (next', commands')
           \<and> t = \<lparr>ct_state = next', ct_commands = commands', ct_replayed = False\<rparr>))"
  by (auto simp: advance_def)

text \<open>Delivery touches the poll counter, and may escalate; nothing else.\<close>

lemma polling_escalation:
  "enter_polling_needs_human s outcome = Inr s' \<Longrightarrow>
     \<exists>payload. s' = s\<lparr>cst_needs_human := Some payload, cst_phase := CompletionPhase.NeedsHuman\<rparr>"
  by (auto simp: enter_polling_needs_human_def)

lemma delivery_effect:
  assumes "apply_delivery c s previous delivery commands = Inr (s', commands')"
  shows "(\<exists>k. s' = s\<lparr>cst_polling_attempts := k\<rparr>)
     \<or> (\<exists>k payload. \<not> CompletionPhase_is_terminal (cst_phase s)
          \<and> s' = s\<lparr>cst_polling_attempts := k, cst_needs_human := Some payload,
                   cst_phase := CompletionPhase.NeedsHuman\<rparr>)"
proof -
  have keep: "s = s\<lparr>cst_polling_attempts := cst_polling_attempts s\<rparr>" by simp
  obtain k where k: "(if cst_phase s \<noteq> previous then s\<lparr>cst_polling_attempts := 0\<rparr> else s)
      = s\<lparr>cst_polling_attempts := k\<rparr>" using keep by (metis (no_types))
  show ?thesis
  proof (cases "delivery = Callback \<or> CompletionPhase_is_terminal (cst_phase s)")
    case True
    with assms have "s' = s" by (auto simp: apply_delivery_def split: if_splits)
    with keep show ?thesis by metis
  next
    case False
    with assms show ?thesis
      unfolding apply_delivery_def Let_def k
      by (auto split: option.splits if_splits dest!: polling_escalation)
  qed
qed

lemma failed_verdict_escalation:
  "enter_failed_verdict_needs_human s = Inr s' \<Longrightarrow>
     \<exists>payload. s' = s\<lparr>cst_needs_human := Some payload, cst_phase := CompletionPhase.NeedsHuman\<rparr>"
  by (auto simp: enter_failed_verdict_needs_human_def)

text \<open>The branches of an accepted observation.\<close>

lemma observe_cases:
  assumes "observe c s observation = Inr (n, commands)"
  obtains
    (reopened) requirements history generation where "observation = TicketWorkReopened requirements"
      "checked_add (cst_generation s) 1 = Some generation"
      "n = s\<lparr>cst_profile := profile_ref c, cst_phase := CompletionPhase.Tickets,
             cst_ticket_requirements := requirements, cst_ticket_evidence := [],
             cst_pending_remediation := None, cst_closeout_history := cst_closeout_history s @ history,
             cst_closeout := CloseoutEvidence_default, cst_needs_human := None,
             cst_open_questions := [], cst_generation := generation\<rparr>"
  | (tickets) evidence where "observation = TicketsClosed evidence" "cst_phase s = CompletionPhase.Tickets"
      "ticket_gate_blockers (cst_ticket_requirements s) evidence = Inr []"
      "n = s\<lparr>cst_ticket_evidence := evidence, cst_phase := CompletionPhase.Integration\<rparr>"
  | (integration) i :: IntegrationRecord where "cst_phase s = CompletionPhase.Integration"
      "n = s\<lparr>cst_integrations := cst_integrations s
                 @ [i\<lparr>in_decided_in := stamp c s (pr_integration_team (cc_profile c))\<rparr>],
             cst_phase := CompletionPhase.Verdict 1\<rparr>"
  | (verdict) r :: CompletionRound and rounds where "cst_phase s = CompletionPhase.Verdict (cr_round r)"
      "\<not> reopens observation"
      "rounds = cst_rounds s @ [r\<lparr>cr_decided_in := stamp c s (pr_verdict_committee (cc_profile c))\<rparr>]"
      "cr_verdict r = CommitteeVerdict.Pass
         \<and> n = s\<lparr>cst_rounds := rounds, cst_phase := CompletionPhase.Closeout\<rparr>
       \<or> cr_verdict r = CommitteeVerdict.Fail \<and> cr_round r \<le> pr_max_remediation_rounds (cc_profile c)
         \<and> n = s\<lparr>cst_rounds := rounds, cst_phase := CompletionPhase.AwaitRemediation (cr_round r)\<rparr>
       \<or> cr_verdict r = CommitteeVerdict.Fail \<and> \<not> cr_round r \<le> pr_max_remediation_rounds (cc_profile c)
         \<and> (\<exists>payload. n = s\<lparr>cst_rounds := rounds, cst_needs_human := Some payload,
                            cst_phase := CompletionPhase.NeedsHuman\<rparr>)"
  | (approved) a :: RemediationApproval where "cst_phase s = CompletionPhase.AwaitRemediation (ra_round a)"
      "\<not> rz_needs_human_recovery (ra_authorization a)"
      "n = s\<lparr>cst_pending_remediation := Some (ra_authorization a),
             cst_phase := CompletionPhase.Remediating (ra_round a)\<rparr>"
  | (recovered) a :: RemediationApproval where "observation = RemediationApproved a" "cst_phase s = CompletionPhase.NeedsHuman"
      "rz_needs_human_recovery (ra_authorization a)"
      "needs_human_recovery_round s (pr_max_remediation_rounds (cc_profile c)) = Some (ra_round a)"
      "n = s\<lparr>cst_pending_remediation := Some (ra_authorization a),
             cst_phase := CompletionPhase.Remediating (ra_round a), cst_needs_human := None\<rparr>"
  | (remediated) round authorization i v where "cst_phase s = CompletionPhase.Remediating round"
      "cst_pending_remediation s = Some authorization" "unat v = Suc (unat round)"
      "n = s\<lparr>cst_pending_remediation := None, cst_integrations := cst_integrations s @ [i],
             cst_remediations := cst_remediations s @
               [\<lparr>rd_round = round, rd_authorization = authorization, rd_integration = i,
                 rd_decided_in = stamp c s (pr_integration_team (cc_profile c))\<rparr>],
             cst_phase := CompletionPhase.Verdict v\<rparr>"
  | (closeout) evidence questions closeout where "cst_phase s = CompletionPhase.Closeout"
      "merge_closeout (cst_closeout s) evidence = Inr closeout"
      "n = s\<lparr>cst_closeout := closeout, cst_open_questions := questions\<rparr>
       \<or> closeout_blockers closeout = [] \<and> open_question_blockers questions = []
         \<and> n = s\<lparr>cst_closeout := closeout, cst_open_questions := questions,
                 cst_phase := CompletionPhase.Done\<rparr>"
  | (attention) "observation = Attention" "n = s"
  | (stalled) payload where "observation = Stalled payload"
      "n = s\<lparr>cst_phase := CompletionPhase.NeedsHuman, cst_needs_human := Some payload\<rparr>"
proof (cases observation)
  case (TicketWorkReopened requirements)
  with assms show ?thesis
    by (intro reopened [where requirements = requirements and generation = "cst_generation n"
          and history = "drop (length (cst_closeout_history s)) (cst_closeout_history n)"])
      (auto simp: observe_def observe_reopened_def split: if_splits option.splits)
next
  case (TicketsClosed evidence)
  with assms show ?thesis
    by (intro tickets) (auto simp: observe_def observe_tickets_def illegal_completion_def split: if_splits)
next
  case (IntegrationCompleted i)
  with assms show ?thesis
    by (intro integration) (auto simp: observe_def observe_integration_def illegal_completion_def split: if_splits)
next
  case (VerdictRecorded round verdict evidence run result remediation deliberation)
  let ?r = "\<lparr>cr_round = round, cr_verdict = verdict, cr_evidence = evidence, cr_committee_run_id = run,
    cr_result_hash = result, cr_remediation_hash = remediation, cr_deliberation = deliberation,
    cr_decided_in = None\<rparr>"
  from VerdictRecorded assms show ?thesis
    by (intro verdict [of ?r, OF _ _ refl])
      (auto simp: reopens_def observe_def observe_verdict_def illegal_completion_def Let_def
        split: if_splits CommitteeVerdict.splits dest!: failed_verdict_escalation)
next
  case (RemediationApproved a)
  with assms show ?thesis
    using approved [of a] recovered [of a]
    by (auto simp: observe_def observe_approval_def illegal_completion_def Let_def split: if_splits)
next
  case (RemediationCompleted i)
  with assms show ?thesis
    by (auto simp: observe_def observe_remediation_def illegal_completion_def Let_def
        split: CompletionPhase.splits option.splits dest!: verdict_round_Inr intro: remediated)
next
  case (CloseoutRecorded evidence questions)
  with assms show ?thesis
    by (auto simp: observe_def observe_closeout_def illegal_completion_def Let_def
        split: if_splits intro: closeout)
next
  case Attention
  with assms show ?thesis by (intro attention) (auto simp: observe_def)
next
  case (Stalled payload)
  with assms show ?thesis by (intro stalled) (auto simp: observe_def)
qed

section \<open>Runs and invariants\<close>

text \<open>A run applies signals in order, each with the compiled profile its caller holds.\<close>

definition completion_step ::
  "CompletionState \<Rightarrow> CompiledCompletion \<times> CompletionSignal \<Rightarrow> CompletionState DomainResult" where
  "completion_step s r = try_bind (advance (fst r) s (snd r)) (\<lambda>t. Inr (ct_state t))"

lemma completion_step_Inr:
  "completion_step s r = Inr s' \<longleftrightarrow> (\<exists>t. advance (fst r) s (snd r) = Inr t \<and> s' = ct_state t)"
  by (auto simp: completion_step_def)

locale completion_invariant =
  fixes I :: "CompletionState \<Rightarrow> bool"
  assumes initial: "start c tpm requirements = Inr s \<Longrightarrow> I s"
    and observed: "I s \<Longrightarrow> observe c s observation = Inr (n, commands) \<Longrightarrow>
      (CompletionPhase_is_terminal (cst_phase s) \<longrightarrow> governed_recovery c s observation \<or> reopens observation) \<Longrightarrow>
      reopens observation \<or> pf_definition_hash (cst_profile s) = cc_definition_hash c \<Longrightarrow> I n"
    and framed: "I s \<Longrightarrow> I (s\<lparr>cst_handled_signals := h, cst_revision := v, cst_polling_attempts := k\<rparr>)"
    and escalated: "I s \<Longrightarrow> \<not> CompletionPhase_is_terminal (cst_phase s) \<Longrightarrow>
      I (s\<lparr>cst_needs_human := Some payload, cst_phase := CompletionPhase.NeedsHuman\<rparr>)"
begin

lemma advance_keeps:
  assumes "I s" and "advance c s signal = Inr t"
  shows "I (ct_state t)"
proof (cases "sg_id signal \<in> set (cst_handled_signals s)")
  case True
  with assms show ?thesis by (simp add: advance_Inr)
next
  case False
  with assms(2) obtain n commands v n' commands' where
    obs: "observe c s (sg_observation signal) = Inr (n, commands)"
    and live: "CompletionPhase_is_terminal (cst_phase s) \<longrightarrow>
      governed_recovery c s (sg_observation signal) \<or> reopens (sg_observation signal)"
    and hash: "reopens (sg_observation signal) \<or> pf_definition_hash (cst_profile s) = cc_definition_hash c"
    and del: "apply_delivery c
        (n\<lparr>cst_handled_signals := bt_insert (sg_id signal) (cst_handled_signals n), cst_revision := v\<rparr>)
        (cst_phase s) (sg_delivery signal) commands = Inr (n', commands')"
    and t: "ct_state t = n'"
    by (auto simp: advance_Inr)
  have "I n" by (rule observed [OF assms(1) obs live hash])
  from framed [OF this] have I: "I (n\<lparr>cst_handled_signals := h, cst_revision := v, cst_polling_attempts := k\<rparr>)"
    for h v k .
  from delivery_effect [OF del] show ?thesis
  proof
    assume "\<exists>k. n' = n\<lparr>cst_handled_signals := bt_insert (sg_id signal) (cst_handled_signals n),
        cst_revision := v\<rparr>\<lparr>cst_polling_attempts := k\<rparr>"
    with I t show ?thesis by auto
  next
    assume "\<exists>k payload. \<not> CompletionPhase_is_terminal (cst_phase
          (n\<lparr>cst_handled_signals := bt_insert (sg_id signal) (cst_handled_signals n), cst_revision := v\<rparr>))
        \<and> n' = n\<lparr>cst_handled_signals := bt_insert (sg_id signal) (cst_handled_signals n),
            cst_revision := v\<rparr>\<lparr>cst_polling_attempts := k, cst_needs_human := Some payload,
            cst_phase := CompletionPhase.NeedsHuman\<rparr>"
    with escalated [OF I] t show ?thesis by auto
  qed
qed

lemma step_keeps: "I s \<Longrightarrow> completion_step s r = Inr s' \<Longrightarrow> I s'"
  by (auto simp: completion_step_def dest: advance_keeps)

lemma run_keeps: "start c tpm requirements = Inr s \<Longrightarrow> try_run completion_step s rs = Inr s' \<Longrightarrow> I s'"
  using try_run_invariant [of I completion_step] step_keeps initial by blast

end

text \<open>The escalation payload is present exactly in the human-attention state.\<close>

definition attention_ok :: "CompletionState \<Rightarrow> bool" where
  "attention_ok s \<longleftrightarrow> (cst_needs_human s \<noteq> None \<longleftrightarrow> cst_phase s = CompletionPhase.NeedsHuman)"

text \<open>Rounds are counted from one.\<close>

definition rounds_ok :: "CompletionState \<Rightarrow> bool" where
  "rounds_ok s \<longleftrightarrow>
     (\<forall>r. cst_phase s \<in> {CompletionPhase.Verdict r, CompletionPhase.AwaitRemediation r,
                        CompletionPhase.Remediating r} \<longrightarrow> r \<noteq> 0)"

text \<open>Closeout follows a passing verdict of this era under the pinned definition.\<close>

definition verdict_ok :: "CompletionState \<Rightarrow> bool" where
  "verdict_ok s \<longleftrightarrow>
     (cst_phase s \<in> {CompletionPhase.Closeout, CompletionPhase.Done} \<longrightarrow>
        (\<exists>earlier r e. cst_rounds s = earlier @ [r] \<and> cr_verdict r = CommitteeVerdict.Pass
           \<and> cr_decided_in r = Some e \<and> era_generation e = cst_generation s
           \<and> era_definition_hash e = pf_definition_hash (cst_profile s)))"

definition done_ok :: "CompletionState \<Rightarrow> bool" where
  "done_ok s \<longleftrightarrow>
     (cst_phase s = CompletionPhase.Done \<longrightarrow>
        closeout_blockers (cst_closeout s) = [] \<and> open_question_blockers (cst_open_questions s) = [])"

text \<open>In the first era the ticket gate stays open once it was passed.\<close>

definition tickets_ok :: "CompletionState \<Rightarrow> bool" where
  "tickets_ok s \<longleftrightarrow>
     0 < unat (cst_generation s)
     \<and> (unat (cst_generation s) = 1
          \<and> (cst_phase s \<notin> {CompletionPhase.Tickets, CompletionPhase.NeedsHuman} \<or> cst_rounds s \<noteq> []) \<longrightarrow>
        ticket_gate_blockers (cst_ticket_requirements s) (cst_ticket_evidence s) = Inr [])"

lemma start_Inr:
  assumes "start c tpm requirements = Inr s"
  shows "cst_phase s = CompletionPhase.Tickets" "cst_needs_human s = None" "cst_rounds s = []"
    "cst_generation s = 1" "cst_handled_signals s = []" "cst_remediations s = []" "cst_integrations s = []"
    "cst_profile s = profile_ref c" "cst_revision s = 1" "cst_polling_attempts s = 0"
  using assms
  by (auto simp: start_def initial_completion_generation_def AggregateRevision_INITIAL_def)

lemmas phase_simps = CompletionPhase_is_terminal_def governed_recovery_def reopens_def

interpretation attention: completion_invariant attention_ok
proof
  fix s c observation n commands
  assume "attention_ok s" "observe c s observation = Inr (n, commands)"
  then show "attention_ok n"
    by (elim observe_cases) (auto simp: attention_ok_def)
qed (auto simp: attention_ok_def start_Inr)

interpretation positive: completion_invariant rounds_ok
proof
  fix s c observation n commands
  assume "rounds_ok s" "observe c s observation = Inr (n, commands)"
  then show "rounds_ok n"
  proof (elim observe_cases)
    fix a :: RemediationApproval
    assume "needs_human_recovery_round s (pr_max_remediation_rounds (cc_profile c)) = Some (ra_round a)"
      "n = s\<lparr>cst_pending_remediation := Some (ra_authorization a),
             cst_phase := CompletionPhase.Remediating (ra_round a), cst_needs_human := None\<rparr>"
    then show "rounds_ok n"
      by (auto simp: rounds_ok_def needs_human_recovery_round_def Let_def word_le_nat_alt split: if_splits)
  qed (auto simp: rounds_ok_def)
qed (auto simp: rounds_ok_def start_Inr)

interpretation verdicts: completion_invariant verdict_ok
proof
  fix s c observation n commands
  assume "verdict_ok s" "observe c s observation = Inr (n, commands)"
    "CompletionPhase_is_terminal (cst_phase s) \<longrightarrow> governed_recovery c s observation \<or> reopens observation"
    "reopens observation \<or> pf_definition_hash (cst_profile s) = cc_definition_hash c"
  then show "verdict_ok n"
    by (elim observe_cases) (auto simp: verdict_ok_def phase_simps stamp_def)
qed (auto simp: verdict_ok_def start_Inr)

interpretation finished: completion_invariant done_ok
proof
  fix s c observation n commands
  assume "done_ok s" "observe c s observation = Inr (n, commands)"
  then show "done_ok n"
    by (elim observe_cases) (auto simp: done_ok_def)
qed (auto simp: done_ok_def start_Inr)

interpretation tickets: completion_invariant tickets_ok
proof
  fix s c observation n commands
  assume "tickets_ok s" "observe c s observation = Inr (n, commands)"
  then show "tickets_ok n"
    by (elim observe_cases)
      (auto simp: tickets_ok_def needs_human_recovery_round_def Let_def dest: checked_add_Some split: if_splits)
qed (auto simp: tickets_ok_def start_Inr)

end
