(* ===== verification/Completion_Run.thy ===== *)
theory Completion_Run
  imports Completion
begin

text \<open>
  What the completion machine of \<^verbatim>\<open>crates/kontor-scheduler/src/completion.rs\<close> guarantees: the compiled
  graph is sound and the machine runs it, signals take effect once and history is never rewritten,
  a done epic is proved, and polling comes to an end.
\<close>

section \<open>The compiled graph\<close>

lemma verdict_round_iff: "verdict_round subject r = Inr v \<longleftrightarrow> unat r < 255 \<and> v = r + 1"
  by (auto simp: verdict_round_def checked_add_def split: option.splits if_splits)

lemma set_rounds_to: "set (rounds_to n) = {r. r \<noteq> 0 \<and> r \<le> n}"
proof -
  have "r \<in> set (rounds_to n) \<longleftrightarrow> r \<noteq> 0 \<and> r \<le> n" for r :: u8
  proof
    assume "r \<in> set (rounds_to n)"
    then obtain k where k: "1 \<le> k" "k \<le> unat n" "r = of_nat k" by (auto simp: rounds_to_def)
    moreover have "unat n < 2 ^ LENGTH(8)" by (rule unsigned_less)
    ultimately have "unat r = k" by (simp add: unat_of_nat)
    with k show "r \<noteq> 0 \<and> r \<le> n" by (auto simp: word_le_nat_alt)
  next
    assume "r \<noteq> 0 \<and> r \<le> n"
    then have "0 < unat r" "unat r \<le> unat n" by (simp_all add: unat_gt_0 word_le_nat_alt)
    then have "unat r \<in> set [1..<Suc (unat n)]" unfolding set_upt atLeastLessThan_iff by arith
    then have "of_nat (unat r) \<in> set (rounds_to n)" unfolding rounds_to_def set_map by (rule imageI)
    then show "r \<in> set (rounds_to n)" by simp
  qed
  then show ?thesis by blast
qed

lemma compile_rounds_Inr:
  "compile_rounds committee rs = Inr (nodes, edges) \<longleftrightarrow>
     (\<forall>r \<in> set rs. unat r < 255)
     \<and> nodes = concat (map (\<lambda>r. [node (CompletionNodeKey.Remediation r) (CompletionNodeKind.Remediation r),
          node (CompletionNodeKey.Verdict (r + 1)) (CommitteeGate committee (r + 1))]) rs)
     \<and> edges = concat (map (\<lambda>r. [edge (CompletionNodeKey.Verdict r) (CompletionNodeKey.Remediation r)
            CompletionEdgeCondition.Fail,
          edge (CompletionNodeKey.Remediation r) (CompletionNodeKey.Verdict (r + 1))
            CompletionEdgeCondition.Success]) rs)"
  by (induction rs arbitrary: nodes edges) (auto simp: verdict_round_iff)

text \<open>The depth of a node; every edge goes deeper.\<close>

primrec closeout_depth :: "CloseoutRequirement \<Rightarrow> nat" where
  "closeout_depth Merge = 0"
| "closeout_depth Release = 1"
| "closeout_depth VersionInventory = 2"
| "closeout_depth Summary = 3"
| "closeout_depth Notification = 4"
| "closeout_depth Archive = 5"

fun depth :: "CompletionNodeKey \<Rightarrow> nat" where
  "depth CompletionNodeKey.Tickets = 0"
| "depth CompletionNodeKey.Integration = 1"
| "depth (CompletionNodeKey.Verdict r) = 2 * unat r"
| "depth (CompletionNodeKey.Remediation r) = 2 * unat r + 1"
| "depth (CompletionNodeKey.Closeout k) = 1000 + closeout_depth k"
| "depth CompletionNodeKey.Done = 2000"
| "depth CompletionNodeKey.NeedsHuman = 2001"

lemma round_depths:
  assumes "unat (n :: u8) < 255"
  shows "concat (map (\<lambda>r. [2 * unat r + 1, 2 * unat (r + 1)]) (rounds_to n)) = [3..<2 * unat n + 3]"
proof -
  have up: "concat (map (\<lambda>k. [2 * k + 1, 2 * (k + 1)]) [1..<Suc m]) = [3..<2 * m + 3]" for m :: nat
  proof (induction m)
    case (Suc m)
    have "[3..<2 * Suc m + 3] = [3..<2 * m + 3] @ [2 * Suc m + 1, 2 * (Suc m + 1)]"
      using upt_add_eq_append [of 3 "2 * m + 3" 2] by (simp add: upt_conv_Cons)
    then show ?case using Suc by simp
  qed simp
  have at: "unat (of_nat k :: u8) = k \<and> unat (of_nat k + 1 :: u8) = k + 1" if "k < Suc (unat n)" for k
    using that assms by (simp add: unat_of_nat unat_word_ariths)
  have "map (\<lambda>r. [2 * unat r + 1, 2 * unat (r + 1)]) (rounds_to n)
      = map (\<lambda>k. [2 * k + 1, 2 * (k + 1)]) [1..<Suc (unat n)]"
    unfolding rounds_to_def map_map
  proof (rule map_cong [OF refl])
    fix k assume "k \<in> set [1..<Suc (unat n)]"
    then have "k < Suc (unat n)" unfolding set_upt by simp
    from at [OF this] show "((\<lambda>r :: u8. [2 * unat r + 1, 2 * unat (r + 1)]) \<circ> of_nat) k = [2 * k + 1, 2 * (k + 1)]"
      by simp
  qed
  with up show ?thesis by (simp only:)
qed

lemma compile_Inr:
  assumes "compile digest p = Inr c"
  shows "cc_profile c = p" "digest p = Inr (cc_definition_hash c)" "CompletionProfile_validate p = Inr ()"
    "unat (pr_max_remediation_rounds p) < 255"
    "map nd_key (cc_nodes c) =
       [CompletionNodeKey.Tickets, CompletionNodeKey.Integration, CompletionNodeKey.Verdict 1]
       @ concat (map (\<lambda>r. [CompletionNodeKey.Remediation r, CompletionNodeKey.Verdict (r + 1)])
           (rounds_to (pr_max_remediation_rounds p)))
       @ map CompletionNodeKey.Closeout CloseoutRequirement_ALL
       @ [CompletionNodeKey.Done, CompletionNodeKey.NeedsHuman]"
    "set (cc_edges c) =
       {edge CompletionNodeKey.Tickets CompletionNodeKey.Integration CompletionEdgeCondition.Success,
        edge CompletionNodeKey.Integration (CompletionNodeKey.Verdict 1) CompletionEdgeCondition.Success,
        edge (CompletionNodeKey.Verdict (pr_max_remediation_rounds p + 1)) CompletionNodeKey.NeedsHuman
          CompletionEdgeCondition.Fail,
        edge (CompletionNodeKey.Closeout Archive) CompletionNodeKey.Done CompletionEdgeCondition.Success}
       \<union> (\<Union>r \<in> set (rounds_to (pr_max_remediation_rounds p)).
            {edge (CompletionNodeKey.Verdict r) (CompletionNodeKey.Remediation r) CompletionEdgeCondition.Fail,
             edge (CompletionNodeKey.Remediation r) (CompletionNodeKey.Verdict (r + 1))
               CompletionEdgeCondition.Success})
       \<union> (\<lambda>v. edge (CompletionNodeKey.Verdict v) (CompletionNodeKey.Closeout Merge)
            CompletionEdgeCondition.Pass) ` set (rounds_to (pr_max_remediation_rounds p + 1))
       \<union> set closeout_edges"
  using assms
  by (auto simp: compile_def compile_rounds_Inr verdict_round_iff closeout_nodes_def map_concat comp_def)

lemma compiled_keys_distinct:
  assumes "compile digest p = Inr c"
  shows "distinct (map nd_key (cc_nodes c))"
proof -
  let ?n = "pr_max_remediation_rounds p"
  note keys = compile_Inr(5) [OF assms] and bound = compile_Inr(4) [OF assms]
  have "map depth (concat (map (\<lambda>r. [CompletionNodeKey.Remediation r, CompletionNodeKey.Verdict (r + 1)])
      (rounds_to ?n))) = [3..<2 * unat ?n + 3]"
    using round_depths [OF bound] by (simp add: map_concat comp_def)
  then have "map depth (map nd_key (cc_nodes c)) =
      [0, 1, 2] @ [3..<2 * unat ?n + 3] @ [1000, 1001, 1002, 1003, 1004, 1005] @ [2000, 2001]"
    unfolding keys by (simp add: CloseoutRequirement_ALL_def)
  moreover have "distinct ([0, 1, 2] @ [3..<2 * unat ?n + 3] @ [1000, 1001, 1002, 1003, 1004, 1005] @ [2000, 2001])"
    using bound by auto
  ultimately have "distinct (map depth (map nd_key (cc_nodes c)))" by (simp only:)
  then show ?thesis unfolding distinct_map [of depth] by (rule conjunct1)
qed

lemma set_closeout_edges:
  "set closeout_edges = (\<lambda>(a, b). edge (CompletionNodeKey.Closeout a) (CompletionNodeKey.Closeout b)
     CompletionEdgeCondition.Success) ` {(Merge, Release), (Release, VersionInventory),
       (VersionInventory, Summary), (Summary, Notification), (Notification, Archive)}"
  by (simp add: closeout_edges_def CloseoutRequirement_ALL_def)

lemma round_next: "r \<noteq> 0 \<Longrightarrow> r \<le> n \<Longrightarrow> unat (n :: u8) < 255 \<Longrightarrow> unat (r + 1) = Suc (unat r)"
  by (simp add: word_le_nat_alt unat_word_ariths)

lemma compiled_edges_descend:
  assumes "compile digest p = Inr c" and "e \<in> set (cc_edges c)"
  shows "depth (ed_from e) < depth (ed_to e)"
proof -
  let ?n = "pr_max_remediation_rounds p"
  note bound = compile_Inr(4) [OF assms(1)]
  have last: "unat (?n + 1) = Suc (unat ?n)" using bound by (simp add: unat_word_ariths)
  have small: "unat r \<le> Suc (unat ?n)" if "r \<le> ?n + 1" for r using that last by (simp add: word_le_nat_alt)
  from assms(2) show ?thesis
    unfolding compile_Inr(6) [OF assms(1)] set_rounds_to set_closeout_edges
    using bound last small round_next [of _ ?n] by (auto simp: word_le_nat_alt)
qed

lemma verdict_keys:
  assumes "compile digest p = Inr c"
  shows "CompletionNodeKey.Verdict r \<in> nd_key ` set (cc_nodes c) \<longleftrightarrow>
     r \<noteq> 0 \<and> r \<le> pr_max_remediation_rounds p + 1"
    "CompletionNodeKey.Remediation r \<in> nd_key ` set (cc_nodes c) \<longleftrightarrow>
     r \<noteq> 0 \<and> r \<le> pr_max_remediation_rounds p"
proof -
  let ?n = "pr_max_remediation_rounds p"
  note bound = compile_Inr(4) [OF assms]
  have keys: "nd_key ` set (cc_nodes c) = set (map nd_key (cc_nodes c))" by simp
  have last: "unat (?n + 1) = Suc (unat ?n)" using bound by (simp add: unat_word_ariths)
  have "r = 1 \<or> (\<exists>q. q \<noteq> 0 \<and> q \<le> ?n \<and> r = q + 1) \<longleftrightarrow> r \<noteq> 0 \<and> r \<le> ?n + 1"
  proof
    assume "r = 1 \<or> (\<exists>q. q \<noteq> 0 \<and> q \<le> ?n \<and> r = q + 1)"
    then show "r \<noteq> 0 \<and> r \<le> ?n + 1"
    proof
      assume "\<exists>q. q \<noteq> 0 \<and> q \<le> ?n \<and> r = q + 1"
      then obtain q where "q \<noteq> 0" "q \<le> ?n" "r = q + 1" by blast
      with round_next [OF this(1,2) bound] last show ?thesis
        by (auto simp: word_le_nat_alt unat_eq_0 [symmetric])
    qed (use last in \<open>simp add: word_le_nat_alt\<close>)
  next
    assume r: "r \<noteq> 0 \<and> r \<le> ?n + 1"
    show "r = 1 \<or> (\<exists>q. q \<noteq> 0 \<and> q \<le> ?n \<and> r = q + 1)"
    proof (cases "r = 1")
      case False
      then have "unat r \<noteq> 1" by (metis unsigned_1 word_unat_eq_iff)
      moreover from r have "unat r \<noteq> 0" by (simp add: unat_eq_0)
      ultimately have "1 < unat r" by linarith
      then have "unat (r - 1) = unat r - 1" by (simp add: unat_sub word_le_nat_alt)
      with r last \<open>1 < unat r\<close> have "r - 1 \<noteq> 0 \<and> r - 1 \<le> ?n" by (auto simp: word_le_nat_alt)
      then show ?thesis by (intro disjI2 exI [of _ "r - 1"]) simp
    qed simp
  qed
  then show "CompletionNodeKey.Verdict r \<in> nd_key ` set (cc_nodes c) \<longleftrightarrow> r \<noteq> 0 \<and> r \<le> ?n + 1"
    unfolding keys compile_Inr(5) [OF assms] by (auto simp: set_rounds_to)
  show "CompletionNodeKey.Remediation r \<in> nd_key ` set (cc_nodes c) \<longleftrightarrow> r \<noteq> 0 \<and> r \<le> ?n"
    unfolding keys compile_Inr(5) [OF assms] by (auto simp: set_rounds_to)
qed

lemma compiled_edges_closed:
  assumes "compile digest p = Inr c" and "e \<in> set (cc_edges c)"
  shows "ed_from e \<in> nd_key ` set (cc_nodes c)" "ed_to e \<in> nd_key ` set (cc_nodes c)"
proof -
  let ?n = "pr_max_remediation_rounds p"
  note keys = verdict_keys [OF assms(1)] and bound = compile_Inr(4) [OF assms(1)]
  have last: "unat (?n + 1) = Suc (unat ?n)" using bound by (simp add: unat_word_ariths)
  have others: "{CompletionNodeKey.Tickets, CompletionNodeKey.Integration, CompletionNodeKey.Done,
      CompletionNodeKey.NeedsHuman} \<union> range CompletionNodeKey.Closeout \<subseteq> nd_key ` set (cc_nodes c)"
  proof -
    have "k \<in> set CloseoutRequirement_ALL" for k by (cases k) (simp_all add: CloseoutRequirement_ALL_def)
    moreover have "nd_key ` set (cc_nodes c) = set (map nd_key (cc_nodes c))" by simp
    ultimately show ?thesis unfolding compile_Inr(5) [OF assms(1)] by auto
  qed
  have wide: "r \<le> ?n + 1 \<and> r + 1 \<noteq> 0 \<and> r + 1 \<le> ?n + 1" if "r \<noteq> 0" "r \<le> ?n" for r
    using that round_next [OF that bound] last by (auto simp: word_le_nat_alt unat_eq_0 [symmetric])
  have one: "(1 :: u8) \<le> ?n + 1" "?n + 1 \<noteq> 0" using last by (auto simp: word_le_nat_alt unat_eq_0 [symmetric])
  from assms(2) show "ed_from e \<in> nd_key ` set (cc_nodes c)" "ed_to e \<in> nd_key ` set (cc_nodes c)"
    unfolding compile_Inr(6) [OF assms(1)] set_rounds_to set_closeout_edges
    using others wide one by (auto simp: keys)
qed

lemma fixed_texts:
  "ExternalName_parse ''Restore callback delivery or explicitly authorize a new bounded observation path''
     = Inr ''Restore callback delivery or explicitly authorize a new bounded observation path''"
  "ExternalName_parse ''TPM'' = Inr ''TPM''"
  "ExternalName_parse ''bounded polling fallback'' = Inr ''bounded polling fallback''"
  "ExternalName_parse ''no bounded polling fallback was declared''
     = Inr ''no bounded polling fallback was declared''"
  "ExternalName_parse ''the bounded polling fallback was exhausted''
     = Inr ''the bounded polling fallback was exhausted''"
  "ExternalName_parse ''Review the unresolved Committee evidence with the LSA and TPM before continuing''
     = Inr ''Review the unresolved Committee evidence with the LSA and TPM before continuing''"
  by code_simp+

section \<open>What one signal changes\<close>

definition receipt_kept :: "content_hash option \<Rightarrow> content_hash option \<Rightarrow> bool" where
  "receipt_kept a b \<longleftrightarrow> a = None \<or> a = b"

definition closeout_kept :: "CloseoutEvidence \<Rightarrow> CloseoutEvidence \<Rightarrow> bool" where
  "closeout_kept a b \<longleftrightarrow>
     receipt_kept (merge_receipt a) (merge_receipt b) \<and> receipt_kept (release_receipt a) (release_receipt b)
     \<and> receipt_kept (summary_receipt a) (summary_receipt b)
     \<and> receipt_kept (notification_receipt a) (notification_receipt b)
     \<and> receipt_kept (archive_receipt a) (archive_receipt b)
     \<and> map_of (delivered_versions a) \<subseteq>\<^sub>m map_of (delivered_versions b)"

text \<open>Recorded history only grows; receipts are immutable within an era.\<close>

definition history_kept :: "CompletionState \<Rightarrow> CompletionState \<Rightarrow> bool" where
  "history_kept s s' \<longleftrightarrow>
     prefix (cst_integrations s) (cst_integrations s') \<and> prefix (cst_rounds s) (cst_rounds s')
     \<and> prefix (cst_remediations s) (cst_remediations s')
     \<and> prefix (cst_closeout_history s) (cst_closeout_history s')
     \<and> (unat (cst_generation s) < unat (cst_generation s')
        \<or> cst_generation s = cst_generation s' \<and> closeout_kept (cst_closeout s) (cst_closeout s'))"

lemma receipt_kept_trans: "receipt_kept a b \<Longrightarrow> receipt_kept b c \<Longrightarrow> receipt_kept a c"
  by (auto simp: receipt_kept_def)

lemma closeout_kept_refl [simp]: "closeout_kept a a"
  by (simp add: closeout_kept_def receipt_kept_def)

lemma closeout_kept_trans: "closeout_kept a b \<Longrightarrow> closeout_kept b c \<Longrightarrow> closeout_kept a c"
  unfolding closeout_kept_def by (blast intro: receipt_kept_trans map_le_trans)

lemma history_kept_refl [simp]: "history_kept s s"
  by (simp add: history_kept_def)

lemma history_kept_trans: "history_kept s t \<Longrightarrow> history_kept t u \<Longrightarrow> history_kept s u"
  unfolding history_kept_def
  by (elim conjE disjE) (auto intro: closeout_kept_trans prefix_order.trans)

lemma merge_receipt_kept: "merge_receipt_into a b = Inr r \<Longrightarrow> receipt_kept a r"
  by (auto simp: merge_receipt_into_def receipt_kept_def split: option.splits if_splits)

lemma map_of_insort:
  "map_of xs k = None \<Longrightarrow> map_of (insort_key fst (k, v) xs) = (map_of xs)(k \<mapsto> v)"
  by (induction xs) (auto simp: fun_eq_iff split: if_splits)

lemma merge_versions_kept: "merge_versions stored incoming = Inr r \<Longrightarrow> map_of stored \<subseteq>\<^sub>m map_of r"
proof (induction stored incoming rule: merge_versions.induct)
  case (2 stored service version incoming)
  show ?case
  proof (cases "map_of stored service")
    case None
    with 2 have "map_of (insort_key fst (service, version) stored) \<subseteq>\<^sub>m map_of r" by simp
    moreover have "map_of stored \<subseteq>\<^sub>m map_of (insort_key fst (service, version) stored)"
      using None by (simp add: map_of_insort map_le_def dom_def)
    ultimately show ?thesis by (rule map_le_trans [rotated])
  qed (use 2 in \<open>auto split: if_splits\<close>)
qed simp

lemma merge_closeout_kept: "merge_closeout t i = Inr r \<Longrightarrow> closeout_kept t r"
  unfolding merge_closeout_def closeout_kept_def
  by (auto dest!: merge_receipt_kept merge_versions_kept)

lemma observe_kept:
  assumes "observe c s observation = Inr (n, commands)"
  shows "history_kept s n" "cst_handled_signals n = cst_handled_signals s" "cst_revision n = cst_revision s"
    "cst_polling_attempts n = cst_polling_attempts s"
  using assms
  by (cases rule: observe_cases;
      auto simp: history_kept_def dest!: merge_closeout_kept checked_add_Some)+

lemma advance_effect:
  assumes "advance c s signal = Inr t" and "\<not> ct_replayed t"
  obtains n commands where "observe c s (sg_observation signal) = Inr (n, commands)"
    "history_kept n (ct_state t)"
    "set (cst_handled_signals (ct_state t)) = insert (sg_id signal) (set (cst_handled_signals s))"
    "unat (cst_revision (ct_state t)) = Suc (unat (cst_revision s))"
    "cst_revision s = sg_expected_revision signal"
    "CompletionPhase_is_terminal (cst_phase s) \<longrightarrow>
       governed_recovery c s (sg_observation signal) \<or> reopens (sg_observation signal)"
    "cst_phase (ct_state t) = cst_phase n
       \<or> cst_phase (ct_state t) = CompletionPhase.NeedsHuman \<and> cst_needs_human (ct_state t) \<noteq> None"
proof -
  from assms obtain n commands v n' commands' where
    obs: "observe c s (sg_observation signal) = Inr (n, commands)"
    and live: "CompletionPhase_is_terminal (cst_phase s) \<longrightarrow>
      governed_recovery c s (sg_observation signal) \<or> reopens (sg_observation signal)"
    and rev: "cst_revision s = sg_expected_revision signal" "AggregateRevision_next (cst_revision n) = Inr v"
    and del: "apply_delivery c
        (n\<lparr>cst_handled_signals := bt_insert (sg_id signal) (cst_handled_signals n), cst_revision := v\<rparr>)
        (cst_phase s) (sg_delivery signal) commands = Inr (n', commands')"
    and t: "ct_state t = n'"
    by (auto simp: advance_Inr)
  note kept = observe_kept [OF obs]
  show ?thesis
    by (rule that [OF obs _ _ _ rev(1) live])
      (use delivery_effect [OF del] kept t AggregateRevision_next_Inr [OF rev(2)] in
        \<open>auto simp: history_kept_def\<close>)
qed

lemma advance_kept: "advance c s signal = Inr t \<Longrightarrow> history_kept s (ct_state t)"
proof (cases "ct_replayed t")
  case True
  assume "advance c s signal = Inr t"
  with True show ?thesis by (auto simp: advance_Inr)
next
  case False
  assume "advance c s signal = Inr t"
  from this False obtain n commands where "observe c s (sg_observation signal) = Inr (n, commands)"
    "history_kept n (ct_state t)" by (rule advance_effect)
  then show ?thesis using observe_kept(1) history_kept_trans by blast
qed

lemma run_kept: "try_run completion_step s rs = Inr s' \<Longrightarrow>
    history_kept s s' \<and> set (cst_handled_signals s) \<subseteq> set (cst_handled_signals s')"
proof (induction rs arbitrary: s)
  case (Cons r rs)
  from Cons.prems obtain t where t: "advance (fst r) s (snd r) = Inr t"
    and run: "try_run completion_step (ct_state t) rs = Inr s'"
    by (auto simp: completion_step_Inr)
  have "set (cst_handled_signals s) \<subseteq> set (cst_handled_signals (ct_state t))"
  proof (cases "ct_replayed t")
    case True
    with t show ?thesis by (auto simp: advance_Inr)
  next
    case False
    with t show ?thesis by (elim advance_effect) auto
  qed
  with Cons.IH [OF run] advance_kept [OF t] show ?case by (auto intro: history_kept_trans)
qed simp

section \<open>The machine in the graph\<close>

fun phase_node :: "CompletionPhase \<Rightarrow> CompletionNodeKey" where
  "phase_node CompletionPhase.Tickets = CompletionNodeKey.Tickets"
| "phase_node CompletionPhase.Integration = CompletionNodeKey.Integration"
| "phase_node (CompletionPhase.Verdict r) = CompletionNodeKey.Verdict r"
| "phase_node (CompletionPhase.AwaitRemediation r) = CompletionNodeKey.Remediation r"
| "phase_node (CompletionPhase.Remediating r) = CompletionNodeKey.Remediation r"
| "phase_node CompletionPhase.Closeout = CompletionNodeKey.Closeout Merge"
| "phase_node CompletionPhase.Done = CompletionNodeKey.Done"
| "phase_node CompletionPhase.NeedsHuman = CompletionNodeKey.NeedsHuman"

text \<open>Waiting at a node, for the approval or the result of a remediation, or following compiled
  edges; the closeout chain is followed as a whole.\<close>

definition follows_edges :: "CompiledCompletion \<Rightarrow> CompletionPhase \<Rightarrow> CompletionPhase \<Rightarrow> bool" where
  "follows_edges c a b \<longleftrightarrow>
     phase_node a = phase_node b
     \<or> (\<exists>condition. edge (phase_node a) (phase_node b) condition \<in> set (cc_edges c))
     \<or> (phase_node a, phase_node b) \<in> {(ed_from e, ed_to e) |e. e \<in> set (cc_edges c)
           \<and> ed_condition e = CompletionEdgeCondition.Success}\<^sup>+"

lemma follows_edge:
  "edge (phase_node a) (phase_node b) k \<in> set (cc_edges c) \<Longrightarrow> follows_edges c a b"
  unfolding follows_edges_def by blast

lemma closeout_path:
  assumes "compile digest p = Inr c"
  shows "follows_edges c CompletionPhase.Closeout CompletionPhase.Done"
proof -
  let ?R = "{(ed_from e, ed_to e) |e. e \<in> set (cc_edges c) \<and> ed_condition e = CompletionEdgeCondition.Success}"
  have "(CompletionNodeKey.Closeout Merge, CompletionNodeKey.Closeout Release) \<in> ?R"
    "(CompletionNodeKey.Closeout Release, CompletionNodeKey.Closeout VersionInventory) \<in> ?R"
    "(CompletionNodeKey.Closeout VersionInventory, CompletionNodeKey.Closeout Summary) \<in> ?R"
    "(CompletionNodeKey.Closeout Summary, CompletionNodeKey.Closeout Notification) \<in> ?R"
    "(CompletionNodeKey.Closeout Notification, CompletionNodeKey.Closeout Archive) \<in> ?R"
    "(CompletionNodeKey.Closeout Archive, CompletionNodeKey.Done) \<in> ?R"
    by (force simp: compile_Inr(6) [OF assms] set_closeout_edges)+
  then have "(CompletionNodeKey.Closeout Merge, CompletionNodeKey.Done) \<in> ?R\<^sup>+"
    by (meson trancl.r_into_trancl trancl_into_trancl2)
  then show ?thesis by (simp add: follows_edges_def)
qed

lemma observe_follows:
  assumes c: "compile digest p = Inr c" and obs: "observe c s observation = Inr (n, commands)"
    and inside: "phase_node (cst_phase s) \<in> nd_key ` set (cc_nodes c)"
  shows "follows_edges c (cst_phase s) (cst_phase n)
     \<or> reopens observation \<or> governed_recovery c s observation \<or> cst_phase n = CompletionPhase.NeedsHuman"
proof -
  note edges = compile_Inr(6) [OF c] and keys = verdict_keys [OF c] and prof = compile_Inr(1) [OF c]
  from obs show ?thesis
  proof (cases rule: observe_cases)
    case reopened
    then show ?thesis by (simp add: reopens_def)
  next
    case tickets
    then show ?thesis
      by (intro disjI1 follows_edge [where k = CompletionEdgeCondition.Success]) (simp add: edges)
  next
    case integration
    then show ?thesis
      by (intro disjI1 follows_edge [where k = CompletionEdgeCondition.Success]) (simp add: edges)
  next
    case (verdict r rounds)
    with inside have r: "cr_round r \<noteq> 0" "cr_round r \<le> pr_max_remediation_rounds p + 1" by (auto simp: keys)
    then have "follows_edges c (CompletionPhase.Verdict (cr_round r)) CompletionPhase.Closeout"
      by (intro follows_edge [where k = CompletionEdgeCondition.Pass]) (simp add: edges set_rounds_to)
    moreover have "follows_edges c (CompletionPhase.Verdict (cr_round r))
        (CompletionPhase.AwaitRemediation (cr_round r))" if "cr_round r \<le> pr_max_remediation_rounds p"
      using that \<open>cr_round r \<noteq> 0\<close>
      by (intro follows_edge [where k = CompletionEdgeCondition.Fail]) (simp add: edges set_rounds_to)
    ultimately show ?thesis using verdict prof by auto
  next
    case (approved a)
    then show ?thesis by (simp add: follows_edges_def)
  next
    case (recovered a)
    then show ?thesis by (simp add: governed_recovery_def)
  next
    case (remediated round authorization i v)
    with inside have r: "round \<noteq> 0" "round \<le> pr_max_remediation_rounds p" by (auto simp: keys)
    from round_next [OF r compile_Inr(4) [OF c]] remediated(3) have "v = round + 1"
      by (simp add: word_unat_eq_iff)
    with remediated r show ?thesis
      by (intro disjI1 follows_edge [where k = CompletionEdgeCondition.Success]) (simp add: edges set_rounds_to)
  next
    case (closeout evidence questions closeout)
    then show ?thesis using closeout_path [OF c] by (auto simp: follows_edges_def)
  next
    case attention
    then show ?thesis by (simp add: follows_edges_def)
  qed simp
qed

lemma follows_stays:
  assumes c: "compile digest p = Inr c" and "follows_edges c a b"
    and inside: "phase_node a \<in> nd_key ` set (cc_nodes c)"
  shows "phase_node b \<in> nd_key ` set (cc_nodes c)"
proof -
  let ?R = "{(ed_from e, ed_to e) |e. e \<in> set (cc_edges c) \<and> ed_condition e = CompletionEdgeCondition.Success}"
  have path: "y \<in> nd_key ` set (cc_nodes c)" if "(x, y) \<in> ?R\<^sup>+" for x y
    using that by (induction rule: trancl_induct) (auto dest: compiled_edges_closed(2) [OF c])
  from assms(2) consider "phase_node a = phase_node b"
    | condition where "edge (phase_node a) (phase_node b) condition \<in> set (cc_edges c)"
    | "(phase_node a, phase_node b) \<in> ?R\<^sup>+"
    unfolding follows_edges_def by blast
  then show ?thesis
  proof cases
    case 1
    with inside show ?thesis by simp
  next
    case 2
    from compiled_edges_closed(2) [OF c this] show ?thesis by simp
  next
    case 3
    then show ?thesis by (rule path)
  qed
qed

section \<open>Polling\<close>

fun poll_signals :: "u64 \<Rightarrow> content_hash list \<Rightarrow> CompletionSignal list" where
  "poll_signals v [] = []"
| "poll_signals v (i # is) =
     \<lparr>sg_id = i, sg_expected_revision = v, sg_delivery = Polling, sg_observation = Attention\<rparr>
     # poll_signals (v + 1) is"

lemma exhausted_escalates:
  "\<exists>payload. enter_polling_needs_human s ''the bounded polling fallback was exhausted''
     = Inr (s\<lparr>cst_needs_human := Some payload, cst_phase := CompletionPhase.NeedsHuman\<rparr>)"
proof -
  have "\<exists>s'. enter_polling_needs_human s ''the bounded polling fallback was exhausted'' = Inr s'"
    by (simp add: enter_polling_needs_human_def fixed_texts NeedsHumanPayload_new_def)
  then show ?thesis using polling_escalation by blast
qed

lemma poll_step:
  assumes "pr_polling_fallback (cc_profile c) = Some f" and "\<not> CompletionPhase_is_terminal (cst_phase s)"
    and "pf_definition_hash (cst_profile s) = cc_definition_hash c" and "i \<notin> set (cst_handled_signals s)"
    and "unat (cst_revision s) + 1 < 2 ^ 64"
  defines "s1 \<equiv> s\<lparr>cst_handled_signals := bt_insert i (cst_handled_signals s), cst_revision := cst_revision s + 1\<rparr>"
  shows "\<exists>s'. completion_step s (c, \<lparr>sg_id = i, sg_expected_revision = cst_revision s, sg_delivery = Polling,
       sg_observation = Attention\<rparr>) = Inr s'
     \<and> (if pf_max_attempts f \<le> cst_polling_attempts s
        then \<exists>payload. s' = s1\<lparr>cst_needs_human := Some payload, cst_phase := CompletionPhase.NeedsHuman\<rparr>
        else s' = s1\<lparr>cst_polling_attempts := cst_polling_attempts s + 1\<rparr>
             \<and> unat (cst_polling_attempts s') = Suc (unat (cst_polling_attempts s)))"
proof -
  have next_revision: "AggregateRevision_next (cst_revision s) = Inr (cst_revision s + 1)"
    using assms(5) by (simp add: AggregateRevision_next_def checked_add_def)
  have more: "checked_add (cst_polling_attempts s) 1 = Some (cst_polling_attempts s + 1)
      \<and> unat (cst_polling_attempts s + 1) = Suc (unat (cst_polling_attempts s))"
    if "\<not> pf_max_attempts f \<le> cst_polling_attempts s"
  proof -
    have "unat (pf_max_attempts f) < 2 ^ LENGTH(8)" by (rule unsigned_less)
    with that show ?thesis by (simp add: word_le_nat_alt checked_add_def unat_word_ariths)
  qed
  show ?thesis
  proof (cases "pf_max_attempts f \<le> cst_polling_attempts s")
    case True
    obtain payload where "enter_polling_needs_human s1 ''the bounded polling fallback was exhausted''
        = Inr (s1\<lparr>cst_needs_human := Some payload, cst_phase := CompletionPhase.NeedsHuman\<rparr>)"
      using exhausted_escalates by blast
    with True assms(1-4) next_revision have "completion_step s (c, \<lparr>sg_id = i,
        sg_expected_revision = cst_revision s, sg_delivery = Polling, sg_observation = Attention\<rparr>)
        = Inr (s1\<lparr>cst_needs_human := Some payload, cst_phase := CompletionPhase.NeedsHuman\<rparr>)"
      by (simp add: completion_step_def advance_def observe_def reopens_def s1_def apply_delivery_def)
    with True show ?thesis by auto
  next
    case False
    with assms(1-4) next_revision more [OF False] show ?thesis
      by (simp add: completion_step_def advance_def observe_def reopens_def s1_def apply_delivery_def)
  qed
qed

section \<open>Properties\<close>

text \<open>C26. An epic is done only on proof.  Whatever signals were accepted since the start, also across
  reopenings under new definitions, a done completion has every closeout receipt, no open question
  at its last read, and as its last verdict a pass of the current era under the pinned definition;
  in the first era the ticket gate is open as well.\<close>

theorem completion_done_is_proved:
  assumes "start c tpm requirements = Inr s" and "try_run completion_step s rs = Inr s'"
    and "cst_phase s' = CompletionPhase.Done"
  shows "closeout_blockers (cst_closeout s') = [] \<and> open_question_blockers (cst_open_questions s') = []
     \<and> (\<exists>earlier r e. cst_rounds s' = earlier @ [r] \<and> cr_verdict r = CommitteeVerdict.Pass
          \<and> cr_decided_in r = Some e \<and> era_generation e = cst_generation s'
          \<and> era_definition_hash e = pf_definition_hash (cst_profile s'))
     \<and> (unat (cst_generation s') = 1 \<longrightarrow>
          ticket_gate_blockers (cst_ticket_requirements s') (cst_ticket_evidence s') = Inr [])"
  using assms(3) finished.run_keeps [OF assms(1,2)] verdicts.run_keeps [OF assms(1,2)]
    tickets.run_keeps [OF assms(1,2)]
  unfolding done_ok_def verdict_ok_def tickets_ok_def by auto

text \<open>C29. A signal takes effect once: an accepted signal names the current revision and moves it by
  one, whatever is accepted afterwards its redelivery returns the state unchanged with no command,
  and recorded results, rounds and receipts are never rewritten.\<close>

theorem completion_effects_once:
  assumes "advance c s signal = Inr t" and "\<not> ct_replayed t"
    and "try_run completion_step (ct_state t) rs = Inr s'" and "sg_id again = sg_id signal"
  shows "advance c' s' again = Inr \<lparr>ct_state = s', ct_commands = [], ct_replayed = True\<rparr>
     \<and> cst_revision s = sg_expected_revision signal
     \<and> unat (cst_revision (ct_state t)) = Suc (unat (cst_revision s))
     \<and> history_kept s s'"
proof -
  from assms(1,2) obtain n commands where
    "set (cst_handled_signals (ct_state t)) = insert (sg_id signal) (set (cst_handled_signals s))"
    "unat (cst_revision (ct_state t)) = Suc (unat (cst_revision s))"
    "cst_revision s = sg_expected_revision signal" by (rule advance_effect)
  moreover have "history_kept s s'"
    using advance_kept [OF assms(1)] run_kept [OF assms(3)] history_kept_trans by blast
  moreover have "sg_id again \<in> set (cst_handled_signals s')"
    using calculation(1) run_kept [OF assms(3)] assms(4) by auto
  ultimately show ?thesis by (simp add: advance_def)
qed


text \<open>C30. A profile compiles exactly when its polling bound is positive and its rounds fit a byte, and
  then to a sound graph: node keys are unique, edges join declared nodes, the graph has no cycle,
  and every verdict node has an edge for either verdict, a failed one leading to its remediation
  or, in the last round, to a human.\<close>

theorem compiled_graph_sound:
  assumes "digest p = Inr hash"
  shows "case compile digest p of
     Inl e \<Rightarrow> (\<exists>f. pr_polling_fallback p = Some f \<and> pf_max_attempts f = 0)
        \<or> unat (pr_max_remediation_rounds p) = 255
   | Inr c \<Rightarrow>
       (\<forall>f. pr_polling_fallback p = Some f \<longrightarrow> pf_max_attempts f \<noteq> 0)
       \<and> unat (pr_max_remediation_rounds p) < 255
       \<and> distinct (map nd_key (cc_nodes c))
       \<and> (\<forall>e \<in> set (cc_edges c). {ed_from e, ed_to e} \<subseteq> nd_key ` set (cc_nodes c))
       \<and> acyclic {(ed_from e, ed_to e) |e. e \<in> set (cc_edges c)}
       \<and> (\<forall>r. CompletionNodeKey.Verdict r \<in> nd_key ` set (cc_nodes c) \<longrightarrow>
            edge (CompletionNodeKey.Verdict r) (CompletionNodeKey.Closeout Merge) CompletionEdgeCondition.Pass
              \<in> set (cc_edges c)
            \<and> edge (CompletionNodeKey.Verdict r)
                (if r \<le> pr_max_remediation_rounds p then CompletionNodeKey.Remediation r
                 else CompletionNodeKey.NeedsHuman) CompletionEdgeCondition.Fail \<in> set (cc_edges c))"
proof (cases "compile digest p")
  case (Inl e)
  have rounds: "\<exists>r. compile_rounds committee (rounds_to n) = Inr r" if "unat n < 255" for committee n
    using that compile_rounds_Inr [of committee "rounds_to n"] by (force simp: set_rounds_to word_le_nat_alt)
  have "unat (pr_max_remediation_rounds p) < 2 ^ LENGTH(8)" by (rule unsigned_less)
  with Inl rounds [of "pr_max_remediation_rounds p" "pr_verdict_committee p"] assms show ?thesis
    by (auto simp: compile_def CompletionProfile_validate_def verdict_round_def checked_add_def
        split: option.splits if_splits prod.splits)
next
  case (Inr c)
  let ?n = "pr_max_remediation_rounds p" and ?E = "{(ed_from e, ed_to e) |e. e \<in> set (cc_edges c)}"
  have "acyclic ?E"
    by (rule acyclicI_order [of _ "\<lambda>k. - int (depth k)"]) (auto dest: compiled_edges_descend [OF Inr])
  moreover have "edge (CompletionNodeKey.Verdict r) (CompletionNodeKey.Closeout Merge)
        CompletionEdgeCondition.Pass \<in> set (cc_edges c)
      \<and> edge (CompletionNodeKey.Verdict r) (if r \<le> ?n then CompletionNodeKey.Remediation r
          else CompletionNodeKey.NeedsHuman) CompletionEdgeCondition.Fail \<in> set (cc_edges c)"
    if "CompletionNodeKey.Verdict r \<in> nd_key ` set (cc_nodes c)" for r
  proof -
    from that have r: "r \<noteq> 0" "r \<le> ?n + 1" by (simp_all add: verdict_keys [OF Inr])
    have "unat (?n + 1) = Suc (unat ?n)" using compile_Inr(4) [OF Inr] by (simp add: unat_word_ariths)
    with r have "r = ?n + 1" if "\<not> r \<le> ?n" using that by (simp add: word_le_nat_alt word_unat_eq_iff)
    with r show ?thesis by (auto simp: compile_Inr(6) [OF Inr] set_rounds_to)
  qed
  moreover have "\<forall>f. pr_polling_fallback p = Some f \<longrightarrow> pf_max_attempts f \<noteq> 0"
    using compile_Inr(3) [OF Inr] by (auto simp: CompletionProfile_validate_def)
  ultimately show ?thesis
    using Inr compile_Inr(4) [OF Inr] compiled_keys_distinct [OF Inr] compiled_edges_closed [OF Inr] by auto
qed

text \<open>C28. Polling cannot go on: from any open phase, one poll more than the attempts the declared
  fallback has left brings the completion to a human with a payload, if nothing else is observed.\<close>

theorem completion_polling_ends:
  assumes "pr_polling_fallback (cc_profile c) = Some f" and "\<not> CompletionPhase_is_terminal (cst_phase s)"
    and "pf_definition_hash (cst_profile s) = cc_definition_hash c"
    and "distinct ids" "set ids \<inter> set (cst_handled_signals s) = {}"
    and "length ids = Suc (unat (pf_max_attempts f) - unat (cst_polling_attempts s))"
    and "unat (cst_revision s) + length ids < 2 ^ 64"
  shows "\<exists>s'. try_run completion_step s (map (Pair c) (poll_signals (cst_revision s) ids)) = Inr s'
     \<and> cst_phase s' = CompletionPhase.NeedsHuman \<and> cst_needs_human s' \<noteq> None"
  using assms(2-)
proof (induction ids arbitrary: s)
  case (Cons i ids)
  have "i \<notin> set (cst_handled_signals s)" "unat (cst_revision s) + 1 < 2 ^ 64" using Cons.prems by auto
  from poll_step [OF assms(1) Cons.prems(1,2) this] obtain s1 where
    s1: "completion_step s (c, \<lparr>sg_id = i, sg_expected_revision = cst_revision s, sg_delivery = Polling,
      sg_observation = Attention\<rparr>) = Inr s1" and cases:
    "if pf_max_attempts f \<le> cst_polling_attempts s
     then \<exists>payload. s1 = s\<lparr>cst_handled_signals := bt_insert i (cst_handled_signals s),
       cst_revision := cst_revision s + 1\<rparr>\<lparr>cst_needs_human := Some payload, cst_phase := CompletionPhase.NeedsHuman\<rparr>
     else s1 = s\<lparr>cst_handled_signals := bt_insert i (cst_handled_signals s), cst_revision := cst_revision s + 1\<rparr>
         \<lparr>cst_polling_attempts := cst_polling_attempts s + 1\<rparr>
       \<and> unat (cst_polling_attempts s1) = Suc (unat (cst_polling_attempts s))" by blast
  show ?case
  proof (cases "pf_max_attempts f \<le> cst_polling_attempts s")
    case True
    with Cons.prems(5) have "ids = []" by (simp add: word_le_nat_alt)
    with True cases s1 show ?thesis by auto
  next
    case False
    then have "unat (cst_polling_attempts s) < unat (pf_max_attempts f)" by (simp add: word_le_nat_alt)
    moreover have "unat (cst_revision s + 1) = Suc (unat (cst_revision s))"
      using Cons.prems(6) by (simp add: unat_word_ariths)
    ultimately have "\<exists>s'. try_run completion_step s1 (map (Pair c) (poll_signals (cst_revision s1) ids)) = Inr s'
        \<and> cst_phase s' = CompletionPhase.NeedsHuman \<and> cst_needs_human s' \<noteq> None"
      using Cons.prems False cases by (intro Cons.IH) auto
    with s1 False cases show ?thesis by auto
  qed
qed simp

section \<open>A worked completion\<close>

definition sample_completion_profile :: CompletionProfile where
  "sample_completion_profile =
     \<lparr>pr_id = ''default'', pr_version = 1, pr_name = ''Default'', pr_integration_team = ''team'',
      pr_verdict_committee = ''committee'', pr_max_remediation_rounds = 0,
      pr_polling_fallback = Some \<lparr>pf_max_attempts = 1\<rparr>\<rparr>"

definition sample_compiled :: CompiledCompletion where
  "sample_compiled = (case compile (\<lambda>_. Inr ''hash'') sample_completion_profile of
     Inr c \<Rightarrow> c | Inl _ \<Rightarrow> \<lparr>cc_profile = sample_completion_profile, cc_definition_hash = [], cc_nodes = [], cc_edges = []\<rparr>)"

definition sample_ticket :: TicketRequirement where
  "sample_ticket = \<lparr>rq_ticket = 1, rq_goals = [''goal''], rq_evidence = []\<rparr>"

definition sample_signal :: "string \<Rightarrow> u64 \<Rightarrow> CompletionObservation \<Rightarrow> CompiledCompletion \<times> CompletionSignal" where
  "sample_signal i v observation =
     (sample_compiled, \<lparr>sg_id = i, sg_expected_revision = v, sg_delivery = Callback, sg_observation = observation\<rparr>)"

definition sample_outcome :: "string \<Rightarrow> IntegrationRecord" where
  "sample_outcome r = \<lparr>in_receipt = r, in_repositories = [\<lparr>ro_repository = ''core'', ro_pull_request = r,
     ro_module_revision = r, ro_root_pointer_revision = None\<rparr>], in_decided_in = None\<rparr>"

definition sample_verdict_signal :: "u8 \<Rightarrow> CommitteeVerdict \<Rightarrow> CompletionObservation" where
  "sample_verdict_signal r v = VerdictRecorded r v ''finding'' None None None
     [\<lparr>ds_role = ''LSA'', ds_consultation = ''review'', ds_round = r, ds_outcome = ''done''\<rparr>]"

definition sample_receipts :: CompletionObservation where
  "sample_receipts = CloseoutRecorded
     \<lparr>merge_receipt = Some ''m'', release_receipt = Some ''r'', delivered_versions = [(''core'', ''1'')],
      summary_receipt = Some ''s'', notification_receipt = Some ''n'', archive_receipt = Some ''a''\<rparr> []"

definition sample_first_era :: "(CompiledCompletion \<times> CompletionSignal) list" where
  "sample_first_era =
     [sample_signal ''d'' 1 (TicketsClosed [\<lparr>te_ticket = 1, te_goals = [''goal''], te_evidence = []\<rparr>]),
      sample_signal ''c'' 2 (IntegrationCompleted (sample_outcome ''i'')),
      sample_signal ''b'' 3 (sample_verdict_signal 1 CommitteeVerdict.Pass),
      sample_signal ''a'' 4 sample_receipts]"

text \<open>A failed last verdict, a reopening of the tickets, a stall, and a recovery approved for the
  failed round of the earlier era.\<close>

definition sample_cross_era :: "(CompiledCompletion \<times> CompletionSignal) list" where
  "sample_cross_era =
     [sample_signal ''i'' 1 (TicketsClosed [\<lparr>te_ticket = 1, te_goals = [''goal''], te_evidence = []\<rparr>]),
      sample_signal ''h'' 2 (IntegrationCompleted (sample_outcome ''i'')),
      sample_signal ''g'' 3 (sample_verdict_signal 1 CommitteeVerdict.Fail),
      sample_signal ''f'' 4 (TicketWorkReopened [sample_ticket]),
      sample_signal ''e'' 5 (Stalled \<lparr>nh_recommended_resolution = ''wait'', nh_tried_deliberation_path =
        [\<lparr>ds_role = ''TPM'', ds_consultation = ''poll'', ds_round = 0, ds_outcome = ''none''\<rparr>]\<rparr>),
      sample_signal ''d'' 6 (RemediationApproved \<lparr>ra_round = 1, ra_authorization =
        \<lparr>rz_lsa_proposal = ''l'', rz_tpm_routing = ''t'', rz_lsa_actor = None, rz_tpm_actor = None,
         rz_needs_human_recovery = True\<rparr>\<rparr>),
      sample_signal ''c'' 7 (RemediationCompleted (sample_outcome ''j'')),
      sample_signal ''b'' 8 (sample_verdict_signal 2 CommitteeVerdict.Pass),
      sample_signal ''a'' 9 sample_receipts]"

lemma sample_compiles: "compile (\<lambda>_. Inr ''hash'') sample_completion_profile = Inr sample_compiled"
proof -
  have "\<exists>c. compile (\<lambda>_. Inr ''hash'') sample_completion_profile = Inr c"
    by (simp add: compile_def sample_completion_profile_def CompletionProfile_validate_def rounds_to_def
        verdict_round_def checked_add_def)
  then show ?thesis by (auto simp: sample_compiled_def)
qed

lemma sample_compiled_facts [simp]:
  "cc_definition_hash sample_compiled = ''hash''" "cc_profile sample_compiled = sample_completion_profile"
  using compile_Inr(1,2) [OF sample_compiles] by simp_all

lemmas completion_eval = completion_step_def sample_signal_def advance_def observe_def reopens_def
  governed_recovery_def CompletionPhase_is_terminal_def observe_tickets_def observe_integration_def
  observe_verdict_def observe_closeout_def observe_approval_def observe_remediation_def
  observe_reopened_def apply_delivery_def validate_integration_def sample_outcome_def
  sample_verdict_signal_def sample_receipts_def sample_ticket_def sample_completion_profile_def
  enter_failed_verdict_needs_human_def NeedsHumanPayload_new_def fixed_texts stamp_def
  merge_closeout_def merge_receipt_into_def closeout_blockers_def open_question_blockers_def
  ticket_gate_blockers_def ticket_blockers_def difference_def CloseoutEvidence_default_def
  needs_human_recovery_round_def recorded_era_def validate_new_recovery_integration_def
  verdict_round_def checked_add_def start_def profile_ref_def bt_insert_def
  AggregateRevision_expect_def AggregateRevision_next_def AggregateRevision_INITIAL_def
  initial_completion_generation_def Let_def

lemma sample_first_era_done:
  "\<exists>s s'. start sample_compiled 7 [sample_ticket] = Inr s \<and> try_run completion_step s sample_first_era = Inr s'
     \<and> cst_phase s' = CompletionPhase.Done \<and> cst_generation s' = 1"
  by (simp add: sample_first_era_def completion_eval)

text \<open>A recovery reaches over a reopening: the second era is done although its tickets are not.\<close>

lemma recovery_crosses_eras:
  "\<exists>s s'. start sample_compiled 7 [sample_ticket] = Inr s \<and> try_run completion_step s sample_cross_era = Inr s'
     \<and> cst_phase s' = CompletionPhase.Done \<and> cst_generation s' = 2
     \<and> ticket_gate_blockers (cst_ticket_requirements s') (cst_ticket_evidence s') = Inr [MissingTicket 1]"
  by (simp add: sample_cross_era_def completion_eval)

theorem completion_done_is_proved_witness:
  "\<exists>s s'. start sample_compiled 7 [sample_ticket] = Inr s \<and> try_run completion_step s sample_first_era = Inr s'
     \<and> cst_phase s' = CompletionPhase.Done
     \<and> ticket_gate_blockers (cst_ticket_requirements s') (cst_ticket_evidence s') = Inr []"
proof -
  from sample_first_era_done obtain s s' where s: "start sample_compiled 7 [sample_ticket] = Inr s"
    "try_run completion_step s sample_first_era = Inr s'" "cst_phase s' = CompletionPhase.Done"
    "cst_generation s' = 1" by blast
  with completion_done_is_proved [OF s(1-3)] show ?thesis by auto
qed

theorem completion_effects_once_witness:
  "\<exists>s t. start sample_compiled 7 [sample_ticket] = Inr s
     \<and> advance sample_compiled s (snd (sample_signal ''a'' 1 Attention)) = Inr t \<and> \<not> ct_replayed t
     \<and> advance sample_compiled (ct_state t) (snd (sample_signal ''a'' 2 Attention))
       = Inr \<lparr>ct_state = ct_state t, ct_commands = [], ct_replayed = True\<rparr>"
proof -
  have "\<exists>s t. start sample_compiled 7 [sample_ticket] = Inr s
      \<and> advance sample_compiled s (snd (sample_signal ''a'' 1 Attention)) = Inr t \<and> \<not> ct_replayed t"
    by (simp add: completion_eval)
  then obtain s t where t: "start sample_compiled 7 [sample_ticket] = Inr s"
    "advance sample_compiled s (snd (sample_signal ''a'' 1 Attention)) = Inr t" "\<not> ct_replayed t" by blast
  have "try_run completion_step (ct_state t) [] = Inr (ct_state t)"
    "sg_id (snd (sample_signal ''a'' 2 Attention)) = sg_id (snd (sample_signal ''a'' 1 Attention))"
    by (simp_all add: sample_signal_def)
  from completion_effects_once [OF t(2,3) this] t show ?thesis by blast
qed


theorem compiled_graph_sound_witness:
  "acyclic {(ed_from e, ed_to e) |e. e \<in> set (cc_edges sample_compiled)}"
  using compiled_graph_sound [of "\<lambda>_. Inr ''hash''" sample_completion_profile "''hash''"]
  by (simp add: sample_compiles)

theorem completion_polling_ends_witness:
  "\<exists>s s'. start sample_compiled 7 [sample_ticket] = Inr s
     \<and> try_run completion_step s (map (Pair sample_compiled) (poll_signals 1 [''a'', ''b''])) = Inr s'
     \<and> cst_phase s' = CompletionPhase.NeedsHuman"
proof -
  have "\<exists>s. start sample_compiled 7 [sample_ticket] = Inr s" by (simp add: completion_eval)
  then obtain s where s: "start sample_compiled 7 [sample_ticket] = Inr s" ..
  note facts = start_Inr [OF s]
  have "\<exists>s'. try_run completion_step s (map (Pair sample_compiled) (poll_signals (cst_revision s) [''a'', ''b''])) = Inr s'
      \<and> cst_phase s' = CompletionPhase.NeedsHuman \<and> cst_needs_human s' \<noteq> None"
    by (rule completion_polling_ends [of _ "\<lparr>pf_max_attempts = 1\<rparr>"])
      (simp_all add: facts sample_completion_profile_def CompletionPhase_is_terminal_def profile_ref_def)
  with s facts show ?thesis by auto
qed

end
