(* ===== verification/Command_Receipt.thy ===== *)
theory Command_Receipt
  imports Open_Question Run_Lifecycle
begin

text \<open>
  Command intent and confirmation, \<^verbatim>\<open>crates/kontor-core/src/receipt.rs\<close>: the closed command
  vocabulary, the compatibility matrix \<open>rule_for\<close> between a command and the aggregate it may target,
  the receipt state machine, the evidence that unlocks another dispatch after an unknown result, and
  the replay guard of an idempotency key.  \<open>AggregateRef\<close> is declared in \<^verbatim>\<open>Open_Question\<close>, which
  cites it.  A canonical document is its bytes with their digest; the digest function belongs to the
  document's constructors and is not recomputed here.
\<close>

section \<open>Commands and their targets\<close>

datatype (plugins only:) CommandKind =
    LaunchRun | CancelRun | ParkRun | AbandonRun | ResumeTask | RecordGateVerdict |
    RecoverGateRejection | AttestRetiredEvaluatorEvidence | ApproveIntake | SyncTicket |
    AssignTicket | TransitionTicket | AuthorizeExecution | ApproveScheduleOverride |
    RevokeScheduleOverride | ResolveStatusConflict | AssignWorkCalendar |
    RevokeExecutionAuthorization | EnsureProject | ApplyEpicGraph | ImportBacklog |
    TransitionEpic | StartScheduledWork | TransitionTask | ResolveContext | SelectTaskProfile |
    SelectTaskTeam | SelectTaskAccount | CorrectTaskWorktree | ReconcileTicket |
    MaterializeJira | PublishTicketDescription | PublishEpicDescription | ActivateEpic |
    SettleRuntime | ReplaceSeat | RefreshCapacity | OverrideAvailability | ObserveSeat |
    RetireSeat | PublishTopologySpec | PublishTeamDefinition | SelectProjectTopology |
    SelectProjectTeamDefinition | UpgradeTopology | UpgradeTeamDefinition |
    CorrectEpicBacklogCode | RecoverTopologyContainer | RetitleContainer |
    ReconcileNativeNames | ApplyCoreTeam | ApplyAdvisorProfile | ApplyCommitteeTemplate |
    InvokeAdvisorRun | SettleAdvisorRun | InvokeCommitteeRun | RecordCommitteeFindings |
    SettleCommitteeRun | RecoverConsultationSeat | RerouteUnmaterializedConsultationSeat |
    ApplyPlanningPairProfile | InvokePlanningPairRun | RecordPlanningPairFinding |
    RequestPlanningPairClarification | RecordPlanningPairAnswer |
    RecordPlanningPairDisposition | RecoverPlanningPairSeat | DeclareDurableSeat |
    ReconcileDurableSeats | EnsureQuickSession | PromoteQuickSession | MaterializeCoreTeam |
    CorrectCoreTeamRoute | ClaimCoreTeamSeat | UpgradeEpicRoster | OpenAdHocDeskAdam |
    HandOffDeskAdam | OpenPrReview | ClosePrReview | EnsureAccountProfile | SubmitIntake |
    PullTicketComments | ClaimTicket | ApplyCompletionProfile | AdvanceCompletion |
    RemediateCompletion | PublishTrigger | InstallWorkflowSpec | WithdrawTask

primrec CommandKind_as_str :: "CommandKind \<Rightarrow> string" where
  "CommandKind_as_str CommandKind.LaunchRun = ''launch_run''"
| "CommandKind_as_str CommandKind.CancelRun = ''cancel_run''"
| "CommandKind_as_str CommandKind.ParkRun = ''park_run''"
| "CommandKind_as_str CommandKind.AbandonRun = ''abandon_run''"
| "CommandKind_as_str CommandKind.ResumeTask = ''resume_task''"
| "CommandKind_as_str CommandKind.RecordGateVerdict = ''record_gate_verdict''"
| "CommandKind_as_str CommandKind.RecoverGateRejection = ''recover_gate_rejection''"
| "CommandKind_as_str CommandKind.AttestRetiredEvaluatorEvidence = ''attest_retired_evaluator_evidence''"
| "CommandKind_as_str CommandKind.ApproveIntake = ''approve_intake''"
| "CommandKind_as_str CommandKind.SyncTicket = ''sync_ticket''"
| "CommandKind_as_str CommandKind.AssignTicket = ''assign_ticket''"
| "CommandKind_as_str CommandKind.TransitionTicket = ''transition_ticket''"
| "CommandKind_as_str CommandKind.AuthorizeExecution = ''authorize_execution''"
| "CommandKind_as_str CommandKind.ApproveScheduleOverride = ''approve_schedule_override''"
| "CommandKind_as_str CommandKind.RevokeScheduleOverride = ''revoke_schedule_override''"
| "CommandKind_as_str CommandKind.ResolveStatusConflict = ''resolve_status_conflict''"
| "CommandKind_as_str CommandKind.AssignWorkCalendar = ''assign_work_calendar''"
| "CommandKind_as_str CommandKind.RevokeExecutionAuthorization = ''revoke_execution_authorization''"
| "CommandKind_as_str CommandKind.EnsureProject = ''ensure_project''"
| "CommandKind_as_str CommandKind.ApplyEpicGraph = ''apply_epic_graph''"
| "CommandKind_as_str CommandKind.ImportBacklog = ''import_backlog''"
| "CommandKind_as_str CommandKind.TransitionEpic = ''transition_epic''"
| "CommandKind_as_str CommandKind.StartScheduledWork = ''start_scheduled_work''"
| "CommandKind_as_str CommandKind.TransitionTask = ''transition_task''"
| "CommandKind_as_str CommandKind.ResolveContext = ''resolve_context''"
| "CommandKind_as_str CommandKind.SelectTaskProfile = ''select_task_profile''"
| "CommandKind_as_str CommandKind.SelectTaskTeam = ''select_task_team''"
| "CommandKind_as_str CommandKind.SelectTaskAccount = ''select_task_account''"
| "CommandKind_as_str CommandKind.CorrectTaskWorktree = ''correct_task_worktree''"
| "CommandKind_as_str CommandKind.ReconcileTicket = ''reconcile_ticket''"
| "CommandKind_as_str CommandKind.MaterializeJira = ''materialize_jira''"
| "CommandKind_as_str CommandKind.PublishTicketDescription = ''publish_ticket_description''"
| "CommandKind_as_str CommandKind.PublishEpicDescription = ''publish_epic_description''"
| "CommandKind_as_str CommandKind.ActivateEpic = ''activate_epic''"
| "CommandKind_as_str CommandKind.SettleRuntime = ''settle_runtime''"
| "CommandKind_as_str CommandKind.ReplaceSeat = ''replace_seat''"
| "CommandKind_as_str CommandKind.RefreshCapacity = ''refresh_capacity''"
| "CommandKind_as_str CommandKind.OverrideAvailability = ''override_availability''"
| "CommandKind_as_str CommandKind.ObserveSeat = ''observe_seat''"
| "CommandKind_as_str CommandKind.RetireSeat = ''retire_seat''"
| "CommandKind_as_str CommandKind.PublishTopologySpec = ''publish_topology_spec''"
| "CommandKind_as_str CommandKind.PublishTeamDefinition = ''publish_team_definition''"
| "CommandKind_as_str CommandKind.SelectProjectTopology = ''select_project_topology''"
| "CommandKind_as_str CommandKind.SelectProjectTeamDefinition = ''select_project_team_definition''"
| "CommandKind_as_str CommandKind.UpgradeTopology = ''upgrade_topology''"
| "CommandKind_as_str CommandKind.UpgradeTeamDefinition = ''upgrade_team_definition''"
| "CommandKind_as_str CommandKind.CorrectEpicBacklogCode = ''correct_epic_backlog_code''"
| "CommandKind_as_str CommandKind.RecoverTopologyContainer = ''recover_topology_container''"
| "CommandKind_as_str CommandKind.RetitleContainer = ''retitle_container''"
| "CommandKind_as_str CommandKind.ReconcileNativeNames = ''reconcile_native_names''"
| "CommandKind_as_str CommandKind.ApplyCoreTeam = ''apply_core_team''"
| "CommandKind_as_str CommandKind.ApplyAdvisorProfile = ''apply_advisor_profile''"
| "CommandKind_as_str CommandKind.ApplyCommitteeTemplate = ''apply_committee_template''"
| "CommandKind_as_str CommandKind.InvokeAdvisorRun = ''invoke_advisor_run''"
| "CommandKind_as_str CommandKind.SettleAdvisorRun = ''settle_advisor_run''"
| "CommandKind_as_str CommandKind.InvokeCommitteeRun = ''invoke_committee_run''"
| "CommandKind_as_str CommandKind.RecordCommitteeFindings = ''record_committee_findings''"
| "CommandKind_as_str CommandKind.SettleCommitteeRun = ''settle_committee_run''"
| "CommandKind_as_str CommandKind.RecoverConsultationSeat = ''recover_consultation_seat''"
| "CommandKind_as_str CommandKind.RerouteUnmaterializedConsultationSeat = ''reroute_unmaterialized_consultation_seat''"
| "CommandKind_as_str CommandKind.ApplyPlanningPairProfile = ''apply_planning_pair_profile''"
| "CommandKind_as_str CommandKind.InvokePlanningPairRun = ''invoke_planning_pair_run''"
| "CommandKind_as_str CommandKind.RecordPlanningPairFinding = ''record_planning_pair_finding''"
| "CommandKind_as_str CommandKind.RequestPlanningPairClarification = ''request_planning_pair_clarification''"
| "CommandKind_as_str CommandKind.RecordPlanningPairAnswer = ''record_planning_pair_answer''"
| "CommandKind_as_str CommandKind.RecordPlanningPairDisposition = ''record_planning_pair_disposition''"
| "CommandKind_as_str CommandKind.RecoverPlanningPairSeat = ''recover_planning_pair_seat''"
| "CommandKind_as_str CommandKind.DeclareDurableSeat = ''declare_durable_seat''"
| "CommandKind_as_str CommandKind.ReconcileDurableSeats = ''reconcile_durable_seats''"
| "CommandKind_as_str CommandKind.EnsureQuickSession = ''ensure_quick_session''"
| "CommandKind_as_str CommandKind.PromoteQuickSession = ''promote_quick_session''"
| "CommandKind_as_str CommandKind.MaterializeCoreTeam = ''materialize_core_team''"
| "CommandKind_as_str CommandKind.CorrectCoreTeamRoute = ''correct_core_team_route''"
| "CommandKind_as_str CommandKind.ClaimCoreTeamSeat = ''claim_core_team_seat''"
| "CommandKind_as_str CommandKind.UpgradeEpicRoster = ''upgrade_epic_roster''"
| "CommandKind_as_str CommandKind.OpenAdHocDeskAdam = ''open_ad_hoc_desk_adam''"
| "CommandKind_as_str CommandKind.HandOffDeskAdam = ''hand_off_desk_adam''"
| "CommandKind_as_str CommandKind.OpenPrReview = ''open_pr_review''"
| "CommandKind_as_str CommandKind.ClosePrReview = ''close_pr_review''"
| "CommandKind_as_str CommandKind.EnsureAccountProfile = ''ensure_account_profile''"
| "CommandKind_as_str CommandKind.SubmitIntake = ''submit_intake''"
| "CommandKind_as_str CommandKind.PullTicketComments = ''pull_ticket_comments''"
| "CommandKind_as_str CommandKind.ClaimTicket = ''claim_ticket''"
| "CommandKind_as_str CommandKind.ApplyCompletionProfile = ''apply_completion_profile''"
| "CommandKind_as_str CommandKind.AdvanceCompletion = ''advance_completion''"
| "CommandKind_as_str CommandKind.RemediateCompletion = ''remediate_completion''"
| "CommandKind_as_str CommandKind.PublishTrigger = ''publish_trigger''"
| "CommandKind_as_str CommandKind.InstallWorkflowSpec = ''install_workflow_spec''"
| "CommandKind_as_str CommandKind.WithdrawTask = ''withdraw_task''"

definition CommandKind_ALL :: "CommandKind list" where
  "CommandKind_ALL =
     [CommandKind.LaunchRun, CommandKind.CancelRun, CommandKind.ParkRun,
     CommandKind.AbandonRun, CommandKind.ResumeTask, CommandKind.RecordGateVerdict,
     CommandKind.RecoverGateRejection, CommandKind.AttestRetiredEvaluatorEvidence,
     CommandKind.ApproveIntake, CommandKind.SyncTicket, CommandKind.AssignTicket,
     CommandKind.TransitionTicket, CommandKind.AuthorizeExecution,
     CommandKind.ApproveScheduleOverride, CommandKind.RevokeScheduleOverride,
     CommandKind.ResolveStatusConflict, CommandKind.AssignWorkCalendar,
     CommandKind.RevokeExecutionAuthorization, CommandKind.EnsureProject,
     CommandKind.ApplyEpicGraph, CommandKind.ImportBacklog, CommandKind.TransitionEpic,
     CommandKind.StartScheduledWork, CommandKind.TransitionTask, CommandKind.ResolveContext,
     CommandKind.SelectTaskProfile, CommandKind.SelectTaskTeam, CommandKind.SelectTaskAccount,
     CommandKind.CorrectTaskWorktree, CommandKind.ReconcileTicket, CommandKind.MaterializeJira,
     CommandKind.PublishTicketDescription, CommandKind.PublishEpicDescription,
     CommandKind.ActivateEpic, CommandKind.SettleRuntime, CommandKind.ReplaceSeat,
     CommandKind.RefreshCapacity, CommandKind.OverrideAvailability, CommandKind.ObserveSeat,
     CommandKind.RetireSeat, CommandKind.PublishTopologySpec,
     CommandKind.PublishTeamDefinition, CommandKind.SelectProjectTopology,
     CommandKind.SelectProjectTeamDefinition, CommandKind.UpgradeTopology,
     CommandKind.UpgradeTeamDefinition, CommandKind.CorrectEpicBacklogCode,
     CommandKind.RecoverTopologyContainer, CommandKind.RetitleContainer,
     CommandKind.ReconcileNativeNames, CommandKind.ApplyCoreTeam,
     CommandKind.ApplyAdvisorProfile, CommandKind.ApplyCommitteeTemplate,
     CommandKind.InvokeAdvisorRun, CommandKind.SettleAdvisorRun,
     CommandKind.InvokeCommitteeRun, CommandKind.RecordCommitteeFindings,
     CommandKind.SettleCommitteeRun, CommandKind.RecoverConsultationSeat,
     CommandKind.RerouteUnmaterializedConsultationSeat, CommandKind.ApplyPlanningPairProfile,
     CommandKind.InvokePlanningPairRun, CommandKind.RecordPlanningPairFinding,
     CommandKind.RequestPlanningPairClarification, CommandKind.RecordPlanningPairAnswer,
     CommandKind.RecordPlanningPairDisposition, CommandKind.RecoverPlanningPairSeat,
     CommandKind.DeclareDurableSeat, CommandKind.ReconcileDurableSeats,
     CommandKind.EnsureQuickSession, CommandKind.PromoteQuickSession,
     CommandKind.MaterializeCoreTeam, CommandKind.CorrectCoreTeamRoute,
     CommandKind.ClaimCoreTeamSeat, CommandKind.UpgradeEpicRoster,
     CommandKind.OpenAdHocDeskAdam, CommandKind.HandOffDeskAdam, CommandKind.OpenPrReview,
     CommandKind.ClosePrReview, CommandKind.EnsureAccountProfile, CommandKind.SubmitIntake,
     CommandKind.PullTicketComments, CommandKind.ClaimTicket,
     CommandKind.ApplyCompletionProfile, CommandKind.AdvanceCompletion,
     CommandKind.RemediateCompletion, CommandKind.PublishTrigger,
     CommandKind.InstallWorkflowSpec, CommandKind.WithdrawTask]"

datatype AggregateKind =
    Project | MiniProject | Task | TeamRun | AgentRun | TicketLink | WorkCalendar

primrec AggregateKind_as_str :: "AggregateKind \<Rightarrow> string" where
  "AggregateKind_as_str AggregateKind.Project = ''project''"
| "AggregateKind_as_str AggregateKind.MiniProject = ''mini_project''"
| "AggregateKind_as_str AggregateKind.Task = ''task''"
| "AggregateKind_as_str AggregateKind.TeamRun = ''team_run''"
| "AggregateKind_as_str AggregateKind.AgentRun = ''agent_run''"
| "AggregateKind_as_str AggregateKind.TicketLink = ''ticket_link''"
| "AggregateKind_as_str AggregateKind.WorkCalendar = ''work_calendar''"

definition AggregateKind_ALL :: "AggregateKind list" where
  "AggregateKind_ALL =
     [AggregateKind.Project, AggregateKind.MiniProject, AggregateKind.Task,
     AggregateKind.TeamRun, AggregateKind.AgentRun, AggregateKind.TicketLink,
     AggregateKind.WorkCalendar]"

primrec AggregateRef_kind :: "AggregateRef \<Rightarrow> AggregateKind" where
  "AggregateRef_kind (AggregateRef.Project i) = AggregateKind.Project"
| "AggregateRef_kind (AggregateRef.MiniProject i) = AggregateKind.MiniProject"
| "AggregateRef_kind (AggregateRef.Task i) = AggregateKind.Task"
| "AggregateRef_kind (AggregateRef.TeamRun i) = AggregateKind.TeamRun"
| "AggregateRef_kind (AggregateRef.AgentRun i) = AggregateKind.AgentRun"
| "AggregateRef_kind (AggregateRef.TicketLink i) = AggregateKind.TicketLink"
| "AggregateRef_kind (AggregateRef.WorkCalendar i) = AggregateKind.WorkCalendar"

datatype RevisionRule = CompareAndSwap | Witness

datatype DesiredStateRule = Requires DesiredRunState | Forbidden

record TargetRule =
  tg_revision :: RevisionRule
  tg_desired :: DesiredStateRule

definition run_intent :: "AggregateKind \<Rightarrow> DesiredRunState \<Rightarrow> TargetRule option" where
  "run_intent target desired =
     (case target of
        AggregateKind.AgentRun \<Rightarrow>
          Some \<lparr>tg_revision = CompareAndSwap, tg_desired = Requires desired\<rparr>
      | AggregateKind.TeamRun \<Rightarrow> Some \<lparr>tg_revision = Witness, tg_desired = Forbidden\<rparr>
      | _ \<Rightarrow> None)"

definition witness :: "bool \<Rightarrow> TargetRule option" where
  "witness legal =
     (if legal then Some \<lparr>tg_revision = Witness, tg_desired = Forbidden\<rparr> else None)"

primrec rule_for :: "CommandKind \<Rightarrow> AggregateKind \<Rightarrow> TargetRule option" where
  "rule_for CommandKind.LaunchRun t = run_intent t DesiredRunState.RunRequested"
| "rule_for CommandKind.CancelRun t = run_intent t DesiredRunState.CancelRequested"
| "rule_for CommandKind.ParkRun t = run_intent t DesiredRunState.ParkRequested"
| "rule_for CommandKind.AbandonRun t = run_intent t DesiredRunState.AbandonRequested"
| "rule_for CommandKind.ResumeTask t = witness (t \<in> {AggregateKind.Task})"
| "rule_for CommandKind.RecordGateVerdict t = witness (t \<in> {AggregateKind.Task})"
| "rule_for CommandKind.RecoverGateRejection t = witness (t \<in> {AggregateKind.Task})"
| "rule_for CommandKind.AttestRetiredEvaluatorEvidence t = witness (t \<in> {AggregateKind.Task})"
| "rule_for CommandKind.ApproveIntake t =
     witness (t \<in> {AggregateKind.Project, AggregateKind.MiniProject, AggregateKind.Task})"
| "rule_for CommandKind.SyncTicket t = witness (t \<in> {AggregateKind.TicketLink})"
| "rule_for CommandKind.AssignTicket t = witness (t \<in> {AggregateKind.TicketLink})"
| "rule_for CommandKind.TransitionTicket t = witness (t \<in> {AggregateKind.TicketLink})"
| "rule_for CommandKind.ResolveStatusConflict t =
     witness (t \<in> {AggregateKind.TicketLink, AggregateKind.MiniProject})"
| "rule_for CommandKind.AuthorizeExecution t =
     witness (t \<in> {AggregateKind.Project, AggregateKind.MiniProject, AggregateKind.Task})"
| "rule_for CommandKind.ApproveScheduleOverride t =
     witness (t \<in> {AggregateKind.Project, AggregateKind.MiniProject, AggregateKind.Task})"
| "rule_for CommandKind.RevokeScheduleOverride t =
     witness (t \<in> {AggregateKind.Project, AggregateKind.MiniProject, AggregateKind.Task})"
| "rule_for CommandKind.RevokeExecutionAuthorization t =
     witness (t \<in> {AggregateKind.Project, AggregateKind.MiniProject, AggregateKind.Task})"
| "rule_for CommandKind.AssignWorkCalendar t = witness (t \<in> {AggregateKind.WorkCalendar})"
| "rule_for CommandKind.EnsureProject t = witness (t \<in> {AggregateKind.Project})"
| "rule_for CommandKind.EnsureAccountProfile t = witness (t \<in> {AggregateKind.Project})"
| "rule_for CommandKind.ImportBacklog t = witness (t \<in> {AggregateKind.Project})"
| "rule_for CommandKind.SubmitIntake t = witness (t \<in> {AggregateKind.Project})"
| "rule_for CommandKind.PublishTrigger t = witness (t \<in> {AggregateKind.Project})"
| "rule_for CommandKind.InstallWorkflowSpec t = witness (t \<in> {AggregateKind.Project})"
| "rule_for CommandKind.ApplyEpicGraph t = witness (t \<in> {AggregateKind.MiniProject})"
| "rule_for CommandKind.TransitionEpic t = witness (t \<in> {AggregateKind.MiniProject})"
| "rule_for CommandKind.StartScheduledWork t = witness (t \<in> {AggregateKind.MiniProject})"
| "rule_for CommandKind.MaterializeJira t = witness (t \<in> {AggregateKind.MiniProject})"
| "rule_for CommandKind.PublishEpicDescription t = witness (t \<in> {AggregateKind.MiniProject})"
| "rule_for CommandKind.ActivateEpic t = witness (t \<in> {AggregateKind.MiniProject})"
| "rule_for CommandKind.TransitionTask t = witness (t \<in> {AggregateKind.Task})"
| "rule_for CommandKind.ResolveContext t = witness (t \<in> {AggregateKind.Task})"
| "rule_for CommandKind.SelectTaskProfile t = witness (t \<in> {AggregateKind.Task})"
| "rule_for CommandKind.SelectTaskTeam t = witness (t \<in> {AggregateKind.Task})"
| "rule_for CommandKind.SelectTaskAccount t = witness (t \<in> {AggregateKind.Task})"
| "rule_for CommandKind.CorrectTaskWorktree t = witness (t \<in> {AggregateKind.Task})"
| "rule_for CommandKind.ReconcileTicket t = witness (t \<in> {AggregateKind.Task})"
| "rule_for CommandKind.PublishTicketDescription t = witness (t \<in> {AggregateKind.Task})"
| "rule_for CommandKind.PullTicketComments t = witness (t \<in> {AggregateKind.Task})"
| "rule_for CommandKind.ClaimTicket t = witness (t \<in> {AggregateKind.Task})"
| "rule_for CommandKind.WithdrawTask t = witness (t \<in> {AggregateKind.Task})"
| "rule_for CommandKind.SettleRuntime t = witness (t \<in> {AggregateKind.AgentRun})"
| "rule_for CommandKind.ReplaceSeat t = witness (t \<in> {AggregateKind.TeamRun})"
| "rule_for CommandKind.RefreshCapacity t = witness (t \<in> {AggregateKind.Project})"
| "rule_for CommandKind.OverrideAvailability t = witness (t \<in> {AggregateKind.Project})"
| "rule_for CommandKind.ObserveSeat t = witness (t \<in> {AggregateKind.Project})"
| "rule_for CommandKind.RetireSeat t = witness (t \<in> {AggregateKind.Project})"
| "rule_for CommandKind.PublishTopologySpec t = witness (t \<in> {AggregateKind.Project})"
| "rule_for CommandKind.SelectProjectTopology t = witness (t \<in> {AggregateKind.Project})"
| "rule_for CommandKind.PublishTeamDefinition t = witness (t \<in> {AggregateKind.Project})"
| "rule_for CommandKind.SelectProjectTeamDefinition t = witness (t \<in> {AggregateKind.Project})"
| "rule_for CommandKind.UpgradeTopology t = witness (t \<in> {AggregateKind.MiniProject})"
| "rule_for CommandKind.UpgradeTeamDefinition t = witness (t \<in> {AggregateKind.MiniProject})"
| "rule_for CommandKind.ReconcileNativeNames t = witness (t \<in> {AggregateKind.MiniProject})"
| "rule_for CommandKind.CorrectEpicBacklogCode t = witness (t \<in> {AggregateKind.Project})"
| "rule_for CommandKind.RetitleContainer t = witness (t \<in> {AggregateKind.Project})"
| "rule_for CommandKind.RecoverTopologyContainer t = witness (t \<in> {AggregateKind.Project})"
| "rule_for CommandKind.ApplyCoreTeam t = witness (t \<in> {AggregateKind.Project})"
| "rule_for CommandKind.EnsureQuickSession t = witness (t \<in> {AggregateKind.Project})"
| "rule_for CommandKind.OpenAdHocDeskAdam t = witness (t \<in> {AggregateKind.Project})"
| "rule_for CommandKind.ApplyAdvisorProfile t = witness (t \<in> {AggregateKind.Project})"
| "rule_for CommandKind.ApplyCommitteeTemplate t = witness (t \<in> {AggregateKind.Project})"
| "rule_for CommandKind.ApplyPlanningPairProfile t = witness (t \<in> {AggregateKind.Project})"
| "rule_for CommandKind.PromoteQuickSession t = witness (t \<in> {AggregateKind.MiniProject})"
| "rule_for CommandKind.MaterializeCoreTeam t = witness (t \<in> {AggregateKind.MiniProject})"
| "rule_for CommandKind.CorrectCoreTeamRoute t = witness (t \<in> {AggregateKind.MiniProject})"
| "rule_for CommandKind.ClaimCoreTeamSeat t = witness (t \<in> {AggregateKind.MiniProject})"
| "rule_for CommandKind.UpgradeEpicRoster t = witness (t \<in> {AggregateKind.MiniProject})"
| "rule_for CommandKind.HandOffDeskAdam t = witness (t \<in> {AggregateKind.MiniProject})"
| "rule_for CommandKind.ApplyCompletionProfile t = witness (t \<in> {AggregateKind.Project})"
| "rule_for CommandKind.AdvanceCompletion t = witness (t \<in> {AggregateKind.MiniProject})"
| "rule_for CommandKind.RemediateCompletion t = witness (t \<in> {AggregateKind.MiniProject})"
| "rule_for CommandKind.InvokeAdvisorRun t = witness (t \<in> {AggregateKind.MiniProject})"
| "rule_for CommandKind.SettleAdvisorRun t = witness (t \<in> {AggregateKind.MiniProject})"
| "rule_for CommandKind.InvokeCommitteeRun t = witness (t \<in> {AggregateKind.MiniProject})"
| "rule_for CommandKind.RecordCommitteeFindings t = witness (t \<in> {AggregateKind.MiniProject})"
| "rule_for CommandKind.SettleCommitteeRun t = witness (t \<in> {AggregateKind.MiniProject})"
| "rule_for CommandKind.RecoverConsultationSeat t = witness (t \<in> {AggregateKind.MiniProject})"
| "rule_for CommandKind.RerouteUnmaterializedConsultationSeat t =
     witness (t \<in> {AggregateKind.MiniProject})"
| "rule_for CommandKind.InvokePlanningPairRun t = witness (t \<in> {AggregateKind.MiniProject})"
| "rule_for CommandKind.RecordPlanningPairFinding t = witness (t \<in> {AggregateKind.MiniProject})"
| "rule_for CommandKind.RequestPlanningPairClarification t =
     witness (t \<in> {AggregateKind.MiniProject})"
| "rule_for CommandKind.RecordPlanningPairAnswer t = witness (t \<in> {AggregateKind.MiniProject})"
| "rule_for CommandKind.RecordPlanningPairDisposition t =
     witness (t \<in> {AggregateKind.MiniProject})"
| "rule_for CommandKind.RecoverPlanningPairSeat t = witness (t \<in> {AggregateKind.MiniProject})"
| "rule_for CommandKind.DeclareDurableSeat t = witness (t \<in> {AggregateKind.Project})"
| "rule_for CommandKind.ReconcileDurableSeats t = witness (t \<in> {AggregateKind.Project})"
| "rule_for CommandKind.OpenPrReview t = witness (t \<in> {AggregateKind.Project})"
| "rule_for CommandKind.ClosePrReview t = witness (t \<in> {AggregateKind.Project})"

definition ensure_compatible ::
  "CommandKind \<Rightarrow> AggregateRef \<Rightarrow> DesiredRunState option \<Rightarrow> TargetRule DomainResult" where
  "ensure_compatible self target desired =
     (case rule_for self (AggregateRef_kind target) of
        None \<Rightarrow> Inl (Invalid ''CommandIntent''
                  ''this command may not target that kind of aggregate'')
      | Some rule \<Rightarrow>
          (case tg_desired rule of
             Requires required \<Rightarrow>
               (if desired = Some required then Inr rule
                else Inl (Invalid ''CommandIntent''
                       ''this command must carry its own desired run state''))
           | Forbidden \<Rightarrow>
               (if desired = None then Inr rule
                else Inl (Invalid ''CommandIntent''
                       ''this command records no desired-state change against that aggregate''))))"

section \<open>Authority read back from a receipt\<close>

record ReceiptAuthority =
  ra_project_id :: uuid
  ra_kind :: CommandKind
  ra_target :: AggregateRef

definition authorizes ::
  "ReceiptAuthority \<Rightarrow> string \<Rightarrow> uuid \<Rightarrow> CommandKind \<Rightarrow> AggregateRef \<Rightarrow> unit DomainResult" where
  "authorizes self subject project_id kind target =
     checks
       [require (ra_project_id self = project_id)
          (Invalid subject ''the cited receipt belongs to another project''),
        require (ra_kind self = kind)
          (Invalid subject ''the cited receipt records a different command''),
        require (ra_target self = target)
          (Invalid subject ''the cited receipt targets a different aggregate'')]"

section \<open>Receipt states\<close>

datatype CommandReceiptState =
    IntentPersisted | DispatchPending | Dispatched | Acknowledged | ConfirmationUnknown |
    Confirmed | Failed

primrec CommandReceiptState_as_str :: "CommandReceiptState \<Rightarrow> string" where
  "CommandReceiptState_as_str CommandReceiptState.IntentPersisted = ''intent_persisted''"
| "CommandReceiptState_as_str CommandReceiptState.DispatchPending = ''dispatch_pending''"
| "CommandReceiptState_as_str CommandReceiptState.Dispatched = ''dispatched''"
| "CommandReceiptState_as_str CommandReceiptState.Acknowledged = ''acknowledged''"
| "CommandReceiptState_as_str CommandReceiptState.ConfirmationUnknown = ''confirmation_unknown''"
| "CommandReceiptState_as_str CommandReceiptState.Confirmed = ''confirmed''"
| "CommandReceiptState_as_str CommandReceiptState.Failed = ''failed''"

definition CommandReceiptState_ALL :: "CommandReceiptState list" where
  "CommandReceiptState_ALL =
     [CommandReceiptState.IntentPersisted, CommandReceiptState.DispatchPending,
     CommandReceiptState.Dispatched, CommandReceiptState.Acknowledged,
     CommandReceiptState.ConfirmationUnknown, CommandReceiptState.Confirmed,
     CommandReceiptState.Failed]"

definition CommandReceiptState_is_terminal :: "CommandReceiptState \<Rightarrow> bool" where
  "CommandReceiptState_is_terminal s \<longleftrightarrow>
     s \<in> {CommandReceiptState.Confirmed, CommandReceiptState.Failed}"

fun receipt_can_transition_to :: "CommandReceiptState \<Rightarrow> CommandReceiptState \<Rightarrow> bool" where
  "receipt_can_transition_to CommandReceiptState.IntentPersisted next \<longleftrightarrow>
     next \<in> {CommandReceiptState.DispatchPending, CommandReceiptState.Confirmed,
       CommandReceiptState.Failed}"
| "receipt_can_transition_to CommandReceiptState.DispatchPending next \<longleftrightarrow>
     next \<in> {CommandReceiptState.Dispatched, CommandReceiptState.ConfirmationUnknown,
       CommandReceiptState.Failed}"
| "receipt_can_transition_to CommandReceiptState.Dispatched next \<longleftrightarrow>
     next \<in> {CommandReceiptState.Acknowledged, CommandReceiptState.ConfirmationUnknown,
       CommandReceiptState.Confirmed, CommandReceiptState.Failed}"
| "receipt_can_transition_to CommandReceiptState.Acknowledged next \<longleftrightarrow>
     next \<in> {CommandReceiptState.Confirmed, CommandReceiptState.ConfirmationUnknown,
       CommandReceiptState.Failed}"
| "receipt_can_transition_to CommandReceiptState.ConfirmationUnknown next \<longleftrightarrow>
     next \<in> {CommandReceiptState.Confirmed, CommandReceiptState.Failed,
       CommandReceiptState.DispatchPending}"
| "receipt_can_transition_to _ _ \<longleftrightarrow> False"

section \<open>Receipts\<close>

record CanonicalDocument =
  cd_json :: string
  cd_hash :: content_hash
  cd_schema_version :: u32

record NoEffectEvidence =
  ne_correlation :: string
  ne_searched_identity :: "NativeRuntimeIdentity option"
  ne_reconciled_at :: timestamp
  ne_evidence_hash :: content_hash

record CommandReceipt =
  cr_id :: uuid
  cr_project_id :: uuid
  cr_idempotency_key :: string
  cr_kind :: CommandKind
  cr_target :: AggregateRef
  cr_target_revision :: u64
  cr_intent :: CanonicalDocument
  cr_state :: CommandReceiptState
  cr_correlation :: "string option"
  cr_native_identity :: "NativeRuntimeIdentity option"
  cr_result_ref :: "string option"
  cr_attempts :: u32
  cr_created_at :: timestamp
  cr_updated_at :: timestamp

definition is_replay_of :: "CommandReceipt \<Rightarrow> AggregateRef \<Rightarrow> CanonicalDocument \<Rightarrow> bool" where
  "is_replay_of self target intent \<longleftrightarrow>
     cr_target self = target \<and> cd_hash (cr_intent self) = cd_hash intent"

definition ensure_replay ::
  "CommandReceipt \<Rightarrow> AggregateRef \<Rightarrow> CanonicalDocument \<Rightarrow> unit DomainResult" where
  "ensure_replay self target intent =
     require (is_replay_of self target intent)
       (Invalid ''CommandReceipt'' ''idempotency key reused with a different target or intent'')"

definition receipt_transition ::
  "CommandReceipt \<Rightarrow> CommandReceiptState \<Rightarrow> CommandReceiptState DomainResult" where
  "receipt_transition self next =
     (if CommandReceiptState_is_terminal (cr_state self) then
        Inl (DomainError.Terminal ''command receipt'')
      else if cr_state self = CommandReceiptState.ConfirmationUnknown
              \<and> next = CommandReceiptState.DispatchPending then
        Inl (MissingEvidence ''command retry''
          ''an unknown dispatch result must be reconciled before retrying'')
      else if \<not> receipt_can_transition_to (cr_state self) next then
        Inl (IllegalTransition ''command receipt'' (CommandReceiptState_as_str (cr_state self))
          (CommandReceiptState_as_str next))
      else Inr next)"

definition authorize_retry ::
  "CommandReceipt \<Rightarrow> NoEffectEvidence \<Rightarrow> CommandReceiptState DomainResult" where
  "authorize_retry self evidence =
     (if cr_state self \<noteq> CommandReceiptState.ConfirmationUnknown then
        Inl (IllegalTransition ''command receipt'' (CommandReceiptState_as_str (cr_state self))
          (CommandReceiptState_as_str CommandReceiptState.DispatchPending))
      else
        (case cr_correlation self of
           None \<Rightarrow> Inl (MissingEvidence ''command retry''
             ''the original dispatch recorded no correlation to reconcile against'')
         | Some correlation \<Rightarrow>
             (if correlation \<noteq> ne_correlation evidence then
                Inl (MissingEvidence ''command retry''
                  ''the reconciliation evidence cites a different correlation'')
              else Inr CommandReceiptState.DispatchPending)))"

record CommandOutboxEntry =
  oe_receipt_id :: uuid
  oe_payload :: CanonicalDocument
  oe_not_before :: timestamp
  oe_dispatched_at :: "timestamp option"
  oe_attempts :: u32

text \<open>The command vocabulary is large: it is declared without derived code, and decided by its words.\<close>

lemma CommandKind_words: "distinct (map CommandKind_as_str CommandKind_ALL)"
  unfolding CommandKind_ALL_def list.map CommandKind_as_str.simps by code_simp

lemma CommandKind_all: "v \<in> set CommandKind_ALL"
  unfolding CommandKind_ALL_def list.set by (cases v) blast+

interpretation command_kind: closed_enum "''CommandKind''" CommandKind_ALL CommandKind_as_str
  by standard (rule CommandKind_all, rule CommandKind_words)

interpretation aggregate_kind: closed_enum "''AggregateKind''" AggregateKind_ALL AggregateKind_as_str
proof
  fix v show "v \<in> set AggregateKind_ALL" by (cases v) (simp_all add: AggregateKind_ALL_def)
qed (code_simp)

interpretation command_receipt_state: closed_enum "''CommandReceiptState''" CommandReceiptState_ALL CommandReceiptState_as_str
proof
  fix v show "v \<in> set CommandReceiptState_ALL" by (cases v) (simp_all add: CommandReceiptState_ALL_def)
qed (code_simp)

section \<open>The compatibility matrix\<close>

text \<open>The desired state a command carries against an agent run.\<close>

definition run_command_state :: "CommandKind \<Rightarrow> DesiredRunState option" where
  "run_command_state k =
     (if k = CommandKind.LaunchRun then Some DesiredRunState.RunRequested
      else if k = CommandKind.CancelRun then Some DesiredRunState.CancelRequested
      else if k = CommandKind.ParkRun then Some DesiredRunState.ParkRequested
      else if k = CommandKind.AbandonRun then Some DesiredRunState.AbandonRequested
      else None)"

lemma rule_for_shape:
  "rule_for k t =
     (case run_command_state k of
        Some d \<Rightarrow> run_intent t d
      | None \<Rightarrow> witness (rule_for k t \<noteq> None))"
  by (cases k) (simp_all add: run_command_state_def witness_def)

lemma rule_for_swaps:
  assumes "rule_for k t = Some rule"
  shows "tg_revision rule = CompareAndSwap \<longleftrightarrow>
      (\<exists>d. run_command_state k = Some d \<and> t = AggregateKind.AgentRun \<and> tg_desired rule = Requires d)"
    and "tg_desired rule = Forbidden \<longleftrightarrow> tg_revision rule = Witness"
  using assms rule_for_shape [of k t]
  by (auto simp: run_intent_def witness_def split: option.splits AggregateKind.splits if_splits)

lemma AggregateRef_kind_AgentRun [simp]:
  "AggregateRef_kind t = AggregateKind.AgentRun \<longleftrightarrow> (\<exists>i. t = AggregateRef.AgentRun i)"
  by (cases t) auto

lemma ensure_compatible_Inr:
  "ensure_compatible k t d = Inr rule \<longleftrightarrow>
     rule_for k (AggregateRef_kind t) = Some rule
     \<and> d = (case tg_desired rule of Requires r \<Rightarrow> Some r | Forbidden \<Rightarrow> None)"
  by (auto simp: ensure_compatible_def split: option.splits DesiredStateRule.splits if_splits)

lemma authorizes_Inr [simp]:
  "authorizes a s p k t = Inr u \<longleftrightarrow> a = \<lparr>ra_project_id = p, ra_kind = k, ra_target = t\<rparr>"
  by (cases a) (auto simp: authorizes_def)

lemma terminal_stuck [simp]:
  "CommandReceiptState_is_terminal s \<Longrightarrow> \<not> receipt_can_transition_to s next"
  by (cases s) (auto simp: CommandReceiptState_is_terminal_def)

lemma receipt_transition_Inr:
  "receipt_transition r next = Inr s \<longleftrightarrow>
     s = next \<and> receipt_can_transition_to (cr_state r) next
     \<and> \<not> (cr_state r = CommandReceiptState.ConfirmationUnknown
          \<and> next = CommandReceiptState.DispatchPending)"
  by (auto simp: receipt_transition_def CommandReceiptState_is_terminal_def)

lemma authorize_retry_Inr:
  "authorize_retry r e = Inr s \<longleftrightarrow>
     s = CommandReceiptState.DispatchPending
     \<and> cr_state r = CommandReceiptState.ConfirmationUnknown
     \<and> cr_correlation r = Some (ne_correlation e)"
  by (auto simp: authorize_retry_def split: option.splits)

end
