(* ===== verification/Command_Store.thy ===== *)
theory Command_Store
  imports Command_Receipt Task_Store
begin

text \<open>
  The durable command ledger, \<^verbatim>\<open>crates/kontor-store/src/commands/intent.rs\<close> and \<^verbatim>\<open>receipts.rs\<close>, with
  the other writers of its tables in \<^verbatim>\<open>repository.rs\<close> and \<^verbatim>\<open>policy.rs\<close> and the startup sweep
  \<^verbatim>\<open>recover\<close> of \<^verbatim>\<open>crates/kontor-daemon/src/lib.rs\<close>.  A ledger holds the rows of the command tables
  of one database; the columns carry \<open>CHECK\<close> constraints and are written from parsed values, so a
  row is typed and a stored document reads back as itself.  The constraints, foreign keys and
  triggers of the schema that a write can run into are tests of the insertion functions, and a
  refused statement is the error \<open>storage_refused\<close> that \<^verbatim>\<open>backend\<close> makes of it.  A transaction that
  fails is rolled back: an operation returns the new ledger only with its success.  The text of an
  instant (\<open>tx\<close>), which SQL compares byte by byte, and the minted correlations are arguments.
\<close>

section \<open>Tables\<close>

datatype ExecutionMode = Local | Dispatch

record command_row =
  rw_receipt :: CommandReceipt
  rw_mode :: ExecutionMode

record outbox_row =
  ob_receipt_id :: uuid
  ob_project_id :: uuid
  ob_payload :: CanonicalDocument
  ob_not_before :: timestamp
  ob_claim_token :: "string option"
  ob_claimed_at :: "timestamp option"
  ob_dispatched_at :: "timestamp option"
  ob_attempts :: int

record transition_row =
  ct_project_id :: uuid
  ct_receipt_id :: uuid
  ct_sequence :: u32
  ct_state :: CommandReceiptState
  ct_correlation :: "string option"
  ct_native_identity :: "NativeRuntimeIdentity option"
  ct_evidence_ref :: "string option"
  ct_recorded_at :: timestamp

record run_row =
  rn_project_id :: uuid
  rn_id :: uuid
  rn_desired_state :: DesiredRunState
  rn_revision :: u64
  rn_closed_at :: "timestamp option"
  rn_terminal_evidence_hash :: "content_hash option"

record binding_row =
  bd_id :: string
  bd_project_id :: uuid
  bd_agent_run_id :: uuid
  bd_identity :: NativeRuntimeIdentity

record event_row =
  ev_project_id :: uuid
  ev_receipt_id :: uuid
  ev_payload :: CanonicalDocument
  ev_observed_at :: timestamp

record result_row =
  lr_project_id :: uuid
  lr_receipt_id :: uuid
  lr_payload :: CanonicalDocument
  lr_recorded_at :: timestamp

text \<open>
  \<open>ld_aggregates\<close> are the goals, tasks, team runs, ticket links and calendars a target's foreign key
  may name, each with its project.
\<close>

record ledger =
  ld_projects :: "uuid list"
  ld_aggregates :: "(uuid \<times> AggregateRef) list"
  ld_runs :: "run_row list"
  ld_bindings :: "binding_row list"
  ld_receipts :: "command_row list"
  ld_targets :: "(uuid \<times> uuid \<times> AggregateRef) list"
  ld_outbox :: "outbox_row list"
  ld_transitions :: "transition_row list"
  ld_events :: "event_row list"
  ld_results :: "result_row list"

section \<open>Requests and answers\<close>

record NewCommandIntent =
  ni_project_id :: uuid
  ni_receipt_id :: uuid
  ni_idempotency_key :: string
  ni_kind :: CommandKind
  ni_target :: AggregateRef
  ni_target_revision :: u64
  ni_intent :: CanonicalDocument
  ni_payload :: CanonicalDocument
  ni_desired :: "DesiredRunState option"
  ni_not_before :: timestamp
  ni_created_at :: timestamp

record NewLocalCommand =
  nl_project_id :: uuid
  nl_receipt_id :: uuid
  nl_idempotency_key :: string
  nl_kind :: CommandKind
  nl_target :: AggregateRef
  nl_target_revision :: u64
  nl_intent :: CanonicalDocument
  nl_created_at :: timestamp

record NewAbandonReceipt =
  na_project_id :: uuid
  na_receipt_id :: uuid
  na_idempotency_key :: string
  na_target :: AggregateRef
  na_target_revision :: u64
  na_intent :: CanonicalDocument
  na_recorded_at :: timestamp

record CommandTransition =
  cx_project_id :: uuid
  cx_receipt_id :: uuid
  cx_to :: CommandReceiptState
  cx_correlation :: "string option"
  cx_native_identity :: "NativeRuntimeIdentity option"
  cx_evidence_ref :: "string option"
  cx_no_effect :: "NoEffectEvidence option"
  cx_occurred_at :: timestamp

record ReceiptAdvance =
  av_project_id :: uuid
  av_receipt_id :: uuid
  av_to :: CommandReceiptState
  av_correlation :: "string option"
  av_native_identity :: "NativeRuntimeIdentity option"
  av_result_ref :: "string option"
  av_no_effect :: "NoEffectEvidence option"
  av_occurred_at :: timestamp

record RecordedTransition =
  rt_receipt :: CommandReceipt
  rt_sequence :: u32
  rt_appended :: bool

record ReceiptTransition =
  rh_sequence :: u32
  rh_state :: CommandReceiptState
  rh_correlation :: "string option"
  rh_evidence_ref :: "string option"
  rh_recorded_at :: timestamp

record DispatchClaim =
  dl_receipt_id :: uuid
  dl_correlation :: string
  dl_payload :: CanonicalDocument
  dl_attempts :: u32
  dl_claimed_at :: timestamp

datatype CommandRecovery =
    Undispatched uuid CanonicalDocument
  | AmbiguousOrLaunched uuid CommandReceiptState "string option" "NativeRuntimeIdentity option"
      CanonicalDocument
  | Settled uuid CommandReceiptState

primrec authorizes_launch :: "CommandRecovery \<Rightarrow> bool" where
  "authorizes_launch (Undispatched i p) = True"
| "authorizes_launch (AmbiguousOrLaunched i s c n p) = False"
| "authorizes_launch (Settled i s) = False"

primrec recovery_correlation :: "CommandRecovery \<Rightarrow> string option" where
  "recovery_correlation (Undispatched i p) = None"
| "recovery_correlation (AmbiguousOrLaunched i s c n p) = c"
| "recovery_correlation (Settled i s) = None"

record LaunchReceiptReconciliation =
  lc_confirmed :: nat
  lc_failed :: nat
  lc_pending :: nat

record RecoveryReport =
  rp_undispatched :: nat
  rp_ambiguous :: nat
  rp_settled :: nat

section \<open>Statements\<close>

definition storage_refused :: RepositoryError where
  "storage_refused = Conflict ''storage''
     ''a uniqueness, check or immutability constraint refused the write''"

definition ensure_that :: "bool \<Rightarrow> RepositoryError \<Rightarrow> unit RepositoryResult" where
  "ensure_that ok err = (if ok then Inr () else Inl err)"

lemma ensure_that_Inr [simp]: "ensure_that ok err = Inr u \<longleftrightarrow> ok"
  by (simp add: ensure_that_def)

definition ok_or :: "RepositoryError \<Rightarrow> 'a option \<Rightarrow> 'a RepositoryResult" where
  "ok_or err x = (case x of None \<Rightarrow> Inl err | Some v \<Rightarrow> Inr v)"

lemma ok_or_Inr [simp]: "ok_or err x = Inr v \<longleftrightarrow> x = Some v"
  by (auto simp: ok_or_def split: option.splits)

definition u32_or_max :: "int \<Rightarrow> u32" where
  "u32_or_max n = (if 0 \<le> n \<and> n < 2 ^ 32 then of_int n else -1)"

definition update_where :: "('a \<Rightarrow> bool) \<Rightarrow> ('a \<Rightarrow> 'a) \<Rightarrow> 'a list \<Rightarrow> 'a list" where
  "update_where P f xs = map (\<lambda>x. if P x then f x else x) xs"

definition owns :: "uuid \<Rightarrow> uuid \<Rightarrow> command_row \<Rightarrow> bool" where
  "owns p i row \<longleftrightarrow> cr_project_id (rw_receipt row) = p \<and> cr_id (rw_receipt row) = i"

definition entry_of :: "uuid \<Rightarrow> uuid \<Rightarrow> outbox_row \<Rightarrow> bool" where
  "entry_of p i ob \<longleftrightarrow> ob_project_id ob = p \<and> ob_receipt_id ob = i"

definition step_of :: "uuid \<Rightarrow> uuid \<Rightarrow> transition_row \<Rightarrow> bool" where
  "step_of p i t \<longleftrightarrow> ct_project_id t = p \<and> ct_receipt_id t = i"

definition get_row :: "ledger \<Rightarrow> uuid \<Rightarrow> uuid \<Rightarrow> command_row option" where
  "get_row L p i = find (owns p i) (ld_receipts L)"

definition get_receipt :: "ledger \<Rightarrow> uuid \<Rightarrow> uuid \<Rightarrow> CommandReceipt option" where
  "get_receipt L p i = map_option rw_receipt (get_row L p i)"

definition row_by_key :: "ledger \<Rightarrow> string \<Rightarrow> command_row option" where
  "row_by_key L key = find (\<lambda>row. cr_idempotency_key (rw_receipt row) = key) (ld_receipts L)"

definition get_receipt_by_key :: "ledger \<Rightarrow> string \<Rightarrow> CommandReceipt option" where
  "get_receipt_by_key L key = map_option rw_receipt (row_by_key L key)"

definition outbox_entry :: "ledger \<Rightarrow> uuid \<Rightarrow> uuid \<Rightarrow> outbox_row option" where
  "outbox_entry L p i = find (entry_of p i) (ld_outbox L)"

definition transitions_of :: "ledger \<Rightarrow> uuid \<Rightarrow> uuid \<Rightarrow> transition_row list" where
  "transitions_of L p i = sort_key ct_sequence (filter (step_of p i) (ld_transitions L))"

definition receipt_history :: "ledger \<Rightarrow> uuid \<Rightarrow> uuid \<Rightarrow> ReceiptTransition list" where
  "receipt_history L p i =
     map (\<lambda>t. \<lparr>rh_sequence = ct_sequence t, rh_state = ct_state t,
        rh_correlation = ct_correlation t, rh_evidence_ref = ct_evidence_ref t,
        rh_recorded_at = ct_recorded_at t\<rparr>) (transitions_of L p i)"

definition last_transition :: "ledger \<Rightarrow> uuid \<Rightarrow> uuid \<Rightarrow> (u32 \<times> CommandReceiptState) option" where
  "last_transition L p i =
     (case rev (transitions_of L p i) of
        [] \<Rightarrow> None
      | t # _ \<Rightarrow> Some (ct_sequence t, ct_state t))"

definition insert_receipt ::
  "ledger \<Rightarrow> CommandReceipt \<Rightarrow> ExecutionMode \<Rightarrow> ledger RepositoryResult" where
  "insert_receipt L r mode =
     try_bind (revision_column (cr_target_revision r)) (\<lambda>_.
     try_bind (ensure_that
       (cr_project_id r \<in> set (ld_projects L) \<and> 1 \<le> cr_target_revision r
        \<and> (\<forall>row \<in> set (ld_receipts L).
             cr_id (rw_receipt row) \<noteq> cr_id r
             \<and> cr_idempotency_key (rw_receipt row) \<noteq> cr_idempotency_key r)) storage_refused) (\<lambda>_.
     Inr (L\<lparr>ld_receipts := ld_receipts L @ [\<lparr>rw_receipt = r, rw_mode = mode\<rparr>]\<rparr>)))"

definition target_exists :: "ledger \<Rightarrow> uuid \<Rightarrow> AggregateRef \<Rightarrow> bool" where
  "target_exists L p t \<longleftrightarrow>
     (case t of
        AggregateRef.Project i \<Rightarrow> i \<in> set (ld_projects L)
      | AggregateRef.AgentRun i \<Rightarrow>
          (\<exists>run \<in> set (ld_runs L). rn_project_id run = p \<and> rn_id run = i)
      | _ \<Rightarrow> (p, t) \<in> set (ld_aggregates L))"

definition insert_target ::
  "ledger \<Rightarrow> uuid \<Rightarrow> uuid \<Rightarrow> AggregateRef \<Rightarrow> ledger RepositoryResult" where
  "insert_target L p i t =
     try_bind (ensure_that
       (target_exists L p t \<and> (\<forall>(q, j, u) \<in> set (ld_targets L). (q, j) \<noteq> (p, i)))
       storage_refused) (\<lambda>_.
     Inr (L\<lparr>ld_targets := ld_targets L @ [(p, i, t)]\<rparr>))"

definition insert_outbox ::
  "ledger \<Rightarrow> uuid \<Rightarrow> uuid \<Rightarrow> CanonicalDocument \<Rightarrow> timestamp \<Rightarrow> ledger RepositoryResult" where
  "insert_outbox L p i payload not_before =
     try_bind (ensure_that (\<forall>ob \<in> set (ld_outbox L). ob_receipt_id ob \<noteq> i) storage_refused) (\<lambda>_.
     Inr (L\<lparr>ld_outbox := ld_outbox L @
       [\<lparr>ob_receipt_id = i, ob_project_id = p, ob_payload = payload, ob_not_before = not_before,
         ob_claim_token = None, ob_claimed_at = None, ob_dispatched_at = None,
         ob_attempts = 0\<rparr>]\<rparr>))"

definition transition_checks :: "transition_row \<Rightarrow> bool" where
  "transition_checks t \<longleftrightarrow>
     1 \<le> ct_sequence t
     \<and> (ct_state t \<in> {CommandReceiptState.Confirmed, CommandReceiptState.Failed} \<longrightarrow>
          ct_evidence_ref t \<noteq> None)
     \<and> (ct_state t = CommandReceiptState.Acknowledged \<longrightarrow> ct_evidence_ref t = None)
     \<and> (ct_state t \<in> {CommandReceiptState.DispatchPending, CommandReceiptState.Dispatched} \<longrightarrow>
          ct_correlation t \<noteq> None)"

definition append_transition ::
  "ledger \<Rightarrow> uuid \<Rightarrow> uuid \<Rightarrow> u32 \<Rightarrow> CommandReceiptState \<Rightarrow> string option \<Rightarrow>
   NativeRuntimeIdentity option \<Rightarrow> string option \<Rightarrow> timestamp \<Rightarrow> ledger RepositoryResult" where
  "append_transition L p i sequence state correlation native_identity evidence_ref at =
     (let t = \<lparr>ct_project_id = p, ct_receipt_id = i, ct_sequence = sequence, ct_state = state,
        ct_correlation = correlation, ct_native_identity = native_identity,
        ct_evidence_ref = evidence_ref, ct_recorded_at = at\<rparr> in
      try_bind (ensure_that
        (transition_checks t \<and> get_row L p i \<noteq> None
         \<and> (\<forall>u \<in> set (ld_transitions L). step_of p i u \<longrightarrow> ct_sequence u \<noteq> sequence))
        storage_refused) (\<lambda>_.
      Inr (L\<lparr>ld_transitions := ld_transitions L @ [t]\<rparr>)))"

definition insert_event ::
  "ledger \<Rightarrow> uuid \<Rightarrow> uuid \<Rightarrow> CanonicalDocument \<Rightarrow> timestamp \<Rightarrow> ledger" where
  "insert_event L p i payload observed_at =
     L\<lparr>ld_events := ld_events L @ [\<lparr>ev_project_id = p, ev_receipt_id = i, ev_payload = payload,
        ev_observed_at = observed_at\<rparr>]\<rparr>"

definition target_project :: "AggregateRef \<Rightarrow> uuid option" where
  "target_project t = (case t of AggregateRef.Project i \<Rightarrow> Some i | _ \<Rightarrow> None)"

definition target_foreign :: "AggregateRef \<Rightarrow> uuid \<Rightarrow> bool" where
  "target_foreign t p \<longleftrightarrow> target_project t \<noteq> None \<and> target_project t \<noteq> Some p"

section \<open>Recording an intent\<close>

definition reused :: "string \<Rightarrow> RepositoryError" where
  "reused rule = Domain (Invalid ''CommandReceipt'' rule)"

definition ensure_same_command ::
  "(timestamp \<Rightarrow> string) \<Rightarrow> ledger \<Rightarrow> CommandReceipt \<Rightarrow> NewCommandIntent \<Rightarrow> unit RepositoryResult" where
  "ensure_same_command tx L existing request =
     try_bind (ensure_that (cr_project_id existing = ni_project_id request)
       (CrossProject ''command receipt'')) (\<lambda>_.
     try_bind (domain (ensure_replay existing (ni_target request) (ni_intent request))) (\<lambda>_.
     try_bind (ensure_that (cr_kind existing = ni_kind request)
       (reused ''idempotency key reused with a different command kind'')) (\<lambda>_.
     try_bind (ensure_that (cr_target_revision existing = ni_target_revision request)
       (reused ''idempotency key reused against a different target revision'')) (\<lambda>_.
     try_bind (ok_or (NotFound ''command outbox entry'')
       (outbox_entry L (cr_project_id existing) (cr_id existing))) (\<lambda>entry.
     try_bind (ensure_that (cd_hash (ob_payload entry) = cd_hash (ni_payload request))
       (reused ''idempotency key reused with a different dispatch payload'')) (\<lambda>_.
     ensure_that (tx (ob_not_before entry) = tx (ni_not_before request))
       (reused ''idempotency key reused with a different earliest dispatch instant'')))))))"

definition new_receipt ::
  "uuid \<Rightarrow> uuid \<Rightarrow> string \<Rightarrow> CommandKind \<Rightarrow> AggregateRef \<Rightarrow> u64 \<Rightarrow> CanonicalDocument \<Rightarrow>
   CommandReceiptState \<Rightarrow> timestamp \<Rightarrow> CommandReceipt" where
  "new_receipt p i key kind target revision intent state at =
     \<lparr>cr_id = i, cr_project_id = p, cr_idempotency_key = key, cr_kind = kind, cr_target = target,
      cr_target_revision = revision, cr_intent = intent, cr_state = state,
      cr_correlation = None, cr_native_identity = None, cr_result_ref = None, cr_attempts = 0,
      cr_created_at = at, cr_updated_at = at\<rparr>"

definition swap_desired ::
  "ledger \<Rightarrow> TargetRule \<Rightarrow> NewCommandIntent \<Rightarrow> ledger RepositoryResult" where
  "swap_desired L rule request =
     (case (tg_revision rule, ni_desired request, ni_target request) of
        (CompareAndSwap, Some desired, AggregateRef.AgentRun i) \<Rightarrow>
          try_bind (revision_column (ni_target_revision request)) (\<lambda>_.
          let hit = (\<lambda>run. rn_project_id run = ni_project_id request \<and> rn_id run = i
                       \<and> rn_revision run = ni_target_revision request) in
          try_bind (ensure_that (length (filter hit (ld_runs L)) = 1)
            (Conflict ''command target''
               ''the target run is unknown in this project or its revision moved'')) (\<lambda>_.
          Inr (L\<lparr>ld_runs := update_where hit
            (\<lambda>run. run\<lparr>rn_desired_state := desired, rn_revision := rn_revision run + 1\<rparr>)
            (ld_runs L)\<rparr>)))
      | _ \<Rightarrow> Inr L)"

definition insert_intent ::
  "(timestamp \<Rightarrow> string) \<Rightarrow> ledger \<Rightarrow> NewCommandIntent \<Rightarrow>
   (CommandReceipt option \<times> ledger) RepositoryResult" where
  "insert_intent tx L request =
     try_bind (domain (ensure_compatible (ni_kind request) (ni_target request) (ni_desired request)))
       (\<lambda>rule.
     try_bind (ensure_that (\<not> target_foreign (ni_target request) (ni_project_id request))
       (CrossProject ''command target'')) (\<lambda>_.
     case get_receipt_by_key L (ni_idempotency_key request) of
       Some existing \<Rightarrow>
         try_bind (ensure_same_command tx L existing request) (\<lambda>_. Inr (Some existing, L))
     | None \<Rightarrow>
         try_bind (insert_receipt L
           (new_receipt (ni_project_id request) (ni_receipt_id request) (ni_idempotency_key request)
              (ni_kind request) (ni_target request) (ni_target_revision request) (ni_intent request)
              CommandReceiptState.IntentPersisted (ni_created_at request)) Dispatch) (\<lambda>L.
         try_bind (insert_target L (ni_project_id request) (ni_receipt_id request) (ni_target request))
           (\<lambda>L.
         try_bind (insert_outbox L (ni_project_id request) (ni_receipt_id request) (ni_payload request)
           (ni_not_before request)) (\<lambda>L.
         try_bind (append_transition L (ni_project_id request) (ni_receipt_id request) 1
           CommandReceiptState.IntentPersisted None None None (ni_created_at request)) (\<lambda>L.
         try_bind (swap_desired L rule request) (\<lambda>L.
         Inr (None, insert_event L (ni_project_id request) (ni_receipt_id request)
           (ni_intent request) (ni_created_at request)))))))))"

definition record_intent ::
  "(timestamp \<Rightarrow> string) \<Rightarrow> ledger \<Rightarrow> NewCommandIntent \<Rightarrow> (CommandReceipt \<times> ledger) RepositoryResult" where
  "record_intent tx L request =
     try_bind (insert_intent tx L request) (\<lambda>(existing, L').
     case existing of
       Some receipt \<Rightarrow> Inr (receipt, L)
     | None \<Rightarrow>
         try_bind (ok_or (NotFound ''command receipt'')
           (get_receipt_by_key L' (ni_idempotency_key request))) (\<lambda>receipt. Inr (receipt, L')))"

section \<open>Synchronous commands\<close>

definition insert_local_command ::
  "ledger \<Rightarrow> NewLocalCommand \<Rightarrow> (CommandReceipt option \<times> ledger) RepositoryResult" where
  "insert_local_command L request =
     try_bind (domain (ensure_compatible (nl_kind request) (nl_target request) None)) (\<lambda>_.
     try_bind (ensure_that (\<not> target_foreign (nl_target request) (nl_project_id request))
       (CrossProject ''local command target'')) (\<lambda>_.
     case row_by_key L (nl_idempotency_key request) of
       Some row \<Rightarrow>
         try_bind (domain (ensure_replay (rw_receipt row) (nl_target request) (nl_intent request)))
           (\<lambda>_.
         try_bind (ensure_that
           (rw_mode row = Local \<and> cr_kind (rw_receipt row) = nl_kind request
            \<and> cr_target_revision (rw_receipt row) = nl_target_revision request)
           (Conflict ''local command receipt''
              ''the idempotency key already names a different execution mode or command'')) (\<lambda>_.
         Inr (Some (rw_receipt row), L)))
     | None \<Rightarrow>
         try_bind (insert_receipt L
           (new_receipt (nl_project_id request) (nl_receipt_id request) (nl_idempotency_key request)
              (nl_kind request) (nl_target request) (nl_target_revision request) (nl_intent request)
              CommandReceiptState.IntentPersisted (nl_created_at request)) Local) (\<lambda>L.
         try_bind (insert_target L (nl_project_id request) (nl_receipt_id request) (nl_target request))
           (\<lambda>L.
         try_bind (append_transition L (nl_project_id request) (nl_receipt_id request) 1
           CommandReceiptState.IntentPersisted None None None (nl_created_at request)) (\<lambda>L.
         Inr (None, insert_event L (nl_project_id request) (nl_receipt_id request)
           (nl_intent request) (nl_created_at request)))))))"

definition record_local_command ::
  "ledger \<Rightarrow> NewLocalCommand \<Rightarrow> (CommandReceipt \<times> ledger) RepositoryResult" where
  "record_local_command L request =
     try_bind (insert_local_command L request) (\<lambda>(existing, L').
     case existing of
       Some receipt \<Rightarrow> Inr (receipt, L)
     | None \<Rightarrow>
         try_bind (ok_or (NotFound ''local command receipt'')
           (get_receipt_by_key L' (nl_idempotency_key request))) (\<lambda>receipt. Inr (receipt, L')))"

text \<open>
  The trigger \<^verbatim>\<open>local_command_results_exact_intent\<close> compares the result with the intent it answers;
  that comparison of JSON is the argument \<open>exact_result\<close>.
\<close>

definition record_pending_local_result ::
  "(CanonicalDocument \<Rightarrow> CommandReceipt \<Rightarrow> bool) \<Rightarrow> ledger \<Rightarrow> NewLocalCommand \<Rightarrow> CanonicalDocument \<Rightarrow>
   ledger RepositoryResult" where
  "record_pending_local_result exact_result L request payload =
     try_bind (insert_local_command L request) (\<lambda>(existing, L).
     try_bind (ensure_that (existing = None) (Conflict ''command receipt''
       ''the idempotency key appeared during one atomic local change'')) (\<lambda>_.
     let p = nl_project_id request; i = nl_receipt_id request in
     try_bind (ensure_that
       (\<exists>row \<in> set (ld_receipts L). owns p i row \<and> rw_mode row = Local
          \<and> cr_state (rw_receipt row) = CommandReceiptState.IntentPersisted
          \<and> exact_result payload (rw_receipt row)) storage_refused) (\<lambda>_.
     try_bind (ensure_that (\<forall>r \<in> set (ld_results L). lr_project_id r \<noteq> p \<or> lr_receipt_id r \<noteq> i)
       storage_refused) (\<lambda>_.
     Inr (L\<lparr>ld_results := ld_results L @ [\<lparr>lr_project_id = p, lr_receipt_id = i,
              lr_payload = payload, lr_recorded_at = nl_created_at request\<rparr>],
            ld_receipts := update_where
              (\<lambda>row. owns p i row
                 \<and> cr_state (rw_receipt row) = CommandReceiptState.IntentPersisted)
              (\<lambda>row. row\<lparr>rw_receipt := (rw_receipt row)\<lparr>cr_result_ref := Some (cd_hash payload)\<rparr>\<rparr>)
              (ld_receipts L)\<rparr>)))))"

definition record_atomic_local_result ::
  "(CanonicalDocument \<Rightarrow> CommandReceipt \<Rightarrow> bool) \<Rightarrow> ledger \<Rightarrow> NewLocalCommand \<Rightarrow> CanonicalDocument \<Rightarrow>
   (CommandReceipt \<times> ledger) RepositoryResult" where
  "record_atomic_local_result exact_result L request payload =
     try_bind (record_pending_local_result exact_result L request payload) (\<lambda>L.
     try_bind (domain (ExternalId_parse (cd_hash payload))) (\<lambda>evidence.
     try_bind (append_transition L (nl_project_id request) (nl_receipt_id request) 2
       CommandReceiptState.Confirmed None None (Some evidence) (nl_created_at request)) (\<lambda>L.
     let hit = (\<lambda>row. owns (nl_project_id request) (nl_receipt_id request) row
           \<and> rw_mode row = Local
           \<and> cr_state (rw_receipt row) = CommandReceiptState.IntentPersisted);
         L = L\<lparr>ld_receipts := update_where hit
           (\<lambda>row. row\<lparr>rw_receipt := (rw_receipt row)\<lparr>cr_state := CommandReceiptState.Confirmed,
              cr_result_ref := Some evidence, cr_updated_at := nl_created_at request\<rparr>\<rparr>)
           (ld_receipts L)\<rparr> in
     try_bind (ok_or (NotFound ''command receipt'')
       (get_receipt_by_key L (nl_idempotency_key request))) (\<lambda>receipt. Inr (receipt, L)))))"

section \<open>Decisions born confirmed\<close>

definition insert_closure_receipt :: "ledger \<Rightarrow> NewAbandonReceipt \<Rightarrow> ledger RepositoryResult" where
  "insert_closure_receipt L request =
     try_bind (insert_receipt L
       (new_receipt (na_project_id request) (na_receipt_id request) (na_idempotency_key request)
          CommandKind.AbandonRun (na_target request) (na_target_revision request) (na_intent request)
          CommandReceiptState.Confirmed (na_recorded_at request)) Dispatch) (\<lambda>L.
     try_bind (insert_target L (na_project_id request) (na_receipt_id request) (na_target request))
       (\<lambda>L.
     try_bind (domain (ExternalId_parse (cd_hash (na_intent request)))) (\<lambda>evidence.
     append_transition L (na_project_id request) (na_receipt_id request) 1
       CommandReceiptState.Confirmed None None (Some evidence) (na_recorded_at request))))"

definition record_abandon_receipt ::
  "ledger \<Rightarrow> NewAbandonReceipt \<Rightarrow> (uuid \<times> ledger) RepositoryResult" where
  "record_abandon_receipt L request =
     (case get_receipt_by_key L (na_idempotency_key request) of
        Some r \<Rightarrow>
          try_bind (ensure_that
            (cr_kind r = CommandKind.AbandonRun \<and> cr_target r = na_target request
             \<and> cd_hash (cr_intent r) = cd_hash (na_intent request))
            (Domain (Invalid ''CommandReceipt''
               ''an idempotency key may not be reused for a different command''))) (\<lambda>_.
          Inr (cr_id r, L))
      | None \<Rightarrow>
          try_bind (insert_closure_receipt L request) (\<lambda>L'. Inr (na_receipt_id request, L')))"

section \<open>Claiming\<close>

definition claim_entry ::
  "ledger \<Rightarrow> uuid \<Rightarrow> uuid \<Rightarrow> string \<Rightarrow> timestamp \<Rightarrow> RepositoryError \<Rightarrow> ledger RepositoryResult" where
  "claim_entry L p i correlation now moved =
     (let hit = (\<lambda>ob. entry_of p i ob \<and> ob_claim_token ob = None \<and> ob_dispatched_at ob = None) in
      try_bind (ensure_that (length (filter hit (ld_outbox L)) = 1) moved) (\<lambda>_.
      Inr (L\<lparr>ld_outbox := update_where hit
        (\<lambda>ob. ob\<lparr>ob_claim_token := Some correlation, ob_claimed_at := Some now,
           ob_attempts := ob_attempts ob + 1\<rparr>) (ld_outbox L)\<rparr>)))"

definition claim_receipt ::
  "(command_row \<Rightarrow> bool) \<Rightarrow> ledger \<Rightarrow> uuid \<Rightarrow> uuid \<Rightarrow> string \<Rightarrow> timestamp \<Rightarrow> RepositoryError \<Rightarrow>
   ledger RepositoryResult" where
  "claim_receipt admitted L p i correlation now moved =
     (let hit = (\<lambda>row. owns p i row \<and> admitted row
           \<and> cr_state (rw_receipt row) = CommandReceiptState.IntentPersisted) in
      try_bind (ensure_that (length (filter hit (ld_receipts L)) = 1) moved) (\<lambda>_.
      Inr (L\<lparr>ld_receipts := update_where hit
        (\<lambda>row. row\<lparr>rw_receipt := (rw_receipt row)\<lparr>cr_state := CommandReceiptState.DispatchPending,
           cr_correlation := Some correlation, cr_updated_at := now\<rparr>\<rparr>) (ld_receipts L)\<rparr>)))"

definition text_le :: "string \<Rightarrow> string \<Rightarrow> bool" where
  "text_le a b \<longleftrightarrow> a \<le> b"

definition claim_receipt_for_dispatch ::
  "(timestamp \<Rightarrow> string) \<Rightarrow> ledger \<Rightarrow> uuid \<Rightarrow> uuid \<Rightarrow> string \<Rightarrow> timestamp \<Rightarrow>
   (DispatchClaim \<times> ledger) RepositoryResult" where
  "claim_receipt_for_dispatch tx L p i correlation now =
     try_bind (ok_or (Conflict ''command outbox''
         ''the named dispatch is not an unclaimed persisted intent'')
       (find (\<lambda>ob. entry_of p i ob
          \<and> (\<exists>row \<in> set (ld_receipts L). owns p i row \<and> rw_mode row = Dispatch
               \<and> cr_state (rw_receipt row) = CommandReceiptState.IntentPersisted)
          \<and> ob_claim_token ob = None \<and> ob_claimed_at ob = None \<and> ob_dispatched_at ob = None
          \<and> text_le (tx (ob_not_before ob)) (tx now)) (ld_outbox L))) (\<lambda>entry.
     try_bind (claim_entry L p i correlation now (Conflict ''command outbox''
       ''the named dispatch moved while it was being claimed'')) (\<lambda>L.
     try_bind (claim_receipt (\<lambda>row. rw_mode row = Dispatch) L p i correlation now
       (Conflict ''command receipt'' ''the named dispatch moved while it was being claimed'')) (\<lambda>L.
     try_bind (append_transition L p i 2 CommandReceiptState.DispatchPending (Some correlation)
       None None now) (\<lambda>L.
     Inr (\<lparr>dl_receipt_id = i, dl_correlation = correlation, dl_payload = ob_payload entry,
            dl_attempts = u32_or_max (ob_attempts entry + 1), dl_claimed_at = now\<rparr>, L)))))"

definition due_entries ::
  "(timestamp \<Rightarrow> string) \<Rightarrow> ledger \<Rightarrow> uuid \<Rightarrow> timestamp \<Rightarrow> u32 \<Rightarrow> outbox_row list" where
  "due_entries tx L p now limit =
     take (unat limit) (sort_key (\<lambda>ob. (tx (ob_not_before ob), ob_receipt_id ob))
       (filter (\<lambda>ob. ob_project_id ob = p \<and> ob_dispatched_at ob = None
          \<and> text_le (tx (ob_not_before ob)) (tx now)
          \<and> (\<exists>row \<in> set (ld_receipts L). owns p (ob_receipt_id ob) row \<and> rw_mode row = Dispatch
               \<and> cr_state (rw_receipt row) = CommandReceiptState.IntentPersisted))
        (ld_outbox L)))"

definition claim_one ::
  "string \<Rightarrow> ledger \<Rightarrow> uuid \<Rightarrow> timestamp \<Rightarrow> outbox_row \<Rightarrow> (DispatchClaim \<times> ledger) RepositoryResult" where
  "claim_one minted L p now entry =
     (let i = ob_receipt_id entry in
      try_bind (domain (ExternalId_parse minted)) (\<lambda>correlation.
      try_bind (claim_entry L p i correlation now (Conflict ''command outbox''
        ''the entry was claimed by another dispatcher'')) (\<lambda>L.
      try_bind (claim_receipt (\<lambda>_. True) L p i correlation now (Conflict ''command receipt''
        ''the receipt left intent_persisted during the claim'')) (\<lambda>L.
      let sequence = (case last_transition L p i of None \<Rightarrow> 1 | Some (s, _) \<Rightarrow> s + 1) in
      try_bind (append_transition L p i sequence CommandReceiptState.DispatchPending
        (Some correlation) None None now) (\<lambda>L.
      Inr (\<lparr>dl_receipt_id = i, dl_correlation = correlation, dl_payload = ob_payload entry,
             dl_attempts = u32_or_max (ob_attempts entry + 1), dl_claimed_at = now\<rparr>, L))))))"

fun claim_each ::
  "(nat \<Rightarrow> string) \<Rightarrow> nat \<Rightarrow> ledger \<Rightarrow> uuid \<Rightarrow> timestamp \<Rightarrow> outbox_row list \<Rightarrow>
   (DispatchClaim list \<times> ledger) RepositoryResult" where
  "claim_each mint n L p now [] = Inr ([], L)"
| "claim_each mint n L p now (entry # rest) =
     try_bind (claim_one (mint n) L p now entry) (\<lambda>(claim, L).
     try_bind (claim_each mint (Suc n) L p now rest) (\<lambda>(claims, L).
     Inr (claim # claims, L)))"

definition claim_due ::
  "(timestamp \<Rightarrow> string) \<Rightarrow> (nat \<Rightarrow> string) \<Rightarrow> ledger \<Rightarrow> uuid \<Rightarrow> timestamp \<Rightarrow> u32 \<Rightarrow>
   (DispatchClaim list \<times> ledger) RepositoryResult" where
  "claim_due tx mint L p now limit = claim_each mint 0 L p now (due_entries tx L p now limit)"

definition read_outbox ::
  "(timestamp \<Rightarrow> string) \<Rightarrow> ledger \<Rightarrow> uuid \<Rightarrow> timestamp \<Rightarrow> u32 \<Rightarrow> CommandOutboxEntry list" where
  "read_outbox tx L p now limit =
     map (\<lambda>ob. \<lparr>oe_receipt_id = ob_receipt_id ob, oe_payload = ob_payload ob,
        oe_not_before = ob_not_before ob, oe_dispatched_at = ob_dispatched_at ob,
        oe_attempts = u32_or_max (ob_attempts ob)\<rparr>)
     (take (unat limit) (sort_key (\<lambda>ob. (tx (ob_not_before ob), ob_receipt_id ob))
       (filter (\<lambda>ob. ob_project_id ob = p
          \<and> (\<exists>row \<in> set (ld_receipts L). owns p (ob_receipt_id ob) row \<and> rw_mode row = Dispatch)
          \<and> ob_dispatched_at ob = None \<and> text_le (tx (ob_not_before ob)) (tx now)) (ld_outbox L))))"

section \<open>Protocol steps\<close>

definition claim_token :: "ledger \<Rightarrow> uuid \<Rightarrow> uuid \<Rightarrow> string option" where
  "claim_token L p i = Option.bind (outbox_entry L p i) ob_claim_token"

definition or_else :: "'a option \<Rightarrow> 'a option \<Rightarrow> 'a option" where
  "or_else a b = (case a of None \<Rightarrow> b | Some x \<Rightarrow> Some x)"

definition effective_correlation ::
  "ledger \<Rightarrow> CommandTransition \<Rightarrow> CommandReceipt \<Rightarrow> string option RepositoryResult" where
  "effective_correlation L request receipt =
     try_bind (ensure_that
       (cx_correlation request = None \<or> cr_correlation receipt = None
        \<or> cx_correlation request = cr_correlation receipt)
       (Conflict ''command receipt''
          ''the dispatch correlation is persisted once and is never replaced'')) (\<lambda>_.
     let correlation = or_else (cx_correlation request) (cr_correlation receipt) in
     try_bind (ensure_that
       (correlation = None
        \<or> claim_token L (cx_project_id request) (cx_receipt_id request) = correlation)
       (Conflict ''command receipt''
          ''the correlation is not the outbox entry's durable claim token'')) (\<lambda>_.
     Inr correlation))"

definition write_projection ::
  "ledger \<Rightarrow> CommandReceipt \<Rightarrow> CommandReceiptState \<Rightarrow> string option \<Rightarrow>
   NativeRuntimeIdentity option \<Rightarrow> string option \<Rightarrow> u32 \<Rightarrow> timestamp \<Rightarrow> ledger RepositoryResult" where
  "write_projection L receipt next correlation native_identity result_ref attempts occurred_at =
     (let hit = (\<lambda>row. owns (cr_project_id receipt) (cr_id receipt) row
           \<and> cr_state (rw_receipt row) = cr_state receipt) in
      try_bind (ensure_that (\<forall>row \<in> set (ld_receipts L). hit row \<longrightarrow>
        \<not> CommandReceiptState_is_terminal (cr_state (rw_receipt row))) storage_refused) (\<lambda>_.
      try_bind (ensure_that (length (filter hit (ld_receipts L)) = 1)
        (Conflict ''command receipt'' ''the receipt state moved during the write'')) (\<lambda>_.
      Inr (L\<lparr>ld_receipts := update_where hit
        (\<lambda>row. row\<lparr>rw_receipt := (rw_receipt row)\<lparr>cr_state := next, cr_correlation := correlation,
           cr_native_identity := native_identity, cr_result_ref := result_ref,
           cr_attempts := attempts, cr_updated_at := occurred_at\<rparr>\<rparr>) (ld_receipts L)\<rparr>))))"

definition transition_shape :: "CommandTransition \<Rightarrow> unit RepositoryResult" where
  "transition_shape request =
     (if cx_to request \<in> {CommandReceiptState.Confirmed, CommandReceiptState.Failed}
         \<and> cx_evidence_ref request = None then
        Inl (Domain (MissingEvidence ''command confirmation''
          ''a confirmed or failed command must cite the evidence for it''))
      else if cx_to request = CommandReceiptState.Acknowledged \<and> cx_evidence_ref request \<noteq> None then
        Inl (Domain (Invalid ''command acknowledgement''
          ''an acknowledgement proves receipt only and carries no evidence''))
      else Inr ())"

definition next_state ::
  "CommandTransition \<Rightarrow> CommandReceipt \<Rightarrow> CommandReceiptState RepositoryResult" where
  "next_state request receipt =
     (if cx_to request = CommandReceiptState.DispatchPending
         \<and> cr_state receipt = CommandReceiptState.ConfirmationUnknown then
        try_bind (ok_or (Domain (MissingEvidence ''command retry''
            ''an unknown dispatch result must be reconciled before retrying''))
          (cx_no_effect request)) (\<lambda>evidence. domain (authorize_retry receipt evidence))
      else domain (receipt_transition receipt (cx_to request)))"

definition stamp_dispatched :: "ledger \<Rightarrow> uuid \<Rightarrow> uuid \<Rightarrow> timestamp \<Rightarrow> ledger" where
  "stamp_dispatched L p i at =
     L\<lparr>ld_outbox := update_where (entry_of p i) (\<lambda>ob. ob\<lparr>ob_dispatched_at := Some at\<rparr>)
        (ld_outbox L)\<rparr>"

definition apply_command_transition ::
  "ledger \<Rightarrow> CommandTransition \<Rightarrow> (RecordedTransition \<times> ledger) RepositoryResult" where
  "apply_command_transition L request =
     (let p = cx_project_id request; i = cx_receipt_id request in
      try_bind (transition_shape request) (\<lambda>_.
      try_bind (ok_or (NotFound ''command receipt'') (get_receipt L p i)) (\<lambda>receipt.
      try_bind (ok_or (Conflict ''command receipt''
          ''the receipt has no durable transition history to continue from'')
        (last_transition L p i)) (\<lambda>(sequence, recorded).
      try_bind (ensure_that (recorded = cr_state receipt) (Conflict ''command receipt''
        ''the receipt projection and its durable history disagree'')) (\<lambda>_.
      try_bind (effective_correlation L request receipt) (\<lambda>correlation.
      if cx_to request = cr_state receipt then
        Inr (\<lparr>rt_receipt = receipt, rt_sequence = sequence, rt_appended = False\<rparr>, L)
      else
        try_bind (next_state request receipt) (\<lambda>next.
        try_bind (ensure_that
          (\<not> (next \<in> {CommandReceiptState.DispatchPending, CommandReceiptState.Dispatched}
              \<and> correlation = None))
          (Domain (MissingEvidence ''command dispatch''
             ''the correlation must be persisted before any native call''))) (\<lambda>_.
        let attempts = (if next = CommandReceiptState.Dispatched
              then saturating_add (cr_attempts receipt) 1 else cr_attempts receipt);
            native = or_else (cx_native_identity request) (cr_native_identity receipt);
            result_ref = or_else (cx_evidence_ref request) (cr_result_ref receipt) in
        try_bind (write_projection L receipt next correlation native result_ref attempts
          (cx_occurred_at request)) (\<lambda>L.
        try_bind (append_transition L p i (sequence + 1) next correlation
          (cx_native_identity request) (cx_evidence_ref request) (cx_occurred_at request)) (\<lambda>L.
        let L = (if next = CommandReceiptState.Dispatched
              then stamp_dispatched L p i (cx_occurred_at request) else L) in
        try_bind (ok_or (NotFound ''command receipt'') (get_receipt L p i)) (\<lambda>receipt.
        Inr (\<lparr>rt_receipt = receipt, rt_sequence = sequence + 1, rt_appended = True\<rparr>, L))))))))))))"

definition advance_receipt ::
  "ledger \<Rightarrow> ReceiptAdvance \<Rightarrow> (CommandReceipt \<times> ledger) RepositoryResult" where
  "advance_receipt L request =
     try_bind (apply_command_transition L
       \<lparr>cx_project_id = av_project_id request, cx_receipt_id = av_receipt_id request,
        cx_to = av_to request, cx_correlation = av_correlation request,
        cx_native_identity = av_native_identity request, cx_evidence_ref = av_result_ref request,
        cx_no_effect = av_no_effect request, cx_occurred_at = av_occurred_at request\<rparr>)
     (\<lambda>(recorded, L'). Inr (rt_receipt recorded, L'))"

definition dispatch_started :: "ledger \<Rightarrow> CommandReceipt \<Rightarrow> bool" where
  "dispatch_started L r \<longleftrightarrow>
     (\<exists>ob \<in> set (ld_outbox L). entry_of (cr_project_id r) (cr_id r) ob
        \<and> (ob_claim_token ob \<noteq> None \<or> ob_claimed_at ob \<noteq> None \<or> ob_dispatched_at ob \<noteq> None
           \<or> ob_attempts ob \<noteq> 0))"

definition complete_local_command ::
  "ledger \<Rightarrow> string \<Rightarrow> timestamp \<Rightarrow> (CommandReceipt option \<times> ledger) RepositoryResult" where
  "complete_local_command L key completed_at =
     (case row_by_key L key of
        None \<Rightarrow> Inr (None, L)
      | Some row \<Rightarrow>
          (let receipt = rw_receipt row in
           if rw_mode row \<noteq> Local then Inr (None, L)
           else if dispatch_started L receipt then
             Inl (Conflict ''local command receipt''
               ''a local command receipt must never enter dispatch'')
           else if cr_state receipt = CommandReceiptState.Confirmed then Inr (Some receipt, L)
           else if cr_state receipt \<noteq> CommandReceiptState.IntentPersisted then
             Inl (Conflict ''local command receipt''
               ''a successful local operation may only complete its persisted intent'')
           else
             try_bind (case cr_result_ref receipt of
                 Some ref \<Rightarrow> Inr ref
               | None \<Rightarrow> domain (ExternalId_parse (cd_hash (cr_intent receipt)))) (\<lambda>evidence.
             try_bind (apply_command_transition L
               \<lparr>cx_project_id = cr_project_id receipt, cx_receipt_id = cr_id receipt,
                cx_to = CommandReceiptState.Confirmed, cx_correlation = None,
                cx_native_identity = None, cx_evidence_ref = Some evidence, cx_no_effect = None,
                cx_occurred_at = completed_at\<rparr>) (\<lambda>(recorded, L').
             Inr (Some (rt_receipt recorded), L')))))"

section \<open>Startup\<close>

definition unsettled :: "command_row \<Rightarrow> bool" where
  "unsettled row \<longleftrightarrow> rw_mode row = Dispatch
     \<and> cr_state (rw_receipt row) \<notin> {CommandReceiptState.Confirmed, CommandReceiptState.Failed}"

definition oldest_first :: "(timestamp \<Rightarrow> string) \<Rightarrow> command_row list \<Rightarrow> command_row list" where
  "oldest_first tx rows =
     sort_key (\<lambda>row. (tx (cr_created_at (rw_receipt row)), cr_id (rw_receipt row))) rows"

definition unsettled_receipts :: "(timestamp \<Rightarrow> string) \<Rightarrow> ledger \<Rightarrow> (uuid \<times> uuid) list" where
  "unsettled_receipts tx L =
     map (\<lambda>row. (cr_project_id (rw_receipt row), cr_id (rw_receipt row)))
       (oldest_first tx (filter unsettled (ld_receipts L)))"

record candidate =
  ca_project_id :: uuid
  ca_receipt_id :: uuid
  ca_state :: CommandReceiptState
  ca_correlation :: "string option"
  ca_binding :: "(string \<times> NativeRuntimeIdentity) option"
  ca_closed_at :: "timestamp option"
  ca_terminal_evidence :: "content_hash option"

definition left_join :: "ledger \<Rightarrow> run_row \<Rightarrow> (string \<times> NativeRuntimeIdentity) option list" where
  "left_join L run =
     (case filter (\<lambda>b. bd_project_id b = rn_project_id run \<and> bd_agent_run_id b = rn_id run)
             (ld_bindings L) of
        [] \<Rightarrow> [None]
      | bs \<Rightarrow> map (\<lambda>b. Some (bd_id b, bd_identity b)) bs)"

definition launch_candidates :: "(timestamp \<Rightarrow> string) \<Rightarrow> ledger \<Rightarrow> candidate list" where
  "launch_candidates tx L =
     [\<lparr>ca_project_id = cr_project_id (rw_receipt row), ca_receipt_id = cr_id (rw_receipt row),
       ca_state = cr_state (rw_receipt row), ca_correlation = cr_correlation (rw_receipt row),
       ca_binding = b, ca_closed_at = rn_closed_at run,
       ca_terminal_evidence = rn_terminal_evidence_hash run\<rparr>.
        row \<leftarrow> oldest_first tx (filter (\<lambda>row. unsettled row
           \<and> cr_kind (rw_receipt row) = CommandKind.LaunchRun) (ld_receipts L)),
        (q, j, t) \<leftarrow> ld_targets L,
        q = cr_project_id (rw_receipt row) \<and> j = cr_id (rw_receipt row),
        run \<leftarrow> ld_runs L,
        rn_project_id run = cr_project_id (rw_receipt row) \<and> t = AggregateRef.AgentRun (rn_id run),
        b \<leftarrow> left_join L run]"

definition settle_step ::
  "timestamp \<Rightarrow> candidate \<Rightarrow> CommandReceiptState \<Rightarrow> NativeRuntimeIdentity option \<Rightarrow> string option \<Rightarrow>
   CommandTransition" where
  "settle_step at c to native evidence =
     \<lparr>cx_project_id = ca_project_id c, cx_receipt_id = ca_receipt_id c, cx_to = to,
      cx_correlation = ca_correlation c, cx_native_identity = native, cx_evidence_ref = evidence,
      cx_no_effect = None, cx_occurred_at = at\<rparr>"

text \<open>
  Each step commits on its own: an error leaves what was settled before it.
\<close>

definition settle_bound ::
  "timestamp \<Rightarrow> candidate \<Rightarrow> string \<Rightarrow> NativeRuntimeIdentity \<Rightarrow> ledger \<Rightarrow>
   ledger \<times> unit RepositoryResult" where
  "settle_bound at c binding_id native L =
     (case (if ca_state c = CommandReceiptState.DispatchPending
            then try_bind (apply_command_transition L
              (settle_step at c CommandReceiptState.Dispatched (Some native) None)) (Inr \<circ> snd)
            else Inr L) of
        Inl e \<Rightarrow> (L, Inl e)
      | Inr L1 \<Rightarrow>
          (case domain (ExternalId_parse binding_id) of
             Inl e \<Rightarrow> (L1, Inl e)
           | Inr evidence \<Rightarrow>
               (case apply_command_transition L1
                  (settle_step at c CommandReceiptState.Confirmed (Some native) (Some evidence)) of
                  Inl e \<Rightarrow> (L1, Inl e)
                | Inr (_, L2) \<Rightarrow> (L2, Inr ()))))"

definition settle_closed ::
  "timestamp \<Rightarrow> candidate \<Rightarrow> content_hash \<Rightarrow> ledger \<Rightarrow> ledger \<times> unit RepositoryResult" where
  "settle_closed at c hash L =
     (case try_bind (domain (ExternalId_parse hash)) (\<lambda>evidence. apply_command_transition L
        (settle_step at c CommandReceiptState.Failed None (Some evidence))) of
        Inl e \<Rightarrow> (L, Inl e)
      | Inr (_, L') \<Rightarrow> (L', Inr ()))"

fun reconcile_each ::
  "timestamp \<Rightarrow> candidate list \<Rightarrow> LaunchReceiptReconciliation \<Rightarrow> ledger \<Rightarrow>
   ledger \<times> LaunchReceiptReconciliation RepositoryResult" where
  "reconcile_each at [] report L = (L, Inr report)"
| "reconcile_each at (c # cs) report L =
     (case ca_binding c of
        Some (binding_id, native) \<Rightarrow>
          (case settle_bound at c binding_id native L of
             (L', Inl e) \<Rightarrow> (L', Inl e)
           | (L', Inr _) \<Rightarrow>
               reconcile_each at cs (report\<lparr>lc_confirmed := lc_confirmed report + 1\<rparr>) L')
      | None \<Rightarrow>
          (case (ca_closed_at c, ca_terminal_evidence c) of
             (Some _, Some hash) \<Rightarrow>
               (case settle_closed at c hash L of
                  (L', Inl e) \<Rightarrow> (L', Inl e)
                | (L', Inr _) \<Rightarrow>
                    reconcile_each at cs (report\<lparr>lc_failed := lc_failed report + 1\<rparr>) L')
           | _ \<Rightarrow> reconcile_each at cs (report\<lparr>lc_pending := lc_pending report + 1\<rparr>) L))"

definition reconcile_legacy_launch_receipts ::
  "(timestamp \<Rightarrow> string) \<Rightarrow> timestamp \<Rightarrow> ledger \<Rightarrow>
   ledger \<times> LaunchReceiptReconciliation RepositoryResult" where
  "reconcile_legacy_launch_receipts tx at L =
     reconcile_each at (launch_candidates tx L)
       \<lparr>lc_confirmed = 0, lc_failed = 0, lc_pending = 0\<rparr> L"

definition classify_command_recovery ::
  "ledger \<Rightarrow> uuid \<Rightarrow> uuid \<Rightarrow> CommandRecovery RepositoryResult" where
  "classify_command_recovery L p i =
     try_bind (ok_or (NotFound ''command receipt'') (get_row L p i)) (\<lambda>row.
     let receipt = rw_receipt row in
     if rw_mode row = Local then Inr (Settled i (cr_state receipt))
     else if CommandReceiptState_is_terminal (cr_state receipt) then
       Inr (Settled i (cr_state receipt))
     else
       (case outbox_entry L p i of
          None \<Rightarrow> Inr (Settled i (cr_state receipt))
        | Some entry \<Rightarrow>
            Inr (if cr_state receipt = CommandReceiptState.IntentPersisted
                 then Undispatched i (ob_payload entry)
                 else AmbiguousOrLaunched i (cr_state receipt) (cr_correlation receipt)
                        (cr_native_identity receipt) (ob_payload entry))))"

fun count_recovery :: "CommandRecovery \<Rightarrow> RecoveryReport \<Rightarrow> RecoveryReport" where
  "count_recovery (Undispatched i p) report =
     report\<lparr>rp_undispatched := rp_undispatched report + 1\<rparr>"
| "count_recovery (AmbiguousOrLaunched i s c n p) report =
     report\<lparr>rp_ambiguous := rp_ambiguous report + 1\<rparr>"
| "count_recovery (Settled i s) report = report\<lparr>rp_settled := rp_settled report + 1\<rparr>"

fun recover_each ::
  "ledger \<Rightarrow> (uuid \<times> uuid) list \<Rightarrow> RecoveryReport \<Rightarrow> RecoveryReport RepositoryResult" where
  "recover_each L [] report = Inr report"
| "recover_each L ((p, i) # rest) report =
     try_bind (classify_command_recovery L p i) (\<lambda>recovery.
     recover_each L rest (count_recovery recovery report))"

definition recover :: "(timestamp \<Rightarrow> string) \<Rightarrow> ledger \<Rightarrow> RecoveryReport RepositoryResult" where
  "recover tx L = recover_each L (unsettled_receipts tx L)
     \<lparr>rp_undispatched = 0, rp_ambiguous = 0, rp_settled = 0\<rparr>"

end
