(* ===== verification/Command_Protocol.thy ===== *)
theory Command_Protocol
  imports Command_Store
begin

text \<open>
  The command protocol over the ledger of \<^verbatim>\<open>Command_Store\<close>: what every reachable ledger keeps of a
  command's receipt, its outbox entry and its history.  The history numbers its steps, starts at the
  persisted intent and follows the receipt table to the state the projection shows; the outbox claim,
  the receipt and every step of the history name one correlation.  Two lemmas carry the invariant,
  one for a receipt written whole (\<open>add_slot\<close>) and one for a receipt moved (\<open>move_slot\<close>); each
  operation is shown to be one of the two.  On top stand the properties of the protocol: who may
  launch after a restart, what a retry needs, that claims are exclusive and settled receipts final.
\<close>

section \<open>The rows of one receipt\<close>

definition entries :: "ledger \<Rightarrow> uuid \<Rightarrow> uuid \<Rightarrow> outbox_row list" where
  "entries L p i = filter (entry_of p i) (ld_outbox L)"

definition hist :: "ledger \<Rightarrow> uuid \<Rightarrow> uuid \<Rightarrow> transition_row list" where
  "hist L p i = filter (step_of p i) (ld_transitions L)"

fun legal_path :: "CommandReceiptState list \<Rightarrow> bool" where
  "legal_path (s # t # rest) \<longleftrightarrow> receipt_can_transition_to s t \<and> legal_path (t # rest)"
| "legal_path _ \<longleftrightarrow> True"

definition numbered :: "transition_row list \<Rightarrow> bool" where
  "numbered h \<longleftrightarrow> length h < 2 ^ 32
     \<and> map ct_sequence h = map (\<lambda>n. of_nat (Suc n)) [0..<length h]"

definition history_ok :: "CommandReceipt \<Rightarrow> transition_row list \<Rightarrow> bool" where
  "history_ok r h \<longleftrightarrow>
     h \<noteq> [] \<and> numbered h \<and> legal_path (map ct_state h) \<and> ct_state (last h) = cr_state r
     \<and> (\<forall>t \<in> set h. transition_checks t \<and> ct_correlation t \<in> {None, cr_correlation r})
     \<and> unat (cr_attempts r) =
         min (2 ^ 32 - 1) (count_list (map ct_state h) CommandReceiptState.Dispatched)
     \<and> (cr_correlation r \<noteq> None \<longleftrightarrow> CommandReceiptState.DispatchPending \<in> ct_state ` set h)"

definition entry_ok :: "CommandReceipt \<Rightarrow> transition_row list \<Rightarrow> outbox_row \<Rightarrow> bool" where
  "entry_ok r h ob \<longleftrightarrow>
     ob_claim_token ob = cr_correlation r
     \<and> (ob_claimed_at ob = None \<longleftrightarrow> ob_claim_token ob = None)
     \<and> (ob_dispatched_at ob = None \<longleftrightarrow> CommandReceiptState.Dispatched \<notin> ct_state ` set h)
     \<and> ob_attempts ob = (if ob_claim_token ob = None then 0 else 1)"

text \<open>
  A command is queued with its intent, or runs locally, or is a decision born confirmed; only a
  queued command has an outbox entry.
\<close>

definition slot_ok :: "command_row \<Rightarrow> outbox_row list \<Rightarrow> transition_row list \<Rightarrow> bool" where
  "slot_ok row obs h \<longleftrightarrow>
     history_ok (rw_receipt row) h
     \<and> (case obs of
          [] \<Rightarrow> cr_correlation (rw_receipt row) = None
            \<and> (ct_state (hd h) = CommandReceiptState.IntentPersisted \<and> rw_mode row = Local
               \<or> length h = 1 \<and> ct_state (hd h) = CommandReceiptState.Confirmed)
        | [ob] \<Rightarrow> rw_mode row = Dispatch
            \<and> ct_state (hd h) = CommandReceiptState.IntentPersisted
            \<and> entry_ok (rw_receipt row) h ob
        | _ \<Rightarrow> False)"

definition rows_ok :: "ledger \<Rightarrow> bool" where
  "rows_ok L \<longleftrightarrow>
     distinct (map (\<lambda>row. cr_id (rw_receipt row)) (ld_receipts L))
     \<and> distinct (map (\<lambda>row. cr_idempotency_key (rw_receipt row)) (ld_receipts L))
     \<and> (\<forall>ob \<in> set (ld_outbox L). \<exists>row \<in> set (ld_receipts L).
          owns (ob_project_id ob) (ob_receipt_id ob) row)
     \<and> (\<forall>t \<in> set (ld_transitions L). \<exists>row \<in> set (ld_receipts L).
          owns (ct_project_id t) (ct_receipt_id t) row)
     \<and> (\<forall>(p, i, t) \<in> set (ld_targets L). \<exists>row \<in> set (ld_receipts L).
          owns p i row \<and> cr_target (rw_receipt row) = t)"

definition slot_at :: "ledger \<Rightarrow> command_row \<Rightarrow> bool" where
  "slot_at L row \<longleftrightarrow>
     slot_ok row (entries L (cr_project_id (rw_receipt row)) (cr_id (rw_receipt row)))
       (hist L (cr_project_id (rw_receipt row)) (cr_id (rw_receipt row)))"

definition ledger_ok :: "ledger \<Rightarrow> bool" where
  "ledger_ok L \<longleftrightarrow> rows_ok L \<and> (\<forall>row \<in> set (ld_receipts L). slot_at L row)"

section \<open>Paths and numbers\<close>

lemma no_way_back [simp]:
  "\<not> receipt_can_transition_to s CommandReceiptState.IntentPersisted"
  by (cases s) auto

lemma legal_path_snoc:
  "h \<noteq> [] \<Longrightarrow> legal_path (h @ [s]) \<longleftrightarrow> legal_path h \<and> receipt_can_transition_to (last h) s"
  by (induction h rule: legal_path.induct) auto

lemma legal_path_tail: "legal_path (s # h) \<Longrightarrow> CommandReceiptState.IntentPersisted \<notin> set h"
proof (induction h arbitrary: s)
  case (Cons t h)
  then show ?case by (cases t) auto
qed simp

text \<open>Where a legal path has been dispatched or left open, the claim came before.\<close>

lemma legal_path_claims:
  assumes "legal_path h" "CommandReceiptState.DispatchPending \<notin> set h" "h \<noteq> []"
    "hd h \<in> {CommandReceiptState.IntentPersisted, CommandReceiptState.Confirmed,
       CommandReceiptState.Failed}"
  shows "set h \<subseteq> {CommandReceiptState.IntentPersisted, CommandReceiptState.Confirmed,
     CommandReceiptState.Failed}"
  using assms
proof (induction h rule: legal_path.induct)
  case (1 s t rest)
  then have "t \<in> {CommandReceiptState.Confirmed, CommandReceiptState.Failed}" by auto
  with 1 show ?case by auto
qed auto

lemma numbered_Nil: "numbered []"
  by (simp add: numbered_def)

lemma numbered_last:
  assumes "numbered h" "h \<noteq> []"
  shows "ct_sequence (last h) = of_nat (length h)"
proof -
  have "ct_sequence (last h) = last (map ct_sequence h)" using assms by (simp add: last_map)
  also have "\<dots> = of_nat (length h)"
    using assms by (simp add: numbered_def last_map del: of_nat_Suc)
  finally show ?thesis .
qed

lemma numbered_sorted:
  assumes "numbered h"
  shows "sort_key ct_sequence h = h"
proof (rule sort_key_id_if_sorted)
  have "unat (of_nat (Suc n) :: u32) = Suc n" if "n < length h" for n
    using that assms by (simp add: numbered_def unat_of_nat del: of_nat_Suc)
  with assms show "sorted (map ct_sequence h)"
    by (simp add: numbered_def sorted_iff_nth_mono word_le_nat_alt del: of_nat_Suc)
qed

lemma numbered_snoc:
  assumes "numbered h" "ct_sequence t = of_nat (length h) + 1" "1 \<le> ct_sequence t"
  shows "numbered (h @ [t])"
proof -
  have "length h + 1 \<noteq> 2 ^ 32"
  proof
    assume "length h + 1 = 2 ^ 32"
    then have "ct_sequence t = of_nat (2 ^ 32)" using assms(2) by (metis of_nat_1 of_nat_add)
    then show False using assms(3) by (simp add: word_le_nat_alt)
  qed
  with assms show ?thesis by (simp add: numbered_def add.commute)
qed

section \<open>Looking rows up\<close>

lemma filter_single:
  assumes "distinct xs" "x \<in> set xs" "\<And>y. y \<in> set xs \<Longrightarrow> P y \<longleftrightarrow> y = x"
  shows "filter P xs = [x]"
proof -
  have "filter P xs = filter (\<lambda>y. y = x) xs" using assms(3) by (intro filter_cong) auto
  moreover have "filter (\<lambda>y. y = x) xs = [x]"
    using assms(1,2) by (induction xs) (auto simp: filter_empty_conv)
  ultimately show ?thesis by simp
qed

lemma find_filter: "find P xs = (case filter P xs of [] \<Rightarrow> None | x # _ \<Rightarrow> Some x)"
  by (induction xs) auto

lemma rows_okD:
  assumes "rows_ok L"
  shows rows_ok_ids: "distinct (map (\<lambda>row. cr_id (rw_receipt row)) (ld_receipts L))"
    and rows_ok_keys: "distinct (map (\<lambda>row. cr_idempotency_key (rw_receipt row)) (ld_receipts L))"
    and rows_ok_outbox: "\<And>ob. ob \<in> set (ld_outbox L) \<Longrightarrow>
      \<exists>row \<in> set (ld_receipts L). owns (ob_project_id ob) (ob_receipt_id ob) row"
    and rows_ok_steps: "\<And>t. t \<in> set (ld_transitions L) \<Longrightarrow>
      \<exists>row \<in> set (ld_receipts L). owns (ct_project_id t) (ct_receipt_id t) row"
    and rows_ok_targets: "\<And>p i t. (p, i, t) \<in> set (ld_targets L) \<Longrightarrow>
      \<exists>row \<in> set (ld_receipts L). owns p i row \<and> cr_target (rw_receipt row) = t"
  using assms unfolding rows_ok_def by (blast, blast, blast, blast, fast)

lemma owned_one:
  assumes "rows_ok L" "row \<in> set (ld_receipts L)" "owns p i row" "r \<in> set (ld_receipts L)" "owns p i r"
  shows "r = row"
  using assms unfolding rows_ok_def owns_def distinct_map by (blast dest: inj_onD)

lemma owned_alone:
  assumes "rows_ok L" "row \<in> set (ld_receipts L)" "owns p i row"
  shows "filter (owns p i) (ld_receipts L) = [row]"
proof (rule filter_single)
  show "distinct (ld_receipts L)" using assms(1) unfolding rows_ok_def distinct_map by blast
  show "owns p i r \<longleftrightarrow> r = row" if "r \<in> set (ld_receipts L)" for r
    using owned_one [OF assms that] assms(3) by blast
qed (rule assms(2))

lemma get_row_iff:
  assumes "rows_ok L"
  shows "get_row L p i = Some row \<longleftrightarrow> row \<in> set (ld_receipts L) \<and> owns p i row"
proof
  assume "get_row L p i = Some row"
  then show "row \<in> set (ld_receipts L) \<and> owns p i row"
    by (auto simp: get_row_def dest: find_SomeD)
next
  assume "row \<in> set (ld_receipts L) \<and> owns p i row"
  then have "filter (owns p i) (ld_receipts L) = [row]" using owned_alone [OF assms] by blast
  then show "get_row L p i = Some row" by (simp add: get_row_def find_filter)
qed

lemma outbox_entry_entries:
  "outbox_entry L p i = (case entries L p i of [] \<Rightarrow> None | ob # _ \<Rightarrow> Some ob)"
  by (simp add: outbox_entry_def entries_def find_filter)

lemma slot_of:
  assumes "ledger_ok L" "get_row L p i = Some row"
  shows "slot_ok row (entries L p i) (hist L p i)" "owns p i row"
  using assms by (auto simp: ledger_ok_def slot_at_def get_row_iff owns_def)

lemma transitions_of_hist:
  assumes "slot_ok row obs (hist L p i)"
  shows "transitions_of L p i = hist L p i"
    "last_transition L p i =
       Some (of_nat (length (hist L p i)), cr_state (rw_receipt row))"
proof -
  have h: "numbered (hist L p i)" "hist L p i \<noteq> []"
    "ct_state (last (hist L p i)) = cr_state (rw_receipt row)"
    using assms by (auto simp: slot_ok_def history_ok_def)
  then show e: "transitions_of L p i = hist L p i"
    using numbered_sorted [of "hist L p i"] by (simp add: transitions_of_def hist_def)
  obtain t r where r: "rev (hist L p i) = t # r" using h(2) by (cases "rev (hist L p i)") auto
  then have "t = last (hist L p i)" using hd_rev [of "hist L p i"] by simp
  then show "last_transition L p i =
       Some (of_nat (length (hist L p i)), cr_state (rw_receipt row))"
    unfolding last_transition_def e r using h(3) numbered_last [OF h(1,2)] by simp
qed

section \<open>Writing a receipt whole\<close>

lemma add_slot:
  assumes ok: "ledger_ok L"
    and fresh: "\<forall>row \<in> set (ld_receipts L). cr_id (rw_receipt row) \<noteq> i
      \<and> cr_idempotency_key (rw_receipt row) \<noteq> cr_idempotency_key (rw_receipt new)"
    and new: "owns p i new" "slot_ok new obs ts"
    and own: "\<forall>ob \<in> set obs. entry_of p i ob" "\<forall>t \<in> set ts. step_of p i t"
    and tables: "ld_receipts L' = ld_receipts L @ [new]" "ld_outbox L' = ld_outbox L @ obs"
      "ld_transitions L' = ld_transitions L @ ts"
      "ld_targets L' = ld_targets L @ [(p, i, cr_target (rw_receipt new))]"
  shows "ledger_ok L'"
proof -
  have rows: "rows_ok L" using ok by (simp add: ledger_ok_def)
  have none: "\<not> owns q j row" if "row \<in> set (ld_receipts L)" "j = i" for row q j
    using fresh that by (auto simp: owns_def)
  have empty: "entries L p i = []" "hist L p i = []"
    using rows none unfolding rows_ok_def entries_def hist_def filter_empty_conv
    by (metis entry_of_def, metis step_of_def)
  have all: "filter (entry_of p i) obs = obs" "filter (step_of p i) ts = ts"
    using own by (auto simp: filter_id_conv)
  have this_slot: "slot_at L' new"
    using new empty all by (simp add: slot_at_def entries_def hist_def tables owns_def)
  have "slot_at L' row" if "row \<in> set (ld_receipts L)" for row
  proof -
    have "cr_id (rw_receipt row) \<noteq> i" using fresh that by blast
    then have "filter (entry_of (cr_project_id (rw_receipt row)) (cr_id (rw_receipt row))) obs = []"
      "filter (step_of (cr_project_id (rw_receipt row)) (cr_id (rw_receipt row))) ts = []"
      using own by (auto simp: filter_empty_conv entry_of_def step_of_def)
    then show ?thesis using ok that
      by (simp add: ledger_ok_def slot_at_def entries_def hist_def tables)
  qed
  moreover have "rows_ok L'"
  proof -
    have "i \<notin> (\<lambda>row. cr_id (rw_receipt row)) ` set (ld_receipts L)"
      "cr_idempotency_key (rw_receipt new)
         \<notin> (\<lambda>row. cr_idempotency_key (rw_receipt row)) ` set (ld_receipts L)"
      using fresh by force+
    with rows new(1) own show ?thesis
      unfolding rows_ok_def tables owns_def entry_of_def step_of_def
      by (simp add: ball_Un bex_Un split_beta)
  qed
  ultimately show ?thesis using this_slot by (auto simp: ledger_ok_def tables)
qed

section \<open>Moving a receipt\<close>

lemma update_where_owned:
  assumes "rows_ok L" "row \<in> set (ld_receipts L)" "owns p i row" "Q row"
  shows "update_where (\<lambda>r. owns p i r \<and> Q r) f (ld_receipts L) =
           update_where (owns p i) f (ld_receipts L)"
    "length (filter (\<lambda>r. owns p i r \<and> Q r) (ld_receipts L)) = 1"
proof -
  note one = owned_one [OF assms(1-3)]
  then show "update_where (\<lambda>r. owns p i r \<and> Q r) f (ld_receipts L) =
      update_where (owns p i) f (ld_receipts L)"
    using assms(4) by (auto simp: update_where_def)
  have "filter (\<lambda>r. owns p i r \<and> Q r) (ld_receipts L) = filter (owns p i) (ld_receipts L)"
    using one assms(4) by (intro filter_cong) auto
  then show "length (filter (\<lambda>r. owns p i r \<and> Q r) (ld_receipts L)) = 1"
    using owned_alone [OF assms(1-3)] by simp
qed

lemma filter_update_other:
  assumes "\<And>x. P x \<Longrightarrow> Q (f x) = Q x" "\<And>x. P x \<Longrightarrow> \<not> Q x"
  shows "filter Q (update_where P f xs) = filter Q xs"
  using assms by (induction xs) (auto simp: update_where_def)

lemma filter_update_same:
  assumes "\<And>x. P x \<Longrightarrow> P (f x)"
  shows "filter P (update_where P f xs) = map f (filter P xs)"
  using assms by (induction xs) (auto simp: update_where_def)

lemma map_update_where:
  "(\<And>x. P x \<Longrightarrow> g (f x) = g x) \<Longrightarrow> map g (update_where P f xs) = map g xs"
  by (simp add: update_where_def)

lemma moved_views:
  assumes keep: "\<And>ob. ob_project_id (g ob) = ob_project_id ob \<and> ob_receipt_id (g ob) = ob_receipt_id ob"
    and own: "\<forall>t \<in> set ts. step_of p i t"
    and tables: "ld_outbox L' = update_where (entry_of p i) g (ld_outbox L)"
      "ld_transitions L' = ld_transitions L @ ts"
  shows "entries L' p i = map g (entries L p i)" "hist L' p i = hist L p i @ ts"
    "(q, j) \<noteq> (p, i) \<Longrightarrow> entries L' q j = entries L q j"
    "(q, j) \<noteq> (p, i) \<Longrightarrow> hist L' q j = hist L q j"
proof -
  show "entries L' p i = map g (entries L p i)" "hist L' p i = hist L p i @ ts"
    using own keep unfolding entries_def hist_def tables
    by (subst filter_update_same, simp_all add: entry_of_def filter_id_conv)
  assume other: "(q, j) \<noteq> (p, i)"
  show "entries L' q j = entries L q j"
    unfolding entries_def tables using other keep
    by (intro filter_update_other) (auto simp: entry_of_def)
  show "hist L' q j = hist L q j"
    using other own by (auto simp: hist_def tables step_of_def filter_empty_conv)
qed

lemma move_slot:
  assumes ok: "ledger_ok L" and row: "get_row L p i = Some row"
    and keep: "\<And>r. cr_id (rw_receipt (f r)) = cr_id (rw_receipt r)
        \<and> cr_project_id (rw_receipt (f r)) = cr_project_id (rw_receipt r)
        \<and> cr_idempotency_key (rw_receipt (f r)) = cr_idempotency_key (rw_receipt r)
        \<and> cr_target (rw_receipt (f r)) = cr_target (rw_receipt r)"
      "\<And>ob. ob_project_id (g ob) = ob_project_id ob \<and> ob_receipt_id (g ob) = ob_receipt_id ob"
    and own: "\<forall>t \<in> set ts. step_of p i t"
    and slot: "slot_ok (f row) (map g (entries L p i)) (hist L p i @ ts)"
    and tables: "ld_receipts L' = update_where (owns p i) f (ld_receipts L)"
      "ld_outbox L' = update_where (entry_of p i) g (ld_outbox L)"
      "ld_transitions L' = ld_transitions L @ ts" "ld_targets L' = ld_targets L"
  shows "ledger_ok L'"
proof -
  have rows: "rows_ok L" using ok by (simp add: ledger_ok_def)
  have row': "row \<in> set (ld_receipts L)" "owns p i row" using row get_row_iff [OF rows] by auto
  have owned: "owns q j (f r) = owns q j r" for q j r using keep(1) [of r] by (simp add: owns_def)
  have mem: "set (ld_receipts L') = (\<lambda>r. if owns p i r then f r else r) ` set (ld_receipts L)"
    by (simp add: tables update_where_def)
  have obmem: "set (ld_outbox L') = (\<lambda>ob. if entry_of p i ob then g ob else ob) ` set (ld_outbox L)"
    by (simp add: tables update_where_def)
  note views = moved_views [of g ts p i L' L, OF keep(2) own tables(2,3)]
  note here = views(1,2) and there = views(3,4)
  have "slot_at L' r'" if in_rows: "r' \<in> set (ld_receipts L')" for r'
  proof -
    obtain r where r: "r \<in> set (ld_receipts L)" "r' = (if owns p i r then f r else r)"
      using in_rows unfolding mem by blast
    show ?thesis
    proof (cases "owns p i r")
      case True
      then have "r = row" using r(1) row' owned_one [OF rows] by blast
      then show ?thesis using True r slot here keep(1) [of row] row'(2)
        by (simp add: slot_at_def owns_def)
    next
      case False
      then have "(cr_project_id (rw_receipt r), cr_id (rw_receipt r)) \<noteq> (p, i)"
        by (simp add: owns_def)
      then show ?thesis using False r ok there by (simp add: slot_at_def ledger_ok_def)
    qed
  qed
  moreover have "rows_ok L'"
  proof -
    have ids: "map (\<lambda>r. cr_id (rw_receipt r)) (ld_receipts L') =
          map (\<lambda>r. cr_id (rw_receipt r)) (ld_receipts L)"
      "map (\<lambda>r. cr_idempotency_key (rw_receipt r)) (ld_receipts L') =
          map (\<lambda>r. cr_idempotency_key (rw_receipt r)) (ld_receipts L)"
      using keep(1) by (auto simp: tables map_update_where)
    have moved: "\<exists>r' \<in> set (ld_receipts L'). owns q j r' \<and> cr_target (rw_receipt r') = cr_target (rw_receipt r)"
      if "r \<in> set (ld_receipts L)" "owns q j r" for q j r
      using that mem owned keep(1) [of r] by (intro bexI [of _ "if owns p i r then f r else r"]) auto
    show ?thesis
      unfolding rows_ok_def ids
    proof (intro conjI ballI)
      fix ob assume "ob \<in> set (ld_outbox L')"
      then obtain o1 where o1: "o1 \<in> set (ld_outbox L)" "ob = (if entry_of p i o1 then g o1 else o1)"
        unfolding obmem by blast
      then have same: "ob_project_id ob = ob_project_id o1" "ob_receipt_id ob = ob_receipt_id o1"
        using keep(2) by simp_all
      obtain r where "r \<in> set (ld_receipts L)" "owns (ob_project_id o1) (ob_receipt_id o1) r"
        using rows_ok_outbox [OF rows o1(1)] by blast
      from moved [OF this]
      show "\<exists>r' \<in> set (ld_receipts L'). owns (ob_project_id ob) (ob_receipt_id ob) r'"
        unfolding same by blast
    next
      fix t assume "t \<in> set (ld_transitions L')"
      then have "t \<in> set (ld_transitions L) \<or> step_of p i t" using own tables(3) by auto
      then obtain r where "r \<in> set (ld_receipts L)" "owns (ct_project_id t) (ct_receipt_id t) r"
        using rows_ok_steps [OF rows] row' unfolding step_of_def by blast
      from moved [OF this]
      show "\<exists>r' \<in> set (ld_receipts L'). owns (ct_project_id t) (ct_receipt_id t) r'" by blast
    next
      fix x assume "x \<in> set (ld_targets L')"
      then obtain q j t where x: "x = (q, j, t)" "(q, j, t) \<in> set (ld_targets L)"
        using tables(4) by (metis prod_cases3)
      from rows_ok_targets [OF rows x(2)] moved
      show "case x of (q, j, t) \<Rightarrow>
          \<exists>r' \<in> set (ld_receipts L'). owns q j r' \<and> cr_target (rw_receipt r') = t"
        unfolding x(1) by fastforce
    qed (rule rows_ok_ids [OF rows], rule rows_ok_keys [OF rows])
  qed
  ultimately show ?thesis by (simp add: ledger_ok_def)
qed

section \<open>The steps of one receipt\<close>

lemma intent_is_first:
  assumes "history_ok r h" "cr_state r = CommandReceiptState.IntentPersisted"
  shows "\<exists>t. h = [t] \<and> ct_state t = CommandReceiptState.IntentPersisted"
proof -
  have h: "h \<noteq> []" "legal_path (map ct_state h)"
    "ct_state (last h) = CommandReceiptState.IntentPersisted"
    using assms by (auto simp: history_ok_def)
  then obtain t rest where t: "h = t # rest" by (cases h) auto
  with h(2) have "CommandReceiptState.IntentPersisted \<notin> set (map ct_state rest)"
    using legal_path_tail [of "ct_state t" "map ct_state rest"] by simp
  then have "rest = []" using h(3) t by (cases rest rule: rev_cases) auto
  with t h(3) show ?thesis by simp
qed

lemma unclaimed:
  assumes "history_ok r h" "cr_state r = CommandReceiptState.IntentPersisted"
  shows "cr_correlation r = None" "cr_attempts r = 0" "length h = 1"
  using intent_is_first [OF assms] assms(1)
  by (auto simp: history_ok_def unat_eq_zero)

lemma unat_saturating_Suc:
  "unat (saturating_add a (1 :: u32)) = min (2 ^ 32 - 1) (Suc (unat a))"
  by (simp add: unat_saturating_add min.commute)

lemma history_advance:
  assumes h: "history_ok r h" "receipt_can_transition_to (cr_state r) next"
    and t: "transition_checks t" "ct_state t = next" "ct_sequence t = of_nat (length h) + 1"
      "ct_correlation t = cr_correlation r"
    and dispatch: "next = CommandReceiptState.DispatchPending \<Longrightarrow> cr_correlation r \<noteq> None"
    and r': "cr_state r' = next" "cr_correlation r' = cr_correlation r"
      "cr_attempts r' = (if next = CommandReceiptState.Dispatched
         then saturating_add (cr_attempts r) 1 else cr_attempts r)"
  shows "history_ok r' (h @ [t])"
proof -
  have "numbered (h @ [t])"
    using h(1) t by (intro numbered_snoc) (auto simp: history_ok_def transition_checks_def)
  moreover have "legal_path (map ct_state (h @ [t]))"
    using h t by (auto simp: history_ok_def legal_path_snoc last_map)
  moreover have "unat (cr_attempts r') =
      min (2 ^ 32 - 1) (count_list (map ct_state (h @ [t])) CommandReceiptState.Dispatched)"
    using h(1) t(2) r'(3) by (auto simp: history_ok_def unat_saturating_Suc)
  ultimately show ?thesis
    using h(1) t r' dispatch by (auto simp: history_ok_def)
qed

lemma slot_ok_cong:
  assumes "rw_mode row' = rw_mode row" "cr_state (rw_receipt row') = cr_state (rw_receipt row)"
    "cr_correlation (rw_receipt row') = cr_correlation (rw_receipt row)"
    "cr_attempts (rw_receipt row') = cr_attempts (rw_receipt row)"
  shows "slot_ok row' obs h = slot_ok row obs h"
  unfolding slot_ok_def history_ok_def entry_ok_def assms ..

definition stamped :: "CommandReceiptState \<Rightarrow> timestamp \<Rightarrow> outbox_row \<Rightarrow> outbox_row" where
  "stamped next at ob =
     (if next = CommandReceiptState.Dispatched then ob\<lparr>ob_dispatched_at := Some at\<rparr> else ob)"

lemma slot_advance:
  assumes slot: "slot_ok row obs h"
    and step: "receipt_can_transition_to (cr_state (rw_receipt row)) next"
    and t: "transition_checks t" "ct_state t = next" "ct_sequence t = of_nat (length h) + 1"
      "ct_correlation t = cr_correlation (rw_receipt row)"
    and dispatch: "next \<in> {CommandReceiptState.DispatchPending, CommandReceiptState.Dispatched} \<Longrightarrow>
        cr_correlation (rw_receipt row) \<noteq> None"
    and row': "rw_mode row' = rw_mode row" "cr_state (rw_receipt row') = next"
      "cr_correlation (rw_receipt row') = cr_correlation (rw_receipt row)"
      "cr_attempts (rw_receipt row') = (if next = CommandReceiptState.Dispatched
         then saturating_add (cr_attempts (rw_receipt row)) 1 else cr_attempts (rw_receipt row))"
  shows "slot_ok row' (map (stamped next at) obs) (h @ [t])"
proof -
  have ok: "history_ok (rw_receipt row) h" "h \<noteq> []"
    using slot by (auto simp: slot_ok_def history_ok_def)
  have "history_ok (rw_receipt row') (h @ [t])"
    using dispatch by (intro history_advance [OF ok(1) step t _ row'(2-4)]) auto
  moreover have "\<not> (length h = 1 \<and> ct_state (hd h) = CommandReceiptState.Confirmed)"
    using ok step by (auto simp: history_ok_def length_Suc_conv)
  ultimately show ?thesis
    using slot ok(2) row' t(2) dispatch
    by (auto simp: slot_ok_def entry_ok_def stamped_def split: list.splits if_splits)
qed

lemma slot_claim:
  assumes slot: "slot_ok row obs h" "cr_state (rw_receipt row) = CommandReceiptState.IntentPersisted"
      "obs \<noteq> []"
    and t: "ct_state t = CommandReceiptState.DispatchPending" "ct_sequence t = 2"
      "ct_correlation t = Some token"
    and row': "rw_mode row' = rw_mode row"
      "cr_state (rw_receipt row') = CommandReceiptState.DispatchPending"
      "cr_correlation (rw_receipt row') = Some token"
      "cr_attempts (rw_receipt row') = cr_attempts (rw_receipt row)"
    and g: "\<And>ob. ob_claim_token (g ob) = Some token \<and> ob_claimed_at (g ob) = Some now
        \<and> ob_dispatched_at (g ob) = ob_dispatched_at ob \<and> ob_attempts (g ob) = ob_attempts ob + 1"
  shows "slot_ok row' (map g obs) (h @ [t])"
proof -
  have ok: "history_ok (rw_receipt row) h" using slot by (auto simp: slot_ok_def)
  obtain t0 where h: "h = [t0]" "ct_state t0 = CommandReceiptState.IntentPersisted"
    using intent_is_first [OF ok slot(2)] by blast
  have none: "cr_correlation (rw_receipt row) = None" "cr_attempts (rw_receipt row) = 0"
    using unclaimed [OF ok slot(2)] by auto
  have "history_ok (rw_receipt row') [t0, t]"
    using ok none t row' unfolding h(1)
    by (auto simp: history_ok_def numbered_def transition_checks_def h(2) upt_rec)
  then show ?thesis
    using slot none t row' g h by (auto simp: slot_ok_def entry_ok_def split: list.splits)
qed

lemma slot_first:
  assumes "transition_checks t" "ct_state t = cr_state (rw_receipt row)" "ct_sequence t = 1"
    "ct_correlation t = None" "cr_correlation (rw_receipt row) = None"
    "cr_attempts (rw_receipt row) = 0"
    "cr_state (rw_receipt row) \<in> {CommandReceiptState.IntentPersisted, CommandReceiptState.Confirmed}"
  shows "history_ok (rw_receipt row) [t]"
  using assms by (auto simp: history_ok_def numbered_def)

section \<open>Atomic changes\<close>

definition written :: "ledger \<Rightarrow> command_row \<Rightarrow> outbox_row list \<Rightarrow> transition_row list \<Rightarrow> ledger \<Rightarrow> bool" where
  "written L new obs ts L' \<longleftrightarrow>
     ld_receipts L' = ld_receipts L @ [new] \<and> ld_outbox L' = ld_outbox L @ obs
     \<and> ld_transitions L' = ld_transitions L @ ts
     \<and> ld_targets L' = ld_targets L @
         [(cr_project_id (rw_receipt new), cr_id (rw_receipt new), cr_target (rw_receipt new))]"

definition moved ::
  "ledger \<Rightarrow> uuid \<Rightarrow> uuid \<Rightarrow> (command_row \<Rightarrow> command_row) \<Rightarrow> (outbox_row \<Rightarrow> outbox_row) \<Rightarrow>
   transition_row list \<Rightarrow> ledger \<Rightarrow> bool" where
  "moved L p i f g ts L' \<longleftrightarrow>
     ld_receipts L' = update_where (owns p i) f (ld_receipts L)
     \<and> ld_outbox L' = update_where (entry_of p i) g (ld_outbox L)
     \<and> ld_transitions L' = ld_transitions L @ ts \<and> ld_targets L' = ld_targets L"

definition advance_row :: "CommandTransition \<Rightarrow> command_row \<Rightarrow> command_row" where
  "advance_row rq row = row\<lparr>rw_receipt := (rw_receipt row)
     \<lparr>cr_state := cx_to rq,
      cr_native_identity := or_else (cx_native_identity rq) (cr_native_identity (rw_receipt row)),
      cr_result_ref := or_else (cx_evidence_ref rq) (cr_result_ref (rw_receipt row)),
      cr_attempts := (if cx_to rq = CommandReceiptState.Dispatched
         then saturating_add (cr_attempts (rw_receipt row)) 1 else cr_attempts (rw_receipt row)),
      cr_updated_at := cx_occurred_at rq\<rparr>\<rparr>"

definition advance_step :: "CommandTransition \<Rightarrow> u32 \<Rightarrow> string option \<Rightarrow> transition_row" where
  "advance_step rq sequence correlation =
     \<lparr>ct_project_id = cx_project_id rq, ct_receipt_id = cx_receipt_id rq, ct_sequence = sequence,
      ct_state = cx_to rq, ct_correlation = correlation,
      ct_native_identity = cx_native_identity rq, ct_evidence_ref = cx_evidence_ref rq,
      ct_recorded_at = cx_occurred_at rq\<rparr>"

definition claim_row :: "string \<Rightarrow> timestamp \<Rightarrow> command_row \<Rightarrow> command_row" where
  "claim_row token now row = row\<lparr>rw_receipt := (rw_receipt row)
     \<lparr>cr_state := CommandReceiptState.DispatchPending, cr_correlation := Some token,
      cr_updated_at := now\<rparr>\<rparr>"

definition claim_outbox :: "string \<Rightarrow> timestamp \<Rightarrow> outbox_row \<Rightarrow> outbox_row" where
  "claim_outbox token now ob = ob\<lparr>ob_claim_token := Some token, ob_claimed_at := Some now,
     ob_attempts := ob_attempts ob + 1\<rparr>"

definition claim_step :: "uuid \<Rightarrow> uuid \<Rightarrow> string \<Rightarrow> timestamp \<Rightarrow> transition_row" where
  "claim_step p i token now =
     \<lparr>ct_project_id = p, ct_receipt_id = i, ct_sequence = 2,
      ct_state = CommandReceiptState.DispatchPending, ct_correlation = Some token,
      ct_native_identity = None, ct_evidence_ref = None, ct_recorded_at = now\<rparr>"

datatype atom =
    Wrote uuid uuid
  | Claimed uuid uuid string
  | Stepped CommandTransition
  | Noted uuid uuid
  | Elsewhere

text \<open>
  What the writers of the command tables do, one receipt at a time: write a receipt whole, claim it,
  move it one step, note the result of a local command, or leave the command tables alone.
\<close>

inductive atomic :: "ledger \<Rightarrow> atom \<Rightarrow> ledger \<Rightarrow> bool" where
  wrote: "atomic L (Wrote p i) L'"
    if "owns p i new" "\<forall>row \<in> set (ld_receipts L). cr_id (rw_receipt row) \<noteq> i
          \<and> cr_idempotency_key (rw_receipt row) \<noteq> cr_idempotency_key (rw_receipt new)"
      "slot_ok new obs [t]" "\<forall>ob \<in> set obs. entry_of p i ob" "step_of p i t"
      "written L new obs [t] L'"
| claimed: "atomic L (Claimed p i token) L'"
    if "get_row L p i = Some row"
      "cr_state (rw_receipt row) = CommandReceiptState.IntentPersisted" "entries L p i \<noteq> []"
      "moved L p i (claim_row token now) (claim_outbox token now) [claim_step p i token now] L'"
| stepped: "atomic L (Stepped rq) L'"
    if "get_row L (cx_project_id rq) (cx_receipt_id rq) = Some row"
      "receipt_can_transition_to (cr_state (rw_receipt row)) (cx_to rq)"
      "cx_to rq \<in> {CommandReceiptState.DispatchPending, CommandReceiptState.Dispatched} \<longrightarrow>
         cr_correlation (rw_receipt row) \<noteq> None"
      "cx_to rq = CommandReceiptState.DispatchPending \<longrightarrow>
         cr_state (rw_receipt row) = CommandReceiptState.ConfirmationUnknown
         \<and> (\<exists>ev. cx_no_effect rq = Some ev
              \<and> cr_correlation (rw_receipt row) = Some (ne_correlation ev))"
      "t = advance_step rq
         (of_nat (length (hist L (cx_project_id rq) (cx_receipt_id rq))) + 1)
         (cr_correlation (rw_receipt row))"
      "transition_checks t"
      "moved L (cx_project_id rq) (cx_receipt_id rq) (advance_row rq)
         (stamped (cx_to rq) (cx_occurred_at rq)) [t] L'"
| noted: "atomic L (Noted p i) L'"
    if "get_row L p i = Some row"
      "cr_state (rw_receipt row) = CommandReceiptState.IntentPersisted"
      "moved L p i (\<lambda>row. row\<lparr>rw_receipt := (rw_receipt row)\<lparr>cr_result_ref := Some ref\<rparr>\<rparr>) id [] L'"
| elsewhere: "atomic L Elsewhere L'"
    if "ld_receipts L' = ld_receipts L" "ld_outbox L' = ld_outbox L"
      "ld_transitions L' = ld_transitions L" "ld_targets L' = ld_targets L"

lemma ledger_ok_tables:
  assumes "ledger_ok L" "ld_receipts L' = ld_receipts L" "ld_outbox L' = ld_outbox L"
    "ld_transitions L' = ld_transitions L" "ld_targets L' = ld_targets L"
  shows "ledger_ok L'"
  using assms(1) unfolding ledger_ok_def rows_ok_def slot_at_def entries_def hist_def assms(2-5) .

lemma claim_step_checks: "transition_checks (claim_step p i token now)"
  by (simp add: claim_step_def transition_checks_def)

lemma atomic_ok:
  assumes "atomic L a L'" "ledger_ok L"
  shows "ledger_ok L'"
  using assms(1)
proof cases
  case (wrote p i new obs t)
  then show ?thesis
    using assms(2) by (intro add_slot [of L i new p obs "[t]" L']) (auto simp: written_def owns_def)
next
  case (claimed p i row token now)
  note slot = slot_of [OF assms(2) claimed(2)]
  have "slot_ok (claim_row token now row) (map (claim_outbox token now) (entries L p i))
      (hist L p i @ [claim_step p i token now])"
    using claimed(3,4)
    by (intro slot_claim [OF slot(1), where token = token and now = now])
      (simp_all add: claim_step_def claim_row_def claim_outbox_def)
  then show ?thesis
    using claimed by (intro move_slot [OF assms(2) claimed(2)])
      (auto simp: moved_def claim_row_def claim_outbox_def claim_step_def step_of_def)
next
  case (stepped rq row t)
  note slot = slot_of [OF assms(2) stepped(2)]
  have "slot_ok (advance_row rq row) (map (stamped (cx_to rq) (cx_occurred_at rq))
      (entries L (cx_project_id rq) (cx_receipt_id rq)))
      (hist L (cx_project_id rq) (cx_receipt_id rq) @ [t])"
    using stepped(3-7) by (intro slot_advance [OF slot(1)]) (auto simp: advance_step_def advance_row_def)
  then show ?thesis
    using stepped by (intro move_slot [OF assms(2) stepped(2)])
      (auto simp: moved_def advance_row_def stamped_def advance_step_def step_of_def)
next
  case (noted p i row ref)
  note slot = slot_of [OF assms(2) noted(2)]
  have "slot_ok (row\<lparr>rw_receipt := (rw_receipt row)\<lparr>cr_result_ref := Some ref\<rparr>\<rparr>)
      (map id (entries L p i)) (hist L p i @ [])"
    using slot(1) slot_ok_cong [of "row\<lparr>rw_receipt := (rw_receipt row)\<lparr>cr_result_ref := Some ref\<rparr>\<rparr>" row]
    by simp
  then show ?thesis
    using noted by (intro move_slot [OF assms(2) noted(2)]) (auto simp: moved_def)
next
  case elsewhere
  then show ?thesis using ledger_ok_tables [OF assms(2)] by simp
qed

inductive atoms :: "ledger \<Rightarrow> atom list \<Rightarrow> ledger \<Rightarrow> bool" where
  none: "atoms L [] L"
| more: "atoms L (a # as) L''" if "atomic L a L'" "atoms L' as L''"

lemma atoms_one: "atomic L a L' \<Longrightarrow> atoms L [a] L'"
  by (blast intro: atoms.intros)

lemma atoms_append: "atoms L as L' \<Longrightarrow> atoms L' bs L'' \<Longrightarrow> atoms L (as @ bs) L''"
  by (induction rule: atoms.induct) (auto intro: atoms.intros)

lemma atoms_ok: "atoms L as L' \<Longrightarrow> ledger_ok L \<Longrightarrow> ledger_ok L'"
  by (induction rule: atoms.induct) (auto dest: atomic_ok)

section \<open>The writers as atomic changes\<close>

lemma insert_receipt_Inr:
  "insert_receipt L r mode = Inr L' \<Longrightarrow>
     (\<forall>row \<in> set (ld_receipts L). cr_id (rw_receipt row) \<noteq> cr_id r
        \<and> cr_idempotency_key (rw_receipt row) \<noteq> cr_idempotency_key r)
     \<and> L' = L\<lparr>ld_receipts := ld_receipts L @ [\<lparr>rw_receipt = r, rw_mode = mode\<rparr>]\<rparr>"
  by (auto simp: insert_receipt_def)

lemma insert_target_Inr:
  "insert_target L p i t = Inr L' \<Longrightarrow> L' = L\<lparr>ld_targets := ld_targets L @ [(p, i, t)]\<rparr>"
  by (auto simp: insert_target_def)

lemma insert_outbox_Inr:
  "insert_outbox L p i payload at = Inr L' \<Longrightarrow>
     L' = L\<lparr>ld_outbox := ld_outbox L @ [\<lparr>ob_receipt_id = i, ob_project_id = p,
       ob_payload = payload, ob_not_before = at, ob_claim_token = None, ob_claimed_at = None,
       ob_dispatched_at = None, ob_attempts = 0\<rparr>]\<rparr>"
  by (auto simp: insert_outbox_def)

lemma append_transition_Inr:
  "append_transition L p i sequence state correlation native evidence at = Inr L' \<Longrightarrow>
     (\<exists>t. t = \<lparr>ct_project_id = p, ct_receipt_id = i, ct_sequence = sequence, ct_state = state,
        ct_correlation = correlation, ct_native_identity = native, ct_evidence_ref = evidence,
        ct_recorded_at = at\<rparr> \<and> transition_checks t
        \<and> L' = L\<lparr>ld_transitions := ld_transitions L @ [t]\<rparr>)"
  by (auto simp: append_transition_def Let_def)

lemma swap_desired_Inr:
  "swap_desired L rule rq = Inr L' \<Longrightarrow>
     ld_receipts L' = ld_receipts L \<and> ld_outbox L' = ld_outbox L
     \<and> ld_transitions L' = ld_transitions L \<and> ld_targets L' = ld_targets L"
  by (auto simp: swap_desired_def Let_def split: RevisionRule.splits option.splits AggregateRef.splits)

lemmas statement_Inr = insert_receipt_Inr insert_target_Inr insert_outbox_Inr append_transition_Inr
  swap_desired_Inr

definition intent_row :: "NewCommandIntent \<Rightarrow> command_row" where
  "intent_row rq = \<lparr>rw_receipt = new_receipt (ni_project_id rq) (ni_receipt_id rq)
     (ni_idempotency_key rq) (ni_kind rq) (ni_target rq) (ni_target_revision rq) (ni_intent rq)
     CommandReceiptState.IntentPersisted (ni_created_at rq), rw_mode = Dispatch\<rparr>"

definition intent_entry :: "NewCommandIntent \<Rightarrow> outbox_row" where
  "intent_entry rq = \<lparr>ob_receipt_id = ni_receipt_id rq, ob_project_id = ni_project_id rq,
     ob_payload = ni_payload rq, ob_not_before = ni_not_before rq, ob_claim_token = None,
     ob_claimed_at = None, ob_dispatched_at = None, ob_attempts = 0\<rparr>"

lemma insert_intent_cases:
  assumes "insert_intent tx L rq = Inr (existing, L')"
  obtains r where "existing = Some r" "L' = L" "get_receipt_by_key L (ni_idempotency_key rq) = Some r"
      "ensure_same_command tx L r rq = Inr ()"
  | "existing = None" "get_receipt_by_key L (ni_idempotency_key rq) = None"
      "atomic L (Wrote (ni_project_id rq) (ni_receipt_id rq)) L'"
      "ld_receipts L' = ld_receipts L @ [intent_row rq]" "ld_outbox L' = ld_outbox L @ [intent_entry rq]"
proof (cases "get_receipt_by_key L (ni_idempotency_key rq)")
  case (Some r)
  with assms have "existing = Some r" "L' = L" "ensure_same_command tx L r rq = Inr ()"
    by (auto simp: insert_intent_def)
  with Some that(1) show thesis by blast
next
  case None
  with assms have e: "existing = None"
    by (auto simp: insert_intent_def)
  let ?new = "intent_row rq" and ?p = "ni_project_id rq" and ?i = "ni_receipt_id rq"
  from assms None obtain rule L1 L2 L3 L4 L5 where ops:
      "insert_receipt L (rw_receipt ?new) Dispatch = Inr L1"
      "insert_target L1 ?p ?i (ni_target rq) = Inr L2"
      "insert_outbox L2 ?p ?i (ni_payload rq) (ni_not_before rq) = Inr L3"
      "append_transition L3 ?p ?i 1 CommandReceiptState.IntentPersisted None None None
         (ni_created_at rq) = Inr L4"
      "swap_desired L4 rule rq = Inr L5"
      "L' = insert_event L5 ?p ?i (ni_intent rq) (ni_created_at rq)"
    by (auto simp: insert_intent_def intent_row_def)
  note inv = statement_Inr(1) [OF ops(1)] statement_Inr(2) [OF ops(2)] statement_Inr(3) [OF ops(3)]
    statement_Inr(4) [OF ops(4)] statement_Inr(5) [OF ops(5)]
  from inv(4) obtain t where t: "transition_checks t" "L4 = L3\<lparr>ld_transitions := ld_transitions L3 @ [t]\<rparr>"
      "ct_state t = CommandReceiptState.IntentPersisted" "ct_sequence t = 1" "ct_correlation t = None"
      "step_of ?p ?i t" by (auto simp: step_of_def)
  have tables: "written L ?new [intent_entry rq] [t] L'"
    using inv(1-3,5) t ops(6)
    by (simp add: written_def intent_row_def new_receipt_def insert_event_def intent_entry_def)
  have "history_ok (rw_receipt ?new) [t]"
    using t by (intro slot_first) (simp_all add: intent_row_def new_receipt_def)
  then have "atomic L (Wrote ?p ?i) L'"
    using inv(1) t tables
    by (intro atomic.wrote [where new = ?new and t = t and obs = "[intent_entry rq]"])
      (simp_all add: owns_def intent_row_def new_receipt_def slot_ok_def entry_ok_def entry_of_def
        intent_entry_def)
  with e None tables that(2) show thesis by (simp add: written_def)
qed

lemma insert_local_cases:
  assumes "insert_local_command L rq = Inr (existing, L')"
  obtains r where "existing = Some r" "L' = L" "get_receipt_by_key L (nl_idempotency_key rq) = Some r"
  | "existing = None" "get_receipt_by_key L (nl_idempotency_key rq) = None"
      "atomic L (Wrote (nl_project_id rq) (nl_receipt_id rq)) L'"
proof (cases "row_by_key L (nl_idempotency_key rq)")
  case (Some row)
  with assms that(1) show thesis by (auto simp: insert_local_command_def get_receipt_by_key_def)
next
  case None
  with assms have e: "existing = None"
    by (auto simp: insert_local_command_def)
  define new where "new = \<lparr>rw_receipt = new_receipt (nl_project_id rq) (nl_receipt_id rq)
    (nl_idempotency_key rq) (nl_kind rq) (nl_target rq) (nl_target_revision rq) (nl_intent rq)
    CommandReceiptState.IntentPersisted (nl_created_at rq), rw_mode = Local\<rparr>"
  from assms None obtain L1 L2 L3 where ops:
      "insert_receipt L (rw_receipt new) Local = Inr L1"
      "insert_target L1 (nl_project_id rq) (nl_receipt_id rq) (nl_target rq) = Inr L2"
      "append_transition L2 (nl_project_id rq) (nl_receipt_id rq) 1
         CommandReceiptState.IntentPersisted None None None (nl_created_at rq) = Inr L3"
      "L' = insert_event L3 (nl_project_id rq) (nl_receipt_id rq) (nl_intent rq) (nl_created_at rq)"
    by (auto simp: insert_local_command_def new_def)
  note inv = statement_Inr(1) [OF ops(1)] statement_Inr(2) [OF ops(2)]
  from statement_Inr(4) [OF ops(3)] obtain t where t: "transition_checks t"
      "L3 = L2\<lparr>ld_transitions := ld_transitions L2 @ [t]\<rparr>"
      "ct_state t = CommandReceiptState.IntentPersisted" "ct_sequence t = 1" "ct_correlation t = None"
      "step_of (nl_project_id rq) (nl_receipt_id rq) t" by (auto simp: step_of_def)
  have "history_ok (rw_receipt new) [t]"
    using t by (intro slot_first) (simp_all add: new_def new_receipt_def)
  then have "atomic L (Wrote (nl_project_id rq) (nl_receipt_id rq)) L'"
    using inv t ops(4)
    by (intro atomic.wrote [where new = new and t = t and obs = "[]"])
      (simp_all add: owns_def new_def new_receipt_def slot_ok_def written_def insert_event_def)
  with e None that(2) show thesis by (simp add: get_receipt_by_key_def)
qed

lemma insert_closure_atomic:
  assumes "insert_closure_receipt L rq = Inr L'"
  shows "atomic L (Wrote (na_project_id rq) (na_receipt_id rq)) L'"
proof -
  define new where "new = \<lparr>rw_receipt = new_receipt (na_project_id rq) (na_receipt_id rq)
    (na_idempotency_key rq) CommandKind.AbandonRun (na_target rq) (na_target_revision rq)
    (na_intent rq) CommandReceiptState.Confirmed (na_recorded_at rq), rw_mode = Dispatch\<rparr>"
  from assms obtain L1 L2 evidence where ops:
      "insert_receipt L (rw_receipt new) Dispatch = Inr L1"
      "insert_target L1 (na_project_id rq) (na_receipt_id rq) (na_target rq) = Inr L2"
      "append_transition L2 (na_project_id rq) (na_receipt_id rq) 1
         CommandReceiptState.Confirmed None None (Some evidence) (na_recorded_at rq) = Inr L'"
    by (auto simp: insert_closure_receipt_def new_def)
  note inv = statement_Inr(1) [OF ops(1)] statement_Inr(2) [OF ops(2)]
  from statement_Inr(4) [OF ops(3)] obtain t where t: "transition_checks t"
      "L' = L2\<lparr>ld_transitions := ld_transitions L2 @ [t]\<rparr>"
      "ct_state t = CommandReceiptState.Confirmed" "ct_sequence t = 1" "ct_correlation t = None"
      "step_of (na_project_id rq) (na_receipt_id rq) t" by (auto simp: step_of_def)
  have "history_ok (rw_receipt new) [t]"
    using t by (intro slot_first) (simp_all add: new_def new_receipt_def)
  then show ?thesis
    using inv t
    by (intro atomic.wrote [where new = new and t = t and obs = "[]"])
      (simp_all add: owns_def new_def new_receipt_def slot_ok_def written_def)
qed

section \<open>Steps and claims as atomic changes\<close>

lemma claim_token_row:
  assumes "ledger_ok L" "get_row L p i = Some row"
  shows "claim_token L p i = cr_correlation (rw_receipt row)"
  using slot_of(1) [OF assms]
  by (auto simp: claim_token_def outbox_entry_entries slot_ok_def entry_ok_def split: list.splits)

lemma effective_correlation_own:
  assumes "ledger_ok L" "get_row L (cx_project_id rq) (cx_receipt_id rq) = Some row"
  shows "effective_correlation L rq (rw_receipt row) = Inr c \<longleftrightarrow>
     c = cr_correlation (rw_receipt row) \<and> cx_correlation rq \<in> {None, cr_correlation (rw_receipt row)}"
  using claim_token_row [OF assms]
  by (cases "cx_correlation rq"; cases "cr_correlation (rw_receipt row)")
    (auto simp: effective_correlation_def or_else_def)

lemma next_state_Inr:
  "next_state rq r = Inr s \<longleftrightarrow>
     s = cx_to rq \<and> receipt_can_transition_to (cr_state r) (cx_to rq)
     \<and> (cr_state r = CommandReceiptState.ConfirmationUnknown
        \<and> cx_to rq = CommandReceiptState.DispatchPending \<longrightarrow>
          (\<exists>ev. cx_no_effect rq = Some ev \<and> cr_correlation r = Some (ne_correlation ev)))"
  by (auto simp: next_state_def authorize_retry_Inr receipt_transition_Inr)

lemma write_projection_Inr:
  assumes "rows_ok L" "get_row L p i = Some row"
  shows "write_projection L (rw_receipt row) next c n ref a at = Inr L' \<longleftrightarrow>
     \<not> CommandReceiptState_is_terminal (cr_state (rw_receipt row))
     \<and> L' = L\<lparr>ld_receipts := update_where (owns p i)
         (\<lambda>row. row\<lparr>rw_receipt := (rw_receipt row)\<lparr>cr_state := next, cr_correlation := c,
            cr_native_identity := n, cr_result_ref := ref, cr_attempts := a,
            cr_updated_at := at\<rparr>\<rparr>) (ld_receipts L)\<rparr>"
proof -
  have row: "row \<in> set (ld_receipts L)" "owns p i row" using assms get_row_iff by auto
  then have pi: "cr_project_id (rw_receipt row) = p" "cr_id (rw_receipt row) = i"
    by (auto simp: owns_def)
  note u = update_where_owned [OF assms(1) row, of "\<lambda>r. cr_state (rw_receipt r) = cr_state (rw_receipt row)"]
  have "(\<forall>r \<in> set (ld_receipts L). owns p i r \<and> cr_state (rw_receipt r) = cr_state (rw_receipt row) \<longrightarrow>
        \<not> CommandReceiptState_is_terminal (cr_state (rw_receipt r)))
      \<longleftrightarrow> \<not> CommandReceiptState_is_terminal (cr_state (rw_receipt row))"
    using row owned_one [OF assms(1) row] by metis
  then show ?thesis unfolding write_projection_def pi Let_def by (auto simp: u)
qed

lemma update_row:
  assumes "rows_ok L" "get_row L p i = Some row" "f row = g row"
  shows "update_where (owns p i) f (ld_receipts L) = update_where (owns p i) g (ld_receipts L)"
proof -
  have row: "row \<in> set (ld_receipts L)" "owns p i row" using assms(1,2) get_row_iff by auto
  show ?thesis
    unfolding update_where_def using owned_one [OF assms(1) row] assms(3)
    by (intro map_cong refl if_cong) auto
qed

lemma update_where_same: "update_where P (\<lambda>x. x) xs = xs"
  by (simp add: update_where_def)

lemma stamped_simps:
  "stamped CommandReceiptState.Dispatched at = (\<lambda>ob. ob\<lparr>ob_dispatched_at := Some at\<rparr>)"
  "next \<noteq> CommandReceiptState.Dispatched \<Longrightarrow> stamped next at = (\<lambda>ob. ob)"
  by (simp_all add: stamped_def fun_eq_iff)

lemma get_row_moved:
  assumes "rows_ok L" "get_row L p i = Some row" "\<And>r. owns p i r \<Longrightarrow> owns p i (f r)"
    "ld_receipts L' = update_where (owns p i) f (ld_receipts L)"
  shows "get_row L' p i = Some (f row)"
proof -
  have "row \<in> set (ld_receipts L)" "owns p i row" using assms(1,2) get_row_iff by auto
  then have "filter (owns p i) (ld_receipts L') = [f row]"
    using assms owned_alone by (simp add: filter_update_same)
  then show ?thesis by (simp add: get_row_def find_filter)
qed

lemma apply_statements:
  assumes ok: "ledger_ok L" and row: "get_row L (cx_project_id rq) (cx_receipt_id rq) = Some row"
    and run: "apply_command_transition L rq = Inr (rec, L')" "cx_to rq \<noteq> cr_state (rw_receipt row)"
  shows "\<exists>n L1 L2. next_state rq (rw_receipt row) = Inr n
     \<and> \<not> (n \<in> {CommandReceiptState.DispatchPending, CommandReceiptState.Dispatched}
          \<and> cr_correlation (rw_receipt row) = None)
     \<and> write_projection L (rw_receipt row) n (cr_correlation (rw_receipt row))
         (or_else (cx_native_identity rq) (cr_native_identity (rw_receipt row)))
         (or_else (cx_evidence_ref rq) (cr_result_ref (rw_receipt row)))
         (if n = CommandReceiptState.Dispatched then saturating_add (cr_attempts (rw_receipt row)) 1
          else cr_attempts (rw_receipt row)) (cx_occurred_at rq) = Inr L1
     \<and> append_transition L1 (cx_project_id rq) (cx_receipt_id rq)
         (of_nat (length (hist L (cx_project_id rq) (cx_receipt_id rq))) + 1) n
         (cr_correlation (rw_receipt row)) (cx_native_identity rq) (cx_evidence_ref rq)
         (cx_occurred_at rq) = Inr L2
     \<and> L' = (if n = CommandReceiptState.Dispatched
         then stamp_dispatched L2 (cx_project_id rq) (cx_receipt_id rq) (cx_occurred_at rq) else L2)
     \<and> (\<exists>r. get_receipt L' (cx_project_id rq) (cx_receipt_id rq) = Some r \<and> rec = \<lparr>rt_receipt = r,
         rt_sequence = of_nat (length (hist L (cx_project_id rq) (cx_receipt_id rq))) + 1,
         rt_appended = True\<rparr>)"
  using run row transitions_of_hist(2) [OF slot_of(1) [OF ok row]]
  unfolding apply_command_transition_def Let_def get_receipt_def
  by (clarsimp simp: effective_correlation_own [OF ok row] simp del: insert_iff split del: if_split)

lemma apply_cases:
  assumes ok: "ledger_ok L" and run: "apply_command_transition L rq = Inr (rec, L')"
  obtains row where "get_row L (cx_project_id rq) (cx_receipt_id rq) = Some row"
      "cx_to rq = cr_state (rw_receipt row)" "L' = L" "rec = \<lparr>rt_receipt = rw_receipt row,
        rt_sequence = of_nat (length (hist L (cx_project_id rq) (cx_receipt_id rq))),
        rt_appended = False\<rparr>"
  | row where "get_row L (cx_project_id rq) (cx_receipt_id rq) = Some row"
      "atomic L (Stepped rq) L'"
      "get_row L' (cx_project_id rq) (cx_receipt_id rq) = Some (advance_row rq row)"
      "rec = \<lparr>rt_receipt = rw_receipt (advance_row rq row),
        rt_sequence = of_nat (length (hist L (cx_project_id rq) (cx_receipt_id rq))) + 1,
        rt_appended = True\<rparr>"
proof -
  let ?p = "cx_project_id rq" and ?i = "cx_receipt_id rq"
  have rows: "rows_ok L" using ok by (simp add: ledger_ok_def)
  from run obtain row where row: "get_row L ?p ?i = Some row"
    by (auto simp: apply_command_transition_def Let_def get_receipt_def)
  note slot = slot_of [OF ok row] note hist = transitions_of_hist(2) [OF slot(1)]
  show thesis
  proof (cases "cx_to rq = cr_state (rw_receipt row)")
    case True
    with run row hist have "L' = L" "rec = \<lparr>rt_receipt = rw_receipt row,
        rt_sequence = of_nat (length (hist L ?p ?i)), rt_appended = False\<rparr>"
      by (auto simp: apply_command_transition_def Let_def get_receipt_def)
    with row True show thesis by (rule that(1))
  next
    case False
    let ?c = "cr_correlation (rw_receipt row)"
    from apply_statements [OF ok row run False] obtain n L1 L2 where
        nx: "next_state rq (rw_receipt row) = Inr n"
      and ops: "\<not> (n \<in> {CommandReceiptState.DispatchPending, CommandReceiptState.Dispatched} \<and> ?c = None)"
        "write_projection L (rw_receipt row) n ?c
           (or_else (cx_native_identity rq) (cr_native_identity (rw_receipt row)))
           (or_else (cx_evidence_ref rq) (cr_result_ref (rw_receipt row)))
           (if n = CommandReceiptState.Dispatched then saturating_add (cr_attempts (rw_receipt row)) 1
            else cr_attempts (rw_receipt row)) (cx_occurred_at rq) = Inr L1"
        "append_transition L1 ?p ?i (of_nat (length (hist L ?p ?i)) + 1) n ?c
           (cx_native_identity rq) (cx_evidence_ref rq) (cx_occurred_at rq) = Inr L2"
        "L' = (if n = CommandReceiptState.Dispatched
           then stamp_dispatched L2 ?p ?i (cx_occurred_at rq) else L2)"
        "\<exists>r. get_receipt L' ?p ?i = Some r \<and> rec = \<lparr>rt_receipt = r,
           rt_sequence = of_nat (length (hist L ?p ?i)) + 1, rt_appended = True\<rparr>"
      by blast
    note legal = nx [unfolded next_state_Inr]
    then have n: "n = cx_to rq" by simp
    note ops = ops [unfolded n]
    have L1: "ld_receipts L1 = update_where (owns ?p ?i) (advance_row rq) (ld_receipts L)"
      "ld_outbox L1 = ld_outbox L" "ld_transitions L1 = ld_transitions L" "ld_targets L1 = ld_targets L"
      using ops(2) [unfolded write_projection_Inr [OF rows row]]
      by (auto simp: advance_row_def intro: update_row [OF rows row])
    from append_transition_Inr [OF ops(3)] obtain t where t:
      "t = advance_step rq (of_nat (length (hist L ?p ?i)) + 1) ?c" "transition_checks t"
      "L2 = L1\<lparr>ld_transitions := ld_transitions L1 @ [t]\<rparr>" by (auto simp: advance_step_def)
    have out: "ld_outbox L' = update_where (entry_of ?p ?i)
        (stamped (cx_to rq) (cx_occurred_at rq)) (ld_outbox L)"
      using ops(4) t(3) L1(2)
      by (cases "cx_to rq = CommandReceiptState.Dispatched")
        (simp_all add: stamp_dispatched_def stamped_simps update_where_same)
    have moved: "moved L ?p ?i (advance_row rq) (stamped (cx_to rq) (cx_occurred_at rq)) [t] L'"
      using ops(4) t(3) L1 out by (auto simp: moved_def stamp_dispatched_def)
    have "cr_state (rw_receipt row) \<noteq> CommandReceiptState.IntentPersisted"
      if "cx_to rq = CommandReceiptState.DispatchPending"
      using that ops(1) unclaimed(1) slot(1) by (auto simp: slot_ok_def)
    then have unknown: "cr_state (rw_receipt row) = CommandReceiptState.ConfirmationUnknown"
      if "cx_to rq = CommandReceiptState.DispatchPending"
      using that legal by (cases "cr_state (rw_receipt row)") auto
    have step: "atomic L (Stepped rq) L'"
      using legal ops(1) unknown by (intro atomic.stepped [OF row _ _ _ t(1,2) moved]) auto
    have "get_row L' ?p ?i = Some (advance_row rq row)"
      using moved by (intro get_row_moved [OF rows row, of "advance_row rq"])
        (simp_all add: moved_def owns_def advance_row_def)
    with row step ops(5) show thesis by (intro that(2)) (auto simp: get_receipt_def)
  qed
qed

end
