(* ===== verification/Command_Run.thy ===== *)
theory Command_Run
  imports Command_Protocol
begin

text \<open>
  Executions of the command ledger: every operation of \<^verbatim>\<open>Command_Store\<close> that writes is a sequence of
  atomic changes of \<^verbatim>\<open>Command_Protocol\<close>, and an execution is a sequence of operations, each on
  the ledger the last one left.  The properties of the protocol are stated here over executions: the
  invariant, the authority to launch after a restart, the evidence a retry needs, exclusive claims,
  the finality of settled receipts, and what startup settles and counts.
\<close>

section \<open>Claims\<close>

lemma filter_one:
  assumes "length (filter P xs) = 1"
  obtains x where "x \<in> set xs" "P x" "filter P xs = [x]"
proof -
  obtain x where "filter P xs = [x]" using assms by (auto simp: length_Suc_conv)
  moreover from this have "x \<in> set (filter P xs)" by (metis list.set_intros(1))
  ultimately show thesis using that by (metis (no_types, lifting) filter_set mem_Collect_eq set_filter)
qed

lemma claim_atomic:
  assumes ok: "ledger_ok L"
    and entry: "claim_entry L p i token now m1 = Inr L1"
    and receipt: "claim_receipt admitted L1 p i token now m2 = Inr L2"
    and step: "append_transition L2 p i 2 CommandReceiptState.DispatchPending (Some token) None None now
      = Inr L'"
  shows "atomic L (Claimed p i token) L'"
proof -
  have rows: "rows_ok L" using ok by (simp add: ledger_ok_def)
  have L1: "L1 = L\<lparr>ld_outbox := update_where
      (\<lambda>ob. entry_of p i ob \<and> ob_claim_token ob = None \<and> ob_dispatched_at ob = None)
      (claim_outbox token now) (ld_outbox L)\<rparr>"
    and some: "filter (\<lambda>ob. entry_of p i ob \<and> ob_claim_token ob = None \<and> ob_dispatched_at ob = None)
      (ld_outbox L) \<noteq> []"
    using entry by (auto simp: claim_entry_def Let_def claim_outbox_def [abs_def])
  have L2: "L2 = L1\<lparr>ld_receipts := update_where (\<lambda>row. owns p i row \<and> (admitted row
      \<and> cr_state (rw_receipt row) = CommandReceiptState.IntentPersisted))
      (claim_row token now) (ld_receipts L)\<rparr>"
    and one: "length (filter (\<lambda>row. owns p i row \<and> (admitted row
      \<and> cr_state (rw_receipt row) = CommandReceiptState.IntentPersisted)) (ld_receipts L)) = 1"
    using receipt L1 by (auto simp: claim_receipt_def Let_def claim_row_def [abs_def])
  from one obtain row where row: "row \<in> set (ld_receipts L)" "owns p i row" "admitted row"
      "cr_state (rw_receipt row) = CommandReceiptState.IntentPersisted"
    by (rule filter_one) auto
  then have get: "get_row L p i = Some row" using get_row_iff [OF rows] by blast
  note slot = slot_of(1) [OF ok get]
  have free: "ob_claim_token ob = None \<and> ob_dispatched_at ob = None"
    if "ob \<in> set (ld_outbox L)" "entry_of p i ob" for ob
  proof -
    have "ob \<in> set (entries L p i)" using that by (simp add: entries_def)
    moreover have h: "history_ok (rw_receipt row) (hist L p i)" using slot by (simp add: slot_ok_def)
    ultimately show ?thesis
      using slot unclaimed(1) [OF h row(4)] intent_is_first [OF h row(4)]
      by (auto simp: slot_ok_def entry_ok_def split: list.splits)
  qed
  have outbox: "ld_outbox L1 = update_where (entry_of p i) (claim_outbox token now) (ld_outbox L)"
    unfolding L1 update_where_def using free by auto
  have receipts: "ld_receipts L2 = update_where (owns p i) (claim_row token now) (ld_receipts L)"
    unfolding L2 using update_where_owned(1) [OF rows row(1,2)] row(3,4) by simp
  have "moved L p i (claim_row token now) (claim_outbox token now) [claim_step p i token now] L'"
    using append_transition_Inr [OF step] outbox receipts L1 L2
    by (auto simp: moved_def claim_step_def)
  moreover have "entries L p i \<noteq> []"
    using some by (auto simp: entries_def filter_empty_conv)
  ultimately show ?thesis using get row(4) by (intro atomic.claimed)
qed

lemma claim_receipt_for_dispatch_atomic:
  assumes "ledger_ok L" "claim_receipt_for_dispatch tx L p i token now = Inr (c, L')"
  shows "atomic L (Claimed p i token) L'" "dl_receipt_id c = i" "dl_correlation c = token"
proof -
  from assms(2) obtain L1 L2 m1 m2 where
      claim: "claim_entry L p i token now m1 = Inr L1"
        "claim_receipt (\<lambda>row. rw_mode row = Dispatch) L1 p i token now m2 = Inr L2"
        "append_transition L2 p i 2 CommandReceiptState.DispatchPending (Some token) None None now
           = Inr L'"
      and c: "dl_receipt_id c = i" "dl_correlation c = token"
    by (auto simp: claim_receipt_for_dispatch_def)
  from claim_atomic [OF assms(1) claim] show "atomic L (Claimed p i token) L'" .
  show "dl_receipt_id c = i" "dl_correlation c = token" by (fact c)+
qed

lemma claim_tables:
  assumes "claim_entry L p i token now m1 = Inr L1" "claim_receipt admitted L1 p i token now m2 = Inr L2"
  shows "ld_transitions L2 = ld_transitions L"
    "\<exists>row \<in> set (ld_receipts L). owns p i row
       \<and> cr_state (rw_receipt row) = CommandReceiptState.IntentPersisted"
proof -
  have L1: "ld_transitions L1 = ld_transitions L" "ld_receipts L1 = ld_receipts L"
    using assms(1) by (auto simp: claim_entry_def Let_def)
  have L2: "ld_transitions L2 = ld_transitions L1"
    and one: "length (filter (\<lambda>row. owns p i row \<and> admitted row
      \<and> cr_state (rw_receipt row) = CommandReceiptState.IntentPersisted) (ld_receipts L1)) = 1"
    using assms(2) by (auto simp: claim_receipt_def Let_def)
  show "ld_transitions L2 = ld_transitions L" using L1 L2 by simp
  from one obtain row where "row \<in> set (ld_receipts L1)" "owns p i row"
      "cr_state (rw_receipt row) = CommandReceiptState.IntentPersisted" by (rule filter_one) auto
  then show "\<exists>row \<in> set (ld_receipts L). owns p i row
       \<and> cr_state (rw_receipt row) = CommandReceiptState.IntentPersisted"
    using L1(2) by auto
qed

lemma claim_one_atomic:
  assumes ok: "ledger_ok L" and run: "claim_one minted L p now entry = Inr (c, L')"
  shows "atomic L (Claimed p (dl_receipt_id c) (dl_correlation c)) L'" "dl_receipt_id c = ob_receipt_id entry"
proof -
  let ?i = "ob_receipt_id entry"
  from run obtain token L1 L2 m1 m2 where
      claim: "claim_entry L p ?i token now m1 = Inr L1"
        "claim_receipt (\<lambda>_. True) L1 p ?i token now m2 = Inr L2"
      and step: "append_transition L2 p ?i
        (case last_transition L2 p ?i of None \<Rightarrow> 1 | Some (s, _) \<Rightarrow> s + 1)
        CommandReceiptState.DispatchPending (Some token) None None now = Inr L'"
      and c: "dl_receipt_id c = ?i" "dl_correlation c = token"
    by (auto simp: claim_one_def Let_def)
  from claim_tables(2) [OF claim] obtain row where
      row: "row \<in> set (ld_receipts L)" "owns p ?i row"
        "cr_state (rw_receipt row) = CommandReceiptState.IntentPersisted" by blast
  then have get: "get_row L p ?i = Some row"
    using ok get_row_iff [of L] by (simp add: ledger_ok_def)
  note slot = slot_of(1) [OF ok get]
  have "last_transition L2 p ?i = last_transition L p ?i"
    using claim_tables(1) [OF claim] by (simp add: last_transition_def transitions_of_def)
  also have "\<dots> = Some (1, CommandReceiptState.IntentPersisted)"
    using transitions_of_hist(2) [OF slot] row(3) unclaimed(3) slot by (auto simp: slot_ok_def)
  finally have "append_transition L2 p ?i 2 CommandReceiptState.DispatchPending (Some token) None None now
      = Inr L'" using step by simp
  from claim_atomic [OF ok claim this] c
  show "atomic L (Claimed p (dl_receipt_id c) (dl_correlation c)) L'" "dl_receipt_id c = ?i"
    by simp_all
qed

lemma claim_each_atoms:
  assumes "ledger_ok L" "claim_each mint n L p now obs = Inr (cs, L')"
  shows "atoms L (map (\<lambda>c. Claimed p (dl_receipt_id c) (dl_correlation c)) cs) L'"
  using assms
proof (induction mint n L p now obs arbitrary: cs rule: claim_each.induct)
  case (1 mint n L p now)
  then show ?case by (auto intro: atoms.intros)
next
  case (2 mint n L p now entry rest)
  from "2.prems"(2) obtain c L1 cs' where
      one: "claim_one (mint n) L p now entry = Inr (c, L1)"
      and rest: "claim_each mint (Suc n) L1 p now rest = Inr (cs', L')" and cs: "cs = c # cs'"
    by (auto simp: split_beta)
  note first = claim_one_atomic(1) [OF "2.prems"(1) one]
  from "2.IH" [OF one refl atomic_ok [OF first "2.prems"(1)] rest] first
  show ?case by (simp add: cs atoms.more)
qed

section \<open>Steps, local commands and startup\<close>

lemma apply_atoms:
  assumes "ledger_ok L" "apply_command_transition L rq = Inr (rec, L')"
  shows "\<exists>as. atoms L as L' \<and> set as \<subseteq> {Stepped rq}"
proof (rule apply_cases [OF assms])
  assume "L' = L"
  then show ?thesis by (intro exI [of _ "[]"]) (simp add: atoms.none)
next
  assume "atomic L (Stepped rq) L'"
  then show ?thesis by (intro exI [of _ "[Stepped rq]"]) (simp add: atoms_one)
qed

lemma noted_atomic:
  assumes ok: "ledger_ok L"
    and row: "row \<in> set (ld_receipts L)" "owns p i row"
      "cr_state (rw_receipt row) = CommandReceiptState.IntentPersisted"
    and L': "ld_receipts L' = update_where (\<lambda>row. owns p i row
          \<and> cr_state (rw_receipt row) = CommandReceiptState.IntentPersisted)
        (\<lambda>row. row\<lparr>rw_receipt := (rw_receipt row)\<lparr>cr_result_ref := Some ref\<rparr>\<rparr>) (ld_receipts L)"
      "ld_outbox L' = ld_outbox L" "ld_transitions L' = ld_transitions L" "ld_targets L' = ld_targets L"
  shows "atomic L (Noted p i) L'"
proof -
  have rows: "rows_ok L" using ok by (simp add: ledger_ok_def)
  have "get_row L p i = Some row" using row get_row_iff [OF rows] by blast
  moreover have "moved L p i
      (\<lambda>row. row\<lparr>rw_receipt := (rw_receipt row)\<lparr>cr_result_ref := Some ref\<rparr>\<rparr>) id [] L'"
    using L' update_where_owned(1) [OF rows row(1,2), of "\<lambda>row. cr_state (rw_receipt row) =
        CommandReceiptState.IntentPersisted"] row(3)
    by (simp add: moved_def id_def update_where_same)
  ultimately show ?thesis using row(3) by (intro atomic.noted)
qed

lemma pending_result_atoms:
  assumes "ledger_ok L" "record_pending_local_result ex L rq payload = Inr L'"
  shows "atoms L [Wrote (nl_project_id rq) (nl_receipt_id rq),
      Noted (nl_project_id rq) (nl_receipt_id rq)] L'"
proof -
  let ?p = "nl_project_id rq" and ?i = "nl_receipt_id rq"
  from assms(2) obtain L1 row where ins: "insert_local_command L rq = Inr (None, L1)"
      and row: "row \<in> set (ld_receipts L1)" "owns ?p ?i row"
        "cr_state (rw_receipt row) = CommandReceiptState.IntentPersisted"
      and L': "ld_receipts L' = update_where (\<lambda>row. owns ?p ?i row
          \<and> cr_state (rw_receipt row) = CommandReceiptState.IntentPersisted)
        (\<lambda>row. row\<lparr>rw_receipt := (rw_receipt row)\<lparr>cr_result_ref := Some (cd_hash payload)\<rparr>\<rparr>)
        (ld_receipts L1)" "ld_outbox L' = ld_outbox L1" "ld_transitions L' = ld_transitions L1"
        "ld_targets L' = ld_targets L1"
    by (auto simp: record_pending_local_result_def Let_def)
  from ins have w: "atomic L (Wrote ?p ?i) L1" by (rule insert_local_cases) auto
  have "atomic L1 (Noted ?p ?i) L'"
    by (rule noted_atomic [OF atomic_ok [OF w assms(1)] row L'])
  with w show ?thesis by (blast intro: atoms.intros)
qed

lemma local_confirm_atomic:
  assumes ok: "ledger_ok L"
    and row: "get_row L p i = Some row" "rw_mode row = Local"
      "cr_state (rw_receipt row) = CommandReceiptState.IntentPersisted"
    and step: "append_transition L p i 2 CommandReceiptState.Confirmed None None (Some ev) at = Inr L1"
    and L': "L' = L1\<lparr>ld_receipts := update_where (\<lambda>row. owns p i row \<and> rw_mode row = Local
          \<and> cr_state (rw_receipt row) = CommandReceiptState.IntentPersisted)
        (\<lambda>row. row\<lparr>rw_receipt := (rw_receipt row)\<lparr>cr_state := CommandReceiptState.Confirmed,
           cr_result_ref := Some ev, cr_updated_at := at\<rparr>\<rparr>) (ld_receipts L1)\<rparr>"
  shows "\<exists>rq. cx_to rq = CommandReceiptState.Confirmed \<and> atomic L (Stepped rq) L'"
proof -
  define rq where "rq = \<lparr>cx_project_id = p, cx_receipt_id = i, cx_to = CommandReceiptState.Confirmed,
    cx_correlation = None, cx_native_identity = None, cx_evidence_ref = Some ev, cx_no_effect = None,
    cx_occurred_at = at\<rparr>"
  have rows: "rows_ok L" using ok by (simp add: ledger_ok_def)
  have in_rows: "row \<in> set (ld_receipts L)" "owns p i row" using row(1) get_row_iff [OF rows] by auto
  have h: "history_ok (rw_receipt row) (hist L p i)"
    using slot_of(1) [OF ok row(1)] by (simp add: slot_ok_def)
  note un = unclaimed [OF h row(3)]
  from append_transition_Inr [OF step] obtain t where
    t: "t = advance_step rq (of_nat (length (hist L p i)) + 1) (cr_correlation (rw_receipt row))"
      "transition_checks t" "L1 = L\<lparr>ld_transitions := ld_transitions L @ [t]\<rparr>"
    using un by (auto simp: advance_step_def rq_def)
  have "moved L p i (advance_row rq) (stamped (cx_to rq) (cx_occurred_at rq)) [t] L'"
    using L' t(3) update_where_owned(1) [OF rows in_rows, of "\<lambda>row. rw_mode row = Local
        \<and> cr_state (rw_receipt row) = CommandReceiptState.IntentPersisted"] row(2,3)
    by (simp add: moved_def stamped_simps update_where_same advance_row_def [abs_def] rq_def or_else_def)
  then have "atomic L (Stepped rq) L'"
    using row t by (intro atomic.stepped [of L rq row t]) (simp_all add: rq_def)
  then show ?thesis by (intro exI [of _ rq]) (simp add: rq_def)
qed

lemma atomic_result_atoms:
  assumes "ledger_ok L" "record_atomic_local_result ex L rq payload = Inr (r, L')"
  shows "\<exists>as. atoms L as L' \<and> (\<forall>a \<in> set as.
     a = Wrote (nl_project_id rq) (nl_receipt_id rq) \<or> a = Noted (nl_project_id rq) (nl_receipt_id rq)
     \<or> (\<exists>t. a = Stepped t \<and> cx_to t = CommandReceiptState.Confirmed))"
proof -
  let ?p = "nl_project_id rq" and ?i = "nl_receipt_id rq"
  from assms(2) obtain L1 L2 ev where
      pend: "record_pending_local_result ex L rq payload = Inr L1"
      and step: "append_transition L1 ?p ?i 2 CommandReceiptState.Confirmed None None (Some ev)
        (nl_created_at rq) = Inr L2"
      and L': "L' = L2\<lparr>ld_receipts := update_where (\<lambda>row. owns ?p ?i row \<and> rw_mode row = Local
          \<and> cr_state (rw_receipt row) = CommandReceiptState.IntentPersisted)
        (\<lambda>row. row\<lparr>rw_receipt := (rw_receipt row)\<lparr>cr_state := CommandReceiptState.Confirmed,
           cr_result_ref := Some ev, cr_updated_at := nl_created_at rq\<rparr>\<rparr>) (ld_receipts L2)\<rparr>"
    by (auto simp: record_atomic_local_result_def Let_def)
  note before = pending_result_atoms [OF assms(1) pend]
  note ok = atoms_ok [OF before assms(1)]
  from pend obtain L0 row where "insert_local_command L rq = Inr (None, L0)"
      and row: "row \<in> set (ld_receipts L0)" "owns ?p ?i row" "rw_mode row = Local"
        "cr_state (rw_receipt row) = CommandReceiptState.IntentPersisted"
      and L1: "ld_receipts L1 = update_where (\<lambda>row. owns ?p ?i row
          \<and> cr_state (rw_receipt row) = CommandReceiptState.IntentPersisted)
        (\<lambda>row. row\<lparr>rw_receipt := (rw_receipt row)\<lparr>cr_result_ref := Some (cd_hash payload)\<rparr>\<rparr>)
        (ld_receipts L0)"
    by (auto simp: record_pending_local_result_def Let_def)
  let ?row = "row\<lparr>rw_receipt := (rw_receipt row)\<lparr>cr_result_ref := Some (cd_hash payload)\<rparr>\<rparr>"
  have "?row \<in> set (ld_receipts L1)"
    unfolding L1 update_where_def set_map using row by (intro image_eqI [of _ _ row]) simp_all
  then have "get_row L1 ?p ?i = Some ?row"
    using ok row(2) get_row_iff [of L1] by (simp add: ledger_ok_def owns_def)
  from local_confirm_atomic [OF ok this _ _ step L'] row(3,4) obtain t where
      "cx_to t = CommandReceiptState.Confirmed" "atomic L1 (Stepped t) L'" by auto
  with before show ?thesis
    using atoms_append [OF before atoms_one] by (intro exI [of _ "[Wrote ?p ?i, Noted ?p ?i] @ [Stepped t]"]) auto
qed

lemma complete_local_atoms:
  assumes "ledger_ok L" "complete_local_command L key at = Inr (r, L')"
  shows "\<exists>as. atoms L as L' \<and> (\<forall>a \<in> set as. \<exists>t. a = Stepped t
     \<and> cx_to t = CommandReceiptState.Confirmed)"
proof (cases "L' = L")
  case True
  then show ?thesis by (intro exI [of _ "[]"]) (simp add: atoms.none)
next
  case False
  with assms(2) obtain rq rec where "apply_command_transition L rq = Inr (rec, L')"
      "cx_to rq = CommandReceiptState.Confirmed"
    by (auto simp: complete_local_command_def Let_def split: option.splits if_splits)
  with apply_atoms [OF assms(1) this(1)] show ?thesis by blast
qed

text \<open>Startup moves receipts forward and never opens another dispatch.\<close>

definition settling :: "atom \<Rightarrow> bool" where
  "settling a \<longleftrightarrow> (\<exists>t. a = Stepped t \<and> cx_to t \<in> {CommandReceiptState.Dispatched,
     CommandReceiptState.Confirmed, CommandReceiptState.Failed})"

lemma settle_atoms:
  assumes "ledger_ok L" "apply_command_transition L (settle_step at c to n e) = Inr (rec, L')"
    "to \<in> {CommandReceiptState.Dispatched, CommandReceiptState.Confirmed, CommandReceiptState.Failed}"
  shows "\<exists>as. atoms L as L' \<and> (\<forall>a \<in> set as. settling a)"
  using apply_atoms [OF assms(1,2)] assms(3) by (force simp: settling_def settle_step_def)

lemma settle_bound_atoms:
  assumes ok: "ledger_ok L" and run: "settle_bound at c b n L = (L', res)"
  shows "\<exists>as. atoms L as L' \<and> (\<forall>a \<in> set as. settling a)"
proof -
  have none: ?thesis if "L' = L" using that by (intro exI [of _ "[]"]) (simp add: atoms.none)
  define first where "first = (if ca_state c = CommandReceiptState.DispatchPending
    then try_bind (apply_command_transition L
      (settle_step at c CommandReceiptState.Dispatched (Some n) None)) (Inr \<circ> snd) else Inr L)"
  show ?thesis
  proof (cases first)
    case (Inl e)
    with run none show ?thesis by (simp add: settle_bound_def first_def)
  next
    case (Inr L1)
    then have "\<exists>as. atoms L as L1 \<and> (\<forall>a \<in> set as. settling a)"
      using settle_atoms [OF ok] atoms.none
      by (fastforce simp: first_def split: if_splits)
    then obtain as where as: "atoms L as L1" "\<forall>a \<in> set as. settling a" by blast
    note ok1 = atoms_ok [OF as(1) ok]
    have "L' = L1 \<or> (\<exists>e rec. apply_command_transition L1
        (settle_step at c CommandReceiptState.Confirmed (Some n) (Some e)) = Inr (rec, L'))"
      using run Inr by (auto simp: settle_bound_def first_def split: sum.splits)
    then show ?thesis
    proof
      assume "\<exists>e rec. apply_command_transition L1
        (settle_step at c CommandReceiptState.Confirmed (Some n) (Some e)) = Inr (rec, L')"
      then obtain bs where "atoms L1 bs L'" "\<forall>a \<in> set bs. settling a"
        using settle_atoms [OF ok1] by blast
      with as show ?thesis by (intro exI [of _ "as @ bs"]) (auto intro: atoms_append)
    qed (use as in blast)
  qed
qed

lemma settle_closed_atoms:
  assumes "ledger_ok L" "settle_closed at c h L = (L', res)"
  shows "\<exists>as. atoms L as L' \<and> (\<forall>a \<in> set as. settling a)"
proof (cases "L' = L")
  case True
  then show ?thesis by (intro exI [of _ "[]"]) (simp add: atoms.none)
next
  case False
  with assms(2) obtain e rec where "apply_command_transition L
      (settle_step at c CommandReceiptState.Failed None (Some e)) = Inr (rec, L')"
    by (auto simp: settle_closed_def split: sum.splits)
  with settle_atoms [OF assms(1)] show ?thesis by blast
qed

lemma reconcile_atoms:
  assumes "ledger_ok L" "reconcile_each at cs rep L = (L', res)"
  shows "\<exists>as. atoms L as L' \<and> (\<forall>a \<in> set as. settling a)"
  using assms
proof (induction cs arbitrary: rep L)
  case Nil
  then show ?case by (intro exI [of _ "[]"]) (simp add: atoms.none)
next
  case (Cons c cs)
  have onward: ?case if "\<exists>as. atoms L as L1 \<and> (\<forall>a \<in> set as. settling a)"
    "\<exists>bs. atoms L1 bs L' \<and> (\<forall>b \<in> set bs. settling b)" for L1
  proof -
    from that obtain as bs where "atoms L as L1" "\<forall>a \<in> set as. settling a"
      "atoms L1 bs L'" "\<forall>b \<in> set bs. settling b" by blast
    then show ?thesis by (intro exI [of _ "as @ bs"]) (auto intro: atoms_append)
  qed
  show ?case
  proof (cases "ca_binding c")
    case (Some b)
    obtain bid n where b: "b = (bid, n)" by (cases b)
    obtain L1 res1 where s: "settle_bound at c bid n L = (L1, res1)"
      by (cases "settle_bound at c bid n L")
    note first = settle_bound_atoms [OF Cons.prems(1) s]
    then have ok1: "ledger_ok L1" using atoms_ok Cons.prems(1) by blast
    show ?thesis
    proof (cases res1)
      case (Inl e)
      with Cons.prems(2) Some b s first show ?thesis by simp
    next
      case (Inr u)
      with Cons.prems(2) Some b s Cons.IH [OF ok1] show ?thesis by (intro onward [OF first]) simp
    qed
  next
    case None
    show ?thesis
    proof (cases "ca_closed_at c \<noteq> None \<and> ca_terminal_evidence c \<noteq> None")
      case True
      then obtain x h where xh: "ca_closed_at c = Some x" "ca_terminal_evidence c = Some h" by auto
      obtain L1 res1 where s: "settle_closed at c h L = (L1, res1)"
        by (cases "settle_closed at c h L")
      note first = settle_closed_atoms [OF Cons.prems(1) s]
      then have ok1: "ledger_ok L1" using atoms_ok Cons.prems(1) by blast
      show ?thesis
      proof (cases res1)
        case (Inl e)
        with Cons.prems(2) None xh s first show ?thesis by simp
      next
        case (Inr u)
        with Cons.prems(2) None xh s Cons.IH [OF ok1] show ?thesis by (intro onward [OF first]) simp
      qed
    next
      case False
      with Cons.prems None show ?thesis
        using Cons.IH by (auto split: option.splits)
    qed
  qed
qed

section \<open>What a change leaves of a receipt\<close>

definition view :: "ledger \<Rightarrow> uuid \<Rightarrow> uuid \<Rightarrow> command_row option \<times> outbox_row list \<times> transition_row list" where
  "view L p i = (get_row L p i, entries L p i, hist L p i)"

lemma view_moved:
  assumes ok: "ledger_ok L" and moved: "moved L p i f g ts L'"
    and keep: "\<And>r. cr_id (rw_receipt (f r)) = cr_id (rw_receipt r)
        \<and> cr_project_id (rw_receipt (f r)) = cr_project_id (rw_receipt r)"
      "\<And>ob. ob_project_id (g ob) = ob_project_id ob \<and> ob_receipt_id (g ob) = ob_receipt_id ob"
    and own: "\<forall>t \<in> set ts. step_of p i t"
  shows "get_row L p i = Some row \<Longrightarrow>
      view L' p i = (Some (f row), map g (entries L p i), hist L p i @ ts)"
    "(q, j) \<noteq> (p, i) \<Longrightarrow> view L' q j = view L q j"
proof -
  have rows: "rows_ok L" using ok by (simp add: ledger_ok_def)
  have owned: "owns q j (f r) = owns q j r" for q j r using keep(1) [of r] by (simp add: owns_def)
  note tables = moved [unfolded moved_def]
  note views = moved_views [of g ts p i L' L, OF keep(2) own]
  show "view L' p i = (Some (f row), map g (entries L p i), hist L p i @ ts)"
    if "get_row L p i = Some row"
    using get_row_moved [OF rows that, of f L'] owned tables views(1,2) by (simp add: view_def)
  show "view L' q j = view L q j" if other: "(q, j) \<noteq> (p, i)"
  proof -
    have "filter (owns q j) (ld_receipts L') = filter (owns q j) (ld_receipts L)"
      using tables owned other by (auto simp: owns_def intro!: filter_update_other)
    then show ?thesis using tables views(3,4) other by (simp add: view_def get_row_def find_filter)
  qed
qed

lemma view_written:
  assumes ok: "ledger_ok L" and written: "written L new obs [t] L'"
    and fresh: "\<forall>row \<in> set (ld_receipts L). cr_id (rw_receipt row) \<noteq> i"
    and own: "owns p i new" "\<forall>ob \<in> set obs. entry_of p i ob" "step_of p i t"
  shows "(q, j) \<noteq> (p, i) \<Longrightarrow> view L' q j = view L q j" "get_row L' p i = Some new"
    "get_row L p i = None"
proof -
  note tables = written [unfolded written_def]
  have no: "\<not> owns p i row" if "row \<in> set (ld_receipts L)" for row
    using fresh that by (auto simp: owns_def)
  then have nil: "filter (owns p i) (ld_receipts L) = []" by (simp add: filter_empty_conv)
  then show "get_row L p i = None" "get_row L' p i = Some new"
    using tables own(1) by (simp_all add: get_row_def find_filter)
  assume other: "(q, j) \<noteq> (p, i)"
  have "filter (owns q j) [new] = []" "filter (entry_of q j) obs = []" "filter (step_of q j) [t] = []"
    using own other by (auto simp: filter_empty_conv owns_def entry_of_def step_of_def)
  then show "view L' q j = view L q j"
    using tables by (simp add: view_def get_row_def find_filter entries_def hist_def split: if_splits)
qed

lemma atomic_effect:
  assumes "atomic L a L'" "ledger_ok L" "get_row L p i = Some row"
  shows "view L' p i = view L p i
    \<or> (\<exists>token now. a = Claimed p i token
        \<and> cr_state (rw_receipt row) = CommandReceiptState.IntentPersisted
        \<and> view L' p i = (Some (claim_row token now row), map (claim_outbox token now) (entries L p i),
             hist L p i @ [claim_step p i token now]))
    \<or> (\<exists>rq. a = Stepped rq \<and> cx_project_id rq = p \<and> cx_receipt_id rq = i
        \<and> receipt_can_transition_to (cr_state (rw_receipt row)) (cx_to rq)
        \<and> (cx_to rq = CommandReceiptState.DispatchPending \<longrightarrow>
            cr_state (rw_receipt row) = CommandReceiptState.ConfirmationUnknown
            \<and> (\<exists>ev. cx_no_effect rq = Some ev
                 \<and> cr_correlation (rw_receipt row) = Some (ne_correlation ev)))
        \<and> view L' p i = (Some (advance_row rq row),
             map (stamped (cx_to rq) (cx_occurred_at rq)) (entries L p i),
             hist L p i @ [advance_step rq (of_nat (length (hist L p i)) + 1)
               (cr_correlation (rw_receipt row))]))
    \<or> (\<exists>ref. a = Noted p i \<and> cr_state (rw_receipt row) = CommandReceiptState.IntentPersisted
        \<and> view L' p i = (Some (row\<lparr>rw_receipt := (rw_receipt row)\<lparr>cr_result_ref := Some ref\<rparr>\<rparr>),
             entries L p i, hist L p i))"
  using assms(1)
proof cases
  case (wrote q j new obs t)
  then have "(p, i) \<noteq> (q, j)" using assms(3) view_written(3) [OF assms(2) wrote(7)] by auto
  then show ?thesis using view_written(1) [OF assms(2) wrote(7)] wrote by blast
next
  case (claimed q j r token now)
  note v = view_moved [OF assms(2) claimed(5)]
  show ?thesis
  proof (cases "(p, i) = (q, j)")
    case True
    then show ?thesis using assms(3) claimed v(1)
      by (auto simp: claim_row_def claim_outbox_def claim_step_def step_of_def)
  next
    case False
    then show ?thesis
      using v(2) by (simp add: claim_row_def claim_outbox_def claim_step_def step_of_def)
  qed
next
  case (stepped rq r t)
  note v = view_moved [OF assms(2) stepped(8)]
  have t: "step_of (cx_project_id rq) (cx_receipt_id rq) t"
    by (simp add: stepped advance_step_def step_of_def)
  show ?thesis
  proof (cases "(p, i) = (cx_project_id rq, cx_receipt_id rq)")
    case True
    then have "r = row" "view L' p i = (Some (advance_row rq row),
        map (stamped (cx_to rq) (cx_occurred_at rq)) (entries L p i), hist L p i @ [t])"
      using assms(3) stepped(2) v(1) [of row] t by (auto simp: advance_row_def stamped_def)
    then show ?thesis using True stepped by auto
  next
    case False
    then have "view L' p i = view L p i"
      using v(2) t by (simp add: advance_row_def stamped_def)
    then show ?thesis ..
  qed
next
  case (noted q j r ref)
  note v = view_moved [OF assms(2) noted(4)]
  show ?thesis
  proof (cases "(p, i) = (q, j)")
    case True
    then show ?thesis using assms(3) noted v(1) [of row] by auto
  next
    case False
    then have "view L' p i = view L p i" using v(2) by simp
    then show ?thesis ..
  qed
next
  case elsewhere
  then show ?thesis by (simp add: view_def get_row_def entries_def hist_def)
qed

lemma atomic_receipt_cases:
  assumes "atomic L a L'" "ledger_ok L" "get_row L p i = Some row"
  obtains (same) "view L' p i = view L p i"
  | (claimed) token now where "a = Claimed p i token"
      "cr_state (rw_receipt row) = CommandReceiptState.IntentPersisted"
      "view L' p i = (Some (claim_row token now row), map (claim_outbox token now) (entries L p i),
         hist L p i @ [claim_step p i token now])"
  | (stepped) rq where "a = Stepped rq" "cx_project_id rq = p" "cx_receipt_id rq = i"
      "receipt_can_transition_to (cr_state (rw_receipt row)) (cx_to rq)"
      "cx_to rq = CommandReceiptState.DispatchPending \<longrightarrow>
         cr_state (rw_receipt row) = CommandReceiptState.ConfirmationUnknown
         \<and> (\<exists>ev. cx_no_effect rq = Some ev
              \<and> cr_correlation (rw_receipt row) = Some (ne_correlation ev))"
      "view L' p i = (Some (advance_row rq row),
         map (stamped (cx_to rq) (cx_occurred_at rq)) (entries L p i),
         hist L p i @ [advance_step rq (of_nat (length (hist L p i)) + 1)
           (cr_correlation (rw_receipt row))])"
  | (noted) ref where "a = Noted p i"
      "cr_state (rw_receipt row) = CommandReceiptState.IntentPersisted"
      "view L' p i = (Some (row\<lparr>rw_receipt := (rw_receipt row)\<lparr>cr_result_ref := Some ref\<rparr>\<rparr>),
         entries L p i, hist L p i)"
  using atomic_effect [OF assms] by (elim disjE exE conjE) (erule that; assumption)+

section \<open>Executions\<close>

datatype command_op =
    RecordIntent NewCommandIntent
  | RecordLocal NewLocalCommand
  | PendingLocal NewLocalCommand CanonicalDocument
  | AtomicLocal NewLocalCommand CanonicalDocument
  | Close NewAbandonReceipt
  | Abandon NewAbandonReceipt
  | ClaimReceipt uuid uuid string timestamp
  | ClaimDue uuid timestamp u32
  | Advance CommandTransition
  | CompleteLocal string timestamp
  | ReconcileLaunches timestamp
  | OtherTables

text \<open>
  One operation that succeeds, with the claims it hands out.  \<open>OtherTables\<close> is whatever the rest of
  the store does to its own tables.  An operation that fails is rolled back and is no step; the
  startup sweep commits receipt by receipt, so it is a step also when it ends in an error.
\<close>

inductive command_step ::
  "(timestamp \<Rightarrow> string) \<Rightarrow> (CanonicalDocument \<Rightarrow> CommandReceipt \<Rightarrow> bool) \<Rightarrow> ledger \<Rightarrow> command_op \<Rightarrow>
   DispatchClaim list \<Rightarrow> ledger \<Rightarrow> bool" for tx ex where
  "command_step tx ex L (RecordIntent rq) [] L'" if "record_intent tx L rq = Inr (r, L')"
| "command_step tx ex L (RecordLocal lq) [] L'" if "record_local_command L lq = Inr (r, L')"
| "command_step tx ex L (PendingLocal lq doc) [] L'"
    if "record_pending_local_result ex L lq doc = Inr L'"
| "command_step tx ex L (AtomicLocal lq doc) [] L'"
    if "record_atomic_local_result ex L lq doc = Inr (r, L')"
| "command_step tx ex L (Close aq) [] L'" if "insert_closure_receipt L aq = Inr L'"
| "command_step tx ex L (Abandon aq) [] L'" if "record_abandon_receipt L aq = Inr (i, L')"
| "command_step tx ex L (ClaimReceipt p i token now) [c] L'"
    if "claim_receipt_for_dispatch tx L p i token now = Inr (c, L')"
| "command_step tx ex L (ClaimDue p now limit) cs L'"
    if "claim_due tx mint L p now limit = Inr (cs, L')"
| "command_step tx ex L (Advance cq) [] L'" if "apply_command_transition L cq = Inr (rec, L')"
| "command_step tx ex L (CompleteLocal key at) [] L'"
    if "complete_local_command L key at = Inr (found, L')"
| "command_step tx ex L (ReconcileLaunches at) [] L'"
    if "reconcile_legacy_launch_receipts tx at L = (L', res)"
| "command_step tx ex L OtherTables [] L'"
    if "ld_receipts L' = ld_receipts L" "ld_outbox L' = ld_outbox L"
      "ld_transitions L' = ld_transitions L" "ld_targets L' = ld_targets L"

inductive command_run ::
  "(timestamp \<Rightarrow> string) \<Rightarrow> (CanonicalDocument \<Rightarrow> CommandReceipt \<Rightarrow> bool) \<Rightarrow> ledger \<Rightarrow>
   DispatchClaim list \<Rightarrow> ledger \<Rightarrow> bool" for tx ex L where
  start: "command_run tx ex L [] L"
| step: "command_run tx ex L (cs @ ds) L''"
    if "command_run tx ex L cs L'" "command_step tx ex L' op ds L''"

definition blank :: "ledger \<Rightarrow> bool" where
  "blank L \<longleftrightarrow> ld_receipts L = [] \<and> ld_outbox L = [] \<and> ld_transitions L = [] \<and> ld_targets L = []"

lemma blank_ok: "blank L \<Longrightarrow> ledger_ok L"
  by (simp add: blank_def ledger_ok_def rows_ok_def)

fun claim_of :: "atom \<Rightarrow> (uuid \<times> string) list" where
  "claim_of (Claimed p i token) = [(i, token)]"
| "claim_of _ = []"

fun claims_of :: "atom list \<Rightarrow> (uuid \<times> string) list" where
  "claims_of [] = []"
| "claims_of (a # as) = claim_of a @ claims_of as"

lemma no_claims: "\<forall>a \<in> set as. claim_of a = [] \<Longrightarrow> claims_of as = []"
  by (induction as) auto

lemma record_intent_atoms:
  assumes "record_intent tx L rq = Inr (r, L')"
  shows "L' = L \<or> atomic L (Wrote (ni_project_id rq) (ni_receipt_id rq)) L'"
proof -
  from assms obtain ex L1 where ins: "insert_intent tx L rq = Inr (ex, L1)"
      and L': "L' = L1 \<or> L' = L"
    by (auto simp: record_intent_def split: option.splits)
  from ins show ?thesis by (rule insert_intent_cases) (use L' in auto)
qed

lemma record_local_atoms:
  assumes "record_local_command L rq = Inr (r, L')"
  shows "L' = L \<or> atomic L (Wrote (nl_project_id rq) (nl_receipt_id rq)) L'"
proof -
  from assms obtain ex L1 where ins: "insert_local_command L rq = Inr (ex, L1)"
      and L': "L' = L1 \<or> L' = L"
    by (auto simp: record_local_command_def split: option.splits)
  from ins show ?thesis by (rule insert_local_cases) (use L' in auto)
qed

lemma record_abandon_atoms:
  assumes "record_abandon_receipt L rq = Inr (i, L')"
  shows "L' = L \<or> atomic L (Wrote (na_project_id rq) (na_receipt_id rq)) L'"
  using assms insert_closure_atomic by (auto simp: record_abandon_receipt_def split: option.splits)

text \<open>Only an explicit transition request reopens a dispatch.\<close>

lemma step_atoms:
  assumes "command_step tx ex L op cs L'" "ledger_ok L"
  shows "\<exists>as. atoms L as L'
    \<and> claims_of as = map (\<lambda>c. (dl_receipt_id c, dl_correlation c)) cs
    \<and> (\<forall>rq. Stepped rq \<in> set as \<and> cx_to rq = CommandReceiptState.DispatchPending \<longrightarrow> op = Advance rq)"
    (is "\<exists>as. ?by as")
proof -
  have quiet: "\<exists>as. ?by as" if "cs = []" "atoms L as L'" "\<forall>a \<in> set as. claim_of a = []
      \<and> (\<forall>rq. a = Stepped rq \<and> cx_to rq = CommandReceiptState.DispatchPending \<longrightarrow> op = Advance rq)"
    for as using that no_claims by (intro exI [of _ as]) auto
  have single: "\<exists>as. ?by as"
    if "cs = []" "L' = L \<or> (\<exists>p i. atomic L (Wrote p i) L') \<or> atomic L Elsewhere L'"
    using that(2) atoms.none [of L] quiet [OF that(1), of "[]"] quiet [OF that(1) atoms_one] by auto
  show ?thesis
    using assms(1)
  proof cases
    case (1 rq r)
    show ?thesis using record_intent_atoms [OF 1(3)] by (intro single 1(2)) blast
  next
    case (2 lq r)
    show ?thesis using record_local_atoms [OF 2(3)] by (intro single 2(2)) blast
  next
    case (3 lq doc)
    show ?thesis by (rule quiet [OF 3(2) pending_result_atoms [OF assms(2) 3(3)]]) simp
  next
    case (4 lq doc r)
    from atomic_result_atoms [OF assms(2) 4(3)] obtain as where as: "atoms L as L'" "\<forall>a \<in> set as.
        a = Wrote (nl_project_id lq) (nl_receipt_id lq) \<or> a = Noted (nl_project_id lq) (nl_receipt_id lq)
        \<or> (\<exists>t. a = Stepped t \<and> cx_to t = CommandReceiptState.Confirmed)" by blast
    show ?thesis by (rule quiet [OF 4(2) as(1)]) (use as(2) in fastforce)
  next
    case (5 aq)
    show ?thesis using insert_closure_atomic [OF 5(3)] by (intro single 5(2)) blast
  next
    case (6 aq i)
    show ?thesis using record_abandon_atoms [OF 6(3)] by (intro single 6(2)) blast
  next
    case (7 p i token now c)
    note claim = claim_receipt_for_dispatch_atomic [OF assms(2) 7(3)]
    then show ?thesis using 7(2) by (intro exI [of _ "[Claimed p i token]"]) (simp add: atoms_one)
  next
    case (8 mint p now limit)
    note claims = claim_each_atoms [OF assms(2) 8(2) [unfolded claim_due_def]]
    have "claims_of (map (\<lambda>c. Claimed p (dl_receipt_id c) (dl_correlation c)) cs) =
        map (\<lambda>c. (dl_receipt_id c, dl_correlation c)) cs" by (induction cs) auto
    with claims show ?thesis
      by (intro exI [of _ "map (\<lambda>c. Claimed p (dl_receipt_id c) (dl_correlation c)) cs"]) auto
  next
    case (9 cq rec)
    from apply_atoms [OF assms(2) 9(3)] obtain as where as: "atoms L as L'" "set as \<subseteq> {Stepped cq}"
      by blast
    show ?thesis by (rule quiet [OF 9(2) as(1)]) (use as(2) 9(1) in auto)
  next
    case (10 key at found)
    from complete_local_atoms [OF assms(2) 10(3)] obtain as where as: "atoms L as L'"
      "\<forall>a \<in> set as. \<exists>t. a = Stepped t \<and> cx_to t = CommandReceiptState.Confirmed" by blast
    show ?thesis by (rule quiet [OF 10(2) as(1)]) (use as(2) in fastforce)
  next
    case (11 at res)
    from reconcile_atoms [OF assms(2) 11(3) [unfolded reconcile_legacy_launch_receipts_def]]
    obtain as where as: "atoms L as L'" "\<forall>a \<in> set as. settling a" by blast
    show ?thesis by (rule quiet [OF 11(2) as(1)]) (use as(2) in \<open>fastforce simp: settling_def\<close>)
  next
    case 12
    show ?thesis using atomic.elsewhere [OF 12(3-6)] by (intro single 12(2)) blast
  qed
qed

lemma step_ok: "command_step tx ex L op cs L' \<Longrightarrow> ledger_ok L \<Longrightarrow> ledger_ok L'"
  using step_atoms atoms_ok by blast

lemma run_ok: "command_run tx ex L cs L' \<Longrightarrow> ledger_ok L \<Longrightarrow> ledger_ok L'"
  by (induction rule: command_run.induct) (auto dest: step_ok)

section \<open>What an execution keeps\<close>

definition command_identity where
  "command_identity row = (let r = rw_receipt row in
     (rw_mode row, cr_id r, cr_project_id r, cr_idempotency_key r, cr_kind r, cr_target r,
      cr_target_revision r, cr_intent r, cr_created_at r))"

definition queued where
  "queued ob = (ob_project_id ob, ob_receipt_id ob, ob_payload ob, ob_not_before ob)"

definition persists :: "ledger \<Rightarrow> uuid \<Rightarrow> uuid \<Rightarrow> command_row \<Rightarrow> ledger \<Rightarrow> command_row \<Rightarrow> bool" where
  "persists L p i row L' row' \<longleftrightarrow>
     command_identity row' = command_identity row
     \<and> map queued (entries L' p i) = map queued (entries L p i)
     \<and> prefix (hist L p i) (hist L' p i)
     \<and> (cr_correlation (rw_receipt row) \<noteq> None \<longrightarrow>
          cr_correlation (rw_receipt row') = cr_correlation (rw_receipt row))
     \<and> (CommandReceiptState_is_terminal (cr_state (rw_receipt row)) \<longrightarrow>
          row' = row \<and> hist L' p i = hist L p i)"

lemma persists_trans:
  assumes "persists L p i row L' row'" "persists L' p i row' L'' row''"
  shows "persists L p i row L'' row''"
  using assms unfolding persists_def by (metis prefix_order.trans)

lemma atomic_persists:
  assumes "atomic L a L'" "ledger_ok L" "get_row L p i = Some row"
  shows "\<exists>row'. get_row L' p i = Some row' \<and> persists L p i row L' row'"
proof -
  note kept = persists_def command_identity_def queued_def Let_def
  from assms show ?thesis
  proof (cases rule: atomic_receipt_cases)
    case same
    then show ?thesis using assms(3) by (auto simp: view_def kept)
  next
    case claimed
    then have "cr_correlation (rw_receipt row) = None"
      using slot_of(1) [OF assms(2,3)] unclaimed(1) by (auto simp: slot_ok_def)
    with claimed show ?thesis
      by (auto simp: view_def kept claim_row_def claim_outbox_def CommandReceiptState_is_terminal_def)
  next
    case stepped
    then show ?thesis
      by (auto simp: view_def kept advance_row_def stamped_def dest: terminal_stuck)
  next
    case noted
    then show ?thesis by (auto simp: view_def kept CommandReceiptState_is_terminal_def)
  qed
qed

lemma atoms_persist:
  assumes "atoms L as L'" "ledger_ok L" "get_row L p i = Some row"
  shows "\<exists>row'. get_row L' p i = Some row' \<and> persists L p i row L' row'"
  using assms
proof (induction arbitrary: row)
  case (none L)
  then show ?case by (auto simp: persists_def)
next
  case (more L a L' as L'')
  from atomic_persists [OF more.hyps(1) more.prems] obtain r1 where
      r1: "get_row L' p i = Some r1" "persists L p i row L' r1" by blast
  from more.IH [OF atomic_ok [OF more.hyps(1) more.prems(1)] r1(1)] r1(2) persists_trans
  show ?case by blast
qed

lemma run_persists:
  assumes "command_run tx ex L cs L'" "ledger_ok L" "get_row L p i = Some row"
  shows "\<exists>row'. get_row L' p i = Some row' \<and> persists L p i row L' row'"
  using assms
proof (induction rule: command_run.induct)
  case start
  then show ?case by (auto simp: persists_def)
next
  case (step cs L' op ds L'')
  from step.IH [OF step.prems] obtain r1 where
      r1: "get_row L' p i = Some r1" "persists L p i row L' r1" by blast
  note ok = run_ok [OF step.hyps(1) step.prems(1)]
  from step_atoms [OF step.hyps(2) ok] obtain as where "atoms L' as L''" by blast
  from atoms_persist [OF this ok r1(1)] r1(2) persists_trans show ?case by blast
qed

section \<open>Claims are exclusive\<close>

lemma atoms_claims:
  assumes "atoms L as L'" "ledger_ok L"
  shows "distinct (map fst (claims_of as))
    \<and> (\<forall>(i, token) \<in> set (claims_of as).
         (\<forall>p row. get_row L p i = Some row \<longrightarrow> cr_correlation (rw_receipt row) = None)
         \<and> (\<exists>p row. get_row L' p i = Some row \<and> cr_correlation (rw_receipt row) = Some token))"
  using assms
proof induction
  case (none L)
  then show ?case by simp
next
  case (more L a L' as L'')
  note ok = atomic_ok [OF more.hyps(1) more.prems]
  note IH = more.IH [OF ok]
  have before: "cr_correlation (rw_receipt row) = None"
    if "(i, token) \<in> set (claims_of as)" "get_row L p i = Some row" for i token p row
    using atomic_persists [OF more.hyps(1) more.prems that(2)] IH that(1)
    by (force simp: persists_def)
  show ?case
  proof (cases "\<exists>p i token. a = Claimed p i token")
    case False
    then have "claim_of a = []" by (cases a) auto
    with IH before show ?thesis by auto
  next
    case True
    then obtain p i token where a: "a = Claimed p i token" by blast
    from more.hyps(1) a obtain row now where row: "get_row L p i = Some row"
        "cr_state (rw_receipt row) = CommandReceiptState.IntentPersisted"
        and moved: "moved L p i (claim_row token now) (claim_outbox token now)
          [claim_step p i token now] L'"
      by (auto elim: atomic.cases)
    have rows: "rows_ok L" using more.prems by (simp add: ledger_ok_def)
    have free: "cr_correlation (rw_receipt r) = None" if "get_row L q i = Some r" for q r
    proof -
      have "r = row" using that row(1) rows
        unfolding get_row_iff [OF rows] rows_ok_def distinct_map owns_def by (blast dest: inj_onD)
      then show ?thesis
        using slot_of(1) [OF more.prems row(1)] unclaimed(1) row(2) by (auto simp: slot_ok_def)
    qed
    have now: "get_row L' p i = Some (claim_row token now row)"
      using moved by (intro get_row_moved [OF rows row(1), of "claim_row token now"])
        (simp_all add: moved_def owns_def claim_row_def)
    then have new: "i \<notin> fst ` set (claims_of as)" using IH by (force simp: claim_row_def)
    obtain r2 where "get_row L'' p i = Some r2" "cr_correlation (rw_receipt r2) = Some token"
      using atoms_persist [OF more.hyps(2) ok now] by (auto simp: persists_def claim_row_def)
    with IH before free new show ?thesis by (auto simp: a)
  qed
qed

lemma run_claims:
  assumes "command_run tx ex L cs L'" "ledger_ok L"
  shows "distinct (map dl_receipt_id cs)
    \<and> (\<forall>c \<in> set cs. \<exists>p row. get_row L' p (dl_receipt_id c) = Some row
         \<and> cr_correlation (rw_receipt row) = Some (dl_correlation c))"
  using assms
proof (induction rule: command_run.induct)
  case start
  then show ?case by simp
next
  case (step cs L' op ds L'')
  note ok = run_ok [OF step.hyps(1) step.prems] note IH = step.IH [OF step.prems]
  from step_atoms [OF step.hyps(2) ok] obtain as where as: "atoms L' as L''"
      "claims_of as = map (\<lambda>c. (dl_receipt_id c, dl_correlation c)) ds" by blast
  note claims = atoms_claims [OF as(1) ok, unfolded as(2)]
  have old: "\<exists>p row. get_row L'' p (dl_receipt_id c) = Some row
      \<and> cr_correlation (rw_receipt row) = Some (dl_correlation c)" if "c \<in> set cs" for c
    using IH that atoms_persist [OF as(1) ok] by (fastforce simp: persists_def)
  have "dl_receipt_id c \<noteq> dl_receipt_id d" if "c \<in> set cs" "d \<in> set ds" for c d
    using IH claims that by (fastforce simp: comp_def)
  then show ?case using IH claims old by (auto simp: comp_def)
qed

end
