(* ===== verification/Command_Safety.thy ===== *)
theory Command_Safety
  imports Command_Run
begin

text \<open>
  The guarantees of the command protocol, over every execution that starts with empty command tables.
  A history reads as the code reads it, ordered by sequence (\<open>receipt_history\<close>), and the correlation
  of a command is the claim token of its outbox entry (\<open>claim_token\<close>).
\<close>

section \<open>Reading a reachable ledger\<close>

definition reached where
  "reached tx ex cs L \<longleftrightarrow> (\<exists>L0. blank L0 \<and> command_run tx ex L0 cs L)"

lemma reached_ok: "reached tx ex cs L \<Longrightarrow> ledger_ok L"
  unfolding reached_def using blank_ok run_ok by blast

lemma rows_of_ok [simp]: "ledger_ok L \<Longrightarrow> rows_ok L"
  by (simp add: ledger_ok_def)

definition history_entry :: "transition_row \<Rightarrow> ReceiptTransition" where
  "history_entry t = \<lparr>rh_sequence = ct_sequence t, rh_state = ct_state t,
     rh_correlation = ct_correlation t, rh_evidence_ref = ct_evidence_ref t,
     rh_recorded_at = ct_recorded_at t\<rparr>"

lemma history_entry_simps [simp]:
  "rh_sequence (history_entry t) = ct_sequence t" "rh_state (history_entry t) = ct_state t"
  "rh_correlation (history_entry t) = ct_correlation t"
  "rh_evidence_ref (history_entry t) = ct_evidence_ref t"
  by (simp_all add: history_entry_def)

lemma get_receipt_Some:
  "get_receipt L p i = Some r \<longleftrightarrow> (\<exists>row. get_row L p i = Some row \<and> r = rw_receipt row)"
  by (auto simp: get_receipt_def)

lemma get_row_project:
  "ledger_ok L \<Longrightarrow> get_row L p i = Some row \<Longrightarrow> get_row L q i = Some r \<Longrightarrow> r = row \<and> q = p"
  using get_row_iff [of L] rows_ok_ids [of L]
  by (auto simp: owns_def distinct_map dest: inj_onD)

lemma receipt_history_hist:
  assumes "ledger_ok L"
  shows "receipt_history L p i = map history_entry (hist L p i)"
proof (cases "get_row L p i")
  case (Some row)
  show ?thesis
    using transitions_of_hist(1) [OF slot_of(1) [OF assms Some]]
    by (simp add: receipt_history_def history_entry_def)
next
  case None
  have "hist L p i = []"
    using rows_ok_steps [of L] None get_row_iff [of L p i] assms
    by (force simp: hist_def filter_empty_conv step_of_def)
  then show ?thesis by (simp add: receipt_history_def transitions_of_def hist_def)
qed

lemma hist_states:
  "ledger_ok L \<Longrightarrow> map rh_state (receipt_history L p i) = map ct_state (hist L p i)"
  by (simp add: receipt_history_hist)

text \<open>Once the command may have left, the correlation to ask about is on record.\<close>

lemma unclaimed_states:
  assumes "slot_ok row obs h" "cr_correlation (rw_receipt row) = None"
  shows "ct_state ` set h \<subseteq> {CommandReceiptState.IntentPersisted, CommandReceiptState.Confirmed,
     CommandReceiptState.Failed}"
proof -
  have h: "legal_path (map ct_state h)" "CommandReceiptState.DispatchPending \<notin> set (map ct_state h)"
    "map ct_state h \<noteq> []"
    using assms by (auto simp: slot_ok_def history_ok_def)
  have "hd (map ct_state h) \<in> {CommandReceiptState.IntentPersisted, CommandReceiptState.Confirmed,
      CommandReceiptState.Failed}"
    using assms h(3) by (auto simp: slot_ok_def hd_map split: list.splits)
  from legal_path_claims [OF h this] show ?thesis by simp
qed

lemma slot_state:
  assumes "slot_ok row obs h"
  shows "cr_state (rw_receipt row) \<in> ct_state ` set h"
  using assms last_in_set [of h] unfolding slot_ok_def history_ok_def by (metis image_eqI)

section \<open>Histories\<close>

text \<open>C13. The durable history of a command. In every ledger that the operations of the store can produce,
  a receipt's history is numbered from one without gaps, starts at the persisted intent (or is a
  decision born confirmed), takes only the steps of the receipt table and ends in the state the
  projection shows. Every confirmation or failure cites evidence, every claim and dispatch names a
  correlation, no step names a correlation other than the outbox claim token, and the attempts are
  the number of dispatches, saturated at 32 bits.\<close>

theorem command_history_sound:
  assumes "reached tx ex cs L" "get_receipt L p i = Some r"
  shows "let h = receipt_history L p i in
     h \<noteq> [] \<and> map rh_sequence h = map (\<lambda>n. of_nat (Suc n)) [0..<length h]
     \<and> legal_path (map rh_state h) \<and> rh_state (last h) = cr_state r
     \<and> rh_state (hd h) \<in> {CommandReceiptState.IntentPersisted, CommandReceiptState.Confirmed}
     \<and> (\<forall>t \<in> set h. (rh_state t \<in> {CommandReceiptState.Confirmed, CommandReceiptState.Failed} \<longrightarrow>
            rh_evidence_ref t \<noteq> None)
          \<and> (rh_state t \<in> {CommandReceiptState.DispatchPending, CommandReceiptState.Dispatched} \<longrightarrow>
            rh_correlation t \<noteq> None)
          \<and> rh_correlation t \<in> {None, claim_token L p i})
     \<and> unat (cr_attempts r) =
         min (2 ^ 32 - 1) (count_list (map rh_state h) CommandReceiptState.Dispatched)"
proof -
  note ok = reached_ok [OF assms(1)]
  from assms(2) obtain row where row: "get_row L p i = Some row" "r = rw_receipt row"
    by (auto simp: get_receipt_Some)
  note slot = slot_of(1) [OF ok row(1)]
  then have h: "history_ok r (hist L p i)" by (simp add: slot_ok_def row(2))
  then have ne: "hist L p i \<noteq> []" by (simp add: history_ok_def)
  have "ct_state (hd (hist L p i)) \<in>
      {CommandReceiptState.IntentPersisted, CommandReceiptState.Confirmed}"
    using slot by (auto simp: slot_ok_def split: list.splits)
  then show ?thesis
    using h ne claim_token_row [OF ok row(1)] row(2)
    by (simp add: receipt_history_hist [OF ok] history_ok_def numbered_def transition_checks_def
        Let_def last_map hd_map comp_def)
qed

section \<open>Restart\<close>

lemma atomic_claimed:
  assumes "atomic L a L'" "ledger_ok L" "get_row L' p i = Some row'"
    "cr_correlation (rw_receipt row') = Some token"
  shows "(\<exists>row. get_row L p i = Some row \<and> cr_correlation (rw_receipt row) = Some token)
    \<or> a = Claimed p i token"
proof (cases "get_row L p i")
  case (Some row)
  from assms(1,2) Some show ?thesis
  proof (cases rule: atomic_receipt_cases)
    case same
    then show ?thesis using Some assms(3,4) by (auto simp: view_def)
  next
    case claimed
    then show ?thesis using assms(3,4) by (auto simp: view_def claim_row_def)
  next
    case stepped
    then show ?thesis using Some assms(3,4) by (auto simp: view_def advance_row_def)
  next
    case noted
    then show ?thesis using Some assms(3,4) by (auto simp: view_def)
  qed
next
  case None
  show ?thesis
    using assms(1)
  proof cases
    case (wrote q j new obs t)
    have fresh: "\<forall>row \<in> set (ld_receipts L). cr_id (rw_receipt row) \<noteq> j" using wrote(3) by blast
    note v = view_written [OF assms(2) wrote(7) fresh wrote(2,5,6)]
    have "(p, i) = (q, j)"
    proof (rule ccontr)
      assume "(p, i) \<noteq> (q, j)"
      from v(1) [OF this] None assms(3) show False by (simp add: view_def)
    qed
    then have "row' = new" using v(2) assms(3) by simp
    moreover have "cr_correlation (rw_receipt new) = None"
      using wrote(4) by (auto simp: slot_ok_def history_ok_def split: list.splits)
    ultimately show ?thesis using assms(4) by simp
  next
    case (claimed q j r tok now)
    note v = view_moved [OF assms(2) claimed(5)]
    have "(p, i) \<noteq> (q, j)" using None claimed(2) by auto
    then have "view L' p i = view L p i"
      using v(2) by (simp add: claim_row_def claim_outbox_def claim_step_def step_of_def)
    then show ?thesis using None assms(3) by (simp add: view_def)
  next
    case (stepped rq r t)
    note v = view_moved [OF assms(2) stepped(8)]
    have "(p, i) \<noteq> (cx_project_id rq, cx_receipt_id rq)" using None stepped(2) by auto
    then have "view L' p i = view L p i"
      using v(2) by (simp add: stepped advance_row_def stamped_def advance_step_def step_of_def)
    then show ?thesis using None assms(3) by (simp add: view_def)
  next
    case (noted q j r ref)
    note v = view_moved [OF assms(2) noted(4)]
    have "(p, i) \<noteq> (q, j)" using None noted(2) by auto
    then have "view L' p i = view L p i" using v(2) by simp
    then show ?thesis using None assms(3) by (simp add: view_def)
  next
    case elsewhere
    then show ?thesis using None assms(3) by (simp add: get_row_def)
  qed
qed

lemma atoms_claimed:
  assumes "atoms L as L'" "ledger_ok L" "get_row L' p i = Some row'"
    "cr_correlation (rw_receipt row') = Some token"
  shows "(\<exists>row. get_row L p i = Some row \<and> cr_correlation (rw_receipt row) = Some token)
    \<or> (i, token) \<in> set (claims_of as)"
  using assms
proof (induction)
  case (none L)
  then show ?case by blast
next
  case (more L a L' as L'')
  from more.IH [OF atomic_ok [OF more.hyps(1) more.prems(1)] more.prems(2,3)]
  show ?case using atomic_claimed [OF more.hyps(1) more.prems(1)] by fastforce
qed

lemma run_claimed:
  assumes "command_run tx ex L cs L'" "ledger_ok L" "get_row L' p i = Some row'"
    "cr_correlation (rw_receipt row') = Some token"
  shows "(\<exists>row. get_row L p i = Some row \<and> cr_correlation (rw_receipt row) = Some token)
    \<or> (\<exists>c \<in> set cs. dl_receipt_id c = i \<and> dl_correlation c = token)"
  using assms
proof (induction arbitrary: row' rule: command_run.induct)
  case start
  then show ?case by blast
next
  case (step cs L' op ds L'')
  note ok = run_ok [OF step.hyps(1) step.prems(1)]
  from step_atoms [OF step.hyps(2) ok] obtain as where as: "atoms L' as L''"
      "claims_of as = map (\<lambda>c. (dl_receipt_id c, dl_correlation c)) ds" by blast
  from atoms_claimed [OF as(1) ok step.prems(2,3)] step.IH [OF step.prems(1)] as(2)
  show ?case by auto
qed

lemma claims_exact:
  assumes "reached tx ex cs L" "get_row L p i = Some row"
  shows "cr_correlation (rw_receipt row) = Some token \<longleftrightarrow>
     (\<exists>c \<in> set cs. dl_receipt_id c = i \<and> dl_correlation c = token)"
proof -
  from assms(1) obtain L0 where L0: "blank L0" "command_run tx ex L0 cs L" by (auto simp: reached_def)
  note ok0 = blank_ok [OF L0(1)] and ok = reached_ok [OF assms(1)]
  have "get_row L0 p i = None" for p i using L0(1) by (simp add: blank_def get_row_def)
  then show ?thesis
    using run_claimed [OF L0(2) ok0 assms(2)] run_claims [OF L0(2) ok0] get_row_project [OF ok assms(2)]
    by fastforce
qed

lemma entries_outbox:
  "outbox_entry L p i \<noteq> None \<longleftrightarrow> entries L p i \<noteq> []"
  by (simp add: outbox_entry_entries split: list.splits)


section \<open>Retries\<close>

lemma atoms_reopen:
  assumes "atoms L as L'" "ledger_ok L" "get_row L p i = Some row"
    "hist L' p i = hist L p i @ ts" "CommandReceiptState.DispatchPending \<in> ct_state ` set ts"
    "CommandReceiptState.DispatchPending \<in> ct_state ` set (hist L p i)"
  shows "\<exists>rq. Stepped rq \<in> set as \<and> cx_project_id rq = p \<and> cx_receipt_id rq = i
     \<and> cx_to rq = CommandReceiptState.DispatchPending"
  using assms
proof (induction arbitrary: row ts)
  case (none L)
  then show ?case by simp
next
  case (more L a L' as L'')
  note ok = atomic_ok [OF more.hyps(1) more.prems(1)]
  note slot = slot_of(1) [OF more.prems(1,2)]
  have rest: ?case if "get_row L' p i = Some row'" "hist L' p i = hist L p i @ us"
    "CommandReceiptState.DispatchPending \<notin> ct_state ` set us" for row' us
  proof -
    from atoms_persist [OF more.hyps(2) ok that(1)] obtain vs where "hist L'' p i = hist L' p i @ vs"
      by (auto simp: persists_def prefix_def)
    moreover from this have "ts = us @ vs" using more.prems(3) that(2) by simp
    ultimately show ?thesis
      using more.IH [OF ok that(1), of vs] more.prems(4,5) that(2,3) by auto
  qed
  from more.hyps(1) more.prems(1,2) show ?case
  proof (cases rule: atomic_receipt_cases)
    case same
    then show ?thesis using rest [of row "[]"] more.prems(2) by (simp add: view_def)
  next
    case claimed
    then show ?thesis
      using intent_is_first [of "rw_receipt row" "hist L p i"] slot more.prems(5)
      by (auto simp: slot_ok_def)
  next
    case (stepped rq)
    then show ?thesis
      using rest [of "advance_row rq row" "[advance_step rq (of_nat (length (hist L p i)) + 1)
          (cr_correlation (rw_receipt row))]"]
      by (cases "cx_to rq = CommandReceiptState.DispatchPending") (auto simp: view_def advance_step_def)
  next
    case (noted ref)
    then show ?thesis
      using rest [of "row\<lparr>rw_receipt := (rw_receipt row)\<lparr>cr_result_ref := Some ref\<rparr>\<rparr>" "[]"]
      by (simp add: view_def)
  qed
qed

text \<open>C11. A retry needs a proof of no effect. Whatever operation makes a receipt pending a second time,
  it is the transition handler called for that receipt, the last recorded state is the unknown
  confirmation, and the request carries no-effect evidence that names the claim token of the outbox
  entry.\<close>

theorem retry_needs_no_effect_proof:
  assumes run: "reached tx ex cs L" "command_step tx ex L op ds L'"
    and more: "receipt_history L' p i = receipt_history L p i @ ts"
      "CommandReceiptState.DispatchPending \<in> rh_state ` set ts"
      "CommandReceiptState.DispatchPending \<in> rh_state ` set (receipt_history L p i)"
  shows "\<exists>rq ev. op = Advance rq \<and> cx_project_id rq = p \<and> cx_receipt_id rq = i
     \<and> rh_state (last (receipt_history L p i)) = CommandReceiptState.ConfirmationUnknown
     \<and> cx_no_effect rq = Some ev \<and> claim_token L p i = Some (ne_correlation ev)"
proof -
  note ok = reached_ok [OF run(1)] and ok' = step_ok [OF run(2) reached_ok [OF run(1)]]
  note eq = receipt_history_hist
  from step_atoms [OF run(2) ok] obtain as where as: "atoms L as L'"
      "\<forall>rq. Stepped rq \<in> set as \<and> cx_to rq = CommandReceiptState.DispatchPending \<longrightarrow> op = Advance rq"
    by blast
  obtain t where t: "t \<in> set (hist L p i)" using more(3) eq [OF ok] by auto
  then obtain row where row: "get_row L p i = Some row"
    using rows_ok_steps [of L t] get_row_iff [of L p i] ok by (auto simp: hist_def step_of_def)
  from atoms_persist [OF as(1) ok row] obtain us where us: "hist L' p i = hist L p i @ us"
    by (auto simp: persists_def prefix_def)
  then have "ts = map history_entry us" using more(1) eq [OF ok] eq [OF ok'] by simp
  then have dp: "CommandReceiptState.DispatchPending \<in> ct_state ` set us"
      "CommandReceiptState.DispatchPending \<in> ct_state ` set (hist L p i)"
    using more(2,3) eq [OF ok] by (auto simp: image_image)
  from atoms_reopen [OF as(1) ok row us dp] as(2) obtain rq where
      rq: "op = Advance rq" "cx_project_id rq = p" "cx_receipt_id rq = i" by blast
  from run(2) rq(1) obtain rec where run': "apply_command_transition L rq = Inr (rec, L')"
    by (auto elim: command_step.cases)
  have "atomic L (Stepped rq) L'" by (rule apply_cases [OF ok run']) (use us dp(1) in auto)
  from this ok row show ?thesis
  proof (cases rule: atomic_receipt_cases)
    case (stepped rq')
    then have "cx_to rq = CommandReceiptState.DispatchPending"
      using us dp(1) by (auto simp: view_def advance_step_def)
    moreover have "rh_state (last (receipt_history L p i)) = cr_state (rw_receipt row)"
      using slot_of(1) [OF ok row] by (auto simp: eq [OF ok] slot_ok_def history_ok_def last_map)
    ultimately show ?thesis
      using stepped rq claim_token_row [OF ok row] by auto
  qed (use us dp in \<open>auto simp: view_def\<close>)
qed

section \<open>Claims\<close>

text \<open>C12. Claims are exclusive. Over a whole execution, whichever of the two claim operations hand them
  out and in whatever order, no two claims name the same receipt, and each claim still is the token
  of its outbox entry, which was attempted once.\<close>

theorem claims_are_exclusive:
  assumes "reached tx ex cs L"
  shows "distinct (map dl_receipt_id cs)
     \<and> (\<forall>c \<in> set cs. \<exists>p. claim_token L p (dl_receipt_id c) = Some (dl_correlation c)
          \<and> (\<exists>entry. outbox_entry L p (dl_receipt_id c) = Some entry \<and> ob_attempts entry = 1))"
proof -
  note ok = reached_ok [OF assms]
  from assms obtain L0 where L0: "blank L0" "command_run tx ex L0 cs L" by (auto simp: reached_def)
  note claims = run_claims [OF L0(2) blank_ok [OF L0(1)]]
  have "\<exists>p. claim_token L p (dl_receipt_id c) = Some (dl_correlation c)
      \<and> (\<exists>entry. outbox_entry L p (dl_receipt_id c) = Some entry \<and> ob_attempts entry = 1)"
    if c: "c \<in> set cs" for c
  proof -
    from claims c obtain p row where row: "get_row L p (dl_receipt_id c) = Some row"
        "cr_correlation (rw_receipt row) = Some (dl_correlation c)" by blast
    then show ?thesis
      using slot_of(1) [OF ok row(1)] claim_token_row [OF ok row(1)]
      by (intro exI [of _ p])
        (auto simp: slot_ok_def entry_ok_def outbox_entry_entries split: list.splits)
  qed
  with claims show ?thesis by blast
qed

text \<open>C31. Receipts are append-only. Any further execution keeps the identity of a receipt and its history
  as a prefix and never replaces its claim token; a receipt that was confirmed or failed stays
  exactly as it was.\<close>

theorem settled_receipts_are_final:
  assumes "reached tx ex cs L" "command_run tx ex L ds L'" "get_receipt L p i = Some r"
  shows "\<exists>r'. get_receipt L' p i = Some r'
     \<and> (cr_idempotency_key r', cr_kind r', cr_target r', cr_target_revision r', cr_intent r') =
       (cr_idempotency_key r, cr_kind r, cr_target r, cr_target_revision r, cr_intent r)
     \<and> prefix (receipt_history L p i) (receipt_history L' p i)
     \<and> (claim_token L p i \<noteq> None \<longrightarrow> claim_token L' p i = claim_token L p i)
     \<and> (CommandReceiptState_is_terminal (cr_state r) \<longrightarrow>
          r' = r \<and> receipt_history L' p i = receipt_history L p i)"
proof -
  note ok = reached_ok [OF assms(1)] and ok' = run_ok [OF assms(2) reached_ok [OF assms(1)]]
  from assms(3) obtain row where row: "get_row L p i = Some row" "r = rw_receipt row"
    by (auto simp: get_receipt_Some)
  from run_persists [OF assms(2) ok row(1)] obtain row' where
      row': "get_row L' p i = Some row'" "persists L p i row L' row'" by blast
  show ?thesis
    using row' row(2) claim_token_row [OF ok row(1)] claim_token_row [OF ok' row'(1)]
    by (intro exI [of _ "rw_receipt row'"])
      (auto simp: get_receipt_Some persists_def command_identity_def Let_def map_mono_prefix
        receipt_history_hist [OF ok] receipt_history_hist [OF ok'])
qed

text \<open>A synchronous command is never dispatched: it has no outbox entry, no claim is ever handed out
  for it, its history knows only the intent and the outcome, and startup counts it as settled.\<close>

theorem local_commands_never_dispatch:
  assumes "reached tx ex cs L" "get_row L p i = Some row" "rw_mode row = Local"
  shows "outbox_entry L p i = None \<and> claim_token L p i = None
     \<and> (\<forall>c \<in> set cs. dl_receipt_id c \<noteq> i)
     \<and> rh_state ` set (receipt_history L p i) \<subseteq> {CommandReceiptState.IntentPersisted,
         CommandReceiptState.Confirmed, CommandReceiptState.Failed}
     \<and> classify_command_recovery L p i = Inr (Settled i (cr_state (rw_receipt row)))"
proof -
  note ok = reached_ok [OF assms(1)]
  note slot = slot_of(1) [OF ok assms(2)]
  have none: "entries L p i = []" "cr_correlation (rw_receipt row) = None"
    using slot assms(3) by (auto simp: slot_ok_def split: list.splits)
  show ?thesis
    using none unclaimed_states [OF slot none(2)] claims_exact [OF assms(1,2)] assms(2,3)
      claim_token_row [OF ok assms(2)]
    by (auto simp: outbox_entry_entries receipt_history_hist [OF ok] image_image
        classify_command_recovery_def Let_def)
qed

section \<open>Replays\<close>

lemma row_by_key_iff:
  assumes "rows_ok L"
  shows "row_by_key L key = Some row \<longleftrightarrow>
     row \<in> set (ld_receipts L) \<and> cr_idempotency_key (rw_receipt row) = key"
proof -
  have "filter (\<lambda>r. cr_idempotency_key (rw_receipt r) = key) (ld_receipts L) = [row]"
    if "row \<in> set (ld_receipts L)" "cr_idempotency_key (rw_receipt row) = key"
  proof (rule filter_single)
    show "distinct (ld_receipts L)" using rows_ok_ids [OF assms] by (simp add: distinct_map)
    show "cr_idempotency_key (rw_receipt y) = key \<longleftrightarrow> y = row" if "y \<in> set (ld_receipts L)" for y
      using rows_ok_keys [OF assms] that \<open>row \<in> set (ld_receipts L)\<close>
        \<open>cr_idempotency_key (rw_receipt row) = key\<close>
      by (auto simp: distinct_map dest: inj_onD)
  qed (fact that(1))
  then show ?thesis
    by (auto simp: row_by_key_def find_filter [symmetric] dest: find_SomeD)
      (simp add: find_filter)
qed

text \<open>The durable identity that a reused key is compared with.\<close>

definition same_intent ::
  "(timestamp \<Rightarrow> string) \<Rightarrow> CommandReceipt \<Rightarrow> outbox_row \<Rightarrow> NewCommandIntent \<Rightarrow> bool" where
  "same_intent tx r entry rq \<longleftrightarrow>
     cr_project_id r = ni_project_id rq \<and> cr_target r = ni_target rq
     \<and> cd_hash (cr_intent r) = cd_hash (ni_intent rq) \<and> cr_kind r = ni_kind rq
     \<and> cr_target_revision r = ni_target_revision rq
     \<and> cd_hash (ob_payload entry) = cd_hash (ni_payload rq)
     \<and> tx (ob_not_before entry) = tx (ni_not_before rq)"

lemma ensure_same_command_Inr:
  "ensure_same_command tx L r rq = Inr u \<longleftrightarrow>
     (\<exists>entry. outbox_entry L (cr_project_id r) (cr_id r) = Some entry \<and> same_intent tx r entry rq)"
  by (auto simp: ensure_same_command_def same_intent_def ensure_replay_def is_replay_of_def)

lemma recorded_intent:
  assumes ok: "ledger_ok L" and run: "record_intent tx L rq = Inr (r, L')"
  shows "ledger_ok L'" "\<exists>rule. ensure_compatible (ni_kind rq) (ni_target rq) (ni_desired rq) = Inr rule"
    "\<not> target_foreign (ni_target rq) (ni_project_id rq)"
    "get_receipt_by_key L' (ni_idempotency_key rq) = Some r" "ensure_same_command tx L' r rq = Inr ()"
proof -
  from run obtain existing L1 where ins: "insert_intent tx L rq = Inr (existing, L1)"
      and found: "existing = None \<longrightarrow> L' = L1 \<and> get_receipt_by_key L' (ni_idempotency_key rq) = Some r"
        "existing \<noteq> None \<longrightarrow> L' = L \<and> existing = Some r"
    by (cases "insert_intent tx L rq") (auto simp: record_intent_def split: option.splits)
  from ins show "\<exists>rule. ensure_compatible (ni_kind rq) (ni_target rq) (ni_desired rq) = Inr rule"
    "\<not> target_foreign (ni_target rq) (ni_project_id rq)" by (auto simp: insert_intent_def)
  have "ledger_ok L' \<and> get_receipt_by_key L' (ni_idempotency_key rq) = Some r
      \<and> ensure_same_command tx L' r rq = Inr ()"
    using ins
  proof (rule insert_intent_cases)
    fix r' assume "existing = Some r'" "L1 = L" "get_receipt_by_key L (ni_idempotency_key rq) = Some r'"
      "ensure_same_command tx L r' rq = Inr ()"
    then show ?thesis using found ok by auto
  next
    assume e: "existing = None" "get_receipt_by_key L (ni_idempotency_key rq) = None"
      and wrote: "atomic L (Wrote (ni_project_id rq) (ni_receipt_id rq)) L1"
      and tables: "ld_receipts L1 = ld_receipts L @ [intent_row rq]"
        "ld_outbox L1 = ld_outbox L @ [intent_entry rq]"
    from e found have L': "L' = L1" "get_receipt_by_key L' (ni_idempotency_key rq) = Some r" by auto
    have ok': "ledger_ok L'" using atomic_ok [OF wrote ok] L'(1) by simp
    have new: "intent_row rq \<in> set (ld_receipts L')" "intent_entry rq \<in> set (ld_outbox L')"
      using tables L'(1) by auto
    have r: "r = rw_receipt (intent_row rq)"
      using L'(2) row_by_key_iff [of L' "ni_idempotency_key rq" "intent_row rq"] ok' new(1)
      by (auto simp: get_receipt_by_key_def intent_row_def new_receipt_def)
    have get: "get_row L' (ni_project_id rq) (ni_receipt_id rq) = Some (intent_row rq)"
      using get_row_iff [of L'] ok' new(1) by (simp add: owns_def intent_row_def new_receipt_def)
    have "intent_entry rq \<in> set (entries L' (ni_project_id rq) (ni_receipt_id rq))"
      using new(2) by (simp add: entries_def entry_of_def intent_entry_def)
    then have "entries L' (ni_project_id rq) (ni_receipt_id rq) = [intent_entry rq]"
      using slot_of(1) [OF ok' get] by (auto simp: slot_ok_def split: list.splits)
    then have "ensure_same_command tx L' r rq = Inr ()"
      by (auto simp: ensure_same_command_Inr same_intent_def outbox_entry_entries r intent_row_def
          new_receipt_def intent_entry_def)
    with ok' L'(2) show ?thesis by simp
  qed
  then show "ledger_ok L'" "get_receipt_by_key L' (ni_idempotency_key rq) = Some r"
    "ensure_same_command tx L' r rq = Inr ()" by auto
qed

text \<open>C35. Idempotency of intents. Once an intent was recorded, recording it again at any later time
  returns the receipt then stored and writes nothing, and any request under the same key that
  succeeds is for the same project, target, kind, revision, intent, payload and earliest dispatch
  instant.\<close>

theorem intent_replay_exact:
  assumes "reached tx ex cs L" "record_intent tx L rq = Inr (r, L1)" "command_run tx ex L1 ds L2"
  shows "\<exists>r2 entry. cr_id r2 = cr_id r \<and> record_intent tx L2 rq = Inr (r2, L2)
     \<and> outbox_entry L2 (cr_project_id r) (cr_id r) = Some entry
     \<and> (\<forall>rq' x L3. ni_idempotency_key rq' = ni_idempotency_key rq
          \<and> record_intent tx L2 rq' = Inr (x, L3) \<longrightarrow>
            x = r2 \<and> L3 = L2 \<and> same_intent tx r2 entry rq')"
proof -
  note rec = recorded_intent [OF reached_ok [OF assms(1)] assms(2)]
  note ok2 = run_ok [OF assms(3) rec(1)]
  from rec(4) obtain row where row: "row_by_key L1 (ni_idempotency_key rq) = Some row" "r = rw_receipt row"
    by (auto simp: get_receipt_by_key_def)
  then have in1: "row \<in> set (ld_receipts L1)" "cr_idempotency_key (rw_receipt row) = ni_idempotency_key rq"
    using row_by_key_iff [of L1] rec(1) by auto
  let ?p = "cr_project_id r" and ?i = "cr_id r"
  have get: "get_row L1 ?p ?i = Some row"
    using get_row_iff [of L1] rec(1) in1(1) by (simp add: owns_def row(2))
  from run_persists [OF assms(3) rec(1) get] obtain row2 where
      row2: "get_row L2 ?p ?i = Some row2" "persists L1 ?p ?i row L2 row2" by blast
  then have id: "command_identity row2 = command_identity row"
    "map queued (entries L2 ?p ?i) = map queued (entries L1 ?p ?i)" by (auto simp: persists_def)
  have key2: "row_by_key L2 (ni_idempotency_key rq) = Some row2"
    using row_by_key_iff [of L2] get_row_iff [of L2] ok2 row2(1) id(1) in1(2)
    by (simp add: command_identity_def Let_def)
  from rec(5) obtain e1 where e1: "outbox_entry L1 ?p ?i = Some e1" "same_intent tx r e1 rq"
    by (auto simp: ensure_same_command_Inr)
  then obtain e2 where e2: "outbox_entry L2 ?p ?i = Some e2" "queued e2 = queued e1"
    using id(2) by (auto simp: outbox_entry_entries split: list.splits)
  let ?r2 = "rw_receipt row2"
  have same: "cr_id ?r2 = ?i" "cr_project_id ?r2 = ?p" "same_intent tx ?r2 e2 rq"
    using id(1) e1(2) e2(2) row(2)
    by (auto simp: command_identity_def Let_def same_intent_def queued_def)
  have known: "record_intent tx L2 rq' = Inr (x, L3) \<Longrightarrow> x = ?r2 \<and> L3 = L2 \<and> same_intent tx ?r2 e2 rq'"
    if "ni_idempotency_key rq' = ni_idempotency_key rq" for rq' x L3
    using that key2 e2(1) same(1,2)
    by (auto simp: record_intent_def insert_intent_def get_receipt_by_key_def ensure_same_command_Inr)
  have "record_intent tx L2 rq = Inr (?r2, L2)"
  proof -
    have "ensure_same_command tx L2 ?r2 rq = Inr ()"
      using e2(1) same by (auto simp: ensure_same_command_Inr)
    then show ?thesis
      using rec(2,3) key2 by (auto simp: record_intent_def insert_intent_def get_receipt_by_key_def
          domain_def ensure_that_def)
  qed
  with known e2(1) same(1) show ?thesis by blast
qed

section \<open>The startup inventory\<close>

lemma recover_each_counts:
  assumes "ledger_ok L" "set rows \<subseteq> {row \<in> set (ld_receipts L). unsettled row}"
  shows "recover_each L (map (\<lambda>row. (cr_project_id (rw_receipt row), cr_id (rw_receipt row))) rows) rep =
     Inr (rep\<lparr>rp_undispatched := rp_undispatched rep + length (filter (\<lambda>row.
            cr_state (rw_receipt row) = CommandReceiptState.IntentPersisted) rows),
          rp_ambiguous := rp_ambiguous rep + length (filter (\<lambda>row.
            cr_state (rw_receipt row) \<noteq> CommandReceiptState.IntentPersisted) rows)\<rparr>)"
  using assms(2)
proof (induction rows arbitrary: rep)
  case (Cons row rows)
  let ?p = "cr_project_id (rw_receipt row)" and ?i = "cr_id (rw_receipt row)"
  have get: "get_row L ?p ?i = Some row"
    using Cons.prems get_row_iff [of L] assms(1) by (auto simp: owns_def)
  have un: "unsettled row" using Cons.prems by simp
  then obtain entry where entry: "outbox_entry L ?p ?i = Some entry"
    using slot_of(1) [OF assms(1) get]
    by (auto simp: slot_ok_def history_ok_def outbox_entry_entries unsettled_def length_Suc_conv
        split: list.splits)
  show ?case
  proof (cases "cr_state (rw_receipt row) = CommandReceiptState.IntentPersisted")
    case True
    then show ?thesis using Cons get un entry
      by (simp add: classify_command_recovery_def Let_def unsettled_def
          CommandReceiptState_is_terminal_def)
  next
    case False
    then show ?thesis using Cons get un entry
      by (simp add: classify_command_recovery_def Let_def unsettled_def
          CommandReceiptState_is_terminal_def)
  qed
qed simp

text \<open>The startup inventory succeeds on every reachable ledger and counts exactly the open dispatch
  receipts, those at the persisted intent apart from the others; it never meets a settled one.\<close>

theorem startup_inventory_exact:
  assumes "reached tx ex cs L"
  shows "recover tx L = Inr
     \<lparr>rp_undispatched = length (filter (\<lambda>row. unsettled row
        \<and> cr_state (rw_receipt row) = CommandReceiptState.IntentPersisted) (ld_receipts L)),
      rp_ambiguous = length (filter (\<lambda>row. unsettled row
        \<and> cr_state (rw_receipt row) \<noteq> CommandReceiptState.IntentPersisted) (ld_receipts L)),
      rp_settled = 0\<rparr>"
proof -
  let ?rows = "oldest_first tx (filter unsettled (ld_receipts L))"
  have perm: "mset ?rows = mset (filter unsettled (ld_receipts L))"
    by (simp add: oldest_first_def)
  then have "set ?rows = set (filter unsettled (ld_receipts L))" by (rule mset_eq_setD)
  then have sub: "set ?rows \<subseteq> {row \<in> set (ld_receipts L). unsettled row}" by auto
  have count: "length (filter P ?rows) = length (filter (\<lambda>row. unsettled row \<and> P row) (ld_receipts L))"
    for P
  proof -
    have "mset (filter P ?rows) = mset (filter P (filter unsettled (ld_receipts L)))"
      using perm by (simp only: mset_filter)
    then show ?thesis by (simp add: mset_eq_length conj_commute)
  qed
  show ?thesis
    unfolding recover_def unsettled_receipts_def
    using recover_each_counts [OF reached_ok [OF assms] sub] count by simp
qed

end
