(* ===== verification/Command_Progress.thy ===== *)
theory Command_Progress
  imports Command_Safety
begin

text \<open>
  What the command protocol gets done: a due command that nobody claimed is claimed, a step is
  accepted exactly when the receipt table and the evidence allow it, and an intent against a run
  moves the desired state of that run by one compare-and-swap.
\<close>

section \<open>Claiming what is due\<close>

lemma free_entry:
  assumes ok: "ledger_ok L" and get: "get_row L p i = Some row"
    and state: "cr_state (rw_receipt row) = CommandReceiptState.IntentPersisted"
    and entry: "entries L p i = [ob]"
  shows "ob_claim_token ob = None" "ob_dispatched_at ob = None"
proof -
  have h: "history_ok (rw_receipt row) (hist L p i)" "entry_ok (rw_receipt row) (hist L p i) ob"
    using slot_of(1) [OF ok get] entry by (simp_all add: slot_ok_def)
  then show "ob_claim_token ob = None" "ob_dispatched_at ob = None"
    using unclaimed(1) [OF h(1) state] intent_is_first [OF h(1) state] by (auto simp: entry_ok_def)
qed

lemma claim_one_succeeds:
  assumes ok: "ledger_ok L" and get: "get_row L p (ob_receipt_id ob) = Some row"
    and state: "cr_state (rw_receipt row) = CommandReceiptState.IntentPersisted"
    and entry: "entries L p (ob_receipt_id ob) = [ob]" and token: "ExternalId_parse minted = Inr token"
  shows "\<exists>L'. claim_one minted L p now ob =
     Inr (\<lparr>dl_receipt_id = ob_receipt_id ob, dl_correlation = token, dl_payload = ob_payload ob,
       dl_attempts = 1, dl_claimed_at = now\<rparr>, L')"
proof -
  let ?i = "ob_receipt_id ob"
  have rows: "rows_ok L" using ok by simp
  note slot = slot_of(1) [OF ok get] and free = free_entry [OF ok get state entry]
  have h: "history_ok (rw_receipt row) (hist L p ?i)" using slot by (simp add: slot_ok_def)
  from intent_is_first [OF h state] obtain t where t: "hist L p ?i = [t]" by blast
  have "ob_attempts ob = 0" using slot entry free by (simp add: slot_ok_def entry_ok_def)
  then have n: "u32_or_max (ob_attempts ob + 1) = 1" by (simp add: u32_or_max_def)
  have "filter (\<lambda>x. entry_of p ?i x \<and> ob_claim_token x = None \<and> ob_dispatched_at x = None) (ld_outbox L)
      = filter (\<lambda>x. ob_claim_token x = None \<and> ob_dispatched_at x = None) (entries L p ?i)"
    by (simp add: entries_def conj_commute)
  then have one: "length (filter (\<lambda>x. entry_of p ?i x \<and> ob_claim_token x = None
      \<and> ob_dispatched_at x = None) (ld_outbox L)) = 1" using entry free by simp
  have row: "row \<in> set (ld_receipts L)" "owns p ?i row" using get_row_iff [OF rows] get by auto
  note upd = update_where_owned [OF rows row, of "\<lambda>r. cr_state (rw_receipt r) =
      CommandReceiptState.IntentPersisted", OF state]
  have new: "get_row (L\<lparr>ld_outbox := obs, ld_receipts := update_where (owns p ?i)
      (\<lambda>row. row\<lparr>rw_receipt := (rw_receipt row)\<lparr>cr_state := CommandReceiptState.DispatchPending,
         cr_correlation := Some token, cr_updated_at := now\<rparr>\<rparr>) (ld_receipts L)\<rparr>) p ?i \<noteq> None"
    for obs
    using get_row_moved [OF rows get, of "\<lambda>row. row\<lparr>rw_receipt := (rw_receipt row)
      \<lparr>cr_state := CommandReceiptState.DispatchPending, cr_correlation := Some token,
       cr_updated_at := now\<rparr>\<rparr>"] by (simp add: owns_def)
  have last: "last_transition (L\<lparr>ld_outbox := obs, ld_receipts := rs\<rparr>) p ?i =
      Some (1, CommandReceiptState.IntentPersisted)" for obs rs
    using transitions_of_hist(2) [OF slot] state t
    by (simp add: last_transition_def transitions_of_def)
  have "ct_sequence t = 1" using h t by (simp add: history_ok_def numbered_def)
  moreover have "u \<in> set (hist L p ?i)" if "u \<in> set (ld_transitions L)" "step_of p ?i u" for u
    using that by (simp add: hist_def)
  ultimately have seq: "\<forall>u \<in> set (ld_transitions L). step_of p ?i u \<longrightarrow> ct_sequence u \<noteq> 2"
    using t by fastforce
  show ?thesis
    using one upd new last seq token n
    by (simp add: claim_one_def Let_def claim_entry_def claim_receipt_def domain_def
        append_transition_def transition_checks_def ensure_that_def)
qed

lemma claimed_view:
  assumes "atomic L (Claimed p i token) L'" "ledger_ok L"
  shows "(q, j) \<noteq> (p, i) \<Longrightarrow> view L' q j = view L q j"
    "map ct_state (hist L' p i) = [CommandReceiptState.IntentPersisted, CommandReceiptState.DispatchPending]"
    "claim_token L' p i = Some token"
proof -
  from assms(1) obtain row now where c: "get_row L p i = Some row"
      "cr_state (rw_receipt row) = CommandReceiptState.IntentPersisted"
      "moved L p i (claim_row token now) (claim_outbox token now) [claim_step p i token now] L'"
    by (auto elim: atomic.cases)
  note v = view_moved [OF assms(2) c(3)]
  show "view L' q j = view L q j" if "(q, j) \<noteq> (p, i)"
    using v(2) [OF _ _ _ that] by (simp add: claim_row_def claim_outbox_def claim_step_def step_of_def)
  have mine: "get_row L' p i = Some (claim_row token now row)"
    "hist L' p i = hist L p i @ [claim_step p i token now]"
    using v(1) [OF _ _ _ c(1)]
    by (auto simp: view_def claim_row_def claim_outbox_def claim_step_def step_of_def)
  from intent_is_first [OF _ c(2)] slot_of(1) [OF assms(2) c(1)] mine(2)
  show "map ct_state (hist L' p i) =
      [CommandReceiptState.IntentPersisted, CommandReceiptState.DispatchPending]"
    by (fastforce simp: slot_ok_def claim_step_def)
  show "claim_token L' p i = Some token"
    using claim_token_row [OF atomic_ok [OF assms] mine(1)] by (simp add: claim_row_def)
qed

definition claimable :: "ledger \<Rightarrow> uuid \<Rightarrow> outbox_row \<Rightarrow> bool" where
  "claimable L p ob \<longleftrightarrow> (\<exists>row. get_row L p (ob_receipt_id ob) = Some row
     \<and> cr_state (rw_receipt row) = CommandReceiptState.IntentPersisted
     \<and> entries L p (ob_receipt_id ob) = [ob])"

lemma claimable_view:
  "view L' p (ob_receipt_id ob) = view L p (ob_receipt_id ob) \<Longrightarrow> claimable L' p ob = claimable L p ob"
  by (simp add: claimable_def view_def)

lemma claim_each_succeeds:
  assumes "ledger_ok L" "distinct (map ob_receipt_id obs)" "\<forall>ob \<in> set obs. claimable L p ob"
    "\<forall>k. ExternalId_parse (mint k) = Inr (mint k)"
  shows "\<exists>cs L'. claim_each mint n L p now obs = Inr (cs, L')
     \<and> map dl_receipt_id cs = map ob_receipt_id obs \<and> map dl_payload cs = map ob_payload obs
     \<and> (\<forall>c \<in> set cs. claim_token L' p (dl_receipt_id c) = Some (dl_correlation c)
          \<and> map ct_state (hist L' p (dl_receipt_id c)) =
            [CommandReceiptState.IntentPersisted, CommandReceiptState.DispatchPending])
     \<and> (\<forall>q j. (\<forall>ob \<in> set obs. (q, j) \<noteq> (p, ob_receipt_id ob)) \<longrightarrow> view L' q j = view L q j)"
  using assms
proof (induction obs arbitrary: L n)
  case (Cons ob obs)
  let ?i = "ob_receipt_id ob"
  from Cons.prems(3) obtain row where row: "get_row L p ?i = Some row"
      "cr_state (rw_receipt row) = CommandReceiptState.IntentPersisted" "entries L p ?i = [ob]"
    by (auto simp: claimable_def)
  from claim_one_succeeds [OF Cons.prems(1) row] Cons.prems(4) obtain c L1 where
      one: "claim_one (mint n) L p now ob = Inr (c, L1)"
      and c: "dl_receipt_id c = ?i" "dl_payload c = ob_payload ob" by fastforce
  note atom = claim_one_atomic(1) [OF Cons.prems(1) one]
  note own = claimed_view [OF atom Cons.prems(1), unfolded c(1)]
  have "claimable L1 p x" if "x \<in> set obs" for x
  proof -
    have "ob_receipt_id x \<noteq> ?i" using Cons.prems(2) imageI [OF that, of ob_receipt_id] by auto
    then have "view L1 p (ob_receipt_id x) = view L p (ob_receipt_id x)" by (intro own(1)) simp
    then show ?thesis using claimable_view [of L1 p x L] Cons.prems(3) that by simp
  qed
  then have "\<forall>x \<in> set obs. claimable L1 p x" by blast
  moreover have "distinct (map ob_receipt_id obs)" using Cons.prems(2) by simp
  ultimately obtain cs L' where
      rest: "claim_each mint (Suc n) L1 p now obs = Inr (cs, L')"
        "map dl_receipt_id cs = map ob_receipt_id obs" "map dl_payload cs = map ob_payload obs"
        "\<forall>c \<in> set cs. claim_token L' p (dl_receipt_id c) = Some (dl_correlation c)
          \<and> map ct_state (hist L' p (dl_receipt_id c)) =
            [CommandReceiptState.IntentPersisted, CommandReceiptState.DispatchPending]"
        "\<forall>q j. (\<forall>ob \<in> set obs. (q, j) \<noteq> (p, ob_receipt_id ob)) \<longrightarrow> view L' q j = view L1 q j"
    using Cons.IH [OF atomic_ok [OF atom Cons.prems(1)] _ _ Cons.prems(4), of "Suc n"] by blast
  have "view L' p ?i = view L1 p ?i" using rest(5) Cons.prems(2) by (auto simp: image_iff)
  then have mine: "claim_token L' p ?i = Some (dl_correlation c)" "hist L' p ?i = hist L1 p ?i"
    using own(3) by (auto simp: view_def claim_token_def outbox_entry_entries)
  have frame: "view L' q j = view L q j" if "\<forall>x \<in> set (ob # obs). (q, j) \<noteq> (p, ob_receipt_id x)" for q j
    using that rest(5) own(1) [of q j] by simp
  show ?case
    using one rest(1,2,3,4) c mine own(2) frame by auto
qed simp

definition is_due :: "(timestamp \<Rightarrow> string) \<Rightarrow> ledger \<Rightarrow> uuid \<Rightarrow> timestamp \<Rightarrow> outbox_row \<Rightarrow> bool" where
  "is_due tx L p now ob \<longleftrightarrow> ob_project_id ob = p \<and> ob_dispatched_at ob = None
      \<and> text_le (tx (ob_not_before ob)) (tx now)
      \<and> (\<exists>row \<in> set (ld_receipts L). owns p (ob_receipt_id ob) row \<and> rw_mode row = Dispatch
           \<and> cr_state (rw_receipt row) = CommandReceiptState.IntentPersisted)"

lemma due_entries_is_due:
  "due_entries tx L p now limit = take (unat limit)
     (sort_key (\<lambda>ob. (tx (ob_not_before ob), ob_receipt_id ob)) (filter (is_due tx L p now) (ld_outbox L)))"
  by (simp add: due_entries_def is_due_def [abs_def])

lemma is_due_claimable:
  assumes ok: "ledger_ok L" and due: "ob \<in> set (ld_outbox L)" "is_due tx L p now ob"
  shows "claimable L p ob"
proof -
  from due(2) obtain row where row: "row \<in> set (ld_receipts L)" "owns p (ob_receipt_id ob) row"
        "cr_state (rw_receipt row) = CommandReceiptState.IntentPersisted"
    by (auto simp: is_due_def)
  have get: "get_row L p (ob_receipt_id ob) = Some row" using get_row_iff [of L] ok row(1,2) by simp
  have "ob \<in> set (entries L p (ob_receipt_id ob))"
    using due by (simp add: entries_def entry_of_def is_due_def)
  then have "entries L p (ob_receipt_id ob) = [ob]"
    using slot_of(1) [OF ok get] by (auto simp: slot_ok_def split: list.splits)
  then show ?thesis using get row(3) by (auto simp: claimable_def)
qed

lemma distinct_singletons:
  "(\<And>x. x \<in> set xs \<Longrightarrow> filter (\<lambda>y. f y = f x) xs = [x]) \<Longrightarrow> distinct (map f xs)"
proof (induction xs)
  case (Cons a xs)
  have a: "f y \<noteq> f a" if "y \<in> set xs" for y
    using Cons.prems [of a] that by (auto simp: filter_empty_conv)
  have "filter (\<lambda>y. f y = f x) xs = [x]" if "x \<in> set xs" for x
    using Cons.prems [of x] that a [OF that] by auto
  then have "distinct (map f xs)" by (rule Cons.IH)
  then show ?case using a by force
qed simp

lemma due_distinct:
  assumes "ledger_ok L"
  shows "distinct (map ob_receipt_id (due_entries tx L p now limit))"
proof -
  let ?due = "filter (is_due tx L p now) (ld_outbox L)"
  have "filter (\<lambda>y. ob_receipt_id y = ob_receipt_id x) ?due = [x]" if x: "x \<in> set ?due" for x
  proof -
    have "filter (\<lambda>y. ob_receipt_id y = ob_receipt_id x) ?due =
        filter (is_due tx L p now) (entries L p (ob_receipt_id x))"
      by (auto simp: entries_def entry_of_def is_due_def intro!: filter_cong)
    moreover have "entries L p (ob_receipt_id x) = [x]"
      using is_due_claimable [OF assms] x by (auto simp: claimable_def)
    ultimately show ?thesis using x by simp
  qed
  then have "distinct (map ob_receipt_id ?due)" by (rule distinct_singletons)
  then have "distinct (map ob_receipt_id
      (sort_key (\<lambda>ob. (tx (ob_not_before ob), ob_receipt_id ob)) ?due))"
    by (simp add: distinct_map)
  then show ?thesis by (simp add: due_entries_is_due take_map [symmetric] distinct_take)
qed


section \<open>Steps\<close>

lemma numbered_fresh:
  assumes "numbered h" "length h + 1 < 2 ^ 32"
  shows "1 \<le> (of_nat (length h) + 1 :: u32)" "\<forall>t \<in> set h. ct_sequence t \<noteq> of_nat (length h) + 1"
proof -
  have u: "unat (of_nat (Suc n) :: u32) = Suc n" if "n \<le> length h" for n
    using that assms(2) by (simp add: unat_of_nat del: of_nat_Suc)
  from u [of "length h"] show "1 \<le> (of_nat (length h) + 1 :: u32)"
    by (simp add: word_le_nat_alt add.commute)
  show "\<forall>t \<in> set h. ct_sequence t \<noteq> of_nat (length h) + 1"
  proof
    fix t assume "t \<in> set h"
    then have "ct_sequence t \<in> set (map ct_sequence h)" by simp
    then obtain n where n: "n < length h" "ct_sequence t = of_nat (Suc n)"
      using assms(1) unfolding numbered_def by auto
    show "ct_sequence t \<noteq> of_nat (length h) + 1"
    proof
      assume "ct_sequence t = of_nat (length h) + 1"
      then have "(of_nat (Suc n) :: u32) = of_nat (Suc (length h))" using n(2) by (simp add: add.commute)
      then have "Suc n = Suc (length h)" using u [of n] u [of "length h"] n(1) by (metis le_refl nat_less_le)
      then show False using n(1) by simp
    qed
  qed
qed

definition step_allowed :: "CommandTransition \<Rightarrow> CommandReceiptState \<Rightarrow> string option \<Rightarrow> bool" where
  "step_allowed rq s token \<longleftrightarrow>
     receipt_can_transition_to s (cx_to rq)
     \<and> cx_correlation rq \<in> {None, token}
     \<and> (cx_to rq \<in> {CommandReceiptState.Confirmed, CommandReceiptState.Failed} \<longrightarrow>
          cx_evidence_ref rq \<noteq> None)
     \<and> (cx_to rq = CommandReceiptState.Acknowledged \<longrightarrow> cx_evidence_ref rq = None)
     \<and> (cx_to rq = CommandReceiptState.DispatchPending \<longrightarrow>
          s = CommandReceiptState.ConfirmationUnknown
          \<and> (\<exists>ev. cx_no_effect rq = Some ev \<and> token = Some (ne_correlation ev)))"

lemma dispatched_needs_claim:
  assumes "slot_ok row obs h" "cr_state (rw_receipt row) = CommandReceiptState.DispatchPending"
  shows "cr_correlation (rw_receipt row) \<noteq> None"
proof
  assume "cr_correlation (rw_receipt row) = None"
  from unclaimed_states [OF assms(1) this] slot_state [OF assms(1)] assms(2) show False by auto
qed

lemma apply_succeeds:
  assumes ok: "ledger_ok L" and row: "get_row L (cx_project_id rq) (cx_receipt_id rq) = Some row"
    and allowed: "step_allowed rq (cr_state (rw_receipt row)) (cr_correlation (rw_receipt row))"
    and room: "length (hist L (cx_project_id rq) (cx_receipt_id rq)) + 1 < 2 ^ 32"
  shows "\<exists>rec L'. apply_command_transition L rq = Inr (rec, L')"
proof -
  let ?p = "cx_project_id rq" and ?i = "cx_receipt_id rq" and ?r = "rw_receipt row"
  let ?n = "of_nat (length (hist L ?p ?i)) + 1 :: u32"
  note slot = slot_of(1) [OF ok row] and rows = rows_of_ok [OF ok]
  have num: "numbered (hist L ?p ?i)" using slot by (simp add: slot_ok_def history_ok_def)
  have shape: "transition_shape rq = Inr ()"
    using allowed by (auto simp: transition_shape_def step_allowed_def)
  have corr: "effective_correlation L rq ?r = Inr (cr_correlation ?r)"
    using allowed effective_correlation_own [OF ok row] by (auto simp: step_allowed_def)
  have nx: "next_state rq ?r = Inr (cx_to rq)"
    using allowed unfolding next_state_Inr by (auto simp: step_allowed_def)
  have live: "\<not> CommandReceiptState_is_terminal (cr_state ?r)"
    using allowed terminal_stuck unfolding step_allowed_def by blast
  have move: "cx_to rq \<noteq> cr_state ?r"
    using allowed by (cases "cr_state ?r") (auto simp: step_allowed_def)
  have claim: "cr_correlation ?r \<noteq> None"
    if "cx_to rq \<in> {CommandReceiptState.DispatchPending, CommandReceiptState.Dispatched}"
    using that allowed dispatched_needs_claim [OF slot]
    by (cases "cr_state ?r") (auto simp: step_allowed_def)
  have seq: "1 \<le> ?n" "step_of ?p ?i u \<Longrightarrow> u \<in> set (ld_transitions L) \<Longrightarrow> ct_sequence u \<noteq> ?n" for u
    using numbered_fresh [OF num room] by (auto simp: hist_def)
  let ?f = "\<lambda>at ref n a row. row\<lparr>rw_receipt := (rw_receipt row)\<lparr>cr_state := cx_to rq,
      cr_correlation := cr_correlation ?r, cr_native_identity := n, cr_result_ref := ref,
      cr_attempts := a, cr_updated_at := at\<rparr>\<rparr>"
  have proj: "write_projection L ?r (cx_to rq) (cr_correlation ?r) n ref a at =
      Inr (L\<lparr>ld_receipts := update_where (owns ?p ?i) (?f at ref n a) (ld_receipts L)\<rparr>)" for n ref a at
    using live write_projection_Inr [OF rows row] by blast
  have got: "get_row (L\<lparr>ld_receipts := update_where (owns ?p ?i) (\<lambda>row. row\<lparr>rw_receipt :=
      (rw_receipt row)\<lparr>cr_state := s, cr_correlation := c, cr_native_identity := n, cr_result_ref := ref,
        cr_attempts := a, cr_updated_at := at\<rparr>\<rparr>) (ld_receipts L)\<rparr>) ?p ?i =
      Some (row\<lparr>rw_receipt := ?r\<lparr>cr_state := s, cr_correlation := c, cr_native_identity := n,
        cr_result_ref := ref, cr_attempts := a, cr_updated_at := at\<rparr>\<rparr>)" for s c n ref a at
    by (rule get_row_moved [OF rows row]) (simp_all add: owns_def)
  have app: "append_transition (L\<lparr>ld_receipts := update_where (owns ?p ?i) (?f at ref n a) (ld_receipts L)\<rparr>)
      ?p ?i ?n (cx_to rq) (cr_correlation ?r) (cx_native_identity rq) (cx_evidence_ref rq) at =
      Inr (L\<lparr>ld_receipts := update_where (owns ?p ?i) (?f at ref n a) (ld_receipts L),
        ld_transitions := ld_transitions L @ [\<lparr>ct_project_id = ?p, ct_receipt_id = ?i, ct_sequence = ?n,
          ct_state = cx_to rq, ct_correlation = cr_correlation ?r,
          ct_native_identity = cx_native_identity rq, ct_evidence_ref = cx_evidence_ref rq,
          ct_recorded_at = at\<rparr>]\<rparr>)" for n ref a at
    using seq claim allowed got
    by (auto simp: append_transition_def Let_def ensure_that_def transition_checks_def step_allowed_def)
  have tail: "get_row (stamp_dispatched M p i at) q j = get_row M q j"
    "get_row (M\<lparr>ld_transitions := ts\<rparr>) q j = get_row M q j" for M p i at q j ts
    by (simp_all add: stamp_dispatched_def get_row_def)
  show ?thesis
    unfolding apply_command_transition_def Let_def get_receipt_def
    using move claim
    by (simp add: shape row transitions_of_hist(2) [OF slot] corr nx proj app tail got ensure_that_def
        ok_or_def)
qed

lemma apply_guards:
  assumes ok: "ledger_ok L" and row: "get_row L (cx_project_id rq) (cx_receipt_id rq) = Some row"
    and run: "apply_command_transition L rq = Inr (rec, L')"
  shows "transition_shape rq = Inr ()" "cx_correlation rq \<in> {None, cr_correlation (rw_receipt row)}"
proof -
  show "transition_shape rq = Inr ()"
    using run by (auto simp: apply_command_transition_def Let_def)
  from run obtain c where "effective_correlation L rq (rw_receipt row) = Inr c"
    using row by (auto simp: apply_command_transition_def Let_def get_receipt_def)
  then show "cx_correlation rq \<in> {None, cr_correlation (rw_receipt row)}"
    using effective_correlation_own [OF ok row] by simp
qed

lemma applied_step:
  assumes ok: "ledger_ok L" and row: "get_row L (cx_project_id rq) (cx_receipt_id rq) = Some row"
    and run: "apply_command_transition L rq = Inr (rec, L')" "cx_to rq \<noteq> cr_state (rw_receipt row)"
  shows "step_allowed rq (cr_state (rw_receipt row)) (cr_correlation (rw_receipt row))"
    "hist L' (cx_project_id rq) (cx_receipt_id rq) = hist L (cx_project_id rq) (cx_receipt_id rq) @
       [advance_step rq (of_nat (length (hist L (cx_project_id rq) (cx_receipt_id rq))) + 1)
          (cr_correlation (rw_receipt row))]"
    "ledger_ok L'" "get_row L' (cx_project_id rq) (cx_receipt_id rq) = Some (advance_row rq row)"
    "rec = \<lparr>rt_receipt = rw_receipt (advance_row rq row),
       rt_sequence = of_nat (length (hist L (cx_project_id rq) (cx_receipt_id rq))) + 1,
       rt_appended = True\<rparr>"
proof -
  let ?p = "cx_project_id rq" and ?i = "cx_receipt_id rq"
  have step: "atomic L (Stepped rq) L'" "get_row L' ?p ?i = Some (advance_row rq row)"
    "rec = \<lparr>rt_receipt = rw_receipt (advance_row rq row),
       rt_sequence = of_nat (length (hist L ?p ?i)) + 1, rt_appended = True\<rparr>"
    using apply_cases [OF ok run(1)] row run(2) by (metis option.inject)+
  then show "ledger_ok L'" "get_row L' ?p ?i = Some (advance_row rq row)"
    "rec = \<lparr>rt_receipt = rw_receipt (advance_row rq row),
       rt_sequence = of_nat (length (hist L ?p ?i)) + 1, rt_appended = True\<rparr>"
    using atomic_ok [OF step(1) ok] by auto
  from step(1) row obtain t where t: "t = advance_step rq (of_nat (length (hist L ?p ?i)) + 1)
        (cr_correlation (rw_receipt row))"
      "receipt_can_transition_to (cr_state (rw_receipt row)) (cx_to rq)"
      "cx_to rq = CommandReceiptState.DispatchPending \<longrightarrow>
         cr_state (rw_receipt row) = CommandReceiptState.ConfirmationUnknown
         \<and> (\<exists>ev. cx_no_effect rq = Some ev
              \<and> cr_correlation (rw_receipt row) = Some (ne_correlation ev))"
      "moved L ?p ?i (advance_row rq) (stamped (cx_to rq) (cx_occurred_at rq)) [t] L'"
    by (auto elim: atomic.cases)
  show "hist L' ?p ?i = hist L ?p ?i @ [advance_step rq (of_nat (length (hist L ?p ?i)) + 1)
      (cr_correlation (rw_receipt row))]"
    using view_moved(1) [OF ok t(4) _ _ _ row] t(1)
    by (auto simp: view_def advance_row_def stamped_def advance_step_def step_of_def)
  show "step_allowed rq (cr_state (rw_receipt row)) (cr_correlation (rw_receipt row))"
    using apply_guards [OF ok row run(1)] t(2,3)
    by (auto simp: step_allowed_def transition_shape_def split: if_splits)
qed


section \<open>Intents\<close>

definition desired_by :: "CommandKind \<Rightarrow> AggregateRef \<Rightarrow> DesiredRunState option" where
  "desired_by k t = (case t of AggregateRef.AgentRun _ \<Rightarrow> run_command_state k | _ \<Rightarrow> None)"

lemma ensure_compatible_exact:
  "(\<exists>rule. ensure_compatible k t d = Inr rule) \<longleftrightarrow>
     rule_for k (AggregateRef_kind t) \<noteq> None \<and> d = desired_by k t"
  using rule_for_shape [of k "AggregateRef_kind t"]
  by (cases t; cases "run_command_state k")
    (auto simp: ensure_compatible_Inr desired_by_def run_intent_def witness_def split: if_splits)

definition aimed_run :: "NewCommandIntent \<Rightarrow> run_row \<Rightarrow> bool" where
  "aimed_run rq run \<longleftrightarrow> rn_project_id run = ni_project_id rq
     \<and> ni_target rq = AggregateRef.AgentRun (rn_id run) \<and> rn_revision run = ni_target_revision rq"

definition swapped :: "NewCommandIntent \<Rightarrow> run_row list \<Rightarrow> run_row list" where
  "swapped rq runs =
     (case ni_desired rq of
        None \<Rightarrow> runs
      | Some d \<Rightarrow> map (\<lambda>run. if aimed_run rq run
          then run\<lparr>rn_desired_state := d, rn_revision := rn_revision run + 1\<rparr> else run) runs)"

lemma swap_desired_exact:
  assumes "ensure_compatible (ni_kind rq) (ni_target rq) (ni_desired rq) = Inr rule"
    "ni_target_revision rq \<le> STORABLE_MAX"
  shows "swap_desired L rule rq = Inr L' \<longleftrightarrow>
     (ni_desired rq \<noteq> None \<longrightarrow> length (filter (aimed_run rq) (ld_runs L)) = 1)
     \<and> L' = L\<lparr>ld_runs := swapped rq (ld_runs L)\<rparr>"
proof -
  have rule: "rule_for (ni_kind rq) (AggregateRef_kind (ni_target rq)) = Some rule"
    "ni_desired rq = (case tg_desired rule of Requires r \<Rightarrow> Some r | Forbidden \<Rightarrow> None)"
    using assms(1) by (simp_all add: ensure_compatible_Inr)
  note swaps = rule_for_swaps [OF rule(1)]
  show ?thesis
  proof (cases "ni_desired rq")
    case None
    then show ?thesis
      using swaps rule(2)
      by (auto simp: swap_desired_def swapped_def split: DesiredStateRule.splits RevisionRule.splits)
  next
    case (Some d)
    then have "tg_revision rule = CompareAndSwap"
      using swaps(2) rule(2) by (cases "tg_revision rule") (auto split: DesiredStateRule.splits)
    moreover from this obtain i where i: "ni_target rq = AggregateRef.AgentRun i" using swaps(1) by auto
    ultimately have "swap_desired L rule rq = Inr L' \<longleftrightarrow>
        length (filter (aimed_run rq) (ld_runs L)) = 1
        \<and> L' = L\<lparr>ld_runs := update_where (aimed_run rq) (\<lambda>run. run\<lparr>rn_desired_state := d,
             rn_revision := rn_revision run + 1\<rparr>) (ld_runs L)\<rparr>"
      using Some assms(2)
      by (auto simp: swap_desired_def revision_column_def Let_def aimed_run_def [abs_def] eq_commute [of i])
    then show ?thesis using Some by (simp add: swapped_def update_where_def)
  qed
qed

lemma fresh_id_tables:
  assumes "rows_ok L" "\<forall>row \<in> set (ld_receipts L). cr_id (rw_receipt row) \<noteq> i"
  shows "\<forall>(q, j, u) \<in> set (ld_targets L). (q, j) \<noteq> (p, i)" "\<forall>ob \<in> set (ld_outbox L). ob_receipt_id ob \<noteq> i"
    "\<forall>u \<in> set (ld_transitions L). \<not> step_of p i u"
  using rows_ok_targets [OF assms(1)] rows_ok_outbox [OF assms(1)] rows_ok_steps [OF assms(1)] assms(2)
  by (fastforce simp: owns_def step_of_def)+

text \<open>The first intent under a key, statement by statement.\<close>

definition intent_accepted :: "ledger \<Rightarrow> NewCommandIntent \<Rightarrow> bool" where
  "intent_accepted L rq \<longleftrightarrow>
     rule_for (ni_kind rq) (AggregateRef_kind (ni_target rq)) \<noteq> None
     \<and> ni_desired rq = desired_by (ni_kind rq) (ni_target rq)
     \<and> (\<forall>i. ni_target rq = AggregateRef.Project i \<longrightarrow> i = ni_project_id rq)
     \<and> ni_project_id rq \<in> set (ld_projects L) \<and> target_exists L (ni_project_id rq) (ni_target rq)
     \<and> 1 \<le> ni_target_revision rq \<and> ni_target_revision rq \<le> STORABLE_MAX
     \<and> (\<forall>row \<in> set (ld_receipts L). cr_id (rw_receipt row) \<noteq> ni_receipt_id rq)
     \<and> (ni_desired rq \<noteq> None \<longrightarrow> length (filter (aimed_run rq) (ld_runs L)) = 1)"

lemma target_foreign_iff:
  "target_foreign t p \<longleftrightarrow> (\<exists>i. t = AggregateRef.Project i \<and> i \<noteq> p)"
  by (cases t) (auto simp: target_foreign_def target_project_def)

lemma insert_receipt_exact:
  "insert_receipt L r mode = Inr L' \<longleftrightarrow>
     cr_target_revision r \<le> STORABLE_MAX \<and> cr_project_id r \<in> set (ld_projects L)
     \<and> 1 \<le> cr_target_revision r
     \<and> (\<forall>row \<in> set (ld_receipts L). cr_id (rw_receipt row) \<noteq> cr_id r
          \<and> cr_idempotency_key (rw_receipt row) \<noteq> cr_idempotency_key r)
     \<and> L' = L\<lparr>ld_receipts := ld_receipts L @ [\<lparr>rw_receipt = r, rw_mode = mode\<rparr>]\<rparr>"
  by (auto simp: insert_receipt_def revision_column_def)

lemma insert_intent_fresh:
  assumes rows: "rows_ok L" and key: "get_receipt_by_key L (ni_idempotency_key rq) = None"
  shows "(\<exists>e L'. insert_intent tx L rq = Inr (e, L')) \<longleftrightarrow> intent_accepted L rq"
    "insert_intent tx L rq = Inr (e, L') \<Longrightarrow> ld_runs L' = swapped rq (ld_runs L)"
proof -
  let ?p = "ni_project_id rq" and ?i = "ni_receipt_id rq"
  let ?r = "rw_receipt (intent_row rq)"
  define L1 where "L1 = L\<lparr>ld_receipts := ld_receipts L @ [intent_row rq]\<rparr>"
  define L2 where "L2 = L1\<lparr>ld_targets := ld_targets L @ [(?p, ?i, ni_target rq)]\<rparr>"
  define L3 where "L3 = L2\<lparr>ld_outbox := ld_outbox L @ [intent_entry rq]\<rparr>"
  define t where "t = \<lparr>ct_project_id = ?p, ct_receipt_id = ?i, ct_sequence = 1,
    ct_state = CommandReceiptState.IntentPersisted, ct_correlation = None, ct_native_identity = None,
    ct_evidence_ref = None, ct_recorded_at = ni_created_at rq\<rparr>"
  define L4 where "L4 = L3\<lparr>ld_transitions := ld_transitions L @ [t]\<rparr>"
  define free where "free \<longleftrightarrow> (\<forall>row \<in> set (ld_receipts L). cr_id (rw_receipt row) \<noteq> ?i)"
  have keys: "cr_idempotency_key (rw_receipt row) \<noteq> ni_idempotency_key rq"
    if "row \<in> set (ld_receipts L)" for row
    using key that by (auto simp: get_receipt_by_key_def row_by_key_def find_None_iff)
  have s1: "insert_receipt L ?r Dispatch = Inr M \<longleftrightarrow> ni_target_revision rq \<le> STORABLE_MAX
      \<and> ?p \<in> set (ld_projects L) \<and> 1 \<le> ni_target_revision rq \<and> free \<and> M = L1" for M
    using keys by (auto simp: insert_receipt_exact intent_row_def new_receipt_def free_def L1_def)
  have s2: "free \<Longrightarrow> insert_target L1 ?p ?i (ni_target rq) = Inr M \<longleftrightarrow>
      target_exists L ?p (ni_target rq) \<and> M = L2" for M
    using fresh_id_tables(1) [OF rows, of ?i ?p]
    by (auto simp: free_def insert_target_def L1_def L2_def target_exists_def split: AggregateRef.splits)
  have s3: "free \<Longrightarrow> insert_outbox L2 ?p ?i (ni_payload rq) (ni_not_before rq) = Inr L3"
    using fresh_id_tables(2) [OF rows, of ?i]
    by (simp add: free_def insert_outbox_def L1_def L2_def L3_def ensure_that_def intent_entry_def)
  have "owns ?p ?i (intent_row rq)" "intent_row rq \<in> set (ld_receipts L3)"
    by (simp_all add: owns_def intent_row_def new_receipt_def L1_def L2_def L3_def)
  then have got: "get_row L3 ?p ?i \<noteq> None" unfolding get_row_def find_None_iff by blast
  have s4: "append_transition L3 ?p ?i 1 CommandReceiptState.IntentPersisted None None None
      (ni_created_at rq) = Inr L4" if "free"
  proof -
    have "ld_transitions L3 = ld_transitions L" by (simp add: L1_def L2_def L3_def)
    then show ?thesis
      using fresh_id_tables(3) [OF rows, of ?i ?p] that got
      by (simp add: free_def append_transition_def Let_def L4_def ensure_that_def t_def
          transition_checks_def)
  qed
  have runs: "ld_runs L4 = ld_runs L" by (simp add: L1_def L2_def L3_def L4_def)
  have run: "insert_intent tx L rq = Inr (e, L') \<longleftrightarrow>
      (\<exists>rule L5. ensure_compatible (ni_kind rq) (ni_target rq) (ni_desired rq) = Inr rule
        \<and> \<not> target_foreign (ni_target rq) ?p \<and> ni_target_revision rq \<le> STORABLE_MAX
        \<and> ?p \<in> set (ld_projects L) \<and> 1 \<le> ni_target_revision rq \<and> free
        \<and> target_exists L ?p (ni_target rq) \<and> swap_desired L4 rule rq = Inr L5 \<and> e = None
        \<and> L' = insert_event L5 ?p ?i (ni_intent rq) (ni_created_at rq))" for e L'
  proof -
    have "insert_intent tx L rq = Inr (e, L') \<longleftrightarrow>
      (\<exists>rule M1 M2 M3 M4 L5. ensure_compatible (ni_kind rq) (ni_target rq) (ni_desired rq) = Inr rule
        \<and> \<not> target_foreign (ni_target rq) ?p \<and> insert_receipt L ?r Dispatch = Inr M1
        \<and> insert_target M1 ?p ?i (ni_target rq) = Inr M2
        \<and> insert_outbox M2 ?p ?i (ni_payload rq) (ni_not_before rq) = Inr M3
        \<and> append_transition M3 ?p ?i 1 CommandReceiptState.IntentPersisted None None None
            (ni_created_at rq) = Inr M4
        \<and> swap_desired M4 rule rq = Inr L5 \<and> e = None
        \<and> L' = insert_event L5 ?p ?i (ni_intent rq) (ni_created_at rq))"
      using key by (simp add: insert_intent_def intent_row_def eq_commute [of None] eq_commute [of _ L'])
    then show ?thesis by (simp add: s1 s2 s3 s4 cong: conj_cong)
  qed
  have swap: "(\<exists>L5. swap_desired L4 rule rq = Inr L5) \<longleftrightarrow>
      (ni_desired rq \<noteq> None \<longrightarrow> length (filter (aimed_run rq) (ld_runs L)) = 1)"
    if "ensure_compatible (ni_kind rq) (ni_target rq) (ni_desired rq) = Inr rule"
      "ni_target_revision rq \<le> STORABLE_MAX" for rule
    using swap_desired_exact [OF that, of L4] runs by simp
  have "(\<exists>e L'. insert_intent tx L rq = Inr (e, L')) \<longleftrightarrow>
      (\<exists>rule. ensure_compatible (ni_kind rq) (ni_target rq) (ni_desired rq) = Inr rule
        \<and> \<not> target_foreign (ni_target rq) ?p \<and> ni_target_revision rq \<le> STORABLE_MAX
        \<and> ?p \<in> set (ld_projects L) \<and> 1 \<le> ni_target_revision rq \<and> free
        \<and> target_exists L ?p (ni_target rq) \<and> (\<exists>L5. swap_desired L4 rule rq = Inr L5))"
    unfolding run by blast
  also have "\<dots> \<longleftrightarrow> (\<exists>rule. ensure_compatible (ni_kind rq) (ni_target rq) (ni_desired rq) = Inr rule)
        \<and> \<not> target_foreign (ni_target rq) ?p \<and> ni_target_revision rq \<le> STORABLE_MAX
        \<and> ?p \<in> set (ld_projects L) \<and> 1 \<le> ni_target_revision rq \<and> free
        \<and> target_exists L ?p (ni_target rq)
        \<and> (ni_desired rq \<noteq> None \<longrightarrow> length (filter (aimed_run rq) (ld_runs L)) = 1)"
    using swap by blast
  also have "\<dots> \<longleftrightarrow> intent_accepted L rq"
    unfolding intent_accepted_def ensure_compatible_exact target_foreign_iff free_def by blast
  finally show "(\<exists>e L'. insert_intent tx L rq = Inr (e, L')) \<longleftrightarrow> intent_accepted L rq" .
  show "ld_runs L' = swapped rq (ld_runs L)" if "insert_intent tx L rq = Inr (e, L')"
    using that unfolding run using swap_desired_exact [of rq _ L4] runs
    by (auto simp: insert_event_def)
qed


end
