(* ===== verification/Command_Sample.thy ===== *)
theory Command_Sample
  imports Command_Progress
begin

text \<open>
  One launch, from its intent through the claim, the send, the loss of its answer and the retry that
  the proof of no effect allows: the execution the guarantees of the command protocol are shown on.
\<close>

section \<open>A launch that is retried\<close>

definition launch_text :: "timestamp \<Rightarrow> string" where
  "launch_text t = replicate (nat t) CHR ''0''"

definition launch_doc :: CanonicalDocument where
  "launch_doc = \<lparr>cd_json = ''{}'', cd_hash = ''h'', cd_schema_version = 1\<rparr>"

definition launch_ledger :: ledger where
  "launch_ledger = \<lparr>ld_projects = [1], ld_aggregates = [], ld_runs =
     [\<lparr>rn_project_id = 1, rn_id = 7, rn_desired_state = DesiredRunState.ParkRequested, rn_revision = 1,
       rn_closed_at = None, rn_terminal_evidence_hash = None\<rparr>],
     ld_bindings = [], ld_receipts = [], ld_targets = [], ld_outbox = [], ld_transitions = [],
     ld_events = [], ld_results = []\<rparr>"

definition launch_request :: NewCommandIntent where
  "launch_request = \<lparr>ni_project_id = 1, ni_receipt_id = 10, ni_idempotency_key = ''launch'',
     ni_kind = CommandKind.LaunchRun, ni_target = AggregateRef.AgentRun 7, ni_target_revision = 1,
     ni_intent = launch_doc, ni_payload = launch_doc, ni_desired = Some DesiredRunState.RunRequested,
     ni_not_before = 0, ni_created_at = 0\<rparr>"

definition launch_no_effect :: NoEffectEvidence where
  "launch_no_effect = \<lparr>ne_correlation = ''c'', ne_searched_identity = None, ne_reconciled_at = 3,
     ne_evidence_hash = ''e''\<rparr>"

definition launch_move :: "CommandReceiptState \<Rightarrow> timestamp \<Rightarrow> CommandTransition" where
  "launch_move to at = \<lparr>cx_project_id = 1, cx_receipt_id = 10, cx_to = to, cx_correlation = None,
     cx_native_identity = None,
     cx_evidence_ref = (if to = CommandReceiptState.Confirmed then Some ''proof'' else None),
     cx_no_effect = Some launch_no_effect, cx_occurred_at = at\<rparr>"

definition launch_step :: "u32 \<Rightarrow> CommandReceiptState \<Rightarrow> string option \<Rightarrow> timestamp \<Rightarrow> transition_row" where
  "launch_step n s token at = \<lparr>ct_project_id = 1, ct_receipt_id = 10, ct_sequence = n, ct_state = s,
     ct_correlation = token, ct_native_identity = None,
     ct_evidence_ref = (if s = CommandReceiptState.Confirmed then Some ''proof'' else None),
     ct_recorded_at = at\<rparr>"

definition launch_receipt ::
  "CommandReceiptState \<Rightarrow> string option \<Rightarrow> u32 \<Rightarrow> timestamp \<Rightarrow> CommandReceipt" where
  "launch_receipt s token n at = \<lparr>cr_id = 10, cr_project_id = 1, cr_idempotency_key = ''launch'',
     cr_kind = CommandKind.LaunchRun, cr_target = AggregateRef.AgentRun 7, cr_target_revision = 1,
     cr_intent = launch_doc, cr_state = s, cr_correlation = token, cr_native_identity = None,
     cr_result_ref = (if s = CommandReceiptState.Confirmed then Some ''proof'' else None),
     cr_attempts = n, cr_created_at = 0, cr_updated_at = at\<rparr>"

definition launch_entry :: "string option \<Rightarrow> timestamp option \<Rightarrow> outbox_row" where
  "launch_entry token sent = \<lparr>ob_receipt_id = 10, ob_project_id = 1, ob_payload = launch_doc,
     ob_not_before = 0, ob_claim_token = token,
     ob_claimed_at = (case token of None \<Rightarrow> None | Some _ \<Rightarrow> Some 1), ob_dispatched_at = sent,
     ob_attempts = (case token of None \<Rightarrow> 0 | Some _ \<Rightarrow> 1)\<rparr>"

definition launch_stage ::
  "CommandReceipt \<Rightarrow> outbox_row \<Rightarrow> transition_row list \<Rightarrow> ledger" where
  "launch_stage r entry steps = launch_ledger\<lparr>ld_runs :=
     [\<lparr>rn_project_id = 1, rn_id = 7, rn_desired_state = DesiredRunState.RunRequested, rn_revision = 2,
       rn_closed_at = None, rn_terminal_evidence_hash = None\<rparr>],
     ld_receipts := [\<lparr>rw_receipt = r, rw_mode = Dispatch\<rparr>],
     ld_targets := [(1, 10, AggregateRef.AgentRun 7)], ld_outbox := [entry], ld_transitions := steps,
     ld_events := [\<lparr>ev_project_id = 1, ev_receipt_id = 10, ev_payload = launch_doc,
        ev_observed_at = 0\<rparr>]\<rparr>"

definition launch_steps :: "transition_row list" where
  "launch_steps = [launch_step 1 CommandReceiptState.IntentPersisted None 0,
     launch_step 2 CommandReceiptState.DispatchPending (Some ''c'') 1,
     launch_step 3 CommandReceiptState.Dispatched (Some ''c'') 2,
     launch_step 4 CommandReceiptState.ConfirmationUnknown (Some ''c'') 3,
     launch_step 5 CommandReceiptState.DispatchPending (Some ''c'') 4]"

definition launch_recorded :: ledger where
  "launch_recorded = launch_stage (launch_receipt CommandReceiptState.IntentPersisted None 0 0)
     (launch_entry None None) (take 1 launch_steps)"

definition launch_claimed :: ledger where
  "launch_claimed = launch_stage (launch_receipt CommandReceiptState.DispatchPending (Some ''c'') 0 1)
     (launch_entry (Some ''c'') None) (take 2 launch_steps)"

definition launch_sent :: ledger where
  "launch_sent = launch_stage (launch_receipt CommandReceiptState.Dispatched (Some ''c'') 1 2)
     (launch_entry (Some ''c'') (Some 2)) (take 3 launch_steps)"

definition launch_unknown :: ledger where
  "launch_unknown = launch_stage
     (launch_receipt CommandReceiptState.ConfirmationUnknown (Some ''c'') 1 3)
     (launch_entry (Some ''c'') (Some 2)) (take 4 launch_steps)"

definition launch_retried :: ledger where
  "launch_retried = launch_stage (launch_receipt CommandReceiptState.DispatchPending (Some ''c'') 1 4)
     (launch_entry (Some ''c'') (Some 2)) launch_steps"

lemmas launch_defs = launch_text_def launch_doc_def launch_ledger_def launch_request_def
  launch_no_effect_def launch_move_def launch_step_def launch_receipt_def launch_entry_def
  launch_stage_def launch_steps_def launch_recorded_def launch_claimed_def launch_sent_def
  launch_unknown_def launch_retried_def

lemmas statement_defs = domain_def ensure_that_def ok_or_def Let_def update_where_def get_receipt_def
  get_row_def owns_def entry_of_def step_of_def row_by_key_def get_receipt_by_key_def
  append_transition_def transition_checks_def word_le_nat_alt

lemmas intent_defs = record_intent_def insert_intent_def ensure_compatible_def run_intent_def
  target_foreign_def target_project_def insert_receipt_def revision_column_def STORABLE_MAX_def
  new_receipt_def insert_target_def target_exists_def insert_outbox_def swap_desired_def
  insert_event_def

lemmas transition_defs = apply_command_transition_def transition_shape_def last_transition_def
  transitions_of_def effective_correlation_def claim_token_def outbox_entry_def or_else_def
  next_state_def authorize_retry_def receipt_transition_def write_projection_def
  CommandReceiptState_is_terminal_def stamp_dispatched_def saturating_add_def

lemma launch_is_recorded:
  "record_intent launch_text launch_ledger launch_request =
     Inr (launch_receipt CommandReceiptState.IntentPersisted None 0 0, launch_recorded)"
  by (simp add: launch_defs intent_defs statement_defs)

lemma launch_is_claimed:
  "claim_receipt_for_dispatch launch_text launch_recorded 1 10 ''c'' 1 =
     Inr (\<lparr>dl_receipt_id = 10, dl_correlation = ''c'', dl_payload = launch_doc, dl_attempts = 1,
       dl_claimed_at = 1\<rparr>, launch_claimed)"
  by (simp add: launch_defs statement_defs claim_receipt_for_dispatch_def claim_entry_def
      claim_receipt_def text_le_def u32_or_max_def)

lemma launch_is_sent:
  "\<exists>rec. apply_command_transition launch_claimed (launch_move CommandReceiptState.Dispatched 2) =
     Inr (rec, launch_sent)"
  by (simp add: launch_defs statement_defs transition_defs)

lemma launch_is_lost:
  "\<exists>rec. apply_command_transition launch_sent (launch_move CommandReceiptState.ConfirmationUnknown 3) =
     Inr (rec, launch_unknown)"
  by (simp add: launch_defs statement_defs transition_defs)

lemma launch_is_retried:
  "\<exists>rec. apply_command_transition launch_unknown (launch_move CommandReceiptState.DispatchPending 4) =
     Inr (rec, launch_retried)"
  by (simp add: launch_defs statement_defs transition_defs)

definition launch_claim :: DispatchClaim where
  "launch_claim = \<lparr>dl_receipt_id = 10, dl_correlation = ''c'', dl_payload = launch_doc, dl_attempts = 1,
     dl_claimed_at = 1\<rparr>"

definition launch_exact :: "CanonicalDocument \<Rightarrow> CommandReceipt \<Rightarrow> bool" where
  "launch_exact payload r \<longleftrightarrow> True"

lemma launch_recording: "command_step launch_text launch_exact launch_ledger (RecordIntent launch_request) []
    launch_recorded"
  using launch_is_recorded by (rule command_step.intros)

lemma launch_claiming: "command_step launch_text launch_exact launch_recorded (ClaimReceipt 1 10 ''c'' 1)
    [launch_claim] launch_claimed"
  using launch_is_claimed by (intro command_step.intros) (simp add: launch_claim_def)

lemma launch_sending: "command_step launch_text launch_exact launch_claimed
    (Advance (launch_move CommandReceiptState.Dispatched 2)) [] launch_sent"
  using launch_is_sent by (auto intro: command_step.intros)

lemma launch_losing: "command_step launch_text launch_exact launch_sent
    (Advance (launch_move CommandReceiptState.ConfirmationUnknown 3)) [] launch_unknown"
  using launch_is_lost by (auto intro: command_step.intros)

lemma launch_retrying: "command_step launch_text launch_exact launch_unknown
    (Advance (launch_move CommandReceiptState.DispatchPending 4)) [] launch_retried"
  using launch_is_retried by (auto intro: command_step.intros)

lemma launch_runs_on:
  "command_run launch_text launch_exact launch_recorded [launch_claim] launch_unknown"
  "command_run launch_text launch_exact launch_recorded [launch_claim] launch_retried"
proof -
  note go = command_run.step [of launch_text launch_exact launch_recorded]
  from go [OF command_run.start launch_claiming]
  have "command_run launch_text launch_exact launch_recorded [launch_claim] launch_claimed" by simp
  from go [OF go [OF this launch_sending] launch_losing]
  show unknown: "command_run launch_text launch_exact launch_recorded [launch_claim] launch_unknown" by simp
  from go [OF this launch_retrying]
  show "command_run launch_text launch_exact launch_recorded [launch_claim] launch_retried" by simp
qed

lemma reached_run:
  assumes "reached tx ex cs L" "command_run tx ex L ds L'"
  shows "reached tx ex (cs @ ds) L'"
proof -
  from assms(1) obtain L0 where L0: "blank L0" "command_run tx ex L0 cs L" by (auto simp: reached_def)
  from assms(2) have "command_run tx ex L0 (cs @ ds) L'"
    by (induction rule: command_run.induct)
      (use L0(2) command_run.step in \<open>force simp flip: append_assoc\<close>)+
  with L0(1) show ?thesis by (auto simp: reached_def)
qed

lemma launch_reached:
  "reached launch_text launch_exact [] launch_ledger"
  "reached launch_text launch_exact [] launch_recorded"
  "reached launch_text launch_exact [launch_claim] launch_unknown"
  "reached launch_text launch_exact [launch_claim] launch_retried"
proof -
  show ledger: "reached launch_text launch_exact [] launch_ledger"
    unfolding reached_def by (intro exI [of _ launch_ledger] conjI command_run.start)
      (simp add: blank_def launch_ledger_def)
  from reached_run [OF this command_run.step [OF command_run.start launch_recording]]
  show recorded: "reached launch_text launch_exact [] launch_recorded" by simp
  from reached_run [OF recorded launch_runs_on(1)] reached_run [OF recorded launch_runs_on(2)]
  show "reached launch_text launch_exact [launch_claim] launch_unknown"
    "reached launch_text launch_exact [launch_claim] launch_retried" by simp_all
qed

section \<open>A command of the control plane's own\<close>

definition intake_request :: NewLocalCommand where
  "intake_request = \<lparr>nl_project_id = 1, nl_receipt_id = 11, nl_idempotency_key = ''intake'',
     nl_kind = CommandKind.ApproveIntake, nl_target = AggregateRef.Project 1, nl_target_revision = 1,
     nl_intent = launch_doc, nl_created_at = 0\<rparr>"

definition intake_row :: command_row where
  "intake_row = \<lparr>rw_receipt = \<lparr>cr_id = 11, cr_project_id = 1, cr_idempotency_key = ''intake'',
     cr_kind = CommandKind.ApproveIntake, cr_target = AggregateRef.Project 1, cr_target_revision = 1,
     cr_intent = launch_doc, cr_state = CommandReceiptState.IntentPersisted, cr_correlation = None,
     cr_native_identity = None, cr_result_ref = None, cr_attempts = 0, cr_created_at = 0,
     cr_updated_at = 0\<rparr>, rw_mode = Local\<rparr>"

definition intake_recorded :: ledger where
  "intake_recorded = launch_ledger\<lparr>ld_receipts := [intake_row], ld_targets := [(1, 11, AggregateRef.Project 1)],
     ld_transitions := [\<lparr>ct_project_id = 1, ct_receipt_id = 11, ct_sequence = 1,
       ct_state = CommandReceiptState.IntentPersisted, ct_correlation = None, ct_native_identity = None,
       ct_evidence_ref = None, ct_recorded_at = 0\<rparr>],
     ld_events := [\<lparr>ev_project_id = 1, ev_receipt_id = 11, ev_payload = launch_doc,
        ev_observed_at = 0\<rparr>]\<rparr>"

lemma intake_is_recorded:
  "record_local_command launch_ledger intake_request = Inr (rw_receipt intake_row, intake_recorded)"
  by (simp add: launch_doc_def launch_ledger_def intake_request_def intake_row_def intake_recorded_def
      record_local_command_def insert_local_command_def intent_defs witness_def statement_defs)

lemma intake_reached: "reached launch_text launch_exact [] intake_recorded"
proof -
  have "command_step launch_text launch_exact launch_ledger (RecordLocal intake_request) [] intake_recorded"
    using intake_is_recorded by (rule command_step.intros)
  from reached_run [OF launch_reached(1) command_run.step [OF command_run.start this]] show ?thesis by simp
qed

section \<open>The guarantees on these executions\<close>

lemma launch_got:
  "get_receipt launch_recorded 1 10 = Some (launch_receipt CommandReceiptState.IntentPersisted None 0 0)"
  "get_receipt launch_unknown 1 10 =
     Some (launch_receipt CommandReceiptState.ConfirmationUnknown (Some ''c'') 1 3)"
  "get_receipt launch_retried 1 10 =
     Some (launch_receipt CommandReceiptState.DispatchPending (Some ''c'') 1 4)"
  by (simp_all add: launch_defs get_receipt_def get_row_def owns_def)

lemma launch_histories:
  "map rh_state (receipt_history launch_unknown 1 10) = [CommandReceiptState.IntentPersisted,
     CommandReceiptState.DispatchPending, CommandReceiptState.Dispatched,
     CommandReceiptState.ConfirmationUnknown]"
  "\<exists>t. receipt_history launch_retried 1 10 = receipt_history launch_unknown 1 10 @ [t]
     \<and> rh_state t = CommandReceiptState.DispatchPending"
  by (simp_all add: launch_defs receipt_history_def transitions_of_def step_of_def word_le_nat_alt)

text \<open>
  The transition handler does not read the execution mode: it confirms a queued launch that nobody
  claimed, on the evidence the caller cites.
\<close>

lemma queued_command_confirmed_unsent:
  "\<exists>rec L'. apply_command_transition launch_recorded (launch_move CommandReceiptState.Confirmed 2) =
     Inr (rec, L') \<and> cr_state (rt_receipt rec) = CommandReceiptState.Confirmed"
  by (simp add: launch_defs statement_defs transition_defs)

theorem command_history_sound_witness:
  "legal_path (map rh_state (receipt_history launch_retried 1 10))
   \<and> rh_state (last (receipt_history launch_retried 1 10)) = CommandReceiptState.DispatchPending"
  using command_history_sound [OF launch_reached(4) launch_got(3)]
  by (simp add: Let_def launch_receipt_def)


theorem retry_needs_no_effect_proof_witness:
  "\<exists>ev. cx_no_effect (launch_move CommandReceiptState.DispatchPending 4) = Some ev
     \<and> claim_token launch_unknown 1 10 = Some (ne_correlation ev)"
proof -
  from launch_histories(2) obtain t where t: "receipt_history launch_retried 1 10 =
      receipt_history launch_unknown 1 10 @ [t]" "rh_state t = CommandReceiptState.DispatchPending" by blast
  have "CommandReceiptState.DispatchPending \<in> set (map rh_state (receipt_history launch_unknown 1 10))"
    unfolding launch_histories(1) by simp
  with retry_needs_no_effect_proof [OF launch_reached(3) launch_retrying t(1)] t(2) show ?thesis by auto
qed

theorem claims_are_exclusive_witness:
  "\<exists>p. claim_token launch_retried p 10 = Some ''c''"
  using claims_are_exclusive [OF launch_reached(4)] by (auto simp: launch_claim_def)

theorem settled_receipts_are_final_witness:
  "prefix (receipt_history launch_recorded 1 10) (receipt_history launch_retried 1 10)"
  using settled_receipts_are_final [OF launch_reached(2) launch_runs_on(2) launch_got(1)] by blast

theorem local_commands_never_dispatch_witness:
  "outbox_entry intake_recorded 1 11 = None
   \<and> classify_command_recovery intake_recorded 1 11 =
       Inr (Settled 11 CommandReceiptState.IntentPersisted)"
proof -
  have "get_row intake_recorded 1 11 = Some intake_row"
    by (simp add: get_row_def intake_recorded_def owns_def intake_row_def)
  from local_commands_never_dispatch [OF intake_reached this] show ?thesis
    by (simp add: intake_row_def)
qed

theorem intent_replay_exact_witness:
  "\<exists>r. cr_id r = 10 \<and> record_intent launch_text launch_retried launch_request = Inr (r, launch_retried)"
  using intent_replay_exact [OF launch_reached(1) launch_is_recorded launch_runs_on(2)]
  by (auto simp: launch_receipt_def)

theorem startup_inventory_exact_witness:
  "recover launch_text launch_unknown =
     Inr \<lparr>rp_undispatched = 0, rp_ambiguous = 1, rp_settled = 0\<rparr>"
  using startup_inventory_exact [OF launch_reached(3)]
  by (simp add: launch_defs unsettled_def)




end
