(* ===== verification/Fleet_Allocation.thy ===== *)
theory Fleet_Allocation
  imports Headroom
begin

text \<open>
  The joint allocation of a Committee, \<^verbatim>\<open>crates/kontor-fleet/src/allocation.rs\<close>: the static verdict on
  every candidate, the depth-first search that assigns one route to every slot, its receipts, and
  the constraints a protocol adds.  The search of the source mutates the held vendors, the cap
  counter and the chosen positions and undoes them on the way back; the model passes them as a state
  and undoes them the same way.  An index that the source would panic on is never reached: the
  verdicts are built from the slots (\<open>verdicts_shape\<close>).
\<close>

section \<open>Slots and candidates\<close>

type_synonym u16 = "16 word"

record Eligibility =
  el_unavailable_accounts :: "string list"
  el_excluded_vendors :: "string list"

datatype AllocationDiversity = NoDiversity | DistinctVendorPerReviewer

datatype AllocationRole = Reviewer | Judge

record VendorCap =
  vc_vendor :: string
  vc_max :: nat

record AllocationConstraints =
  cn_slots :: "string list"
  cn_vendor_cap :: "VendorCap option"
  cn_max_rung :: "u16 option"

definition AllocationConstraints_default :: AllocationConstraints where
  "AllocationConstraints_default = \<lparr>cn_slots = [], cn_vendor_cap = None, cn_max_rung = None\<rparr>"

definition AllocationConstraints_is_empty :: "AllocationConstraints \<Rightarrow> bool" where
  "AllocationConstraints_is_empty c \<longleftrightarrow>
     cn_slots c = [] \<or> cn_vendor_cap c = None \<and> cn_max_rung c = None"

record AllocationCandidate =
  an_rung :: ModelRung
  an_step :: u16
  an_sub_step :: u16
  an_vendor :: "string option"
  an_independence :: "string option"

record AllocationSlot =
  as_slot_id :: string
  as_role :: AllocationRole
  as_eligibility :: Eligibility
  as_candidates :: "AllocationCandidate list"

datatype AllocationExclusion =
    AccountUnavailableNow | VendorExcluded | VendorUnknown | VendorHeld | NoCompleteAllocation |
    RungBeyondVerdict | VendorCapReached | RungUnknown

record ConsideredCandidate =
  cc_candidate :: AllocationCandidate
  cc_excluded :: "AllocationExclusion option"
  cc_conflicts_with :: "string option"

datatype AllocationFailure = NoEligibleCandidate | NoDistinctReviewerVendors | VendorCapExceeded

record SlotAllocation =
  sa_slot_id :: string
  sa_role :: AllocationRole
  sa_eligibility :: Eligibility
  sa_selected :: "AllocationCandidate option"
  sa_selected_index :: "nat option"
  sa_considered :: "ConsideredCandidate list"
  sa_failure :: "AllocationFailure option"

record JointAllocation =
  ja_diversity :: AllocationDiversity
  ja_slots :: "SlotAllocation list"
  ja_blocked :: "AllocationFailure option"
  ja_constraints :: "AllocationConstraints option"

definition JointAllocation_is_complete :: "JointAllocation \<Rightarrow> bool" where
  "JointAllocation_is_complete a \<longleftrightarrow> ja_blocked a = None"

text \<open>Collecting options into an optional list.\<close>

fun collect_options :: "'a option list \<Rightarrow> 'a list option" where
  "collect_options [] = Some []"
| "collect_options (None # xs) = None"
| "collect_options (Some x # xs) = map_option (Cons x) (collect_options xs)"

definition JointAllocation_chosen :: "JointAllocation \<Rightarrow> nat list option" where
  "JointAllocation_chosen a =
     (if JointAllocation_is_complete a then collect_options (map sa_selected_index (ja_slots a))
      else None)"

definition maker :: "AllocationCandidate \<Rightarrow> string option" where
  "maker c = (case an_vendor c of None \<Rightarrow> None | Some v \<Rightarrow> if v = ''unknown'' then None else Some v)"

definition static_exclusion ::
  "AllocationSlot \<Rightarrow> AllocationCandidate \<Rightarrow> bool \<Rightarrow> bool \<Rightarrow> AllocationConstraints \<Rightarrow>
   AllocationExclusion option" where
  "static_exclusion slot c constrained governed constraints =
     (if mr_provider (an_rung c) \<in> set (el_unavailable_accounts (as_eligibility slot))
      then Some AccountUnavailableNow
      else if (case an_vendor c of None \<Rightarrow> False
               | Some v \<Rightarrow> v \<in> set (el_excluded_vendors (as_eligibility slot)))
      then Some VendorExcluded
      else if constrained \<and> an_independence c = None then Some VendorUnknown
      else if governed \<and> cn_max_rung constraints \<noteq> None \<and> an_step c = 0 then Some RungUnknown
      else if governed \<and> (case cn_max_rung constraints of None \<Rightarrow> False | Some d \<Rightarrow> d < an_step c)
      then Some RungBeyondVerdict
      else if governed \<and> cn_vendor_cap constraints \<noteq> None \<and> maker c = None then Some VendorUnknown
      else None)"

section \<open>The search\<close>

record SearchInput =
  si_slots :: "AllocationSlot list"
  si_verdicts :: "AllocationExclusion option list list"
  si_constrained :: "bool list"
  si_governed :: "bool list"
  si_cap :: "VendorCap option"

record Search =
  se_held :: "string \<rightharpoonup> nat"
  se_capped :: nat
  se_chosen :: "nat list"

definition Search_new :: Search where
  "Search_new = \<lparr>se_held = Map.empty, se_capped = 0, se_chosen = []\<rparr>"

definition search_counts :: "SearchInput \<Rightarrow> nat \<Rightarrow> AllocationCandidate \<Rightarrow> bool" where
  "search_counts inp index c \<longleftrightarrow> si_governed inp ! index
     \<and> (case si_cap inp of None \<Rightarrow> False | Some cap \<Rightarrow> maker c = Some (vc_vendor cap))"

text \<open>The key a candidate would hold; the outer \<open>None\<close> passes the candidate over.\<close>

definition search_key ::
  "SearchInput \<Rightarrow> nat \<Rightarrow> AllocationCandidate \<Rightarrow> Search \<Rightarrow> string option option" where
  "search_key inp index c st =
     (if si_constrained inp ! index
      then (case an_independence c of
              None \<Rightarrow> None
            | Some key \<Rightarrow> if se_held st key \<noteq> None then None else Some (Some key))
      else Some None)"

definition cap_spent :: "SearchInput \<Rightarrow> Search \<Rightarrow> bool" where
  "cap_spent inp st \<longleftrightarrow> (case si_cap inp of None \<Rightarrow> False | Some cap \<Rightarrow> vc_max cap \<le> se_capped st)"

definition search_hold :: "nat \<Rightarrow> nat \<Rightarrow> string option \<Rightarrow> bool \<Rightarrow> Search \<Rightarrow> Search" where
  "search_hold index pos key counts st =
     st\<lparr>se_held := (case key of None \<Rightarrow> se_held st | Some k \<Rightarrow> (se_held st)(k \<mapsto> index)),
        se_capped := (if counts then se_capped st + 1 else se_capped st),
        se_chosen := se_chosen st @ [pos]\<rparr>"

definition search_release :: "string option \<Rightarrow> bool \<Rightarrow> Search \<Rightarrow> Search" where
  "search_release key counts st =
     st\<lparr>se_held := (case key of None \<Rightarrow> se_held st | Some k \<Rightarrow> (se_held st)(k := None)),
        se_capped := (if counts then se_capped st - 1 else se_capped st),
        se_chosen := butlast (se_chosen st)\<rparr>"

text \<open>
  \<^verbatim>\<open>walk\<close> reads the slot to fill off the number of positions chosen; the model passes that number
  along, and \<open>try_at\<close> is its loop over the remaining candidates.
\<close>

function (sequential)
  walk_at :: "SearchInput \<Rightarrow> nat \<Rightarrow> Search \<Rightarrow> bool \<times> Search" and
  try_at :: "SearchInput \<Rightarrow> nat \<Rightarrow> (nat \<times> AllocationCandidate) list \<Rightarrow> Search \<Rightarrow> bool \<times> Search" where
  "walk_at inp index st =
     (if index < length (si_slots inp)
      then try_at inp index (List.enumerate 0 (as_candidates (si_slots inp ! index))) st
      else (True, st))"
| "try_at inp index [] st = (False, st)"
| "try_at inp index ((pos, c) # rest) st =
     (if si_verdicts inp ! index ! pos \<noteq> None then try_at inp index rest st
      else
        (case search_key inp index c st of
           None \<Rightarrow> try_at inp index rest st
         | Some key \<Rightarrow>
             (let counts = search_counts inp index c in
              if counts \<and> cap_spent inp st then try_at inp index rest st
              else
                (case walk_at inp (Suc index) (search_hold index pos key counts st) of
                   (True, st') \<Rightarrow> (True, st')
                 | (False, st') \<Rightarrow> try_at inp index rest (search_release key counts st')))))"
  by pat_completeness auto

termination
  by (relation "measures
       [\<lambda>x. case x of Inl (inp, index, st) \<Rightarrow> length (si_slots inp) - index
          | Inr (inp, index, cs, st) \<Rightarrow> Suc (length (si_slots inp) - Suc index),
        \<lambda>x. case x of Inl (inp, index, st) \<Rightarrow> Suc (length (as_candidates (si_slots inp ! index)))
          | Inr (inp, index, cs, st) \<Rightarrow> length cs]") auto

definition search_walk :: "SearchInput \<Rightarrow> Search \<Rightarrow> bool \<times> Search" where
  "search_walk inp st = walk_at inp (length (se_chosen st)) st"

section \<open>Receipts\<close>

definition chosen_candidate :: "SearchInput \<Rightarrow> nat list \<Rightarrow> nat \<Rightarrow> AllocationCandidate" where
  "chosen_candidate inp chosen i = as_candidates (si_slots inp ! i) ! (chosen ! i)"

text \<open>
  The vendors that earlier reviewers hold.  Two of them never hold the same vendor, so the map built
  by inserting in slot order is the list of pairs read from its end.
\<close>

definition earlier_holders :: "SearchInput \<Rightarrow> nat list \<Rightarrow> nat \<Rightarrow> (string \<times> string) list" where
  "earlier_holders inp chosen index =
     concat (map (\<lambda>i. case an_independence (chosen_candidate inp chosen i) of
                     None \<Rightarrow> []
                   | Some key \<Rightarrow> [(key, as_slot_id (si_slots inp ! i))])
       (filter (\<lambda>i. si_constrained inp ! i) [0..<index]))"

definition cap_holders :: "SearchInput \<Rightarrow> nat list \<Rightarrow> nat \<Rightarrow> string list" where
  "cap_holders inp chosen index =
     map (\<lambda>i. as_slot_id (si_slots inp ! i))
       (filter (\<lambda>i. i \<noteq> index \<and> search_counts inp i (chosen_candidate inp chosen i))
         [0..<length (si_slots inp)])"

definition considered_verdict ::
  "SearchInput \<Rightarrow> nat list \<Rightarrow> nat \<Rightarrow> nat \<Rightarrow> AllocationCandidate \<Rightarrow>
   AllocationExclusion option \<times> string option" where
  "considered_verdict inp chosen index pos c =
     (case si_verdicts inp ! index ! pos of
        Some verdict \<Rightarrow> (Some verdict, None)
      | None \<Rightarrow>
          if chosen ! index \<le> pos then (None, None)
          else
            (case (if si_constrained inp ! index
                   then Option.bind (an_independence c)
                          (map_of (rev (earlier_holders inp chosen index)))
                   else None) of
               Some holder \<Rightarrow> (Some VendorHeld, Some holder)
             | None \<Rightarrow>
                 if search_counts inp index c
                    \<and> (case si_cap inp of None \<Rightarrow> False
                        | Some cap \<Rightarrow> vc_max cap \<le> length (cap_holders inp chosen index))
                 then (Some VendorCapReached,
                       (case cap_holders inp chosen index of [] \<Rightarrow> None | h # _ \<Rightarrow> Some h))
                 else (Some NoCompleteAllocation, None)))"

definition slot_receipt :: "SearchInput \<Rightarrow> nat list \<Rightarrow> nat \<Rightarrow> SlotAllocation" where
  "slot_receipt inp chosen index =
     (let slot = si_slots inp ! index in
      \<lparr>sa_slot_id = as_slot_id slot, sa_role = as_role slot, sa_eligibility = as_eligibility slot,
       sa_selected = Some (chosen_candidate inp chosen index),
       sa_selected_index = Some (chosen ! index),
       sa_considered = map (\<lambda>(pos, c). case considered_verdict inp chosen index pos c of
           (excluded, conflicts_with) \<Rightarrow> \<lparr>cc_candidate = c, cc_excluded = excluded,
              cc_conflicts_with = conflicts_with\<rparr>) (List.enumerate 0 (as_candidates slot)),
       sa_failure = None\<rparr>)"

definition receipts :: "SearchInput \<Rightarrow> Search \<Rightarrow> SlotAllocation list" where
  "receipts inp st = map (slot_receipt inp (se_chosen st)) [0..<length (si_slots inp)]"

section \<open>The allocation\<close>

definition slot_constrained :: "AllocationDiversity \<Rightarrow> AllocationSlot \<Rightarrow> bool" where
  "slot_constrained diversity slot \<longleftrightarrow>
     diversity = DistinctVendorPerReviewer \<and> as_role slot = Reviewer"

definition slot_governed :: "AllocationConstraints \<Rightarrow> AllocationSlot \<Rightarrow> bool" where
  "slot_governed constraints slot \<longleftrightarrow>
     \<not> AllocationConstraints_is_empty constraints \<and> as_slot_id slot \<in> set (cn_slots constraints)"

definition effective_cap :: "AllocationConstraints \<Rightarrow> VendorCap option" where
  "effective_cap constraints =
     (if AllocationConstraints_is_empty constraints then None else cn_vendor_cap constraints)"

definition slot_verdicts ::
  "AllocationDiversity \<Rightarrow> AllocationConstraints \<Rightarrow> AllocationSlot \<Rightarrow>
   AllocationExclusion option list" where
  "slot_verdicts diversity constraints slot =
     map (\<lambda>c. static_exclusion slot c (slot_constrained diversity slot)
            (slot_governed constraints slot) constraints) (as_candidates slot)"

definition search_input ::
  "AllocationDiversity \<Rightarrow> AllocationSlot list \<Rightarrow> AllocationConstraints \<Rightarrow> VendorCap option \<Rightarrow>
   SearchInput" where
  "search_input diversity slots constraints cap =
     \<lparr>si_slots = slots, si_verdicts = map (slot_verdicts diversity constraints) slots,
      si_constrained = map (slot_constrained diversity) slots,
      si_governed = map (slot_governed constraints) slots, si_cap = cap\<rparr>"

definition unfillable ::
  "AllocationDiversity \<Rightarrow> AllocationConstraints \<Rightarrow> AllocationSlot \<Rightarrow> bool" where
  "unfillable diversity constraints slot \<longleftrightarrow>
     list_all (\<lambda>v. v \<noteq> None) (slot_verdicts diversity constraints slot)"

definition blocked_slot ::
  "AllocationDiversity \<Rightarrow> AllocationConstraints \<Rightarrow> AllocationFailure \<Rightarrow> AllocationSlot \<Rightarrow>
   SlotAllocation" where
  "blocked_slot diversity constraints blocked slot =
     \<lparr>sa_slot_id = as_slot_id slot, sa_role = as_role slot, sa_eligibility = as_eligibility slot,
      sa_selected = None, sa_selected_index = None,
      sa_considered = map2 (\<lambda>c verdict. \<lparr>cc_candidate = c,
          cc_excluded = Some (case verdict of None \<Rightarrow> NoCompleteAllocation | Some v \<Rightarrow> v),
          cc_conflicts_with = None\<rparr>)
        (as_candidates slot) (slot_verdicts diversity constraints slot),
      sa_failure =
        (case blocked of
           NoEligibleCandidate \<Rightarrow>
             if unfillable diversity constraints slot then Some NoEligibleCandidate else None
         | NoDistinctReviewerVendors \<Rightarrow>
             if slot_constrained diversity slot then Some NoDistinctReviewerVendors else None
         | VendorCapExceeded \<Rightarrow>
             if slot_governed constraints slot then Some VendorCapExceeded else None)\<rparr>"

definition allocate_constrained ::
  "AllocationDiversity \<Rightarrow> AllocationSlot list \<Rightarrow> AllocationConstraints \<Rightarrow> JointAllocation" where
  "allocate_constrained diversity slots constraints =
     (let recorded = (if AllocationConstraints_is_empty constraints then None else Some constraints);
          cap = effective_cap constraints;
          inp = search_input diversity slots constraints cap in
      case search_walk inp Search_new of
        (True, st) \<Rightarrow>
          \<lparr>ja_diversity = diversity, ja_slots = receipts inp st, ja_blocked = None,
           ja_constraints = recorded\<rparr>
      | (False, _) \<Rightarrow>
          (let blocked =
             (if list_ex (unfillable diversity constraints) slots then NoEligibleCandidate
              else if cap \<noteq> None
                \<and> fst (search_walk (search_input diversity slots constraints None) Search_new)
              then VendorCapExceeded
              else NoDistinctReviewerVendors) in
           \<lparr>ja_diversity = diversity,
            ja_slots = map (blocked_slot diversity constraints blocked) slots,
            ja_blocked = Some blocked, ja_constraints = recorded\<rparr>))"

definition allocate :: "AllocationDiversity \<Rightarrow> AllocationSlot list \<Rightarrow> JointAllocation" where
  "allocate diversity slots = allocate_constrained diversity slots AllocationConstraints_default"

section \<open>The formal Independent Review\<close>

definition INDEPENDENT_REVIEW_TEMPLATE_ID :: string where
  "INDEPENDENT_REVIEW_TEMPLATE_ID = ''01991c00-0000-7000-8000-000000000001''"

definition INDEPENDENT_REVIEW_CAPPED_VENDOR :: string where
  "INDEPENDENT_REVIEW_CAPPED_VENDOR = ''anthropic''"

definition INDEPENDENT_REVIEW_CAPPED_SEATS :: nat where
  "INDEPENDENT_REVIEW_CAPPED_SEATS = 1"

definition VERDICT_RUNG_LIMIT :: u16 where
  "VERDICT_RUNG_LIMIT = 2"

definition committee_constraints :: "string \<Rightarrow> string list \<Rightarrow> AllocationConstraints" where
  "committee_constraints template_id slot_ids =
     (if template_id \<noteq> INDEPENDENT_REVIEW_TEMPLATE_ID then AllocationConstraints_default
      else \<lparr>cn_slots = slot_ids,
            cn_vendor_cap = Some \<lparr>vc_vendor = INDEPENDENT_REVIEW_CAPPED_VENDOR,
              vc_max = INDEPENDENT_REVIEW_CAPPED_SEATS\<rparr>,
            cn_max_rung = Some VERDICT_RUNG_LIMIT\<rparr>)"

fun split_once :: "char \<Rightarrow> string \<Rightarrow> (string \<times> string) option" where
  "split_once d [] = None"
| "split_once d (c # cs) =
     (if c = d then Some ([], cs)
      else map_option (\<lambda>(a, b). (c # a, b)) (split_once d cs))"

definition strip_prefix :: "string \<Rightarrow> string \<Rightarrow> string option" where
  "strip_prefix p s = (if prefix p s then Some (drop (length p) s) else None)"

definition committee_template_of :: "string \<Rightarrow> string option" where
  "committee_template_of key =
     (case Option.bind (strip_prefix ''committee/'' key) (split_once (CHR ''/'')) of
        None \<Rightarrow> None
      | Some (template, slot) \<Rightarrow>
          if template \<noteq> [] \<and> slot \<noteq> [] \<and> CHR ''/'' \<notin> set slot then Some template else None)"

end
