(* ===== verification/Fleet_Policy.thy ===== *)
theory Fleet_Policy
  imports Fleet_Allocation Command_Receipt
begin

text \<open>
  The fleet policy, \<^verbatim>\<open>crates/kontor-fleet/src/lib.rs\<close> with \<^verbatim>\<open>permissions.rs\<close>, \<^verbatim>\<open>leadership.rs\<close>
  and \<^verbatim>\<open>crates/kontor-core/src/provider.rs\<close>: the document, the rules that refuse it in table order,
  the routes a bound seat key resolves to, the selection of one route under observed health, the
  identity of a route, the consultation permissions and the leadership keys.

  \<^item> A \<open>BTreeMap\<close> is the association list of its entries in key order.
  \<^item> The YAML reader is the argument \<open>yaml\<close>, SHA-256 the argument \<open>hash_of\<close>, and the canonical JSON
    reader of a Core Team revision the argument \<open>revision_of\<close>.
  \<^item> Instants are those of the \<open>jiff\<close> package: \<open>since\<close> is the elapsed time, \<open>from_secs\<close> a duration
    of whole seconds and \<open>add_time\<close> the checked addition.
  \<^item> Lookups that the source writes as an index (\<^verbatim>\<open>domains[&model.domain]\<close>) are read with
    \<open>map_of\<close>; a validated document declares every domain they ask for.
\<close>

section \<open>Providers\<close>

definition PROVIDERS :: "(string \<times> bool) list" where
  "PROVIDERS =
     [(''claude'', True), (''codex'', True), (''cursor'', True), (''opencode'', True),
      (''copilot'', False), (''pi'', False), (''omp'', False), (''glm-acp-agent'', False)]"

definition provider_matches :: "string \<Rightarrow> string \<Rightarrow> bool" where
  "provider_matches provider family \<longleftrightarrow>
     provider = family
     \<or> (case Option.bind (strip_prefix family provider) (strip_prefix ''-'') of
          None \<Rightarrow> False | Some tail \<Rightarrow> tail \<noteq> [])"

definition normalize_provider :: "string \<Rightarrow> string option" where
  "normalize_provider provider =
     (if \<not> (case provider of [] \<Rightarrow> False | c # _ \<Rightarrow> ascii_lowercase c)
         \<or> \<not> list_all (\<lambda>c. ascii_lowercase c \<or> ascii_digit c \<or> c = CHR ''-'') provider
      then None
      else (case filter (\<lambda>(family, _). provider_matches provider family) PROVIDERS of
              [(family, _)] \<Rightarrow> Some family
            | _ \<Rightarrow> None))"

definition provider_family :: "string \<Rightarrow> string" where
  "provider_family provider = (case normalize_provider provider of None \<Rightarrow> provider | Some f \<Rightarrow> f)"

definition fleet_domain_provider :: "string \<Rightarrow> bool" where
  "fleet_domain_provider provider \<longleftrightarrow> list_ex (\<lambda>(family, fleet). family = provider \<and> fleet) PROVIDERS"

section \<open>Efforts, content hashes and slot ids\<close>

primrec EffortLevel_as_str :: "EffortLevel \<Rightarrow> string" where
  "EffortLevel_as_str EffortLevel.Off = ''off''"
| "EffortLevel_as_str EffortLevel.Low = ''low''"
| "EffortLevel_as_str EffortLevel.Medium = ''medium''"
| "EffortLevel_as_str EffortLevel.High = ''high''"
| "EffortLevel_as_str EffortLevel.Xhigh = ''xhigh''"
| "EffortLevel_as_str EffortLevel.MaxEffort = ''max''"
| "EffortLevel_as_str EffortLevel.Ultra = ''ultra''"
| "EffortLevel_as_str EffortLevel.Ultracode = ''ultracode''"

definition parse_effort :: "string \<Rightarrow> EffortLevel DomainResult" where
  "parse_effort effort =
     (if effort = ''off'' then Inr EffortLevel.Off
      else if effort = ''low'' then Inr EffortLevel.Low
      else if effort = ''medium'' then Inr EffortLevel.Medium
      else if effort = ''high'' then Inr EffortLevel.High
      else if effort = ''xhigh'' then Inr EffortLevel.Xhigh
      else if effort = ''max'' then Inr EffortLevel.MaxEffort
      else if effort = ''ultra'' then Inr EffortLevel.Ultra
      else if effort = ''ultracode'' then Inr EffortLevel.Ultracode
      else Inl (Invalid ''ModelRung'' ''effort is not in the runtime effort vocabulary''))"

definition ContentHash_parse :: "string \<Rightarrow> content_hash DomainResult" where
  "ContentHash_parse txt =
     (if length txt \<noteq> 64
         \<or> \<not> list_all (\<lambda>c. ascii_digit c \<or> CHR ''a'' \<le> c \<and> c \<le> CHR ''f'') txt
      then Inl (Invalid ''ContentHash'' ''must be 64 lowercase hexadecimal characters'')
      else Inr txt)"

definition RoleSlotId_parse :: "string \<Rightarrow> string DomainResult" where
  "RoleSlotId_parse txt = try_bind (validate_open_key ''RoleKey'' txt) (\<lambda>_. Inr txt)"

section \<open>Rules and errors\<close>

definition MAX_FILE_BYTES :: nat where "MAX_FILE_BYTES = 256 * 1024"
definition MAX_STEPS :: nat where "MAX_STEPS = 16"
definition MAX_ROUTES :: nat where "MAX_ROUTES = 64"

definition F04 :: string where
  "F04 = ''fleet.yml exceeds 256 KiB''"

definition V01 :: string where
  "V01 = ''schema_version must be 1''"

definition V02 :: string where
  "V02 = ''a domain name must be a lowercase slug''"

definition V03 :: string where
  "V03 = ''a domain provider must be claude, codex, cursor or opencode''"

definition V04 :: string where
  "V04 = ''a domain must list at least one account''"

definition V05 :: string where
  "V05 = ''an account alias must be its domain's provider or start with the provider and a hyphen''"

definition V06 :: string where
  "V06 = ''a domain lists an account twice''"

definition V07 :: string where
  "V07 = ''domains that share an account must each declare a different model prefix''"

definition V08 :: string where
  "V08 = ''a model name must be a lowercase slug''"

definition V09 :: string where
  "V09 = ''a model names an unknown domain''"

definition V10 :: string where
  "V10 = ''a model id must be non-empty and start with its domain's model prefix''"

definition V11 :: string where
  "V11 = ''a model vendor must be a lowercase slug''"

definition V12 :: string where
  "V12 = ''a model effort is not in the runtime effort vocabulary''"

definition V13 :: string where
  "V13 = ''a model lists an effort twice''"

definition V15 :: string where
  "V15 = ''a chain name must be a lowercase slug''"

definition V16 :: string where
  "V16 = ''a chain must have 1 to 16 non-empty steps''"

definition V17 :: string where
  "V17 = ''a chain entry names an unknown model''"

definition V18 :: string where
  "V18 = ''a chain entry effort does not match the model's efforts''"

definition V19 :: string where
  "V19 = ''every entry in one step must use the same domain''"

definition V20 :: string where
  "V20 = ''a chain uses the same domain in two steps''"

definition V21 :: string where
  "V21 = ''a chain repeats a model''"

definition V22 :: string where
  "V22 = ''a chain flattens to more than 64 routes''"

definition V23 :: string where
  "V23 = ''a binding key must be team/<id>/<slot>, committee/<id>/<slot> or advisor/<id>''"

definition V24 :: string where
  "V24 = ''a binding names an unknown chain''"

definition V25 :: string where
  "V25 = ''a Committee, Advisor or independent seat chain may not use a model with vendor unknown''"

definition V26 :: string where
  "V26 = ''an unavailable domain is not declared''"

definition V27 :: string where
  "V27 = ''an unavailable account is not in any domain''"

definition V28 :: string where
  "V28 = ''a rule names a seat key that has no binding''"

definition V29 :: string where
  "V29 = ''a seat cannot be independent of itself''"

definition V30 :: string where
  "V30 = ''independent_of pairs must be two seats of the same team template''"

definition V31 :: string where
  "V31 = ''schema_version must be 1 or 2''"

definition V32 :: string where
  "V32 = ''a binding key must be team/<id>/<slot>, committee/<id>/<slot>, advisor/<id> or leadership/<core-team-revision-hash>/<role-slot-id>''"

definition V33 :: string where
  "V33 = ''a fleet policy value must not carry credential material, a filesystem path or an email address''"

definition P07 :: string where
  "P07 = ''a published fleet policy does not hash to its content address''"

definition A09 :: string where
  "A09 = ''the activated fleet policy's schema_version differs from its activation record''"

definition L01 :: string where
  "L01 = ''a leadership key needs the canonical document of a complete Core Team revision''"

definition L02 :: string where
  "L02 = ''a leadership seat must occur exactly once in its pinned Core Team revision''"

definition L03 :: string where
  "L03 = ''a leadership seat's role must match the frozen role snapshot of its slot''"

definition DUPLICATE_NATIVE_ID :: string where
  "DUPLICATE_NATIVE_ID = ''models contain a duplicate native model id within one domain''"

definition PERMISSION_FIELD :: string where
  "PERMISSION_FIELD = ''consultation_permissions must name an exact declared account, symbolic model, supported effort and plan mode on a permission_eligible model in schema_version 2, without duplicates''"

datatype FleetError =
    FleetRead | FleetWrite | MalformedDocument | MalformedPolicy | FleetInvalid string

type_synonym 'a FleetResult = "FleetError + 'a"

datatype Reader = FleetReader | PolicyReader

datatype Schema = SchemaV1 | SchemaV2

text \<open>A refusal by rule, a run of checks, and a loop that inserts into a set and refuses a repeat.\<close>

definition hold_rule :: "bool \<Rightarrow> string \<Rightarrow> unit FleetResult" where
  "hold_rule ok rule = (if ok then Inr () else Inl (FleetInvalid rule))"

fun run_checks :: "unit FleetResult list \<Rightarrow> unit FleetResult" where
  "run_checks [] = Inr ()"
| "run_checks (c # cs) = try_bind c (\<lambda>_. run_checks cs)"

fun try_fresh :: "('a \<Rightarrow> 'b) \<Rightarrow> string \<Rightarrow> 'b list \<Rightarrow> 'a list \<Rightarrow> unit FleetResult" where
  "try_fresh key rule seen [] = Inr ()"
| "try_fresh key rule seen (x # xs) =
     (if key x \<in> set seen then Inl (FleetInvalid rule)
      else try_fresh key rule (key x # seen) xs)"

text \<open>A loop over the pairs of an element and a later one.\<close>

fun try_pairs :: "('a \<Rightarrow> 'a \<Rightarrow> unit FleetResult) \<Rightarrow> 'a list \<Rightarrow> unit FleetResult" where
  "try_pairs f [] = Inr ()"
| "try_pairs f (x # xs) = try_bind (try_each (f x) xs) (\<lambda>_. try_pairs f xs)"

section \<open>The document\<close>

record DomainSpec =
  ds_provider :: string
  ds_accounts :: "string list"
  ds_model_prefix :: "string option"

record ModelSpec =
  ms_domain :: string
  ms_id :: string
  ms_vendor :: string
  ms_efforts :: "string list"
  ms_vision :: bool
  ms_calibrated :: bool
  ms_permission_eligible :: bool

record UnavailableSpec =
  us_domains :: "string list"
  us_accounts :: "string list"

record RulesSpec =
  ru_calibration_required :: "string list"
  ru_vision_required :: "string list"
  ru_independent_of :: "(string \<times> string) list"

record PermissionSpec =
  ps_account :: string
  ps_model :: string
  ps_effort :: "EffortLevel option"
  ps_mode :: string

record FleetDocument =
  fd_schema_version :: u32
  fd_domains :: "(string \<times> DomainSpec) list"
  fd_unavailable :: UnavailableSpec
  fd_models :: "(string \<times> ModelSpec) list"
  fd_chains :: "(string \<times> string list list) list"
  fd_bindings :: "(string \<times> string) list"
  fd_rules :: RulesSpec
  fd_consultation_permissions :: "PermissionSpec list"

section \<open>Names and keys\<close>

definition entry_parts :: "string \<Rightarrow> string \<times> string option" where
  "entry_parts entry =
     (case split_once (CHR ''@'') entry of
        None \<Rightarrow> (entry, None)
      | Some (model, effort) \<Rightarrow> (model, Some effort))"

definition effort_matches :: "string option \<Rightarrow> string list \<Rightarrow> bool" where
  "effort_matches effort model_efforts \<longleftrightarrow>
     (case effort of
        None \<Rightarrow> model_efforts = []
      | Some entry \<Rightarrow> model_efforts \<noteq> [] \<and> entry \<in> set model_efforts)"

definition is_generic_slug :: "string \<Rightarrow> bool" where
  "is_generic_slug name \<longleftrightarrow>
     (case name of
        [] \<Rightarrow> False
      | first # rest \<Rightarrow> ascii_lowercase first \<and> length name \<le> 32
          \<and> list_all (\<lambda>c. ascii_lowercase c \<or> ascii_digit c \<or> c = CHR ''-'') rest)"

definition is_model_slug :: "string \<Rightarrow> bool" where
  "is_model_slug name \<longleftrightarrow>
     (case name of
        [] \<Rightarrow> False
      | first # rest \<Rightarrow> (ascii_lowercase first \<or> ascii_digit first) \<and> length name \<le> 48
          \<and> list_all (\<lambda>c. ascii_lowercase c \<or> ascii_digit c \<or> c = CHR ''.'' \<or> c = CHR ''-'') rest)"

definition is_key_segment :: "string \<Rightarrow> bool" where
  "is_key_segment segment \<longleftrightarrow>
     segment \<noteq> []
     \<and> list_all (\<lambda>c. alphanumeric c \<or> c \<in> {CHR ''.'', CHR ''_'', CHR ''-''}) segment"

definition is_binding_key :: "string \<Rightarrow> bool" where
  "is_binding_key key \<longleftrightarrow>
     (case split_char (CHR ''/'') key of
        [kind, first] \<Rightarrow> kind = ''advisor'' \<and> is_key_segment first
      | [kind, first, second] \<Rightarrow>
          (kind = ''team'' \<or> kind = ''committee'') \<and> is_key_segment first \<and> is_key_segment second
      | _ \<Rightarrow> False)"

definition is_leadership_key :: "string \<Rightarrow> bool" where
  "is_leadership_key key \<longleftrightarrow>
     (case split_char (CHR ''/'') key of
        [kind, hash, slot] \<Rightarrow> kind = ''leadership''
          \<and> \<not> isl (ContentHash_parse hash) \<and> \<not> isl (RoleSlotId_parse slot)
      | _ \<Rightarrow> False)"

definition team_template :: "string \<Rightarrow> string option" where
  "team_template key =
     (case split_char (CHR ''/'') key of
        [kind, template, _] \<Rightarrow> if kind = ''team'' then Some template else None
      | _ \<Rightarrow> None)"

definition same_team_template :: "string \<Rightarrow> string \<Rightarrow> bool" where
  "same_team_template first second \<longleftrightarrow>
     (case (team_template first, team_template second) of
        (Some one, Some two) \<Rightarrow> one = two
      | _ \<Rightarrow> False)"

definition Schema_accepts_key :: "Schema \<Rightarrow> string \<Rightarrow> bool" where
  "Schema_accepts_key s key \<longleftrightarrow>
     (case s of
        SchemaV1 \<Rightarrow> is_binding_key key
      | SchemaV2 \<Rightarrow> is_binding_key key \<or> is_leadership_key key)"

definition Schema_key_rule :: "Schema \<Rightarrow> string" where
  "Schema_key_rule s = (case s of SchemaV1 \<Rightarrow> V23 | SchemaV2 \<Rightarrow> V32)"

definition team_key :: "string \<Rightarrow> string \<Rightarrow> string" where
  "team_key template_id slot = ''team/'' @ template_id @ ''/'' @ slot"

definition committee_key :: "string \<Rightarrow> string \<Rightarrow> string" where
  "committee_key template_id slot = ''committee/'' @ template_id @ ''/'' @ slot"

definition advisor_key :: "string \<Rightarrow> string" where
  "advisor_key profile_id = ''advisor/'' @ profile_id"

section \<open>Validation\<close>

definition account_named :: "Schema \<Rightarrow> DomainSpec \<Rightarrow> string \<Rightarrow> bool" where
  "account_named schema domain account \<longleftrightarrow>
     (if schema = SchemaV1
      then account = ds_provider domain
        \<or> (case strip_prefix (ds_provider domain) account of
             None \<Rightarrow> False | Some tail \<Rightarrow> prefix ''-'' tail)
      else normalize_provider account = Some (ds_provider domain))"

definition shared_apart :: "DomainSpec \<Rightarrow> DomainSpec \<Rightarrow> bool" where
  "shared_apart one two \<longleftrightarrow>
     (if list_ex (\<lambda>account. account \<in> set (ds_accounts two)) (ds_accounts one)
      then ds_model_prefix one \<noteq> None \<and> ds_model_prefix two \<noteq> None
        \<and> ds_model_prefix one \<noteq> ds_model_prefix two
      else True)"

definition validate_domains :: "FleetDocument \<Rightarrow> Schema \<Rightarrow> unit FleetResult" where
  "validate_domains d schema =
     (let domains = map snd (fd_domains d) in
      run_checks
       [try_each (\<lambda>name. hold_rule (is_generic_slug name) V02) (map fst (fd_domains d)),
        try_each (\<lambda>domain. hold_rule (fleet_domain_provider (ds_provider domain)) V03) domains,
        try_each (\<lambda>domain. hold_rule (ds_accounts domain \<noteq> []) V04) domains,
        try_each (\<lambda>domain. try_each (\<lambda>account. hold_rule (account_named schema domain account) V05)
          (ds_accounts domain)) domains,
        try_each (\<lambda>domain. hold_rule (length (remdups (ds_accounts domain)) = length (ds_accounts domain))
          V06) domains,
        try_pairs (\<lambda>one two. hold_rule (shared_apart one two) V07) domains])"

definition validate_models :: "FleetDocument \<Rightarrow> unit FleetResult" where
  "validate_models d =
     (let models = map snd (fd_models d) in
      run_checks
       [try_fresh (\<lambda>m. (ms_domain m, ms_id m)) DUPLICATE_NATIVE_ID [] models,
        try_each (\<lambda>name. hold_rule (is_model_slug name) V08) (map fst (fd_models d)),
        try_each (\<lambda>m. hold_rule (ms_domain m \<in> set (map fst (fd_domains d))) V09) models,
        try_each (\<lambda>m. case map_of (fd_domains d) (ms_domain m) of
            None \<Rightarrow> Inl (FleetInvalid V09)
          | Some domain \<Rightarrow>
              (let prefixed = (case ds_model_prefix domain of
                     None \<Rightarrow> False | Some p \<Rightarrow> \<not> prefix p (ms_id m)) in
               hold_rule (\<not> (ms_id m = [] \<or> prefixed)) V10)) models,
        try_each (\<lambda>m. hold_rule (is_generic_slug (ms_vendor m)) V11) models,
        try_each (\<lambda>m. hold_rule (\<not> list_ex (\<lambda>effort. isl (parse_effort effort)) (ms_efforts m)) V12) models,
        try_each (\<lambda>m. hold_rule (length (remdups (ms_efforts m)) = length (ms_efforts m)) V13) models])"

definition entry_model :: "FleetDocument \<Rightarrow> string \<Rightarrow> ModelSpec option" where
  "entry_model d entry = map_of (fd_models d) (fst (entry_parts entry))"

text \<open>V-19: the entries of one step share a domain.\<close>

fun one_domain :: "FleetDocument \<Rightarrow> string option \<Rightarrow> string list \<Rightarrow> unit FleetResult" where
  "one_domain d current [] = Inr ()"
| "one_domain d current (entry # rest) =
     (case entry_model d entry of
        None \<Rightarrow> Inl (FleetInvalid V17)
      | Some m \<Rightarrow>
          (case current of
             None \<Rightarrow> one_domain d (Some (ms_domain m)) rest
           | Some c \<Rightarrow> if c = ms_domain m then one_domain d current rest
                       else Inl (FleetInvalid V19)))"

text \<open>V-20: no domain serves two steps.\<close>

fun domain_once :: "FleetDocument \<Rightarrow> string list \<Rightarrow> string list list \<Rightarrow> unit FleetResult" where
  "domain_once d used [] = Inr ()"
| "domain_once d used (step # rest) =
     (case (case step of [] \<Rightarrow> None | entry # _ \<Rightarrow> entry_model d entry) of
        None \<Rightarrow> Inl (FleetInvalid V17)
      | Some m \<Rightarrow>
          if ms_domain m \<in> set used then Inl (FleetInvalid V20)
          else domain_once d (ms_domain m # used) rest)"

text \<open>V-22: the flattened routes of a chain, counted with saturation.\<close>

fun count_routes :: "FleetDocument \<Rightarrow> nat \<Rightarrow> string list \<Rightarrow> nat FleetResult" where
  "count_routes d n [] = Inr n"
| "count_routes d n (entry # rest) =
     (case entry_model d entry of
        None \<Rightarrow> Inl (FleetInvalid V17)
      | Some m \<Rightarrow>
          count_routes d (min (2 ^ 64 - 1) (n +
            (case map_of (fd_domains d) (ms_domain m) of
               None \<Rightarrow> 0 | Some domain \<Rightarrow> length (ds_accounts domain)))) rest)"

definition validate_chains :: "FleetDocument \<Rightarrow> unit FleetResult" where
  "validate_chains d =
     (let chains = map snd (fd_chains d) in
      run_checks
       [try_each (\<lambda>name. hold_rule (is_generic_slug name) V15) (map fst (fd_chains d)),
        try_each (\<lambda>steps. hold_rule (\<not> (steps = [] \<or> length steps > MAX_STEPS
          \<or> list_ex (\<lambda>step. step = []) steps)) V16) chains,
        try_each (\<lambda>steps. try_each (\<lambda>entry.
          hold_rule (fst (entry_parts entry) \<in> set (map fst (fd_models d))) V17) (concat steps)) chains,
        try_each (\<lambda>steps. try_each (\<lambda>entry. case entry_model d entry of
            None \<Rightarrow> Inl (FleetInvalid V17)
          | Some m \<Rightarrow> hold_rule (effort_matches (snd (entry_parts entry)) (ms_efforts m)) V18)
          (concat steps)) chains,
        try_each (\<lambda>steps. try_each (one_domain d None) steps) chains,
        try_each (\<lambda>steps. domain_once d [] steps) chains,
        try_each (\<lambda>steps. try_fresh entry_parts V21 [] (concat steps)) chains,
        try_each (\<lambda>steps. try_bind (count_routes d 0 (concat steps))
          (\<lambda>n. hold_rule (\<not> n > MAX_ROUTES) V22)) chains])"

definition chain_has_unknown_vendor :: "FleetDocument \<Rightarrow> string list list \<Rightarrow> bool" where
  "chain_has_unknown_vendor d steps \<longleftrightarrow>
     list_ex (\<lambda>entry. case entry_model d entry of
        None \<Rightarrow> False | Some m \<Rightarrow> ms_vendor m = ''unknown'') (concat steps)"

definition independent_seats :: "FleetDocument \<Rightarrow> string list" where
  "independent_seats d = concat (map (\<lambda>(key, other). [key, other]) (ru_independent_of (fd_rules d)))"

definition check_known_vendors :: "FleetDocument \<Rightarrow> string \<Rightarrow> unit FleetResult" where
  "check_known_vendors d key =
     (if \<not> (prefix ''committee/'' key \<or> prefix ''advisor/'' key \<or> key \<in> set (independent_seats d))
      then Inr ()
      else (case map_of (fd_bindings d) key of
              None \<Rightarrow> Inr ()
            | Some chain \<Rightarrow>
                (case map_of (fd_chains d) chain of
                   None \<Rightarrow> Inr ()
                 | Some steps \<Rightarrow> hold_rule (\<not> chain_has_unknown_vendor d steps) V25)))"

definition validate_bindings :: "FleetDocument \<Rightarrow> Schema \<Rightarrow> unit FleetResult" where
  "validate_bindings d schema =
     run_checks
       [try_each (\<lambda>key. hold_rule (Schema_accepts_key schema key) (Schema_key_rule schema))
          (map fst (fd_bindings d)),
        try_each (\<lambda>chain. hold_rule (chain \<in> set (map fst (fd_chains d))) V24) (map snd (fd_bindings d)),
        try_each (check_known_vendors d) (map fst (fd_bindings d))]"

definition validate_unavailable :: "FleetDocument \<Rightarrow> unit FleetResult" where
  "validate_unavailable d =
     run_checks
       [try_each (\<lambda>domain. hold_rule (domain \<in> set (map fst (fd_domains d))) V26)
          (us_domains (fd_unavailable d)),
        try_each (\<lambda>account. hold_rule
            (account \<in> set (concat (map (\<lambda>(_, domain). ds_accounts domain) (fd_domains d)))) V27)
          (us_accounts (fd_unavailable d))]"

definition validate_rules :: "FleetDocument \<Rightarrow> unit FleetResult" where
  "validate_rules d =
     (let bound = (\<lambda>key. key \<in> set (map fst (fd_bindings d))); rules = fd_rules d in
      run_checks
       [try_each (\<lambda>key. hold_rule (bound key) V28)
          (ru_calibration_required rules @ ru_vision_required rules),
        try_each (\<lambda>(key, other). hold_rule (\<not> (\<not> bound key \<or> \<not> bound other)) V28)
          (ru_independent_of rules),
        try_each (\<lambda>(key, other). hold_rule (key \<noteq> other) V29) (ru_independent_of rules),
        try_each (\<lambda>(key, other). hold_rule (same_team_template key other) V30) (ru_independent_of rules)])"

text \<open>\<^verbatim>\<open>permissions.rs\<close>\<close>

definition has_wildcard :: "string \<Rightarrow> bool" where
  "has_wildcard s \<longleftrightarrow> list_ex (\<lambda>c. c \<in> {CHR ''*'', CHR ''?'', CHR ''['', CHR '']''}) s"

definition permission_matches :: "FleetDocument \<Rightarrow> PermissionSpec \<Rightarrow> ModelSpec \<Rightarrow> nat" where
  "permission_matches d p model =
     length (filter (\<lambda>(_, candidate). ms_id candidate = ms_id model
       \<and> (case map_of (fd_domains d) (ms_domain candidate) of
            None \<Rightarrow> False | Some domain \<Rightarrow> ps_account p \<in> set (ds_accounts domain))) (fd_models d))"

definition permission_refused :: "FleetDocument \<Rightarrow> PermissionSpec \<Rightarrow> ModelSpec \<Rightarrow> DomainSpec \<Rightarrow> bool" where
  "permission_refused d p model domain \<longleftrightarrow>
     ps_mode p \<noteq> ''plan''
     \<or> permission_matches d p model \<noteq> 1
     \<or> \<not> ms_permission_eligible model
     \<or> \<not> (normalize_provider (ps_account p) = Some ''cursor''
          \<or> normalize_provider (ps_account p) = Some ''opencode'')
     \<or> normalize_provider (ps_account p) \<noteq> Some (ds_provider domain)
     \<or> ps_account p \<notin> set (ds_accounts domain)
     \<or> has_wildcard (ps_account p)
     \<or> has_wildcard (ms_id model)
     \<or> ms_vendor model = ''unknown''
     \<or> (case ps_effort p of
          Some effort \<Rightarrow> EffortLevel_as_str effort \<notin> set (ms_efforts model)
        | None \<Rightarrow> ms_efforts model \<noteq> [])"

fun validate_each_permission ::
  "FleetDocument \<Rightarrow> (string \<times> string \<times> string option) list \<Rightarrow> PermissionSpec list \<Rightarrow> unit FleetResult" where
  "validate_each_permission d seen [] = Inr ()"
| "validate_each_permission d seen (p # rest) =
     (case map_of (fd_models d) (ps_model p) of
        None \<Rightarrow> Inl (FleetInvalid PERMISSION_FIELD)
      | Some model \<Rightarrow>
          (case map_of (fd_domains d) (ms_domain model) of
             None \<Rightarrow> Inl (FleetInvalid PERMISSION_FIELD)
           | Some domain \<Rightarrow>
               (let identity = (ps_account p, ms_id model, map_option EffortLevel_as_str (ps_effort p)) in
                if permission_refused d p model domain \<or> identity \<in> set seen
                then Inl (FleetInvalid PERMISSION_FIELD)
                else validate_each_permission d (identity # seen) rest)))"

definition permissions_validate :: "FleetDocument \<Rightarrow> Schema \<Rightarrow> unit FleetResult" where
  "permissions_validate d schema =
     (if fd_consultation_permissions d \<noteq> [] \<and> schema \<noteq> SchemaV2 then Inl (FleetInvalid PERMISSION_FIELD)
      else validate_each_permission d [] (fd_consultation_permissions d))"

definition FleetDocument_validate :: "FleetDocument \<Rightarrow> Schema \<Rightarrow> unit FleetResult" where
  "FleetDocument_validate d schema =
     run_checks [validate_domains d schema, validate_models d, validate_chains d,
       validate_bindings d schema, validate_unavailable d, validate_rules d,
       permissions_validate d schema]"

definition policy_values :: "FleetDocument \<Rightarrow> string list" where
  "policy_values d =
     concat (map (\<lambda>(name, domain). [name, ds_provider domain] @ ds_accounts domain
       @ (case ds_model_prefix domain of None \<Rightarrow> [] | Some p \<Rightarrow> [p])) (fd_domains d))
     @ us_domains (fd_unavailable d) @ us_accounts (fd_unavailable d)
     @ concat (map (\<lambda>(name, m). [name, ms_domain m, ms_id m, ms_vendor m] @ ms_efforts m) (fd_models d))
     @ concat (map (\<lambda>(name, steps). name # concat (map (\<lambda>entry. case entry_parts entry of
          (model, effort) \<Rightarrow> model # (case effort of None \<Rightarrow> [] | Some e \<Rightarrow> [e])) (concat steps)))
         (fd_chains d))
     @ concat (map (\<lambda>(key, chain). [key, chain]) (fd_bindings d))
     @ ru_calibration_required (fd_rules d) @ ru_vision_required (fd_rules d)
     @ concat (map (\<lambda>(key, other). [key, other]) (ru_independent_of (fd_rules d)))"

definition value_publishable :: "string \<Rightarrow> bool" where
  "value_publishable v \<longleftrightarrow>
     \<not> (prefix ''/'' v \<or> prefix ''~'' v \<or> CHR 0x5C \<in> set v)
     \<and> CHR ''@'' \<notin> set v \<and> \<not> isl (reject_sensitive_text ''fleet'' v)"

definition validate_publishable :: "FleetDocument \<Rightarrow> unit FleetResult" where
  "validate_publishable d = try_each (\<lambda>v. hold_rule (value_publishable v) V33) (policy_values d)"

section \<open>Snapshots\<close>

record FleetSnapshot =
  fs_document :: FleetDocument
  fs_raw :: string
  fs_hash :: content_hash

definition FleetSnapshot_read ::
  "(string \<Rightarrow> FleetDocument option) \<Rightarrow> (string \<Rightarrow> content_hash) \<Rightarrow> string \<Rightarrow> Reader \<Rightarrow>
   FleetSnapshot FleetResult" where
  "FleetSnapshot_read yaml hash_of document reader =
     (if length document > MAX_FILE_BYTES then Inl (FleetInvalid F04)
      else (case yaml document of
        None \<Rightarrow> Inl (case reader of FleetReader \<Rightarrow> MalformedDocument | PolicyReader \<Rightarrow> MalformedPolicy)
      | Some parsed \<Rightarrow>
          try_bind
            (if fd_schema_version parsed = 1 then Inr SchemaV1
             else (case reader of
                     PolicyReader \<Rightarrow> if fd_schema_version parsed = 2 then Inr SchemaV2
                       else Inl (FleetInvalid V31)
                   | FleetReader \<Rightarrow> Inl (FleetInvalid V01)))
            (\<lambda>schema.
              try_bind (if reader = PolicyReader then validate_publishable parsed else Inr ()) (\<lambda>_.
              try_bind (FleetDocument_validate parsed schema) (\<lambda>_.
                Inr \<lparr>fs_document = parsed, fs_raw = document, fs_hash = hash_of document\<rparr>)))))"

definition FleetSnapshot_parse ::
  "(string \<Rightarrow> FleetDocument option) \<Rightarrow> (string \<Rightarrow> content_hash) \<Rightarrow> string \<Rightarrow> FleetSnapshot FleetResult" where
  "FleetSnapshot_parse yaml hash_of document = FleetSnapshot_read yaml hash_of document FleetReader"

definition FleetSnapshot_parse_policy ::
  "(string \<Rightarrow> FleetDocument option) \<Rightarrow> (string \<Rightarrow> content_hash) \<Rightarrow> string \<Rightarrow> FleetSnapshot FleetResult" where
  "FleetSnapshot_parse_policy yaml hash_of document = FleetSnapshot_read yaml hash_of document PolicyReader"

definition FleetSnapshot_published ::
  "(string \<Rightarrow> FleetDocument option) \<Rightarrow> (string \<Rightarrow> content_hash) \<Rightarrow> content_hash \<Rightarrow> string \<Rightarrow>
   FleetSnapshot FleetResult" where
  "FleetSnapshot_published yaml hash_of hash document =
     (if hash_of document \<noteq> hash then Inl (FleetInvalid P07)
      else FleetSnapshot_parse_policy yaml hash_of document)"

definition FleetSnapshot_schema_version :: "FleetSnapshot \<Rightarrow> u32" where
  "FleetSnapshot_schema_version s = fd_schema_version (fs_document s)"

definition FleetSnapshot_activated ::
  "(string \<Rightarrow> FleetDocument option) \<Rightarrow> (string \<Rightarrow> content_hash) \<Rightarrow> content_hash \<Rightarrow> u32 \<Rightarrow> string \<Rightarrow>
   FleetSnapshot FleetResult" where
  "FleetSnapshot_activated yaml hash_of hash schema_version document =
     try_bind (FleetSnapshot_published yaml hash_of hash document) (\<lambda>snapshot.
       if FleetSnapshot_schema_version snapshot \<noteq> schema_version then Inl (FleetInvalid A09)
       else Inr snapshot)"

section \<open>Resolution\<close>

record FleetRoute =
  fr_rung :: ModelRung
  fr_step :: u16
  fr_sub_step :: u16
  fr_vendor :: string

record FleetProvenance =
  fp_policy_hash :: content_hash
  fp_schema_version :: u32
  fp_binding_key :: string
  fp_chain :: string

datatype ExclusionReason =
    UnavailableDomain | UnavailableAccount | NotCalibrated | NoVision | RouteAccountUnavailableNow |
    RouteVendorExcluded | RouteUnobserved | RouteHealthUnknown | RouteHealthStale | RouteUnavailableNow

record PolicyExclusion =
  pe_step :: u16
  pe_model :: string
  pe_account :: "string option"
  pe_reason :: ExclusionReason

record FleetResolution =
  fx_provenance :: FleetProvenance
  fx_routes :: "FleetRoute list"
  fx_excluded :: "PolicyExclusion list"

definition step_number :: "nat \<Rightarrow> u16" where
  "step_number index = (if index + 1 < 2 ^ 16 then of_nat (index + 1) else - 1)"

definition whole_model :: "FleetDocument \<Rightarrow> bool \<Rightarrow> bool \<Rightarrow> ModelSpec \<Rightarrow> ExclusionReason option" where
  "whole_model d calibration vision model =
     (if ms_domain model \<in> set (us_domains (fd_unavailable d)) then Some UnavailableDomain
      else if calibration \<and> \<not> ms_calibrated model then Some NotCalibrated
      else if vision \<and> \<not> ms_vision model then Some NoVision
      else None)"

definition entry_effort :: "string \<Rightarrow> EffortLevel option" where
  "entry_effort entry =
     (case snd (entry_parts entry) of
        None \<Rightarrow> None
      | Some txt \<Rightarrow> (case parse_effort txt of Inl _ \<Rightarrow> None | Inr effort \<Rightarrow> Some effort))"

text \<open>The loops over the accounts of an entry, the entries of a step and the steps of a chain; the
  state is the counter of the step, the routes and the exclusions so far.\<close>

type_synonym resolving = "u16 \<times> FleetRoute list \<times> PolicyExclusion list"

definition resolve_account ::
  "FleetDocument \<Rightarrow> u16 \<Rightarrow> ModelSpec \<Rightarrow> EffortLevel option \<Rightarrow> string \<Rightarrow> resolving \<Rightarrow> resolving" where
  "resolve_account d step model effort account = (\<lambda>(sub_step, routes, excluded).
     if account \<in> set (us_accounts (fd_unavailable d))
     then (sub_step, routes, excluded @ [\<lparr>pe_step = step, pe_model = ms_id model,
             pe_account = Some account, pe_reason = UnavailableAccount\<rparr>])
     else (let sub = saturating_add sub_step 1 in
           (sub, routes @ [\<lparr>fr_rung = \<lparr>mr_provider = account, mr_model = ms_id model, mr_effort = effort\<rparr>,
              fr_step = step, fr_sub_step = sub, fr_vendor = ms_vendor model\<rparr>], excluded)))"

definition resolve_entry ::
  "FleetDocument \<Rightarrow> bool \<Rightarrow> bool \<Rightarrow> u16 \<Rightarrow> string \<Rightarrow> resolving \<Rightarrow> resolving" where
  "resolve_entry d calibration vision step entry acc =
     (case entry_model d entry of
        None \<Rightarrow> acc
      | Some model \<Rightarrow>
          (case whole_model d calibration vision model of
             Some reason \<Rightarrow>
               (case acc of (sub_step, routes, excluded) \<Rightarrow>
                  (sub_step, routes, excluded @ [\<lparr>pe_step = step, pe_model = ms_id model,
                     pe_account = None, pe_reason = reason\<rparr>]))
           | None \<Rightarrow>
               (case map_of (fd_domains d) (ms_domain model) of
                  None \<Rightarrow> acc
                | Some domain \<Rightarrow>
                    fold (resolve_account d step model (entry_effort entry)) (ds_accounts domain) acc)))"

definition resolve_step ::
  "FleetDocument \<Rightarrow> bool \<Rightarrow> bool \<Rightarrow> nat \<times> string list \<Rightarrow> FleetRoute list \<times> PolicyExclusion list \<Rightarrow>
   FleetRoute list \<times> PolicyExclusion list" where
  "resolve_step d calibration vision = (\<lambda>(index, step) (routes, excluded).
     snd (fold (resolve_entry d calibration vision (step_number index)) step (0, routes, excluded)))"

definition resolve_bound :: "FleetSnapshot \<Rightarrow> string \<Rightarrow> FleetResolution option" where
  "resolve_bound s key =
     (let d = fs_document s in
      case map_of (fd_bindings d) key of
        None \<Rightarrow> None
      | Some chain_name \<Rightarrow>
          (case map_of (fd_chains d) chain_name of
             None \<Rightarrow> None
           | Some chain \<Rightarrow>
               (let calibration = key \<in> set (ru_calibration_required (fd_rules d));
                    vision = key \<in> set (ru_vision_required (fd_rules d)) in
                case fold (resolve_step d calibration vision) (List.enumerate 0 chain) ([], []) of
                  (routes, excluded) \<Rightarrow>
                    Some \<lparr>fx_provenance = \<lparr>fp_policy_hash = fs_hash s,
                            fp_schema_version = fd_schema_version d, fp_binding_key = key,
                            fp_chain = chain_name\<rparr>,
                          fx_routes = routes, fx_excluded = excluded\<rparr>)))"

definition FleetSnapshot_resolve :: "FleetSnapshot \<Rightarrow> string \<Rightarrow> FleetResolution option" where
  "FleetSnapshot_resolve s key = (if \<not> is_binding_key key then None else resolve_bound s key)"

definition routes_for :: "FleetSnapshot \<Rightarrow> string \<Rightarrow> FleetRoute list option" where
  "routes_for s key = map_option fx_routes (FleetSnapshot_resolve s key)"

definition route_for :: "FleetResolution \<Rightarrow> ModelRung \<Rightarrow> FleetRoute option" where
  "route_for r rung = find (\<lambda>route. fr_rung route = rung) (fx_routes r)"

section \<open>Selection\<close>

datatype RouteHealthState = HealthAvailable | HealthUnavailable | HealthUnknown

record RouteObservation =
  rb_account :: string
  rb_model :: string
  rb_effort :: "EffortLevel option"
  rb_mode :: "string option"
  rb_state :: RouteHealthState
  rb_observed_at :: timestamp
  rb_revision :: string

record RouteHealth =
  rh_as_of :: timestamp
  rh_max_age_seconds :: u32
  rh_mode :: "string option"
  rh_observations :: "RouteObservation list"

record RouteValidity =
  rv_observed_at :: timestamp
  rv_valid_until :: timestamp

text \<open>The instant arithmetic a health verdict reads.\<close>

record clock_ops =
  ck_since :: since
  ck_from_secs :: "nat \<Rightarrow> duration"
  ck_add :: "timestamp \<Rightarrow> duration \<Rightarrow> timestamp option"

definition observation_covers :: "RouteHealth \<Rightarrow> ModelRung \<Rightarrow> RouteObservation \<Rightarrow> bool" where
  "observation_covers h rung observation \<longleftrightarrow>
     rb_account observation = mr_provider rung \<and> rb_model observation = mr_model rung
     \<and> rb_effort observation = mr_effort rung \<and> rb_mode observation = rh_mode h"

definition RouteHealth_admit ::
  "clock_ops \<Rightarrow> RouteHealth \<Rightarrow> ModelRung \<Rightarrow> ExclusionReason + RouteValidity" where
  "RouteHealth_admit ck h rung =
     (case filter (observation_covers h rung) (rh_observations h) of
        [observation] \<Rightarrow>
          (let age = ck_since ck (rh_as_of h) (rb_observed_at observation);
               max_age = ck_from_secs ck (unat (rh_max_age_seconds h)) in
           if age < 0 then Inl RouteHealthUnknown
           else if age > max_age then Inl RouteHealthStale
           else (case rb_state observation of
               HealthAvailable \<Rightarrow>
                 (case ck_add ck (rb_observed_at observation) max_age of
                    None \<Rightarrow> Inl RouteHealthUnknown
                  | Some valid_until \<Rightarrow> Inr \<lparr>rv_observed_at = rb_observed_at observation,
                      rv_valid_until = valid_until\<rparr>)
             | HealthUnavailable \<Rightarrow> Inl RouteUnavailableNow
             | HealthUnknown \<Rightarrow> Inl RouteHealthUnknown))
      | [] \<Rightarrow> Inl RouteUnobserved
      | _ \<Rightarrow> Inl RouteHealthUnknown)"

definition err_of :: "'e + 'a \<Rightarrow> 'e option" where
  "err_of r = (case r of Inl e \<Rightarrow> Some e | Inr _ \<Rightarrow> None)"

definition RouteHealth_verdict :: "clock_ops \<Rightarrow> RouteHealth \<Rightarrow> ModelRung \<Rightarrow> ExclusionReason option" where
  "RouteHealth_verdict ck h rung = err_of (RouteHealth_admit ck h rung)"

record ConsideredRoute =
  cr_route :: FleetRoute
  cr_excluded :: "ExclusionReason option"

record FleetSelection =
  sl_provenance :: FleetProvenance
  sl_eligibility :: Eligibility
  sl_route_health :: "RouteHealth option"
  sl_selected :: "FleetRoute option"
  sl_selected_validity :: "RouteValidity option"
  sl_considered :: "ConsideredRoute list"
  sl_excluded_by_policy :: "PolicyExclusion list"

definition route_admission ::
  "clock_ops \<Rightarrow> Eligibility \<Rightarrow> RouteHealth option \<Rightarrow> FleetRoute \<Rightarrow> ExclusionReason + RouteValidity option" where
  "route_admission ck el health route =
     (if mr_provider (fr_rung route) \<in> set (el_unavailable_accounts el)
      then Inl RouteAccountUnavailableNow
      else if fr_vendor route \<in> set (el_excluded_vendors el) then Inl RouteVendorExcluded
      else (case health of
              None \<Rightarrow> Inr None
            | Some h \<Rightarrow> try_bind (RouteHealth_admit ck h (fr_rung route)) (\<lambda>v. Inr (Some v))))"

text \<open>The closure of the source keeps the first admitted route in two captured variables.\<close>

fun consider_routes ::
  "clock_ops \<Rightarrow> Eligibility \<Rightarrow> RouteHealth option \<Rightarrow> FleetRoute option \<times> RouteValidity option \<Rightarrow>
   FleetRoute list \<Rightarrow> (FleetRoute option \<times> RouteValidity option) \<times> ConsideredRoute list" where
  "consider_routes ck el health sel [] = (sel, [])"
| "consider_routes ck el health sel (route # rest) =
     (let admission = route_admission ck el health route;
          sel' = (case admission of
                    Inr validity \<Rightarrow> if fst sel = None then (Some route, validity) else sel
                  | Inl _ \<Rightarrow> sel);
          (final, considered) = consider_routes ck el health sel' rest in
      (final, \<lparr>cr_route = route, cr_excluded = err_of admission\<rparr> # considered))"

definition select_observed ::
  "clock_ops \<Rightarrow> FleetResolution \<Rightarrow> Eligibility \<Rightarrow> RouteHealth option \<Rightarrow> FleetSelection" where
  "select_observed ck r el health =
     (case consider_routes ck el health (None, None) (fx_routes r) of
        ((selected, validity), considered) \<Rightarrow>
          \<lparr>sl_provenance = fx_provenance r, sl_eligibility = el, sl_route_health = health,
           sl_selected = selected, sl_selected_validity = validity, sl_considered = considered,
           sl_excluded_by_policy = fx_excluded r\<rparr>)"

definition FleetResolution_select :: "clock_ops \<Rightarrow> FleetResolution \<Rightarrow> Eligibility \<Rightarrow> FleetSelection" where
  "FleetResolution_select ck r el = select_observed ck r el None"

section \<open>The identity of a route\<close>

definition sole :: "'a list \<Rightarrow> 'a option" where
  "sole xs = (case xs of [x] \<Rightarrow> Some x | _ \<Rightarrow> None)"

definition model_matches :: "FleetDocument \<Rightarrow> ModelRung \<Rightarrow> ModelSpec \<Rightarrow> bool" where
  "model_matches d rung m \<longleftrightarrow> ms_id m = mr_model rung
     \<and> (case map_of (fd_domains d) (ms_domain m) of
          None \<Rightarrow> False
        | Some domain \<Rightarrow> normalize_provider (mr_provider rung) = Some (ds_provider domain)
            \<and> mr_provider rung \<in> set (ds_accounts domain))"

definition model_of :: "FleetSnapshot \<Rightarrow> ModelRung \<Rightarrow> ModelSpec option" where
  "model_of s rung = sole (filter (model_matches (fs_document s) rung) (map snd (fd_models (fs_document s))))"

definition effort_listed :: "ModelSpec \<Rightarrow> EffortLevel option \<Rightarrow> bool" where
  "effort_listed m effort \<longleftrightarrow>
     (if ms_efforts m = [] then effort = None
      else (case effort of None \<Rightarrow> False | Some e \<Rightarrow> EffortLevel_as_str e \<in> set (ms_efforts m)))"

definition FleetSnapshot_lists :: "FleetSnapshot \<Rightarrow> ModelRung \<Rightarrow> bool" where
  "FleetSnapshot_lists s rung \<longleftrightarrow>
     (case model_of s rung of None \<Rightarrow> False | Some m \<Rightarrow> effort_listed m (mr_effort rung))"

definition lists_family_route :: "FleetSnapshot \<Rightarrow> ModelRung \<Rightarrow> bool" where
  "lists_family_route s rung \<longleftrightarrow>
     (case normalize_provider (mr_provider rung) of
        None \<Rightarrow> False
      | Some provider \<Rightarrow>
          (case sole (filter (\<lambda>m. ms_id m = mr_model rung
                 \<and> (case map_of (fd_domains (fs_document s)) (ms_domain m) of
                      None \<Rightarrow> False | Some domain \<Rightarrow> ds_provider domain = provider))
               (map snd (fd_models (fs_document s)))) of
             None \<Rightarrow> False
           | Some m \<Rightarrow> effort_listed m (mr_effort rung)))"

definition vendor_of :: "FleetSnapshot \<Rightarrow> ModelRung \<Rightarrow> string option" where
  "vendor_of s rung = map_option ms_vendor (model_of s rung)"

definition independent_of :: "FleetSnapshot \<Rightarrow> string \<Rightarrow> string option" where
  "independent_of s key = map_of (ru_independent_of (fd_rules (fs_document s))) key"

definition independence_key :: "ModelRung \<Rightarrow> FleetSnapshot option \<Rightarrow> string option" where
  "independence_key rung fleet =
     (case Option.bind fleet (\<lambda>s. vendor_of s rung) of
        Some vendor \<Rightarrow> if vendor = ''unknown'' then None else Some vendor
      | None \<Rightarrow>
          (case normalize_provider (mr_provider rung) of
             None \<Rightarrow> None
           | Some family \<Rightarrow>
               Some (if family = ''claude'' then ''anthropic''
                     else if family = ''codex'' then ''openai'' else family)))"

record FleetModel =
  fm_account :: string
  fm_provider :: string
  fm_model :: string
  fm_id :: string
  fm_vendor :: string
  fm_efforts :: "string list"
  fm_vision :: bool
  fm_calibrated :: bool
  fm_permission_eligible :: bool

definition model_catalog :: "FleetSnapshot \<Rightarrow> FleetModel list" where
  "model_catalog s =
     concat (map (\<lambda>(name, m).
       case map_of (fd_domains (fs_document s)) (ms_domain m) of
         None \<Rightarrow> []
       | Some domain \<Rightarrow>
           map (\<lambda>account. \<lparr>fm_account = account, fm_provider = ds_provider domain, fm_model = name,
                  fm_id = ms_id m, fm_vendor = ms_vendor m, fm_efforts = ms_efforts m,
                  fm_vision = ms_vision m, fm_calibrated = ms_calibrated m,
                  fm_permission_eligible = ms_permission_eligible m\<rparr>)
             (filter (\<lambda>account. model_of s \<lparr>mr_provider = account, mr_model = ms_id m,
                mr_effort = None\<rparr> \<noteq> None) (ds_accounts domain)))
       (fd_models (fs_document s)))"

section \<open>Consultation permissions\<close>

record ConsultationPermissions =
  cp_hash :: content_hash
  cp_routes :: "ModelRung list"

definition permits :: "ConsultationPermissions \<Rightarrow> content_hash \<Rightarrow> ModelRung \<Rightarrow> bool" where
  "permits c policy_hash rung \<longleftrightarrow> cp_hash c = policy_hash \<and> rung \<in> set (cp_routes c)"

text \<open>A permission whose model is not declared would stop the source; validation has refused it.\<close>

definition permissions_resolve :: "content_hash \<Rightarrow> FleetDocument \<Rightarrow> ConsultationPermissions" where
  "permissions_resolve hash d =
     \<lparr>cp_hash = hash,
      cp_routes = List.map_filter (\<lambda>p. case map_of (fd_models d) (ps_model p) of
          None \<Rightarrow> None
        | Some m \<Rightarrow> Some \<lparr>mr_provider = ps_account p, mr_model = ms_id m, mr_effort = ps_effort p\<rparr>)
        (fd_consultation_permissions d)\<rparr>"

definition consultation_permissions :: "FleetSnapshot \<Rightarrow> ConsultationPermissions" where
  "consultation_permissions s = permissions_resolve (fs_hash s) (fs_document s)"

section \<open>Leadership keys\<close>

record CatalogRoleRef =
  ct_catalog_id :: uuid
  ct_catalog_revision :: u32
  ct_role_code :: string
  ct_standard_title :: string
  ct_custom_display_name :: "string option"

record PinnedSeat =
  pt_role_slot_id :: string
  pt_role :: CatalogRoleRef

record PinnedRevision =
  pn_version :: u32
  pn_seats :: "PinnedSeat list"

record LeadershipKey =
  lk_core_team_revision_hash :: content_hash
  lk_core_team_version :: u32
  lk_role_slot_id :: string
  lk_text :: string

definition pinned_seat ::
  "(string \<Rightarrow> PinnedRevision option) \<Rightarrow> CanonicalDocument \<Rightarrow> string \<Rightarrow>
   (PinnedRevision \<times> PinnedSeat) FleetResult" where
  "pinned_seat revision_of revision slot =
     (case revision_of (cd_json revision) of
        None \<Rightarrow> Inl (FleetInvalid L01)
      | Some pinned \<Rightarrow>
          (case filter (\<lambda>seat. pt_role_slot_id seat = slot) (pn_seats pinned) of
             [seat] \<Rightarrow> Inr (pinned, seat)
           | _ \<Rightarrow> Inl (FleetInvalid L02)))"

definition LeadershipKey_of :: "CanonicalDocument \<Rightarrow> PinnedRevision \<Rightarrow> string \<Rightarrow> LeadershipKey" where
  "LeadershipKey_of revision pinned slot =
     \<lparr>lk_core_team_revision_hash = cd_hash revision, lk_core_team_version = pn_version pinned,
      lk_role_slot_id = slot, lk_text = ''leadership/'' @ cd_hash revision @ ''/'' @ slot\<rparr>"

definition for_pinned_seat ::
  "(string \<Rightarrow> PinnedRevision option) \<Rightarrow> CanonicalDocument \<Rightarrow> string \<Rightarrow> CatalogRoleRef \<Rightarrow>
   LeadershipKey FleetResult" where
  "for_pinned_seat revision_of revision slot role =
     try_bind (pinned_seat revision_of revision slot) (\<lambda>(pinned, seat).
       if pt_role seat \<noteq> role then Inl (FleetInvalid L03)
       else Inr (LeadershipKey_of revision pinned slot))"

definition for_pinned_slot ::
  "(string \<Rightarrow> PinnedRevision option) \<Rightarrow> CanonicalDocument \<Rightarrow> string \<Rightarrow> LeadershipKey FleetResult" where
  "for_pinned_slot revision_of revision slot =
     try_bind (pinned_seat revision_of revision slot) (\<lambda>(pinned, _).
       Inr (LeadershipKey_of revision pinned slot))"

definition pinned_slots ::
  "(string \<Rightarrow> PinnedRevision option) \<Rightarrow> CanonicalDocument \<Rightarrow> string list FleetResult" where
  "pinned_slots revision_of revision =
     (case revision_of (cd_json revision) of
        None \<Rightarrow> Inl (FleetInvalid L01)
      | Some pinned \<Rightarrow>
          (let slots = map pt_role_slot_id (pn_seats pinned) in
           if length (remdups slots) \<noteq> length slots then Inl (FleetInvalid L02) else Inr slots))"

definition resolve_leadership :: "FleetSnapshot \<Rightarrow> LeadershipKey \<Rightarrow> FleetResolution option" where
  "resolve_leadership s key = resolve_bound s (lk_text key)"

end
