(* ===== verification/Fleet_Rules.thy ===== *)
theory Fleet_Rules
  imports Fleet_Policy
begin

text \<open>
  The rules of a fleet policy as a table: what each rule asks of the document, in the order the
  validator checks them.  The validator refuses a document with the first rule of the table that
  does not hold; the loops that also guard against an entry no rule has let through never take that
  way out.  Activation is stated over the same table.
\<close>

section \<open>Tables of rules\<close>

definition first_refusal :: "(string \<times> bool) list \<Rightarrow> unit FleetResult" where
  "first_refusal table =
     (case find (\<lambda>(_, ok). \<not> ok) table of None \<Rightarrow> Inr () | Some (rule, _) \<Rightarrow> Inl (FleetInvalid rule))"

lemma first_refusal_Nil [simp]: "first_refusal [] = Inr ()"
  by (simp add: first_refusal_def)

lemma first_refusal_Cons:
  "first_refusal ((rule, ok) # table) = try_bind (hold_rule ok rule) (\<lambda>_. first_refusal table)"
  by (simp add: first_refusal_def hold_rule_def)

lemma first_refusal_append:
  "first_refusal (table @ later) = try_bind (first_refusal table) (\<lambda>_. first_refusal later)"
  by (induction table) (auto simp: first_refusal_Cons hold_rule_def)

lemma first_refusal_Inr: "first_refusal table = Inr u \<longleftrightarrow> (\<forall>(rule, ok) \<in> set table. ok)"
  by (induction table) (auto simp: first_refusal_Cons hold_rule_def split: if_splits)

lemma table_step:
  assumes "check = hold_rule ok rule" "ok \<Longrightarrow> run_checks rest = first_refusal table"
  shows "run_checks (check # rest) = first_refusal ((rule, ok) # table)"
  using assms by (auto simp: first_refusal_Cons hold_rule_def)

lemma hold_rule_simps [simp]:
  "hold_rule True r = Inr ()" "hold_rule False r = Inl (FleetInvalid r)"
  "hold_rule ok r = Inr u \<longleftrightarrow> ok"
  by (simp_all add: hold_rule_def)

lemma each_rule:
  assumes "\<And>x. x \<in> set xs \<Longrightarrow> f x = hold_rule (P x) rule"
  shows "try_each f xs = hold_rule (\<forall>x \<in> set xs. P x) rule"
  using assms by (induction xs) (auto simp: hold_rule_def)

lemma each_pair_rule:
  "try_each (\<lambda>(x, y). hold_rule (P x y) rule) xs = hold_rule (\<forall>(x, y) \<in> set xs. P x y) rule"
  by (rule each_rule) auto

lemma fresh_rule:
  "try_fresh key rule seen xs = hold_rule (distinct (map key xs) \<and> key ` set xs \<inter> set seen = {}) rule"
  by (induction xs arbitrary: seen) (auto simp: hold_rule_def)

lemma pairs_rule:
  "try_pairs (\<lambda>x y. hold_rule (P x y) rule) xs = hold_rule (sorted_wrt P xs) rule"
  by (induction xs) (simp_all add: each_rule [where P = "P _" and rule = rule] hold_rule_def)

lemma remdups_length: "length (remdups xs) = length xs \<longleftrightarrow> distinct xs"
  by (metis distinct_remdups distinct_remdups_id length_remdups_eq)

section \<open>What the rules ask\<close>

definition chain_entries :: "FleetDocument \<Rightarrow> string set" where
  "chain_entries d = (\<Union>(name, steps) \<in> set (fd_chains d). set (concat steps))"

definition entry_domain :: "FleetDocument \<Rightarrow> string \<Rightarrow> string option" where
  "entry_domain d entry = map_option ms_domain (entry_model d entry)"

definition entry_accounts :: "FleetDocument \<Rightarrow> string \<Rightarrow> string list" where
  "entry_accounts d entry =
     (case Option.bind (entry_domain d entry) (map_of (fd_domains d)) of
        None \<Rightarrow> [] | Some domain \<Rightarrow> ds_accounts domain)"

definition domain_table :: "Schema \<Rightarrow> FleetDocument \<Rightarrow> (string \<times> bool) list" where
  "domain_table schema d =
     (let domains = map snd (fd_domains d) in
      [(V02, \<forall>name \<in> fst ` set (fd_domains d). is_generic_slug name),
       (V03, \<forall>dom \<in> set domains. ds_provider dom \<in> {''claude'', ''codex'', ''cursor'', ''opencode''}),
       (V04, \<forall>dom \<in> set domains. ds_accounts dom \<noteq> []),
       (V05, \<forall>dom \<in> set domains. \<forall>account \<in> set (ds_accounts dom). account_named schema dom account),
       (V06, \<forall>dom \<in> set domains. distinct (ds_accounts dom)),
       (V07, sorted_wrt (\<lambda>one two. set (ds_accounts one) \<inter> set (ds_accounts two) \<noteq> {} \<longrightarrow>
          (\<exists>p q. ds_model_prefix one = Some p \<and> ds_model_prefix two = Some q \<and> p \<noteq> q)) domains)])"

definition model_table :: "FleetDocument \<Rightarrow> (string \<times> bool) list" where
  "model_table d =
     (let models = map snd (fd_models d) in
      [(DUPLICATE_NATIVE_ID, distinct (map (\<lambda>m. (ms_domain m, ms_id m)) models)),
       (V08, \<forall>name \<in> fst ` set (fd_models d). is_model_slug name),
       (V09, \<forall>m \<in> set models. \<exists>dom. map_of (fd_domains d) (ms_domain m) = Some dom),
       (V10, \<forall>m \<in> set models. \<forall>dom. map_of (fd_domains d) (ms_domain m) = Some dom \<longrightarrow>
          ms_id m \<noteq> [] \<and> (\<forall>p. ds_model_prefix dom = Some p \<longrightarrow> prefix p (ms_id m))),
       (V11, \<forall>m \<in> set models. is_generic_slug (ms_vendor m)),
       (V12, \<forall>m \<in> set models. \<forall>effort \<in> set (ms_efforts m). \<exists>e. effort = EffortLevel_as_str e),
       (V13, \<forall>m \<in> set models. distinct (ms_efforts m))])"

definition chain_table :: "FleetDocument \<Rightarrow> (string \<times> bool) list" where
  "chain_table d =
     (let chains = map snd (fd_chains d) in
      [(V15, \<forall>name \<in> fst ` set (fd_chains d). is_generic_slug name),
       (V16, \<forall>steps \<in> set chains. 1 \<le> length steps \<and> length steps \<le> 16 \<and> [] \<notin> set steps),
       (V17, \<forall>entry \<in> chain_entries d. \<exists>m. entry_model d entry = Some m),
       (V18, \<forall>entry \<in> chain_entries d. \<forall>m. entry_model d entry = Some m \<longrightarrow>
          (case snd (entry_parts entry) of
             None \<Rightarrow> ms_efforts m = [] | Some effort \<Rightarrow> effort \<in> set (ms_efforts m))),
       (V19, \<forall>steps \<in> set chains. \<forall>step \<in> set steps. \<forall>entry \<in> set step. \<forall>other \<in> set step.
          entry_domain d entry = entry_domain d other),
       (V20, \<forall>steps \<in> set chains. distinct (map (\<lambda>step. entry_domain d (hd step)) steps)),
       (V21, \<forall>steps \<in> set chains. distinct (map entry_parts (concat steps))),
       (V22, \<forall>steps \<in> set chains. (\<Sum>entry \<leftarrow> concat steps. length (entry_accounts d entry)) \<le> 64)])"

definition seat_special :: "FleetDocument \<Rightarrow> string \<Rightarrow> bool" where
  "seat_special d key \<longleftrightarrow> prefix ''committee/'' key \<or> prefix ''advisor/'' key
     \<or> (\<exists>(one, two) \<in> set (ru_independent_of (fd_rules d)). key = one \<or> key = two)"

definition binding_table :: "Schema \<Rightarrow> FleetDocument \<Rightarrow> (string \<times> bool) list" where
  "binding_table schema d =
     [(Schema_key_rule schema, \<forall>key \<in> fst ` set (fd_bindings d). Schema_accepts_key schema key),
      (V24, \<forall>chain \<in> snd ` set (fd_bindings d). \<exists>steps. map_of (fd_chains d) chain = Some steps),
      (V25, \<forall>key chain steps entry m. map_of (fd_bindings d) key = Some chain \<and> seat_special d key
         \<and> map_of (fd_chains d) chain = Some steps \<and> entry \<in> set (concat steps)
         \<and> entry_model d entry = Some m \<longrightarrow> ms_vendor m \<noteq> ''unknown'')]"

definition unavailable_table :: "FleetDocument \<Rightarrow> (string \<times> bool) list" where
  "unavailable_table d =
     [(V26, set (us_domains (fd_unavailable d)) \<subseteq> fst ` set (fd_domains d)),
      (V27, set (us_accounts (fd_unavailable d)) \<subseteq> (\<Union>(_, dom) \<in> set (fd_domains d). set (ds_accounts dom)))]"

definition permission_ok :: "FleetDocument \<Rightarrow> PermissionSpec \<Rightarrow> bool" where
  "permission_ok d p \<longleftrightarrow>
     (\<exists>m dom. map_of (fd_models d) (ps_model p) = Some m \<and> map_of (fd_domains d) (ms_domain m) = Some dom
        \<and> ps_mode p = ''plan'' \<and> ms_permission_eligible m \<and> ms_vendor m \<noteq> ''unknown''
        \<and> ds_provider dom \<in> {''cursor'', ''opencode''}
        \<and> normalize_provider (ps_account p) = Some (ds_provider dom)
        \<and> ps_account p \<in> set (ds_accounts dom) \<and> permission_matches d p m = 1
        \<and> \<not> has_wildcard (ps_account p) \<and> \<not> has_wildcard (ms_id m)
        \<and> effort_listed m (ps_effort p))"

definition permission_identity :: "FleetDocument \<Rightarrow> PermissionSpec \<Rightarrow> string \<times> string option \<times> EffortLevel option" where
  "permission_identity d p =
     (ps_account p, map_option ms_id (map_of (fd_models d) (ps_model p)), ps_effort p)"

definition seat_table :: "Schema \<Rightarrow> FleetDocument \<Rightarrow> (string \<times> bool) list" where
  "seat_table schema d =
     (let rules = fd_rules d; bound = fst ` set (fd_bindings d); pairs = ru_independent_of rules;
          perms = fd_consultation_permissions d in
      [(V28, set (ru_calibration_required rules) \<union> set (ru_vision_required rules) \<subseteq> bound),
       (V28, \<forall>(key, other) \<in> set pairs. key \<in> bound \<and> other \<in> bound),
       (V29, \<forall>(key, other) \<in> set pairs. key \<noteq> other),
       (V30, \<forall>(key, other) \<in> set pairs. \<exists>t. team_template key = Some t \<and> team_template other = Some t),
       (PERMISSION_FIELD, (perms \<noteq> [] \<longrightarrow> schema = SchemaV2) \<and> (\<forall>p \<in> set perms. permission_ok d p)
          \<and> distinct (map (permission_identity d) perms))])"

definition policy_table :: "Schema \<Rightarrow> FleetDocument \<Rightarrow> (string \<times> bool) list" where
  "policy_table schema d =
     domain_table schema d @ model_table d @ chain_table d @ binding_table schema d
     @ unavailable_table d @ seat_table schema d"

definition policy_ok :: "Schema \<Rightarrow> FleetDocument \<Rightarrow> bool" where
  "policy_ok schema d \<longleftrightarrow> (\<forall>(rule, ok) \<in> set (policy_table schema d). ok)"

section \<open>The validator walks the table\<close>

lemma try_bind_assoc: "try_bind (try_bind r f) g = try_bind r (\<lambda>x. try_bind (f x) g)"
  by (cases r) simp_all

lemma try_bind_return [simp]: "try_bind r Inr = r"
  by (cases r) simp_all

lemma fleet_domain_provider_iff:
  "fleet_domain_provider p \<longleftrightarrow> p \<in> {''claude'', ''codex'', ''cursor'', ''opencode''}"
  by (auto simp: fleet_domain_provider_def PROVIDERS_def)

lemma shared_apart_iff:
  "shared_apart one two \<longleftrightarrow> (set (ds_accounts one) \<inter> set (ds_accounts two) \<noteq> {} \<longrightarrow>
     (\<exists>p q. ds_model_prefix one = Some p \<and> ds_model_prefix two = Some q \<and> p \<noteq> q))"
  by (auto simp: shared_apart_def list_ex_iff)

lemma domains_table: "validate_domains d schema = first_refusal (domain_table schema d)"
  unfolding validate_domains_def domain_table_def Let_def
  by (intro table_step)
    (simp_all add: each_rule pairs_rule fleet_domain_provider_iff remdups_length shared_apart_iff)

lemma parse_effort_ok: "\<not> isl (parse_effort txt) \<longleftrightarrow> (\<exists>e. txt = EffortLevel_as_str e)"
proof
  assume "\<exists>e. txt = EffortLevel_as_str e"
  then obtain e where "txt = EffortLevel_as_str e" ..
  then show "\<not> isl (parse_effort txt)" by (cases e) (simp_all add: parse_effort_def)
next
  assume "\<not> isl (parse_effort txt)"
  then obtain e where "parse_effort txt = Inr e" by (cases "parse_effort txt") auto
  then have "txt = EffortLevel_as_str e" by (auto simp: parse_effort_def split: if_splits)
  then show "\<exists>e. txt = EffortLevel_as_str e" ..
qed

lemma parse_effort_as_str [simp]: "parse_effort (EffortLevel_as_str e) = Inr e"
  by (cases e) (simp_all add: parse_effort_def)

lemma EffortLevel_as_str_inj [simp]: "EffortLevel_as_str e = EffortLevel_as_str e' \<longleftrightarrow> e = e'"
  by (metis parse_effort_as_str sum.inject(2))

lemma declared_iff: "k \<in> fst ` set m \<longleftrightarrow> (\<exists>v. map_of m k = Some v)"
  by (metis map_of_eq_None_iff not_None_eq)

lemma models_table: "validate_models d = first_refusal (model_table d)"
proof -
  have v10: "(case map_of (fd_domains d) (ms_domain m) of None \<Rightarrow> Inl (FleetInvalid V09)
        | Some domain \<Rightarrow> hold_rule (\<not> (ms_id m = [] \<or> (case ds_model_prefix domain of
            None \<Rightarrow> False | Some p \<Rightarrow> \<not> prefix p (ms_id m)))) V10) =
      hold_rule (\<forall>dom. map_of (fd_domains d) (ms_domain m) = Some dom \<longrightarrow>
          ms_id m \<noteq> [] \<and> (\<forall>p. ds_model_prefix dom = Some p \<longrightarrow> prefix p (ms_id m))) V10"
    if "\<exists>dom. map_of (fd_domains d) (ms_domain m) = Some dom" for m
    using that by (auto simp: hold_rule_def split: option.splits)
  have v12: "\<not> list_ex (\<lambda>effort. isl (parse_effort effort)) xs \<longleftrightarrow>
      (\<forall>effort \<in> set xs. \<exists>e. effort = EffortLevel_as_str e)" for xs
    by (auto simp: list_ex_iff parse_effort_ok [symmetric])
  show ?thesis
    unfolding validate_models_def model_table_def Let_def
  proof (intro table_step, goal_cases)
    case 4
    then show ?case by (intro each_rule v10) blast
  qed (simp_all add: each_rule fresh_rule remdups_length declared_iff [symmetric] v12)
qed

lemma entry_named: "fst (entry_parts entry) \<in> set (map fst (fd_models d)) \<longleftrightarrow> (\<exists>m. entry_model d entry = Some m)"
  by (simp add: entry_model_def declared_iff)

lemma chain_entries_all:
  "(\<forall>steps \<in> set (map snd (fd_chains d)). \<forall>entry \<in> set (concat steps). P entry) \<longleftrightarrow>
     (\<forall>entry \<in> chain_entries d. P entry)"
  by (force simp: chain_entries_def)

lemma one_domain_current:
  assumes "\<forall>entry \<in> set step. \<exists>m. entry_model d entry = Some m"
  shows "one_domain d (Some c) step = hold_rule (\<forall>entry \<in> set step. entry_domain d entry = Some c) V19"
  using assms
proof (induction step)
  case (Cons entry rest)
  then obtain m where m: "entry_model d entry = Some m" by auto
  then have "entry_domain d entry = Some (ms_domain m)" by (simp add: entry_domain_def)
  then show ?case using Cons m by (cases "c = ms_domain m") simp_all
qed simp

lemma same_as_first: "(\<forall>x \<in> set (a # xs). \<forall>y \<in> set (a # xs). f x = f y) \<longleftrightarrow> (\<forall>x \<in> set xs. f x = f a)"
  by (simp, metis)

lemma one_domain_rule:
  assumes "\<forall>entry \<in> set step. \<exists>m. entry_model d entry = Some m"
  shows "one_domain d None step =
       hold_rule (\<forall>entry \<in> set step. \<forall>other \<in> set step. entry_domain d entry = entry_domain d other) V19"
proof -
  show "one_domain d None step =
      hold_rule (\<forall>entry \<in> set step. \<forall>other \<in> set step. entry_domain d entry = entry_domain d other) V19"
  proof (cases step)
    case (Cons entry rest)
    then obtain m where m: "entry_model d entry = Some m" using assms by auto
    then have "entry_domain d entry = Some (ms_domain m)" by (simp add: entry_domain_def)
    moreover have "one_domain d None step = hold_rule (\<forall>e \<in> set rest. entry_domain d e = Some (ms_domain m)) V19"
      using Cons m one_domain_current [of rest d "ms_domain m"] assms by simp
    ultimately show ?thesis unfolding Cons same_as_first by simp
  qed simp
qed

lemma domain_once_rule:
  assumes "\<forall>step \<in> set steps. step \<noteq> [] \<and> (\<forall>entry \<in> set step. \<exists>m. entry_model d entry = Some m)"
  shows "domain_once d used steps = hold_rule (distinct (map (\<lambda>step. entry_domain d (hd step)) steps)
     \<and> (\<lambda>step. entry_domain d (hd step)) ` set steps \<inter> Some ` set used = {}) V20"
  using assms
proof (induction steps arbitrary: used)
  case (Cons step rest)
  then obtain entry more' m where "step = entry # more'" "entry_model d entry = Some m"
    by (cases step) auto
  then show ?case using Cons by (auto simp: entry_domain_def hold_rule_def)
qed simp

lemma count_routes_rule:
  assumes "\<forall>entry \<in> set entries. \<exists>m. entry_model d entry = Some m" "n < 2 ^ 64"
  shows "count_routes d n entries =
     Inr (min (2 ^ 64 - 1) (n + (\<Sum>entry \<leftarrow> entries. length (entry_accounts d entry))))"
  using assms
proof (induction entries arbitrary: n)
  case (Cons entry rest)
  then obtain m where "entry_model d entry = Some m" by auto
  then have "count_routes d n (entry # rest) =
      count_routes d (min (2 ^ 64 - 1) (n + length (entry_accounts d entry))) rest"
    by (simp add: entry_accounts_def entry_domain_def split: option.splits)
  then show ?case using Cons by (simp add: min_def add.assoc)
qed simp

lemma chains_table: "validate_chains d = first_refusal (chain_table d)"
  unfolding validate_chains_def chain_table_def Let_def
proof (intro table_step, goal_cases)
  case 2
  then show ?case by (intro each_rule) (auto simp: MAX_STEPS_def list_ex_iff Suc_le_eq hold_rule_def)
next
  case 3
  show ?case unfolding chain_entries_all [symmetric] entry_named by (intro each_rule refl)
next
  case 4
  show ?case unfolding chain_entries_all [symmetric]
  proof (intro each_rule)
    fix steps entry
    assume "steps \<in> set (map snd (fd_chains d))" "entry \<in> set (concat steps)"
    then obtain m where "entry_model d entry = Some m"
      using 4(3) unfolding chain_entries_all [symmetric] by blast
    then show "(case entry_model d entry of None \<Rightarrow> Inl (FleetInvalid V17)
        | Some m \<Rightarrow> hold_rule (effort_matches (snd (entry_parts entry)) (ms_efforts m)) V18) =
      hold_rule (\<forall>m. entry_model d entry = Some m \<longrightarrow> (case snd (entry_parts entry) of
          None \<Rightarrow> ms_efforts m = [] | Some effort \<Rightarrow> effort \<in> set (ms_efforts m))) V18"
      by (auto simp: effort_matches_def hold_rule_def split: option.splits)
  qed
next
  case 5
  then show ?case unfolding chain_entries_all [symmetric]
    by (intro each_rule one_domain_rule) auto
next
  case 6
  then show ?case unfolding chain_entries_all [symmetric]
    by (intro each_rule) (subst domain_once_rule; force)
next
  case 8
  have "try_bind (count_routes d 0 (concat steps)) (\<lambda>n. hold_rule (\<not> n > MAX_ROUTES) V22) =
      hold_rule ((\<Sum>entry \<leftarrow> concat steps. length (entry_accounts d entry)) \<le> 64) V22"
    if "steps \<in> set (map snd (fd_chains d))" for steps
    using 8(3) that unfolding chain_entries_all [symmetric]
    by (subst count_routes_rule) (auto simp: MAX_ROUTES_def hold_rule_def min_def)
  then show ?case by (intro each_rule)
qed (simp_all add: each_rule fresh_rule)

lemma known_vendors_rule:
  "check_known_vendors d key = hold_rule (\<forall>chain steps entry m.
     map_of (fd_bindings d) key = Some chain \<and> seat_special d key
     \<and> map_of (fd_chains d) chain = Some steps \<and> entry \<in> set (concat steps)
     \<and> entry_model d entry = Some m \<longrightarrow> ms_vendor m \<noteq> ''unknown'') V25"
proof -
  have special: "prefix ''committee/'' key \<or> prefix ''advisor/'' key \<or> key \<in> set (independent_seats d) \<longleftrightarrow>
      seat_special d key"
    by (force simp: seat_special_def independent_seats_def)
  have "\<not> chain_has_unknown_vendor d steps \<longleftrightarrow> (\<forall>entry m. entry \<in> set (concat steps)
      \<and> entry_model d entry = Some m \<longrightarrow> ms_vendor m \<noteq> ''unknown'')" for steps
    by (fastforce simp: chain_has_unknown_vendor_def list_ex_iff split: option.splits)
  then show ?thesis
    unfolding check_known_vendors_def special by (auto simp: hold_rule_def split: option.splits)
qed

lemma bindings_table: "validate_bindings d schema = first_refusal (binding_table schema d)"
  unfolding validate_bindings_def binding_table_def
proof (intro table_step, goal_cases)
  case 3
  have bound: "(\<forall>key \<in> set (map fst (fd_bindings d)). \<forall>chain. map_of (fd_bindings d) key = Some chain \<longrightarrow> P key chain) \<longleftrightarrow>
      (\<forall>key chain. map_of (fd_bindings d) key = Some chain \<longrightarrow> P key chain)" for P
    using declared_iff [of _ "fd_bindings d"] by (simp only: set_map) blast
  show ?case
    unfolding known_vendors_rule [abs_def]
    by (subst each_rule [OF refl]) (use bound [of "\<lambda>key chain. \<forall>steps entry m. seat_special d key
      \<and> map_of (fd_chains d) chain = Some steps \<and> entry \<in> set (concat steps)
      \<and> entry_model d entry = Some m \<longrightarrow> ms_vendor m \<noteq> ''unknown''"] in \<open>simp only: imp_conjL all_simps\<close>)
qed (simp_all add: each_rule declared_iff [symmetric])

lemma unavailables_table: "validate_unavailable d = first_refusal (unavailable_table d)"
proof -
  have accounts: "account \<in> set (concat (map (\<lambda>(_, domain). ds_accounts domain) (fd_domains d))) \<longleftrightarrow>
      account \<in> (\<Union>(_, dom) \<in> set (fd_domains d). set (ds_accounts dom))" for account
    by force
  show ?thesis
    unfolding validate_unavailable_def unavailable_table_def accounts
    by (intro table_step) (simp_all add: each_rule subset_iff Ball_def del: UN_iff)
qed

lemma permissions_rule:
  "permissions_validate d schema = hold_rule ((fd_consultation_permissions d \<noteq> [] \<longrightarrow> schema = SchemaV2)
     \<and> (\<forall>p \<in> set (fd_consultation_permissions d). permission_ok d p)
     \<and> distinct (map (permission_identity d) (fd_consultation_permissions d))) PERMISSION_FIELD"
proof -
  let ?shown = "\<lambda>(account, name, effort). (account, name, map_option EffortLevel_as_str effort)"
  have refused: "\<not> permission_refused d p m dom \<longleftrightarrow> permission_ok d p"
    if "map_of (fd_models d) (ps_model p) = Some m" "map_of (fd_domains d) (ms_domain m) = Some dom" for p m dom
    using that by (auto simp: permission_refused_def permission_ok_def effort_listed_def split: option.splits)
  have identity: "(ps_account p, ms_id m, map_option EffortLevel_as_str (ps_effort p)) \<in> set seen \<longleftrightarrow>
      permission_identity d p \<in> {(a, Some name, e) |a name e. ?shown (a, name, e) \<in> set seen}"
    if "map_of (fd_models d) (ps_model p) = Some m" for p m seen
    using that by (auto simp: permission_identity_def)
  have "validate_each_permission d seen ps = hold_rule ((\<forall>p \<in> set ps. permission_ok d p)
      \<and> distinct (map (permission_identity d) ps)
      \<and> permission_identity d ` set ps \<inter> {(a, Some name, e) |a name e. ?shown (a, name, e) \<in> set seen} = {})
      PERMISSION_FIELD" for seen ps
  proof (induction ps arbitrary: seen)
    case (Cons p ps)
    show ?case
    proof (cases "\<exists>m dom. map_of (fd_models d) (ps_model p) = Some m \<and> map_of (fd_domains d) (ms_domain m) = Some dom")
      case True
      then obtain m dom where m: "map_of (fd_models d) (ps_model p) = Some m"
          "map_of (fd_domains d) (ms_domain m) = Some dom" by blast
      define identity where "identity = (ps_account p, ms_id m, map_option EffortLevel_as_str (ps_effort p))"
      have "{(a, Some name, e) |a name e. ?shown (a, name, e) \<in> set (identity # seen)} =
          insert (permission_identity d p) {(a, Some name, e) |a name e. ?shown (a, name, e) \<in> set seen}"
        using m(1) by (auto simp: identity_def permission_identity_def inj_eq [OF option.inj_map] inj_def)
      then show ?thesis
        using m refused [OF m] identity [OF m(1), of seen] Cons [of "identity # seen"]
        by (auto simp: hold_rule_def Let_def identity_def [symmetric])
    next
      case False
      then show ?thesis by (auto simp: permission_ok_def hold_rule_def split: option.splits)
    qed
  qed simp
  from this [of "[]"] show ?thesis by (auto simp: permissions_validate_def hold_rule_def)
qed

lemma seats_table:
  "run_checks [validate_rules d, permissions_validate d schema] = first_refusal (seat_table schema d)"
proof -
  have template: "same_team_template key other \<longleftrightarrow>
      (\<exists>t. team_template key = Some t \<and> team_template other = Some t)" for key other
    by (auto simp: same_team_template_def split: option.splits)
  have rules: "validate_rules d = first_refusal (take 4 (seat_table schema d))"
    unfolding validate_rules_def seat_table_def Let_def
    by (simp only: take_Suc_Cons numeral_nat take_0, intro table_step)
      (simp_all add: each_rule each_pair_rule template subset_iff Ball_def)
  have perms: "permissions_validate d schema = first_refusal (drop 4 (seat_table schema d))"
    by (simp add: seat_table_def Let_def permissions_rule first_refusal_Cons)
  show ?thesis
    using first_refusal_append [of "take 4 (seat_table schema d)" "drop 4 (seat_table schema d)"]
    unfolding append_take_drop_id by (simp add: rules perms)
qed

lemma validate_table: "FleetDocument_validate d schema = first_refusal (policy_table schema d)"
proof -
  have "FleetDocument_validate d schema =
      try_bind (run_checks [validate_domains d schema, validate_models d, validate_chains d,
        validate_bindings d schema, validate_unavailable d])
        (\<lambda>_. run_checks [validate_rules d, permissions_validate d schema])"
    by (simp add: FleetDocument_validate_def try_bind_assoc)
  also have "\<dots> = first_refusal (policy_table schema d)"
    unfolding seats_table
    by (simp add: policy_table_def first_refusal_append domains_table models_table chains_table
        bindings_table unavailables_table try_bind_assoc)
  finally show ?thesis .
qed

lemma validate_ok: "FleetDocument_validate d schema = Inr u \<longleftrightarrow> policy_ok schema d"
  by (simp add: validate_table first_refusal_Inr policy_ok_def)

text \<open>C16. A fleet document is refused by the first rule of the table that it breaks, and accepted
  exactly when it keeps every rule.\<close>

theorem policy_refusal_exact: "FleetDocument_validate d schema = first_refusal (policy_table schema d)"
  by (rule validate_table)

section \<open>Reading and activating a policy\<close>

definition schema_of_version :: "u32 \<Rightarrow> Schema option" where
  "schema_of_version v = (if v = 1 then Some SchemaV1 else if v = 2 then Some SchemaV2 else None)"

definition publishable :: "FleetDocument \<Rightarrow> bool" where
  "publishable d \<longleftrightarrow> (\<forall>v \<in> set (policy_values d). value_publishable v)"

lemma publishable_rule: "validate_publishable d = hold_rule (publishable d) V33"
  by (simp add: validate_publishable_def publishable_def each_rule)

lemma read_policy:
  "FleetSnapshot_parse_policy yaml hash_of document = Inr s \<longleftrightarrow>
     length document \<le> 262144
     \<and> (\<exists>d schema. yaml document = Some d \<and> schema_of_version (fd_schema_version d) = Some schema
          \<and> publishable d \<and> policy_ok schema d
          \<and> s = \<lparr>fs_document = d, fs_raw = document, fs_hash = hash_of document\<rparr>)"
  by (auto simp: FleetSnapshot_parse_policy_def FleetSnapshot_read_def MAX_FILE_BYTES_def
      schema_of_version_def publishable_rule validate_ok split: option.splits if_splits)

lemma read_fleet:
  "FleetSnapshot_parse yaml hash_of document = Inr s \<longleftrightarrow>
     length document \<le> 262144
     \<and> (\<exists>d. yaml document = Some d \<and> fd_schema_version d = 1 \<and> policy_ok SchemaV1 d
          \<and> s = \<lparr>fs_document = d, fs_raw = document, fs_hash = hash_of document\<rparr>)"
  by (auto simp: FleetSnapshot_parse_def FleetSnapshot_read_def MAX_FILE_BYTES_def validate_ok
      split: option.splits if_splits)

text \<open>A policy is activated exactly when its bytes have the recorded content address and at most
  256 KiB, read as a document of the recorded schema, carry no credential, path or account identity
  in any value, and keep every rule of the table. The snapshot is then those bytes, that document and
  that address.\<close>

theorem activation_exact:
  "FleetSnapshot_activated yaml hash_of hash version document = Inr s \<longleftrightarrow>
     hash_of document = hash \<and> length document \<le> 262144
     \<and> (\<exists>d schema. yaml document = Some d \<and> fd_schema_version d = version
          \<and> schema_of_version version = Some schema \<and> publishable d \<and> policy_ok schema d
          \<and> s = \<lparr>fs_document = d, fs_raw = document, fs_hash = hash\<rparr>)"
proof -
  have "FleetSnapshot_activated yaml hash_of hash version document = Inr s \<longleftrightarrow>
      hash_of document = hash \<and> FleetSnapshot_parse_policy yaml hash_of document = Inr s
      \<and> fd_schema_version (fs_document s) = version"
    by (auto simp: FleetSnapshot_activated_def FleetSnapshot_published_def
        FleetSnapshot_schema_version_def split: if_splits)
  then show ?thesis by (auto simp: read_policy)
qed

end
