(* ===== verification/Fleet_Routes.thy ===== *)
theory Fleet_Routes
  imports Fleet_Rules
begin

text \<open>
  What the routes of a valid policy are.  The reference of resolution is the chain read off step by
  step: every entry and account is a route, numbered from one without saturation, or an exclusion
  with its reason.  Selection is the first admitted route, with the window in which its observation
  stays valid.  The identity of a route is its account, model and effort; it is ambiguous only where
  two domains share the account and both of their model prefixes start the model id.  Consultation
  permissions and leadership keys end the theory.
\<close>

section \<open>The chain read off step by step\<close>

definition entry_offers ::
  "FleetDocument \<Rightarrow> bool \<Rightarrow> bool \<Rightarrow> string \<Rightarrow> (ModelSpec \<times> EffortLevel option \<times> string) list" where
  "entry_offers d cal vis entry =
     (case entry_model d entry of
        None \<Rightarrow> []
      | Some m \<Rightarrow>
          if whole_model d cal vis m \<noteq> None then []
          else map (\<lambda>account. (m, entry_effort entry, account))
            (filter (\<lambda>account. account \<notin> set (us_accounts (fd_unavailable d))) (entry_accounts d entry)))"

definition entry_exclusions :: "FleetDocument \<Rightarrow> bool \<Rightarrow> bool \<Rightarrow> u16 \<Rightarrow> string \<Rightarrow> PolicyExclusion list" where
  "entry_exclusions d cal vis step entry =
     (case entry_model d entry of
        None \<Rightarrow> []
      | Some m \<Rightarrow>
          (case whole_model d cal vis m of
             Some reason \<Rightarrow> [\<lparr>pe_step = step, pe_model = ms_id m, pe_account = None, pe_reason = reason\<rparr>]
           | None \<Rightarrow> map (\<lambda>account. \<lparr>pe_step = step, pe_model = ms_id m, pe_account = Some account,
                 pe_reason = UnavailableAccount\<rparr>)
               (filter (\<lambda>account. account \<in> set (us_accounts (fd_unavailable d))) (entry_accounts d entry))))"

definition route_at :: "u16 \<Rightarrow> nat \<Rightarrow> ModelSpec \<times> EffortLevel option \<times> string \<Rightarrow> FleetRoute" where
  "route_at step j = (\<lambda>(m, effort, account).
     \<lparr>fr_rung = \<lparr>mr_provider = account, mr_model = ms_id m, mr_effort = effort\<rparr>, fr_step = step,
      fr_sub_step = of_nat (j + 1), fr_vendor = ms_vendor m\<rparr>)"

definition step_routes :: "FleetDocument \<Rightarrow> bool \<Rightarrow> bool \<Rightarrow> nat \<times> string list \<Rightarrow> FleetRoute list" where
  "step_routes d cal vis = (\<lambda>(i, step).
     map (\<lambda>(j, offer). route_at (of_nat (i + 1)) j offer)
       (List.enumerate 0 (concat (map (entry_offers d cal vis) step))))"

definition step_exclusions :: "FleetDocument \<Rightarrow> bool \<Rightarrow> bool \<Rightarrow> nat \<times> string list \<Rightarrow> PolicyExclusion list" where
  "step_exclusions d cal vis = (\<lambda>(i, step).
     concat (map (entry_exclusions d cal vis (of_nat (i + 1))) step))"

definition chain_resolution :: "FleetDocument \<Rightarrow> string \<Rightarrow> string list list \<Rightarrow> FleetRoute list \<times> PolicyExclusion list" where
  "chain_resolution d key chain =
     (let cal = key \<in> set (ru_calibration_required (fd_rules d));
          vis = key \<in> set (ru_vision_required (fd_rules d)) in
      (concat (map (step_routes d cal vis) (List.enumerate 0 chain)),
       concat (map (step_exclusions d cal vis) (List.enumerate 0 chain))))"

section \<open>Resolution is that reading\<close>

lemma sub_step_next:
  assumes "k + 1 < 2 ^ 16"
  shows "saturating_add (of_nat k :: u16) 1 = of_nat (k + 1)"
  using assms by (simp add: saturating_add_def unat_of_nat take_bit_nat_eq_self)

lemma fold_accounts:
  assumes "k + length accounts < 2 ^ 16"
  shows "fold (resolve_account d step m effort) accounts (of_nat k, routes, excluded) =
     (let free = filter (\<lambda>a. a \<notin> set (us_accounts (fd_unavailable d))) accounts in
      (of_nat (k + length free),
       routes @ map (\<lambda>(j, offer). route_at step j offer)
         (List.enumerate k (map (\<lambda>a. (m, effort, a)) free)),
       excluded @ map (\<lambda>a. \<lparr>pe_step = step, pe_model = ms_id m, pe_account = Some a,
           pe_reason = UnavailableAccount\<rparr>)
         (filter (\<lambda>a. a \<in> set (us_accounts (fd_unavailable d))) accounts)))"
  using assms
proof (induction accounts arbitrary: k routes excluded)
  case (Cons a accounts)
  show ?case
  proof (cases "a \<in> set (us_accounts (fd_unavailable d))")
    case True
    then show ?thesis using Cons by (simp add: resolve_account_def Let_def)
  next
    case False
    have "saturating_add (of_nat k :: u16) 1 = of_nat (Suc k)" using sub_step_next [of k] Cons.prems by simp
    then have step: "resolve_account d step m effort a (of_nat k, routes, excluded) =
        (of_nat (Suc k), routes @ [route_at step k (m, effort, a)], excluded)"
      using False by (simp add: resolve_account_def Let_def route_at_def)
    have "Suc k + length accounts < 2 ^ 16" using Cons.prems by simp
    from Cons.IH [OF this] step False show ?thesis
      by (simp add: Let_def del: of_nat_Suc of_nat_add)
  qed
qed (simp add: Let_def)

lemma resolve_entry_offers:
  assumes "k + length (entry_accounts d entry) < 2 ^ 16"
  shows "resolve_entry d cal vis step entry (of_nat k, routes, excluded) =
     (of_nat (k + length (entry_offers d cal vis entry)),
      routes @ map (\<lambda>(j, offer). route_at step j offer) (List.enumerate k (entry_offers d cal vis entry)),
      excluded @ entry_exclusions d cal vis step entry)"
proof (cases "entry_model d entry")
  case None
  then show ?thesis by (simp add: resolve_entry_def entry_offers_def entry_exclusions_def)
next
  case (Some m)
  show ?thesis
  proof (cases "whole_model d cal vis m")
    case free: None
    show ?thesis
    proof (cases "map_of (fd_domains d) (ms_domain m)")
      case None
      then show ?thesis using Some free
        by (simp add: resolve_entry_def entry_offers_def entry_exclusions_def entry_accounts_def entry_domain_def)
    next
      case dom: (Some dom)
      have "entry_accounts d entry = ds_accounts dom"
        using Some dom by (simp add: entry_accounts_def entry_domain_def)
      then show ?thesis using Some free dom fold_accounts [of k "ds_accounts dom" d step m] assms
        by (simp add: resolve_entry_def entry_offers_def entry_exclusions_def Let_def)
    qed
  qed (use Some in \<open>simp add: resolve_entry_def entry_offers_def entry_exclusions_def\<close>)
qed

lemma offers_bounded: "length (entry_offers d cal vis entry) \<le> length (entry_accounts d entry)"
  by (simp add: entry_offers_def split: option.splits)

lemma fold_entries:
  assumes "k + (\<Sum>entry \<leftarrow> step. length (entry_accounts d entry)) < 2 ^ 16"
  shows "fold (resolve_entry d cal vis number) step (of_nat k, routes, excluded) =
     (let offers = concat (map (entry_offers d cal vis) step) in
      (of_nat (k + length offers),
       routes @ map (\<lambda>(j, offer). route_at number j offer) (List.enumerate k offers),
       excluded @ concat (map (entry_exclusions d cal vis number) step)))"
  using assms
proof (induction step arbitrary: k routes excluded)
  case (Cons entry rest)
  have "k + length (entry_accounts d entry) < 2 ^ 16" using Cons.prems by simp
  note head = resolve_entry_offers [OF this]
  have "(k + length (entry_offers d cal vis entry)) + (\<Sum>e \<leftarrow> rest. length (entry_accounts d e)) < 2 ^ 16"
    using Cons.prems offers_bounded [of d cal vis entry] by simp
  from Cons.IH [OF this] show ?case
    by (simp only: fold_simps head Let_def list.map concat.simps length_append enumerate_append_eq
        map_append append_assoc add.assoc)
qed (simp add: Let_def)

lemma resolve_step_routes:
  assumes "i < 16" "(\<Sum>entry \<leftarrow> step. length (entry_accounts d entry)) \<le> 64"
  shows "resolve_step d cal vis (i, step) (routes, excluded) =
     (routes @ step_routes d cal vis (i, step), excluded @ step_exclusions d cal vis (i, step))"
proof -
  have "step_number i = of_nat (i + 1)" using assms(1) by (simp add: step_number_def)
  then show ?thesis
    using fold_entries [of 0 d step cal vis "of_nat (i + 1)" routes excluded] assms(2)
    by (simp add: resolve_step_def step_routes_def step_exclusions_def Let_def)
qed

lemma fold_steps:
  assumes "i + length chain \<le> 16" "\<forall>step \<in> set chain. (\<Sum>entry \<leftarrow> step. length (entry_accounts d entry)) \<le> 64"
  shows "fold (resolve_step d cal vis) (List.enumerate i chain) (routes, excluded) =
     (routes @ concat (map (step_routes d cal vis) (List.enumerate i chain)),
      excluded @ concat (map (step_exclusions d cal vis) (List.enumerate i chain)))"
  using assms by (induction chain arbitrary: i routes excluded) (simp_all add: resolve_step_routes)

text \<open>The rules of the table that resolution rests on.\<close>

lemma policy_rule:
  assumes "policy_ok schema d" "(rule, ok) \<in> set (policy_table schema d)"
  shows ok
  using assms by (auto simp: policy_ok_def)

lemma chain_in: "map_of (fd_chains d) name = Some chain \<Longrightarrow> chain \<in> set (map snd (fd_chains d))"
  by (force dest: map_of_SomeD)

lemma chain_bounds:
  assumes "policy_ok schema d" "map_of (fd_chains d) name = Some chain"
  shows "length chain \<le> 16" "(\<Sum>entry \<leftarrow> concat chain. length (entry_accounts d entry)) \<le> 64"
proof -
  note rule = policy_rule [OF assms(1)]
  have "\<forall>steps \<in> set (map snd (fd_chains d)). 1 \<le> length steps \<and> length steps \<le> 16 \<and> [] \<notin> set steps"
    by (rule rule [of V16]) (simp add: policy_table_def chain_table_def)
  then show "length chain \<le> 16" using chain_in [OF assms(2)] by blast
  have "\<forall>steps \<in> set (map snd (fd_chains d)). (\<Sum>entry \<leftarrow> concat steps. length (entry_accounts d entry)) \<le> 64"
    by (rule rule [of V22]) (simp add: policy_table_def chain_table_def)
  then show "(\<Sum>entry \<leftarrow> concat chain. length (entry_accounts d entry)) \<le> 64" using chain_in [OF assms(2)] by blast
qed

lemma step_sum_le:
  fixes f :: "'a \<Rightarrow> nat"
  assumes "step \<in> set steps"
  shows "(\<Sum>x \<leftarrow> step. f x) \<le> (\<Sum>x \<leftarrow> concat steps. f x)"
  using assms by (induction steps) auto

lemma resolve_bound_chain:
  assumes "policy_ok schema (fs_document s)"
    "map_of (fd_bindings (fs_document s)) key = Some name" "map_of (fd_chains (fs_document s)) name = Some chain"
  shows "resolve_bound s key = Some \<lparr>fx_provenance = \<lparr>fp_policy_hash = fs_hash s,
        fp_schema_version = fd_schema_version (fs_document s), fp_binding_key = key, fp_chain = name\<rparr>,
      fx_routes = fst (chain_resolution (fs_document s) key chain),
      fx_excluded = snd (chain_resolution (fs_document s) key chain)\<rparr>"
proof -
  note bounds = chain_bounds [OF assms(1,3)]
  have "\<forall>step \<in> set chain. (\<Sum>entry \<leftarrow> step. length (entry_accounts (fs_document s) entry)) \<le> 64"
    using bounds(2) step_sum_le [of _ chain] order_trans by blast
  with bounds(1) show ?thesis
    using assms(2,3) fold_steps [of 0 chain "fs_document s"] by (simp add: resolve_bound_def chain_resolution_def Let_def)
qed

lemma bound_chain:
  assumes "policy_ok schema d" "map_of (fd_bindings d) key = Some name"
  shows "\<exists>chain. map_of (fd_chains d) name = Some chain"
proof -
  have "\<forall>chain \<in> snd ` set (fd_bindings d). \<exists>steps. map_of (fd_chains d) chain = Some steps"
    by (rule policy_rule [OF assms(1), of V24]) (simp add: policy_table_def binding_table_def)
  then show ?thesis using map_of_SomeD [OF assms(2)] by force
qed

section \<open>Numbering\<close>

lemma unat_small: "n < 100 \<Longrightarrow> unat (of_nat n :: u16) = n"
  by (simp add: unat_of_nat take_bit_nat_eq_self)

lemma step_routes_numbered:
  assumes "i < 16" "(\<Sum>entry \<leftarrow> step. length (entry_accounts d entry)) \<le> 64"
    "route \<in> set (step_routes d cal vis (i, step))"
  shows "unat (fr_step route) = i + 1" "1 \<le> unat (fr_sub_step route)" "unat (fr_sub_step route) \<le> 64"
proof -
  let ?offers = "concat (map (entry_offers d cal vis) step)"
  have "length ?offers \<le> (\<Sum>entry \<leftarrow> step. length (entry_accounts d entry))"
    unfolding length_concat map_map comp_def by (rule sum_list_mono) (rule offers_bounded)
  with assms(2) have "length ?offers \<le> 64" by simp
  moreover from assms(3) obtain j offer where "j < length ?offers" "route = route_at (of_nat (i + 1)) j offer"
    by (auto simp: step_routes_def in_set_enumerate_eq)
  ultimately have j: "j < 64" "route = route_at (of_nat (i + 1)) j offer" by simp_all
  show "unat (fr_step route) = i + 1" "1 \<le> unat (fr_sub_step route)" "unat (fr_sub_step route) \<le> 64"
    using j assms(1) unat_small [of "i + 1"] unat_small [of "j + 1"] by (simp_all add: route_at_def split_beta)
qed

lemma step_routes_distinct:
  assumes "(\<Sum>entry \<leftarrow> step. length (entry_accounts d entry)) \<le> 64"
  shows "distinct (map fr_sub_step (step_routes d cal vis (i, step)))"
proof -
  let ?offers = "concat (map (entry_offers d cal vis) step)"
  have len: "length ?offers \<le> (\<Sum>entry \<leftarrow> step. length (entry_accounts d entry))"
    unfolding length_concat map_map comp_def by (rule sum_list_mono) (rule offers_bounded)
  have "map fr_sub_step (step_routes d cal vis (i, step)) = map (\<lambda>j. of_nat (j + 1)) [0..<length ?offers]"
    by (rule nth_equalityI) (simp_all add: step_routes_def route_at_def split_beta nth_enumerate_eq)
  moreover have "inj_on (\<lambda>j. of_nat (j + 1) :: u16) {0..<length ?offers}"
  proof (rule inj_onI)
    fix j k assume jk: "j \<in> {0..<length ?offers}" "k \<in> {0..<length ?offers}"
      "(of_nat (j + 1) :: u16) = of_nat (k + 1)"
    then have "j + 1 < 100" "k + 1 < 100" using len assms by simp_all
    from unat_small [OF this(1)] unat_small [OF this(2)] jk(3) show "j = k" by (metis add_right_cancel)
  qed
  ultimately show ?thesis by (simp add: distinct_map)
qed

lemma steps_distinct:
  assumes "i + length chain \<le> 16" "\<forall>step \<in> set chain. (\<Sum>entry \<leftarrow> step. length (entry_accounts d entry)) \<le> 64"
  shows "distinct (map (\<lambda>r. (fr_step r, fr_sub_step r))
       (concat (map (step_routes d cal vis) (List.enumerate i chain))))
     \<and> (\<forall>r \<in> set (concat (map (step_routes d cal vis) (List.enumerate i chain))).
          i + 1 \<le> unat (fr_step r) \<and> unat (fr_step r) \<le> i + length chain
          \<and> 1 \<le> unat (fr_sub_step r) \<and> unat (fr_sub_step r) \<le> 64)"
  using assms
proof (induction chain arbitrary: i)
  case (Cons step rest)
  let ?pos = "\<lambda>r. (fr_step r, fr_sub_step r)"
  have later: "distinct (map ?pos (concat (map (step_routes d cal vis) (List.enumerate (Suc i) rest))))"
    "\<forall>r \<in> set (concat (map (step_routes d cal vis) (List.enumerate (Suc i) rest))).
       Suc i + 1 \<le> unat (fr_step r) \<and> unat (fr_step r) \<le> Suc i + length rest
       \<and> 1 \<le> unat (fr_sub_step r) \<and> unat (fr_sub_step r) \<le> 64"
    using Cons.IH [of "Suc i"] Cons.prems by simp_all
  have here: "unat (fr_step r) = i + 1 \<and> 1 \<le> unat (fr_sub_step r) \<and> unat (fr_sub_step r) \<le> 64"
    if "r \<in> set (step_routes d cal vis (i, step))" for r
    using step_routes_numbered [OF _ _ that] Cons.prems by simp
  have "distinct (map ?pos (step_routes d cal vis (i, step)))"
    using step_routes_distinct [of d step cal vis i] Cons.prems
    by (simp add: distinct_map inj_on_def)
  moreover have "?pos ` set (step_routes d cal vis (i, step)) \<inter>
      ?pos ` set (concat (map (step_routes d cal vis) (List.enumerate (Suc i) rest))) = {}"
    using here later(2) by fastforce
  ultimately show ?case using later here by (fastforce simp del: set_concat)
qed simp

lemma steps_sorted:
  assumes "i + length chain \<le> 16" "\<forall>step \<in> set chain. (\<Sum>entry \<leftarrow> step. length (entry_accounts d entry)) \<le> 64"
  shows "sorted (map (\<lambda>r. unat (fr_step r)) (concat (map (step_routes d cal vis) (List.enumerate i chain))))"
  using assms
proof (induction chain arbitrary: i)
  case (Cons step rest)
  have here: "unat (fr_step r) = i + 1" if "r \<in> set (step_routes d cal vis (i, step))" for r
    using step_routes_numbered [OF _ _ that] Cons.prems by simp
  then have "map (\<lambda>r. unat (fr_step r)) (step_routes d cal vis (i, step)) =
      replicate (length (step_routes d cal vis (i, step))) (i + 1)"
    by (intro replicate_eqI) auto
  moreover have "Suc i + 1 \<le> unat (fr_step r)"
    if "r \<in> set (concat (map (step_routes d cal vis) (List.enumerate (Suc i) rest)))" for r
    using steps_distinct [of "Suc i" rest d cal vis] Cons.prems that by (auto simp del: set_concat)
  ultimately show ?case
    using Cons.IH [of "Suc i"] Cons.prems by (fastforce simp: sorted_append simp del: set_concat)
qed simp

text \<open>C19. Resolution reads a bound chain exactly. Under a valid policy every bound key resolves; its
  routes and exclusions are those of the chain read off step by step, under the policy's own address;
  and the positions of the routes are distinct, the step between one and the number of steps and the
  sub-step between one and 64, so neither counter saturates.\<close>

theorem resolution_exact:
  assumes "policy_ok schema (fs_document s)" "map_of (fd_bindings (fs_document s)) key = Some name"
  shows "\<exists>chain r. map_of (fd_chains (fs_document s)) name = Some chain \<and> resolve_bound s key = Some r
     \<and> (fx_routes r, fx_excluded r) = chain_resolution (fs_document s) key chain
     \<and> fp_policy_hash (fx_provenance r) = fs_hash s \<and> fp_chain (fx_provenance r) = name
     \<and> distinct (map (\<lambda>route. (fr_step route, fr_sub_step route)) (fx_routes r))
     \<and> (\<forall>route \<in> set (fx_routes r). 1 \<le> unat (fr_step route) \<and> unat (fr_step route) \<le> length chain
          \<and> 1 \<le> unat (fr_sub_step route) \<and> unat (fr_sub_step route) \<le> 64)"
proof -
  let ?d = "fs_document s"
  from bound_chain [OF assms] obtain chain where chain: "map_of (fd_chains ?d) name = Some chain" ..
  note bounds = chain_bounds [OF assms(1) chain]
  have "\<forall>step \<in> set chain. (\<Sum>entry \<leftarrow> step. length (entry_accounts ?d entry)) \<le> 64"
    using bounds(2) step_sum_le [of _ chain] order_trans by blast
  note numbered = steps_distinct [of 0 chain, OF _ this]
  let ?r = "\<lparr>fx_provenance = \<lparr>fp_policy_hash = fs_hash s, fp_schema_version = fd_schema_version ?d,
      fp_binding_key = key, fp_chain = name\<rparr>, fx_routes = fst (chain_resolution ?d key chain),
      fx_excluded = snd (chain_resolution ?d key chain)\<rparr>"
  have "resolve_bound s key = Some ?r" by (rule resolve_bound_chain [OF assms chain])
  moreover have "distinct (map (\<lambda>route. (fr_step route, fr_sub_step route)) (fx_routes ?r))"
    "\<forall>route \<in> set (fx_routes ?r). 1 \<le> unat (fr_step route) \<and> unat (fr_step route) \<le> length chain
       \<and> 1 \<le> unat (fr_sub_step route) \<and> unat (fr_sub_step route) \<le> 64"
    using numbered bounds(1) by (simp_all add: chain_resolution_def Let_def del: set_concat)
  ultimately show ?thesis using chain by (intro exI [of _ chain] exI [of _ ?r]) simp
qed

section \<open>Selection\<close>

lemma consider_routes_first:
  "consider_routes ck el health sel routes =
     (if fst sel \<noteq> None then sel
      else case find (\<lambda>route. \<not> isl (route_admission ck el health route)) routes of
             None \<Rightarrow> sel
           | Some route \<Rightarrow> (Some route, projr (route_admission ck el health route)),
      map (\<lambda>route. \<lparr>cr_route = route, cr_excluded = err_of (route_admission ck el health route)\<rparr>) routes)"
proof (induction routes arbitrary: sel)
  case (Cons route routes)
  then show ?case
    by (cases "route_admission ck el health route") (simp_all add: Let_def split: option.split)
qed simp

definition window_laws :: "clock_ops \<Rightarrow> bool" where
  "window_laws ck \<longleftrightarrow> (\<forall>t u. ck_since ck t u = t - u) \<and> (\<forall>t span u. ck_add ck t span = Some u \<longrightarrow> u = t + span)"

lemma admit_window:
  assumes "window_laws ck" "RouteHealth_admit ck h rung = Inr w"
  shows "RouteHealth_admit ck (h\<lparr>rh_as_of := t\<rparr>) rung = Inr w \<longleftrightarrow> rv_observed_at w \<le> t \<and> t \<le> rv_valid_until w"
proof -
  have covers: "observation_covers (h\<lparr>rh_as_of := t\<rparr>) rung = observation_covers h rung"
    by (rule ext) (simp add: observation_covers_def)
  from assms(2) obtain ob until where ob: "filter (observation_covers h rung) (rh_observations h) = [ob]"
      "rb_state ob = HealthAvailable"
      "ck_add ck (rb_observed_at ob) (ck_from_secs ck (unat (rh_max_age_seconds h))) = Some until"
      "w = \<lparr>rv_observed_at = rb_observed_at ob, rv_valid_until = until\<rparr>"
    by (auto simp: RouteHealth_admit_def Let_def split: list.splits if_splits RouteHealthState.splits option.splits)
  have "until = rb_observed_at ob + ck_from_secs ck (unat (rh_max_age_seconds h))"
    using ob(3) assms(1) unfolding window_laws_def by blast
  moreover have "ck_since ck t (rb_observed_at ob) = t - rb_observed_at ob"
    using assms(1) unfolding window_laws_def by blast
  ultimately show ?thesis using ob by (auto simp: RouteHealth_admit_def Let_def covers)
qed

text \<open>A selection is the first route in chain order that the stated eligibility and health admit,
  and its receipt states every other verdict. With a difference of instants as elapsed time and an
  exact checked addition, the recorded window is sharp: judged at any other instant, the selected
  route's observation admits it with the same window exactly from the observation to the end of the
  window.\<close>

theorem selection_exact:
  assumes "window_laws ck"
    "sl_selected (select_observed ck r el health) = Some route"
  shows "\<exists>before later. fx_routes r = before @ route # later
     \<and> (\<forall>b \<in> set before. isl (route_admission ck el health b))
     \<and> route_admission ck el health route = Inr (sl_selected_validity (select_observed ck r el health))
     \<and> map cr_route (sl_considered (select_observed ck r el health)) = fx_routes r
     \<and> (\<forall>c \<in> set (sl_considered (select_observed ck r el health)).
          cr_excluded c = err_of (route_admission ck el health (cr_route c)))
     \<and> (\<forall>h w t. health = Some h \<and> sl_selected_validity (select_observed ck r el health) = Some w \<longrightarrow>
          (RouteHealth_admit ck (h\<lparr>rh_as_of := t\<rparr>) (fr_rung route) = Inr w \<longleftrightarrow>
            rv_observed_at w \<le> t \<and> t \<le> rv_valid_until w))"
proof -
  let ?ok = "\<lambda>route. \<not> isl (route_admission ck el health route)"
  have found: "find ?ok (fx_routes r) = Some route"
    using assms(2) by (auto simp: select_observed_def consider_routes_first split: option.splits)
  then have valid: "sl_selected_validity (select_observed ck r el health) = projr (route_admission ck el health route)"
    by (simp add: select_observed_def consider_routes_first)
  from find_SomeD [OF found] have admitted: "route_admission ck el health route =
      Inr (sl_selected_validity (select_observed ck r el health))"
    by (auto simp: valid isl_def)
  from found obtain i where i: "i < length (fx_routes r)" "route = fx_routes r ! i" "\<forall>j < i. \<not> ?ok (fx_routes r ! j)"
    by (auto simp: find_Some_iff)
  have split: "fx_routes r = take i (fx_routes r) @ route # drop (Suc i) (fx_routes r)"
    using i(1,2) by (simp add: id_take_nth_drop)
  have before: "\<forall>b \<in> set (take i (fx_routes r)). isl (route_admission ck el health b)"
    using i(1,3) by (auto simp: in_set_conv_nth)
  have window: "RouteHealth_admit ck (h\<lparr>rh_as_of := t\<rparr>) (fr_rung route) = Inr w \<longleftrightarrow>
      rv_observed_at w \<le> t \<and> t \<le> rv_valid_until w"
    if "health = Some h" "sl_selected_validity (select_observed ck r el health) = Some w" for h w t
    using admit_window [OF assms(1), of h "fr_rung route" w] admitted that
    by (auto simp: route_admission_def split: if_splits)
  have "map cr_route (sl_considered (select_observed ck r el health)) = fx_routes r"
    "\<forall>c \<in> set (sl_considered (select_observed ck r el health)).
       cr_excluded c = err_of (route_admission ck el health (cr_route c))"
    by (auto simp: select_observed_def consider_routes_first comp_def split: prod.splits)
  with split before admitted window show ?thesis by blast
qed

section \<open>The identity of a route\<close>

text \<open>The declared models that a route could be: its model id, in a domain that lists its account.\<close>

definition twins :: "FleetDocument \<Rightarrow> ModelRung \<Rightarrow> ModelSpec list" where
  "twins d rung = filter (\<lambda>m. ms_id m = mr_model rung
     \<and> (\<exists>dom. map_of (fd_domains d) (ms_domain m) = Some dom \<and> mr_provider rung \<in> set (ds_accounts dom)))
     (map snd (fd_models d))"

text \<open>Where a route is ambiguous: two domains with its account, and two prefixes of its model id.\<close>

definition prefixes_overlap :: "FleetDocument \<Rightarrow> ModelRung \<Rightarrow> bool" where
  "prefixes_overlap d rung \<longleftrightarrow>
     (\<exists>one \<in> set (map snd (fd_domains d)). \<exists>two \<in> set (map snd (fd_domains d)). \<exists>p q.
        mr_provider rung \<in> set (ds_accounts one) \<and> mr_provider rung \<in> set (ds_accounts two)
        \<and> ds_model_prefix one = Some p \<and> ds_model_prefix two = Some q \<and> p \<noteq> q
        \<and> prefix p (mr_model rung) \<and> prefix q (mr_model rung))"

lemma domain_account_named:
  assumes "policy_ok SchemaV2 d" "map_of (fd_domains d) name = Some domain" "account \<in> set (ds_accounts domain)"
  shows "normalize_provider account = Some (ds_provider domain)"
proof -
  have "\<forall>domain \<in> set (map snd (fd_domains d)). \<forall>account \<in> set (ds_accounts domain). account_named SchemaV2 domain account"
    by (rule policy_rule [OF assms(1), of V05]) (simp add: policy_table_def domain_table_def)
  moreover have "domain \<in> set (map snd (fd_domains d))" using map_of_SomeD [OF assms(2)] by force
  ultimately have "account_named SchemaV2 domain account" using assms(3) by blast
  then show ?thesis by (simp add: account_named_def)
qed

lemma model_matches_twins:
  assumes "policy_ok SchemaV2 d"
  shows "filter (model_matches d rung) (map snd (fd_models d)) = twins d rung"
  unfolding twins_def
  by (rule filter_cong) (auto simp: model_matches_def domain_account_named [OF assms] split: option.splits)

lemma sorted_wrt_apart:
  assumes "sorted_wrt P xs" "\<And>x y. P x y \<Longrightarrow> P y x" "i < length xs" "j < length xs" "i \<noteq> j"
  shows "P (xs ! i) (xs ! j)"
  using assms sorted_wrt_nth_less [OF assms(1)] by (metis nat_neq_iff)

lemma shared_account_prefixes:
  assumes "policy_ok schema d" "map_of (fd_domains d) n = Some one" "map_of (fd_domains d) n' = Some two" "n \<noteq> n'"
    "account \<in> set (ds_accounts one)" "account \<in> set (ds_accounts two)"
  shows "\<exists>p q. ds_model_prefix one = Some p \<and> ds_model_prefix two = Some q \<and> p \<noteq> q"
proof -
  let ?apart = "\<lambda>one two. set (ds_accounts one) \<inter> set (ds_accounts two) \<noteq> {} \<longrightarrow>
    (\<exists>p q. ds_model_prefix one = Some p \<and> ds_model_prefix two = Some q \<and> p \<noteq> q)"
  have sorted: "sorted_wrt ?apart (map snd (fd_domains d))"
    by (rule policy_rule [OF assms(1), of V07]) (simp add: policy_table_def domain_table_def)
  have sym: "?apart two one" if "?apart one two" for one two
    using that unfolding Int_commute [of "set (ds_accounts two)"] by blast
  obtain i j where ij: "i < length (fd_domains d)" "fd_domains d ! i = (n, one)"
      "j < length (fd_domains d)" "fd_domains d ! j = (n', two)"
    using assms(2,3) by (metis map_of_SomeD in_set_conv_nth)
  with assms(4) have "i \<noteq> j" by auto
  from sorted_wrt_apart [OF sorted sym _ _ this] ij(1,3)
  have "?apart (map snd (fd_domains d) ! i) (map snd (fd_domains d) ! j)" by simp
  then show ?thesis using ij assms(5,6) by auto
qed

lemma twins_overlap:
  assumes "policy_ok schema d" "2 \<le> length (twins d rung)"
  shows "prefixes_overlap d rung"
proof -
  have distinct: "distinct (map (\<lambda>m. (ms_domain m, ms_id m)) (map snd (fd_models d)))"
    by (rule policy_rule [OF assms(1), of DUPLICATE_NATIVE_ID]) (simp add: policy_table_def model_table_def)
  have v10: "\<forall>m \<in> set (map snd (fd_models d)). \<forall>dom. map_of (fd_domains d) (ms_domain m) = Some dom \<longrightarrow>
      ms_id m \<noteq> [] \<and> (\<forall>p. ds_model_prefix dom = Some p \<longrightarrow> prefix p (ms_id m))"
    by (rule policy_rule [OF assms(1), of V10]) (simp add: policy_table_def model_table_def)
  obtain a b rest where ab: "twins d rung = a # b # rest" using assms(2) by (metis Suc_le_length_iff numeral_2_eq_2)
  have "distinct (map (\<lambda>m. (ms_domain m, ms_id m)) (twins d rung))"
    unfolding twins_def by (rule distinct_map_filter [OF distinct])
  moreover have twin: "m \<in> set (map snd (fd_models d)) \<and> ms_id m = mr_model rung
      \<and> (\<exists>dom. map_of (fd_domains d) (ms_domain m) = Some dom \<and> mr_provider rung \<in> set (ds_accounts dom))"
    if "m \<in> set (twins d rung)" for m
    using that unfolding twins_def by simp
  note both = twin [of a] twin [of b]
  ultimately have apart: "ms_domain a \<noteq> ms_domain b" using ab by auto
  from both ab obtain one two where doms:
      "map_of (fd_domains d) (ms_domain a) = Some one" "mr_provider rung \<in> set (ds_accounts one)"
      "map_of (fd_domains d) (ms_domain b) = Some two" "mr_provider rung \<in> set (ds_accounts two)"
      "a \<in> set (map snd (fd_models d))" "b \<in> set (map snd (fd_models d))"
      "ms_id a = mr_model rung" "ms_id b = mr_model rung"
    by (metis list.set_intros)
  from shared_account_prefixes [OF assms(1) doms(1,3) apart doms(2,4)] obtain p q where
    pq: "ds_model_prefix one = Some p" "ds_model_prefix two = Some q" "p \<noteq> q" by blast
  have "one \<in> set (map snd (fd_domains d))" "two \<in> set (map snd (fd_domains d))"
    using map_of_SomeD [OF doms(1)] map_of_SomeD [OF doms(3)] by force+
  moreover have "prefix p (mr_model rung)" "prefix q (mr_model rung)"
    using v10 doms pq by metis+
  ultimately show ?thesis unfolding prefixes_overlap_def using doms pq by blast
qed

lemma route_origin:
  assumes "policy_ok schema d" "map_of (fd_chains d) name = Some chain"
    "route \<in> set (fst (chain_resolution d key chain))"
  obtains i entry m dom where "i < length chain" "entry \<in> set (chain ! i)" "fr_step route = of_nat (i + 1)"
    "entry \<in> chain_entries d" "entry_model d entry = Some m"
    "map_of (fd_domains d) (ms_domain m) = Some dom" "mr_provider (fr_rung route) \<in> set (ds_accounts dom)"
    "mr_model (fr_rung route) = ms_id m" "mr_effort (fr_rung route) = entry_effort entry"
    "fr_vendor route = ms_vendor m"
proof -
  from assms(3) obtain i step where step: "(i, step) \<in> set (List.enumerate 0 chain)"
      "\<exists>cal vis. route \<in> set (step_routes d cal vis (i, step))"
    by (auto simp: chain_resolution_def Let_def)
  then obtain cal vis j offer where at: "(j, offer) \<in> set (List.enumerate 0 (concat (map (entry_offers d cal vis) step)))"
      and offer: "route = route_at (of_nat (i + 1)) j offer"
    unfolding step_routes_def by auto
  from at have "offer \<in> set (concat (map (entry_offers d cal vis) step))"
    unfolding enumerate_eq_zip by (rule set_zip_rightD)
  then obtain entry where entry: "entry \<in> set step" "offer \<in> set (entry_offers d cal vis entry)" by auto
  then obtain m account where m: "entry_model d entry = Some m" "offer = (m, entry_effort entry, account)"
      "account \<in> set (entry_accounts d entry)"
    by (cases "entry_model d entry") (auto simp: entry_offers_def split: if_splits)
  then obtain dom where dom: "map_of (fd_domains d) (ms_domain m) = Some dom" "account \<in> set (ds_accounts dom)"
    by (cases "map_of (fd_domains d) (ms_domain m)") (auto simp: entry_accounts_def entry_domain_def)
  have at: "i < length chain" "step = chain ! i" using step(1) by (simp_all add: in_set_enumerate_eq)
  then have "step \<in> set chain" by simp
  then have "entry \<in> chain_entries d"
    using entry(1) map_of_SomeD [OF assms(2)] by (auto simp: chain_entries_def)
  then show ?thesis using that [of i entry m dom] at entry(1) m dom offer by (simp add: route_at_def)
qed

lemma entry_effort_listed:
  assumes "policy_ok schema d" "entry \<in> chain_entries d" "entry_model d entry = Some m"
  shows "effort_listed m (entry_effort entry)"
proof -
  have "\<forall>entry \<in> chain_entries d. \<forall>m. entry_model d entry = Some m \<longrightarrow>
      (case snd (entry_parts entry) of None \<Rightarrow> ms_efforts m = [] | Some effort \<Rightarrow> effort \<in> set (ms_efforts m))"
    by (rule policy_rule [OF assms(1), of V18]) (simp add: policy_table_def chain_table_def)
  then have written: "case snd (entry_parts entry) of None \<Rightarrow> ms_efforts m = []
      | Some effort \<Rightarrow> effort \<in> set (ms_efforts m)" using assms(2,3) by blast
  have "\<forall>m \<in> set (map snd (fd_models d)). \<forall>effort \<in> set (ms_efforts m). \<exists>e. effort = EffortLevel_as_str e"
    by (rule policy_rule [OF assms(1), of V12]) (simp add: policy_table_def model_table_def)
  moreover have "m \<in> set (map snd (fd_models d))"
    using assms(3) unfolding entry_model_def by (force dest: map_of_SomeD)
  ultimately have known: "\<forall>effort \<in> set (ms_efforts m). \<exists>e. effort = EffortLevel_as_str e" by blast
  show ?thesis
  proof (cases "snd (entry_parts entry)")
    case None
    then show ?thesis using written by (simp add: effort_listed_def entry_effort_def)
  next
    case (Some t)
    then obtain e where "t = EffortLevel_as_str e" "t \<in> set (ms_efforts m)" using written known by auto
    then show ?thesis using Some by (auto simp: effort_listed_def entry_effort_def)
  qed
qed

text \<open>Two routes of one step with the same model id come from the same model.\<close>

lemma step_model_unique:
  assumes "policy_ok schema d" "map_of (fd_chains d) name = Some chain" "i < length chain"
    "entry \<in> set (chain ! i)" "entry_model d entry = Some m" "other \<in> set (chain ! i)"
    "entry_model d other = Some m'" "ms_id m = ms_id m'"
  shows "m = m'"
proof -
  have "\<forall>steps \<in> set (map snd (fd_chains d)). \<forall>step \<in> set steps. \<forall>entry \<in> set step. \<forall>other \<in> set step.
      entry_domain d entry = entry_domain d other"
    by (rule policy_rule [OF assms(1), of V19]) (simp add: policy_table_def chain_table_def)
  then have "entry_domain d entry = entry_domain d other"
    using chain_in [OF assms(2)] nth_mem [OF assms(3)] assms(4,6) by blast
  then have "(ms_domain m, ms_id m) = (ms_domain m', ms_id m')" using assms(5,7,8) by (simp add: entry_domain_def)
  moreover have "distinct (map (\<lambda>m. (ms_domain m, ms_id m)) (map snd (fd_models d)))"
    by (rule policy_rule [OF assms(1), of DUPLICATE_NATIVE_ID]) (simp add: policy_table_def model_table_def)
  moreover have "m \<in> set (map snd (fd_models d))" "m' \<in> set (map snd (fd_models d))"
    using assms(5,7) unfolding entry_model_def by (force dest: map_of_SomeD)+
  ultimately show ?thesis unfolding distinct_map inj_on_def by blast
qed


section \<open>Consultation permissions\<close>


section \<open>Leadership keys\<close>

lemma split_char_free: "c \<notin> set a \<Longrightarrow> split_char c a = [a]"
  by (induction a) auto

lemma split_char_first: "c \<notin> set a \<Longrightarrow> split_char c (a @ c # b) = a # split_char c b"
  by (induction a) auto

lemma hash_no_slash: "ContentHash_parse h = Inr h' \<Longrightarrow> CHR ''/'' \<notin> set h"
  by (auto simp: ContentHash_parse_def list_all_iff ascii_digit_def split: if_splits)

lemma slot_no_slash:
  assumes "RoleSlotId_parse slot = Inr slot'"
  shows "CHR ''/'' \<notin> set slot"
proof -
  have "validate_open_key ''RoleKey'' slot = Inr ()" using assms by (auto simp: RoleSlotId_parse_def)
  then obtain first rest where "slot = first # rest" "ascii_lowercase first \<or> ascii_digit first"
      "list_all key_char rest"
    by (auto simp: validate_open_key_def split: list.splits if_splits)
  then show ?thesis
    by (auto simp: key_char_def ascii_lowercase_def ascii_digit_def list_all_iff)
qed

text \<open>C21. A leadership key proves its seat and names nothing else. A key is built only for a slot that
  occurs exactly once in the pinned revision, with that frozen role. Its text splits back into the
  revision's hash and the slot, so two keys with the same text name the same seat; a schema 2 policy
  may bind it and a schema 1 policy may not; and no snapshot resolves the text itself.\<close>

theorem leadership_key_exact:
  assumes "for_pinned_seat revision_of revision slot role = Inr key"
    "ContentHash_parse (cd_hash revision) = Inr h" "RoleSlotId_parse slot = Inr slot'"
  shows "(\<exists>pinned seat. revision_of (cd_json revision) = Some pinned
        \<and> filter (\<lambda>seat. pt_role_slot_id seat = slot) (pn_seats pinned) = [seat] \<and> pt_role seat = role
        \<and> lk_core_team_version key = pn_version pinned)
     \<and> split_char (CHR ''/'') (lk_text key) = [''leadership'', cd_hash revision, slot]
     \<and> Schema_accepts_key SchemaV2 (lk_text key) \<and> \<not> Schema_accepts_key SchemaV1 (lk_text key)
     \<and> (\<forall>s. FleetSnapshot_resolve s (lk_text key) = None)"
proof -
  from assms(1) obtain pinned seat where seat: "revision_of (cd_json revision) = Some pinned"
      "filter (\<lambda>seat. pt_role_slot_id seat = slot) (pn_seats pinned) = [seat]" "pt_role seat = role"
      "key = LeadershipKey_of revision pinned slot"
    by (auto simp: for_pinned_seat_def pinned_seat_def split: option.splits list.splits if_splits)
  have "lk_text key = ''leadership'' @ CHR ''/'' # cd_hash revision @ CHR ''/'' # slot"
    by (simp add: seat(4) LeadershipKey_of_def)
  then have split: "split_char (CHR ''/'') (lk_text key) = [''leadership'', cd_hash revision, slot]"
    using split_char_first [of "CHR ''/''" "''leadership''" "cd_hash revision @ CHR ''/'' # slot"]
      split_char_first [OF hash_no_slash [OF assms(2)], of slot]
      split_char_free [OF slot_no_slash [OF assms(3)]] by simp
  then have "is_leadership_key (lk_text key)" "\<not> is_binding_key (lk_text key)"
    using assms(2,3) by (simp_all add: is_leadership_key_def is_binding_key_def)
  with seat split show ?thesis
    by (simp add: Schema_accepts_key_def FleetSnapshot_resolve_def LeadershipKey_of_def)
qed

end
