(* ===== verification/Fleet_Host.thy ===== *)
theory Fleet_Host
  imports Fleet_Routes
begin

text \<open>
  Host routes, \<^verbatim>\<open>crates/kontor-fleet/src/host_routes.rs\<close>, and the launch snapshot they freeze,
  \<^verbatim>\<open>crates/kontor-core/src/launch_route.rs\<close>: the project's runtime matrix, the host accounts and
  their order, qualification records, the resolution of one canonical rung against them, the
  candidates of a seat, and the stored launch route.  The YAML readers are arguments
  (\<open>read_project\<close>, \<open>read_host\<close>, \<open>read_records\<close>), as are SHA-256 (\<open>hash_of\<close>) and the JSON text of a
  route identity (\<open>identity_json\<close>).
\<close>

section \<open>Tokens and selectors\<close>

definition token :: "string \<Rightarrow> bool" where
  "token value \<longleftrightarrow> value \<noteq> []
     \<and> list_all (\<lambda>c. ascii_lowercase c \<or> ascii_digit c \<or> c \<in> {CHR ''-'', CHR ''_'', CHR ''.''}) value"

definition selector :: "string \<Rightarrow> bool" where
  "selector value \<longleftrightarrow> value \<noteq> [] \<and> trim_text value = value \<and> \<not> list_ex control_char value"

definition qualification_reference :: "string \<Rightarrow> (string \<times> string) FleetResult" where
  "qualification_reference reference =
     (case split_once (CHR ''@'') reference of
        None \<Rightarrow> Inl (FleetInvalid ''route_qualification_malformed'')
      | Some (route, revision) \<Rightarrow>
          if token route \<and> token revision \<and> CHR ''@'' \<notin> set revision then Inr (route, revision)
          else Inl (FleetInvalid ''route_qualification_malformed''))"

section \<open>The runtime matrix\<close>

record RuntimePair =
  rp_name :: "string option"
  rp_harness :: string
  rp_provider :: string

fun check_pairs :: "(string \<times> string) list \<Rightarrow> RuntimePair list \<Rightarrow> unit FleetResult" where
  "check_pairs seen [] = Inr ()"
| "check_pairs seen (pair # rest) =
     (if \<not> token (rp_harness pair) \<or> normalize_provider (rp_provider pair) \<noteq> Some (rp_provider pair)
         \<or> (rp_harness pair, rp_provider pair) \<in> set seen
      then Inl (FleetInvalid ''project_runtime_matrix_invalid'')
      else check_pairs ((rp_harness pair, rp_provider pair) # seen) rest)"

text \<open>The reader answers the matrix of the source, \<open>Some None\<close> when a section on the way to it is absent.\<close>

definition RuntimeMatrix_parse ::
  "(string \<Rightarrow> RuntimePair list option option) \<Rightarrow> string \<Rightarrow> RuntimePair list FleetResult" where
  "RuntimeMatrix_parse read_project source =
     (case read_project source of
        None \<Rightarrow> Inl (FleetInvalid ''project_runtime_matrix_invalid'')
      | Some declared \<Rightarrow>
          (let matrix = (case declared of None \<Rightarrow> [] | Some pairs \<Rightarrow> pairs) in
           try_bind (check_pairs [] matrix) (\<lambda>_. Inr matrix)))"

definition RuntimeMatrix_allows :: "RuntimePair list \<Rightarrow> string \<Rightarrow> string \<Rightarrow> bool" where
  "RuntimeMatrix_allows matrix harness provider \<longleftrightarrow>
     list_ex (\<lambda>pair. rp_harness pair = harness \<and> rp_provider pair = provider) matrix"

section \<open>Host accounts\<close>

record HostAccount =
  ha_provider :: string
  ha_harness :: string
  ha_native_alias :: string
  ha_credential :: string
  ha_serves :: "(string \<times> string) list"
  ha_efforts :: "EffortLevel list option"
  ha_qualification :: "string option"

record HostDocument =
  hd_schema_version :: u32
  hd_provider_accounts :: "(string \<times> HostAccount) list"
  hd_routes :: "(string \<times> string list) list"

record HostRoutes =
  hr_host_bytes :: string
  hr_accounts :: "(string \<times> HostAccount) list"
  hr_routes :: "(string \<times> string list) list"

definition credential_ok :: "string \<Rightarrow> bool" where
  "credential_ok credential \<longleftrightarrow>
     (case split_once (CHR '':'') credential of
        None \<Rightarrow> False
      | Some (kind, reference) \<Rightarrow> kind \<in> {''keychain'', ''env'', ''file''} \<and> selector reference)"

definition efforts_repeat :: "EffortLevel list \<Rightarrow> bool" where
  "efforts_repeat efforts \<longleftrightarrow> length (remdups (map EffortLevel_as_str efforts)) \<noteq> length efforts"

definition check_account :: "string \<times> HostAccount \<Rightarrow> unit FleetResult" where
  "check_account = (\<lambda>(slot, account).
     if \<not> token slot
        \<or> normalize_provider (ha_provider account) \<noteq> Some (ha_provider account)
        \<or> \<not> token (ha_harness account)
        \<or> \<not> selector (ha_native_alias account)
        \<or> \<not> credential_ok (ha_credential account)
        \<or> list_ex (\<lambda>(model, route_id). \<not> token model \<or> \<not> selector route_id) (ha_serves account)
        \<or> (case ha_efforts account of None \<Rightarrow> False | Some efforts \<Rightarrow> efforts_repeat efforts)
     then Inl (FleetInvalid ''host_provider_account_invalid'')
     else (case ha_qualification account of
             None \<Rightarrow> Inr ()
           | Some reference \<Rightarrow> try_bind (qualification_reference reference) (\<lambda>_. Inr ())))"

definition check_route :: "HostDocument \<Rightarrow> string \<times> string list \<Rightarrow> unit FleetResult" where
  "check_route host = (\<lambda>(domain, slots).
     if \<not> token domain \<or> length (remdups slots) \<noteq> length slots
        \<or> list_ex (\<lambda>slot. slot \<notin> set (map fst (hd_provider_accounts host))) slots
     then Inl (FleetInvalid ''host_routes_invalid'')
     else Inr ())"

definition HostRoutes_parse :: "(string \<Rightarrow> HostDocument option) \<Rightarrow> string \<Rightarrow> HostRoutes FleetResult" where
  "HostRoutes_parse read_host host_text =
     (case read_host host_text of
        None \<Rightarrow> Inl (FleetInvalid ''host_routes_invalid'')
      | Some host \<Rightarrow>
          if hd_schema_version host \<noteq> 1 then Inl (FleetInvalid ''host_routes_invalid'')
          else
            try_bind (try_each check_account (hd_provider_accounts host)) (\<lambda>_.
            try_bind (try_each (check_route host) (hd_routes host)) (\<lambda>_.
              Inr \<lparr>hr_host_bytes = host_text, hr_accounts = hd_provider_accounts host,
                   hr_routes = hd_routes host\<rparr>)))"

section \<open>Qualification records\<close>

record QualificationRecord =
  qr_route :: string
  qr_harness :: string
  qr_model :: string
  qr_canonical_model_id :: string
  qr_canonical_vendor :: string
  qr_route_model_id :: string
  qr_efforts :: "EffortLevel list"
  qr_revision :: string
  qr_record_hash :: content_hash

record QualificationSet =
  qs_records :: "QualificationRecord list"
  qs_activated_at :: "timestamp option"
  qs_policy_hash :: content_hash

fun join_commas :: "string list \<Rightarrow> string" where
  "join_commas [] = []"
| "join_commas [x] = x"
| "join_commas (x # y # rest) = x @ '','' @ join_commas (y # rest)"

definition QualificationRecord_hash :: "(string \<Rightarrow> content_hash) \<Rightarrow> QualificationRecord \<Rightarrow> content_hash" where
  "QualificationRecord_hash hash_of q =
     (let line = [CHR 0x0A] in
      hash_of (''route='' @ qr_route q @ line @ ''harness='' @ qr_harness q @ line
        @ ''model='' @ qr_model q @ line @ ''canonical_model_id='' @ qr_canonical_model_id q @ line
        @ ''canonical_vendor='' @ qr_canonical_vendor q @ line
        @ ''route_model_id='' @ qr_route_model_id q @ line
        @ ''efforts='' @ join_commas (map EffortLevel_as_str (qr_efforts q)) @ line
        @ ''revision='' @ qr_revision q))"

definition check_record ::
  "(string \<Rightarrow> content_hash) \<Rightarrow> FleetSnapshot \<Rightarrow> (string \<times> string) list \<Rightarrow> QualificationRecord \<Rightarrow>
   unit FleetResult" where
  "check_record hash_of fleet seen q =
     (if (qr_route q, qr_revision q) \<in> set seen
         \<or> normalize_provider (qr_route q) \<noteq> Some (qr_route q)
         \<or> \<not> token (qr_harness q) \<or> \<not> token (qr_revision q) \<or> \<not> selector (qr_route_model_id q)
         \<or> efforts_repeat (qr_efforts q)
      then Inl (FleetInvalid ''route_qualification_malformed'')
      else if QualificationRecord_hash hash_of q \<noteq> qr_record_hash q
      then Inl (FleetInvalid ''route_qualification_hash_mismatch'')
      else (case map_of (fd_models (fs_document fleet)) (qr_model q) of
              None \<Rightarrow> Inl (FleetInvalid ''route_qualification_unproven'')
            | Some model \<Rightarrow>
                if ms_id model \<noteq> qr_canonical_model_id q \<or> ms_vendor model \<noteq> qr_canonical_vendor q
                   \<or> list_ex (\<lambda>effort. EffortLevel_as_str effort \<notin> set (ms_efforts model)) (qr_efforts q)
                   \<or> (qr_efforts q = []) \<noteq> (ms_efforts model = [])
                then Inl (FleetInvalid ''route_qualification_unproven'')
                else Inr ()))"

fun check_records ::
  "(string \<Rightarrow> content_hash) \<Rightarrow> FleetSnapshot \<Rightarrow> (string \<times> string) list \<Rightarrow> QualificationRecord list \<Rightarrow>
   unit FleetResult" where
  "check_records hash_of fleet seen [] = Inr ()"
| "check_records hash_of fleet seen (q # rest) =
     try_bind (check_record hash_of fleet seen q) (\<lambda>_.
       check_records hash_of fleet ((qr_route q, qr_revision q) # seen) rest)"

definition QualificationSet_parse ::
  "(string \<Rightarrow> (u32 \<times> QualificationRecord list) option) \<Rightarrow> (string \<Rightarrow> content_hash) \<Rightarrow> string \<Rightarrow>
   FleetSnapshot \<Rightarrow> QualificationSet FleetResult" where
  "QualificationSet_parse read_records hash_of source fleet =
     (case read_records source of
        None \<Rightarrow> Inl (FleetInvalid ''route_qualification_malformed'')
      | Some (schema_version, records) \<Rightarrow>
          if schema_version \<noteq> 1 then Inl (FleetInvalid ''route_qualification_malformed'')
          else try_bind (check_records hash_of fleet [] records) (\<lambda>_.
            Inr \<lparr>qs_records = records, qs_activated_at = None, qs_policy_hash = fs_hash fleet\<rparr>))"

definition QualificationSet_activated ::
  "(string \<Rightarrow> (u32 \<times> QualificationRecord list) option) \<Rightarrow> (string \<Rightarrow> content_hash) \<Rightarrow> string \<Rightarrow>
   content_hash \<Rightarrow> FleetSnapshot \<Rightarrow> timestamp \<Rightarrow> QualificationSet FleetResult" where
  "QualificationSet_activated read_records hash_of source source_hash fleet activated_at =
     (if hash_of source \<noteq> source_hash then Inl (FleetInvalid ''route_qualification_hash_mismatch'')
      else try_bind (QualificationSet_parse read_records hash_of source fleet) (\<lambda>records.
        Inr (records\<lparr>qs_activated_at := Some activated_at\<rparr>)))"

definition QualificationSet_prove ::
  "QualificationSet \<Rightarrow> string \<Rightarrow> HostAccount \<Rightarrow> string \<Rightarrow> ModelSpec \<Rightarrow> EffortLevel option \<Rightarrow>
   unit FleetResult" where
  "QualificationSet_prove qs reference account symbolic model effort =
     (if qs_activated_at qs = None then Inl (FleetInvalid ''route_qualification_unproven'')
      else try_bind (qualification_reference reference) (\<lambda>(route, revision).
        case find (\<lambda>q. qr_route q = route \<and> qr_revision q = revision) (qs_records qs) of
          None \<Rightarrow> Inl (FleetInvalid ''route_qualification_unproven'')
        | Some q \<Rightarrow>
            if route \<noteq> ha_provider account \<or> qr_harness q \<noteq> ha_harness account \<or> qr_model q \<noteq> symbolic
               \<or> qr_canonical_model_id q \<noteq> ms_id model \<or> qr_canonical_vendor q \<noteq> ms_vendor model
               \<or> map_of (ha_serves account) symbolic \<noteq> Some (qr_route_model_id q)
               \<or> (case effort of None \<Rightarrow> qr_efforts q \<noteq> []
                    | Some e \<Rightarrow> e \<notin> set (qr_efforts q))
            then Inl (FleetInvalid ''route_qualification_unproven'')
            else Inr ()))"

section \<open>The frozen route\<close>

record ResolvedRoute =
  rr_schema_version :: u32
  rr_slot :: string
  rr_route_provider :: string
  rr_route_harness :: string
  rr_native_alias :: string
  rr_qualification :: "string option"
  rr_route_model_id :: string
  rr_canonical_model :: string
  rr_canonical_effort :: "EffortLevel option"
  rr_canonical_vendor :: string
  rr_policy_hash :: content_hash
  rr_host_route_hash :: content_hash
  rr_resolved_at :: timestamp

definition ResolvedRoute_canonical_rung :: "ResolvedRoute \<Rightarrow> ModelRung" where
  "ResolvedRoute_canonical_rung r =
     \<lparr>mr_provider = rr_slot r, mr_model = rr_canonical_model r, mr_effort = rr_canonical_effort r\<rparr>"

definition reference_incomplete :: "string \<Rightarrow> bool" where
  "reference_incomplete value \<longleftrightarrow>
     (case split_once (CHR ''@'') value of
        None \<Rightarrow> True
      | Some (route, revision) \<Rightarrow> route = [] \<or> revision = [] \<or> CHR ''@'' \<in> set revision
          \<or> list_ex whitespace value)"

definition ResolvedRoute_validate :: "ResolvedRoute \<Rightarrow> unit DomainResult" where
  "ResolvedRoute_validate r =
     (if rr_schema_version r \<noteq> 1
         \<or> list_ex (\<lambda>value. value = [] \<or> trim_text value \<noteq> value \<or> list_ex control_char value)
             [rr_slot r, rr_route_provider r, rr_route_harness r, rr_native_alias r,
              rr_route_model_id r, rr_canonical_model r, rr_canonical_vendor r]
         \<or> (case rr_qualification r of None \<Rightarrow> False | Some value \<Rightarrow> reference_incomplete value)
      then Inl (Invalid ''ResolvedRoute'' ''host_route_snapshot_invalid'')
      else ModelRung_validate (ResolvedRoute_canonical_rung r))"

record ResolvedRouteEnvelope =
  re_schema_version :: u32
  re_resolved_route :: ResolvedRoute

datatype StoredLaunchRoute = Resolved ResolvedRouteEnvelope | Legacy ModelRung

definition StoredLaunchRoute_resolved :: "ResolvedRoute \<Rightarrow> StoredLaunchRoute DomainResult" where
  "StoredLaunchRoute_resolved route =
     try_bind (ResolvedRoute_validate route) (\<lambda>_.
       Inr (Resolved \<lparr>re_schema_version = 1, re_resolved_route = route\<rparr>))"

definition StoredLaunchRoute_validate :: "StoredLaunchRoute \<Rightarrow> unit DomainResult" where
  "StoredLaunchRoute_validate stored =
     (case stored of
        Resolved envelope \<Rightarrow>
          if re_schema_version envelope = 1 then ResolvedRoute_validate (re_resolved_route envelope)
          else Inl (Invalid ''StoredLaunchRoute'' ''host_route_snapshot_invalid'')
      | Legacy rung \<Rightarrow> ModelRung_validate rung)"

definition StoredLaunchRoute_canonical_rung :: "StoredLaunchRoute \<Rightarrow> ModelRung" where
  "StoredLaunchRoute_canonical_rung stored =
     (case stored of
        Resolved envelope \<Rightarrow> ResolvedRoute_canonical_rung (re_resolved_route envelope)
      | Legacy rung \<Rightarrow> rung)"

definition StoredLaunchRoute_frozen :: "StoredLaunchRoute \<Rightarrow> ResolvedRoute option" where
  "StoredLaunchRoute_frozen stored =
     (case stored of Resolved envelope \<Rightarrow> Some (re_resolved_route envelope) | Legacy _ \<Rightarrow> None)"

record LegacyRouteView =
  lv_slot :: string
  lv_native_alias :: string
  lv_route_provider :: string
  lv_route_harness :: string
  lv_route_model_id :: string
  lv_canonical_model :: string
  lv_canonical_effort :: "EffortLevel option"
  lv_canonical_vendor :: string
  lv_qualification :: "string option"
  lv_policy_hash :: "content_hash option"
  lv_host_route_hash :: "content_hash option"

definition clean_text :: "string \<Rightarrow> bool" where
  "clean_text value \<longleftrightarrow> value \<noteq> [] \<and> trim_text value = value \<and> \<not> list_ex control_char value"

definition from_frozen_evidence ::
  "ModelRung \<Rightarrow> string option \<Rightarrow> string option \<Rightarrow> LegacyRouteView DomainResult" where
  "from_frozen_evidence rung harness vendor =
     (let unproven = Inl (Invalid ''LegacyRouteView'' ''host_route_legacy_unproven'') in
      case normalize_provider (mr_provider rung) of
        None \<Rightarrow> unproven
      | Some family \<Rightarrow>
          (case harness of
             None \<Rightarrow> unproven
           | Some h \<Rightarrow>
               if \<not> clean_text h then unproven
               else (case vendor of
                       None \<Rightarrow> unproven
                     | Some v \<Rightarrow>
                         if \<not> (clean_text v \<and> v \<noteq> ''unknown'') then unproven
                         else if trim_text (mr_model rung) = [] then unproven
                         else Inr \<lparr>lv_slot = mr_provider rung, lv_native_alias = mr_provider rung,
                                lv_route_provider = family, lv_route_harness = h,
                                lv_route_model_id = mr_model rung, lv_canonical_model = mr_model rung,
                                lv_canonical_effort = mr_effort rung, lv_canonical_vendor = v,
                                lv_qualification = None, lv_policy_hash = None,
                                lv_host_route_hash = None\<rparr>)))"

section \<open>Resolving one rung\<close>

record host_ops =
  ho_hash_of :: "string \<Rightarrow> content_hash"
  ho_identity_json :: "content_hash \<Rightarrow> string \<Rightarrow> string list \<Rightarrow> string"

definition host_route_hash :: "host_ops \<Rightarrow> string \<Rightarrow> string \<Rightarrow> string list \<Rightarrow> content_hash" where
  "host_route_hash ops host_bytes domain slots =
     ho_hash_of ops (ho_identity_json ops (ho_hash_of ops host_bytes) domain slots)"

text \<open>The source finds the symbolic name as the entry that is, by address, the one matching model.\<close>

definition symbolic_name :: "FleetSnapshot \<Rightarrow> ModelRung \<Rightarrow> string option" where
  "symbolic_name fleet rung =
     map_option fst (sole (filter (\<lambda>(_, m). model_matches (fs_document fleet) rung m)
       (fd_models (fs_document fleet))))"

definition effort_unsupported :: "HostAccount \<Rightarrow> EffortLevel option \<Rightarrow> bool" where
  "effort_unsupported account effort \<longleftrightarrow>
     (case ha_efforts account of
        None \<Rightarrow> False
      | Some efforts \<Rightarrow>
          (case effort of None \<Rightarrow> efforts \<noteq> [] | Some e \<Rightarrow> e \<notin> set efforts))"

definition check_qualification ::
  "FleetSnapshot \<Rightarrow> QualificationSet option \<Rightarrow> HostAccount \<Rightarrow> DomainSpec \<Rightarrow> string \<Rightarrow> string \<Rightarrow> ModelSpec \<Rightarrow>
   EffortLevel option \<Rightarrow> unit FleetResult" where
  "check_qualification fleet qualifications account domain symbolic native_model model effort =
     (case ha_qualification account of
        Some reference \<Rightarrow>
          (case qualifications of
             None \<Rightarrow> Inl (FleetInvalid ''route_qualification_unproven'')
           | Some q \<Rightarrow>
               if qs_policy_hash q \<noteq> fs_hash fleet then Inl (FleetInvalid ''route_qualification_unproven'')
               else QualificationSet_prove q reference account symbolic model effort)
      | None \<Rightarrow>
          if ha_provider account \<noteq> ds_provider domain
          then Inl (FleetInvalid ''route_qualification_unproven'')
          else if native_model \<noteq> ms_id model then Inl (FleetInvalid ''route_model_id_unproven'')
          else Inr ())"

definition or_refuse :: "'a option \<Rightarrow> string \<Rightarrow> 'a FleetResult" where
  "or_refuse x rule = (case x of None \<Rightarrow> Inl (FleetInvalid rule) | Some y \<Rightarrow> Inr y)"

definition HostRoutes_resolve ::
  "host_ops \<Rightarrow> HostRoutes \<Rightarrow> FleetSnapshot \<Rightarrow> ModelRung \<Rightarrow> RuntimePair list \<Rightarrow> QualificationSet option \<Rightarrow>
   timestamp \<Rightarrow> ResolvedRoute FleetResult" where
  "HostRoutes_resolve ops host fleet rung matrix qualifications now =
     (if \<not> FleetSnapshot_lists fleet rung then Inl (FleetInvalid ''host_route_canonical_unproven'')
      else
        try_bind (or_refuse (model_of fleet rung) ''host_route_canonical_unproven'') (\<lambda>model.
        try_bind (or_refuse (map_of (fd_domains (fs_document fleet)) (ms_domain model))
            ''host_route_canonical_unproven'') (\<lambda>domain.
        try_bind (or_refuse (map_of (hr_routes host) (ms_domain model)) ''host_route_domain_unavailable'') (\<lambda>slots.
        if list_ex (\<lambda>slot. slot \<notin> set (ds_accounts domain)) slots
        then Inl (FleetInvalid ''host_route_slot_domain_mismatch'')
        else if mr_provider rung \<notin> set slots then Inl (FleetInvalid ''host_route_slot_unavailable'')
        else
        try_bind (or_refuse (map_of (hr_accounts host) (mr_provider rung)) ''host_route_slot_unavailable'') (\<lambda>account.
        if \<not> RuntimeMatrix_allows matrix (ha_harness account) (ha_provider account)
        then Inl (FleetInvalid ''runtime_pair_not_allowed'')
        else
        try_bind (or_refuse (symbolic_name fleet rung) ''host_route_canonical_unproven'') (\<lambda>symbolic.
        try_bind (or_refuse (map_of (ha_serves account) symbolic) ''route_not_served'') (\<lambda>native_model.
        if effort_unsupported account (mr_effort rung)
        then Inl (FleetInvalid ''route_effort_unsupported'')
        else
        try_bind (check_qualification fleet qualifications account domain symbolic native_model model
            (mr_effort rung)) (\<lambda>_.
        Inr \<lparr>rr_schema_version = 1, rr_slot = mr_provider rung, rr_route_provider = ha_provider account,
             rr_route_harness = ha_harness account, rr_native_alias = ha_native_alias account,
             rr_qualification = ha_qualification account, rr_route_model_id = native_model,
             rr_canonical_model = ms_id model, rr_canonical_effort = mr_effort rung,
             rr_canonical_vendor = ms_vendor model, rr_policy_hash = fs_hash fleet,
             rr_host_route_hash = host_route_hash ops (hr_host_bytes host) (ms_domain model) slots,
             rr_resolved_at = now\<rparr>))))))))"

section \<open>The candidates of a seat\<close>

type_synonym host_try = "(FleetRoute \<times> ResolvedRoute) list \<times> string"

definition same_route :: "FleetRoute \<Rightarrow> FleetRoute \<Rightarrow> bool" where
  "same_route route cand \<longleftrightarrow> fr_step cand = fr_step route
     \<and> mr_model (fr_rung cand) = mr_model (fr_rung route)
     \<and> mr_effort (fr_rung cand) = mr_effort (fr_rung route)"

definition try_slot ::
  "(ModelRung \<Rightarrow> ResolvedRoute FleetResult) \<Rightarrow> FleetRoute list \<Rightarrow> FleetRoute \<Rightarrow> string \<Rightarrow> host_try \<Rightarrow>
   host_try FleetResult" where
  "try_slot res routes route slot = (\<lambda>(result, reason).
     case find (\<lambda>c. same_route route c \<and> mr_provider (fr_rung c) = slot) routes of
       None \<Rightarrow> Inr (result, reason)
     | Some cand \<Rightarrow>
         (case res (fr_rung cand) of
            Inr resolved \<Rightarrow> Inr (result @ [(cand, resolved)], reason)
          | Inl (FleetInvalid rule) \<Rightarrow> Inr (result, rule)
          | Inl error \<Rightarrow> Inl error))"

fun try_slots ::
  "(ModelRung \<Rightarrow> ResolvedRoute FleetResult) \<Rightarrow> FleetRoute list \<Rightarrow> FleetRoute \<Rightarrow> string list \<Rightarrow> host_try \<Rightarrow>
   host_try FleetResult" where
  "try_slots res routes route [] acc = Inr acc"
| "try_slots res routes route (slot # rest) acc =
     try_bind (try_slot res routes route slot acc) (\<lambda>acc'. try_slots res routes route rest acc')"

definition route_identity :: "FleetRoute \<Rightarrow> u16 \<times> string \<times> string option" where
  "route_identity route =
     (fr_step route, mr_model (fr_rung route), map_option EffortLevel_as_str (mr_effort (fr_rung route)))"

fun try_routes ::
  "(ModelRung \<Rightarrow> ResolvedRoute FleetResult) \<Rightarrow> HostRoutes \<Rightarrow> FleetSnapshot \<Rightarrow> string list \<Rightarrow> FleetRoute list \<Rightarrow>
   (u16 \<times> string \<times> string option) list \<Rightarrow> FleetRoute list \<Rightarrow> host_try \<Rightarrow> host_try FleetResult" where
  "try_routes res host fleet excluded_vendors routes seen [] acc = Inr acc"
| "try_routes res host fleet excluded_vendors routes seen (route # rest) acc =
     (if route_identity route \<in> set seen
      then try_routes res host fleet excluded_vendors routes seen rest acc
      else if fr_vendor route \<in> set excluded_vendors
      then try_routes res host fleet excluded_vendors routes (route_identity route # seen) rest
        (fst acc, ''vendor_independence_unpreserved'')
      else
        try_bind (or_refuse (model_of fleet (fr_rung route)) ''host_route_canonical_unproven'') (\<lambda>model.
          case map_of (hr_routes host) (ms_domain model) of
            None \<Rightarrow> try_routes res host fleet excluded_vendors routes (route_identity route # seen) rest acc
          | Some slots \<Rightarrow>
              try_bind (try_slots res routes route slots acc) (\<lambda>acc'.
                try_routes res host fleet excluded_vendors routes (route_identity route # seen) rest acc')))"

definition HostRoutes_candidates ::
  "host_ops \<Rightarrow> HostRoutes \<Rightarrow> FleetSnapshot \<Rightarrow> FleetResolution \<Rightarrow> RuntimePair list \<Rightarrow> QualificationSet option \<Rightarrow>
   string list \<Rightarrow> timestamp \<Rightarrow> (FleetRoute \<times> ResolvedRoute) list FleetResult" where
  "HostRoutes_candidates ops host fleet resolution matrix qualifications excluded_vendors now =
     (if resolve_bound fleet (fp_binding_key (fx_provenance resolution)) \<noteq> Some resolution
      then Inl (FleetInvalid ''host_route_policy_mismatch'')
      else
        try_bind (try_routes (\<lambda>rung. HostRoutes_resolve ops host fleet rung matrix qualifications now)
            host fleet excluded_vendors (fx_routes resolution) [] (fx_routes resolution)
            ([], ''host_route_unavailable''))
          (\<lambda>(result, reason).
            if result = [] then Inl (FleetInvalid reason) else Inr result))"

end
