(* ===== verification/Fleet_Launch.thy ===== *)
theory Fleet_Launch
  imports Fleet_Host
begin

text \<open>
  What a host join guarantees.  A frozen route keeps the canonical identity it was asked for and
  rests on the project's matrix and, where the host changes provider or model id, on an activated
  qualification; the candidates of a seat are exactly its compatible routes, in step order; and a
  frozen route can be stored.  The candidate loop is verified against the contract of any resolver
  that refuses by rule (\<open>rule_resolver\<close>), which the host resolver keeps.
\<close>

section \<open>A resolver that refuses by rule\<close>

locale rule_resolver =
  fixes res :: "ModelRung \<Rightarrow> ResolvedRoute FleetResult"
  assumes refuses_by_rule: "res rung = Inl e \<Longrightarrow> \<exists>rule. e = FleetInvalid rule"
begin

definition hits :: "FleetRoute list \<Rightarrow> FleetRoute \<Rightarrow> string \<Rightarrow> (FleetRoute \<times> ResolvedRoute) list" where
  "hits routes route slot =
     (case find (\<lambda>c. same_route route c \<and> mr_provider (fr_rung c) = slot) routes of
        None \<Rightarrow> []
      | Some c \<Rightarrow> (case res (fr_rung c) of Inl _ \<Rightarrow> [] | Inr v \<Rightarrow> [(c, v)]))"

lemma try_slot_hits:
  "\<exists>reason'. try_slot res routes route slot (result, reason) = Inr (result @ hits routes route slot, reason')"
proof (cases "find (\<lambda>c. same_route route c \<and> mr_provider (fr_rung c) = slot) routes")
  case (Some c)
  show ?thesis
  proof (cases "res (fr_rung c)")
    case (Inl e)
    with refuses_by_rule obtain rule where "e = FleetInvalid rule" by blast
    then show ?thesis using Some Inl by (simp add: try_slot_def hits_def)
  qed (use Some in \<open>simp add: try_slot_def hits_def\<close>)
qed (simp add: try_slot_def hits_def)

lemma try_slots_hits:
  "\<exists>reason'. try_slots res routes route slots (result, reason) =
     Inr (result @ concat (map (hits routes route) slots), reason')"
proof (induction slots arbitrary: result reason)
  case (Cons slot slots)
  from try_slot_hits [of routes route slot result reason] obtain r where
    r: "try_slot res routes route slot (result, reason) = Inr (result @ hits routes route slot, r)" ..
  from Cons [of "result @ hits routes route slot" r] r show ?case by auto
qed simp

definition group ::
  "HostRoutes \<Rightarrow> FleetSnapshot \<Rightarrow> string list \<Rightarrow> FleetRoute list \<Rightarrow> FleetRoute \<Rightarrow> (FleetRoute \<times> ResolvedRoute) list" where
  "group host fleet vendors routes route =
     (if fr_vendor route \<in> set vendors then []
      else case Option.bind (model_of fleet (fr_rung route)) (\<lambda>m. map_of (hr_routes host) (ms_domain m)) of
             None \<Rightarrow> [] | Some slots \<Rightarrow> concat (map (hits routes route) slots))"

fun fresh_routes :: "(u16 \<times> string \<times> string option) list \<Rightarrow> FleetRoute list \<Rightarrow> FleetRoute list" where
  "fresh_routes seen [] = []"
| "fresh_routes seen (r # rs) =
     (if route_identity r \<in> set seen then fresh_routes seen rs
      else r # fresh_routes (route_identity r # seen) rs)"

lemma fresh_subset: "set (fresh_routes seen rs) \<subseteq> set rs"
  by (induction seen rs rule: fresh_routes.induct) auto

lemma fresh_covers:
  "r \<in> set rs \<Longrightarrow> route_identity r \<in> set seen \<or> (\<exists>f \<in> set (fresh_routes seen rs). route_identity f = route_identity r)"
  by (induction seen rs rule: fresh_routes.induct) auto

lemma fresh_sorted: "sorted (map f rs) \<Longrightarrow> sorted (map f (fresh_routes seen rs))"
  by (induction seen rs rule: fresh_routes.induct) (use fresh_subset in \<open>fastforce\<close>)+

lemma try_routes_groups:
  "try_routes res host fleet vendors routes seen rs acc = Inr (result, reason) \<Longrightarrow>
     result = fst acc @ concat (map (group host fleet vendors routes) (fresh_routes seen rs))
     \<and> (\<forall>f \<in> set (fresh_routes seen rs). fr_vendor f \<notin> set vendors \<longrightarrow> model_of fleet (fr_rung f) \<noteq> None)"
proof (induction rs arbitrary: seen acc)
  case (Cons r rs)
  show ?case
  proof (cases "route_identity r \<in> set seen \<or> fr_vendor r \<in> set vendors")
    case True
    then show ?thesis using Cons by (auto simp: group_def split: if_splits)
  next
    case False
    with Cons.prems obtain m where m: "model_of fleet (fr_rung r) = Some m"
      by (auto simp: or_refuse_def split: option.splits)
    show ?thesis
    proof (cases "map_of (hr_routes host) (ms_domain m)")
      case None
      then show ?thesis using Cons False m by (auto simp: group_def or_refuse_def)
    next
      case (Some slots)
      from try_slots_hits [of routes r slots "fst acc" "snd acc"] obtain reason' where
        "try_slots res routes r slots acc = Inr (fst acc @ concat (map (hits routes r) slots), reason')" by auto
      moreover have "group host fleet vendors routes r = concat (map (hits routes r) slots)"
        using False m Some by (simp add: group_def)
      ultimately have "try_routes res host fleet vendors routes (route_identity r # seen) rs
          (fst acc @ group host fleet vendors routes r, reason') = Inr (result, reason)"
        using Cons.prems False m Some by (simp add: or_refuse_def)
      from Cons.IH [OF this] show ?thesis using False m by auto
    qed
  qed
qed simp

lemma hits_sound:
  assumes "(c, v) \<in> set (hits routes route slot)"
  shows "c \<in> set routes \<and> same_route route c \<and> res (fr_rung c) = Inr v"
proof (cases "find (\<lambda>c. same_route route c \<and> mr_provider (fr_rung c) = slot) routes")
  case (Some x)
  then show ?thesis using assms find_SomeD [OF Some] by (cases "res (fr_rung x)") (auto simp: hits_def)
qed (use assms in \<open>simp add: hits_def\<close>)

lemma group_sound:
  assumes "(c, v) \<in> set (group host fleet vendors routes route)"
  shows "c \<in> set routes" "same_route route c" "fr_vendor route \<notin> set vendors" "res (fr_rung c) = Inr v"
  using assms
  by (cases "Option.bind (model_of fleet (fr_rung route)) (\<lambda>m. map_of (hr_routes host) (ms_domain m))";
      auto simp: group_def dest!: hits_sound split: if_splits)+

end

section \<open>The host resolver\<close>

lemma or_refuse_rule: "or_refuse x rule = Inl e \<Longrightarrow> \<exists>rule. e = FleetInvalid rule"
  by (auto simp: or_refuse_def split: option.splits)

lemma or_refuse_Inr [simp]: "or_refuse x rule = Inr y \<longleftrightarrow> x = Some y"
  by (auto simp: or_refuse_def split: option.splits)

lemma qualification_rule:
  "check_qualification fleet q account domain symbolic native model effort = Inl e \<Longrightarrow> \<exists>rule. e = FleetInvalid rule"
  by (auto simp: check_qualification_def QualificationSet_prove_def qualification_reference_def try_bind_eq_Inl
      split: option.splits if_splits prod.splits)

lemma resolve_rule:
  assumes "HostRoutes_resolve ops host fleet rung matrix q now = Inl e"
  shows "\<exists>rule. e = FleetInvalid rule"
  using assms unfolding HostRoutes_resolve_def
  by (auto simp: try_bind_eq_Inl split: if_splits dest: or_refuse_rule qualification_rule)

interpretation frozen: rule_resolver "\<lambda>rung. HostRoutes_resolve ops host fleet rung matrix q now"
  for ops host fleet matrix q now
  by unfold_locales (rule resolve_rule)

text \<open>The facts a resolution establishes.\<close>

lemma resolve_facts:
  assumes "HostRoutes_resolve ops host fleet rung matrix q now = Inr v"
  obtains model domain slots account symbolic where
    "FleetSnapshot_lists fleet rung" "model_of fleet rung = Some model"
    "map_of (fd_domains (fs_document fleet)) (ms_domain model) = Some domain"
    "map_of (hr_routes host) (ms_domain model) = Some slots" "mr_provider rung \<in> set slots"
    "\<forall>slot \<in> set slots. slot \<in> set (ds_accounts domain)" "map_of (hr_accounts host) (mr_provider rung) = Some account"
    "RuntimeMatrix_allows matrix (ha_harness account) (ha_provider account)"
    "symbolic_name fleet rung = Some symbolic" "map_of (ha_serves account) symbolic = Some (rr_route_model_id v)"
    "\<not> effort_unsupported account (mr_effort rung)"
    "check_qualification fleet q account domain symbolic (rr_route_model_id v) model (mr_effort rung) = Inr ()"
    "v = \<lparr>rr_schema_version = 1, rr_slot = mr_provider rung, rr_route_provider = ha_provider account,
       rr_route_harness = ha_harness account, rr_native_alias = ha_native_alias account,
       rr_qualification = ha_qualification account, rr_route_model_id = rr_route_model_id v,
       rr_canonical_model = ms_id model, rr_canonical_effort = mr_effort rung,
       rr_canonical_vendor = ms_vendor model, rr_policy_hash = fs_hash fleet,
       rr_host_route_hash = host_route_hash ops (hr_host_bytes host) (ms_domain model) slots,
       rr_resolved_at = now\<rparr>"
proof -
  have "FleetSnapshot_lists fleet rung" using assms by (simp add: HostRoutes_resolve_def split: if_splits)
  then show ?thesis
    using assms unfolding HostRoutes_resolve_def
    by (clarsimp simp: list_ex_iff split: if_splits) (rule that, assumption+, simp_all)
qed

section \<open>The join keeps the canonical identity\<close>

lemma sole_Some: "sole xs = Some x \<Longrightarrow> xs = [x]"
  by (auto simp: sole_def split: list.splits)

lemma model_of_matches:
  assumes "model_of s rung = Some m"
  shows "model_matches (fs_document s) rung m"
  using sole_Some [OF assms [unfolded model_of_def]] by (metis list.set_intros(1) mem_Collect_eq set_filter)

text \<open>The proof a qualified account rests on.\<close>

definition well_qualified :: "FleetSnapshot \<Rightarrow> QualificationSet option \<Rightarrow> string \<Rightarrow> ResolvedRoute \<Rightarrow> bool" where
  "well_qualified fleet qualifications reference v \<longleftrightarrow>
     (\<exists>q record route revision. qualifications = Some q \<and> qs_activated_at q \<noteq> None
        \<and> qs_policy_hash q = fs_hash fleet \<and> qualification_reference reference = Inr (route, revision)
        \<and> record \<in> set (qs_records q) \<and> qr_route record = route \<and> qr_revision record = revision
        \<and> rr_route_provider v = route \<and> rr_route_harness v = qr_harness record
        \<and> rr_route_model_id v = qr_route_model_id record
        \<and> rr_canonical_model v = qr_canonical_model_id record
        \<and> rr_canonical_vendor v = qr_canonical_vendor record
        \<and> (case rr_canonical_effort v of None \<Rightarrow> qr_efforts record = []
            | Some e \<Rightarrow> e \<in> set (qr_efforts record)))"

lemma prove_facts:
  assumes "QualificationSet_prove q reference account symbolic model effort = Inr ()"
  obtains route revision qr where
    "qs_activated_at q \<noteq> None" "qualification_reference reference = Inr (route, revision)"
    "qr \<in> set (qs_records q)" "qr_route qr = route" "qr_revision qr = revision" "route = ha_provider account"
    "qr_harness qr = ha_harness account" "qr_canonical_model_id qr = ms_id model"
    "qr_canonical_vendor qr = ms_vendor model" "map_of (ha_serves account) symbolic = Some (qr_route_model_id qr)"
    "case effort of None \<Rightarrow> qr_efforts qr = [] | Some e \<Rightarrow> e \<in> set (qr_efforts qr)"
proof -
  from assms obtain route revision where ref: "qs_activated_at q \<noteq> None"
      "qualification_reference reference = Inr (route, revision)"
    by (auto simp: QualificationSet_prove_def split: if_splits)
  with assms obtain qr where qr: "find (\<lambda>q. qr_route q = route \<and> qr_revision q = revision) (qs_records q) = Some qr"
    by (auto simp: QualificationSet_prove_def split: option.splits)
  show ?thesis
    using assms ref qr find_SomeD [OF qr]
    by (intro that [of route revision qr]) (auto simp: QualificationSet_prove_def split: if_splits option.splits)
qed

text \<open>C17. A host join never changes what was asked for. A frozen route has the canonical account, model
  and effort of its rung and the maker the policy names, under the policy's own address; its harness
  and provider are a pair of the project's matrix; and it runs another provider or model id only on the
  strength of an activated qualification record for exactly this harness, model, maker and effort.\<close>

theorem host_join_keeps_identity:
  assumes "HostRoutes_resolve ops host fleet rung matrix qualifications now = Inr v"
  shows "ResolvedRoute_canonical_rung v = rung \<and> FleetSnapshot_lists fleet rung
     \<and> vendor_of fleet rung = Some (rr_canonical_vendor v) \<and> rr_policy_hash v = fs_hash fleet
     \<and> RuntimeMatrix_allows matrix (rr_route_harness v) (rr_route_provider v)
     \<and> (case rr_qualification v of
          None \<Rightarrow> rr_route_model_id v = rr_canonical_model v
            \<and> normalize_provider (rr_slot v) = Some (rr_route_provider v)
        | Some reference \<Rightarrow> well_qualified fleet qualifications reference v)"
proof -
  from assms obtain model domain slots account symbolic where f:
    "FleetSnapshot_lists fleet rung" "model_of fleet rung = Some model"
    "map_of (fd_domains (fs_document fleet)) (ms_domain model) = Some domain"
    "RuntimeMatrix_allows matrix (ha_harness account) (ha_provider account)"
    "map_of (ha_serves account) symbolic = Some (rr_route_model_id v)"
    "check_qualification fleet qualifications account domain symbolic (rr_route_model_id v) model (mr_effort rung) = Inr ()"
    and v: "v = \<lparr>rr_schema_version = 1, rr_slot = mr_provider rung, rr_route_provider = ha_provider account,
       rr_route_harness = ha_harness account, rr_native_alias = ha_native_alias account,
       rr_qualification = ha_qualification account, rr_route_model_id = rr_route_model_id v,
       rr_canonical_model = ms_id model, rr_canonical_effort = mr_effort rung,
       rr_canonical_vendor = ms_vendor model, rr_policy_hash = fs_hash fleet,
       rr_host_route_hash = host_route_hash ops (hr_host_bytes host) (ms_domain model) slots,
       rr_resolved_at = now\<rparr>"
    by (rule resolve_facts)
  have fields: "rr_slot v = mr_provider rung" "rr_route_provider v = ha_provider account"
    "rr_route_harness v = ha_harness account" "rr_qualification v = ha_qualification account"
    "rr_canonical_model v = ms_id model" "rr_canonical_effort v = mr_effort rung"
    "rr_canonical_vendor v = ms_vendor model" "rr_policy_hash v = fs_hash fleet"
    by (subst v, simp)+
  from model_of_matches [OF f(2)] have match: "ms_id model = mr_model rung" "normalize_provider (mr_provider rung) = Some (ds_provider domain)"
    using f(3) by (auto simp: model_matches_def)
  have grant: "case ha_qualification account of
      None \<Rightarrow> rr_route_model_id v = ms_id model \<and> ha_provider account = ds_provider domain
    | Some reference \<Rightarrow> well_qualified fleet qualifications reference v"
  proof (cases "ha_qualification account")
    case None
    then show ?thesis using f(6) by (simp add: check_qualification_def split: if_splits)
  next
    case (Some reference)
    with f(6) obtain q where q: "qualifications = Some q" "qs_policy_hash q = fs_hash fleet"
        "QualificationSet_prove q reference account symbolic model (mr_effort rung) = Inr ()"
      by (auto simp: check_qualification_def split: option.splits if_splits)
    from prove_facts [OF q(3)] obtain route revision qr where
      p: "qs_activated_at q \<noteq> None" "qualification_reference reference = Inr (route, revision)"
        "qr \<in> set (qs_records q)" "qr_route qr = route" "qr_revision qr = revision" "route = ha_provider account"
        "qr_harness qr = ha_harness account" "qr_canonical_model_id qr = ms_id model"
        "qr_canonical_vendor qr = ms_vendor model" "map_of (ha_serves account) symbolic = Some (qr_route_model_id qr)"
        "case mr_effort rung of None \<Rightarrow> qr_efforts qr = [] | Some e \<Rightarrow> e \<in> set (qr_efforts qr)" .
    then have "well_qualified fleet qualifications reference v"
      unfolding well_qualified_def fields using q(1,2) f(5)
      by (intro exI [of _ q] exI [of _ qr] exI [of _ route] exI [of _ revision]) simp
    then show ?thesis by (simp add: Some)
  qed
  then show ?thesis
    using f(1,2,4) match by (auto simp: ResolvedRoute_canonical_rung_def vendor_of_def fields split: option.splits)
qed

section \<open>The candidates\<close>

lemma resolution_origin:
  assumes "policy_ok schema (fs_document fleet)" "resolve_bound fleet key = Some r"
  obtains name chain where "map_of (fd_chains (fs_document fleet)) name = Some chain"
    "fx_routes r = fst (chain_resolution (fs_document fleet) key chain)"
proof -
  from assms(2) obtain name chain where chain: "map_of (fd_bindings (fs_document fleet)) key = Some name"
      "map_of (fd_chains (fs_document fleet)) name = Some chain"
    by (auto simp: resolve_bound_def Let_def split: option.splits)
  with resolve_bound_chain [OF assms(1) chain] assms(2) that show ?thesis by auto
qed

text \<open>Routes of one step with one model id have one maker and one declared model.\<close>

lemma same_step_model:
  assumes "policy_ok SchemaV2 (fs_document fleet)" "resolve_bound fleet key = Some r"
    "a \<in> set (fx_routes r)" "b \<in> set (fx_routes r)" "same_route a b"
  shows "fr_vendor a = fr_vendor b"
    "model_of fleet (fr_rung a) = Some m \<Longrightarrow> model_of fleet (fr_rung b) = Some m' \<Longrightarrow> m = m'"
proof -
  let ?d = "fs_document fleet"
  from resolution_origin [OF assms(1,2)] obtain name chain where chain:
    "map_of (fd_chains ?d) name = Some chain" "fx_routes r = fst (chain_resolution ?d key chain)" .
  have "a \<in> set (fst (chain_resolution ?d key chain))" using assms(3) chain(2) by simp
  from route_origin [OF assms(1) chain(1) this] obtain i entry x dom where a:
    "i < length chain" "entry \<in> set (chain ! i)" "fr_step a = of_nat (i + 1)"
    "entry \<in> chain_entries ?d" "entry_model ?d entry = Some x" "map_of (fd_domains ?d) (ms_domain x) = Some dom"
    "mr_provider (fr_rung a) \<in> set (ds_accounts dom)" "mr_model (fr_rung a) = ms_id x"
    "mr_effort (fr_rung a) = entry_effort entry" "fr_vendor a = ms_vendor x" .
  have "b \<in> set (fst (chain_resolution ?d key chain))" using assms(4) chain(2) by simp
  from route_origin [OF assms(1) chain(1) this] obtain j other y dom' where b:
    "j < length chain" "other \<in> set (chain ! j)" "fr_step b = of_nat (j + 1)"
    "other \<in> chain_entries ?d" "entry_model ?d other = Some y" "map_of (fd_domains ?d) (ms_domain y) = Some dom'"
    "mr_provider (fr_rung b) \<in> set (ds_accounts dom')" "mr_model (fr_rung b) = ms_id y"
    "mr_effort (fr_rung b) = entry_effort other" "fr_vendor b = ms_vendor y" .
  have "j + 1 < 100" "i + 1 < 100" using chain_bounds(1) [OF assms(1) chain(1)] a(1) b(1) by simp_all
  note small = unat_small [OF this(1)] unat_small [OF this(2)]
  have "fr_step b = fr_step a" using assms(5) by (simp add: same_route_def)
  then have "(of_nat (j + 1) :: u16) = of_nat (i + 1)" by (simp only: a(3) b(3))
  from arg_cong [OF this, of unat] have "j + 1 = i + 1" unfolding small .
  then have "i = j" by simp
  then have other: "other \<in> set (chain ! i)" using b(2) by simp
  have "mr_model (fr_rung b) = mr_model (fr_rung a)" using assms(5) by (simp add: same_route_def)
  then have "ms_id x = ms_id y" by (simp only: a(8) b(8))
  then have same: "x = y" by (rule step_model_unique [OF assms(1) chain(1) a(1,2,5) other b(5)])
  then show "fr_vendor a = fr_vendor b" using a(10) b(10) by simp
  have declared: "x \<in> set (map snd (fd_models ?d))"
    using a(5) unfolding entry_model_def by (force dest: map_of_SomeD)
  have only: "m = x" if "model_of fleet rung = Some m" "mr_model rung = ms_id x"
      "map_of (fd_domains ?d) (ms_domain x) = Some dom" "mr_provider rung \<in> set (ds_accounts dom)" for m rung dom
  proof -
    from that(1) have "twins ?d rung = [m]"
      unfolding model_of_def model_matches_twins [OF assms(1)] by (rule sole_Some)
    moreover have "x \<in> set (twins ?d rung)" using that declared by (auto simp: twins_def)
    ultimately show ?thesis by simp
  qed
  show "m = m'" if "model_of fleet (fr_rung a) = Some m" "model_of fleet (fr_rung b) = Some m'"
    using only [OF that(1) a(8,6,7)] only [OF that(2), of dom'] b(6,7,8) same by simp
qed

lemma sorted_groups:
  assumes "sorted (map key xs)" "\<And>x y. x \<in> set xs \<Longrightarrow> y \<in> set (g x) \<Longrightarrow> h y = key x"
  shows "sorted (map h (concat (map g xs)))"
  using assms
proof (induction xs)
  case (Cons x xs)
  have "map h (g x) = replicate (length (g x)) (key x)" using Cons.prems(2) by (intro replicate_eqI) auto
  moreover have "key x \<le> h z" if "y \<in> set xs" "z \<in> set (g y)" for y z
    using Cons.prems(2) [of y z] Cons.prems(1) that by simp
  ultimately show ?case using Cons by (simp add: sorted_append)
qed simp

text \<open>C22. The candidates of a seat are exactly its compatible routes. They are never empty; each is a
  route the policy resolved, of a maker that is not excluded, with the frozen join of its own rung;
  every resolved route of a maker that is not excluded and whose rung joins is among them; and they
  descend the chain, step by step.\<close>

theorem host_candidates_exact:
  assumes "policy_ok SchemaV2 (fs_document fleet)"
    "HostRoutes_candidates ops host fleet r matrix qualifications vendors now = Inr result"
  shows "result \<noteq> []
     \<and> (\<forall>(c, v) \<in> set result. c \<in> set (fx_routes r) \<and> fr_vendor c \<notin> set vendors
          \<and> HostRoutes_resolve ops host fleet (fr_rung c) matrix qualifications now = Inr v)
     \<and> (\<forall>c \<in> set (fx_routes r). \<forall>v. fr_vendor c \<notin> set vendors
          \<and> HostRoutes_resolve ops host fleet (fr_rung c) matrix qualifications now = Inr v \<longrightarrow>
          (\<exists>c'. (c', v) \<in> set result \<and> fr_step c' = fr_step c \<and> fr_rung c' = fr_rung c))
     \<and> sorted (map (\<lambda>(c, _). unat (fr_step c)) result)"
proof -
  let ?res = "\<lambda>rung. HostRoutes_resolve ops host fleet rung matrix qualifications now"
  let ?R = "fx_routes r" and ?key = "fp_binding_key (fx_provenance r)"
  let ?group = "frozen.group ops host fleet matrix qualifications now host fleet vendors ?R"
  let ?fresh = "frozen.fresh_routes [] ?R"
  from assms(2) obtain reason where bound: "resolve_bound fleet ?key = Some r" and some: "result \<noteq> []"
    and run: "try_routes ?res host fleet vendors ?R [] ?R ([], ''host_route_unavailable'') = Inr (result, reason)"
    by (auto simp: HostRoutes_candidates_def split: if_splits)
  from frozen.try_routes_groups [OF run] have groups: "result = concat (map ?group ?fresh)"
    and known: "\<And>f. f \<in> set ?fresh \<Longrightarrow> fr_vendor f \<notin> set vendors \<Longrightarrow> model_of fleet (fr_rung f) \<noteq> None"
    by auto
  have fresh: "f \<in> set ?R" if "f \<in> set ?fresh" for f using that frozen.fresh_subset by blast
  have sound: "c \<in> set ?R \<and> fr_vendor c \<notin> set vendors \<and> ?res (fr_rung c) = Inr v"
    if cv: "(c, v) \<in> set result" for c v
  proof -
    from cv groups obtain f where f: "f \<in> set ?fresh" "(c, v) \<in> set (?group f)" by auto
    note facts = frozen.group_sound [OF f(2)]
    have "fr_vendor f = fr_vendor c" by (rule same_step_model(1) [OF assms(1) bound fresh [OF f(1)] facts(1,2)])
    then show ?thesis using facts by simp
  qed
  have complete: "\<exists>c'. (c', v) \<in> set result \<and> fr_step c' = fr_step c \<and> fr_rung c' = fr_rung c"
    if c: "c \<in> set ?R" "fr_vendor c \<notin> set vendors" "?res (fr_rung c) = Inr v" for c v
  proof -
    from frozen.fresh_covers [OF c(1), of "[]"] obtain f where f: "f \<in> set ?fresh" "route_identity f = route_identity c"
      by auto
    then have same: "same_route f c"
      by (auto simp: route_identity_def same_route_def dest!: option.inj_map_strong [rotated])
    note vendor = same_step_model(1) [OF assms(1) bound fresh [OF f(1)] c(1) same]
    with known [OF f(1)] c(2) obtain m where m: "model_of fleet (fr_rung f) = Some m" by auto
    from c(3) obtain model slots where slots: "model_of fleet (fr_rung c) = Some model"
        "map_of (hr_routes host) (ms_domain model) = Some slots" "mr_provider (fr_rung c) \<in> set slots"
      by (rule resolve_facts)
    have "m = model" by (rule same_step_model(2) [OF assms(1) bound fresh [OF f(1)] c(1) same m slots(1)])
    with vendor c(2) m slots have group: "?group f =
        concat (map (frozen.hits ops host fleet matrix qualifications now ?R f) slots)"
      by (simp add: frozen.group_def)
    let ?is = "\<lambda>x. same_route f x \<and> mr_provider (fr_rung x) = mr_provider (fr_rung c)"
    have "find ?is ?R \<noteq> None" using c(1) same by (auto simp: find_None_iff_ball)
    then obtain c' where c': "find ?is ?R = Some c'" by auto
    from find_SomeD [OF this] same have eq: "fr_step c' = fr_step c" "fr_rung c' = fr_rung c"
      by (auto simp: same_route_def)
    have "(c', v) \<in> set (frozen.hits ops host fleet matrix qualifications now ?R f (mr_provider (fr_rung c)))"
      using c' c(3) eq(2) by (simp add: frozen.hits_def)
    then have "(c', v) \<in> set (?group f)" unfolding group using slots(3) by auto
    then have "(c', v) \<in> set result" unfolding groups using f(1) by auto
    with eq show ?thesis by blast
  qed
  have "sorted (map (\<lambda>c. unat (fr_step c)) ?R)"
  proof -
    from resolution_origin [OF assms(1) bound] obtain name chain where chain:
      "map_of (fd_chains (fs_document fleet)) name = Some chain"
      "?R = fst (chain_resolution (fs_document fleet) ?key chain)" .
    note bounds = chain_bounds [OF assms(1) chain(1)]
    have "\<forall>step \<in> set chain. (\<Sum>entry \<leftarrow> step. length (entry_accounts (fs_document fleet) entry)) \<le> 64"
      using bounds(2) step_sum_le [of _ chain] order_trans by blast
    from steps_sorted [OF _ this, of 0] bounds(1) show ?thesis
      by (simp add: chain(2) chain_resolution_def Let_def)
  qed
  then have "sorted (map (\<lambda>(c, _). unat (fr_step c)) result)"
    unfolding groups using frozen.fresh_sorted frozen.group_sound(2)
    by (intro sorted_groups [where key = "\<lambda>c. unat (fr_step c)"]) (auto simp: same_route_def)
  with some sound complete show ?thesis by blast
qed

section \<open>Storing a frozen route\<close>

lemma split_once_Some: "split_once c s = Some (a, b) \<Longrightarrow> s = a @ c # b"
  by (induction s arbitrary: a) (auto split: if_splits)

definition plain_char :: "char \<Rightarrow> bool" where
  "plain_char c \<longleftrightarrow> ascii_lowercase c \<or> ascii_digit c \<or> c \<in> {CHR ''-'', CHR ''_'', CHR ''.''}"

lemma plain_char_printable: "plain_char c \<Longrightarrow> \<not> whitespace c \<and> \<not> control_char c"
  by (auto simp: plain_char_def ascii_lowercase_def ascii_digit_def whitespace_def control_char_def
      less_eq_char_def Let_def)

lemma plain_chars_clean:
  assumes "s \<noteq> []" "\<forall>c \<in> set s. plain_char c"
  shows "clean_text s"
proof -
  have drop: "dropWhile whitespace xs = xs" if "\<forall>c \<in> set xs. plain_char c" for xs
    using that plain_char_printable by (cases xs) auto
  have "trim_text s = s" using drop [of s] drop [of "rev s"] assms(2) by (simp add: trim_text_def)
  then show ?thesis using assms plain_char_printable by (auto simp: clean_text_def list_ex_iff)
qed

lemma token_clean: "token s \<Longrightarrow> clean_text s"
  by (rule plain_chars_clean) (auto simp: token_def list_all_iff plain_char_def)

lemma provider_clean: "normalize_provider s = Some f \<Longrightarrow> clean_text s"
  by (rule plain_chars_clean)
    (auto simp: normalize_provider_def list_all_iff plain_char_def split: if_splits list.splits)

lemma slug_clean: "is_generic_slug s \<Longrightarrow> clean_text s"
  by (rule plain_chars_clean) (auto simp: is_generic_slug_def list_all_iff plain_char_def split: list.splits)

lemma reference_complete:
  assumes "qualification_reference s = Inr (route, revision)"
  shows "\<not> reference_incomplete s"
proof -
  from assms have once: "split_once (CHR ''@'') s = Some (route, revision)" "token route" "token revision"
      "CHR ''@'' \<notin> set revision"
    by (auto simp: qualification_reference_def split: option.splits if_splits)
  then have "s = route @ CHR ''@'' # revision" by (simp add: split_once_Some)
  moreover have "\<not> whitespace c" if "c \<in> set route \<union> set revision" for c
    using that once(2,3) plain_char_printable [of c] by (auto simp: token_def list_all_iff plain_char_def)
  moreover have "\<not> whitespace (CHR ''@'')" by (simp add: whitespace_def)
  ultimately show ?thesis using once by (auto simp: reference_incomplete_def token_def list_ex_iff)
qed

lemma parsed_account:
  assumes "HostRoutes_parse read_host bytes = Inr host" "map_of (hr_accounts host) slot = Some account"
  shows "clean_text (ha_provider account)" "clean_text (ha_harness account)" "clean_text (ha_native_alias account)"
    "map_of (ha_serves account) model = Some route_id \<Longrightarrow> clean_text route_id"
    "ha_qualification account = Some reference \<Longrightarrow> \<exists>x. qualification_reference reference = Inr x"
proof -
  from assms(1) have "\<forall>x \<in> set (hr_accounts host). check_account x = Inr ()"
    by (auto simp: HostRoutes_parse_def split: option.splits if_splits)
  then have "check_account (slot, account) = Inr ()" using map_of_SomeD [OF assms(2)] by auto
  then have ok: "normalize_provider (ha_provider account) = Some (ha_provider account)" "token (ha_harness account)"
      "selector (ha_native_alias account)" "\<forall>(model, route_id) \<in> set (ha_serves account). selector route_id"
      "\<forall>reference. ha_qualification account = Some reference \<longrightarrow> (\<exists>x. qualification_reference reference = Inr x)"
    by (auto simp: check_account_def list_ex_iff split: if_splits option.splits)
  show "clean_text (ha_provider account)" using ok(1) by (rule provider_clean)
  show "clean_text (ha_harness account)" using ok(2) by (rule token_clean)
  show "clean_text (ha_native_alias account)" using ok(3) by (simp add: selector_def clean_text_def)
  show "clean_text route_id" if "map_of (ha_serves account) model = Some route_id"
    using map_of_SomeD [OF that] ok(4) by (auto simp: selector_def clean_text_def)
  show "\<exists>x. qualification_reference reference = Inr x" if "ha_qualification account = Some reference"
    using that ok(5) by blast
qed

text \<open>What a host join freezes can be stored. Under a parsed host document and a valid policy, the
  launch snapshot of a joined route is accepted, and read back as the same route for the same rung,
  exactly when the canonical model id is trimmed and free of control characters; without a
  qualification it always is.\<close>

theorem frozen_route_storable:
  assumes "policy_ok schema (fs_document fleet)" "HostRoutes_parse read_host bytes = Inr host"
    "HostRoutes_resolve ops host fleet rung matrix qualifications now = Inr v"
  shows "((\<exists>stored. StoredLaunchRoute_resolved v = Inr stored \<and> StoredLaunchRoute_validate stored = Inr ()
        \<and> StoredLaunchRoute_frozen stored = Some v \<and> StoredLaunchRoute_canonical_rung stored = rung)
       \<longleftrightarrow> clean_text (mr_model rung))
     \<and> (rr_qualification v = None \<longrightarrow> clean_text (mr_model rung))"
proof -
  from assms(3) obtain model domain slots account symbolic where f:
    "model_of fleet rung = Some model"
    "map_of (hr_accounts host) (mr_provider rung) = Some account"
    "map_of (ha_serves account) symbolic = Some (rr_route_model_id v)"
    "check_qualification fleet qualifications account domain symbolic (rr_route_model_id v) model (mr_effort rung) = Inr ()"
    and v: "v = \<lparr>rr_schema_version = 1, rr_slot = mr_provider rung, rr_route_provider = ha_provider account,
       rr_route_harness = ha_harness account, rr_native_alias = ha_native_alias account,
       rr_qualification = ha_qualification account, rr_route_model_id = rr_route_model_id v,
       rr_canonical_model = ms_id model, rr_canonical_effort = mr_effort rung,
       rr_canonical_vendor = ms_vendor model, rr_policy_hash = fs_hash fleet,
       rr_host_route_hash = host_route_hash ops (hr_host_bytes host) (ms_domain model) slots,
       rr_resolved_at = now\<rparr>"
    by (rule resolve_facts)
  have fields: "rr_schema_version v = 1" "rr_slot v = mr_provider rung" "rr_route_provider v = ha_provider account"
    "rr_route_harness v = ha_harness account" "rr_native_alias v = ha_native_alias account"
    "rr_qualification v = ha_qualification account" "rr_canonical_model v = ms_id model"
    "rr_canonical_effort v = mr_effort rung" "rr_canonical_vendor v = ms_vendor model"
    by (subst v, simp)+
  note account = parsed_account [OF assms(2) f(2)]
  have match: "ms_id model = mr_model rung" "normalize_provider (mr_provider rung) \<noteq> None"
    using model_of_matches [OF f(1)] by (auto simp: model_matches_def split: option.splits)
  have "\<forall>m \<in> set (map snd (fd_models (fs_document fleet))). is_generic_slug (ms_vendor m)"
    by (rule policy_rule [OF assms(1), of V11]) (simp add: policy_table_def model_table_def)
  moreover have "model \<in> set (map snd (fd_models (fs_document fleet)))"
    using sole_Some [OF f(1) [unfolded model_of_def]] by (metis filter_is_subset list.set_intros(1) subset_iff)
  ultimately have vendor: "clean_text (ms_vendor model)" using slug_clean by blast
  have clean: "clean_text (rr_slot v)" "clean_text (rr_route_provider v)" "clean_text (rr_route_harness v)"
    "clean_text (rr_native_alias v)" "clean_text (rr_route_model_id v)" "clean_text (rr_canonical_vendor v)"
    using provider_clean match(2) account(1-3) account(4) [OF f(3)] vendor by (auto simp: fields)
  have ref: "\<not> reference_incomplete reference" if "rr_qualification v = Some reference" for reference
    using account(5) [of reference] reference_complete that by (auto simp: fields)
  have valid: "ResolvedRoute_validate v = Inr () \<longleftrightarrow> clean_text (rr_canonical_model v)"
    using clean ref fields(1)
    by (auto simp: ResolvedRoute_validate_def clean_text_def ModelRung_validate_def
        ResolvedRoute_canonical_rung_def split: option.splits)
  have rung: "ResolvedRoute_canonical_rung v = rung"
    by (simp add: ResolvedRoute_canonical_rung_def fields match(1))
  have "(\<exists>stored. StoredLaunchRoute_resolved v = Inr stored \<and> StoredLaunchRoute_validate stored = Inr ()
        \<and> StoredLaunchRoute_frozen stored = Some v \<and> StoredLaunchRoute_canonical_rung stored = rung)
       \<longleftrightarrow> clean_text (mr_model rung)"
    using valid rung match(1) by (auto simp: StoredLaunchRoute_resolved_def StoredLaunchRoute_validate_def
        StoredLaunchRoute_frozen_def StoredLaunchRoute_canonical_rung_def fields)
  moreover have "rr_qualification v = None \<longrightarrow> clean_text (mr_model rung)"
    using clean(5) f(4) match(1) by (auto simp: check_qualification_def fields split: if_splits)
  ultimately show ?thesis by blast
qed

end
