(* ===== verification/Fleet_Search.thy ===== *)
theory Fleet_Search
  imports Fleet_Allocation
begin

text \<open>
  What a joint allocation guarantees.  The reference is the plain enumeration of all assignments in
  lexicographic order (\<open>product_lists\<close> over the candidate positions): the backtracking search
  returns its first valid element, and a search that fails leaves its state as it found it.  The
  argument is generic in the test of one step (\<open>prefix_search\<close>).
\<close>

section \<open>Searching extensions of a prefix\<close>

locale prefix_search =
  fixes ok :: "nat list \<Rightarrow> nat \<Rightarrow> bool"
begin

fun admits :: "nat list \<Rightarrow> nat list \<Rightarrow> bool" where
  "admits p [] \<longleftrightarrow> True"
| "admits p (x # s) \<longleftrightarrow> ok p x \<and> admits (p @ [x]) s"

lemma find_tried:
  "find (admits p) (map (Cons x) ts @ rest) =
     (if ok p x then case find (admits (p @ [x])) ts of
          Some s \<Rightarrow> Some (x # s) | None \<Rightarrow> find (admits p) rest
      else find (admits p) rest)"
  by (induction ts) auto

lemma admits_append: "admits p (s @ t) \<longleftrightarrow> admits p s \<and> admits (p @ s) t"
  by (induction s arbitrary: p) auto

lemma admits_nth: "admits p s \<longleftrightarrow> (\<forall>i < length s. ok (p @ take i s) (s ! i))"
proof (induction s arbitrary: p)
  case (Cons x s)
  have "(\<forall>i < length (x # s). ok (p @ take i (x # s)) ((x # s) ! i)) \<longleftrightarrow>
      ok p x \<and> (\<forall>i < length s. ok (p @ x # take i s) (s ! i))"
    by (simp add: All_less_Suc2)
  then show ?case using Cons [of "p @ [x]"] by simp
qed simp

end

lemma find_least:
  assumes "find P xs = Some x"
  shows "P x" "x \<in> set xs" "xs = ys @ x # zs \<Longrightarrow> distinct xs \<Longrightarrow> y \<in> set ys \<Longrightarrow> \<not> P y"
proof -
  show "P x" "x \<in> set xs" using assms by (auto dest: find_SomeD)
  assume xs: "xs = ys @ x # zs" "distinct xs" "y \<in> set ys"
  from assms obtain i where i: "i < length xs" "P (xs ! i)" "x = xs ! i" "\<forall>j < i. \<not> P (xs ! j)"
    by (auto simp: find_Some_iff)
  from xs obtain j where j: "j < length ys" "ys ! j = y" by (auto simp: in_set_conv_nth)
  have "xs ! length ys = x" "length ys < length xs" using xs(1) by simp_all
  then have "i = length ys" using i(1,3) xs(2) nth_eq_iff_index_eq by metis
  moreover have "xs ! j = y" using j xs(1) by (simp add: nth_append)
  ultimately show "\<not> P y" using i(4) j(1) by metis
qed

section \<open>The state of a prefix\<close>

definition candidate_at :: "SearchInput \<Rightarrow> nat \<Rightarrow> nat \<Rightarrow> AllocationCandidate" where
  "candidate_at inp i x = as_candidates (si_slots inp ! i) ! x"

definition slot_key :: "SearchInput \<Rightarrow> nat \<Rightarrow> nat \<Rightarrow> string option" where
  "slot_key inp i x = (if si_constrained inp ! i then an_independence (candidate_at inp i x) else None)"

definition held_of :: "SearchInput \<Rightarrow> nat list \<Rightarrow> string \<rightharpoonup> nat" where
  "held_of inp p = foldl (\<lambda>m i. case slot_key inp i (p ! i) of None \<Rightarrow> m | Some k \<Rightarrow> m(k \<mapsto> i))
     Map.empty [0..<length p]"

definition capped_of :: "SearchInput \<Rightarrow> nat list \<Rightarrow> nat" where
  "capped_of inp p =
     length (filter (\<lambda>i. search_counts inp i (candidate_at inp i (p ! i))) [0..<length p])"

definition state_of :: "SearchInput \<Rightarrow> nat list \<Rightarrow> Search" where
  "state_of inp p = \<lparr>se_held = held_of inp p, se_capped = capped_of inp p, se_chosen = p\<rparr>"

definition extend_ok :: "SearchInput \<Rightarrow> nat list \<Rightarrow> nat \<Rightarrow> bool" where
  "extend_ok inp p x \<longleftrightarrow>
     si_verdicts inp ! length p ! x = None
     \<and> (si_constrained inp ! length p \<longrightarrow>
          (\<exists>k. slot_key inp (length p) x = Some k \<and> held_of inp p k = None))
     \<and> (search_counts inp (length p) (candidate_at inp (length p) x) \<longrightarrow>
          (\<forall>cap. si_cap inp = Some cap \<longrightarrow> capped_of inp p < vc_max cap))"

definition tails :: "SearchInput \<Rightarrow> nat \<Rightarrow> nat list list" where
  "tails inp i = product_lists (map (\<lambda>slot. [0..<length (as_candidates slot)]) (drop i (si_slots inp)))"

interpretation steps: prefix_search "extend_ok inp" for inp .

lemma held_of_snoc:
  "held_of inp (p @ [x]) =
     (case slot_key inp (length p) x of None \<Rightarrow> held_of inp p | Some k \<Rightarrow> (held_of inp p)(k \<mapsto> length p))"
proof -
  have "foldl (\<lambda>m i. case slot_key inp i ((p @ [x]) ! i) of None \<Rightarrow> m | Some k \<Rightarrow> m(k \<mapsto> i))
      Map.empty [0..<length p] = held_of inp p"
    unfolding held_of_def by (intro foldl_cong refl) (simp add: nth_append)
  then show ?thesis by (simp add: held_of_def [of inp "p @ [x]"])
qed

lemma capped_of_snoc:
  "capped_of inp (p @ [x]) =
     capped_of inp p + (if search_counts inp (length p) (candidate_at inp (length p) x) then 1 else 0)"
proof -
  have "filter (\<lambda>i. search_counts inp i (candidate_at inp i ((p @ [x]) ! i))) [0..<length p] =
      filter (\<lambda>i. search_counts inp i (candidate_at inp i (p ! i))) [0..<length p]"
    by (intro filter_cong refl) (simp add: nth_append)
  then show ?thesis by (simp add: capped_of_def)
qed

lemma state_of_Nil: "state_of inp [] = Search_new"
  by (simp add: state_of_def Search_new_def held_of_def capped_of_def)

lemma search_key_Some:
  assumes "search_key inp (length p) (candidate_at inp (length p) x) (state_of inp p) = Some key"
  shows "key = slot_key inp (length p) x" "\<forall>k. key = Some k \<longrightarrow> held_of inp p k = None"
    "si_constrained inp ! length p \<longrightarrow> key \<noteq> None"
  using assms by (cases "an_independence (candidate_at inp (length p) x)";
      auto simp: search_key_def slot_key_def state_of_def split: if_splits)+

lemma hold_state:
  assumes "key = slot_key inp (length p) x"
    "counts = search_counts inp (length p) (candidate_at inp (length p) x)"
  shows "search_hold (length p) x key counts (state_of inp p) = state_of inp (p @ [x])"
  using assms by (auto simp: search_hold_def state_of_def held_of_snoc capped_of_snoc split: option.splits)

lemma release_state:
  assumes "key = slot_key inp (length p) x" "\<forall>k. key = Some k \<longrightarrow> held_of inp p k = None"
    "counts = search_counts inp (length p) (candidate_at inp (length p) x)"
  shows "search_release key counts (state_of inp (p @ [x])) = state_of inp p"
  using assms by (auto simp: search_release_def state_of_def held_of_snoc capped_of_snoc fun_upd_idem
      split: option.splits)

declare walk_at.simps [simp del]

lemma tails_step:
  assumes "i < length (si_slots inp)"
  shows "tails inp i = concat (map (\<lambda>x. map (Cons x) (tails inp (Suc i)))
     [0..<length (as_candidates (si_slots inp ! i))])"
  using assms by (simp add: tails_def Cons_nth_drop_Suc [symmetric])

lemma tails_end: "length (si_slots inp) \<le> i \<Longrightarrow> tails inp i = [[]]"
  by (simp add: tails_def)

section \<open>The search is the first element of the enumeration\<close>

definition found :: "SearchInput \<Rightarrow> nat list \<Rightarrow> nat list option \<Rightarrow> bool \<times> Search" where
  "found inp p r = (case r of Some s \<Rightarrow> (True, state_of inp (p @ s)) | None \<Rightarrow> (False, state_of inp p))"

lemma search_enumerates:
  "index = length p \<Longrightarrow> st = state_of inp p \<Longrightarrow>
     walk_at inp index st = found inp p (find (steps.admits inp p) (tails inp index))"
  "index = length p \<Longrightarrow> st = state_of inp p \<Longrightarrow> (\<And>x c. (x, c) \<in> set cs \<Longrightarrow> c = candidate_at inp index x) \<Longrightarrow>
     try_at inp index cs st = found inp p
       (find (steps.admits inp p) (concat (map (\<lambda>(x, c). map (Cons x) (tails inp (Suc index))) cs)))"
proof (induction inp index st and inp index cs st arbitrary: p and p rule: walk_at_try_at.induct)
  case (1 inp index st)
  let ?cs = "as_candidates (si_slots inp ! index)"
  show ?case
  proof (cases "index < length (si_slots inp)")
    case True
    have "c = candidate_at inp index x" if "(x, c) \<in> set (List.enumerate 0 ?cs)" for x c
      using that by (auto simp: in_set_enumerate_eq candidate_at_def)
    from "1.IH" [OF True "1.prems" this]
    have "try_at inp index (List.enumerate 0 ?cs) st = found inp p (find (steps.admits inp p)
        (concat (map (\<lambda>(x, c). map (Cons x) (tails inp (Suc index))) (List.enumerate 0 ?cs))))" .
    moreover have "map (\<lambda>(x, c). map (Cons x) (tails inp (Suc index))) (List.enumerate 0 ?cs) =
        map (\<lambda>x. map (Cons x) (tails inp (Suc index))) [0..<length ?cs]"
      by (rule nth_equalityI) (simp_all add: nth_enumerate_eq)
    ultimately show ?thesis using True by (simp add: tails_step walk_at.simps)
  qed (use "1.prems" in \<open>simp add: tails_end found_def walk_at.simps\<close>)
next
  case (2 inp index st)
  then show ?case by (simp add: found_def)
next
  case (3 inp index pos c rest st)
  let ?tail = "tails inp (Suc index)" and ?others = "concat (map (\<lambda>(x, c). map (Cons x)
    (tails inp (Suc index))) rest)"
  have c: "c = candidate_at inp index pos" and rest: "\<And>x c. (x, c) \<in> set rest \<Longrightarrow> c = candidate_at inp index x"
    using "3.prems"(3) by auto
  have skip: ?case if "try_at inp index ((pos, c) # rest) st = try_at inp index rest st"
    "try_at inp index rest st = found inp p (find (steps.admits inp p) ?others)"
    "\<not> extend_ok inp p pos"
    using that by (simp add: steps.find_tried)
  show ?case
  proof (cases "si_verdicts inp ! index ! pos = None")
    case False
    then have "\<not> extend_ok inp p pos" using "3.prems"(1) by (simp add: extend_ok_def)
    then show ?thesis using "3.IH"(1) [OF False "3.prems"(1,2) rest] False by (intro skip) simp_all
  next
    case free: True
    show ?thesis
    proof (cases "search_key inp index c st")
      case None
      then have "\<not> extend_ok inp p pos"
        using "3.prems"(1,2) c
        by (auto simp: search_key_def extend_ok_def slot_key_def state_of_def split: if_splits option.splits)
      then show ?thesis
        using "3.IH"(2) [OF _ None "3.prems"(1,2) rest] free None by (intro skip) simp_all
    next
      case (Some key)
      then have key: "key = slot_key inp index pos" "\<forall>k. key = Some k \<longrightarrow> held_of inp p k = None"
        "si_constrained inp ! index \<longrightarrow> key \<noteq> None"
        using search_key_Some [of inp p pos key] "3.prems"(1,2) c by auto
      define counts where "counts = search_counts inp index c"
      show ?thesis
      proof (cases "counts \<and> cap_spent inp st")
        case True
        then have "\<not> extend_ok inp p pos"
          using "3.prems"(1,2) c
          by (auto simp: counts_def cap_spent_def extend_ok_def state_of_def split: option.splits)
        then show ?thesis
          using "3.IH"(3) [OF _ Some counts_def True "3.prems"(1,2) rest] free Some True
          by (intro skip) (simp_all add: counts_def)
      next
        case False
        then have ok: "extend_ok inp p pos"
          using "3.prems"(1,2) c free key
          by (auto simp: counts_def cap_spent_def extend_ok_def state_of_def search_counts_def
              split: option.splits)
        have st: "search_hold index pos key counts st = state_of inp (p @ [pos])"
          "search_release key counts (state_of inp (p @ [pos])) = state_of inp p"
          using hold_state [of key inp p pos counts] release_state [of key inp p pos counts] key "3.prems"(1,2)
          by (auto simp: counts_def c)
        have walk: "walk_at inp (Suc index) (search_hold index pos key counts st) =
            found inp (p @ [pos]) (find (steps.admits inp (p @ [pos])) ?tail)"
          using free by (intro "3.IH"(4) [OF _ Some counts_def False]) (simp_all add: "3.prems"(1) st [unfolded "3.prems"(1)])
        show ?thesis
        proof (cases "find (steps.admits inp (p @ [pos])) ?tail")
          case None
          then have w: "(False, state_of inp (p @ [pos])) =
              walk_at inp (Suc index) (search_hold index pos key counts st)" using walk by (simp add: found_def)
          have "\<not> si_verdicts inp ! index ! pos \<noteq> None" using free by simp
          from "3.IH"(5) [OF this Some counts_def False w refl "3.prems"(1) st(2) rest]
          have "try_at inp index rest (search_release key counts (state_of inp (p @ [pos]))) =
              found inp p (find (steps.admits inp p) ?others)" .
          then show ?thesis
            using free Some False walk None ok by (auto simp: counts_def found_def steps.find_tried Let_def)
        qed (use free Some False walk ok in \<open>auto simp: counts_def found_def steps.find_tried Let_def\<close>)
      qed
    qed
  qed
qed

section \<open>Valid assignments\<close>

text \<open>
  What an assignment has to be: a position for every slot, none of them excluded on its own, every
  reviewer under a diversity rule with a vendor of its own, and the capped vendor within its cap.
\<close>

definition valid_assignment :: "SearchInput \<Rightarrow> nat list \<Rightarrow> bool" where
  "valid_assignment inp a \<longleftrightarrow>
     length a = length (si_slots inp)
     \<and> (\<forall>i < length a. a ! i < length (as_candidates (si_slots inp ! i))
          \<and> si_verdicts inp ! i ! (a ! i) = None
          \<and> (si_constrained inp ! i \<longrightarrow> an_independence (candidate_at inp i (a ! i)) \<noteq> None))
     \<and> (\<forall>j < length a. \<forall>i < j. si_constrained inp ! i \<and> si_constrained inp ! j \<longrightarrow>
          an_independence (candidate_at inp i (a ! i)) \<noteq> an_independence (candidate_at inp j (a ! j)))
     \<and> (\<forall>cap. si_cap inp = Some cap \<longrightarrow> capped_of inp a \<le> vc_max cap)"

lemma held_of_None:
  "held_of inp p k = None \<longleftrightarrow> (\<forall>i < length p. slot_key inp i (p ! i) \<noteq> Some k)"
proof (induction p rule: rev_induct)
  case Nil
  then show ?case by (simp add: held_of_def)
next
  case (snoc x p)
  have "(\<forall>i < length (p @ [x]). slot_key inp i ((p @ [x]) ! i) \<noteq> Some k) \<longleftrightarrow>
      (\<forall>i < length p. slot_key inp i (p ! i) \<noteq> Some k) \<and> slot_key inp (length p) x \<noteq> Some k"
    by (auto simp: nth_append less_Suc_eq)
  then show ?case using snoc by (auto simp: held_of_snoc split: option.splits)
qed

lemma capped_of_take_Suc:
  "n < length a \<Longrightarrow> capped_of inp (take (Suc n) a) = capped_of inp (take n a)
     + (if search_counts inp n (candidate_at inp n (a ! n)) then 1 else 0)"
  using capped_of_snoc [of inp "take n a" "a ! n"] by (simp add: take_Suc_conv_app_nth)

lemma cap_steps:
  assumes "si_cap inp = Some cap"
  shows "capped_of inp a \<le> vc_max cap \<longleftrightarrow>
     (\<forall>i < length a. search_counts inp i (candidate_at inp i (a ! i)) \<longrightarrow> capped_of inp (take i a) < vc_max cap)"
proof -
  have "n \<le> length a \<Longrightarrow> capped_of inp (take n a) \<le> vc_max cap \<longleftrightarrow>
      (\<forall>i < n. search_counts inp i (candidate_at inp i (a ! i)) \<longrightarrow> capped_of inp (take i a) < vc_max cap)" for n
  proof (induction n)
    case 0
    then show ?case by (simp add: capped_of_def)
  next
    case (Suc n)
    have "capped_of inp (take (Suc n) a) \<le> vc_max cap \<longleftrightarrow> capped_of inp (take n a) \<le> vc_max cap
        \<and> (search_counts inp n (candidate_at inp n (a ! n)) \<longrightarrow> capped_of inp (take n a) < vc_max cap)"
      using Suc.prems capped_of_take_Suc [of n a inp] by auto
    then show ?case using Suc by (auto simp: less_Suc_eq)
  qed
  from this [of "length a"] show ?thesis by simp
qed

lemma tails_all:
  "a \<in> set (tails inp 0) \<longleftrightarrow> length a = length (si_slots inp)
     \<and> (\<forall>i < length a. a ! i < length (as_candidates (si_slots inp ! i)))"
  by (auto simp: tails_def product_lists_set list_all2_conv_all_nth)

lemma valid_assignment_admits:
  "valid_assignment inp a \<longleftrightarrow> a \<in> set (tails inp 0) \<and> steps.admits inp [] a"
proof -
  have key: "(si_constrained inp ! i \<longrightarrow>
        (\<exists>k. slot_key inp i (a ! i) = Some k \<and> held_of inp (take i a) k = None)) \<longleftrightarrow>
      (si_constrained inp ! i \<longrightarrow> an_independence (candidate_at inp i (a ! i)) \<noteq> None)
      \<and> (\<forall>j < i. si_constrained inp ! j \<and> si_constrained inp ! i \<longrightarrow>
          an_independence (candidate_at inp j (a ! j)) \<noteq> an_independence (candidate_at inp i (a ! i)))"
    if "i < length a" for i
    using that by (cases "an_independence (candidate_at inp i (a ! i))")
      (auto simp: held_of_None slot_key_def)
  have len: "length (take i a) = i" if "i < length a" for i using that by simp
  have "steps.admits inp [] a \<longleftrightarrow> (\<forall>i < length a. extend_ok inp (take i a) (a ! i))"
    by (simp add: steps.admits_nth)
  also have "\<dots> \<longleftrightarrow> (\<forall>i < length a. si_verdicts inp ! i ! (a ! i) = None
        \<and> (si_constrained inp ! i \<longrightarrow> an_independence (candidate_at inp i (a ! i)) \<noteq> None))
      \<and> (\<forall>j < length a. \<forall>i < j. si_constrained inp ! i \<and> si_constrained inp ! j \<longrightarrow>
          an_independence (candidate_at inp i (a ! i)) \<noteq> an_independence (candidate_at inp j (a ! j)))
      \<and> (\<forall>cap. si_cap inp = Some cap \<longrightarrow> capped_of inp a \<le> vc_max cap)"
    unfolding extend_ok_def using key cap_steps [of inp _ a] by (auto simp: len)
  finally show ?thesis unfolding valid_assignment_def tails_all by blast
qed

lemma search_finds:
  "search_walk inp Search_new =
     (case find (valid_assignment inp) (tails inp 0) of
        Some a \<Rightarrow> (True, state_of inp a) | None \<Rightarrow> (False, Search_new))"
proof -
  have "find (steps.admits inp []) (tails inp 0) = find (valid_assignment inp) (tails inp 0)"
    by (rule find_cong) (simp_all add: valid_assignment_admits)
  then show ?thesis
    using search_enumerates(1) [OF _ state_of_Nil [symmetric], of 0 inp]
    by (simp add: search_walk_def found_def state_of_Nil Search_new_def [THEN arg_cong, of se_chosen]
        split: option.splits)
qed

section \<open>Allocations\<close>

text \<open>When a candidate may take a slot, whatever the other slots take.\<close>

definition seat_ok ::
  "AllocationDiversity \<Rightarrow> AllocationConstraints \<Rightarrow> AllocationSlot \<Rightarrow> AllocationCandidate \<Rightarrow> bool" where
  "seat_ok d cons slot c \<longleftrightarrow>
     mr_provider (an_rung c) \<notin> set (el_unavailable_accounts (as_eligibility slot))
     \<and> (\<forall>v. an_vendor c = Some v \<longrightarrow> v \<notin> set (el_excluded_vendors (as_eligibility slot)))
     \<and> (slot_constrained d slot \<longrightarrow> an_independence c \<noteq> None)
     \<and> (slot_governed cons slot \<longrightarrow>
          (\<forall>deepest. cn_max_rung cons = Some deepest \<longrightarrow> an_step c \<noteq> 0 \<and> an_step c \<le> deepest)
          \<and> (cn_vendor_cap cons \<noteq> None \<longrightarrow> maker c \<noteq> None))"

lemma static_exclusion_None:
  "static_exclusion slot c (slot_constrained d slot) (slot_governed cons slot) cons = None \<longleftrightarrow>
     seat_ok d cons slot c"
  by (auto simp: static_exclusion_def seat_ok_def not_less split: option.splits)

definition seated :: "AllocationSlot list \<Rightarrow> nat list \<Rightarrow> nat \<Rightarrow> AllocationCandidate" where
  "seated slots a i = as_candidates (slots ! i) ! (a ! i)"

definition seats_of :: "AllocationConstraints \<Rightarrow> AllocationSlot list \<Rightarrow> nat list \<Rightarrow> string \<Rightarrow> nat list" where
  "seats_of cons slots a v = filter (\<lambda>i. slot_governed cons (slots ! i)
     \<and> maker (seated slots a i) = Some v) [0..<length slots]"

definition allocation_valid ::
  "AllocationDiversity \<Rightarrow> AllocationSlot list \<Rightarrow> AllocationConstraints \<Rightarrow> VendorCap option \<Rightarrow> nat list \<Rightarrow>
   bool" where
  "allocation_valid d slots cons cap a \<longleftrightarrow>
     length a = length slots
     \<and> (\<forall>i < length slots. a ! i < length (as_candidates (slots ! i))
          \<and> seat_ok d cons (slots ! i) (seated slots a i))
     \<and> (\<forall>j < length slots. \<forall>i < j. slot_constrained d (slots ! i) \<and> slot_constrained d (slots ! j) \<longrightarrow>
          an_independence (seated slots a i) \<noteq> an_independence (seated slots a j))
     \<and> (case cap of None \<Rightarrow> True | Some c \<Rightarrow> length (seats_of cons slots a (vc_vendor c)) \<le> vc_max c)"

definition assignments :: "AllocationSlot list \<Rightarrow> nat list list" where
  "assignments slots = product_lists (map (\<lambda>slot. [0..<length (as_candidates slot)]) slots)"

lemma input_simps [simp]:
  "si_slots (search_input d slots cons cap) = slots" "si_cap (search_input d slots cons cap) = cap"
  "i < length slots \<Longrightarrow> si_constrained (search_input d slots cons cap) ! i = slot_constrained d (slots ! i)"
  "i < length slots \<Longrightarrow> si_governed (search_input d slots cons cap) ! i = slot_governed cons (slots ! i)"
  by (simp_all add: search_input_def)

lemma verdicts_shape:
  "i < length slots \<Longrightarrow> x < length (as_candidates (slots ! i)) \<Longrightarrow>
     si_verdicts (search_input d slots cons cap) ! i ! x = static_exclusion (slots ! i)
       (as_candidates (slots ! i) ! x) (slot_constrained d (slots ! i)) (slot_governed cons (slots ! i)) cons"
  by (simp add: search_input_def slot_verdicts_def)

lemma taken_at: "candidate_at (search_input d slots cons cap) i (a ! i) = seated slots a i"
  by (simp add: candidate_at_def seated_def)

lemma counts_at:
  "i < length slots \<Longrightarrow> search_counts (search_input d slots cons cap) i c \<longleftrightarrow>
     slot_governed cons (slots ! i) \<and> (\<exists>k. cap = Some k \<and> maker c = Some (vc_vendor k))"
  by (auto simp: search_counts_def split: option.splits)

lemma valid_assignment_iff:
  "valid_assignment (search_input d slots cons cap) a \<longleftrightarrow> allocation_valid d slots cons cap a"
proof -
  have counts: "capped_of (search_input d slots cons (Some k)) a = length (seats_of cons slots a (vc_vendor k))"
    if "length a = length slots" for k
    using that unfolding capped_of_def seats_of_def taken_at
    by (intro arg_cong [of _ _ length] filter_cong) (auto simp: counts_at)
  let ?inp = "search_input d slots cons cap"
  have seat: "(a ! i < length (as_candidates (slots ! i)) \<and> si_verdicts ?inp ! i ! (a ! i) = None
        \<and> (slot_constrained d (slots ! i) \<longrightarrow> an_independence (seated slots a i) \<noteq> None)) \<longleftrightarrow>
      a ! i < length (as_candidates (slots ! i)) \<and> seat_ok d cons (slots ! i) (seated slots a i)"
    if "i < length slots" for i
    using verdicts_shape [OF that, of "a ! i" d cons cap]
      static_exclusion_None [of "slots ! i" "seated slots a i" d cons]
    by (auto simp: seated_def seat_ok_def simp del: not_None_eq)
  have "(\<forall>k. si_cap ?inp = Some k \<longrightarrow> capped_of ?inp a \<le> vc_max k) \<longleftrightarrow>
      (case cap of None \<Rightarrow> True | Some c \<Rightarrow> length (seats_of cons slots a (vc_vendor c)) \<le> vc_max c)"
    if "length a = length slots"
    using counts [OF that] by (cases cap) auto
  then show ?thesis
    using seat by (simp add: valid_assignment_def allocation_valid_def taken_at cong: conj_cong)
qed

lemma tails_assignments: "tails (search_input d slots cons cap) 0 = assignments slots"
  by (simp add: tails_def assignments_def)

definition first_valid ::
  "AllocationDiversity \<Rightarrow> AllocationSlot list \<Rightarrow> AllocationConstraints \<Rightarrow> VendorCap option \<Rightarrow> nat list option" where
  "first_valid d slots cons cap = find (allocation_valid d slots cons cap) (assignments slots)"

lemma search_first_valid:
  "search_walk (search_input d slots cons cap) Search_new =
     (case first_valid d slots cons cap of
        Some a \<Rightarrow> (True, state_of (search_input d slots cons cap) a) | None \<Rightarrow> (False, Search_new))"
  unfolding search_finds tails_assignments first_valid_def valid_assignment_iff [abs_def] ..

lemma first_valid_Some:
  "first_valid d slots cons cap = Some a \<Longrightarrow> allocation_valid d slots cons cap a"
  by (auto simp: first_valid_def dest: find_SomeD)

lemma first_valid_None:
  "first_valid d slots cons cap = None \<longleftrightarrow> \<not> (\<exists>a. allocation_valid d slots cons cap a)"
proof -
  have "a \<in> set (assignments slots)" if "allocation_valid d slots cons cap a" for a
    using that by (auto simp: allocation_valid_def assignments_def product_lists_set list_all2_conv_all_nth)
  then show ?thesis by (auto simp: first_valid_def find_None_iff)
qed

lemma collect_options_all: "collect_options (map (\<lambda>x. Some (f x)) xs) = Some (map f xs)"
  by (induction xs) auto

lemma allocation_cases:
  obtains a where "first_valid d slots cons (effective_cap cons) = Some a"
      "allocation_valid d slots cons (effective_cap cons) a"
      "ja_blocked (allocate_constrained d slots cons) = None"
      "ja_slots (allocate_constrained d slots cons) =
         map (slot_receipt (search_input d slots cons (effective_cap cons)) a) [0..<length slots]"
  | "first_valid d slots cons (effective_cap cons) = None"
      "ja_blocked (allocate_constrained d slots cons) = Some
         (if list_ex (unfillable d cons) slots then NoEligibleCandidate
          else if effective_cap cons \<noteq> None \<and> first_valid d slots cons None \<noteq> None
          then VendorCapExceeded else NoDistinctReviewerVendors)"
      "ja_slots (allocate_constrained d slots cons) = map (blocked_slot d cons
         (the (ja_blocked (allocate_constrained d slots cons)))) slots"
proof (cases "first_valid d slots cons (effective_cap cons)")
  case None
  then show ?thesis
    by (intro that(2)) (simp_all add: allocate_constrained_def Let_def search_first_valid split: option.splits)
next
  case (Some a)
  show ?thesis
    by (rule that(1) [OF Some first_valid_Some [OF Some]])
      (simp_all add: allocate_constrained_def Let_def search_first_valid Some receipts_def state_of_def)
qed

lemma chosen_first_valid:
  "JointAllocation_chosen (allocate_constrained d slots cons) = first_valid d slots cons (effective_cap cons)"
proof (cases rule: allocation_cases [of d slots cons])
  case (1 a)
  have "map ((!) a) [0..<length slots] = a"
    using 1(2) map_nth [of a] by (simp add: allocation_valid_def)
  then show ?thesis
    using 1 by (simp add: JointAllocation_chosen_def JointAllocation_is_complete_def slot_receipt_def
        Let_def comp_def collect_options_all)
next
  case 2
  then show ?thesis by (simp add: JointAllocation_chosen_def JointAllocation_is_complete_def)
qed

text \<open>C14. The joint allocation is the first valid one. The backtracking search chooses, slot by slot, the
  lexicographically first assignment in which no candidate is excluded, reviewers held to diversity
  have distinct known vendors and the capped vendor keeps to its cap; the receipts name exactly those
  candidates, and no slot is given a route when there is no such assignment.\<close>

theorem allocation_is_first_valid:
  "let A = allocate_constrained d slots cons in
   JointAllocation_chosen A = find (allocation_valid d slots cons (effective_cap cons)) (assignments slots)
   \<and> (JointAllocation_is_complete A \<longleftrightarrow> (\<exists>a. allocation_valid d slots cons (effective_cap cons) a))
   \<and> map sa_slot_id (ja_slots A) = map as_slot_id slots
   \<and> map sa_selected (ja_slots A) =
       (case JointAllocation_chosen A of
          None \<Rightarrow> map (\<lambda>_. None) slots
        | Some a \<Rightarrow> map (\<lambda>i. Some (as_candidates (slots ! i) ! (a ! i))) [0..<length slots])"
proof (cases rule: allocation_cases [of d slots cons])
  case (1 a)
  have "map (\<lambda>i. as_slot_id (slots ! i)) [0..<length slots] = map as_slot_id slots"
    by (rule nth_equalityI) simp_all
  then show ?thesis
    using 1 chosen_first_valid [of d slots cons]
    by (auto simp: Let_def JointAllocation_is_complete_def slot_receipt_def chosen_candidate_def
        first_valid_def comp_def)
next
  case 2
  then show ?thesis
    using chosen_first_valid [of d slots cons] first_valid_None [of d slots cons "effective_cap cons"]
    by (simp add: Let_def JointAllocation_is_complete_def blocked_slot_def first_valid_def comp_def)
qed

lemma unfillable_seats:
  "unfillable d cons slot \<longleftrightarrow> list_all (\<lambda>c. \<not> seat_ok d cons slot c) (as_candidates slot)"
  by (simp add: unfillable_def slot_verdicts_def list_all_iff static_exclusion_None [symmetric])

lemma unfillable_blocks:
  assumes "slot \<in> set slots" "unfillable d cons slot"
  shows "\<not> allocation_valid d slots cons cap a"
proof
  assume valid: "allocation_valid d slots cons cap a"
  from assms(1) obtain i where i: "i < length slots" "slots ! i = slot" by (auto simp: in_set_conv_nth)
  with valid have "a ! i < length (as_candidates slot)" "seat_ok d cons slot (as_candidates slot ! (a ! i))"
    by (auto simp: allocation_valid_def seated_def)
  with assms(2) show False by (auto simp: unfillable_seats list_all_iff)
qed

lemma uncapped_valid:
  "allocation_valid d slots cons cap a \<Longrightarrow> allocation_valid d slots cons None a"
  by (auto simp: allocation_valid_def)

text \<open>C24. A blocked allocation names its cause. It is blocked for want of an eligible candidate exactly
  when some slot has none, for the vendor cap exactly when every slot has one and dropping the cap
  would give an allocation, and for reviewer diversity exactly when not even that would.\<close>

theorem blocked_reason_exact:
  "ja_blocked (allocate_constrained d slots cons) =
     (if \<exists>a. allocation_valid d slots cons (effective_cap cons) a then None
      else Some (if list_ex (\<lambda>slot. list_all (\<lambda>c. \<not> seat_ok d cons slot c) (as_candidates slot)) slots
                 then NoEligibleCandidate
                 else if \<exists>a. allocation_valid d slots cons None a then VendorCapExceeded
                 else NoDistinctReviewerVendors))"
proof (cases rule: allocation_cases [of d slots cons])
  case (1 a)
  then show ?thesis by auto
next
  case 2
  then have none: "\<not> (\<exists>a. allocation_valid d slots cons (effective_cap cons) a)"
    by (simp add: first_valid_None)
  moreover have "effective_cap cons \<noteq> None" if "\<exists>a. allocation_valid d slots cons None a"
    using that none by (cases "effective_cap cons") auto
  ultimately show ?thesis
    using 2(2) first_valid_None [of d slots cons None] by (auto simp: unfillable_seats [abs_def])
qed

section \<open>Receipts\<close>

lemma find_concat_Some:
  assumes "find P (concat (map (\<lambda>x. map (Cons x) ts) xs)) = Some a"
  shows "\<exists>ys y zs s. xs = ys @ y # zs \<and> a = y # s \<and> find (\<lambda>t. P (y # t)) ts = Some s
     \<and> (\<forall>x \<in> set ys. \<forall>t \<in> set ts. \<not> P (x # t))"
  using assms
proof (induction xs)
  case (Cons x xs)
  have split: "find P (map (Cons x) us @ rest) =
      (case find (\<lambda>t. P (x # t)) us of Some s \<Rightarrow> Some (x # s) | None \<Rightarrow> find P rest)" for us rest
    by (induction us) auto
  show ?case
  proof (cases "find (\<lambda>t. P (x # t)) ts")
    case None
    with Cons.prems have "find P (concat (map (\<lambda>x. map (Cons x) ts) xs)) = Some a" by (simp add: split)
    from Cons.IH [OF this] obtain ys y zs s where r: "xs = ys @ y # zs" "a = y # s"
        "find (\<lambda>t. P (y # t)) ts = Some s" "\<forall>x \<in> set ys. \<forall>t \<in> set ts. \<not> P (x # t)" by blast
    moreover have "\<forall>t \<in> set ts. \<not> P (x # t)" using None by (auto simp: find_None_iff)
    ultimately have "x # xs = (x # ys) @ y # zs \<and> a = y # s \<and> find (\<lambda>t. P (y # t)) ts = Some s
        \<and> (\<forall>x \<in> set (x # ys). \<forall>t \<in> set ts. \<not> P (x # t))" by simp
    then show ?thesis by blast
  next
    case (Some s)
    with Cons.prems have "x # xs = [] @ x # xs \<and> a = x # s \<and> find (\<lambda>t. P (x # t)) ts = Some s
        \<and> (\<forall>x \<in> set []. \<forall>t \<in> set ts. \<not> P (x # t))" by (simp add: split)
    then show ?thesis by blast
  qed
qed simp

text \<open>An assignment that leaves the first valid one downwards is enumerated before it.\<close>

lemma find_product_least:
  assumes "find P (product_lists (map (\<lambda>n. [0..<n]) ns)) = Some a"
    "b \<in> set (product_lists (map (\<lambda>n. [0..<n]) ns))" "i < length a" "take i b = take i a" "b ! i < a ! i"
  shows "\<not> P b"
  using assms
proof (induction ns arbitrary: P a b i)
  case (Cons n ns)
  let ?ts = "product_lists (map (\<lambda>n. [0..<n]) ns)"
  from Cons.prems(1) have "find P (concat (map (\<lambda>x. map (Cons x) ?ts) [0..<n])) = Some a" by simp
  from find_concat_Some [OF this] obtain ys y zs s where
      r: "[0..<n] = ys @ y # zs" "a = y # s" "find (\<lambda>t. P (y # t)) ?ts = Some s"
        "\<forall>x \<in> set ys. \<forall>t \<in> set ?ts. \<not> P (x # t)" by blast
  from Cons.prems(2) obtain x t where b: "b = x # t" "x < n" "t \<in> set ?ts" by auto
  show ?case
  proof (cases i)
    case 0
    then have "x < y" using Cons.prems(5) b r(2) by simp
    moreover have "length ys < n" using arg_cong [OF r(1), of length] by simp
    moreover have "y = length ys" "ys = [0..<length ys]"
      using arg_cong [OF r(1), of "\<lambda>l. l ! length ys"] arg_cong [OF r(1), of "take (length ys)"] calculation(2)
      by (simp_all add: take_upt)
    ultimately have "x \<in> set ys" by (metis atLeastLessThan_iff le0 set_upt)
    then show ?thesis using r(4) b(1,3) by blast
  next
    case (Suc j)
    then have "x = y" "take j t = take j s" "t ! j < s ! j" "j < length s"
      using Cons.prems(3-5) b r(2) by auto
    then show ?thesis using Cons.IH [OF r(3) b(3)] b(1) by simp
  qed
qed (auto split: if_splits)

lemma first_valid_least:
  assumes "first_valid d slots cons cap = Some a" "i < length slots" "x < a ! i" "take i b = take i a" "b ! i = x"
  shows "\<not> allocation_valid d slots cons cap b"
proof
  assume valid: "allocation_valid d slots cons cap b"
  have a: "length a = length slots" using first_valid_Some [OF assms(1)] by (simp add: allocation_valid_def)
  have eq: "assignments slots = product_lists (map (\<lambda>n. [0..<n]) (map (\<lambda>s. length (as_candidates s)) slots))"
    by (simp add: assignments_def comp_def)
  have "b \<in> set (assignments slots)"
    using valid by (auto simp: allocation_valid_def assignments_def product_lists_set list_all2_conv_all_nth)
  then show False
    using find_product_least [OF assms(1) [unfolded first_valid_def eq], of b i] valid assms a
    by (simp add: eq)
qed

text \<open>What each verdict on a candidate that was passed over asserts.\<close>

definition verdict_true ::
  "AllocationDiversity \<Rightarrow> AllocationSlot list \<Rightarrow> AllocationConstraints \<Rightarrow> nat list \<Rightarrow> nat \<Rightarrow>
   ConsideredCandidate \<Rightarrow> bool" where
  "verdict_true d slots cons a i v \<longleftrightarrow>
     (let c = cc_candidate v; slot = slots ! i in
      case cc_excluded v of
        None \<Rightarrow> False
      | Some VendorHeld \<Rightarrow> slot_constrained d slot \<and> (\<exists>j < i. slot_constrained d (slots ! j)
          \<and> cc_conflicts_with v = Some (as_slot_id (slots ! j))
          \<and> an_independence c \<noteq> None \<and> an_independence (seated slots a j) = an_independence c)
      | Some VendorCapReached \<Rightarrow> (\<exists>cap. effective_cap cons = Some cap
          \<and> slot_governed cons slot \<and> maker c = Some (vc_vendor cap)
          \<and> vc_max cap \<le> length (filter (\<lambda>j. j \<noteq> i) (seats_of cons slots a (vc_vendor cap))))
      | Some NoCompleteAllocation \<Rightarrow> seat_ok d cons slot c
      | Some _ \<Rightarrow> \<not> seat_ok d cons slot c)"

lemma static_exclusion_kinds:
  "static_exclusion slot c k g cons \<notin> {Some VendorHeld, Some VendorCapReached, Some NoCompleteAllocation}"
  by (simp add: static_exclusion_def)

lemma considered_true:
  assumes a: "length a = length slots" and i: "i < length slots"
    and x: "x < length (as_candidates (slots ! i))" "x < a ! i"
    and v: "considered_verdict (search_input d slots cons (effective_cap cons)) a i x
        (as_candidates (slots ! i) ! x) = (e, w)"
  shows "verdict_true d slots cons a i
     \<lparr>cc_candidate = as_candidates (slots ! i) ! x, cc_excluded = e, cc_conflicts_with = w\<rparr>"
proof -
  let ?inp = "search_input d slots cons (effective_cap cons)" and ?c = "as_candidates (slots ! i) ! x"
  let ?static = "static_exclusion (slots ! i) ?c (slot_constrained d (slots ! i)) (slot_governed cons (slots ! i)) cons"
  note static = verdicts_shape [OF i x(1), of d cons "effective_cap cons"]
  show ?thesis
  proof (cases ?static)
    case (Some e')
    then have "e = Some e'" using v static by (simp add: considered_verdict_def)
    moreover have "e' \<notin> {VendorHeld, VendorCapReached, NoCompleteAllocation}"
      using Some static_exclusion_kinds [of "slots ! i" ?c] by (metis insert_iff empty_iff)
    moreover have "\<not> seat_ok d cons (slots ! i) ?c" using Some static_exclusion_None by (metis option.distinct(1))
    ultimately show ?thesis by (cases e') (simp_all add: verdict_true_def)
  next
    case None
    then have ok: "seat_ok d cons (slots ! i) ?c" by (simp add: static_exclusion_None)
    show ?thesis
    proof (cases "if slot_constrained d (slots ! i) then Option.bind (an_independence ?c)
        (map_of (rev (earlier_holders ?inp a i))) else None")
      case held: (Some h)
      then obtain k where k: "slot_constrained d (slots ! i)" "an_independence ?c = Some k"
          "map_of (rev (earlier_holders ?inp a i)) k = Some h"
        by (auto split: if_splits option.splits simp: bind_eq_Some_conv)
      from map_of_SomeD [OF k(3)] have "(k, h) \<in> set (earlier_holders ?inp a i)" by simp
      then obtain j where "j < i" "slot_constrained d (slots ! j)" "h = as_slot_id (slots ! j)"
          "an_independence (seated slots a j) = Some k"
        using i by (auto simp: earlier_holders_def chosen_candidate_def seated_def split: option.splits)
      moreover have "e = Some VendorHeld" "w = Some h"
        using v static None x held i by (simp_all add: considered_verdict_def)
      ultimately show ?thesis using k by (auto simp: verdict_true_def)
    next
      case free: None
      have holders: "length (cap_holders ?inp a i) = length (filter (\<lambda>j. j \<noteq> i) (seats_of cons slots a (vc_vendor cap)))"
        if "effective_cap cons = Some cap" for cap
      proof -
        have "filter (\<lambda>j. j \<noteq> i \<and> search_counts ?inp j (chosen_candidate ?inp a j)) [0..<length slots] =
            filter (\<lambda>j. j \<noteq> i) (seats_of cons slots a (vc_vendor cap))"
          unfolding seats_of_def filter_filter
          by (intro filter_cong refl) (auto simp: counts_at that chosen_candidate_def seated_def)
        then show ?thesis by (simp add: cap_holders_def)
      qed
      show ?thesis
      proof (cases "search_counts ?inp i ?c \<and> (case effective_cap cons of None \<Rightarrow> False
          | Some cap \<Rightarrow> vc_max cap \<le> length (cap_holders ?inp a i))")
        case True
        then obtain cap where cap: "effective_cap cons = Some cap" "slot_governed cons (slots ! i)"
            "maker ?c = Some (vc_vendor cap)" "vc_max cap \<le> length (cap_holders ?inp a i)"
          using i by (auto simp: counts_at split: option.splits)
        moreover have "e = Some VendorCapReached"
          using v static None x free True i by (simp add: considered_verdict_def)
        ultimately show ?thesis using holders [OF cap(1)] by (simp add: verdict_true_def)
      next
        case False
        moreover have "considered_verdict ?inp a i x ?c =
            (if search_counts ?inp i ?c \<and> (case effective_cap cons of None \<Rightarrow> False
               | Some cap \<Rightarrow> vc_max cap \<le> length (cap_holders ?inp a i))
             then (Some VendorCapReached, case cap_holders ?inp a i of [] \<Rightarrow> None | h # _ \<Rightarrow> Some h)
             else (Some NoCompleteAllocation, None))"
          using static None x free i by (simp add: considered_verdict_def)
        ultimately have "e = Some NoCompleteAllocation" using v by (simp only: if_False prod.inject)
        then show ?thesis using ok by (simp add: verdict_true_def)
      qed
    qed
  qed
qed


section \<open>The formal Independent Review\<close>


section \<open>A review of three seats\<close>

definition review_candidate :: "string \<Rightarrow> string \<Rightarrow> AllocationCandidate" where
  "review_candidate account vendor =
     \<lparr>an_rung = \<lparr>mr_provider = account, mr_model = ''m'', mr_effort = None\<rparr>, an_step = 1, an_sub_step = 1,
      an_vendor = Some vendor, an_independence = Some vendor\<rparr>"

definition review_slot :: "string \<Rightarrow> AllocationRole \<Rightarrow> AllocationCandidate list \<Rightarrow> AllocationSlot" where
  "review_slot name role cs =
     \<lparr>as_slot_id = name, as_role = role,
      as_eligibility = \<lparr>el_unavailable_accounts = [], el_excluded_vendors = []\<rparr>, as_candidates = cs\<rparr>"

text \<open>Every seat prefers the capped vendor; only the first reviewer gets it.\<close>

definition review_slots :: "AllocationSlot list" where
  "review_slots =
     (let claude = review_candidate ''claude'' ''anthropic'' in
      [review_slot ''r1'' Reviewer [claude],
       review_slot ''r2'' Reviewer [claude, review_candidate ''codex'' ''openai''],
       review_slot ''judge'' Judge [claude, review_candidate ''cursor'' ''xai'']])"

definition review_constraints :: AllocationConstraints where
  "review_constraints = committee_constraints INDEPENDENT_REVIEW_TEMPLATE_ID (map as_slot_id review_slots)"

lemma review_chosen:
  "JointAllocation_chosen (allocate_constrained DistinctVendorPerReviewer review_slots review_constraints)
     = Some [0, 1, 1]"
  by code_simp



end
