(* ===== verification/Fleet_Sample.thy ===== *)
theory Fleet_Sample
  imports Fleet_Launch Fleet_Search
begin

text \<open>
  A small fleet, the properties of the fleet theories applied to it, and the same fleet with two
  overlapping model prefixes, where a resolved route loses its maker.
\<close>

section \<open>The policy\<close>

definition pilot_model :: "string \<Rightarrow> string \<Rightarrow> string \<Rightarrow> string list \<Rightarrow> ModelSpec" where
  "pilot_model domain native vendor efforts =
     \<lparr>ms_domain = domain, ms_id = native, ms_vendor = vendor, ms_efforts = efforts, ms_vision = False,
      ms_calibrated = True, ms_permission_eligible = True\<rparr>"

definition pilot_domain :: "string \<Rightarrow> string list \<Rightarrow> string option \<Rightarrow> DomainSpec" where
  "pilot_domain provider accounts start =
     \<lparr>ds_provider = provider, ds_accounts = accounts, ds_model_prefix = start\<rparr>"

definition pilot_document ::
  "(string \<times> DomainSpec) list \<Rightarrow> (string \<times> ModelSpec) list \<Rightarrow> PermissionSpec list \<Rightarrow> FleetDocument" where
  "pilot_document domains models permissions =
     \<lparr>fd_schema_version = 2,
      fd_domains = [(''claude'', pilot_domain ''claude'' [''claude'', ''claude-two''] None),
        (''cursor'', pilot_domain ''cursor'' [''cursor''] (Some ''grok''))] @ domains,
      fd_unavailable = \<lparr>us_domains = [], us_accounts = [''claude-two'']\<rparr>,
      fd_models = [(''grok'', pilot_model ''cursor'' ''grok-4'' ''xai'' []),
        (''opus'', pilot_model ''claude'' ''claude-opus'' ''anthropic'' [''high''])] @ models,
      fd_chains = [(''main'', [[''opus@high''], [''grok'']])],
      fd_bindings = [(''committee/c1/r1'', ''main'')],
      fd_rules = \<lparr>ru_calibration_required = [''committee/c1/r1''], ru_vision_required = [],
        ru_independent_of = []\<rparr>,
      fd_consultation_permissions = permissions\<rparr>"

definition pilot_fleet :: FleetSnapshot where
  "pilot_fleet =
     \<lparr>fs_document = pilot_document [] [] [\<lparr>ps_account = ''cursor'', ps_model = ''grok'', ps_effort = None,
        ps_mode = ''plan''\<rparr>],
      fs_raw = ''policy'', fs_hash = ''hash''\<rparr>"

text \<open>A second Cursor domain whose prefix extends the first one's, with a model of the same native id.\<close>

definition overlap_fleet :: FleetSnapshot where
  "overlap_fleet =
     \<lparr>fs_document = pilot_document [(''cursor-wide'', pilot_domain ''cursor'' [''cursor''] (Some ''grok-4''))]
        [(''wide'', pilot_model ''cursor-wide'' ''grok-4'' ''unknown'' [])] [],
      fs_raw = ''policy'', fs_hash = ''hash''\<rparr>"

lemmas pilot_text = less_eq_char_def ascii_lowercase_def ascii_digit_def ascii_uppercase_def alphanumeric_def
lemmas pilot_defs = pilot_model_def pilot_domain_def pilot_document_def pilot_fleet_def overlap_fleet_def
lemmas pilot_names = is_generic_slug_def is_model_slug_def is_key_segment_def is_binding_key_def
  Schema_accepts_key_def normalize_provider_def provider_matches_def PROVIDERS_def strip_prefix_def
  entry_parts_def entry_model_def entry_domain_def entry_accounts_def account_named_def

lemma policy_ok_tables:
  "policy_ok schema d \<longleftrightarrow> (\<forall>table \<in> {domain_table schema d, model_table d, chain_table d,
     binding_table schema d, unavailable_table d, seat_table schema d}. \<forall>(rule, ok) \<in> set table. ok)"
  by (auto simp: policy_ok_def policy_table_def)

lemma high_effort: "\<exists>e. ''high'' = EffortLevel_as_str e"
  by (rule exI [of _ High]) simp

lemma pilot_domain_table:
  "\<forall>(rule, ok) \<in> set (domain_table SchemaV2 (fs_document pilot_fleet)). ok"
  "\<forall>(rule, ok) \<in> set (domain_table SchemaV2 (fs_document overlap_fleet)). ok"
  by (simp_all add: domain_table_def Let_def pilot_defs pilot_names pilot_text)

lemma pilot_model_table:
  "\<forall>(rule, ok) \<in> set (model_table (fs_document pilot_fleet)). ok"
  "\<forall>(rule, ok) \<in> set (model_table (fs_document overlap_fleet)). ok"
  by (simp_all add: model_table_def Let_def pilot_defs pilot_names pilot_text high_effort)

lemma pilot_chain_table:
  "\<forall>(rule, ok) \<in> set (chain_table (fs_document pilot_fleet)). ok"
  "\<forall>(rule, ok) \<in> set (chain_table (fs_document overlap_fleet)). ok"
  by (simp_all add: chain_table_def chain_entries_def Let_def pilot_defs pilot_names pilot_text)

lemma pilot_binding_table:
  "\<forall>(rule, ok) \<in> set (binding_table SchemaV2 (fs_document pilot_fleet)). ok"
  "\<forall>(rule, ok) \<in> set (binding_table SchemaV2 (fs_document overlap_fleet)). ok"
  by (auto simp: binding_table_def seat_special_def pilot_defs pilot_names pilot_text split: if_splits)

lemma pilot_unavailable_table:
  "\<forall>(rule, ok) \<in> set (unavailable_table (fs_document pilot_fleet)). ok"
  "\<forall>(rule, ok) \<in> set (unavailable_table (fs_document overlap_fleet)). ok"
  by (simp_all add: unavailable_table_def pilot_defs)

lemma pilot_seat_table:
  "\<forall>(rule, ok) \<in> set (seat_table SchemaV2 (fs_document pilot_fleet)). ok"
  "\<forall>(rule, ok) \<in> set (seat_table SchemaV2 (fs_document overlap_fleet)). ok"
  by (simp_all add: seat_table_def Let_def permission_ok_def permission_matches_def effort_listed_def
      has_wildcard_def pilot_defs pilot_names pilot_text)

lemma pilot_policy_ok:
  "policy_ok SchemaV2 (fs_document pilot_fleet)" "policy_ok SchemaV2 (fs_document overlap_fleet)"
  unfolding policy_ok_tables ball_simps
  by (intro conjI TrueI pilot_domain_table pilot_model_table pilot_chain_table pilot_binding_table
      pilot_unavailable_table pilot_seat_table)+

section \<open>Resolution and selection\<close>

definition pilot_rung :: "string \<Rightarrow> string \<Rightarrow> EffortLevel option \<Rightarrow> ModelRung" where
  "pilot_rung account model effort = \<lparr>mr_provider = account, mr_model = model, mr_effort = effort\<rparr>"

definition pilot_opus :: FleetRoute where
  "pilot_opus = \<lparr>fr_rung = pilot_rung ''claude'' ''claude-opus'' (Some High), fr_step = 1, fr_sub_step = 1,
     fr_vendor = ''anthropic''\<rparr>"

definition pilot_grok :: FleetRoute where
  "pilot_grok = \<lparr>fr_rung = pilot_rung ''cursor'' ''grok-4'' None, fr_step = 2, fr_sub_step = 1,
     fr_vendor = ''xai''\<rparr>"

definition pilot_resolution :: FleetResolution where
  "pilot_resolution =
     \<lparr>fx_provenance = \<lparr>fp_policy_hash = ''hash'', fp_schema_version = 2, fp_binding_key = ''committee/c1/r1'',
        fp_chain = ''main''\<rparr>,
      fx_routes = [pilot_opus, pilot_grok],
      fx_excluded = [\<lparr>pe_step = 1, pe_model = ''claude-opus'', pe_account = Some ''claude-two'',
        pe_reason = UnavailableAccount\<rparr>]\<rparr>"

lemmas pilot_reading = chain_resolution_def step_routes_def step_exclusions_def route_at_def entry_offers_def
  entry_exclusions_def entry_effort_def whole_model_def parse_effort_def Let_def pilot_resolution_def
  pilot_opus_def pilot_grok_def pilot_rung_def pilot_defs pilot_names

lemma pilot_resolved:
  "resolve_bound pilot_fleet ''committee/c1/r1'' = Some pilot_resolution"
  "resolve_bound overlap_fleet ''committee/c1/r1'' = Some pilot_resolution"
proof -
  show "resolve_bound pilot_fleet ''committee/c1/r1'' = Some pilot_resolution"
    by (subst resolve_bound_chain [OF pilot_policy_ok(1), of _ "''main''" "[[''opus@high''], [''grok'']]"])
      (simp_all add: pilot_reading)
  show "resolve_bound overlap_fleet ''committee/c1/r1'' = Some pilot_resolution"
    by (subst resolve_bound_chain [OF pilot_policy_ok(2), of _ "''main''" "[[''opus@high''], [''grok'']]"])
      (simp_all add: pilot_reading)
qed

theorem resolution_exact_witness:
  "\<exists>chain r. map_of (fd_chains (fs_document pilot_fleet)) ''main'' = Some chain
     \<and> resolve_bound pilot_fleet ''committee/c1/r1'' = Some r
     \<and> (fx_routes r, fx_excluded r) = chain_resolution (fs_document pilot_fleet) ''committee/c1/r1'' chain
     \<and> fp_policy_hash (fx_provenance r) = fs_hash pilot_fleet \<and> fp_chain (fx_provenance r) = ''main''
     \<and> distinct (map (\<lambda>route. (fr_step route, fr_sub_step route)) (fx_routes r))
     \<and> (\<forall>route \<in> set (fx_routes r). 1 \<le> unat (fr_step route) \<and> unat (fr_step route) \<le> length chain
          \<and> 1 \<le> unat (fr_sub_step route) \<and> unat (fr_sub_step route) \<le> 64)"
  by (rule resolution_exact [OF pilot_policy_ok(1)]) (simp add: pilot_defs)

definition pilot_clock :: clock_ops where
  "pilot_clock = \<lparr>ck_since = (\<lambda>t u. t - u), ck_from_secs = int, ck_add = (\<lambda>t span. Some (t + span))\<rparr>"

definition pilot_health :: RouteHealth where
  "pilot_health = \<lparr>rh_as_of = 100, rh_max_age_seconds = 60, rh_mode = None,
     rh_observations = [\<lparr>rb_account = ''cursor'', rb_model = ''grok-4'', rb_effort = None, rb_mode = None,
       rb_state = HealthAvailable, rb_observed_at = 70, rb_revision = ''r1''\<rparr>]\<rparr>"

definition no_eligibility :: Eligibility where
  "no_eligibility = \<lparr>el_unavailable_accounts = [], el_excluded_vendors = []\<rparr>"

lemma pilot_selected:
  "sl_selected (select_observed pilot_clock pilot_resolution no_eligibility (Some pilot_health)) = Some pilot_grok"
  "sl_selected_validity (select_observed pilot_clock pilot_resolution no_eligibility (Some pilot_health)) =
     Some \<lparr>rv_observed_at = 70, rv_valid_until = 130\<rparr>"
  by code_simp+

theorem selection_exact_witness:
  "RouteHealth_admit pilot_clock (pilot_health\<lparr>rh_as_of := 130\<rparr>) (fr_rung pilot_grok) =
     Inr \<lparr>rv_observed_at = 70, rv_valid_until = 130\<rparr>
   \<and> RouteHealth_admit pilot_clock (pilot_health\<lparr>rh_as_of := 131\<rparr>) (fr_rung pilot_grok) \<noteq>
       Inr \<lparr>rv_observed_at = 70, rv_valid_until = 130\<rparr>"
proof -
  have "window_laws pilot_clock" by (simp add: window_laws_def pilot_clock_def)
  from selection_exact [OF this pilot_selected(1)]
  have "RouteHealth_admit pilot_clock (pilot_health\<lparr>rh_as_of := t\<rparr>) (fr_rung pilot_grok) =
      Inr \<lparr>rv_observed_at = 70, rv_valid_until = 130\<rparr> \<longleftrightarrow> 70 \<le> t \<and> t \<le> 130" for t
    using pilot_selected(2) by (auto dest!: spec [of _ pilot_health])
  then show ?thesis by simp
qed

section \<open>Identity and permissions\<close>

lemmas pilot_identity = FleetSnapshot_lists_def model_of_def model_matches_def sole_def vendor_of_def
  effort_listed_def pilot_opus_def pilot_grok_def pilot_rung_def pilot_defs pilot_names pilot_text



section \<open>Leadership\<close>

definition pilot_role :: CatalogRoleRef where
  "pilot_role = \<lparr>ct_catalog_id = 1, ct_catalog_revision = 1, ct_role_code = ''LSA'',
     ct_standard_title = ''Lead'', ct_custom_display_name = None\<rparr>"

definition pilot_revision :: CanonicalDocument where
  "pilot_revision = \<lparr>cd_json = ''roster'', cd_hash = replicate 64 (CHR ''a''), cd_schema_version = 1\<rparr>"

definition pilot_roster :: "string \<Rightarrow> PinnedRevision option" where
  "pilot_roster source =
     Some \<lparr>pn_version = 1, pn_seats = [\<lparr>pt_role_slot_id = ''lsa'', pt_role = pilot_role\<rparr>]\<rparr>"

definition pilot_key :: LeadershipKey where
  "pilot_key = LeadershipKey_of pilot_revision (the (pilot_roster [])) ''lsa''"

theorem leadership_key_exact_witness:
  "(\<exists>pinned seat. pilot_roster (cd_json pilot_revision) = Some pinned
      \<and> filter (\<lambda>seat. pt_role_slot_id seat = ''lsa'') (pn_seats pinned) = [seat] \<and> pt_role seat = pilot_role
      \<and> lk_core_team_version pilot_key = pn_version pinned)
   \<and> split_char (CHR ''/'') (lk_text pilot_key) = [''leadership'', cd_hash pilot_revision, ''lsa'']
   \<and> Schema_accepts_key SchemaV2 (lk_text pilot_key) \<and> \<not> Schema_accepts_key SchemaV1 (lk_text pilot_key)
   \<and> (\<forall>s. FleetSnapshot_resolve s (lk_text pilot_key) = None)"
proof (rule leadership_key_exact)
  show "for_pinned_seat pilot_roster pilot_revision ''lsa'' pilot_role = Inr pilot_key" by code_simp
  show "ContentHash_parse (cd_hash pilot_revision) = Inr (replicate 64 (CHR ''a''))" by code_simp
  show "RoleSlotId_parse ''lsa'' = Inr ''lsa''" by code_simp
qed

section \<open>Host routes\<close>

definition pilot_host_document :: HostDocument where
  "pilot_host_document =
     \<lparr>hd_schema_version = 1,
      hd_provider_accounts = [(''claude'', \<lparr>ha_provider = ''claude'', ha_harness = ''paseo'',
        ha_native_alias = ''main'', ha_credential = ''env:KEY'', ha_serves = [(''opus'', ''claude-opus'')],
        ha_efforts = Some [High], ha_qualification = None\<rparr>)],
      hd_routes = [(''claude'', [''claude''])]\<rparr>"

definition pilot_host :: HostRoutes where
  "pilot_host = \<lparr>hr_host_bytes = ''host'', hr_accounts = hd_provider_accounts pilot_host_document,
     hr_routes = hd_routes pilot_host_document\<rparr>"

definition pilot_ops :: host_ops where
  "pilot_ops = \<lparr>ho_hash_of = (\<lambda>s. s), ho_identity_json = (\<lambda>hash domain slots. hash @ domain)\<rparr>"

definition pilot_matrix :: "RuntimePair list" where
  "pilot_matrix = [\<lparr>rp_name = None, rp_harness = ''paseo'', rp_provider = ''claude''\<rparr>]"

definition pilot_frozen :: ResolvedRoute where
  "pilot_frozen =
     \<lparr>rr_schema_version = 1, rr_slot = ''claude'', rr_route_provider = ''claude'', rr_route_harness = ''paseo'',
      rr_native_alias = ''main'', rr_qualification = None, rr_route_model_id = ''claude-opus'',
      rr_canonical_model = ''claude-opus'', rr_canonical_effort = Some High, rr_canonical_vendor = ''anthropic'',
      rr_policy_hash = ''hash'', rr_host_route_hash = ''hostclaude'', rr_resolved_at = 5\<rparr>"

lemma pilot_joined:
  "HostRoutes_resolve pilot_ops pilot_host pilot_fleet (fr_rung pilot_opus) pilot_matrix None 5 = Inr pilot_frozen"
  by (simp add: HostRoutes_resolve_def or_refuse_def symbolic_name_def check_qualification_def effort_unsupported_def
      RuntimeMatrix_allows_def host_route_hash_def pilot_matrix_def pilot_ops_def pilot_host_def
      pilot_host_document_def pilot_frozen_def pilot_identity)

lemma pilot_parsed: "HostRoutes_parse (\<lambda>_. Some pilot_host_document) ''host'' = Inr pilot_host"
  by code_simp

theorem host_join_keeps_identity_witness:
  "ResolvedRoute_canonical_rung pilot_frozen = fr_rung pilot_opus
   \<and> vendor_of pilot_fleet (fr_rung pilot_opus) = Some (rr_canonical_vendor pilot_frozen)
   \<and> RuntimeMatrix_allows pilot_matrix (rr_route_harness pilot_frozen) (rr_route_provider pilot_frozen)"
  using host_join_keeps_identity [OF pilot_joined] by blast

lemma pilot_candidates:
  "HostRoutes_candidates pilot_ops pilot_host pilot_fleet pilot_resolution pilot_matrix None [''xai''] 5 =
     Inr [(pilot_opus, pilot_frozen)]"
proof -
  have key: "resolve_bound pilot_fleet (fp_binding_key (fx_provenance pilot_resolution)) = Some pilot_resolution"
    using pilot_resolved(1) by (simp add: pilot_resolution_def)
  have routes: "fx_routes pilot_resolution = [pilot_opus, pilot_grok]" by (simp add: pilot_resolution_def)
  have opus: "model_of pilot_fleet (fr_rung pilot_opus) =
      Some (pilot_model ''claude'' ''claude-opus'' ''anthropic'' [''high''])"
    by (simp add: pilot_identity)
  have slots: "map_of (hr_routes pilot_host) (ms_domain (pilot_model ''claude'' ''claude-opus'' ''anthropic'' [''high''])) =
      Some [''claude'']"
    by (simp add: pilot_host_def pilot_host_document_def pilot_model_def)
  have "find (\<lambda>c. same_route pilot_opus c \<and> mr_provider (fr_rung c) = ''claude'') [pilot_opus, pilot_grok] =
      Some pilot_opus"
    by (simp add: same_route_def pilot_opus_def pilot_rung_def)
  moreover have "fr_vendor pilot_opus = ''anthropic''" "fr_vendor pilot_grok = ''xai''"
    "route_identity pilot_grok \<noteq> route_identity pilot_opus"
    by (simp_all add: pilot_opus_def pilot_grok_def route_identity_def)
  ultimately show ?thesis
    by (simp add: HostRoutes_candidates_def key routes opus slots or_refuse_def try_slot_def pilot_joined)
qed

theorem host_candidates_exact_witness:
  "pilot_opus \<in> set (fx_routes pilot_resolution) \<and> fr_vendor pilot_opus \<notin> set [''xai'']
   \<and> HostRoutes_resolve pilot_ops pilot_host pilot_fleet (fr_rung pilot_opus) pilot_matrix None 5 = Inr pilot_frozen
   \<and> sorted (map (\<lambda>(c, _). unat (fr_step c)) [(pilot_opus, pilot_frozen)])"
  using host_candidates_exact [OF pilot_policy_ok(1) pilot_candidates] by simp

theorem frozen_route_storable_witness:
  "\<exists>stored. StoredLaunchRoute_resolved pilot_frozen = Inr stored \<and> StoredLaunchRoute_validate stored = Inr ()
     \<and> StoredLaunchRoute_frozen stored = Some pilot_frozen
     \<and> StoredLaunchRoute_canonical_rung stored = fr_rung pilot_opus"
  using frozen_route_storable [OF pilot_policy_ok(1) pilot_parsed pilot_joined] by (simp add: pilot_frozen_def)

end
