(* ===== verification/Spec2Isabelle.thy ===== *)
theory Spec2Isabelle
  imports Recovery Scheduler_Plan Completion_Run Command_Sample Fleet_Sample
begin

text \<open>
  A verification of the decision core of Kontor, the control plane in
  \<^verbatim>\<open>src/crates\<close> that admits, runs, recovers and closes agent work.

  \<^bold>\<open>The program.\<close>  Kontor keeps tasks, runs and team runs in a store
  (\<^verbatim>\<open>kontor-store\<close>).  A task pins a work profile; a scheduler pass
  (\<^verbatim>\<open>kontor-scheduler\<close>) reads a snapshot of everything that bears on
  admission and plans a batch of launches; a guardrail evaluator and a recovery machine
  (\<^verbatim>\<open>kontor-policy\<close>) rule on what a running seat may do and on what
  happens once a gate parked it; completion gates decide when a mission may close.  Every decision
  is a pure function of recorded evidence (\<^verbatim>\<open>kontor-core\<close>), and the
  store re-proves it inside the transaction that writes it.

  \<^bold>\<open>The theories.\<close>
  \<^item> \<open>Kontor_Prelude\<close>: results with an early return, 32- and 64-bit saturating and checked
    arithmetic, first refusals, ordered sets as lists, runs of a fallible step.
  \<^item> \<open>Identity\<close>: \<^verbatim>\<open>core/id.rs\<close> and the
    \<^verbatim>\<open>closed_enum!\<close> macro: revisions, versions, key and name rules, module contention.
    The locale \<open>closed_enum\<close> is interpreted on every closed vocabulary of the development.
  \<^item> \<open>Run_Lifecycle\<close>, \<open>Task_Lifecycle\<close>, \<open>Team_Closure\<close>: \<^verbatim>\<open>core/state.rs\<close>: the state
    machines of runs, tasks and team runs and the evidence that closes them.
  \<^item> \<open>Phase_Graph\<close>, \<open>Work_Profile\<close>: the graph, validation and closure certificate of
    \<^verbatim>\<open>core/spec.rs\<close>; \<open>Context_Window\<close>: its context policies and budgets.
  \<^item> \<open>Task_Store\<close>: the task transition and the team handlers of
    \<^verbatim>\<open>store/repository.rs\<close> over typed rows.
  \<^item> \<open>Guardrails\<close>: \<^verbatim>\<open>policy/model.rs\<close> and
    \<^verbatim>\<open>policy/evaluator.rs\<close>, every rule and the evaluation.
  \<^item> \<open>Recovery\<close>: \<^verbatim>\<open>policy/recovery.rs\<close> and the handler of
    \<^verbatim>\<open>store/policy.rs\<close> that applies a transition.
  \<^item> \<open>Open_Question\<close>: \<^verbatim>\<open>core/open_question.rs\<close>; \<open>Completion_Gate\<close>:
    \<^verbatim>\<open>policy/completion.rs\<close>.
  \<^item> \<open>Headroom\<close>: \<^verbatim>\<open>core/quota.rs\<close> and \<^verbatim>\<open>scheduler/headroom.rs\<close>.
  \<^item> \<open>Scheduler_Model\<close>: \<^verbatim>\<open>scheduler/model.rs\<close>; \<open>Scheduler_Ready\<close>:
    \<^verbatim>\<open>scheduler/ready.rs\<close>; \<open>Scheduler_Plan\<close>: what a plan guarantees.
  \<^item> \<open>Completion\<close>: \<^verbatim>\<open>scheduler/completion.rs\<close>; \<open>Completion_Run\<close>: what its runs guarantee.
  \<^item> \<open>Command_Receipt\<close>: \<^verbatim>\<open>core/receipt.rs\<close>, the command vocabulary, its target matrix and the
    receipt state machine; \<open>Command_Store\<close>: the ledger of \<^verbatim>\<open>store/commands\<close>, with the writers of
    its tables in \<^verbatim>\<open>store/repository.rs\<close> and \<^verbatim>\<open>store/policy.rs\<close> and the startup inventory of
    \<^verbatim>\<open>daemon/lib.rs\<close>.  \<open>Command_Protocol\<close> states the ledger invariant and reduces every write to
    one of a few atomic changes; \<open>Command_Run\<close> makes the operations a step relation;
    \<open>Command_Safety\<close> and \<open>Command_Progress\<close> hold what executions guarantee, and \<open>Command_Sample\<close>
    one execution they are shown on.
  \<^item> \<open>Fleet_Allocation\<close>: \<^verbatim>\<open>fleet/allocation.rs\<close>, the joint choice of a route for every seat;
    \<open>Fleet_Search\<close>: what its backtracking search guarantees.
  \<^item> \<open>Fleet_Policy\<close>: \<^verbatim>\<open>fleet/lib.rs\<close>, \<^verbatim>\<open>fleet/permissions.rs\<close>, \<^verbatim>\<open>fleet/leadership.rs\<close> and
    \<^verbatim>\<open>core/provider.rs\<close>: the fleet policy, its rules, resolution and selection of routes;
    \<open>Fleet_Rules\<close> states the rules as a table and \<open>Fleet_Routes\<close> what resolution, selection,
    permissions and leadership keys guarantee under it.
  \<^item> \<open>Fleet_Host\<close>: \<^verbatim>\<open>fleet/host_routes.rs\<close> and \<^verbatim>\<open>core/launch_route.rs\<close>, the join of a route with a
    host account and its stored snapshot; \<open>Fleet_Launch\<close>: what the join guarantees;
    \<open>Fleet_Sample\<close>: a policy, a host and a roster they are shown on.

  \<^bold>\<open>Correspondence.\<close>  A struct is a record whose fields carry a short prefix, an enum a
  datatype with the source's constructors, a method a definition of the same name (prefixed by its
  type where two share it).  \<^verbatim>\<open>u32\<close> and \<^verbatim>\<open>u64\<close> are words, so wrap-around and saturation
  are visible.  A \<^verbatim>\<open>Result\<close> is a sum with the error on the left; \<open>try_bind\<close> is the
  question mark operator.  A \<^verbatim>\<open>BTreeMap\<close> or \<^verbatim>\<open>BTreeSet\<close> that is only looked up is a map or a
  list read as a set, and an ordered list where the order is observed.  Entity ids are numbers,
  instants and durations integers.  A store is a record of row lists, and a handler is a function
  from a store to a result with the new store, so a refused transaction leaves the store alone.

  \<^bold>\<open>Parameters.\<close>  Code outside the repository is an argument: content digests (serde, sha2),
  elapsed time, checked instant arithmetic, whole seconds and the printing of an instant (jiff),
  minted identifiers, the JSON comparison of a schema trigger, the readers of YAML and JSON
  documents and the JSON text of a host identity.  A property that relies on such
  a function names what it needs as a hypothesis and has a witness on a concrete instance.

  \<^bold>\<open>What is shown.\<close>  A stored task is done only when its workflow, gates, artifacts and team
  closure are proved from the rows, terminal tasks stay put, and writes of one task are
  serialized by its revision.  Profile validation accepts exactly the well-formed profiles, with a
  cycle check that terminates and is exact.  A plan admits only admissible candidates, keeps every
  ceiling, isolates what it admits, leaves out nothing there is room for, reports the first
  blocker, and does not depend on the order of its input; what it admits passes the module
  guardrail.  Recovery stays within its budgets over any sequence of requests and can always reach
  a human.  Questions are append-only.  Headroom answers rest on the evidence they name.
  An epic is done only with its receipts, its questions and a passing verdict of the current era;
  completion signals take effect once, follow the compiled graph, and cannot poll forever.
  A command is claimed at most once, launched after a restart only if no claim was handed out, made
  pending again only on a proof that the claimed dispatch had no effect, and final once settled; due
  commands are claimed, and an intent moves the run it names by one compare-and-swap.
  A fleet policy is refused by the first rule it breaks.  Seats are given the first assignment that
  keeps every rule, with a true reason for every route passed over; a formal review seats distinct
  known makers.  A bound seat resolves to exactly the routes of its chain; a host join never changes
  the account, model, effort or maker that was asked for, and permissions never exceed the policy.

  \<^bold>\<open>Bounds and termination.\<close>  Every loop is structural recursion or a fold, except the
  graph searches, whose termination is proved on the nodes not yet visited, and the seat search,
  on the slots left and the candidates left in the current one.  No fuel is used.
  The history of a command is numbered in 32 bits: a step is refused when no number is left.

  \<^bold>\<open>Not modelled.\<close>  SQL text and migrations beyond the constraints the handlers run into, serialization,
  the daemon's asynchronous orchestration, the reading and linking of activation files, the HTTP and
  MCP surfaces, the runtime adapters and the command line: they perform I/O or translate requests, and take their decisions through the
  functions modelled here.
\<close>

section \<open>Properties that span components\<close>

text \<open>The claims a launch sees: the leases of the planned snapshot, and one claim per module of
  every admission of the batch, on the tree that admission pinned.\<close>

definition batch_claims :: "Plan \<Rightarrow> ModuleClaim list" where
  "batch_claims p = concat (map (\<lambda>b. map (\<lambda>m. \<lparr>mc_module = m, mc_task_id = ac_task_id b,
     mc_worktree = ac_worktree b, mc_in_flight = True\<rparr>) (admitted_modules b)) (plan_batch p))"

text \<open>C9. The scheduler and the guardrail agree on modules: when a planned admission is launched with
  the tree the plan pinned, and the claims in flight are the leases of the planned snapshot and
  those of the batch itself, the module guardrail admits the run for every module it integrates.\<close>

theorem admitted_launch_passes_module_guard:
  assumes "plan since s = Inr p" and "a \<in> set (plan_batch p)"
    and "run_module (er_run req) = Some m" "m \<in> set (admitted_modules a)"
    and "run_task_id (er_run req) = ac_task_id a" "run_recorded_worktree (er_run req) = ac_worktree a"
    and "set (ws_module_claims (er_workspace req)) \<subseteq> set (sn_module_leases s) \<union> set (batch_claims p)"
    and "ac_worktree a = None \<longrightarrow> ws_claimed_worktree (er_workspace req) = None"
  shows "Decision_admits (module_collision req)"
proof -
  have "\<exists>w w'. ac_worktree a = Some w \<and> mc_worktree k = Some w' \<and> w \<noteq> w'"
    if "k \<in> set (contenders_of (ws_module_claims (er_workspace req)) m (ac_task_id a))" for k
  proof -
    from that have k: "k \<in> set (sn_module_leases s) \<union> set (batch_claims p)" "mc_in_flight k"
      "contends_with (mc_module k) m" "mc_task_id k \<noteq> ac_task_id a"
      using assms(7) by (auto simp: contenders_of_def)
    from k(1) show ?thesis
    proof
      assume "k \<in> set (sn_module_leases s)"
      with k batch_lease_isolated [OF assms(1,2,4)] show ?thesis by blast
    next
      assume "k \<in> set (batch_claims p)"
      then obtain b m' where b: "b \<in> set (plan_batch p)" "m' \<in> set (admitted_modules b)"
        "k = \<lparr>mc_module = m', mc_task_id = ac_task_id b, mc_worktree = ac_worktree b, mc_in_flight = True\<rparr>"
        by (auto simp: batch_claims_def)
      with k contends_with_sym [of m' m] batch_modules_isolated [OF assms(1,2) b(1) _ assms(4) b(2)]
      show ?thesis by auto
    qed
  qed
  then have "\<forall>k \<in> set (contenders_of (ws_module_claims (er_workspace req)) m (ac_task_id a)).
      \<exists>w w'. ac_worktree a = Some w \<and> mc_worktree k = Some w' \<and> w \<noteq> w'" ..
  then show ?thesis
    unfolding module_collision_admits using assms(3,5,6,8)
    by (cases "ac_worktree a") (auto simp: module_isolated_by_worktree_def list_all_iff)
qed

definition sample_launch :: "Plan \<Rightarrow> AdmittedCandidate \<Rightarrow> EvaluationRequest" where
  "sample_launch p a = sample_evaluation\<lparr>
     er_run := (er_run sample_evaluation)\<lparr>run_module := ac_module a, run_task_id := ac_task_id a,
       run_recorded_worktree := ac_worktree a\<rparr>,
     er_workspace := (er_workspace sample_evaluation)\<lparr>ws_module_claims := batch_claims p\<rparr>\<rparr>"

theorem admitted_launch_passes_module_guard_witness:
  "\<exists>p a. plan sample_since sample_schedule = Inr p \<and> a \<in> set (plan_batch p) \<and> ac_module a = Some ''billing''
     \<and> Decision_admits (module_collision (sample_launch p a))"
proof -
  obtain p where p: "plan sample_since sample_schedule = Inr p" "ac_task_id ` set (plan_batch p) = {1, 2}"
    "admitted_candidates sample_since sample_schedule
     = [sample_candidate 2 (Some ''tree-b'') 9, sample_candidate 1 (Some ''tree-a'') 5]"
    by (rule sample_planned)
  then obtain a where a: "a \<in> set (plan_batch p)" by (metis image_iff insertI1)
  with batch_candidate [OF p(1) a] p(3) have fields: "ac_module a = Some ''billing''"
    "ac_worktree a \<noteq> None" "ac_changed_modules a = []"
    by (auto simp: admitted_record_def sample_candidate_def verified_worktree_def claim_verified_def)
  have "Decision_admits (module_collision (sample_launch p a))"
    by (rule admitted_launch_passes_module_guard [OF p(1) a])
      (use fields in \<open>auto simp: sample_launch_def admitted_modules_def integration_modules_def\<close>)
  with p(1) a fields(1) show ?thesis by blast
qed


end
